(* ===== verification/Prelude.thy ===== *)
theory Prelude
  imports Main "HOL-Library.AList"
begin

text \<open>
  Shared vocabulary of the development: the error monad that stands for \<open>throw\<close>
  and early return, JavaScript values as the decoders receive them, the string tests the
  code writes as regular expressions, \<open>BigInt\<close> on decimal strings, and the array
  methods (\<open>findIndex\<close>, \<open>map\<close> with a throwing callback, optional indexing) with
  the facts every component uses about them.

  A HOL \<open>char\<close> stands for one UTF-16 code unit below 256; string lengths count code
  units, as JavaScript does.
\<close>

named_theorems accept \<open>when a checked computation returns a value\<close>
named_theorems canon \<open>facts about canonical decimal strings\<close>

named_theorems never_intro \<open>a computation never fails with a given error\<close>

section \<open>Errors as values\<close>

definition bindE :: "'e + 'a \<Rightarrow> ('a \<Rightarrow> 'e + 'b) \<Rightarrow> 'e + 'b" where
  "bindE m f = (case m of Inl e \<Rightarrow> Inl e | Inr x \<Rightarrow> f x)"

definition throwIf :: "bool \<Rightarrow> 'e \<Rightarrow> 'e + unit" where
  "throwIf c e = (if c then Inl e else Inr ())"

fun mapE :: "('a \<Rightarrow> 'e + 'b) \<Rightarrow> 'a list \<Rightarrow> 'e + 'b list" where
  "mapE f [] = Inr []"
| "mapE f (x # xs) = bindE (f x) (\<lambda>y. bindE (mapE f xs) (\<lambda>ys. Inr (y # ys)))"

text \<open>\<open>map\<close> whose callback also reads the index.\<close>

fun mapIdxE :: "(int \<Rightarrow> 'a \<Rightarrow> 'e + 'b) \<Rightarrow> int \<Rightarrow> 'a list \<Rightarrow> 'e + 'b list" where
  "mapIdxE f i [] = Inr []"
| "mapIdxE f i (x # xs) =
     bindE (f i x) (\<lambda>y. bindE (mapIdxE f (i + 1) xs) (\<lambda>ys. Inr (y # ys)))"

text \<open>A loop that may throw and carries a state.\<close>

fun foldE :: "('a \<Rightarrow> 's \<Rightarrow> 'e + 's) \<Rightarrow> 'a list \<Rightarrow> 's \<Rightarrow> 'e + 's" where
  "foldE f [] s = Inr s"
| "foldE f (x # xs) s = bindE (f x s) (foldE f xs)"

lemma bindE_simps [simp]:
  "bindE (Inl e) f = Inl e" "bindE (Inr x) f = f x"
  by (simp_all add: bindE_def)

lemma bindE_Inr [accept]: "bindE m f = Inr y \<longleftrightarrow> (\<exists>x. m = Inr x \<and> f x = Inr y)"
  by (cases m) simp_all

text \<open>Evaluates a sequence of steps in order, leaving the continuation alone.\<close>

lemma bindE_step: "m = m' \<Longrightarrow> bindE m f = bindE m' f"
  by simp

lemma throwIf_Inr [accept]: "throwIf c e = Inr u \<longleftrightarrow> \<not> c"
  by (simp add: throwIf_def)

lemma throwIf_False [simp]: "throwIf False e = Inr ()"
  by (simp add: throwIf_def)

lemma if_throw_Inr [accept]: "(if c then Inl e else m) = Inr y \<longleftrightarrow> \<not> c \<and> m = Inr y"
  by simp

lemma bindE_E: "bindE m f = Inr y \<Longrightarrow> (\<And>x. m = Inr x \<Longrightarrow> f x = Inr y \<Longrightarrow> P) \<Longrightarrow> P"
  by (auto simp: bindE_Inr)

lemma option_caseE:
  "(case x of None \<Rightarrow> m | Some a \<Rightarrow> f a) = Inr y \<Longrightarrow>
     (x = None \<Longrightarrow> m = Inr y \<Longrightarrow> P) \<Longrightarrow> (\<And>a. x = Some a \<Longrightarrow> f a = Inr y \<Longrightarrow> P) \<Longrightarrow> P"
  by (cases x) simp_all

lemma if_throwE:
  "(if c then Inl e else m) = Inr y \<Longrightarrow> (\<not> c \<Longrightarrow> m = Inr y \<Longrightarrow> P) \<Longrightarrow> P"
  by (cases c) simp_all

text \<open>Taking an accepted computation apart, step by step.\<close>

lemmas accepted = bindE_E if_throwE

lemma mapE_Inr: "mapE f xs = Inr ys \<longleftrightarrow> list_all2 (\<lambda>x y. f x = Inr y) xs ys"
  by (induction xs arbitrary: ys) (auto simp: accept list_all2_Cons1)

lemma mapE_length: "mapE f xs = Inr ys \<Longrightarrow> length ys = length xs"
  by (simp add: mapE_Inr list_all2_lengthD)

lemma mapE_all:
  assumes "mapE f xs = Inr ys" and "\<And>x y. x \<in> set xs \<Longrightarrow> f x = Inr y \<Longrightarrow> P y"
  shows "\<forall>y \<in> set ys. P y"
proof -
  from assms(1) have "list_all2 (\<lambda>x y. f x = Inr y) xs ys"
    by (simp add: mapE_Inr)
  then show ?thesis using assms(2)
    by (induction rule: list_all2_induct) auto
qed

lemma mapE_map: "(\<And>y. y \<in> set ys \<Longrightarrow> f (g y) = Inr y) \<Longrightarrow> mapE f (map g ys) = Inr ys"
  by (induction ys) simp_all

lemma mapIdxE_Inr:
  "mapIdxE f i xs = Inr ys \<longleftrightarrow>
     length ys = length xs \<and> (\<forall>k < length xs. f (i + int k) (xs ! k) = Inr (ys ! k))"
proof (induction xs arbitrary: i ys)
  case Nil
  then show ?case by auto
next
  case (Cons x xs)
  show ?case
  proof (cases ys)
    case Nil
    then show ?thesis by (auto simp: accept)
  next
    case (Cons y ys')
    have "(\<forall>k < length (x # xs). f (i + int k) ((x # xs) ! k) = Inr ((y # ys') ! k)) \<longleftrightarrow>
        f i x = Inr y \<and> (\<forall>k < length xs. f (i + 1 + int k) (xs ! k) = Inr (ys' ! k))"
      by (simp add: All_less_Suc2 add.assoc)
    then show ?thesis
      using Cons.IH [of "i + 1" ys'] Cons by (auto simp: accept)
  qed
qed

definition optional :: "('a \<Rightarrow> bool) \<Rightarrow> 'a option \<Rightarrow> bool" where
  "optional p x = (case x of None \<Rightarrow> True | Some y \<Rightarrow> p y)"

lemma optional_simps [simp]: "optional p None" "optional p (Some x) \<longleftrightarrow> p x"
  by (simp_all add: optional_def)

section \<open>Array methods\<close>

text \<open>\<open>xs.findIndex(p)\<close>: the first position, -1 when there is none.\<close>

fun findIndex :: "('a \<Rightarrow> bool) \<Rightarrow> 'a list \<Rightarrow> int" where
  "findIndex p [] = -1"
| "findIndex p (x # xs) =
     (if p x then 0 else let i = findIndex p xs in if i < 0 then -1 else i + 1)"

text \<open>\<open>xs[i]\<close>: \<open>undefined\<close> out of range.\<close>

definition at :: "'a list \<Rightarrow> int \<Rightarrow> 'a option" where
  "at xs i = (if 0 \<le> i \<and> i < int (length xs) then Some (xs ! nat i) else None)"

text \<open>\<open>xs.entries()\<close>.\<close>

fun entriesFrom :: "int \<Rightarrow> 'a list \<Rightarrow> (int \<times> 'a) list" where
  "entriesFrom i [] = []"
| "entriesFrom i (x # xs) = (i, x) # entriesFrom (i + 1) xs"

lemma findIndex_bounds: "-1 \<le> findIndex p xs \<and> findIndex p xs < int (length xs)"
  by (induction xs) (auto simp: Let_def)

lemma findIndex_neg: "findIndex p xs < 0 \<longleftrightarrow> (\<forall>x \<in> set xs. \<not> p x)"
  by (induction xs) (auto simp: Let_def)

lemma findIndex_nonneg: "0 \<le> findIndex p xs \<longleftrightarrow> (\<exists>x \<in> set xs. p x)"
  using findIndex_neg [of p xs] by auto

lemma findIndex_sat: "0 \<le> findIndex p xs \<Longrightarrow> p (xs ! nat (findIndex p xs))"
  by (induction xs) (auto simp: Let_def nat_add_distrib split: if_splits)

lemma findIndex_first:
  "k < nat (findIndex p xs) \<Longrightarrow> \<not> p (xs ! k)"
proof (induction xs arbitrary: k)
  case Nil
  then show ?case by simp
next
  case (Cons x xs)
  then show ?case
    by (cases k) (auto simp: Let_def nat_add_distrib split: if_splits)
qed

lemma at_Some: "at xs i = Some x \<longleftrightarrow> 0 \<le> i \<and> i < int (length xs) \<and> xs ! nat i = x"
  by (auto simp: at_def)

lemma at_in_set: "at xs i = Some x \<Longrightarrow> x \<in> set xs"
  by (auto simp: at_Some)

lemma find_Some_in: "find p xs = Some x \<Longrightarrow> x \<in> set xs \<and> p x"
  by (auto simp: find_Some_iff)

lemma find_None_in: "find p xs = None \<longleftrightarrow> (\<forall>x \<in> set xs. \<not> p x)"
  by (auto simp: find_None_iff)

lemma filter_length_le_one:
  assumes "\<not> 1 < length (filter p xs)" "i < length xs" "j < length xs" "p (xs ! i)" "p (xs ! j)"
  shows "i = j"
proof (rule ccontr)
  assume "i \<noteq> j"
  then have "card {i, j} = 2" by simp
  moreover have "{i, j} \<subseteq> {k. k < length xs \<and> p (xs ! k)}" using assms by auto
  then have "card {i, j} \<le> length (filter p xs)"
    by (simp add: length_filter_conv_card card_mono)
  ultimately show False using assms(1) by simp
qed

text \<open>\<open>xs.join(sep)\<close>.\<close>

fun join :: "string \<Rightarrow> string list \<Rightarrow> string" where
  "join sep [] = []"
| "join sep [x] = x"
| "join sep (x # y # xs) = x @ sep @ join sep (y # xs)"

section \<open>Map and Set\<close>

text \<open>A JavaScript \<open>Map\<close> is the list of its entries in insertion order.\<close>

definition mapHas :: "('k \<times> 'v) list \<Rightarrow> 'k \<Rightarrow> bool" where
  "mapHas m k = (map_of m k \<noteq> None)"

definition mapSet :: "('k \<times> 'v) list \<Rightarrow> 'k \<Rightarrow> 'v \<Rightarrow> ('k \<times> 'v) list" where
  "mapSet m k v = AList.update k v m"

definition mapSize :: "('k \<times> 'v) list \<Rightarrow> int" where
  "mapSize m = int (length m)"

text \<open>\<open>new Set(xs).size\<close>.\<close>

definition setSize :: "'a list \<Rightarrow> int" where
  "setSize xs = int (length (remdups xs))"

lemma map_of_mapSet [simp]: "map_of (mapSet m k v) = (map_of m)(k \<mapsto> v)"
  by (simp add: mapSet_def update_conv')

lemma mapSet_keys: "set (map fst (mapSet m k v)) = insert k (set (map fst m))"
  by (auto simp: mapSet_def dom_update)

lemma mapSet_distinct: "distinct (map fst m) \<Longrightarrow> distinct (map fst (mapSet m k v))"
  by (simp add: mapSet_def distinct_update)

lemma mapHas_keys: "mapHas m k \<longleftrightarrow> k \<in> set (map fst m)"
  by (auto simp: mapHas_def map_of_eq_None_iff)

lemma setSize_distinct: "setSize xs = int (length xs) \<longleftrightarrow> distinct xs"
  by (metis distinct_card length_remdups_card_conv of_nat_eq_iff setSize_def card_distinct)

lemma foldE_append: "foldE f (xs @ ys) s = bindE (foldE f xs s) (foldE f ys)"
  by (induction xs arbitrary: s) (auto simp: bindE_def split: sum.splits)

text \<open>An invariant of a loop body is an invariant of the loop.\<close>

lemma foldE_invariant:
  assumes "foldE f xs s = Inr s'" "I s"
    and "\<And>x s s'. x \<in> set xs \<Longrightarrow> I s \<Longrightarrow> f x s = Inr s' \<Longrightarrow> I s'"
  shows "I s'"
  using assms by (induction xs arbitrary: s) (auto simp: accept)

lemma foldE_snoc_invariant:
  assumes "foldE f xs s = Inr s'" "I [] s"
    and "\<And>ys x s s'. I ys s \<Longrightarrow> x \<in> set xs \<Longrightarrow> f x s = Inr s' \<Longrightarrow> I (ys @ [x]) s'"
  shows "I xs s'"
  using assms
proof (induction xs arbitrary: s' rule: rev_induct)
  case Nil
  then show ?case by simp
next
  case (snoc x xs)
  from snoc.prems(1) obtain t where t: "foldE f xs s = Inr t" "f x t = Inr s'"
    by (auto simp: foldE_append accept)
  have "I xs t" using snoc.prems by (intro snoc.IH t) auto
  with t(2) snoc.prems(3) show ?case by simp
qed

lemma entriesFrom_length [simp]: "length (entriesFrom i xs) = length xs"
  by (induction xs arbitrary: i) simp_all

lemma entriesFrom_nth [simp]: "k < length xs \<Longrightarrow> entriesFrom i xs ! k = (i + int k, xs ! k)"
proof (induction xs arbitrary: i k)
  case Nil
  then show ?case by simp
next
  case (Cons x xs)
  then show ?case by (cases k) simp_all
qed

lemma entriesFrom_set:
  "(j, x) \<in> set (entriesFrom i xs) \<longleftrightarrow> i \<le> j \<and> j < i + int (length xs) \<and> xs ! nat (j - i) = x"
proof
  assume "(j, x) \<in> set (entriesFrom i xs)"
  then obtain k where "k < length xs" "(j, x) = (i + int k, xs ! k)"
    by (auto simp: in_set_conv_nth)
  then show "i \<le> j \<and> j < i + int (length xs) \<and> xs ! nat (j - i) = x" by simp
next
  assume a: "i \<le> j \<and> j < i + int (length xs) \<and> xs ! nat (j - i) = x"
  then have "nat (j - i) < length xs" by linarith
  then show "(j, x) \<in> set (entriesFrom i xs)"
    using a by (force simp: in_set_conv_nth)
qed

lemma map_snd_entriesFrom [simp]: "map snd (entriesFrom i xs) = xs"
  by (induction xs arbitrary: i) simp_all

lemma update_fresh: "k \<notin> set (map fst m) \<Longrightarrow> mapSet m k v = m @ [(k, v)]"
  unfolding mapSet_def by (induction m) auto

lemma sum_list_zero: "(\<And>x. x \<in> set xs \<Longrightarrow> f x = (0::int)) \<Longrightarrow> sum_list (map f xs) = 0"
  by (induction xs) simp_all

lemma sum_list_map_of:
  fixes f :: "'v \<Rightarrow> int"
  assumes "distinct (map fst al)" "distinct ks" "set (map fst al) \<subseteq> set ks"
  shows "sum_list (map (\<lambda>kv. f (snd kv)) al)
    = sum_list (map (\<lambda>k. case map_of al k of None \<Rightarrow> 0 | Some v \<Rightarrow> f v) ks)"
proof -
  let ?g = "\<lambda>k. case map_of al k of None \<Rightarrow> 0 | Some v \<Rightarrow> f v"
  have none: "map_of al k = None" if "k \<notin> set (map fst al)" for k
    using that by (simp add: map_of_eq_None_iff)
  have "sum_list (map (\<lambda>kv. f (snd kv)) al) = sum_list (map (\<lambda>kv. ?g (fst kv)) al)"
    using assms(1) by (intro arg_cong [of _ _ sum_list] map_cong) auto
  also have "\<dots> = sum_list (map ?g (map fst al))"
    by (simp add: comp_def)
  also have "\<dots> = sum ?g (set (map fst al))"
    by (rule sum_list_distinct_conv_sum_set [OF assms(1)])
  also have "\<dots> = sum ?g (set ks)"
    using assms(3) none by (intro sum.mono_neutral_left) simp_all
  also have "\<dots> = sum_list (map ?g ks)"
    using assms(2) by (simp add: sum_list_distinct_conv_sum_set)
  finally show ?thesis .
qed

lemma foldE_each: "foldE (\<lambda>x _. f x) xs () = Inr () \<longleftrightarrow> (\<forall>x \<in> set xs. f x = Inr ())"
  by (induction xs) (auto simp: accept)

section \<open>Errors that cannot occur\<close>

definition never :: "'e \<Rightarrow> 'e + 'a \<Rightarrow> bool" where
  "never e m = (m \<noteq> Inl e)"

lemma never_Inr [never_intro]: "never e (Inr x)"
  by (simp add: never_def)

lemma never_bindE [never_intro]:
  "never e m \<Longrightarrow> (\<And>x. m = Inr x \<Longrightarrow> never e (f x)) \<Longrightarrow> never e (bindE m f)"
  by (cases m) (auto simp: never_def)

lemma never_if [never_intro]:
  "(c \<Longrightarrow> never e m) \<Longrightarrow> (\<not> c \<Longrightarrow> never e n) \<Longrightarrow> never e (if c then m else n)"
  by simp

lemma never_foldE [never_intro]:
  "(\<And>x s. x \<in> set xs \<Longrightarrow> never e (f x s)) \<Longrightarrow> never e (foldE f xs s)"
  by (induction xs arbitrary: s) (auto intro: never_intro)

lemma never_option [never_intro]:
  "(x = None \<Longrightarrow> never e m) \<Longrightarrow> (\<And>y. x = Some y \<Longrightarrow> never e (f y)) \<Longrightarrow>
     never e (case x of None \<Rightarrow> m | Some y \<Rightarrow> f y)"
  by (cases x) simp_all

lemma never_prod [never_intro]:
  "(\<And>a b. x = (a, b) \<Longrightarrow> never e (f a b)) \<Longrightarrow> never e (case x of (a, b) \<Rightarrow> f a b)"
  by (cases x) simp

end
