(* ===== verification/Js_Values.thy ===== *)
theory Js_Values
  imports Prelude
begin

text \<open>
  JavaScript values as the decoders see them, the character classes and anchored patterns
  the code tests with regular expressions, and \<open>BigInt\<close> with its \<open>toString\<close>
  on decimal strings.
\<close>

section \<open>Values\<close>

text \<open>
  A number is a finite integral double, a finite double with a fraction (every one is
  \<open>(2 * m + 1) / 2 ^ (e + 1)\<close> for some \<open>m\<close> and \<open>e\<close>), an infinity or NaN;
  both zeros are \<open>JsInt 0\<close>, which no modelled test tells apart. An object is the list
  of its own enumerable properties in the order of \<open>Object.keys\<close>; an absent property
  reads as \<open>undefined\<close>.
\<close>

datatype js_number =
    JsInt int
  | JsFrac int nat
  | JsInfinity bool
  | JsNaN

datatype js =
    JUndefined
  | JNull
  | JBool bool
  | JNumber js_number
  | JString string
  | JArray "js list"
  | JObject "(string \<times> js) list"

type_synonym js_object = "(string \<times> js) list"

definition MAX_SAFE_INTEGER :: int where
  "MAX_SAFE_INTEGER = 9007199254740991"

definition safe_int :: "int \<Rightarrow> bool" where
  "safe_int n = (-MAX_SAFE_INTEGER \<le> n \<and> n \<le> MAX_SAFE_INTEGER)"

fun isFinite :: "js_number \<Rightarrow> bool" where
  "isFinite (JsInt n) = True"
| "isFinite (JsFrac m e) = True"
| "isFinite (JsInfinity s) = False"
| "isFinite JsNaN = False"

text \<open>\<open>Number.isSafeInteger\<close>, with the integer it holds.\<close>

fun safeInteger :: "js_number \<Rightarrow> int option" where
  "safeInteger (JsInt n) = (if safe_int n then Some n else None)"
| "safeInteger _ = None"

definition getProp :: "js_object \<Rightarrow> string \<Rightarrow> js" where
  "getProp o1 k = (case map_of o1 k of None \<Rightarrow> JUndefined | Some v \<Rightarrow> v)"

definition hasOwn :: "js_object \<Rightarrow> string \<Rightarrow> bool" where
  "hasOwn o1 k = (k \<in> set (map fst o1))"

definition Object_keys :: "js_object \<Rightarrow> string list" where
  "Object_keys o1 = map fst o1"

lemma getProp_simps [simp]:
  "getProp [] k = JUndefined"
  "getProp ((k', v) # o1) k = (if k = k' then v else getProp o1 k)"
  by (simp_all add: getProp_def)

lemma hasOwn_simps [simp]:
  "\<not> hasOwn [] k"
  "hasOwn ((k', v) # o1) k = (k = k' \<or> hasOwn o1 k)"
  by (auto simp: hasOwn_def)

lemma Object_keys_simps [simp]:
  "Object_keys [] = []"
  "Object_keys ((k, v) # o1) = k # Object_keys o1"
  by (simp_all add: Object_keys_def)

lemma getProp_append [simp]:
  "getProp (o1 @ o2) k = (if hasOwn o1 k then getProp o1 k else getProp o2 k)"
  by (induction o1) auto

lemma hasOwn_append [simp]: "hasOwn (o1 @ o2) k = (hasOwn o1 k \<or> hasOwn o2 k)"
  by (induction o1) auto

lemma Object_keys_append [simp]: "Object_keys (o1 @ o2) = Object_keys o1 @ Object_keys o2"
  by (simp add: Object_keys_def)

lemma safeInteger_Some: "safeInteger x = Some n \<longleftrightarrow> x = JsInt n \<and> safe_int n"
  by (cases x) auto

text \<open>An optional property of an object literal: absent when the value is \<open>undefined\<close>.\<close>

definition optProp :: "string \<Rightarrow> ('a \<Rightarrow> js) \<Rightarrow> 'a option \<Rightarrow> js_object" where
  "optProp k f x = (case x of None \<Rightarrow> [] | Some v \<Rightarrow> [(k, f v)])"

lemma optProp_simps [simp]:
  "optProp k f None = []" "optProp k f (Some v) = [(k, f v)]"
  by (simp_all add: optProp_def)

section \<open>Character classes and patterns\<close>

definition code :: "char \<Rightarrow> nat" where
  "code c = of_char c"

definition is_digit :: "char \<Rightarrow> bool" where
  "is_digit c = (48 \<le> code c \<and> code c \<le> 57)"

definition is_upper :: "char \<Rightarrow> bool" where
  "is_upper c = (65 \<le> code c \<and> code c \<le> 90)"

definition is_lower :: "char \<Rightarrow> bool" where
  "is_lower c = (97 \<le> code c \<and> code c \<le> 122)"

definition is_alnum :: "char \<Rightarrow> bool" where
  "is_alnum c = (is_digit c \<or> is_upper c \<or> is_lower c)"

text \<open>\<open>[A-Za-z0-9._:-]\<close>: the two punctuation codes 45 and 46, 58 and 95.\<close>

definition is_identifier_char :: "char \<Rightarrow> bool" where
  "is_identifier_char c =
     (is_alnum c \<or> code c = 46 \<or> code c = 95 \<or> code c = 58 \<or> code c = 45)"

text \<open>\<open>s.trim()\<close>.\<close>

definition is_space :: "char \<Rightarrow> bool" where
  "is_space c = (9 \<le> code c \<and> code c \<le> 13 \<or> code c = 32 \<or> code c = 160)"

definition trim :: "string \<Rightarrow> string" where
  "trim s = rev (dropWhile is_space (rev (dropWhile is_space s)))"

text \<open>\<open>s.toLowerCase()\<close>; only ASCII letters matter to the callers.\<close>

definition toLowerCase :: "string \<Rightarrow> string" where
  "toLowerCase s = map (\<lambda>c. if is_upper c then char_of (code c + 32) else c) s"

text \<open>\<open>/^(0|[1-9]\d*)$/\<close>.\<close>

definition MONEY_PATTERN :: "string \<Rightarrow> bool" where
  "MONEY_PATTERN s = (s = ''0'' \<or>
     (case s of [] \<Rightarrow> False | c # cs \<Rightarrow> is_digit c \<and> c \<noteq> CHR ''0'' \<and> list_all is_digit cs))"

text \<open>\<open>/^[1-9][0-9]*$/\<close>.\<close>

definition POSITIVE_MONEY_PATTERN :: "string \<Rightarrow> bool" where
  "POSITIVE_MONEY_PATTERN s =
     (case s of [] \<Rightarrow> False | c # cs \<Rightarrow> is_digit c \<and> c \<noteq> CHR ''0'' \<and> list_all is_digit cs)"

text \<open>\<open>/^[A-Z]{3}$/\<close>.\<close>

definition CURRENCY_PATTERN :: "string \<Rightarrow> bool" where
  "CURRENCY_PATTERN s = (length s = 3 \<and> list_all is_upper s)"

text \<open>\<open>/^[A-Za-z0-9][A-Za-z0-9._:-]*$/\<close>.\<close>

definition IDENTIFIER_PATTERN :: "string \<Rightarrow> bool" where
  "IDENTIFIER_PATTERN s =
     (case s of [] \<Rightarrow> False | c # cs \<Rightarrow> is_alnum c \<and> list_all is_identifier_char cs)"

text \<open>\<open>/^[a-f0-9]{64}$/\<close>.\<close>

definition DIGEST_PATTERN :: "string \<Rightarrow> bool" where
  "DIGEST_PATTERN s =
     (length s = 64 \<and> list_all (\<lambda>c. is_digit c \<or> 97 \<le> code c \<and> code c \<le> 102) s)"

text \<open>\<open>/^[A-Z0-9][A-Z0-9-]{1,15}$/\<close>.\<close>

definition JURISDICTION_PATTERN :: "string \<Rightarrow> bool" where
  "JURISDICTION_PATTERN s = (2 \<le> length s \<and> length s \<le> 16 \<and>
     (is_upper (hd s) \<or> is_digit (hd s)) \<and>
     list_all (\<lambda>c. is_upper c \<or> is_digit c \<or> code c = 45) (tl s))"

text \<open>\<open>/^[A-Z][A-Z0-9_]{1,127}$/\<close>.\<close>

definition ERROR_CODE_PATTERN :: "string \<Rightarrow> bool" where
  "ERROR_CODE_PATTERN s = (2 \<le> length s \<and> length s \<le> 128 \<and> is_upper (hd s) \<and>
     list_all (\<lambda>c. is_upper c \<or> is_digit c \<or> code c = 95) (tl s))"

section \<open>Decimal strings and BigInt\<close>

definition digit_value :: "char \<Rightarrow> nat" where
  "digit_value c = code c - 48"

definition digit_char :: "nat \<Rightarrow> char" where
  "digit_char d = char_of (48 + d)"

fun decimal_value :: "nat \<Rightarrow> string \<Rightarrow> nat" where
  "decimal_value acc [] = acc"
| "decimal_value acc (c # cs) = decimal_value (10 * acc + digit_value c) cs"

text \<open>
  \<open>BigInt(s)\<close> on a string of decimal digits, optionally negated. The modelled code only
  passes it strings that \<open>MONEY_PATTERN\<close> accepted, results of \<open>toString\<close> and the
  literals \<open>"0"\<close> and \<open>"-1"\<close>; on other strings JavaScript may throw, which is
  outside the domain of this definition.
\<close>

definition BigInt :: "string \<Rightarrow> int" where
  "BigInt s = (case s of
       [] \<Rightarrow> 0
     | c # cs \<Rightarrow> if c = CHR ''-'' then - int (decimal_value 0 cs)
                 else int (decimal_value 0 s))"

fun decimal :: "nat \<Rightarrow> string" where
  "decimal n = (if n < 10 then [digit_char n] else decimal (n div 10) @ [digit_char (n mod 10)])"

declare decimal.simps [simp del]

text \<open>\<open>x.toString()\<close> of a BigInt.\<close>

definition toString :: "int \<Rightarrow> string" where
  "toString n = (if n < 0 then CHR ''-'' # decimal (nat (- n)) else decimal (nat n))"

definition MAX_SIGNED_INT64 :: int where
  "MAX_SIGNED_INT64 = 9223372036854775807"

text \<open>A canonical non-negative decimal string, and one inside the signed-int64 money domain.\<close>

abbreviation canonical :: "string \<Rightarrow> bool" where
  "canonical s \<equiv> MONEY_PATTERN s"

definition money_ok :: "string \<Rightarrow> bool" where
  "money_ok s = (MONEY_PATTERN s \<and> length s \<le> 19 \<and> BigInt s \<le> MAX_SIGNED_INT64)"

lemma code_digit_char: "d < 10 \<Longrightarrow> code (digit_char d) = 48 + d"
  by (simp add: code_def digit_char_def)

lemma digit_value_char [simp]: "d < 10 \<Longrightarrow> digit_value (digit_char d) = d"
  by (simp add: digit_value_def code_digit_char)

lemma is_digit_char [simp]: "d < 10 \<Longrightarrow> is_digit (digit_char d)"
  by (simp add: is_digit_def code_digit_char)

lemma digit_char_value [simp]: "is_digit c \<Longrightarrow> digit_char (digit_value c) = c"
  by (simp add: digit_char_def digit_value_def is_digit_def code_def)

lemma digit_value_lt [simp]: "is_digit c \<Longrightarrow> digit_value c < 10"
  by (auto simp: digit_value_def is_digit_def)

lemma digit_char_zero: "d < 10 \<Longrightarrow> digit_char d = CHR ''0'' \<longleftrightarrow> d = 0"
proof
  assume "d < 10" "digit_char d = CHR ''0''"
  then have "code (CHR ''0'') = 48 + d" using code_digit_char by metis
  then show "d = 0" by (simp add: code_def)
next
  assume "d = 0"
  then show "digit_char d = CHR ''0''"
    by (simp add: digit_char_def char_of_def bit_0)
qed

lemma minus_not_digit: "\<not> is_digit CHR ''-''"
  by (simp add: is_digit_def code_def)

lemma decimal_value_append:
  "decimal_value acc (xs @ ys) = decimal_value (decimal_value acc xs) ys"
  by (induction xs arbitrary: acc) simp_all

lemma decimal_value_mono: "acc \<le> acc' \<Longrightarrow> decimal_value acc s \<le> decimal_value acc' s"
  by (induction s arbitrary: acc acc') simp_all

lemma decimal_value_ge: "acc \<le> decimal_value acc s"
proof (induction s arbitrary: acc)
  case Nil
  then show ?case by simp
next
  case (Cons c s)
  have "acc \<le> 10 * acc + digit_value c" by simp
  also have "\<dots> \<le> decimal_value (10 * acc + digit_value c) s" by (rule Cons.IH)
  finally show ?case by simp
qed

lemma decimal_digits: "list_all is_digit (decimal n)"
proof (induction n rule: decimal.induct)
  case (1 n)
  then show ?case by (cases "n < 10") (simp_all add: decimal.simps [of n])
qed

lemma decimal_nonempty [simp]: "decimal n \<noteq> []"
  by (simp add: decimal.simps [of n])

lemma decimal_value_decimal [simp]: "decimal_value 0 (decimal n) = n"
proof (induction n rule: decimal.induct)
  case (1 n)
  show ?case
  proof (cases "n < 10")
    case True
    then show ?thesis by (simp add: decimal.simps [of n])
  next
    case False
    with 1 show ?thesis
      by (simp add: decimal.simps [of n] decimal_value_append)
  qed
qed

lemma hd_decimal: "0 < n \<Longrightarrow> hd (decimal n) \<noteq> CHR ''0''"
proof (induction n rule: decimal.induct)
  case (1 n)
  show ?case
  proof (cases "n < 10")
    case True
    with 1 show ?thesis by (simp add: decimal.simps [of n] digit_char_zero)
  next
    case False
    with 1 show ?thesis by (simp add: decimal.simps [of n])
  qed
qed

lemma decimal_zero [simp]: "decimal 0 = ''0''"
  by (simp add: decimal.simps digit_char_zero)

lemma positive_decimal: "0 < n \<Longrightarrow> POSITIVE_MONEY_PATTERN (decimal n)"
  using decimal_digits [of n] hd_decimal [of n] decimal_nonempty [of n]
  by (cases "decimal n") (auto simp: POSITIVE_MONEY_PATTERN_def)

lemma money_pattern_iff: "MONEY_PATTERN s \<longleftrightarrow> s = ''0'' \<or> POSITIVE_MONEY_PATTERN s"
  by (simp add: MONEY_PATTERN_def POSITIVE_MONEY_PATTERN_def)

lemma canonical_decimal [simp, canon]: "canonical (decimal n)"
  by (cases "n = 0") (simp_all add: money_pattern_iff positive_decimal)

text \<open>Printing the value of digits that continue a positive prefix appends them.\<close>

lemma decimal_append_digits:
  "0 < acc \<Longrightarrow> list_all is_digit s \<Longrightarrow> decimal (decimal_value acc s) = decimal acc @ s"
proof (induction s arbitrary: acc)
  case Nil
  then show ?case by simp
next
  case (Cons c s)
  have "decimal (10 * acc + digit_value c) = decimal acc @ [c]"
    using Cons.prems by (subst decimal.simps) simp
  with Cons show ?case by simp
qed

lemma decimal_of_positive:
  "POSITIVE_MONEY_PATTERN s \<Longrightarrow> decimal (decimal_value 0 s) = s"
proof -
  assume p: "POSITIVE_MONEY_PATTERN s"
  then obtain c cs where s: "s = c # cs" and c: "is_digit c" "c \<noteq> CHR ''0''"
    and cs: "list_all is_digit cs"
    by (cases s) (auto simp: POSITIVE_MONEY_PATTERN_def)
  have "digit_value c \<noteq> 0"
    using c digit_char_zero [of "digit_value c"] by simp
  then have "decimal (decimal_value (digit_value c) cs) = decimal (digit_value c) @ cs"
    using cs by (simp add: decimal_append_digits)
  moreover have "decimal (digit_value c) = [c]"
    using c by (simp add: decimal.simps)
  ultimately show ?thesis using s by simp
qed

lemma decimal_of_canonical [canon]: "canonical s \<Longrightarrow> decimal (decimal_value 0 s) = s"
  using decimal_of_positive by (auto simp: money_pattern_iff digit_value_def code_def)

lemma BigInt_canonical [canon]: "canonical s \<Longrightarrow> BigInt s = int (decimal_value 0 s)"
  using minus_not_digit
  by (cases s) (auto simp: BigInt_def MONEY_PATTERN_def)

lemma BigInt_nonneg [canon]: "canonical s \<Longrightarrow> 0 \<le> BigInt s"
  by (simp add: BigInt_canonical)

lemma toString_BigInt [canon]: "canonical s \<Longrightarrow> toString (BigInt s) = s"
  by (simp add: toString_def canon)

lemma BigInt_toString [simp]: "BigInt (toString n) = n"
proof (cases "n < 0")
  case True
  then show ?thesis by (simp add: toString_def BigInt_def)
next
  case False
  then show ?thesis by (simp add: toString_def BigInt_canonical)
qed

lemma canonical_toString [canon]: "0 \<le> n \<Longrightarrow> canonical (toString n)"
  by (simp add: toString_def)

lemma canonical_inj [canon]:
  "canonical s \<Longrightarrow> canonical t \<Longrightarrow> BigInt s = BigInt t \<longleftrightarrow> s = t"
  by (metis toString_BigInt)

lemma BigInt_zero [simp]: "BigInt ''0'' = 0"
  by (simp add: BigInt_def digit_value_def code_def)

lemma canonical_zero [simp]: "canonical ''0''"
  by (simp add: MONEY_PATTERN_def)

lemma BigInt_eq_zero [canon]: "canonical s \<Longrightarrow> BigInt s = 0 \<longleftrightarrow> s = ''0''"
  using canonical_inj [of s "''0''"] by simp

lemma positive_BigInt: "POSITIVE_MONEY_PATTERN s \<Longrightarrow> 0 < BigInt s"
proof -
  assume p: "POSITIVE_MONEY_PATTERN s"
  then have c: "canonical s" by (simp add: money_pattern_iff)
  have "s \<noteq> ''0''" using p by (auto simp: POSITIVE_MONEY_PATTERN_def)
  with c show ?thesis using BigInt_nonneg [of s] BigInt_eq_zero [of s] by simp
qed

lemma canonical_nonempty: "canonical s \<Longrightarrow> s \<noteq> []"
  by (auto simp: MONEY_PATTERN_def)

lemma money_ok_canonical: "money_ok s \<Longrightarrow> canonical s"
  by (simp add: money_ok_def)

lemma money_ok_bounds: "money_ok s \<Longrightarrow> 0 \<le> BigInt s \<and> BigInt s \<le> MAX_SIGNED_INT64"
  using BigInt_nonneg by (auto simp: money_ok_def)

lemma money_ok_zero [simp]: "money_ok ''0''"
  by (simp add: money_ok_def MAX_SIGNED_INT64_def)

section \<open>Evaluation on binary integers\<close>

text \<open>Code equations that compute on \<open>int\<close> numerals in place of \<open>nat\<close> successors.\<close>

fun decimal_int :: "int \<Rightarrow> string \<Rightarrow> int" where
  "decimal_int acc [] = acc"
| "decimal_int acc (c # cs) = decimal_int (10 * acc + int (digit_value c)) cs"

definition print_int :: "int \<Rightarrow> string" where
  "print_int n = decimal (nat n)"

lemma decimal_int: "decimal_int (int acc) s = int (decimal_value acc s)"
proof (induction s arbitrary: acc)
  case Nil
  then show ?case by simp
next
  case (Cons c s)
  then show ?case using Cons.IH [of "10 * acc + digit_value c"] by simp
qed

lemma BigInt_code [code]:
  "BigInt s = (case s of
       [] \<Rightarrow> 0
     | c # cs \<Rightarrow> if c = CHR ''-'' then - decimal_int 0 cs else decimal_int 0 s)"
  using decimal_int [of 0, symmetric] by (simp add: BigInt_def decimal_int split: list.split)

lemma print_int_code [code]:
  "print_int n = (if n < 10 then [digit_char (nat n)]
     else print_int (n div 10) @ [digit_char (nat (n mod 10))])"
  using nat_less_iff [of n 10]
  by (cases "n < 10") (simp_all add: print_int_def decimal.simps [of "nat n"] nat_div_distrib nat_mod_distrib)

lemma toString_code [code]:
  "toString n = (if n < 0 then CHR ''-'' # print_int (- n) else print_int n)"
  by (simp add: toString_def print_int_def)

end
