(* ===== verification/Protocol_Types.thy ===== *)
theory Protocol_Types
  imports Js_Values "HOL-Library.Product_Lexorder"
begin

text \<open>
  The protocol's data (\<open>app/state/types.ts\<close>) and its constants
  (\<open>protocol/protocolConstants.ts\<close>, \<open>protocol/messages.ts\<close>). A money amount is the
  decimal string the wire carries. An optional field is an \<open>option\<close>.
\<close>

section \<open>Constants\<close>

datatype SymbolId =
  ORBIT | PRISM | PULSE | NOVA | CIRCUIT | TANK | WILD | VAULT | SURGE

fun symbol_name :: "SymbolId \<Rightarrow> string" where
  "symbol_name ORBIT = ''ORBIT''"
| "symbol_name PRISM = ''PRISM''"
| "symbol_name PULSE = ''PULSE''"
| "symbol_name NOVA = ''NOVA''"
| "symbol_name CIRCUIT = ''CIRCUIT''"
| "symbol_name TANK = ''TANK''"
| "symbol_name WILD = ''WILD''"
| "symbol_name VAULT = ''VAULT''"
| "symbol_name SURGE = ''SURGE''"

definition SYMBOL_IDS :: "SymbolId list" where
  "SYMBOL_IDS = [ORBIT, PRISM, PULSE, NOVA, CIRCUIT, TANK, WILD, VAULT, SURGE]"

definition payingSymbolSet :: "SymbolId list" where
  "payingSymbolSet = [ORBIT, PRISM, PULSE, NOVA, CIRCUIT, TANK]"

definition LOCKED_VAULT_FACES :: "string list" where
  "LOCKED_VAULT_FACES = [''x1'', ''x2'', ''x3'', ''x4'', ''x5'', ''x6'', ''x7'', ''x8'', ''x9'',
     ''mini'', ''minor'', ''major'', ''mega'', ''grand'', ''free_spin'']"

definition lockedVaultFaceForOriginalServerId :: "js_number \<Rightarrow> string option" where
  "lockedVaultFaceForOriginalServerId serverId =
     (case serverId of
        JsInt n \<Rightarrow> if 17 \<le> n \<and> n \<le> 31 then at LOCKED_VAULT_FACES (n - 17) else None
      | _ \<Rightarrow> None)"

definition WHEEL_INSTANT_MULTIPLIER_BY_TIER :: "(string \<times> int) list" where
  "WHEEL_INSTANT_MULTIPLIER_BY_TIER =
     [(''MINI'', 10), (''MINOR'', 30), (''MAJOR'', 75), (''MEGA'', 250), (''GRAND'', 1000)]"

definition PRIMAL_MAX_WIN_MULTIPLIER :: int where
  "PRIMAL_MAX_WIN_MULTIPLIER = 2500"

definition ENGINE_RULES_VERSION :: string where
  "ENGINE_RULES_VERSION = ''slots-game-ways3-features-win-cap-paid-facts-v6''"

lemma symbol_name_inj [simp]: "symbol_name a = symbol_name b \<longleftrightarrow> a = b"
  by (cases a; cases b) simp_all

section \<open>Addresses\<close>

datatype CellAddress = CellAddress (reel: int) (row: int)

instantiation CellAddress :: linorder
begin

definition less_eq_CellAddress :: "CellAddress \<Rightarrow> CellAddress \<Rightarrow> bool" where
  "less_eq_CellAddress a b \<longleftrightarrow> (reel a, row a) \<le> (reel b, row b)"

definition less_CellAddress :: "CellAddress \<Rightarrow> CellAddress \<Rightarrow> bool" where
  "less_CellAddress a b \<longleftrightarrow> (reel a, row a) < (reel b, row b)"

instance
proof
  fix a b c :: CellAddress
  show "a < b \<longleftrightarrow> a \<le> b \<and> \<not> b \<le> a"
    by (auto simp: less_eq_CellAddress_def less_CellAddress_def)
  show "a \<le> a"
    by (simp add: less_eq_CellAddress_def)
  show "a \<le> b \<Longrightarrow> b \<le> c \<Longrightarrow> a \<le> c"
    by (auto simp: less_eq_CellAddress_def)
  show "a \<le> b \<Longrightarrow> b \<le> a \<Longrightarrow> a = b"
    by (cases a; cases b) (auto simp: less_eq_CellAddress_def)
  show "a \<le> b \<or> b \<le> a"
    by (auto simp: less_eq_CellAddress_def)
qed

end

text \<open>\<open>`${reel}:${row}`\<close>, the key under which sets and maps hold an address.\<close>

definition positionKey :: "CellAddress \<Rightarrow> string" where
  "positionKey p = toString (reel p) @ '':'' @ toString (row p)"

section \<open>Cells, wins and the feature state\<close>

record GridCell =
  cell_symbol :: SymbolId
  cell_multiplier :: "int option"
  cell_prize :: "string option"
  lockedVaultFace :: "string option"

type_synonym grid = "GridCell list list"

record PathAward =
  path_cells :: "CellAddress list"
  path_multiplier :: int
  path_baseAmountMinor :: string
  path_nominalAmountMinor :: string
  path_amountMinor :: string

record Win =
  win_id :: string
  win_symbol :: SymbolId
  win_ways :: "int option"
  win_nominalAmountMinor :: string
  win_amountMinor :: string
  win_multiplier :: "int option"
  win_cells :: "CellAddress list"
  win_pathAwards :: "PathAward list option"

datatype FeatureMode = BASE | EXPANSION | OVERDRIVE

fun mode_name :: "FeatureMode \<Rightarrow> string" where
  "mode_name BASE = ''BASE''"
| "mode_name EXPANSION = ''EXPANSION''"
| "mode_name OVERDRIVE = ''OVERDRIVE''"

definition mode_of_name :: "string \<Rightarrow> FeatureMode option" where
  "mode_of_name s = find (\<lambda>m. mode_name m = s) [BASE, EXPANSION, OVERDRIVE]"

record FeatureState =
  mode :: FeatureMode
  freeSpinsRemaining :: int
  freeSpinsPlayed :: "int option"
  baseBetMinor :: "string option"
  freeSpinsWinMinor :: "string option"
  rageLevel :: int
  rageCollected :: int

definition EMPTY_FEATURE_STATE :: FeatureState where
  "EMPTY_FEATURE_STATE = \<lparr>mode = BASE, freeSpinsRemaining = 0, freeSpinsPlayed = None,
     baseBetMinor = None, freeSpinsWinMinor = None, rageLevel = 1, rageCollected = 0\<rparr>"

section \<open>Feature events\<close>

datatype EventType =
    surge_collected | rage_transformed | wheel_started | wheel_awarded | free_spins_started
  | grid_expanded | vault_awarded | vaults_landed | vaults_locked | vaults_unlock_started
  | vaults_unlock_completed | vault_unlocked | free_spin_awarded | vault_upgraded
  | vaults_upgrade_started | free_spin_cap_reached | win_cap_reached | free_spins_completed

fun type_name :: "EventType \<Rightarrow> string" where
  "type_name surge_collected = ''surge.collected''"
| "type_name rage_transformed = ''rage.transformed''"
| "type_name wheel_started = ''wheel.started''"
| "type_name wheel_awarded = ''wheel.awarded''"
| "type_name free_spins_started = ''free_spins.started''"
| "type_name grid_expanded = ''grid.expanded''"
| "type_name vault_awarded = ''vault.awarded''"
| "type_name vaults_landed = ''vaults.landed''"
| "type_name vaults_locked = ''vaults.locked''"
| "type_name vaults_unlock_started = ''vaults.unlock.started''"
| "type_name vaults_unlock_completed = ''vaults.unlock.completed''"
| "type_name vault_unlocked = ''vault.unlocked''"
| "type_name free_spin_awarded = ''free_spin.awarded''"
| "type_name vault_upgraded = ''vault.upgraded''"
| "type_name vaults_upgrade_started = ''vaults.upgrade.started''"
| "type_name free_spin_cap_reached = ''free_spin.cap_reached''"
| "type_name win_cap_reached = ''win_cap.reached''"
| "type_name free_spins_completed = ''free_spins.completed''"

definition event_types :: "EventType list" where
  "event_types = [surge_collected, rage_transformed, wheel_started, wheel_awarded,
     free_spins_started, grid_expanded, vault_awarded, vaults_landed, vaults_locked,
     vaults_unlock_started, vaults_unlock_completed, vault_unlocked, free_spin_awarded,
     vault_upgraded, vaults_upgrade_started, free_spin_cap_reached, win_cap_reached,
     free_spins_completed]"

definition type_of_name :: "string \<Rightarrow> EventType option" where
  "type_of_name s = find (\<lambda>t. type_name t = s) event_types"

text \<open>
  One constructor per event interface, its arguments in the interface's order. The three
  Wheel interfaces share one constructor, with the optional properties they have at run
  time: the guards read an award through \<open>Record<string, unknown>\<close> and re-check them. The
  four Vault group types share their interface, as in the source.
\<close>

datatype FeatureEvent =
    SurgeCollected int "CellAddress list" bool bool int int
  | RageTransformed int "CellAddress list" int int
  | WheelStarted
  | WheelAwarded string "string option" "int option" "string option"
  | FreeSpinsStarted FeatureMode int
  | GridExpanded int int
  | VaultAwarded CellAddress int string "string option"
  | VaultGroup EventType int "CellAddress list"
  | VaultUnlocked CellAddress string "int option"
  | FreeSpinAwarded int "CellAddress option"
  | VaultUpgraded CellAddress int int string int
  | VaultUpgradeStarted int int
  | FreeSpinCapReached CellAddress
  | WinCapReached int string
  | FreeSpinsCompleted FeatureMode int string

fun type_of :: "FeatureEvent \<Rightarrow> EventType" where
  "type_of (SurgeCollected count cells triggered guaranteed level tot) = surge_collected"
| "type_of (RageTransformed count cells level tot) = rage_transformed"
| "type_of WheelStarted = wheel_started"
| "type_of (WheelAwarded outcome p m a) = wheel_awarded"
| "type_of (FreeSpinsStarted m awarded) = free_spins_started"
| "type_of (GridExpanded rows ways) = grid_expanded"
| "type_of (VaultAwarded p m a pr) = vault_awarded"
| "type_of (VaultGroup t count cells) = t"
| "type_of (VaultUnlocked p pr m) = vault_unlocked"
| "type_of (FreeSpinAwarded count p) = free_spin_awarded"
| "type_of (VaultUpgraded p f t pr step) = vault_upgraded"
| "type_of (VaultUpgradeStarted count step) = vaults_upgrade_started"
| "type_of (FreeSpinCapReached p) = free_spin_cap_reached"
| "type_of (WinCapReached m c) = win_cap_reached"
| "type_of (FreeSpinsCompleted m awarded c) = free_spins_completed"

definition vault_group_types :: "EventType list" where
  "vault_group_types = [vaults_landed, vaults_locked, vaults_unlock_started, vaults_unlock_completed]"

text \<open>The typing of the source: a group event carries one of the four group types.\<close>

fun event_typed :: "FeatureEvent \<Rightarrow> bool" where
  "event_typed (VaultGroup t count cells) = (t \<in> set vault_group_types)"
| "event_typed (FreeSpinsStarted m awarded) = (m \<noteq> BASE)"
| "event_typed (FreeSpinsCompleted m awarded c) = (m \<noteq> BASE)"
| "event_typed _ = True"

record SpinResult =
  requestId :: string
  sessionId :: string
  roundId :: string
  sequence :: int
  betMinor :: string
  chargedBetMinor :: string
  balanceMinor :: string
  totalWinMinor :: string
  result_grid :: grid
  wins :: "Win list"
  events :: "FeatureEvent list"
  featureState :: FeatureState

record SessionOpened =
  opened_requestId :: string
  opened_sessionId :: string
  currency :: string
  currencyExponent :: int
  opened_balanceMinor :: string
  betOptionsMinor :: "string list"
  defaultBetMinor :: string
  opened_featureState :: FeatureState

record ServerError =
  error_requestId :: "string option"
  error_sessionId :: "string option"
  error_roundId :: "string option"
  error_code :: string
  error_message :: string
  retryable :: bool

datatype ServerMessage =
    Opened SessionOpened
  | Result SpinResult
  | Error ServerError

lemma mode_name_inj [simp]: "mode_name a = mode_name b \<longleftrightarrow> a = b"
  by (cases a; cases b) simp_all

lemma mode_of_name [simp]: "mode_of_name (mode_name m) = Some m"
  by (cases m) (simp_all add: mode_of_name_def)

lemma mode_of_name_Some: "mode_of_name s = Some m \<longleftrightarrow> s = mode_name m"
  using mode_of_name [of m] find_Some_in [of "\<lambda>m. mode_name m = s"]
  by (auto simp: mode_of_name_def simp del: mode_name.simps)

lemma mode_of_name_None: "mode_of_name s = None \<longleftrightarrow> (\<forall>m. s \<noteq> mode_name m)"
  by (metis mode_of_name_Some not_None_eq)

lemma type_of_name [simp]: "type_of_name (type_name t) = Some t"
  by (cases t) (simp_all add: type_of_name_def event_types_def)

lemma type_of_name_Some: "type_of_name s = Some t \<longleftrightarrow> s = type_name t"
  using type_of_name [of t] find_Some_in [of "\<lambda>t. type_name t = s" event_types t]
  by (auto simp: type_of_name_def simp del: type_name.simps)

lemma toString_inj [simp]: "toString a = toString b \<longleftrightarrow> a = b"
  by (metis BigInt_toString)

lemma colon_notin_toString: "CHR '':'' \<notin> set (toString n)"
proof -
  have "c \<noteq> CHR '':''" if "is_digit c" for c
    using that by (auto simp: is_digit_def code_def)
  then show ?thesis
    using decimal_digits [of "nat n"] decimal_digits [of "nat (- n)"]
    by (auto simp: toString_def list_all_iff)
qed

lemma append_sep_inj:
  "c \<notin> set xs \<Longrightarrow> c \<notin> set ys \<Longrightarrow> xs @ c # us = ys @ c # vs \<longleftrightarrow> xs = ys \<and> us = vs"
proof (induction xs arbitrary: ys)
  case Nil
  then show ?case by (cases ys) auto
next
  case (Cons x xs)
  then show ?case by (cases ys) auto
qed

lemma positionKey_inj [simp]: "positionKey p = positionKey q \<longleftrightarrow> p = q"
  by (cases p; cases q)
    (simp add: positionKey_def append_sep_inj colon_notin_toString)

lemma positionKey_nonempty [simp]: "positionKey p \<noteq> []"
  by (simp add: positionKey_def)

lemma map_positionKey_distinct [simp]: "distinct (map positionKey ps) \<longleftrightarrow> distinct ps"
  by (simp add: distinct_map inj_on_def)

lemma less_CellAddress_simp [simp]:
  "CellAddress a b < CellAddress c d \<longleftrightarrow> a < c \<or> a = c \<and> b < d"
  by (auto simp: less_CellAddress_def)

end
