(* ===== verification/Origin_Guard.thy ===== *)
theory Origin_Guard
  imports Protocol_Types
begin

text \<open>
  \<open>protocol/spinResultOriginGuard.ts\<close>: a decoded result is bound to the feature state the
  request was submitted in. The guard returns nothing or throws; here it is a value of
  \<open>origin_error + unit\<close>, whose error carries the fixed text of the source's message. A
  JavaScript \<open>TypeError\<close> (reading a property of \<open>undefined\<close>) is the second error.
  \<open>indexOf\<close> of an event found by its type is the position of the first event of that
  type: the events are distinct objects.
\<close>

datatype origin_error = SpinResultOriginError string | OriginTypeError

abbreviation refuse :: "string \<Rightarrow> origin_error + 'a" where
  "refuse s \<equiv> Inl (SpinResultOriginError s)"

definition MAX_RAGE_COLLECTED :: int where
  "MAX_RAGE_COLLECTED = 1000000"

definition VAULT_SEMANTIC_TYPES :: "EventType list" where
  "VAULT_SEMANTIC_TYPES = [vaults_landed, vaults_locked, vaults_unlock_started,
     vaults_unlock_completed, vault_unlocked, vault_awarded, vaults_upgrade_started,
     vault_upgraded, free_spin_awarded, free_spin_cap_reached]"

section \<open>Helpers\<close>

definition isWheelJackpotTier :: "string option \<Rightarrow> bool" where
  "isWheelJackpotTier value =
     (case value of None \<Rightarrow> False | Some s \<Rightarrow> mapHas WHEEL_INSTANT_MULTIPLIER_BY_TIER s)"

definition isCanonicalMoney :: "string option \<Rightarrow> bool" where
  "isCanonicalMoney value = (case value of None \<Rightarrow> False
     | Some s \<Rightarrow> MONEY_PATTERN s \<and> length s \<le> 19 \<and> BigInt s \<le> MAX_SIGNED_INT64)"

definition eventOfType :: "FeatureEvent list \<Rightarrow> EventType \<Rightarrow> FeatureEvent option" where
  "eventOfType evs t = find (\<lambda>e. type_of e = t) evs"

definition eventsOfType :: "FeatureEvent list \<Rightarrow> EventType \<Rightarrow> FeatureEvent list" where
  "eventsOfType evs t = filter (\<lambda>e. type_of e = t) evs"

definition hasEvent :: "FeatureEvent list \<Rightarrow> EventType \<Rightarrow> bool" where
  "hasEvent evs t = list_ex (\<lambda>e. type_of e = t) evs"

definition indexOfType :: "FeatureEvent list \<Rightarrow> EventType \<Rightarrow> int" where
  "indexOfType evs t = findIndex (\<lambda>e. type_of e = t) evs"

definition addMoney :: "string option \<Rightarrow> string \<Rightarrow> string" where
  "addMoney left right =
     toString (BigInt (case left of None \<Rightarrow> ''0'' | Some s \<Rightarrow> s) + BigInt right)"

definition cellAt :: "grid \<Rightarrow> CellAddress \<Rightarrow> GridCell option" where
  "cellAt g p = Option.bind (at g (reel p)) (\<lambda>cells. at cells (row p))"

definition positionsForSymbol :: "grid \<Rightarrow> SymbolId \<Rightarrow> CellAddress list" where
  "positionsForSymbol g symbol =
     concat (map (\<lambda>(reelIndex, cells).
       map (\<lambda>(rowIndex, cell). CellAddress reelIndex rowIndex)
         (filter (\<lambda>(rowIndex, cell). cell_symbol cell = symbol) (entriesFrom 0 cells)))
       (entriesFrom 0 g))"

definition samePositions :: "CellAddress list \<Rightarrow> CellAddress list \<Rightarrow> bool" where
  "samePositions actual expected =
     list_all2 (\<lambda>p q. reel p = reel q \<and> row p = row q) actual expected"

fun eventPosition :: "FeatureEvent \<Rightarrow> CellAddress option" where
  "eventPosition (VaultAwarded p m a pr) =
     (if safe_int (reel p) \<and> safe_int (row p) then Some p else None)"
| "eventPosition (VaultUnlocked p pr m) =
     (if safe_int (reel p) \<and> safe_int (row p) then Some p else None)"
| "eventPosition (FreeSpinAwarded count (Some p)) =
     (if safe_int (reel p) \<and> safe_int (row p) then Some p else None)"
| "eventPosition (VaultUpgraded p f t pr step) =
     (if safe_int (reel p) \<and> safe_int (row p) then Some p else None)"
| "eventPosition (FreeSpinCapReached p) =
     (if safe_int (reel p) \<and> safe_int (row p) then Some p else None)"
| "eventPosition _ = None"

text \<open>\<open>position ? positionKey(position) : ""\<close>.\<close>

definition eventKey :: "FeatureEvent \<Rightarrow> string" where
  "eventKey e = (case eventPosition e of None \<Rightarrow> [] | Some p \<Rightarrow> positionKey p)"

definition vaultPrizeName :: "int \<Rightarrow> bool \<Rightarrow> string option" where
  "vaultPrizeName multiplier kingSpin =
     (if \<not> safe_int multiplier \<or> multiplier \<le> 0 then None
      else if kingSpin \<and> multiplier = 20 then Some ''MINI_2X''
      else if kingSpin \<and> multiplier = 60 then Some ''MINOR_2X''
      else if kingSpin \<and> multiplier = 150 then Some ''MAJOR_2X''
      else if kingSpin \<and> multiplier = 500 then Some ''MEGA_2X''
      else if 1 \<le> multiplier \<and> multiplier \<le> 9 then Some (CHR ''X'' # toString multiplier)
      else map_of [(10, ''MINI''), (30, ''MINOR''), (75, ''MAJOR''), (250, ''MEGA''), (1000, ''GRAND'')]
        multiplier)"

definition expectedVaultAmount :: "string \<Rightarrow> int \<Rightarrow> origin_error + int" where
  "expectedVaultAmount bet multiplier =
     (let amount = BigInt bet * multiplier in
      if MAX_SIGNED_INT64 < amount then refuse ''Vault award exceeds the signed-int64 money domain''
      else Inr amount)"

section \<open>Instant awards, the win cap, feature Wheel awards\<close>

fun validateInstantWheelAward :: "FeatureEvent \<Rightarrow> string \<Rightarrow> bool \<Rightarrow> origin_error + unit" where
  "validateInstantWheelAward (WheelAwarded outcome prize mult amount) bet capped =
     (if \<not> isWheelJackpotTier prize
      then refuse ''INSTANT requires a canonical Jackpot tier''
      else let multiplier = the (map_of WHEEL_INSTANT_MULTIPLIER_BY_TIER (the prize)) in
        if mult \<noteq> Some multiplier
        then refuse ''INSTANT requires the canonical multiplier''
        else if \<not> isCanonicalMoney amount
        then refuse ''INSTANT requires a canonical signed-int64 amountMinor''
        else let expectedAmount = BigInt bet * multiplier in
          if MAX_SIGNED_INT64 < expectedAmount
          then refuse ''INSTANT amount exceeds the signed-int64 money domain''
          else if expectedAmount < BigInt (the amount)
            \<or> (\<not> capped \<and> BigInt (the amount) \<noteq> expectedAmount)
          then refuse ''INSTANT amountMinor must equal its nominal award unless win-capped''
          else Inr ())"
| "validateInstantWheelAward _ bet capped = Inl OriginTypeError"

fun isNominalEvent :: "FeatureEvent \<Rightarrow> bool" where
  "isNominalEvent (WheelAwarded outcome p m a) = (outcome = ''INSTANT'')"
| "isNominalEvent (VaultAwarded p m a pr) = True"
| "isNominalEvent _ = False"

definition priorWin :: "FeatureState \<Rightarrow> int" where
  "priorWin origin = (if mode origin = BASE then 0
     else BigInt (case freeSpinsWinMinor origin of None \<Rightarrow> ''-1'' | Some w \<Rightarrow> w))"

definition expectedCap :: "SpinResult \<Rightarrow> int" where
  "expectedCap result = BigInt (betMinor result) * PRIMAL_MAX_WIN_MULTIPLIER"

definition validateWinCapAgainstOrigin :: "FeatureState \<Rightarrow> SpinResult \<Rightarrow> origin_error + unit" where
  "validateWinCapAgainstOrigin origin result =
     (let capEvents = eventsOfType (events result) win_cap_reached;
          cap = expectedCap result;
          prior = priorWin origin;
          cycleWin = prior + BigInt (totalWinMinor result);
          hasClippedWays = list_ex (\<lambda>w.
            BigInt (win_amountMinor w) < BigInt (win_nominalAmountMinor w)) (wins result);
          hasNominalAward =
            list_ex (\<lambda>w. 0 < BigInt (win_nominalAmountMinor w)) (wins result)
            \<or> list_ex isNominalEvent (events result)
      in
      if 1 < length capEvents
      then refuse ''Result must not contain duplicate win_cap.reached events''
      else if MAX_SIGNED_INT64 < cap
      then refuse ''Whole-game win cap exceeds the signed-int64 money domain''
      else if prior < 0 \<or> cap < prior
      then refuse ''Origin feature win is outside the whole-game cap''
      else if cap < cycleWin
      then refuse ''Settled whole-game win exceeds the definition cap''
      else case capEvents of
        [] \<Rightarrow> if cycleWin = cap \<and> (0 < BigInt (totalWinMinor result) \<or> hasClippedWays)
              then refuse ''A reached whole-game cap requires win_cap.reached''
              else Inr ()
      | capEvent # _ \<Rightarrow>
          if \<not> hasNominalAward
          then refuse ''win_cap.reached requires a positive mathematical award in this result''
          else case capEvent of
            WinCapReached multiplier cumulative \<Rightarrow>
              if multiplier \<noteq> PRIMAL_MAX_WIN_MULTIPLIER \<or> BigInt cumulative \<noteq> cap \<or> cycleWin \<noteq> cap
              then refuse ''win_cap.reached does not match the whole-game cap facts''
              else Inr ()
          | _ \<Rightarrow> Inl OriginTypeError)"

fun validateFeatureWheelAward :: "FeatureEvent \<Rightarrow> origin_error + unit" where
  "validateFeatureWheelAward (WheelAwarded outcome prize mult amount) =
     (if mult \<noteq> None \<or> amount \<noteq> None
      then refuse ''Feature Wheel outcomes must not contain multiplier or amountMinor''
      else let expectedPrize = (if outcome = ''EXPANSION'' then ''KONG_QUEST'' else ''KING_SPIN'') in
        if prize \<noteq> None \<and> prize \<noteq> Some expectedPrize
        then refuse ''Feature Wheel prize must match its outcome''
        else Inr ())"
| "validateFeatureWheelAward _ = Inl OriginTypeError"

section \<open>The Vault contract\<close>

fun assertVaultGroup :: "FeatureEvent \<Rightarrow> CellAddress list \<Rightarrow> origin_error + unit" where
  "assertVaultGroup (VaultGroup t count cells) positions =
     (if count \<noteq> int (length positions) \<or> \<not> samePositions cells positions
      then refuse ''Vault group must match every settled Vault exactly once and in reel order''
      else Inr ())"
| "assertVaultGroup _ positions = Inl OriginTypeError"

text \<open>The group of a type: the code has established that there is exactly one.\<close>

definition assertGroupOfType ::
  "FeatureEvent list \<Rightarrow> EventType \<Rightarrow> CellAddress list \<Rightarrow> origin_error + unit" where
  "assertGroupOfType evs t positions =
     (case eventsOfType evs t of [] \<Rightarrow> Inl OriginTypeError | e # _ \<Rightarrow> assertVaultGroup e positions)"

definition vaultLandedIndex ::
  "FeatureState \<Rightarrow> FeatureEvent list \<Rightarrow> CellAddress list \<Rightarrow> origin_error + int" where
  "vaultLandedIndex origin evs positions =
     (let landedIndex = indexOfType evs vaults_landed;
          expectedLandedIndex = (if mode origin = EXPANSION then 1 else 0) in
      if length (eventsOfType evs vaults_landed) \<noteq> 1
      then refuse ''Settled Vaults require exactly one vaults.landed event''
      else if landedIndex \<noteq> expectedLandedIndex
      then refuse ''vaults.landed is not at the mode-owned event boundary''
      else bindE (assertGroupOfType evs vaults_landed positions) (\<lambda>_. Inr landedIndex))"

definition lockedVaultBranch ::
  "FeatureState \<Rightarrow> grid \<Rightarrow> FeatureEvent list \<Rightarrow> CellAddress list \<Rightarrow> int \<Rightarrow> origin_error + unit" where
  "lockedVaultBranch origin g evs positions landedIndex =
     (if mode origin = OVERDRIVE
        \<or> indexOfType evs vaults_locked \<noteq> landedIndex + 1
        \<or> eventsOfType evs vaults_unlock_started \<noteq> []
        \<or> eventsOfType evs vaults_unlock_completed \<noteq> []
        \<or> length (filter (\<lambda>e. type_of e \<in> set VAULT_SEMANTIC_TYPES) evs) \<noteq> 2
      then refuse ''Invalid locked Vault branch for the submitted mode''
      else bindE (assertGroupOfType evs vaults_locked positions) (\<lambda>_.
        foldE (\<lambda>p _. case cellAt g p of
             None \<Rightarrow> refuse ''Locked Vault cannot expose a settled reward''
           | Some cell \<Rightarrow>
               if cell_multiplier cell \<noteq> None \<or> cell_prize cell \<noteq> None
               then refuse ''Locked Vault cannot expose a settled reward''
               else Inr ()) positions ()))"

text \<open>What the unlock scan collects: \<open>reveals\<close>, \<open>awards\<close> and \<open>freeResults\<close>.\<close>

record vault_scan =
  reveals :: "(string \<times> (string \<times> int option)) list"
  awards :: "(string \<times> (int \<times> string \<times> string option)) list"
  freeResults :: "(string \<times> FeatureEvent) list"

definition outsideUnlock :: "int \<Rightarrow> int \<Rightarrow> int \<Rightarrow> bool" where
  "outsideUnlock unlockStartedIndex unlockCompletedIndex i =
     (i \<le> unlockStartedIndex \<or> unlockCompletedIndex \<le> i)"

definition scanReveal ::
  "string list \<Rightarrow> int \<Rightarrow> int \<Rightarrow> int \<Rightarrow> string \<Rightarrow> string \<Rightarrow> int option \<Rightarrow> vault_scan
     \<Rightarrow> origin_error + vault_scan" where
  "scanReveal positionKeys us uc i key prize mult st =
     (if outsideUnlock us uc i \<or> key \<notin> set positionKeys \<or> prize = []
      then refuse ''Invalid vault.unlocked event''
      else if mapHas (reveals st) key then refuse ''Duplicate Vault reveal''
      else Inr (st\<lparr>reveals := mapSet (reveals st) key (prize, mult)\<rparr>))"

definition scanAward ::
  "FeatureMode \<Rightarrow> string list \<Rightarrow> bool \<Rightarrow> int \<Rightarrow> int \<Rightarrow> int \<Rightarrow> string \<Rightarrow> int \<Rightarrow> string \<Rightarrow> string option
     \<Rightarrow> vault_scan \<Rightarrow> origin_error + vault_scan" where
  "scanAward m positionKeys winCapped us uc i key mult amount prize st =
     (if key \<notin> set positionKeys
        \<or> \<not> safe_int mult \<or> mult \<le> 0
        \<or> \<not> isCanonicalMoney (Some amount)
        \<or> (\<not> winCapped \<and> BigInt amount \<le> 0)
        \<or> (case prize of None \<Rightarrow> True | Some s \<Rightarrow> s = [])
        \<or> (m \<noteq> OVERDRIVE \<and> outsideUnlock us uc i)
        \<or> (m = OVERDRIVE \<and> i \<le> uc)
      then refuse ''Invalid vault.awarded event''
      else if mapHas (awards st) key then refuse ''Duplicate Vault award''
      else Inr (st\<lparr>awards := mapSet (awards st) key (mult, amount, prize)\<rparr>))"

definition scanFreeResult ::
  "FeatureMode \<Rightarrow> string list \<Rightarrow> int \<Rightarrow> int \<Rightarrow> int \<Rightarrow> string \<Rightarrow> FeatureEvent \<Rightarrow> vault_scan
     \<Rightarrow> origin_error + vault_scan" where
  "scanFreeResult m positionKeys us uc i key event st =
     (if m \<noteq> EXPANSION \<or> key \<notin> set positionKeys \<or> outsideUnlock us uc i
      then refuse ''Vault Free Spin result is outside Kong Quest''
      else if (case event of FreeSpinAwarded count p \<Rightarrow> count \<noteq> 1 | _ \<Rightarrow> False)
      then refuse ''Vault Free Spin award count must be one''
      else if mapHas (freeResults st) key then refuse ''Duplicate Vault Free Spin result''
      else Inr (st\<lparr>freeResults := mapSet (freeResults st) key event\<rparr>))"

definition vaultScanStep ::
  "FeatureMode \<Rightarrow> string list \<Rightarrow> bool \<Rightarrow> int \<Rightarrow> int \<Rightarrow> int \<times> FeatureEvent \<Rightarrow> vault_scan
     \<Rightarrow> origin_error + vault_scan" where
  "vaultScanStep m positionKeys winCapped us uc entry st =
     (let (i, event) = entry in
      case event of
        VaultUnlocked p prize mult \<Rightarrow>
          scanReveal positionKeys us uc i (eventKey event) prize mult st
      | VaultAwarded p mult amount prize \<Rightarrow>
          scanAward m positionKeys winCapped us uc i (eventKey event) mult amount prize st
      | FreeSpinAwarded count p \<Rightarrow> scanFreeResult m positionKeys us uc i (eventKey event) event st
      | FreeSpinCapReached p \<Rightarrow> scanFreeResult m positionKeys us uc i (eventKey event) event st
      | VaultUpgraded p f t prize step \<Rightarrow>
          if m \<noteq> OVERDRIVE \<or> i \<le> uc then refuse ''Vault upgrade is outside King Spin'' else Inr st
      | VaultUpgradeStarted count step \<Rightarrow>
          if m \<noteq> OVERDRIVE \<or> i \<le> uc then refuse ''Vault upgrade is outside King Spin'' else Inr st
      | _ \<Rightarrow> Inr st)"

subsection \<open>King Spin: upgrade chain and final awards\<close>

record upgrade_state =
  expectedStep :: int
  activeStep :: int
  activeCount :: int
  seenInStep :: "string list"
  currentMultiplier :: "(string \<times> int) list"
  currentPrize :: "(string \<times> string) list"

definition finishStep :: "upgrade_state \<Rightarrow> origin_error + unit" where
  "finishStep u = (if activeStep u \<noteq> 0 \<and> activeCount u \<noteq> int (length (seenInStep u))
     then refuse ''King Spin upgrade group count is incorrect'' else Inr ())"

definition initialReveals ::
  "vault_scan \<Rightarrow> CellAddress list \<Rightarrow> origin_error + upgrade_state" where
  "initialReveals st positions =
     foldE (\<lambda>p u. let key = positionKey p in
       case map_of (reveals st) key of
         None \<Rightarrow> Inl OriginTypeError
       | Some (prize, None) \<Rightarrow> refuse ''Invalid initial King Spin Vault reveal''
       | Some (prize, Some mult) \<Rightarrow>
           if Some prize \<noteq> vaultPrizeName mult True
           then refuse ''Invalid initial King Spin Vault reveal''
           else Inr (u\<lparr>currentMultiplier := mapSet (currentMultiplier u) key mult,
                       currentPrize := mapSet (currentPrize u) key prize\<rparr>))
       positions
       \<lparr>expectedStep = 1, activeStep = 0, activeCount = 0, seenInStep = [],
        currentMultiplier = [], currentPrize = []\<rparr>"

definition upgradeStep ::
  "string list \<Rightarrow> int \<times> FeatureEvent \<Rightarrow> upgrade_state \<Rightarrow> origin_error + upgrade_state" where
  "upgradeStep positionKeys entry u =
     (case snd entry of
        VaultUpgradeStarted count step \<Rightarrow> bindE (finishStep u) (\<lambda>_.
          if step \<noteq> expectedStep u \<or> count \<le> 0
          then refuse ''King Spin upgrade steps are not contiguous''
          else Inr (u\<lparr>activeStep := step, activeCount := count,
                      expectedStep := expectedStep u + 1, seenInStep := []\<rparr>))
      | VaultUpgraded p fromMultiplier toMultiplier prize step \<Rightarrow>
          let key = eventKey (snd entry) in
          if activeStep u = 0 \<or> step \<noteq> activeStep u \<or> key \<notin> set positionKeys
            \<or> Some fromMultiplier \<noteq> map_of (currentMultiplier u) key
            \<or> toMultiplier \<le> fromMultiplier
            \<or> Some prize \<noteq> vaultPrizeName toMultiplier True
          then refuse ''Invalid or discontinuous King Spin Vault upgrade''
          else if key \<in> set (seenInStep u)
          then refuse ''Duplicate Vault in one King Spin upgrade step''
          else Inr (u\<lparr>seenInStep := key # seenInStep u,
                      currentMultiplier := mapSet (currentMultiplier u) key toMultiplier,
                      currentPrize := mapSet (currentPrize u) key prize\<rparr>)
      | _ \<Rightarrow> refuse ''Unrelated event interrupts King Spin upgrades'')"

definition slice :: "int \<Rightarrow> int \<Rightarrow> 'a list \<Rightarrow> (int \<times> 'a) list" where
  "slice i j xs = filter (\<lambda>(k, x). i \<le> k \<and> k < j) (entriesFrom 0 xs)"

definition lastAwardIndex :: "FeatureEvent list \<Rightarrow> int \<Rightarrow> int" where
  "lastAwardIndex evs firstAwardIndex =
     fold (\<lambda>(i, e) acc. if type_of e = vault_awarded then i else acc)
       (slice (firstAwardIndex + 1) (int (length evs)) evs) firstAwardIndex"

definition kingSpinOrder :: "FeatureEvent list \<Rightarrow> int \<Rightarrow> origin_error + int" where
  "kingSpinOrder evs uc =
     (let firstAwardIndex = indexOfType evs vault_awarded;
          lastAward = lastAwardIndex evs firstAwardIndex;
          winCapIndex = indexOfType evs win_cap_reached;
          completionIndex = indexOfType evs free_spins_completed;
          final = int (length evs) - 1 in
      if firstAwardIndex \<le> uc
      then refuse ''King Spin Vault awards must follow unlock and upgrades''
      else if 0 \<le> winCapIndex \<and> (winCapIndex \<noteq> lastAward + 1
        \<or> (winCapIndex \<noteq> final \<and> \<not> (completionIndex = final \<and> winCapIndex = completionIndex - 1)))
      then refuse ''King Spin win_cap.reached must immediately follow the final Vault award and terminate the result before completion''
      else if list_ex (\<lambda>(i, e). type_of e \<notin> {vault_awarded, win_cap_reached, free_spins_completed})
        (slice firstAwardIndex (int (length evs)) evs)
      then refuse ''King Spin final awards must be contiguous''
      else Inr firstAwardIndex)"

definition kingSpinFinal ::
  "grid \<Rightarrow> string \<Rightarrow> bool \<Rightarrow> vault_scan \<Rightarrow> upgrade_state \<Rightarrow> CellAddress \<Rightarrow> origin_error + unit" where
  "kingSpinFinal g bet winCapped st u p =
     (let key = positionKey p in
      case map_of (awards st) key of
        None \<Rightarrow> Inl OriginTypeError
      | Some (mult, paid, prize) \<Rightarrow> bindE (expectedVaultAmount bet mult) (\<lambda>amount.
          if Some mult \<noteq> map_of (currentMultiplier u) key
            \<or> prize \<noteq> map_of (currentPrize u) key
            \<or> amount < BigInt paid
            \<or> (\<not> winCapped \<and> BigInt paid \<noteq> amount)
            \<or> (case cellAt g p of None \<Rightarrow> True
                | Some cell \<Rightarrow> cell_multiplier cell \<noteq> Some mult \<or> cell_prize cell \<noteq> prize)
          then refuse ''Final King Spin Vault award does not match its upgrade chain, grid, or amount''
          else Inr ()))"

definition kingSpinVaults ::
  "grid \<Rightarrow> FeatureEvent list \<Rightarrow> string \<Rightarrow> bool \<Rightarrow> CellAddress list \<Rightarrow> int \<Rightarrow> vault_scan
     \<Rightarrow> origin_error + unit" where
  "kingSpinVaults g evs bet winCapped positions uc st =
     (if freeResults st \<noteq> [] \<or> mapSize (awards st) \<noteq> int (length positions)
      then refuse ''Every King Spin Vault requires one monetary final award''
      else bindE (initialReveals st positions) (\<lambda>u0.
        bindE (kingSpinOrder evs uc) (\<lambda>firstAwardIndex.
        bindE (foldE (upgradeStep (map positionKey positions)) (slice (uc + 1) firstAwardIndex evs) u0)
          (\<lambda>u.
        bindE (finishStep u) (\<lambda>_.
        foldE (\<lambda>p _. kingSpinFinal g bet winCapped st u p) positions ())))))"

subsection \<open>Base and Kong Quest: one result per Vault\<close>

definition plainVaultFinal ::
  "grid \<Rightarrow> string \<Rightarrow> bool \<Rightarrow> vault_scan \<Rightarrow> CellAddress \<Rightarrow> origin_error + unit" where
  "plainVaultFinal g bet winCapped st p =
     (let key = positionKey p;
          award = map_of (awards st) key;
          freeResult = map_of (freeResults st) key in
      case map_of (reveals st) key of
        None \<Rightarrow> Inl OriginTypeError
      | Some (revealPrize, revealMult) \<Rightarrow>
          if (award = None) = (freeResult = None)
          then refuse ''Every revealed Vault needs exactly one final result''
          else case award of
            Some (mult, paid, prize) \<Rightarrow> bindE (expectedVaultAmount bet mult) (\<lambda>amount.
              if prize \<noteq> Some revealPrize
                \<or> revealMult \<noteq> Some mult
                \<or> prize \<noteq> vaultPrizeName mult False
                \<or> amount < BigInt paid
                \<or> (\<not> winCapped \<and> BigInt paid \<noteq> amount)
                \<or> (case cellAt g p of None \<Rightarrow> True
                    | Some cell \<Rightarrow> cell_multiplier cell \<noteq> Some mult \<or> cell_prize cell \<noteq> prize)
              then refuse ''Vault reveal, final grid, and payable award disagree''
              else Inr ())
          | None \<Rightarrow>
              if revealPrize \<noteq> ''FREE_SPIN'' \<or> revealMult \<noteq> None
                \<or> (case cellAt g p of None \<Rightarrow> True
                    | Some cell \<Rightarrow> cell_prize cell \<noteq> Some ''FREE_SPIN'' \<or> cell_multiplier cell \<noteq> None)
              then refuse ''Invalid FREE_SPIN Vault reveal or settled grid''
              else Inr ())"

definition plainVaults ::
  "grid \<Rightarrow> FeatureEvent list \<Rightarrow> string \<Rightarrow> bool \<Rightarrow> CellAddress list \<Rightarrow> int \<Rightarrow> int \<Rightarrow> vault_scan
     \<Rightarrow> origin_error + unit" where
  "plainVaults g evs bet winCapped positions us uc st =
     bindE (foldE (\<lambda>p _. plainVaultFinal g bet winCapped st p) positions ()) (\<lambda>_.
     if list_ex (\<lambda>(i, e). type_of e
          \<notin> {vault_unlocked, vault_awarded, free_spin_awarded, free_spin_cap_reached})
        (slice (us + 1) uc evs)
     then refuse ''Unrelated event interrupts the Vault unlock sequence''
     else Inr ())"

definition unlockedVaultBranch ::
  "FeatureState \<Rightarrow> grid \<Rightarrow> FeatureEvent list \<Rightarrow> string \<Rightarrow> CellAddress list \<Rightarrow> int
     \<Rightarrow> origin_error + unit" where
  "unlockedVaultBranch origin g evs bet positions landedIndex =
     (let winCapped = hasEvent evs win_cap_reached;
          us = indexOfType evs vaults_unlock_started;
          uc = indexOfType evs vaults_unlock_completed in
      if us \<noteq> landedIndex + 1 \<or> uc \<le> us
      then refuse ''Vault unlock boundaries are out of order''
      else bindE (assertGroupOfType evs vaults_unlock_started positions) (\<lambda>_.
        bindE (assertGroupOfType evs vaults_unlock_completed positions) (\<lambda>_.
        bindE (foldE (vaultScanStep (mode origin) (map positionKey positions) winCapped us uc)
            (entriesFrom 0 evs) \<lparr>reveals = [], awards = [], freeResults = []\<rparr>) (\<lambda>st.
        if mapSize (reveals st) \<noteq> int (length positions)
        then refuse ''Every unlocked Vault must have exactly one reveal''
        else if mode origin = OVERDRIVE
        then kingSpinVaults g evs bet winCapped positions uc st
        else plainVaults g evs bet winCapped positions us uc st))))"

definition validateVaultEventsAgainstOrigin ::
  "FeatureState \<Rightarrow> grid \<Rightarrow> FeatureEvent list \<Rightarrow> string \<Rightarrow> origin_error + unit" where
  "validateVaultEventsAgainstOrigin origin g evs bet =
     (let positions = positionsForSymbol g VAULT;
          semanticEvents = filter (\<lambda>e. type_of e \<in> set VAULT_SEMANTIC_TYPES) evs;
          lockedCount = length (eventsOfType evs vaults_locked) in
      if positions = [] then
        (if semanticEvents \<noteq> [] then refuse ''Vault event exists without a settled Vault'' else Inr ())
      else bindE (vaultLandedIndex origin evs positions) (\<lambda>landedIndex.
        if lockedCount = 1 then lockedVaultBranch origin g evs positions landedIndex
        else if lockedCount \<noteq> 0
          \<or> length (eventsOfType evs vaults_unlock_started) \<noteq> 1
          \<or> length (eventsOfType evs vaults_unlock_completed) \<noteq> 1
        then refuse ''Invalid Vault unlock boundaries''
        else unlockedVaultBranch origin g evs bet positions landedIndex))"

section \<open>Positions and events\<close>

lemma samePositions_eq [simp]: "samePositions actual expected \<longleftrightarrow> actual = expected"
proof -
  have "(\<lambda>p q. reel p = reel q \<and> row p = row q) = (=)"
    by (intro ext) (auto intro: CellAddress.expand)
  then show ?thesis by (simp add: samePositions_def list.rel_eq)
qed

lemma cellAt_Some:
  "cellAt g p = Some c \<longleftrightarrow>
     0 \<le> reel p \<and> reel p < int (length g) \<and> 0 \<le> row p \<and>
     row p < int (length (g ! nat (reel p))) \<and> g ! nat (reel p) ! nat (row p) = c"
  by (auto simp: cellAt_def bind_eq_Some_conv at_Some)

lemma positionsForSymbol_iff:
  "p \<in> set (positionsForSymbol g s) \<longleftrightarrow> (\<exists>c. cellAt g p = Some c \<and> cell_symbol c = s)"
  by (cases p) (auto simp: positionsForSymbol_def entriesFrom_set cellAt_Some image_iff)

lemma sorted_wrt_entriesFrom: "sorted_wrt (\<lambda>a b. fst a < fst b) (entriesFrom i xs)"
  by (auto simp: sorted_wrt_iff_nth_less)

lemma positionsForSymbol_sorted: "sorted_wrt (<) (positionsForSymbol g s)"
proof -
  have row: "sorted_wrt (<) (map (\<lambda>(rowIndex, cell). CellAddress r rowIndex)
      (filter (\<lambda>(rowIndex, cell). cell_symbol cell = s) (entriesFrom 0 cells)))" for r and cells
    by (simp add: sorted_wrt_map)
      (rule sorted_wrt_mono_rel [OF _ sorted_wrt_filter [OF sorted_wrt_entriesFrom]],
       auto)
  have "sorted_wrt (<) (concat (map (\<lambda>(reelIndex, cells).
       map (\<lambda>(rowIndex, cell). CellAddress reelIndex rowIndex)
         (filter (\<lambda>(rowIndex, cell). cell_symbol cell = s) (entriesFrom 0 cells))) es))"
    if "sorted_wrt (\<lambda>a b. fst a < fst b) es" for es
    using that
  proof (induction es)
    case Nil
    then show ?case by simp
  next
    case (Cons e es)
    then show ?case
      by (cases e) (auto simp: sorted_wrt_append row)
  qed
  from this [OF sorted_wrt_entriesFrom] show ?thesis
    by (simp add: positionsForSymbol_def)
qed

lemma positionsForSymbol_distinct [simp]: "distinct (positionsForSymbol g s)"
  using positionsForSymbol_sorted [of g s]
  by (simp add: strict_sorted_iff)

lemma hasEvent_iff: "hasEvent evs t \<longleftrightarrow> (\<exists>e \<in> set evs. type_of e = t)"
  by (simp add: hasEvent_def list_ex_iff)

lemma eventsOfType_Nil: "eventsOfType evs t = [] \<longleftrightarrow> \<not> hasEvent evs t"
  by (auto simp: eventsOfType_def hasEvent_iff filter_empty_conv)

lemma eventOfType_None: "eventOfType evs t = None \<longleftrightarrow> \<not> hasEvent evs t"
  by (auto simp: eventOfType_def hasEvent_iff find_None_iff)

lemma indexOfType_neg: "indexOfType evs t < 0 \<longleftrightarrow> \<not> hasEvent evs t"
  by (auto simp: indexOfType_def hasEvent_iff findIndex_neg)

lemma eventOfType_Some: "eventOfType evs t = Some e \<Longrightarrow> e \<in> set evs \<and> type_of e = t"
  unfolding eventOfType_def by (rule find_Some_in)

lemma eventsOfType_set: "e \<in> set (eventsOfType evs t) \<longleftrightarrow> e \<in> set evs \<and> type_of e = t"
  by (simp add: eventsOfType_def)

end
