(* ===== verification/Origin_Rules.thy ===== *)
theory Origin_Rules
  imports Origin_Guard
begin

text \<open>
  The second half of \<open>protocol/spinResultOriginGuard.ts\<close>: the Rage meter and Wheel rules
  of a Base spin and the whole guard \<open>validateSpinResultAgainstOrigin\<close>.
\<close>

section \<open>Rage and the Wheel\<close>

text \<open>The facts of a \<open>surge.collected\<close> event, in the order of its interface.\<close>

definition collectionMismatch ::
  "FeatureState \<Rightarrow> CellAddress list \<Rightarrow> int \<Rightarrow> CellAddress list \<Rightarrow> bool \<Rightarrow> bool \<Rightarrow> int \<Rightarrow> int \<Rightarrow> bool" where
  "collectionMismatch origin positions count cells triggered guaranteed level tot =
     (let n = int (length positions);
          creditedTotal = (if n = 3 then rageCollected origin else rageCollected origin + n);
          resetsPps = (triggered \<and> \<not> guaranteed);
          expectedEventTotal = (if resetsPps then 0 else creditedTotal) in
      count \<noteq> n
      \<or> \<not> samePositions cells positions
      \<or> guaranteed \<noteq> (n = 3)
      \<or> (n = 3 \<and> \<not> triggered)
      \<or> tot \<noteq> expectedEventTotal
      \<or> (resetsPps \<and> level \<noteq> 1)
      \<or> level < 1)"

fun transformationMismatch ::
  "CellAddress list \<Rightarrow> int \<Rightarrow> int \<Rightarrow> int \<Rightarrow> int \<Rightarrow> int \<Rightarrow> FeatureEvent list \<Rightarrow> bool" where
  "transformationMismatch positions collectionIndex transformedIndex wheelStartedIndex level tot
     [RageTransformed count cells tlevel ttot] =
     (transformedIndex \<le> collectionIndex
      \<or> wheelStartedIndex \<le> transformedIndex
      \<or> count \<noteq> 3 - int (length positions)
      \<or> int (length cells) \<noteq> count
      \<or> tlevel \<noteq> level
      \<or> ttot \<noteq> tot
      \<or> setSize (map positionKey cells) \<noteq> int (length cells)
      \<or> list_ex (\<lambda>p. positionKey p \<in> set (map positionKey positions)) cells)"
| "transformationMismatch positions ci ti wi level tot _ = True"

definition triggeredRage ::
  "FeatureState \<Rightarrow> SpinResult \<Rightarrow> CellAddress list \<Rightarrow> int \<Rightarrow> int \<Rightarrow> origin_error + unit" where
  "triggeredRage origin result positions level tot =
     (let evs = events result;
          transformations = eventsOfType evs rage_transformed;
          collectionIndex = indexOfType evs surge_collected;
          wheelStartedIndex = indexOfType evs wheel_started;
          wheelAwardedIndex = indexOfType evs wheel_awarded in
      if length (eventsOfType evs wheel_started) \<noteq> 1
        \<or> length (eventsOfType evs wheel_awarded) \<noteq> 1
        \<or> wheelStartedIndex \<le> collectionIndex \<or> wheelAwardedIndex \<le> wheelStartedIndex
      then refuse ''Triggered Rage requires an ordered Wheel start and award''
      else if length positions < 3 then
        (if level \<noteq> 1 \<or> tot \<noteq> 0
           \<or> rageLevel (featureState result) \<noteq> 1 \<or> rageCollected (featureState result) \<noteq> 0
         then refuse ''One/two-Rage Wheel trigger did not reset the authoritative PPS meter''
         else if transformationMismatch positions collectionIndex
           (indexOfType evs rage_transformed) wheelStartedIndex level tot transformations
         then refuse ''One/two-Rage trigger has an invalid transformation''
         else Inr ())
      else if transformations \<noteq> []
      then refuse ''Guaranteed Rage trigger must not transform extra symbols''
      else if rageLevel (featureState result) \<noteq> rageLevel origin
        \<or> rageCollected (featureState result) \<noteq> rageCollected origin
      then refuse ''Guaranteed Rage trigger changed the request-origin PPS meter''
      else Inr ())"

definition settledRage ::
  "FeatureState \<Rightarrow> SpinResult \<Rightarrow> CellAddress list \<Rightarrow> origin_error + unit" where
  "settledRage origin result positions =
     (let evs = events result;
          n = int (length positions);
          creditedTotal = (if n = 3 then rageCollected origin else rageCollected origin + n) in
      if 3 < n then refuse ''Base result cannot settle more than three Rage symbols''
      else if length (eventsOfType evs surge_collected) \<noteq> 1
      then refuse ''Settled Rage requires exactly one surge.collected event''
      else if MAX_RAGE_COLLECTED < creditedTotal
      then refuse ''Rage meter exceeds the protocol limit''
      else case eventsOfType evs surge_collected of
        SurgeCollected count cells triggered guaranteed level tot # _ \<Rightarrow>
          if collectionMismatch origin positions count cells triggered guaranteed level tot
          then refuse ''surge.collected does not match the settled Rage set''
          else if n = 3 \<and> level \<noteq> rageLevel origin
          then refuse ''Guaranteed Rage trigger changed the persistent PPS level''
          else if \<not> triggered then
            (if rageCollected (featureState result) \<noteq> creditedTotal
               \<or> rageLevel (featureState result) \<noteq> level
             then refuse ''Non-triggering Rage result did not preserve the credited PPS meter''
             else if hasEvent evs rage_transformed \<or> hasEvent evs wheel_started
               \<or> hasEvent evs wheel_awarded \<or> hasEvent evs free_spins_started
             then refuse ''Failed Rage collection changed the Wheel state''
             else Inr ())
          else triggeredRage origin result positions level tot
      | _ \<Rightarrow> Inl OriginTypeError)"

definition rageEventCount :: "FeatureEvent list \<Rightarrow> nat" where
  "rageEventCount evs = length (eventsOfType evs surge_collected)
     + length (eventsOfType evs rage_transformed) + length (eventsOfType evs wheel_started)
     + length (eventsOfType evs wheel_awarded) + length (eventsOfType evs free_spins_started)"

definition validateRageEventsAgainstOrigin ::
  "FeatureState \<Rightarrow> SpinResult \<Rightarrow> origin_error + unit" where
  "validateRageEventsAgainstOrigin origin result =
     (let positions = positionsForSymbol (result_grid result) SURGE;
          n = rageEventCount (events result) in
      if mode origin \<noteq> BASE then
        (if positions \<noteq> [] \<or> 0 < n
         then refuse ''Rage symbols and Wheel transitions are Base-only'' else Inr ())
      else if positions = [] then
        (if 0 < n then refuse ''Rage or Wheel event exists without settled Rage''
         else if rageCollected (featureState result) \<noteq> rageCollected origin
           \<or> rageLevel (featureState result) \<noteq> rageLevel origin
         then refuse ''Empty Base spin changed the Rage meter''
         else Inr ())
      else settledRage origin result positions)"

section \<open>The whole guard\<close>

definition gridRows :: "grid \<Rightarrow> int" where
  "gridRows g = (case at g 0 of None \<Rightarrow> 0 | Some cells \<Rightarrow> int (length cells))"

definition validateGridAgainstOrigin :: "FeatureState \<Rightarrow> SpinResult \<Rightarrow> origin_error + unit" where
  "validateGridAgainstOrigin origin result =
     (let rows = gridRows (result_grid result); evs = events result in
      if mode origin = EXPANSION then
        (if rows < 3 \<or> 8 < rows
           \<or> (case at evs 0 of None \<Rightarrow> True | Some e \<Rightarrow> type_of e \<noteq> grid_expanded)
           \<or> eventOfType evs grid_expanded = None
         then refuse ''Kong Quest origin requires a leading 3-8 row grid.expanded event''
         else case eventOfType evs grid_expanded of
           Some (GridExpanded erows eways) \<Rightarrow>
             if length (eventsOfType evs grid_expanded) \<noteq> 1 \<or> erows \<noteq> rows \<or> eways \<noteq> rows ^ 3
             then refuse ''Kong Quest grid.expanded must uniquely match the rendered rows and ways''
             else Inr ()
         | _ \<Rightarrow> Inl OriginTypeError)
      else if rows \<noteq> 3 \<or> eventOfType evs grid_expanded \<noteq> None
      then refuse ''Only a Kong Quest origin may carry grid.expanded or a non-3-row grid''
      else Inr ())"

definition baseFeatureStart ::
  "SpinResult \<Rightarrow> string \<Rightarrow> FeatureMode option \<times> int \<Rightarrow> origin_error + unit" where
  "baseFeatureStart result outcome started =
     (let evs = events result; next1 = featureState result in
      if fst started = None
        \<or> indexOfType evs free_spins_started \<noteq> indexOfType evs wheel_awarded + 1
        \<or> outcome \<noteq> mode_name (the (fst started))
      then refuse ''Free Spins start must immediately follow its matching Primal Wheel outcome''
      else if snd started \<noteq> 8
        \<or> Some (mode next1) \<noteq> fst started
        \<or> freeSpinsRemaining next1 \<noteq> 8
        \<or> freeSpinsPlayed next1 \<noteq> Some 0
        \<or> baseBetMinor next1 \<noteq> Some (betMinor result)
        \<or> freeSpinsWinMinor next1 \<noteq> Some (totalWinMinor result)
      then refuse ''Free Spins start must project exactly 8 unplayed spins and carry this round's paid win at the locked bet''
      else Inr ())"

fun startedFacts :: "FeatureEvent option \<Rightarrow> FeatureMode option \<times> int" where
  "startedFacts (Some (FreeSpinsStarted m awarded)) = (Some m, awarded)"
| "startedFacts _ = (None, 0)"

definition played :: "FeatureState \<Rightarrow> int" where
  "played s = (case freeSpinsPlayed s of None \<Rightarrow> 0 | Some n \<Rightarrow> n)"

definition validateBaseOrigin :: "FeatureState \<Rightarrow> SpinResult \<Rightarrow> origin_error + unit" where
  "validateBaseOrigin origin result =
     (let evs = events result; next1 = featureState result;
          started = eventOfType evs free_spins_started;
          wheelStarted = eventOfType evs wheel_started;
          wheelAwarded = eventOfType evs wheel_awarded in
      if eventOfType evs free_spins_completed \<noteq> None
        \<or> hasEvent evs free_spin_awarded \<or> hasEvent evs free_spin_cap_reached
      then refuse ''Base origin cannot complete or extend Free Spins''
      else if (wheelStarted = None) \<noteq> (wheelAwarded = None)
      then refuse ''A Primal Wheel transition requires matching wheel.started and wheel.awarded events''
      else case wheelAwarded of
        None \<Rightarrow>
          if started \<noteq> None
          then refuse ''Free Spins start requires a matching Primal Wheel outcome''
          else if mode next1 \<noteq> BASE
          then refuse ''A new feature state requires free_spins.started''
          else Inr ()
      | Some (WheelAwarded outcome prize mult amount) \<Rightarrow>
          if outcome = ''INSTANT'' then
            (if started \<noteq> None then refuse ''INSTANT must not start Free Spins''
             else bindE (validateInstantWheelAward (WheelAwarded outcome prize mult amount)
                 (betMinor result) (hasEvent evs win_cap_reached)) (\<lambda>_.
               if mode next1 \<noteq> BASE \<or> freeSpinsRemaining next1 \<noteq> 0 \<or> played next1 \<noteq> 0
               then refuse ''INSTANT must project the next feature state as BASE''
               else Inr ()))
          else if outcome \<noteq> ''EXPANSION'' \<and> outcome \<noteq> ''OVERDRIVE''
          then refuse ''Unknown Primal Wheel outcome''
          else bindE (validateFeatureWheelAward (WheelAwarded outcome prize mult amount)) (\<lambda>_.
            baseFeatureStart result outcome (startedFacts started))
      | _ \<Rightarrow> Inl OriginTypeError)"

fun awardedCount :: "FeatureEvent \<Rightarrow> int" where
  "awardedCount (FreeSpinAwarded count p) = count"
| "awardedCount _ = 0"

text \<open>\<open>completed.mode\<close>, \<open>completed.awarded\<close>, \<open>completed.cumulativeWinMinor\<close> agree.\<close>

fun completionMatches :: "FeatureEvent option \<Rightarrow> FeatureMode \<Rightarrow> int \<Rightarrow> string \<Rightarrow> bool" where
  "completionMatches (Some (FreeSpinsCompleted m awarded cumulative)) m' awarded' win =
     (m = m' \<and> awarded = awarded' \<and> cumulative = win)"
| "completionMatches _ m' awarded' win = False"

definition validateFreeSpinCounters :: "FeatureState \<Rightarrow> SpinResult \<Rightarrow> origin_error + unit" where
  "validateFreeSpinCounters origin result =
     (let evs = events result; next1 = featureState result;
          completed = eventOfType evs free_spins_completed;
          awardCount = sum_list (map awardedCount (eventsOfType evs free_spin_awarded));
          originPlayed = played origin;
          originAwarded = freeSpinsRemaining origin + originPlayed;
          expectedRemaining = freeSpinsRemaining origin - 1 + awardCount;
          expectedAwarded = originAwarded + awardCount;
          expectedWin = addMoney (freeSpinsWinMinor origin) (totalWinMinor result) in
      if 0 < expectedRemaining then
        (if completed \<noteq> None
           \<or> mode next1 \<noteq> mode origin
           \<or> freeSpinsRemaining next1 \<noteq> expectedRemaining
           \<or> freeSpinsPlayed next1 \<noteq> Some (originPlayed + 1)
           \<or> baseBetMinor next1 \<noteq> baseBetMinor origin
           \<or> freeSpinsWinMinor next1 \<noteq> Some expectedWin
         then refuse ''Active Free Spins result violates counter or win conservation''
         else Inr ())
      else if expectedRemaining \<noteq> 0
        \<or> mode next1 \<noteq> BASE
        \<or> completed = None
        \<or> indexOfType evs free_spins_completed \<noteq> int (length evs) - 1
        \<or> \<not> completionMatches completed (mode origin) expectedAwarded expectedWin
      then refuse ''Terminal Free Spins result violates completion conservation''
      else Inr ())"

definition validateFreeSpinsOrigin :: "FeatureState \<Rightarrow> SpinResult \<Rightarrow> origin_error + unit" where
  "validateFreeSpinsOrigin origin result =
     (let evs = events result; next1 = featureState result;
          freeSpinAwards = eventsOfType evs free_spin_awarded in
      if eventOfType evs free_spins_started \<noteq> None
      then refuse ''An active Free Spins round cannot start another feature''
      else if rageLevel next1 \<noteq> rageLevel origin \<or> rageCollected next1 \<noteq> rageCollected origin
      then refuse ''Free Spins cannot change the persistent Rage meter''
      else if chargedBetMinor result \<noteq> ''0'' \<or> Some (betMinor result) \<noteq> baseBetMinor origin
      then refuse ''Free Spins must be uncharged and retain their locked bet''
      else if hasEvent evs surge_collected \<or> hasEvent evs rage_transformed
        \<or> hasEvent evs wheel_started \<or> hasEvent evs wheel_awarded
      then refuse ''Rage and Wheel events are Base-only''
      else if mode origin \<noteq> EXPANSION \<and> freeSpinAwards \<noteq> []
      then refuse ''Only Kong Quest can award extra Free Spins''
      else if list_ex (\<lambda>e. awardedCount e \<noteq> 1) freeSpinAwards
      then refuse ''Each Kong Quest Vault must award exactly one Free Spin''
      else validateFreeSpinCounters origin result)"

definition validateSpinResultAgainstOrigin ::
  "FeatureState \<Rightarrow> SpinResult \<Rightarrow> origin_error + unit" where
  "validateSpinResultAgainstOrigin origin result =
     (if mode origin = BASE \<and> chargedBetMinor result \<noteq> betMinor result
      then refuse ''Base spins must charge exactly their submitted bet''
      else bindE (validateWinCapAgainstOrigin origin result) (\<lambda>_.
        bindE (validateGridAgainstOrigin origin result) (\<lambda>_.
        bindE (validateVaultEventsAgainstOrigin origin (result_grid result) (events result)
          (betMinor result)) (\<lambda>_.
        bindE (validateRageEventsAgainstOrigin origin result) (\<lambda>_.
        if mode origin = BASE then validateBaseOrigin origin result
        else validateFreeSpinsOrigin origin result)))))"

end
