(* ===== verification/Vault_Contract.thy ===== *)
theory Vault_Contract
  imports Origin_Rules
begin

text \<open>
  What an accepted Vault sequence guarantees: the scan of \<open>validateVaultEventsAgainstOrigin\<close>
  collects exactly the reveal, award and free-spin events, each settled Vault once; the
  money the awards pay is the value the settled grid shows.
\<close>

section \<open>What the scan collects\<close>

fun awardEntry :: "FeatureEvent \<Rightarrow> (string \<times> int \<times> string \<times> string option) list" where
  "awardEntry (VaultAwarded p m a pr) = [(eventKey (VaultAwarded p m a pr), m, a, pr)]"
| "awardEntry _ = []"

fun revealEntry :: "FeatureEvent \<Rightarrow> (string \<times> string \<times> int option) list" where
  "revealEntry (VaultUnlocked p pr m) = [(eventKey (VaultUnlocked p pr m), pr, m)]"
| "revealEntry _ = []"

fun freeEntry :: "FeatureEvent \<Rightarrow> (string \<times> FeatureEvent) list" where
  "freeEntry (FreeSpinAwarded c p) = [(eventKey (FreeSpinAwarded c p), FreeSpinAwarded c p)]"
| "freeEntry (FreeSpinCapReached p) = [(eventKey (FreeSpinCapReached p), FreeSpinCapReached p)]"
| "freeEntry _ = []"

definition collects :: "string list \<Rightarrow> (string \<times> 'v) list \<Rightarrow> (string \<times> 'v) list \<Rightarrow> bool" where
  "collects keys es m =
     (m = es \<and> distinct (map fst es) \<and> set (map fst es) \<subseteq> set keys)"

lemma collects_set:
  "collects keys es m \<Longrightarrow> \<not> mapHas m k \<Longrightarrow> k \<in> set keys \<Longrightarrow> collects keys (es @ [(k, v)]) (mapSet m k v)"
  by (auto simp: collects_def mapHas_keys update_fresh)

definition scanned :: "string list \<Rightarrow> FeatureEvent list \<Rightarrow> vault_scan \<Rightarrow> bool" where
  "scanned keys evs st =
     (collects keys (concat (map revealEntry evs)) (reveals st)
      \<and> collects keys (concat (map awardEntry evs)) (awards st)
      \<and> collects keys (concat (map freeEntry evs)) (freeResults st))"

lemma scanned_step:
  "scanned keys evs st \<Longrightarrow> vaultScanStep m keys capped us uc (i, e) st = Inr st' \<Longrightarrow>
     scanned keys (evs @ [e]) st'"
  by (cases e)
    (auto simp: scanned_def vaultScanStep_def scanReveal_def scanAward_def scanFreeResult_def
      accept intro: collects_set simp del: split_paired_All)

lemma vaultScan_scanned:
  assumes "foldE (vaultScanStep m keys capped us uc) (entriesFrom 0 evs)
    \<lparr>reveals = [], awards = [], freeResults = []\<rparr> = Inr st"
  shows "scanned keys evs st"
proof -
  have "scanned keys (map snd (entriesFrom 0 evs)) st"
  proof (rule foldE_snoc_invariant [OF assms])
    show "scanned keys (map snd []) \<lparr>reveals = [], awards = [], freeResults = []\<rparr>"
      by (simp add: scanned_def collects_def)
  next
    fix ys :: "(int \<times> FeatureEvent) list" and x s s'
    assume "scanned keys (map snd ys) s" "vaultScanStep m keys capped us uc x s = Inr s'"
    then show "scanned keys (map snd (ys @ [x])) s'"
      using scanned_step [of keys "map snd ys" s m capped us uc "fst x" "snd x" s'] by simp
  qed
  then show ?thesis by simp
qed

section \<open>Payments\<close>

fun vaultAmount :: "FeatureEvent \<Rightarrow> int" where
  "vaultAmount (VaultAwarded p m a pr) = BigInt a"
| "vaultAmount _ = 0"

definition vaultPay :: "FeatureEvent list \<Rightarrow> int" where
  "vaultPay evs = sum_list (map vaultAmount evs)"

definition cellValue :: "grid \<Rightarrow> CellAddress \<Rightarrow> int" where
  "cellValue g p = (case cellAt g p of None \<Rightarrow> 0
     | Some c \<Rightarrow> (case cell_multiplier c of None \<Rightarrow> 0 | Some m \<Rightarrow> m))"

definition vaultValue :: "grid \<Rightarrow> int" where
  "vaultValue g = sum_list (map (cellValue g) (positionsForSymbol g VAULT))"

definition paidOf :: "int \<times> string \<times> string option \<Rightarrow> int" where
  "paidOf v = BigInt (fst (snd v))"

lemma vaultPay_entries:
  "vaultPay evs = sum_list (map (\<lambda>kv. paidOf (snd kv)) (concat (map awardEntry evs)))"
proof (induction evs)
  case Nil
  then show ?case by (simp add: vaultPay_def)
next
  case (Cons e evs)
  then show ?case by (cases e) (simp_all add: vaultPay_def paidOf_def)
qed

lemma vaultPay_positions:
  assumes "scanned (map positionKey ps) evs st" "distinct ps"
  shows "vaultPay evs = sum_list (map (\<lambda>p. case map_of (awards st) (positionKey p) of
     None \<Rightarrow> 0 | Some v \<Rightarrow> paidOf v) ps)"
proof -
  from assms(1) have c: "collects (map positionKey ps) (concat (map awardEntry evs)) (awards st)"
    by (simp add: scanned_def)
  then have d: "distinct (map fst (awards st))" "set (map fst (awards st)) \<subseteq> set (map positionKey ps)"
    by (auto simp only: collects_def)
  have "vaultPay evs = sum_list (map (\<lambda>kv. paidOf (snd kv)) (awards st))"
    using c by (simp add: collects_def vaultPay_entries)
  also have "\<dots> = sum_list (map (\<lambda>k. case map_of (awards st) k of None \<Rightarrow> 0 | Some v \<Rightarrow> paidOf v)
      (map positionKey ps))"
    using assms(2) d by (intro sum_list_map_of) simp_all
  finally show ?thesis by (simp add: comp_def)
qed

text \<open>The amount paid for one Vault: its multiplier times the bet, at most that when capped.\<close>

definition pays :: "bool \<Rightarrow> int \<Rightarrow> int \<Rightarrow> bool" where
  "pays capped amount nominal = (if capped then amount \<le> nominal else amount = nominal)"

lemma pays_sum:
  "(\<And>p. p \<in> set ps \<Longrightarrow> pays capped (f p) (bet * h p)) \<Longrightarrow>
     pays capped (sum_list (map f ps)) (bet * sum_list (map h ps))"
proof (induction ps)
  case Nil
  then show ?case by (simp add: pays_def)
next
  case (Cons p ps)
  have "pays capped (f p) (bet * h p)" using Cons.prems by simp
  moreover have "pays capped (sum_list (map f ps)) (bet * sum_list (map h ps))"
    using Cons by simp
  ultimately show ?case by (auto simp: pays_def distrib_left split: if_splits)
qed

lemma expectedVaultAmount_Inr [accept]:
  "expectedVaultAmount bet m = Inr a \<longleftrightarrow> a = BigInt bet * m \<and> a \<le> MAX_SIGNED_INT64"
  by (auto simp: expectedVaultAmount_def Let_def)

lemma plainVaultFinal_pays:
  "plainVaultFinal g bet capped st p = Inr () \<Longrightarrow>
     pays capped (case map_of (awards st) (positionKey p) of None \<Rightarrow> 0 | Some v \<Rightarrow> paidOf v)
       (BigInt bet * cellValue g p)"
  by (auto simp: plainVaultFinal_def Let_def accept pays_def paidOf_def cellValue_def
      split: option.splits if_splits)

lemma kingSpinFinal_pays:
  "kingSpinFinal g bet capped st u p = Inr () \<Longrightarrow>
     pays capped (case map_of (awards st) (positionKey p) of None \<Rightarrow> 0 | Some v \<Rightarrow> paidOf v)
       (BigInt bet * cellValue g p)"
  by (cases "map_of (currentMultiplier u) (positionKey p)") (auto simp: kingSpinFinal_def Let_def accept pays_def paidOf_def cellValue_def
      split: option.splits if_splits)


lemma no_vault_pay:
  assumes "\<forall>e \<in> set evs. type_of e \<noteq> vault_awarded"
  shows "vaultPay evs = 0"
proof -
  have "vaultAmount e = 0" if "type_of e \<noteq> vault_awarded" for e
    using that by (cases e) simp_all
  with assms show ?thesis unfolding vaultPay_def by (simp add: sum_list_zero)
qed

lemma two_distinct_types:
  assumes "length (filter (\<lambda>e. type_of e \<in> S) evs) = 2" "hasEvent evs a" "hasEvent evs b"
    "a \<in> S" "b \<in> S" "a \<noteq> b" "c \<in> S" "c \<noteq> a" "c \<noteq> b"
  shows "\<not> hasEvent evs c"
proof
  assume "hasEvent evs c"
  let ?f = "filter (\<lambda>e. type_of e \<in> S) evs"
  have "{a, b, c} \<subseteq> set (map type_of ?f)"
    using assms \<open>hasEvent evs c\<close> by (auto simp: hasEvent_iff image_iff)
  then have "card {a, b, c} \<le> length (map type_of ?f)"
    by (meson List.finite_set card_length card_mono le_trans)
  with assms show False by simp
qed

lemma lockedVault_nothing:
  assumes "lockedVaultBranch origin g evs positions i = Inr ()"
    "hasEvent evs vaults_landed" "hasEvent evs vaults_locked"
  shows "vaultPay evs = 0" "p \<in> set positions \<Longrightarrow> cellValue g p = 0"
    "p \<in> set positions \<Longrightarrow> \<exists>c. cellAt g p = Some c \<and> cell_multiplier c = None \<and> cell_prize c = None"
    "\<not> hasEvent evs free_spin_awarded"
proof -
  have n: "length (filter (\<lambda>e. type_of e \<in> set VAULT_SEMANTIC_TYPES) evs) = 2"
    and f: "\<forall>p \<in> set positions. (case cellAt g p of
             None \<Rightarrow> refuse ''Locked Vault cannot expose a settled reward''
           | Some cell \<Rightarrow>
               if cell_multiplier cell \<noteq> None \<or> cell_prize cell \<noteq> None
               then refuse ''Locked Vault cannot expose a settled reward''
               else Inr ()) = Inr ()"
    using assms(1) by (simp_all add: lockedVaultBranch_def accept foldE_each)
  have "\<not> hasEvent evs vault_awarded" and fs: "\<not> hasEvent evs free_spin_awarded"
    by (rule two_distinct_types [OF n assms(2,3)]; simp add: VAULT_SEMANTIC_TYPES_def)+
  then show "vaultPay evs = 0" by (intro no_vault_pay) (auto simp: hasEvent_iff)
  show "\<not> hasEvent evs free_spin_awarded" by (rule fs)
  show c: "\<exists>c. cellAt g p = Some c \<and> cell_multiplier c = None \<and> cell_prize c = None"
    if "p \<in> set positions" for p
    using f that by (fastforce split: option.splits if_splits)
  show "cellValue g p = 0" if "p \<in> set positions"
    using c [OF that] by (auto simp: cellValue_def)
qed

lemma vaultLandedIndex_Inr:
  "vaultLandedIndex origin evs positions = Inr i \<Longrightarrow> i = indexOfType evs vaults_landed \<and> hasEvent evs vaults_landed"
  using indexOfType_neg [of evs vaults_landed]
  by (auto simp: vaultLandedIndex_def Let_def accept split: if_splits)

lemma unlockedVault_pays:
  assumes "unlockedVaultBranch origin g evs bet positions i = Inr ()" "distinct positions"
  shows "pays (hasEvent evs win_cap_reached) (vaultPay evs)
    (BigInt bet * sum_list (map (cellValue g) positions))"
proof -
  obtain st where st: "scanned (map positionKey positions) evs st"
    and c: "\<forall>p \<in> set positions. plainVaultFinal g bet (hasEvent evs win_cap_reached) st p = Inr ()
      \<or> (\<exists>u. kingSpinFinal g bet (hasEvent evs win_cap_reached) st u p = Inr ())"
    using assms(1)
    by (auto simp: unlockedVaultBranch_def Let_def accept plainVaults_def kingSpinVaults_def
        foldE_each dest!: vaultScan_scanned split: if_splits)
  have "pays (hasEvent evs win_cap_reached)
      (case map_of (awards st) (positionKey p) of None \<Rightarrow> 0 | Some v \<Rightarrow> paidOf v)
      (BigInt bet * cellValue g p)" if "p \<in> set positions" for p
    using c that plainVaultFinal_pays kingSpinFinal_pays by blast
  from pays_sum [of positions, OF this] show ?thesis
    by (simp add: vaultPay_positions [OF st assms(2)])
qed

lemma vault_conservation:
  assumes "validateVaultEventsAgainstOrigin origin g evs bet = Inr ()"
  shows "pays (hasEvent evs win_cap_reached) (vaultPay evs) (BigInt bet * vaultValue g)"
proof -
  consider (none) "positionsForSymbol g VAULT = []"
      "filter (\<lambda>e. type_of e \<in> set VAULT_SEMANTIC_TYPES) evs = []"
    | (locked) i where "lockedVaultBranch origin g evs (positionsForSymbol g VAULT) i = Inr ()"
      "hasEvent evs vaults_landed" "hasEvent evs vaults_locked"
    | (unlocked) i where "unlockedVaultBranch origin g evs bet (positionsForSymbol g VAULT) i = Inr ()"
    using assms
    by (auto simp: validateVaultEventsAgainstOrigin_def Let_def accept dest!: vaultLandedIndex_Inr
        split: if_splits) (metis One_nat_def eventsOfType_Nil length_0_conv zero_neq_one)
  then show ?thesis
  proof cases
    case none
    have "vaultPay evs = 0"
      using none(2) by (intro no_vault_pay) (auto simp: filter_empty_conv VAULT_SEMANTIC_TYPES_def)
    with none show ?thesis by (simp add: vaultValue_def pays_def)
  next
    case locked
    then have "vaultValue g = 0"
      unfolding vaultValue_def using lockedVault_nothing(2) by (blast intro: sum_list_zero)
    then show ?thesis using lockedVault_nothing(1) [OF locked] by (simp add: pays_def)
  next
    case unlocked
    then show ?thesis unfolding vaultValue_def by (rule unlockedVault_pays) simp
  qed
qed

lemma locked_branch:
  assumes "validateVaultEventsAgainstOrigin origin g evs bet = Inr ()" "hasEvent evs vaults_locked"
  obtains i where "lockedVaultBranch origin g evs (positionsForSymbol g VAULT) i = Inr ()"
    "hasEvent evs vaults_landed"
proof -
  have ne: "eventsOfType evs vaults_locked \<noteq> []" using assms(2) by (simp add: eventsOfType_Nil)
  have "positionsForSymbol g VAULT \<noteq> []"
  proof
    assume "positionsForSymbol g VAULT = []"
    then have "filter (\<lambda>e. type_of e \<in> set VAULT_SEMANTIC_TYPES) evs = []"
      using assms(1) by (simp add: validateVaultEventsAgainstOrigin_def split: if_splits)
    then show False
      using assms(2) by (auto simp: hasEvent_iff filter_empty_conv VAULT_SEMANTIC_TYPES_def)
  qed
  then show ?thesis
    using assms(1) ne that
    by (auto simp: validateVaultEventsAgainstOrigin_def Let_def accept dest!: vaultLandedIndex_Inr
        split: if_splits)
qed

end
