(* ===== verification/Feature_Cycle.thy ===== *)
theory Feature_Cycle
  imports Vault_Contract
begin

text \<open>
  Sequences of results that \<open>validateSpinResultAgainstOrigin\<close> accepts, each submitted in
  the state the one before projected: the whole-game win cap over a feature cycle, the free
  spin counters, the end of a King Spin feature and the Rage meter of Base results.
\<close>

section \<open>Sessions of accepted results\<close>

definition accepts :: "FeatureState \<Rightarrow> SpinResult \<Rightarrow> bool" where
  "accepts origin result = (validateSpinResultAgainstOrigin origin result = Inr ())"

inductive spins :: "FeatureState \<Rightarrow> SpinResult list \<Rightarrow> FeatureState \<Rightarrow> bool" where
  spins_Nil: "spins s [] s"
| spins_Cons: "accepts s r \<Longrightarrow> spins (featureState r) rs s' \<Longrightarrow> spins s (r # rs) s'"

inductive_cases spins_NilE: "spins s [] s'"
inductive_cases spins_ConsE: "spins s (r # rs) s'"

inductive_simps spins_simps [simp]: "spins s [] s'" "spins s (r # rs) s'"

definition cycleWin :: "SpinResult list \<Rightarrow> int" where
  "cycleWin rs = sum_list (map (\<lambda>r. BigInt (totalWinMinor r)) rs)"

lemma accepts_parts:
  assumes "accepts s r"
  shows "validateWinCapAgainstOrigin s r = Inr ()"
    and "validateGridAgainstOrigin s r = Inr ()"
    and "validateVaultEventsAgainstOrigin s (result_grid r) (events r) (betMinor r) = Inr ()"
    and "validateRageEventsAgainstOrigin s r = Inr ()"
    and "mode s = BASE \<Longrightarrow> chargedBetMinor r = betMinor r \<and> validateBaseOrigin s r = Inr ()"
    and "mode s \<noteq> BASE \<Longrightarrow> validateFreeSpinsOrigin s r = Inr ()"
  using assms
  by (auto simp: accepts_def validateSpinResultAgainstOrigin_def accept split: if_splits)

lemma winCap_bounds:
  assumes "validateWinCapAgainstOrigin s r = Inr ()"
  shows "0 \<le> priorWin s" "priorWin s + BigInt (totalWinMinor r) \<le> expectedCap r"
    "expectedCap r \<le> MAX_SIGNED_INT64"
  using assms by (auto simp: validateWinCapAgainstOrigin_def Let_def accept)

lemma winCap_event:
  assumes "validateWinCapAgainstOrigin s r = Inr ()" "hasEvent (events r) win_cap_reached"
  shows "priorWin s + BigInt (totalWinMinor r) = expectedCap r"
proof -
  obtain e es where "eventsOfType (events r) win_cap_reached = e # es"
    using assms(2) eventsOfType_Nil by (meson list.exhaust)
  then show ?thesis
    using assms(1)
    by (auto simp: validateWinCapAgainstOrigin_def Let_def accept split: FeatureEvent.splits)
qed

lemma winCap_no_event:
  assumes "validateWinCapAgainstOrigin s r = Inr ()" "\<not> hasEvent (events r) win_cap_reached"
    "0 < BigInt (totalWinMinor r)"
  shows "priorWin s + BigInt (totalWinMinor r) < expectedCap r"
proof -
  have "eventsOfType (events r) win_cap_reached = []"
    using assms(2) by (simp add: eventsOfType_Nil)
  then show ?thesis
    using assms(1,3) by (auto simp: validateWinCapAgainstOrigin_def Let_def accept)
qed

lemma free_spin_facts:
  assumes "accepts s r" "mode s \<noteq> BASE"
  shows "chargedBetMinor r = ''0''" "baseBetMinor s = Some (betMinor r)"
    "rageLevel (featureState r) = rageLevel s" "rageCollected (featureState r) = rageCollected s"
    "validateFreeSpinCounters s r = Inr ()"
  using accepts_parts(6) [OF assms] by (auto simp: validateFreeSpinsOrigin_def Let_def accept)

text \<open>The number of free spins a result awards.\<close>

definition spinAwards :: "SpinResult \<Rightarrow> int" where
  "spinAwards r = sum_list (map awardedCount (eventsOfType (events r) free_spin_awarded))"

lemma overdrive_awards_nothing:
  assumes "accepts s r" "mode s = OVERDRIVE"
  shows "spinAwards r = 0"
  using accepts_parts(6) [of s r] assms
  by (auto simp: validateFreeSpinsOrigin_def Let_def accept spinAwards_def)

lemma counters_active:
  assumes "validateFreeSpinCounters s r = Inr ()" "0 < freeSpinsRemaining s - 1 + spinAwards r"
  shows "mode (featureState r) = mode s"
    "freeSpinsRemaining (featureState r) = freeSpinsRemaining s - 1 + spinAwards r"
    "played (featureState r) = played s + 1"
    "baseBetMinor (featureState r) = baseBetMinor s"
    "freeSpinsWinMinor (featureState r) = Some (addMoney (freeSpinsWinMinor s) (totalWinMinor r))"
  using assms
  by (auto simp: validateFreeSpinCounters_def Let_def accept spinAwards_def played_def)

lemma completionMatches_iff [simp]:
  "completionMatches c m a w \<longleftrightarrow> c = Some (FreeSpinsCompleted m a w)"
  by (induction c m a w rule: completionMatches.induct) auto

lemma counters_terminal:
  assumes "validateFreeSpinCounters s r = Inr ()" "\<not> 0 < freeSpinsRemaining s - 1 + spinAwards r"
  shows "mode (featureState r) = BASE" "freeSpinsRemaining s - 1 + spinAwards r = 0"
    "eventOfType (events r) free_spins_completed
       = Some (FreeSpinsCompleted (mode s) (freeSpinsRemaining s + played s + spinAwards r)
           (addMoney (freeSpinsWinMinor s) (totalWinMinor r)))"
  using assms by (auto simp: validateFreeSpinCounters_def Let_def accept spinAwards_def)

lemma base_trigger:
  assumes "accepts s r" "mode s = BASE" "mode (featureState r) \<noteq> BASE"
  shows "freeSpinsWinMinor (featureState r) = Some (totalWinMinor r)"
    "baseBetMinor (featureState r) = Some (betMinor r)"
    "freeSpinsRemaining (featureState r) = 8" "played (featureState r) = 0"
proof -
  have b: "validateBaseOrigin s r = Inr ()"
    using accepts_parts(5) assms by blast
  have "\<exists>outcome. baseFeatureStart r outcome
      (startedFacts (eventOfType (events r) free_spins_started)) = Inr ()"
    using b assms(3)
    by (auto simp: validateBaseOrigin_def Let_def accept split: option.splits FeatureEvent.splits if_splits)
  then show "freeSpinsWinMinor (featureState r) = Some (totalWinMinor r)"
    "baseBetMinor (featureState r) = Some (betMinor r)"
    "freeSpinsRemaining (featureState r) = 8" "played (featureState r) = 0"
    by (auto simp: baseFeatureStart_def Let_def accept played_def)
qed

lemma priorWin_free: "mode s \<noteq> BASE \<Longrightarrow> freeSpinsWinMinor s = Some w \<Longrightarrow> priorWin s = BigInt w"
  by (simp add: priorWin_def)

lemma priorWin_step:
  assumes "accepts s r" "mode s \<noteq> BASE" "mode (featureState r) \<noteq> BASE"
  shows "priorWin (featureState r) = priorWin s + BigInt (totalWinMinor r)"
    "baseBetMinor (featureState r) = baseBetMinor s" 
proof -
  note c = free_spin_facts(5) [OF assms(1,2)]
  have pos: "0 < freeSpinsRemaining s - 1 + spinAwards r"
    using counters_terminal(1) [OF c] assms(3) by blast
  have nn: "0 \<le> priorWin s" using winCap_bounds(1) accepts_parts(1) assms(1) by blast
  then obtain w where w: "freeSpinsWinMinor s = Some w"
    using assms(2) by (cases "freeSpinsWinMinor s") (auto simp: priorWin_def BigInt_def digit_value_def code_def)
  show "priorWin (featureState r) = priorWin s + BigInt (totalWinMinor r)"
    using counters_active(1,5) [OF c pos] assms(2) w
    by (simp add: priorWin_def addMoney_def)
  show "baseBetMinor (featureState r) = baseBetMinor s"
    by (rule counters_active(4) [OF c pos])
qed


lemma expectedCap_bet: "expectedCap r = 2500 * BigInt (betMinor r)"
  by (simp add: expectedCap_def PRIMAL_MAX_WIN_MULTIPLIER_def)

lemma winCap_total:
  "accepts s r \<Longrightarrow> 0 \<le> priorWin s \<and> priorWin s + BigInt (totalWinMinor r) \<le> 2500 * BigInt (betMinor r)"
  using winCap_bounds(1,2) [OF accepts_parts(1)] by (simp add: expectedCap_bet)

lemma feature_win:
  assumes "spins s rs s'" "rs \<noteq> []" "mode s \<noteq> BASE" "baseBetMinor s = Some b"
    "\<forall>r \<in> set (butlast rs). mode (featureState r) \<noteq> BASE"
  shows "priorWin s + cycleWin rs \<le> 2500 * BigInt b
    \<and> (\<forall>r \<in> set rs. betMinor r = b \<and> chargedBetMinor r = ''0'')"
  using assms
proof (induction rule: spins.induct)
  case (spins_Nil s)
  then show ?case by simp
next
  case (spins_Cons s r rs s')
  note f = free_spin_facts [OF spins_Cons.hyps(1) spins_Cons.prems(2)]
  have bet: "betMinor r = b" using f(2) spins_Cons.prems(3) by simp
  show ?case
  proof (cases "rs = []")
    case True
    then show ?thesis using winCap_total [OF spins_Cons.hyps(1)] bet f(1)
      by (simp add: cycleWin_def)
  next
    case False
    then have m: "mode (featureState r) \<noteq> BASE" using spins_Cons.prems(4) by simp
    note p = priorWin_step [OF spins_Cons.hyps(1) spins_Cons.prems(2) m]
    have "priorWin (featureState r) + cycleWin rs \<le> 2500 * BigInt b
      \<and> (\<forall>r \<in> set rs. betMinor r = b \<and> chargedBetMinor r = ''0'')"
      using spins_Cons.IH False m p(2) spins_Cons.prems(3,4) by simp
    then show ?thesis using p(1) bet f(1) by (simp add: cycleWin_def)
  qed
qed

lemma cycle_win:
  assumes "spins s (r # rs) s'" "mode s = BASE"
    "\<forall>q \<in> set (butlast (r # rs)). mode (featureState q) \<noteq> BASE"
  shows "cycleWin (r # rs) \<le> 2500 * BigInt (betMinor r)
    \<and> chargedBetMinor r = betMinor r
    \<and> (\<forall>q \<in> set rs. betMinor q = betMinor r \<and> chargedBetMinor q = ''0'')"
proof -
  have acc: "accepts s r" and run: "spins (featureState r) rs s'" using assms(1) by auto
  have charged: "chargedBetMinor r = betMinor r" using accepts_parts(5) [OF acc] assms(2) by blast
  show ?thesis
  proof (cases "rs = []")
    case True
    then show ?thesis using winCap_total [OF acc] charged by (simp add: cycleWin_def)
  next
    case False
    then have m: "mode (featureState r) \<noteq> BASE" using assms(3) by simp
    note t = base_trigger [OF acc assms(2) m]
    have "priorWin (featureState r) + cycleWin rs \<le> 2500 * BigInt (betMinor r)
      \<and> (\<forall>q \<in> set rs. betMinor q = betMinor r \<and> chargedBetMinor q = ''0'')"
      using feature_win [OF run False m t(2)] assms(3) False by simp
    then show ?thesis using charged priorWin_free [OF m t(1)] by (simp add: cycleWin_def)
  qed
qed

lemma overdrive_countdown:
  assumes "spins s rs s'" "mode s = OVERDRIVE" "int (length rs) \<le> freeSpinsRemaining s"
  shows "if int (length rs) = freeSpinsRemaining s then rs = [] \<or> mode s' = BASE
    else mode s' = OVERDRIVE \<and> freeSpinsRemaining s' = freeSpinsRemaining s - int (length rs)
      \<and> played s' = played s + int (length rs)"
  using assms
proof (induction rule: spins.induct)
  case (spins_Nil s)
  then show ?case by simp
next
  case (spins_Cons s r rs s')
  have m: "mode s \<noteq> BASE" using spins_Cons.prems by simp
  note c = free_spin_facts(5) [OF spins_Cons.hyps(1) m]
  have a: "spinAwards r = 0" by (rule overdrive_awards_nothing [OF spins_Cons.hyps(1) spins_Cons.prems(1)])
  show ?case
  proof (cases "1 < freeSpinsRemaining s")
    case True
    then have pos: "0 < freeSpinsRemaining s - 1 + spinAwards r" using a by simp
    note act = counters_active [OF c pos]
    from spins_Cons.IH spins_Cons.prems act a True show ?thesis
      by (auto split: if_splits)
  next
    case False
    then have t: "\<not> 0 < freeSpinsRemaining s - 1 + spinAwards r" using a by simp
    note term1 = counters_terminal [OF c t]
    then have "rs = []" using spins_Cons.prems(2) a by auto
    then show ?thesis using term1 spins_Cons.hyps(2) a by simp
  qed
qed

lemma feature_ledger:
  assumes "spins s rs s'" "mode s \<noteq> BASE" "\<forall>r \<in> set rs. mode (featureState r) \<noteq> BASE"
  shows "mode s' = mode s \<and> played s' = played s + int (length rs)
    \<and> freeSpinsRemaining s' + played s' = freeSpinsRemaining s + played s + sum_list (map spinAwards rs)
    \<and> rageLevel s' = rageLevel s \<and> rageCollected s' = rageCollected s"
  using assms
proof (induction rule: spins.induct)
  case (spins_Nil s)
  then show ?case by simp
next
  case (spins_Cons s r rs s')
  note f = free_spin_facts [OF spins_Cons.hyps(1) spins_Cons.prems(1)]
  have pos: "0 < freeSpinsRemaining s - 1 + spinAwards r"
    using counters_terminal(1) [OF f(5)] spins_Cons.prems(2) by auto
  from counters_active [OF f(5) pos] spins_Cons f(3,4) show ?case by auto
qed

text \<open>The Rage meter a Base result must project.\<close>

definition rageLaw :: "FeatureState \<Rightarrow> SpinResult \<Rightarrow> bool" where
  "rageLaw s r =
     (let n = int (length (positionsForSymbol (result_grid r) SURGE));
          wheel = hasEvent (events r) wheel_awarded;
          s' = featureState r in
      n \<le> 3
      \<and> (n = 0 \<longrightarrow> \<not> wheel)
      \<and> (n = 3 \<longrightarrow> wheel)
      \<and> (if n = 0 \<or> n = 3 then rageCollected s' = rageCollected s \<and> rageLevel s' = rageLevel s
         else if wheel then rageCollected s' = 0 \<and> rageLevel s' = 1
         else rageCollected s' = rageCollected s + n \<and> 1 \<le> rageLevel s'))"

lemma rageEventCount_zero:
  "rageEventCount evs = 0 \<Longrightarrow> \<not> hasEvent evs wheel_awarded"
  by (simp add: rageEventCount_def eventsOfType_Nil)

lemma settledRage_law:
  assumes "settledRage s r ps = Inr ()" "ps = positionsForSymbol (result_grid r) SURGE" "ps \<noteq> []"
  shows "rageLaw s r"
proof -
  let ?evs = "events r"
  obtain count cells triggered guaranteed level tot es where
    n3: "int (length ps) \<le> 3"
    and "eventsOfType ?evs surge_collected = SurgeCollected count cells triggered guaranteed level tot # es"
    and mis: "\<not> collectionMismatch s ps count cells triggered guaranteed level tot"
    and lev: "int (length ps) = 3 \<longrightarrow> level = rageLevel s"
    and rest: "if triggered then triggeredRage s r ps level tot = Inr ()
      else \<not> hasEvent ?evs wheel_awarded \<and> rageLevel (featureState r) = level
        \<and> rageCollected (featureState r) = (if int (length ps) = 3 then rageCollected s
            else rageCollected s + int (length ps))"
    using assms(1)
    by (auto simp: settledRage_def Let_def accept split: list.splits FeatureEvent.splits if_splits)
  have pos: "0 < length ps" using assms(3) by simp
  show ?thesis
  proof (cases triggered)
    case True
    then have t: "triggeredRage s r ps level tot = Inr ()" using rest by simp
    then have w: "hasEvent ?evs wheel_awarded"
      using eventsOfType_Nil [of ?evs wheel_awarded] by (auto simp: triggeredRage_def Let_def accept)
    show ?thesis
    proof (cases "length ps < 3")
      case True
      with t w pos assms(2) show ?thesis
        by (auto simp: rageLaw_def Let_def triggeredRage_def accept)
    next
      case False
      with t w n3 assms(2) show ?thesis
        by (auto simp: rageLaw_def Let_def triggeredRage_def accept)
    qed
  next
    case False
    with rest mis n3 pos assms(2) show ?thesis
      by (auto simp: rageLaw_def Let_def collectionMismatch_def)
  qed
qed

lemma base_rage:
  assumes "accepts s r" "mode s = BASE"
  shows "rageLaw s r"
proof (cases "positionsForSymbol (result_grid r) SURGE = []")
  case True
  with accepts_parts(4) [OF assms(1)] assms(2) show ?thesis
    using rageEventCount_zero [of "events r"]
    by (auto simp: validateRageEventsAgainstOrigin_def Let_def accept rageLaw_def)
next
  case False
  with accepts_parts(4) [OF assms(1)] assms(2) show ?thesis
    by (intro settledRage_law [OF _ refl]) (simp_all add: validateRageEventsAgainstOrigin_def Let_def)
qed

end
