(* ===== verification/Origin_Totality.thy ===== *)
theory Origin_Totality
  imports Feature_Cycle
begin

text \<open>
  The guard dereferences \<open>reveals.get(key)!\<close>, \<open>awards.get(key)!\<close> and the first event of a
  type without a check of its own. On typed events none of these reads \<open>undefined\<close>: the
  guard answers or throws its own error.
\<close>

lemma never_refuse [never_intro]: "never OriginTypeError (refuse s)"
  by (simp add: never_def)

lemma typed_shapes:
  assumes "event_typed e"
  shows "type_of e = win_cap_reached \<Longrightarrow> \<exists>m c. e = WinCapReached m c"
    "type_of e = grid_expanded \<Longrightarrow> \<exists>a b. e = GridExpanded a b"
    "type_of e = wheel_awarded \<Longrightarrow> \<exists>o1 p m a. e = WheelAwarded o1 p m a"
    "type_of e = surge_collected \<Longrightarrow> \<exists>c cs t g l n. e = SurgeCollected c cs t g l n"
    "type_of e \<in> set vault_group_types \<Longrightarrow> \<exists>t c cs. e = VaultGroup t c cs"
  using assms by (cases e; auto simp: vault_group_types_def)+

lemma never_assertGroup [never_intro]:
  assumes "list_all event_typed evs" "hasEvent evs t" "t \<in> set vault_group_types"
  shows "never OriginTypeError (assertGroupOfType evs t ps)"
proof -
  obtain e es where e: "eventsOfType evs t = e # es"
    using assms(2) eventsOfType_Nil by (meson list.exhaust)
  then have "event_typed e" "type_of e = t"
    using eventsOfType_set [of e evs t] assms(1) by (auto simp: list_all_iff)
  then obtain t' c cs where "e = VaultGroup t' c cs" using typed_shapes(5) assms(3) by metis
  then show ?thesis using e by (auto simp: assertGroupOfType_def intro: never_intro)
qed

lemma has_one: "length (eventsOfType evs t) = 1 \<Longrightarrow> hasEvent evs t"
  using eventsOfType_Nil [of evs t] by auto

lemma never_landed [never_intro]:
  "list_all event_typed evs \<Longrightarrow> never OriginTypeError (vaultLandedIndex s evs ps)"
  unfolding vaultLandedIndex_def Let_def
  by (intro never_intro) (auto simp: vault_group_types_def intro: has_one)

lemma never_locked [never_intro]:
  "list_all event_typed evs \<Longrightarrow> hasEvent evs vaults_locked \<Longrightarrow>
     never OriginTypeError (lockedVaultBranch s g evs ps i)"
  unfolding lockedVaultBranch_def
  by (intro never_intro) (auto simp: vault_group_types_def never_def split: option.splits)

text \<open>A table with as many entries as there are Vaults has an entry for each of them.\<close>

lemma full_table:
  assumes "collects (map positionKey ps) es m" "mapSize m = int (length ps)" "distinct ps" "p \<in> set ps"
  shows "\<exists>v. map_of m (positionKey p) = Some v"
proof -
  have d: "distinct (map fst m)" "set (map fst m) \<subseteq> set (map positionKey ps)"
    using assms(1) by (auto simp only: collects_def)
  have "card (set (map fst m)) = card (set (map positionKey ps))"
    using d(1) assms(2,3) distinct_card [of "map fst m"] distinct_card [of "map positionKey ps"]
    by (simp add: mapSize_def)
  then have "set (map fst m) = set (map positionKey ps)"
    using d(2) by (meson List.finite_set card_subset_eq)
  then have "positionKey p \<in> set (map fst m)" using assms(4) by simp
  then show ?thesis by (cases "map_of m (positionKey p)") (simp_all add: map_of_eq_None_iff)
qed

lemma never_amount [never_intro]: "never OriginTypeError (expectedVaultAmount bet m)"
  by (simp add: expectedVaultAmount_def Let_def never_def)

lemma never_finish [never_intro]: "never OriginTypeError (finishStep u)"
  by (simp add: finishStep_def never_def)

lemma never_plainFinal:
  assumes "map_of (reveals st) (positionKey p) = Some v"
  shows "never OriginTypeError (plainVaultFinal g bet capped st p)"
  unfolding plainVaultFinal_def Let_def assms option.case
  by (intro never_intro)

lemma never_kingFinal:
  "map_of (awards st) (positionKey p) = Some v \<Longrightarrow>
     never OriginTypeError (kingSpinFinal g bet capped st u p)"
  unfolding kingSpinFinal_def Let_def by (intro never_intro) simp

lemma never_initial:
  assumes "\<And>p. p \<in> set ps \<Longrightarrow> \<exists>v. map_of (reveals st) (positionKey p) = Some v"
  shows "never OriginTypeError (initialReveals st ps)"
  unfolding initialReveals_def Let_def
  by (rule never_foldE) (use assms in \<open>auto simp: never_def split: option.splits\<close>)

lemma never_upgrade [never_intro]: "never OriginTypeError (upgradeStep keys entry u)"
  unfolding upgradeStep_def Let_def
  by (auto split: FeatureEvent.splits intro!: never_intro)

lemma never_order [never_intro]: "never OriginTypeError (kingSpinOrder evs uc)"
  unfolding kingSpinOrder_def Let_def by (intro never_intro)

lemma never_scan [never_intro]: "never OriginTypeError (vaultScanStep m keys capped us uc entry st)"
  unfolding vaultScanStep_def Let_def scanReveal_def scanAward_def scanFreeResult_def
  by (auto split: FeatureEvent.splits prod.splits intro!: never_intro)

lemma never_kingSpin:
  assumes "scanned (map positionKey ps) evs st" "mapSize (reveals st) = int (length ps)" "distinct ps"
  shows "never OriginTypeError (kingSpinVaults g evs bet capped ps uc st)"
proof -
  have r: "\<exists>v. map_of (reveals st) (positionKey p) = Some v" if "p \<in> set ps" for p
    using full_table assms that unfolding scanned_def by blast
  have a: "\<exists>v. map_of (awards st) (positionKey p) = Some v"
    if "p \<in> set ps" "mapSize (awards st) = int (length ps)" for p
    using full_table assms that unfolding scanned_def by blast
  show ?thesis
    unfolding kingSpinVaults_def
    by (intro never_intro never_initial r) (use a never_kingFinal in blast)+
qed

lemma never_plain:
  assumes "scanned (map positionKey ps) evs st" "mapSize (reveals st) = int (length ps)" "distinct ps"
  shows "never OriginTypeError (plainVaults g evs bet capped ps us uc st)"
proof -
  have "\<exists>v. map_of (reveals st) (positionKey p) = Some v" if "p \<in> set ps" for p
    using full_table assms that unfolding scanned_def by blast
  then show ?thesis
    unfolding plainVaults_def by (intro never_intro) (use never_plainFinal in blast)
qed

lemma never_unlocked [never_intro]:
  assumes "list_all event_typed evs" "hasEvent evs vaults_unlock_started"
    "hasEvent evs vaults_unlock_completed" "distinct ps"
  shows "never OriginTypeError (unlockedVaultBranch s g evs bet ps i)"
  unfolding unlockedVaultBranch_def Let_def
  by (intro never_intro assms never_kingSpin never_plain)
    (auto simp: vault_group_types_def assms dest!: vaultScan_scanned)

lemma never_vaults [never_intro]:
  assumes "list_all event_typed evs"
  shows "never OriginTypeError (validateVaultEventsAgainstOrigin s g evs bet)"
  unfolding validateVaultEventsAgainstOrigin_def Let_def
  by (intro never_intro assms) (auto intro: has_one)

lemma never_winCap [never_intro]:
  assumes "list_all event_typed (events r)"
  shows "never OriginTypeError (validateWinCapAgainstOrigin s r)"
proof -
  have "\<exists>m c. e = WinCapReached m c" if "eventsOfType (events r) win_cap_reached = e # es" for e es
    using eventsOfType_set [of e "events r" win_cap_reached] that assms typed_shapes(1) [of e]
    by (auto simp: list_all_iff)
  then show ?thesis
    unfolding validateWinCapAgainstOrigin_def Let_def
    by (cases "eventsOfType (events r) win_cap_reached") (auto intro!: never_if never_Inr never_refuse)
qed

lemma never_grid [never_intro]:
  assumes "list_all event_typed (events r)"
  shows "never OriginTypeError (validateGridAgainstOrigin s r)"
proof -
  have "\<exists>a b. e = GridExpanded a b" if "eventOfType (events r) grid_expanded = Some e" for e
    using eventOfType_Some [OF that] assms typed_shapes(2) [of e] by (auto simp: list_all_iff)
  then show ?thesis
    unfolding validateGridAgainstOrigin_def Let_def
    by (cases "eventOfType (events r) grid_expanded") (auto intro!: never_if never_Inr never_refuse)
qed

lemma never_rage [never_intro]:
  assumes "list_all event_typed (events r)"
  shows "never OriginTypeError (validateRageEventsAgainstOrigin s r)"
proof -
  have "never OriginTypeError (settledRage s r ps)" for ps
  proof (cases "eventsOfType (events r) surge_collected")
    case Nil
    then show ?thesis by (simp add: settledRage_def Let_def never_def)
  next
    case (Cons e es)
    then obtain c cs t g l n where e: "e = SurgeCollected c cs t g l n"
      using eventsOfType_set [of e "events r" surge_collected] assms typed_shapes(4) [of e]
      by (auto simp: list_all_iff)
    show ?thesis
      unfolding settledRage_def triggeredRage_def Let_def Cons e list.case FeatureEvent.case
      by (intro never_intro)
  qed
  then show ?thesis
    unfolding validateRageEventsAgainstOrigin_def Let_def by (intro never_intro)
qed

lemma never_base [never_intro]:
  assumes "list_all event_typed (events r)"
  shows "never OriginTypeError (validateBaseOrigin s r)"
proof (cases "eventOfType (events r) wheel_awarded")
  case None
  show ?thesis
    unfolding validateBaseOrigin_def Let_def None option.case by (intro never_intro)
next
  case (Some e)
  then obtain o1 p m a where e: "e = WheelAwarded o1 p m a"
    using eventOfType_Some [OF Some] assms typed_shapes(3) [of e] by (auto simp: list_all_iff)
  show ?thesis
    unfolding validateBaseOrigin_def baseFeatureStart_def Let_def Some e option.case FeatureEvent.case
      validateInstantWheelAward.simps validateFeatureWheelAward.simps
    by (intro never_intro)
qed

lemma never_free [never_intro]: "never OriginTypeError (validateFreeSpinsOrigin s r)"
  unfolding validateFreeSpinsOrigin_def validateFreeSpinCounters_def Let_def
  by (intro never_intro)

lemma never_origin:
  assumes "list_all event_typed (events r)"
  shows "never OriginTypeError (validateSpinResultAgainstOrigin s r)"
  unfolding validateSpinResultAgainstOrigin_def by (intro never_intro assms)

end
