(* ===== verification/Samples.thy ===== *)
theory Samples
  imports Protocol_Types
begin

text \<open>
  Concrete results the witnesses are evaluated on: a Base spin that unlocks a Vault and
  starts King Spin, a King Spin result, the last result of that feature, and a Base spin
  that credits one Rage symbol.
\<close>

definition plainCell :: "SymbolId \<Rightarrow> GridCell" where
  "plainCell s = \<lparr>cell_symbol = s, cell_multiplier = None, cell_prize = None, lockedVaultFace = None\<rparr>"

definition vaultCell :: "int \<Rightarrow> string \<Rightarrow> GridCell" where
  "vaultCell m prize = \<lparr>cell_symbol = VAULT, cell_multiplier = Some m, cell_prize = Some prize,
     lockedVaultFace = None\<rparr>"

definition wildCell :: "int \<Rightarrow> GridCell" where
  "wildCell m = \<lparr>cell_symbol = WILD, cell_multiplier = Some m, cell_prize = None,
     lockedVaultFace = None\<rparr>"

definition baseState :: FeatureState where
  "baseState = \<lparr>mode = BASE, freeSpinsRemaining = 0, freeSpinsPlayed = None, baseBetMinor = None,
     freeSpinsWinMinor = None, rageLevel = 2, rageCollected = 7\<rparr>"

definition kingState :: "int \<Rightarrow> int \<Rightarrow> string \<Rightarrow> FeatureState" where
  "kingState remaining done win = \<lparr>mode = OVERDRIVE, freeSpinsRemaining = remaining,
     freeSpinsPlayed = Some done, baseBetMinor = Some ''100'', freeSpinsWinMinor = Some win,
     rageLevel = 2, rageCollected = 7\<rparr>"

definition triggerGrid :: grid where
  "triggerGrid = [map plainCell [ORBIT, PRISM, SURGE],
     [vaultCell 5 ''X5'', plainCell NOVA, plainCell SURGE],
     map plainCell [SURGE, TANK, PULSE]]"

definition triggerEvents :: "FeatureEvent list" where
  "triggerEvents = [VaultGroup vaults_landed 1 [CellAddress 1 0],
     VaultGroup vaults_unlock_started 1 [CellAddress 1 0],
     VaultUnlocked (CellAddress 1 0) ''X5'' (Some 5),
     VaultAwarded (CellAddress 1 0) 5 ''500'' (Some ''X5''),
     VaultGroup vaults_unlock_completed 1 [CellAddress 1 0],
     SurgeCollected 3 [CellAddress 0 2, CellAddress 1 2, CellAddress 2 0] True True 2 7,
     WheelStarted, WheelAwarded ''OVERDRIVE'' (Some ''KING_SPIN'') None None,
     FreeSpinsStarted OVERDRIVE 8]"

definition spinResult ::
  "int \<Rightarrow> string \<Rightarrow> string \<Rightarrow> grid \<Rightarrow> Win list \<Rightarrow> FeatureEvent list \<Rightarrow> FeatureState \<Rightarrow> SpinResult" where
  "spinResult n charged win g ws evs s = \<lparr>requestId = ''spin-1'', sessionId = ''session-1'',
     roundId = ''round-1'', sequence = n, betMinor = ''100'', chargedBetMinor = charged,
     balanceMinor = ''99900'', totalWinMinor = win, result_grid = g, wins = ws,
     events = evs, featureState = s\<rparr>"

definition triggerResult :: SpinResult where
  "triggerResult = spinResult 1 ''100'' ''500'' triggerGrid [] triggerEvents (kingState 8 0 ''500'')"

definition emptyGrid :: grid where
  "emptyGrid = [map plainCell [ORBIT, PRISM, TANK], map plainCell [NOVA, NOVA, PULSE],
     map plainCell [TANK, TANK, PULSE]]"

definition kingGrid :: grid where
  "kingGrid = [map plainCell [ORBIT, PRISM, TANK], [vaultCell 20 ''MINI_2X'', plainCell NOVA, plainCell NOVA],
     map plainCell [TANK, TANK, PULSE]]"

definition kingEvents :: "FeatureEvent list" where
  "kingEvents = [VaultGroup vaults_landed 1 [CellAddress 1 0],
     VaultGroup vaults_unlock_started 1 [CellAddress 1 0],
     VaultUnlocked (CellAddress 1 0) ''X9'' (Some 9),
     VaultGroup vaults_unlock_completed 1 [CellAddress 1 0],
     VaultUpgradeStarted 1 1,
     VaultUpgraded (CellAddress 1 0) 9 20 ''MINI_2X'' 1,
     VaultAwarded (CellAddress 1 0) 20 ''2000'' (Some ''MINI_2X'')]"

definition kingResult :: SpinResult where
  "kingResult = spinResult 2 ''0'' ''2000'' kingGrid [] kingEvents (kingState 7 1 ''2500'')"

definition lastKingResult :: SpinResult where
  "lastKingResult = spinResult 9 ''0'' ''0'' emptyGrid [] [FreeSpinsCompleted OVERDRIVE 8 ''2500''] baseState"

definition creditGrid :: grid where
  "creditGrid = [map plainCell [ORBIT, PRISM, TANK], map plainCell [NOVA, SURGE, PULSE],
     map plainCell [TANK, TANK, PULSE]]"

definition creditResult :: SpinResult where
  "creditResult = spinResult 10 ''100'' ''0'' creditGrid []
     [SurgeCollected 1 [CellAddress 1 1] False False 2 8] (baseState\<lparr>rageCollected := 8\<rparr>)"

definition lockedGrid :: grid where
  "lockedGrid = [map plainCell [ORBIT, PRISM, TANK],
     [\<lparr>cell_symbol = VAULT, cell_multiplier = None, cell_prize = None, lockedVaultFace = Some ''x3''\<rparr>,
      plainCell NOVA, plainCell PULSE],
     map plainCell [TANK, TANK, PULSE]]"

definition lockedEvents :: "FeatureEvent list" where
  "lockedEvents = [VaultGroup vaults_landed 1 [CellAddress 1 0],
     VaultGroup vaults_locked 1 [CellAddress 1 0]]"

definition winGrid :: grid where
  "winGrid = [map plainCell [ORBIT, PRISM, TANK], [wildCell 2, plainCell NOVA, plainCell PULSE],
     map plainCell [ORBIT, TANK, PULSE]]"

definition orbitWin :: Win where
  "orbitWin = \<lparr>win_id = ''win-1'', win_symbol = ORBIT, win_ways = Some 1,
     win_nominalAmountMinor = ''200'', win_amountMinor = ''200'', win_multiplier = Some 2,
     win_cells = [CellAddress 0 0, CellAddress 1 0, CellAddress 2 0],
     win_pathAwards = Some [\<lparr>path_cells = [CellAddress 0 0, CellAddress 1 0, CellAddress 2 0],
       path_multiplier = 2, path_baseAmountMinor = ''100'', path_nominalAmountMinor = ''200'',
       path_amountMinor = ''200''\<rparr>]\<rparr>"

definition winResult :: SpinResult where
  "winResult = spinResult 11 ''100'' ''200'' winGrid [orbitWin] [] baseState"

end
