(* ===== verification/Origin_Properties.thy ===== *)
theory Origin_Properties
  imports Origin_Totality Samples
begin

text \<open>
  The properties of the origin guard and of the feature cycles it accepts, with witnesses
  on the sample results.
\<close>

section \<open>Sample evaluations\<close>

lemma trigger_accepted: "accepts baseState triggerResult"
  by code_simp

lemma king_accepted: "accepts (kingState 8 0 ''500'') kingResult"
  by code_simp

lemma last_king_accepted: "accepts (kingState 1 7 ''2500'') lastKingResult"
  by code_simp

lemma credit_accepted: "accepts baseState creditResult"
  by code_simp

lemma sample_run: "spins baseState [triggerResult, kingResult] (featureState kingResult)"
  using trigger_accepted king_accepted
  by (simp add: triggerResult_def spinResult_def kingState_def)

lemma locked_sample: "validateVaultEventsAgainstOrigin baseState lockedGrid lockedEvents ''100'' = Inr ()"
  by code_simp

section \<open>Vaults\<close>

text \<open>
  C12: when \<open>validateVaultEventsAgainstOrigin\<close> accepts a result, the money of all its
  \<open>vault.awarded\<close> events is the bet times the multipliers the settled VAULT cells show,
  in every mode and branch (no Vault, locked, unlocked, King Spin with upgrades); a result
  with \<open>win_cap.reached\<close> pays at most that.
\<close>

theorem vaults_pay_grid_value:
  assumes "validateVaultEventsAgainstOrigin origin g evs bet = Inr ()"
  shows "if hasEvent evs win_cap_reached then vaultPay evs \<le> BigInt bet * vaultValue g
    else vaultPay evs = BigInt bet * vaultValue g"
  using vault_conservation [OF assms] by (simp add: pays_def)

theorem vaults_pay_grid_value_witness:
  "vaultPay kingEvents = 2000 \<and> BigInt ''100'' * vaultValue kingGrid = 2000"
proof -
  have "validateVaultEventsAgainstOrigin (kingState 8 0 ''500'') kingGrid kingEvents ''100'' = Inr ()"
    using accepts_parts(3) [OF king_accepted] by (simp add: kingResult_def spinResult_def)
  from vaults_pay_grid_value [OF this] have "vaultPay kingEvents = BigInt ''100'' * vaultValue kingGrid"
    by (simp add: hasEvent_def kingEvents_def)
  moreover have "vaultPay kingEvents = 2000" by code_simp
  ultimately show ?thesis by simp
qed

text \<open>
  In the locked branch nothing is paid and nothing is revealed: no Vault money, no free
  spin, every settled VAULT cell is there without multiplier and prize, and the origin is
  not King Spin.
\<close>

theorem locked_vaults_pay_nothing:
  assumes "validateVaultEventsAgainstOrigin origin g evs bet = Inr ()"
    and "hasEvent evs vaults_locked"
  shows "vaultPay evs = 0 \<and> \<not> hasEvent evs free_spin_awarded \<and> mode origin \<noteq> OVERDRIVE
    \<and> (\<forall>p \<in> set (positionsForSymbol g VAULT).
         \<exists>c. cellAt g p = Some c \<and> cell_multiplier c = None \<and> cell_prize c = None)"
proof -
  obtain i where "lockedVaultBranch origin g evs (positionsForSymbol g VAULT) i = Inr ()"
    and landed: "hasEvent evs vaults_landed"
    by (rule locked_branch [OF assms])
  note locked = this(1)
  have "mode origin \<noteq> OVERDRIVE" using locked by (simp add: lockedVaultBranch_def accept)
  with lockedVault_nothing [OF locked landed assms(2)] show ?thesis by blast
qed

theorem locked_vaults_pay_nothing_witness:
  "vaultPay lockedEvents = 0
    \<and> (\<exists>c. cellAt lockedGrid (CellAddress 1 0) = Some c \<and> cell_prize c = None)"
proof -
  have h: "hasEvent lockedEvents vaults_locked" by (simp add: hasEvent_def lockedEvents_def)
  have "CellAddress 1 0 \<in> set (positionsForSymbol lockedGrid VAULT)" by code_simp
  with locked_vaults_pay_nothing [OF locked_sample h] show ?thesis by blast
qed

text \<open>
  The guard is total: on events that have the shape of their interface it never reads
  a property of \<open>undefined\<close>, whatever the origin, the grid and the order of the events.
\<close>

theorem origin_guard_total:
  assumes "list_all event_typed (events result)"
  shows "validateSpinResultAgainstOrigin origin result \<noteq> Inl OriginTypeError"
  using never_origin [OF assms] by (simp add: never_def)

theorem origin_guard_total_witness:
  "validateSpinResultAgainstOrigin (kingState 8 0 ''500'') triggerResult \<noteq> Inl OriginTypeError"
  by (rule origin_guard_total)
    (simp add: triggerResult_def spinResult_def triggerEvents_def vault_group_types_def)

section \<open>Money over a feature cycle\<close>

text \<open>
  An accepted result keeps the win carried so far plus its own win within 2500 times
  the bet, which fits a signed 64-bit integer; \<open>win_cap.reached\<close> is there only when the cap
  is met exactly, and a paying result without it stays strictly below.
\<close>

theorem accepted_win_within_cap:
  assumes "accepts origin result"
  shows "0 \<le> priorWin origin
    \<and> priorWin origin + BigInt (totalWinMinor result) \<le> 2500 * BigInt (betMinor result)
    \<and> 2500 * BigInt (betMinor result) \<le> 9223372036854775807
    \<and> (hasEvent (events result) win_cap_reached \<longrightarrow>
         priorWin origin + BigInt (totalWinMinor result) = 2500 * BigInt (betMinor result))
    \<and> (\<not> hasEvent (events result) win_cap_reached \<longrightarrow> 0 < BigInt (totalWinMinor result) \<longrightarrow>
         priorWin origin + BigInt (totalWinMinor result) < 2500 * BigInt (betMinor result))"
  using winCap_bounds [OF accepts_parts(1) [OF assms]] winCap_event [OF accepts_parts(1) [OF assms]]
    winCap_no_event [OF accepts_parts(1) [OF assms]]
  by (simp add: expectedCap_bet MAX_SIGNED_INT64_def)

theorem accepted_win_within_cap_witness:
  "priorWin (kingState 8 0 ''500'') + BigInt (totalWinMinor kingResult)
     \<le> 2500 * BigInt (betMinor kingResult)"
  using accepted_win_within_cap [OF king_accepted] by blast

text \<open>
  C11: a whole feature cycle (a Base spin and the free spins it starts, up to the first
  result back in Base) never pays more than 2500 times the bet of the Base spin, which is
  charged once: every free spin keeps the locked bet and is not charged.
\<close>

theorem feature_cycle_win_capped:
  assumes "spins origin (r # rs) s'" "mode origin = BASE"
    and "\<forall>q \<in> set (butlast (r # rs)). mode (featureState q) \<noteq> BASE"
  shows "cycleWin (r # rs) \<le> 2500 * BigInt (betMinor r)
    \<and> chargedBetMinor r = betMinor r
    \<and> (\<forall>q \<in> set rs. betMinor q = betMinor r \<and> chargedBetMinor q = ''0'')"
  by (rule cycle_win [OF assms])

theorem feature_cycle_win_capped_witness:
  "cycleWin [triggerResult, kingResult] \<le> 2500 * BigInt (betMinor triggerResult)"
proof -
  have "mode (featureState triggerResult) \<noteq> BASE"
    by (simp add: triggerResult_def spinResult_def kingState_def)
  then show ?thesis
    using feature_cycle_win_capped [OF sample_run] by (simp add: baseState_def)
qed

text \<open>
  C34: King Spin ends. From an accepted King Spin state every accepted result uses up one
  free spin and none is added, so the feature is over after exactly
  \<open>freeSpinsRemaining\<close> results and not before.
\<close>

theorem king_spin_countdown:
  assumes "spins origin rs s'" "mode origin = OVERDRIVE" "rs \<noteq> []"
    and "int (length rs) \<le> freeSpinsRemaining origin"
  shows "if int (length rs) = freeSpinsRemaining origin then mode s' = BASE
    else mode s' = OVERDRIVE
      \<and> freeSpinsRemaining s' = freeSpinsRemaining origin - int (length rs)
      \<and> played s' = played origin + int (length rs)"
  using overdrive_countdown [OF assms(1,2,4)] assms(3) by (auto split: if_splits)

theorem king_spin_countdown_witness:
  "mode (featureState lastKingResult) = BASE \<and> freeSpinsRemaining (featureState kingResult) = 7"
proof
  have "spins (kingState 1 7 ''2500'') [lastKingResult] (featureState lastKingResult)"
    using last_king_accepted by simp
  from king_spin_countdown [OF this] show "mode (featureState lastKingResult) = BASE"
    by (simp add: kingState_def)
  have "spins (kingState 8 0 ''500'') [kingResult] (featureState kingResult)"
    using king_accepted by simp
  from king_spin_countdown [OF this] show "freeSpinsRemaining (featureState kingResult) = 7"
    by (simp add: kingState_def)
qed

text \<open>
  As long as a feature runs, its mode and the Rage meter do not change, every result
  counts one spin played, and the spins played plus the spins left grow exactly by the free
  spins the results award.
\<close>

theorem feature_spin_ledger:
  assumes "spins origin rs s'" "mode origin \<noteq> BASE"
    and "\<forall>r \<in> set rs. mode (featureState r) \<noteq> BASE"
  shows "mode s' = mode origin \<and> played s' = played origin + int (length rs)
    \<and> freeSpinsRemaining s' + played s'
        = freeSpinsRemaining origin + played origin + sum_list (map spinAwards rs)
    \<and> rageLevel s' = rageLevel origin \<and> rageCollected s' = rageCollected origin"
  by (rule feature_ledger [OF assms])

theorem feature_spin_ledger_witness: "played (featureState kingResult) = 1"
proof -
  have "spins (kingState 8 0 ''500'') [kingResult] (featureState kingResult)"
    using king_accepted by simp
  from feature_spin_ledger [OF this] show ?thesis
    by (simp add: kingState_def kingResult_def spinResult_def played_def)
qed

section \<open>The Rage meter\<close>

text \<open>
  C33: a Base result settles at most three SURGE cells. Without one, and with three (which
  always start the Wheel), the meter stays; one or two that start the Wheel reset it to
  level 1 and 0 collected; otherwise they are credited one by one.
\<close>

theorem rage_meter_law:
  assumes "accepts origin result" "mode origin = BASE"
    and n: "n = int (length (positionsForSymbol (result_grid result) SURGE))"
    and wheel: "wheel = hasEvent (events result) wheel_awarded"
  shows "n \<le> 3 \<and> (n = 0 \<longrightarrow> \<not> wheel) \<and> (n = 3 \<longrightarrow> wheel)
    \<and> rageCollected (featureState result) =
        (if n = 0 \<or> n = 3 then rageCollected origin else if wheel then 0 else rageCollected origin + n)
    \<and> (n = 0 \<or> n = 3 \<longrightarrow> rageLevel (featureState result) = rageLevel origin)
    \<and> ((n = 1 \<or> n = 2) \<and> wheel \<longrightarrow> rageLevel (featureState result) = 1)"
  using base_rage [OF assms(1,2)] n wheel by (auto simp: rageLaw_def Let_def split: if_splits)

theorem rage_meter_law_witness: "rageCollected (featureState creditResult) = 7 + 1"
proof -
  have "positionsForSymbol (result_grid creditResult) SURGE = [CellAddress 1 1]"
    "\<not> hasEvent (events creditResult) wheel_awarded"
    by (simp_all add: creditResult_def spinResult_def hasEvent_def creditGrid_def
        positionsForSymbol_def plainCell_def)
  with rage_meter_law [OF credit_accepted _ refl refl] show ?thesis by (simp add: baseState_def)
qed

end
