(* ===== verification/Decoder_Fields.thy ===== *)
theory Decoder_Fields
  imports Origin_Rules "HOL-Library.Char_ord" "HOL-Library.List_Lexorder" "HOL-Library.Sublist"
begin

text \<open>
  \<open>protocol/decoder.ts\<close>, first part: the decoders of single values, of the feature state,
  of cells and the grid, of cell addresses and of a win with its path awards. Every decoder
  takes an unknown JavaScript value and returns the typed value or throws
  \<open>ProtocolDecodeError\<close>; the error carries the fixed text of the message, without the
  path and the offending key, which no code reads. The order of the checks is the source's.
\<close>

datatype decode_error = ProtocolDecodeError string | DecodeTypeError

abbreviation reject :: "string \<Rightarrow> decode_error + 'a" where
  "reject s \<equiv> Inl (ProtocolDecodeError s)"

section \<open>Single values\<close>

fun recordOf :: "js \<Rightarrow> decode_error + js_object" where
  "recordOf (JObject o1) = Inr o1"
| "recordOf _ = reject ''must be an object''"

text \<open>
  \<open>exactKeys\<close> looks for the first key outside \<open>allowed\<close> and throws when that key is
  truthy: the empty string is a key that \<open>find\<close> returns and \<open>if\<close> ignores.
\<close>

definition exactKeys :: "js_object \<Rightarrow> string list \<Rightarrow> decode_error + unit" where
  "exactKeys o1 allowed =
     (case find (\<lambda>k. k \<notin> set allowed) (Object_keys o1) of
        None \<Rightarrow> Inr ()
      | Some unexpected \<Rightarrow> if unexpected \<noteq> [] then reject ''is not allowed'' else Inr ())"

fun stringOf :: "js \<Rightarrow> decode_error + string" where
  "stringOf (JString s) = (if s = [] then reject ''must be a non-empty string'' else Inr s)"
| "stringOf _ = reject ''must be a non-empty string''"

definition boundedString :: "js \<Rightarrow> nat \<Rightarrow> decode_error + string" where
  "boundedString v maximumLength = bindE (stringOf v) (\<lambda>s.
     if maximumLength < length s then reject ''is too long'' else Inr s)"

fun numberOf :: "js \<Rightarrow> decode_error + js_number" where
  "numberOf (JNumber n) = (if isFinite n then Inr n else reject ''must be a finite number'')"
| "numberOf _ = reject ''must be a finite number''"

definition nonNegativeInteger :: "js \<Rightarrow> decode_error + int" where
  "nonNegativeInteger v = bindE (numberOf v) (\<lambda>n.
     case safeInteger n of
       None \<Rightarrow> reject ''must be a non-negative safe integer''
     | Some i \<Rightarrow> if i < 0 then reject ''must be a non-negative safe integer'' else Inr i)"

definition positiveInteger :: "js \<Rightarrow> decode_error + int" where
  "positiveInteger v = bindE (nonNegativeInteger v) (\<lambda>i.
     if i = 0 then reject ''must be a positive safe integer'' else Inr i)"

definition boundedInteger :: "js \<Rightarrow> int \<Rightarrow> int \<Rightarrow> decode_error + int" where
  "boundedInteger v minimum maximum = bindE (numberOf v) (\<lambda>n.
     case safeInteger n of
       None \<Rightarrow> reject ''must be an integer in range''
     | Some i \<Rightarrow> if i < minimum \<or> maximum < i then reject ''must be an integer in range'' else Inr i)"

definition money :: "js \<Rightarrow> decode_error + string" where
  "money v = bindE (stringOf v) (\<lambda>s.
     if \<not> MONEY_PATTERN s \<or> 19 < length s \<or> MAX_SIGNED_INT64 < BigInt s
     then reject ''must be a non-negative signed-int64 minor-unit integer string'' else Inr s)"

definition identifierOf :: "js \<Rightarrow> decode_error + string" where
  "identifierOf v = bindE (stringOf v) (\<lambda>s.
     if 128 < length s \<or> \<not> IDENTIFIER_PATTERN s then reject ''must be a protocol identifier''
     else Inr s)"

text \<open>\<open>value === undefined ? undefined : decode(value)\<close>.\<close>

definition optionalOf :: "(js \<Rightarrow> 'e + 'a) \<Rightarrow> js \<Rightarrow> 'e + 'a option" where
  "optionalOf f v = (if v = JUndefined then Inr None else bindE (f v) (\<lambda>x. Inr (Some x)))"

definition optionalIdentifier :: "js \<Rightarrow> decode_error + string option" where
  "optionalIdentifier v = optionalOf identifierOf v"

fun booleanOf :: "js \<Rightarrow> decode_error + bool" where
  "booleanOf (JBool b) = Inr b"
| "booleanOf _ = reject ''must be boolean''"

definition symbolOf :: "js \<Rightarrow> decode_error + SymbolId" where
  "symbolOf v = bindE (stringOf v) (\<lambda>s.
     case find (\<lambda>x. symbol_name x = s) SYMBOL_IDS of
       None \<Rightarrow> reject ''contains unsupported symbol''
     | Some x \<Rightarrow> Inr x)"

section \<open>Feature state, cells, grid\<close>

definition featureStateKeys :: "string list" where
  "featureStateKeys = [''mode'', ''freeSpinsRemaining'', ''freeSpinsPlayed'', ''baseBetMinor'',
     ''freeSpinsWinMinor'', ''rageLevel'', ''rageCollected'']"

definition featureStateOf :: "js \<Rightarrow> decode_error + FeatureState" where
  "featureStateOf v = bindE (recordOf v) (\<lambda>d.
     bindE (exactKeys d featureStateKeys) (\<lambda>_.
     bindE (stringOf (getProp d ''mode'')) (\<lambda>modeName.
     case mode_of_name modeName of
       None \<Rightarrow> reject ''mode is unsupported''
     | Some m \<Rightarrow>
         bindE (boundedInteger (getProp d ''freeSpinsRemaining'') 0 1000000) (\<lambda>remaining.
         bindE (optionalOf (\<lambda>x. boundedInteger x 1 1000000) (getProp d ''rageLevel'')) (\<lambda>level.
         bindE (optionalOf (\<lambda>x. boundedInteger x 0 1000000) (getProp d ''rageCollected'')) (\<lambda>collected.
         bindE (optionalOf (\<lambda>x. boundedInteger x 0 1000000) (getProp d ''freeSpinsPlayed'')) (\<lambda>played1.
         bindE (optionalOf money (getProp d ''baseBetMinor'')) (\<lambda>bet.
         bindE (optionalOf money (getProp d ''freeSpinsWinMinor'')) (\<lambda>win.
         Inr \<lparr>mode = m, freeSpinsRemaining = remaining, freeSpinsPlayed = played1,
              baseBetMinor = bet, freeSpinsWinMinor = win,
              rageLevel = (case level of None \<Rightarrow> 1 | Some n \<Rightarrow> n),
              rageCollected = (case collected of None \<Rightarrow> 0 | Some n \<Rightarrow> n)\<rparr>)))))))))"

definition lockedFaceOf ::
  "SymbolId \<Rightarrow> int option \<Rightarrow> string option \<Rightarrow> js \<Rightarrow> decode_error + string" where
  "lockedFaceOf s mult prize v = bindE (stringOf v) (\<lambda>face.
     if face \<notin> set LOCKED_VAULT_FACES then reject ''lockedVaultFace is unsupported''
     else if s \<noteq> VAULT then reject ''lockedVaultFace is only allowed on VAULT''
     else if mult \<noteq> None \<or> prize \<noteq> None
     then reject ''lockedVaultFace cannot coexist with multiplier or prize''
     else Inr face)"

definition cellOf :: "js \<Rightarrow> decode_error + GridCell" where
  "cellOf v = bindE (recordOf v) (\<lambda>d.
     bindE (exactKeys d [''symbol'', ''multiplier'', ''prize'', ''lockedVaultFace'']) (\<lambda>_.
     bindE (symbolOf (getProp d ''symbol'')) (\<lambda>s.
     bindE (optionalOf (\<lambda>x. boundedInteger x 1 1000000) (getProp d ''multiplier'')) (\<lambda>mult.
     bindE (optionalOf identifierOf (getProp d ''prize'')) (\<lambda>prize.
     bindE (optionalOf (lockedFaceOf s mult prize) (getProp d ''lockedVaultFace'')) (\<lambda>face.
     Inr \<lparr>cell_symbol = s, cell_multiplier = mult, cell_prize = prize, lockedVaultFace = face\<rparr>))))))"

definition gridCellOf :: "int \<Rightarrow> js \<Rightarrow> decode_error + GridCell" where
  "gridCellOf reelIndex v = bindE (cellOf v) (\<lambda>c.
     if (cell_symbol c = WILD \<or> cell_symbol c = VAULT) \<and> reelIndex \<noteq> 1
     then reject ''symbol is only allowed on reel 1'' else Inr c)"

fun reelOf :: "int \<Rightarrow> js \<Rightarrow> decode_error + GridCell list" where
  "reelOf reelIndex (JArray cells) =
     (if length cells < 3 \<or> 8 < length cells then reject ''must contain 3-8 rows''
      else mapE (gridCellOf reelIndex) cells)"
| "reelOf reelIndex _ = reject ''must contain 3-8 rows''"

fun gridOf :: "js \<Rightarrow> decode_error + grid" where
  "gridOf (JArray reels) =
     (if length reels \<noteq> 3 then reject ''must contain exactly three reels''
      else bindE (mapIdxE reelOf 0 reels) (\<lambda>decoded.
        if list_ex (\<lambda>r. int (length r) \<noteq> gridRows decoded) decoded
        then reject ''reels must use the same row count'' else Inr decoded))"
| "gridOf _ = reject ''must contain exactly three reels''"

section \<open>Cell addresses\<close>

definition cellAddress :: "js \<Rightarrow> decode_error + CellAddress" where
  "cellAddress v = bindE (recordOf v) (\<lambda>d.
     bindE (exactKeys d [''reel'', ''row'']) (\<lambda>_.
     bindE (boundedInteger (getProp d ''reel'') 0 255) (\<lambda>a.
     bindE (boundedInteger (getProp d ''row'') 0 255) (\<lambda>b.
     Inr (CellAddress a b)))))"

text \<open>\<open>address.reel >= grid.length || address.row >= (grid[address.reel]?.length ?? 0)\<close>.\<close>

definition outsideGrid :: "grid \<Rightarrow> CellAddress \<Rightarrow> bool" where
  "outsideGrid g p = (int (length g) \<le> reel p
     \<or> (case at g (reel p) of None \<Rightarrow> 0 | Some cells \<Rightarrow> int (length cells)) \<le> row p)"

definition checkAddress :: "grid \<Rightarrow> CellAddress \<Rightarrow> string list \<Rightarrow> decode_error + string list" where
  "checkAddress g p seen =
     (if outsideGrid g p then reject ''contains an address outside the grid''
      else if positionKey p \<in> set seen then reject ''must not contain duplicate addresses''
      else Inr (positionKey p # seen))"

definition distinctAddresses :: "grid \<Rightarrow> CellAddress list \<Rightarrow> decode_error + string list" where
  "distinctAddresses g cells = foldE (checkAddress g) cells []"

fun eventCellAddresses :: "js \<Rightarrow> grid \<Rightarrow> nat \<Rightarrow> nat \<Rightarrow> decode_error + CellAddress list" where
  "eventCellAddresses (JArray vs) g minimum maximum =
     (if length vs < minimum \<or> maximum < length vs then reject ''must contain that many entries''
      else bindE (mapE cellAddress vs) (\<lambda>cells.
        bindE (distinctAddresses g cells) (\<lambda>_. Inr cells)))"
| "eventCellAddresses _ g minimum maximum = reject ''must contain that many entries''"

definition eventCellAddress :: "js_object \<Rightarrow> grid \<Rightarrow> decode_error + CellAddress" where
  "eventCellAddress d g =
     bindE (boundedInteger (getProp d ''reel'') 0 255) (\<lambda>a.
     bindE (boundedInteger (getProp d ''row'') 0 255) (\<lambda>b.
     if outsideGrid g (CellAddress a b) then reject ''contains an address outside the grid''
     else Inr (CellAddress a b)))"

definition holdsSymbol :: "grid \<Rightarrow> SymbolId \<Rightarrow> CellAddress \<Rightarrow> bool" where
  "holdsSymbol g s p = (case cellAt g p of None \<Rightarrow> False | Some c \<Rightarrow> cell_symbol c = s)"

definition vaultEventCellAddresses ::
  "js \<Rightarrow> grid \<Rightarrow> nat \<Rightarrow> nat \<Rightarrow> decode_error + CellAddress list" where
  "vaultEventCellAddresses v g minimum maximum =
     bindE (eventCellAddresses v g minimum maximum) (\<lambda>cells.
     if list_ex (\<lambda>p. \<not> holdsSymbol g VAULT p) cells
     then reject ''must reference only settled VAULT cells'' else Inr cells)"

definition vaultEventCellAddress :: "js_object \<Rightarrow> grid \<Rightarrow> decode_error + CellAddress" where
  "vaultEventCellAddress d g = bindE (eventCellAddress d g) (\<lambda>p.
     if \<not> holdsSymbol g VAULT p then reject ''must reference a settled VAULT cell'' else Inr p)"

definition surgeCellAddresses :: "js \<Rightarrow> grid \<Rightarrow> decode_error + CellAddress list" where
  "surgeCellAddresses v g = bindE (eventCellAddresses v g 1 3) (\<lambda>cells.
     if list_ex (\<lambda>p. \<not> holdsSymbol g SURGE p) cells
     then reject ''must reference only settled SURGE cells''
     else let seen = map positionKey cells;
              settledSurges = map positionKey (positionsForSymbol g SURGE) in
       if setSize settledSurges \<noteq> setSize seen \<or> list_ex (\<lambda>k. k \<notin> set seen) settledSurges
       then reject ''must list every settled SURGE cell exactly once'' else Inr cells)"

section \<open>Wins\<close>

text \<open>What the loop over \<open>pathAwards\<close> accumulates.\<close>

record path_scan =
  pathCellKeys :: "string list"
  seenPaths :: "string list"
  pathAmountTotal :: int
  pathNominalAmountTotal :: int
  pathAwards :: "PathAward list"

definition pathCellOf :: "grid \<Rightarrow> SymbolId \<Rightarrow> int \<Rightarrow> js \<Rightarrow> decode_error + CellAddress" where
  "pathCellOf g targetSymbol i v = bindE (cellAddress v) (\<lambda>p.
     if reel p \<noteq> i then reject ''cells must be ordered with one cell for each reel''
     else case cellAt g p of
       None \<Rightarrow> reject ''cells contains an address outside the grid''
     | Some c \<Rightarrow>
         if cell_symbol c \<noteq> targetSymbol \<and> cell_symbol c \<noteq> WILD
         then reject ''cells must reference only the target symbol or WILD cells'' else Inr p)"

fun pathCellsOf :: "grid \<Rightarrow> SymbolId \<Rightarrow> js \<Rightarrow> decode_error + CellAddress list" where
  "pathCellsOf g targetSymbol (JArray vs) =
     (if length vs \<noteq> 3 then reject ''cells must contain exactly three entries''
      else mapIdxE (pathCellOf g targetSymbol) 0 vs)"
| "pathCellsOf g targetSymbol _ = reject ''cells must contain exactly three entries''"

text \<open>The multiplier a WILD cell contributes; 1 for every other cell.\<close>

definition wildMultiplier :: "grid \<Rightarrow> CellAddress \<Rightarrow> int" where
  "wildMultiplier g p = (case cellAt g p of
       None \<Rightarrow> 1
     | Some c \<Rightarrow> if cell_symbol c \<noteq> WILD then 1
         else (case cell_multiplier c of None \<Rightarrow> 1 | Some m \<Rightarrow> m))"

definition wildStep :: "grid \<Rightarrow> CellAddress \<Rightarrow> int \<Rightarrow> decode_error + int" where
  "wildStep g p acc =
     (if \<not> holdsSymbol g WILD p then Inr acc
      else let acc' = acc * wildMultiplier g p in
        if \<not> safe_int acc' \<or> 1000000 < acc' then reject ''multiplier exceeds the supported range''
        else Inr acc')"

definition pathKey :: "CellAddress list \<Rightarrow> string" where
  "pathKey cells = join '':'' (map (\<lambda>p. toString (row p)) cells)"

definition baseInconsistent :: "int \<Rightarrow> int \<Rightarrow> int \<Rightarrow> bool" where
  "baseInconsistent multiplier base nominal =
     (nominal < base
      \<or> (nominal = 0 \<and> base \<noteq> 0)
      \<or> (0 < nominal \<and> base = 0)
      \<or> (multiplier = 1 \<and> base \<noteq> nominal))"

definition pathAmountsOf ::
  "js_object \<Rightarrow> int \<Rightarrow> decode_error + string \<times> string \<times> string" where
  "pathAmountsOf d multiplier =
     bindE (money (getProp d ''baseAmountMinor'')) (\<lambda>base.
     bindE (money (getProp d ''amountMinor'')) (\<lambda>amount.
     bindE (optionalOf money (getProp d ''nominalAmountMinor'')) (\<lambda>nominalOpt.
     let nominal = (case nominalOpt of None \<Rightarrow> amount | Some n \<Rightarrow> n) in
     if BigInt nominal < BigInt amount
     then reject ''amountMinor must not exceed nominalAmountMinor''
     else if baseInconsistent multiplier (BigInt base) (BigInt nominal)
     then reject ''baseAmountMinor is inconsistent with the nominal path award''
     else Inr (base, nominal, amount))))"

definition pathAwardStep ::
  "grid \<Rightarrow> SymbolId \<Rightarrow> js \<Rightarrow> path_scan \<Rightarrow> decode_error + path_scan" where
  "pathAwardStep g targetSymbol item st = bindE (recordOf item) (\<lambda>d.
     bindE (exactKeys d [''cells'', ''multiplier'', ''baseAmountMinor'', ''nominalAmountMinor'',
       ''amountMinor'']) (\<lambda>_.
     bindE (pathCellsOf g targetSymbol (getProp d ''cells'')) (\<lambda>cells.
     if pathKey cells \<in> set (seenPaths st)
     then reject ''pathAwards must not contain duplicate paths''
     else bindE (foldE (wildStep g) cells 1) (\<lambda>expectedMultiplier.
     bindE (boundedInteger (getProp d ''multiplier'') 1 1000000) (\<lambda>multiplier.
     if multiplier \<noteq> expectedMultiplier then reject ''multiplier must match its WILD cells''
     else bindE (pathAmountsOf d multiplier) (\<lambda>(base, nominal, amount).
     Inr (st\<lparr>pathCellKeys := rev (map positionKey cells) @ pathCellKeys st,
             seenPaths := pathKey cells # seenPaths st,
             pathAmountTotal := pathAmountTotal st + BigInt amount,
             pathNominalAmountTotal := pathNominalAmountTotal st + BigInt nominal,
             pathAwards := pathAwards st @
               [\<lparr>path_cells = cells, path_multiplier = multiplier, path_baseAmountMinor = base,
                 path_nominalAmountMinor = nominal, path_amountMinor = amount\<rparr>]\<rparr>)))))))"

definition emptyPathScan :: path_scan where
  "emptyPathScan = \<lparr>pathCellKeys = [], seenPaths = [], pathAmountTotal = 0,
     pathNominalAmountTotal = 0, pathAwards = []\<rparr>"

fun pathAwardsOf :: "grid \<Rightarrow> SymbolId \<Rightarrow> int \<Rightarrow> js \<Rightarrow> decode_error + path_scan" where
  "pathAwardsOf g targetSymbol ways (JArray items) =
     (if int (length items) \<noteq> ways then reject ''pathAwards length must equal ways''
      else foldE (pathAwardStep g targetSymbol) items emptyPathScan)"
| "pathAwardsOf g targetSymbol ways _ = reject ''pathAwards length must equal ways''"

definition winWithPaths :: "grid \<Rightarrow> js_object \<Rightarrow> string list \<Rightarrow> Win \<Rightarrow> decode_error + Win" where
  "winWithPaths g d aggregateCellKeys w =
     (if win_symbol w \<notin> set payingSymbolSet
      then reject ''symbol must be a paying symbol when pathAwards are present''
      else bindE (boundedInteger (getProp d ''ways'') 1 512) (\<lambda>ways.
        bindE (pathAwardsOf g (win_symbol w) ways (getProp d ''pathAwards'')) (\<lambda>st.
        if (case win_multiplier w of None \<Rightarrow> False
            | Some m \<Rightarrow> list_ex (\<lambda>a. path_multiplier a \<noteq> m) (pathAwards st))
        then reject ''multiplier must equal the uniform multiplier of every pathAward''
        else if pathAmountTotal st \<noteq> BigInt (win_amountMinor w)
        then reject ''pathAwards amounts must sum to amountMinor''
        else if pathNominalAmountTotal st \<noteq> BigInt (win_nominalAmountMinor w)
        then reject ''pathAwards nominal amounts must sum to nominalAmountMinor''
        else if setSize (pathCellKeys st) \<noteq> setSize aggregateCellKeys
          \<or> list_ex (\<lambda>k. k \<notin> set (pathCellKeys st)) aggregateCellKeys
        then reject ''cells must equal the union of pathAwards cells''
        else Inr (w\<lparr>win_ways := Some ways, win_pathAwards := Some (pathAwards st)\<rparr>))))"

definition winKeys :: "string list" where
  "winKeys = [''id'', ''symbol'', ''ways'', ''nominalAmountMinor'', ''amountMinor'', ''multiplier'',
     ''cells'', ''pathAwards'']"

fun winCellsOf :: "js \<Rightarrow> decode_error + CellAddress list" where
  "winCellsOf (JArray vs) =
     (if vs = [] \<or> 256 < length vs then reject ''cells must contain 1-256 entries''
      else mapE cellAddress vs)"
| "winCellsOf _ = reject ''cells must contain 1-256 entries''"

definition winOf :: "grid \<Rightarrow> js \<Rightarrow> decode_error + Win" where
  "winOf g v = bindE (recordOf v) (\<lambda>d.
     bindE (exactKeys d winKeys) (\<lambda>_.
     bindE (winCellsOf (getProp d ''cells'')) (\<lambda>cells.
     bindE (distinctAddresses g cells) (\<lambda>aggregateCellKeys.
     bindE (symbolOf (getProp d ''symbol'')) (\<lambda>targetSymbol.
     bindE (money (getProp d ''amountMinor'')) (\<lambda>amount.
     bindE (optionalOf money (getProp d ''nominalAmountMinor'')) (\<lambda>nominalOpt.
     let nominal = (case nominalOpt of None \<Rightarrow> amount | Some n \<Rightarrow> n);
         hasWays = (getProp d ''ways'' \<noteq> JUndefined);
         hasPathAwards = (getProp d ''pathAwards'' \<noteq> JUndefined) in
     if BigInt nominal < BigInt amount
     then reject ''amountMinor must not exceed nominalAmountMinor''
     else if hasWays \<noteq> hasPathAwards then reject ''ways and pathAwards must be supplied together''
     else bindE (identifierOf (getProp d ''id'')) (\<lambda>i.
       bindE (optionalOf (\<lambda>x. boundedInteger x 1 1000000) (getProp d ''multiplier'')) (\<lambda>mult.
       let w = \<lparr>win_id = i, win_symbol = targetSymbol, win_ways = None,
                win_nominalAmountMinor = nominal, win_amountMinor = amount,
                win_multiplier = mult, win_cells = cells, win_pathAwards = None\<rparr> in
       if \<not> hasWays then Inr w else winWithPaths g d aggregateCellKeys w)))))))))"

lemma holdsSymbol_positions: "holdsSymbol g s p \<longleftrightarrow> p \<in> set (positionsForSymbol g s)"
  by (auto simp: holdsSymbol_def positionsForSymbol_iff split: option.splits)

end
