(* ===== verification/Wire_Values.thy ===== *)
theory Wire_Values
  imports Decoder_Fields
begin

text \<open>
  The wire contract of the value decoders: for each, the well-formed values and their
  encoding, as instances of one locale. \<open>decoder.ts\<close> has no encoder; the encodings are
  the message shapes of the protocol that the server sends.
\<close>

section \<open>When the single-value decoders accept\<close>

lemma recordOf_Inr [accept]: "recordOf v = Inr d \<longleftrightarrow> v = JObject d"
  by (cases v) auto

lemma stringOf_Inr [accept]: "stringOf v = Inr s \<longleftrightarrow> v = JString s \<and> s \<noteq> []"
  by (cases v) auto

lemma numberOf_Inr [accept]: "numberOf v = Inr n \<longleftrightarrow> v = JNumber n \<and> isFinite n"
  by (cases v) auto

lemma booleanOf_Inr [accept]: "booleanOf v = Inr b \<longleftrightarrow> v = JBool b"
  by (cases v) auto

abbreviation JInt :: "int \<Rightarrow> js" where
  "JInt n \<equiv> JNumber (JsInt n)"

definition bounded :: "int \<Rightarrow> int \<Rightarrow> int \<Rightarrow> bool" where
  "bounded lo hi n = (safe_int n \<and> lo \<le> n \<and> n \<le> hi)"

lemma boundedInteger_Inr [accept]:
  "boundedInteger v lo hi = Inr i \<longleftrightarrow> v = JInt i \<and> bounded lo hi i"
proof (cases v)
  case (JNumber n)
  then show ?thesis by (cases n) (auto simp: boundedInteger_def bounded_def)
qed (simp_all add: boundedInteger_def)

lemma positiveInteger_Inr [accept]:
  "positiveInteger v = Inr i \<longleftrightarrow> v = JInt i \<and> safe_int i \<and> 0 < i"
proof (cases v)
  case (JNumber n)
  then show ?thesis by (cases n) (auto simp: positiveInteger_def nonNegativeInteger_def)
qed (simp_all add: positiveInteger_def nonNegativeInteger_def)

lemma money_Inr [accept]: "money v = Inr s \<longleftrightarrow> v = JString s \<and> money_ok s"
  by (auto simp: money_def accept money_ok_def dest: canonical_nonempty)

definition identifier_ok :: "string \<Rightarrow> bool" where
  "identifier_ok s = (length s \<le> 128 \<and> IDENTIFIER_PATTERN s)"

lemma identifierOf_Inr [accept]: "identifierOf v = Inr s \<longleftrightarrow> v = JString s \<and> identifier_ok s"
  by (auto simp: identifierOf_def accept identifier_ok_def IDENTIFIER_PATTERN_def)

lemma optionalOf_Inr:
  "optionalOf f v = Inr y \<longleftrightarrow>
     (case y of None \<Rightarrow> v = JUndefined | Some x \<Rightarrow> v \<noteq> JUndefined \<and> f v = Inr x)"
  by (auto simp: optionalOf_def accept split: option.splits)

lemma symbolOf_Inr [accept]: "symbolOf v = Inr s \<longleftrightarrow> v = JString (symbol_name s)"
proof
  assume "symbolOf v = Inr s"
  then obtain n where v: "v = JString n" and "find (\<lambda>x. symbol_name x = n) SYMBOL_IDS = Some s"
    by (auto simp: symbolOf_def accept split: option.splits)
  with find_Some_in [OF this(2)] show "v = JString (symbol_name s)" by simp
next
  assume "v = JString (symbol_name s)"
  then show "symbolOf v = Inr s"
    by (cases s) (simp_all add: symbolOf_def SYMBOL_IDS_def)
qed

lemma exactKeys_subset: "set (Object_keys d) \<subseteq> set allowed \<Longrightarrow> exactKeys d allowed = Inr ()"
proof -
  assume "set (Object_keys d) \<subseteq> set allowed"
  then have "find (\<lambda>k. k \<notin> set allowed) (Object_keys d) = None"
    by (auto simp: find_None_iff)
  then show ?thesis by (simp add: exactKeys_def)
qed

section \<open>Decoders and what they accept\<close>

text \<open>
  The contract of a decoder: it returns only well-formed values, and it returns every
  well-formed value from the encoding the protocol gives it.
\<close>

locale codec =
  fixes decode :: "js \<Rightarrow> 'e + 'a"
    and encode :: "'a \<Rightarrow> js"
    and ok :: "'a \<Rightarrow> bool"
  assumes sound: "decode v = Inr x \<Longrightarrow> ok x"
    and complete: "ok x \<Longrightarrow> decode (encode x) = Inr x"
begin

lemma range: "(\<exists>v. decode v = Inr x) \<longleftrightarrow> ok x"
  using sound complete by blast

lemma injective: "ok x \<Longrightarrow> ok y \<Longrightarrow> encode x = encode y \<Longrightarrow> x = y"
  by (metis complete sum.inject(2))

lemma list_sound: "mapE decode vs = Inr xs \<Longrightarrow> list_all ok xs"
  using mapE_all [of decode vs xs ok] sound by (auto simp: list_all_iff)

lemma list_complete: "list_all ok xs \<Longrightarrow> mapE decode (map encode xs) = Inr xs"
  by (rule mapE_map) (simp add: complete list_all_iff)

lemma optional_sound: "optionalOf decode v = Inr y \<Longrightarrow> optional ok y"
  using sound by (cases y) (auto simp: optionalOf_Inr)

end

interpretation amount: codec money JString money_ok
  by unfold_locales (auto simp: accept)

interpretation ident: codec identifierOf JString identifier_ok
  by unfold_locales (auto simp: accept)

interpretation bounded_int: codec "\<lambda>v. boundedInteger v lo hi" JInt "bounded lo hi" for lo hi
  by unfold_locales (auto simp: accept)

lemma bounded_million [simp]:
  "0 \<le> lo \<Longrightarrow> bounded lo 1000000 n \<longleftrightarrow> lo \<le> n \<and> n \<le> 1000000"
  by (auto simp: bounded_def safe_int_def MAX_SAFE_INTEGER_def)

lemma bounded_255 [simp]: "bounded 0 255 n \<longleftrightarrow> 0 \<le> n \<and> n \<le> 255"
  by (auto simp: bounded_def safe_int_def MAX_SAFE_INTEGER_def)

text \<open>Decoding an encoded value, as rewrite rules.\<close>

named_theorems decoding \<open>decoders on the encodings of well-formed values\<close>

lemma decoding_basic [decoding]:
  "s \<noteq> [] \<Longrightarrow> stringOf (JString s) = Inr s"
  "bounded lo hi n \<Longrightarrow> boundedInteger (JInt n) lo hi = Inr n"
  "money_ok m \<Longrightarrow> money (JString m) = Inr m"
  "identifier_ok i \<Longrightarrow> identifierOf (JString i) = Inr i"
  "symbolOf (JString (symbol_name x)) = Inr x"
  by (simp_all add: accept)

lemma decoding_optional [decoding]:
  "optionalOf d JUndefined = Inr None"
  "optionalOf d (JNumber n) = bindE (d (JNumber n)) (\<lambda>x. Inr (Some x))"
  "optionalOf d (JString t) = bindE (d (JString t)) (\<lambda>x. Inr (Some x))"
  by (simp_all add: optionalOf_def)

section \<open>Feature states\<close>

definition wf_featureState :: "FeatureState \<Rightarrow> bool" where
  "wf_featureState s =
     (bounded 0 1000000 (freeSpinsRemaining s)
      \<and> optional (bounded 0 1000000) (freeSpinsPlayed s)
      \<and> optional money_ok (baseBetMinor s)
      \<and> optional money_ok (freeSpinsWinMinor s)
      \<and> bounded 1 1000000 (rageLevel s)
      \<and> bounded 0 1000000 (rageCollected s))"

definition encodeFeatureState :: "FeatureState \<Rightarrow> js" where
  "encodeFeatureState s = JObject (
     [(''mode'', JString (mode_name (mode s))), (''freeSpinsRemaining'', JInt (freeSpinsRemaining s))]
     @ optProp ''freeSpinsPlayed'' JInt (freeSpinsPlayed s)
     @ optProp ''baseBetMinor'' JString (baseBetMinor s)
     @ optProp ''freeSpinsWinMinor'' JString (freeSpinsWinMinor s)
     @ [(''rageLevel'', JInt (rageLevel s)), (''rageCollected'', JInt (rageCollected s))])"

lemma mode_name_nonempty [simp]: "mode_name m \<noteq> []"
  by (cases m) simp_all

lemma featureState_sound: "featureStateOf v = Inr s \<Longrightarrow> wf_featureState s"
  unfolding featureStateOf_def
  apply (elim accepted)
  apply (erule option_caseE)
  subgoal by simp
  apply (elim accepted)
  apply (drule bounded_int.optional_sound amount.optional_sound bounded_int.sound)+
  apply (clarsimp simp: wf_featureState_def split: option.splits)
  done

lemma featureState_complete:
  "wf_featureState s \<Longrightarrow> featureStateOf (encodeFeatureState s) = Inr s"
  by (cases "freeSpinsPlayed s"; cases "baseBetMinor s"; cases "freeSpinsWinMinor s")
    (simp_all add: featureStateOf_def encodeFeatureState_def wf_featureState_def exactKeys_subset
      featureStateKeys_def decoding del: bounded_million)

interpretation feature: codec featureStateOf encodeFeatureState wf_featureState
  by unfold_locales (fact featureState_sound featureState_complete)+

section \<open>Cells\<close>

definition wf_cell :: "GridCell \<Rightarrow> bool" where
  "wf_cell c =
     (optional (bounded 1 1000000) (cell_multiplier c)
      \<and> optional identifier_ok (cell_prize c)
      \<and> (lockedVaultFace c \<noteq> None \<longrightarrow> the (lockedVaultFace c) \<in> set LOCKED_VAULT_FACES
           \<and> cell_symbol c = VAULT \<and> cell_multiplier c = None \<and> cell_prize c = None))"

definition encodeCell :: "GridCell \<Rightarrow> js" where
  "encodeCell c = JObject (
     [(''symbol'', JString (symbol_name (cell_symbol c)))]
     @ optProp ''multiplier'' JInt (cell_multiplier c)
     @ optProp ''prize'' JString (cell_prize c)
     @ optProp ''lockedVaultFace'' JString (lockedVaultFace c))"

lemma lockedFaceOf_Inr [accept]:
  "lockedFaceOf s mult prize v = Inr f \<longleftrightarrow> v = JString f \<and> f \<in> set LOCKED_VAULT_FACES
     \<and> s = VAULT \<and> mult = None \<and> prize = None"
  by (auto simp: lockedFaceOf_def accept LOCKED_VAULT_FACES_def)

lemma cell_sound: "cellOf v = Inr c \<Longrightarrow> wf_cell c"
  unfolding cellOf_def
  apply (elim accepted)
  apply (drule bounded_int.optional_sound ident.optional_sound)+
  apply (auto simp: wf_cell_def optionalOf_Inr lockedFaceOf_Inr)
  done

lemma cell_complete: "wf_cell c \<Longrightarrow> cellOf (encodeCell c) = Inr c"
  by (cases "cell_multiplier c"; cases "cell_prize c"; cases "lockedVaultFace c")
    (simp_all add: cellOf_def encodeCell_def wf_cell_def exactKeys_subset decoding accept
      del: bounded_million)

interpretation cell: codec cellOf encodeCell wf_cell
  by unfold_locales (fact cell_sound cell_complete)+

definition wf_gridCell :: "int \<Rightarrow> GridCell \<Rightarrow> bool" where
  "wf_gridCell i c = (wf_cell c \<and> (cell_symbol c = WILD \<or> cell_symbol c = VAULT \<longrightarrow> i = 1))"

interpretation gridCell: codec "gridCellOf i" encodeCell "wf_gridCell i" for i
  by unfold_locales (auto simp: gridCellOf_def wf_gridCell_def accept cell_complete dest: cell_sound)

section \<open>Grids\<close>

text \<open>Three reels of one length from 3 to 8; WILD and VAULT on the middle reel only.\<close>

definition wf_reel :: "int \<Rightarrow> GridCell list \<Rightarrow> bool" where
  "wf_reel i cells = (3 \<le> length cells \<and> length cells \<le> 8 \<and> list_all (wf_gridCell i) cells)"

definition wf_grid :: "grid \<Rightarrow> bool" where
  "wf_grid g = (length g = 3 \<and> wf_reel 0 (g ! 0) \<and> wf_reel 1 (g ! 1) \<and> wf_reel 2 (g ! 2)
     \<and> length (g ! 1) = length (g ! 0) \<and> length (g ! 2) = length (g ! 0))"

definition encodeGrid :: "grid \<Rightarrow> js" where
  "encodeGrid g = JArray (map (\<lambda>cells. JArray (map encodeCell cells)) g)"

interpretation reel: codec "reelOf i" "\<lambda>cells. JArray (map encodeCell cells)" "wf_reel i" for i
proof unfold_locales
  fix v x
  assume "reelOf i v = Inr x"
  then show "wf_reel i x"
    by (cases v) (auto simp: wf_reel_def dest: gridCell.list_sound mapE_length split: if_splits)
next
  fix x
  assume "wf_reel i x"
  then show "reelOf i (JArray (map encodeCell x)) = Inr x"
    by (simp add: wf_reel_def gridCell.list_complete)
qed

lemma three_list: "length xs = 3 \<longleftrightarrow> (\<exists>a b c. xs = [a, b, c])"
  by (auto simp: numeral_3_eq_3 length_Suc_conv)

interpretation grid: codec gridOf encodeGrid wf_grid
proof unfold_locales
  fix v x
  assume g: "gridOf v = Inr x"
  then obtain reels where v: "v = JArray reels" and n: "length reels = 3"
    and m: "mapIdxE reelOf 0 reels = Inr x"
    and rows: "\<not> list_ex (\<lambda>r. int (length r) \<noteq> gridRows x) x"
    by (cases v) (auto simp: accept)
  from n obtain a b c where reels: "reels = [a, b, c]" by (auto simp: three_list)
  then obtain p q r where x: "x = [p, q, r]" "reelOf 0 a = Inr p" "reelOf 1 b = Inr q" "reelOf 2 c = Inr r"
    using m by (auto simp: accept)
  then show "wf_grid x"
    using rows reel.sound by (auto simp: wf_grid_def gridRows_def at_def numeral_2_eq_2)
next
  fix x
  assume wf: "wf_grid x"
  then obtain p q r where x: "x = [p, q, r]" by (auto simp: wf_grid_def three_list)
  with wf show "gridOf (encodeGrid x) = Inr x"
    using reel.complete
    by (auto simp: wf_grid_def encodeGrid_def gridRows_def at_def numeral_2_eq_2 simp del: reelOf.simps)
qed

lemma wf_grid_rows: "wf_grid g \<Longrightarrow> 3 \<le> gridRows g \<and> gridRows g \<le> 8"
  by (auto simp: wf_grid_def gridRows_def at_def wf_reel_def)

section \<open>Addresses\<close>

definition wf_address :: "CellAddress \<Rightarrow> bool" where
  "wf_address p = (bounded 0 255 (reel p) \<and> bounded 0 255 (row p))"

definition encodeAddress :: "CellAddress \<Rightarrow> js" where
  "encodeAddress p = JObject [(''reel'', JInt (reel p)), (''row'', JInt (row p))]"

lemma address_sound: "cellAddress v = Inr p \<Longrightarrow> wf_address p"
  unfolding cellAddress_def
  by (elim accepted) (auto simp: accept wf_address_def simp del: bounded_255)

lemma address_complete: "wf_address p \<Longrightarrow> cellAddress (encodeAddress p) = Inr p"
  by (simp add: cellAddress_def encodeAddress_def wf_address_def exactKeys_subset decoding del: bounded_255)

interpretation address: codec cellAddress encodeAddress wf_address
  by unfold_locales (fact address_sound address_complete)+

lemma distinctAddresses_Inr:
  "distinctAddresses g cells = Inr ks \<longleftrightarrow>
     list_all (\<lambda>p. \<not> outsideGrid g p) cells \<and> distinct cells \<and> ks = rev (map positionKey cells)"
proof -
  have "foldE (checkAddress g) cells seen = Inr ks \<longleftrightarrow>
     list_all (\<lambda>p. \<not> outsideGrid g p) cells \<and> distinct cells
     \<and> set (map positionKey cells) \<inter> set seen = {} \<and> ks = rev (map positionKey cells) @ seen" for seen
    by (induction cells arbitrary: seen) (auto simp: checkAddress_def accept image_iff)
  then show ?thesis by (simp add: distinctAddresses_def)
qed

lemma outsideGrid_iff: "wf_address p \<Longrightarrow> outsideGrid g p \<longleftrightarrow> cellAt g p = None"
  by (auto simp: outsideGrid_def cellAt_def at_def wf_address_def bounded_def)

text \<open>Some distinct cells of the grid.\<close>

definition eventCells :: "grid \<Rightarrow> nat \<Rightarrow> nat \<Rightarrow> CellAddress list \<Rightarrow> bool" where
  "eventCells g lo hi cells = (lo \<le> length cells \<and> length cells \<le> hi \<and> distinct cells
     \<and> list_all (\<lambda>p. wf_address p \<and> cellAt g p \<noteq> None) cells)"

lemma eventCells_inside:
  "list_all wf_address cells \<Longrightarrow>
     list_all (\<lambda>p. \<not> outsideGrid g p) cells \<longleftrightarrow> list_all (\<lambda>p. cellAt g p \<noteq> None) cells"
  by (auto simp: list_all_iff outsideGrid_iff)

interpretation eventCells: codec "\<lambda>v. eventCellAddresses v g lo hi"
  "\<lambda>cells. JArray (map encodeAddress cells)" "eventCells g lo hi" for g lo hi
proof unfold_locales
  fix v x
  assume "eventCellAddresses v g lo hi = Inr x"
  then obtain vs where "v = JArray vs" "lo \<le> length vs" "length vs \<le> hi" "mapE cellAddress vs = Inr x"
    "list_all (\<lambda>p. \<not> outsideGrid g p) x" "distinct x"
    by (cases v) (auto simp: accept distinctAddresses_Inr)
  then show "eventCells g lo hi x"
    using address.list_sound [of vs x] mapE_length [of cellAddress vs x] eventCells_inside [of x g]
    by (auto simp: eventCells_def list_all_iff)
next
  fix x
  assume e: "eventCells g lo hi x"
  then have "list_all wf_address x" by (auto simp: eventCells_def list_all_iff)
  then show "eventCellAddresses (JArray (map encodeAddress x)) g lo hi = Inr x"
    using e eventCells_inside [of x g]
    by (auto simp: eventCells_def address.list_complete accept distinctAddresses_Inr list_all_iff)
qed

definition vaultCells :: "grid \<Rightarrow> nat \<Rightarrow> nat \<Rightarrow> CellAddress list \<Rightarrow> bool" where
  "vaultCells g lo hi cells = (eventCells g lo hi cells \<and> list_all (holdsSymbol g VAULT) cells)"

interpretation vaultCells: codec "\<lambda>v. vaultEventCellAddresses v g lo hi"
  "\<lambda>cells. JArray (map encodeAddress cells)" "vaultCells g lo hi" for g lo hi
  by unfold_locales
    (auto simp: vaultEventCellAddresses_def vaultCells_def accept list_all_iff list_ex_iff
      eventCells.complete simp del: eventCellAddresses.simps dest: eventCells.sound)

definition surgeCells :: "grid \<Rightarrow> CellAddress list \<Rightarrow> bool" where
  "surgeCells g cells = (eventCells g 1 3 cells \<and> set cells = set (positionsForSymbol g SURGE))"

lemma surge_keys:
  assumes "distinct cells" "set cells \<subseteq> set (positionsForSymbol g SURGE)"
  shows "setSize (map positionKey (positionsForSymbol g SURGE)) = setSize (map positionKey cells)
      \<and> \<not> list_ex (\<lambda>k. k \<notin> set (map positionKey cells)) (map positionKey (positionsForSymbol g SURGE))
    \<longleftrightarrow> set cells = set (positionsForSymbol g SURGE)"
proof -
  have sz: "setSize (map positionKey xs) = int (card (set xs))" if "distinct xs" for xs
    using that by (simp add: setSize_def distinct_remdups_id distinct_card)
  have "\<not> list_ex (\<lambda>k. k \<notin> set (map positionKey cells)) (map positionKey (positionsForSymbol g SURGE))
    \<longleftrightarrow> set (positionsForSymbol g SURGE) \<subseteq> set cells"
    by (auto simp: list_ex_iff image_iff)
  moreover have "setSize (map positionKey cells) = int (card (set cells))"
    "setSize (map positionKey (positionsForSymbol g SURGE)) = int (card (set (positionsForSymbol g SURGE)))"
    by (rule sz; simp add: assms(1))+
  moreover have "(int (card P) = int (card C) \<and> P \<subseteq> C) = (C = P)" if "C \<subseteq> P" for C P :: "CellAddress set"
    using that by (intro iffI) (simp_all add: subset_antisym)
  ultimately show ?thesis using assms(2) by (simp only:)
qed

interpretation surgeCells: codec "\<lambda>v. surgeCellAddresses v g"
  "\<lambda>cells. JArray (map encodeAddress cells)" "surgeCells g" for g
proof unfold_locales
  fix v x
  assume a: "surgeCellAddresses v g = Inr x"
  have e: "eventCells g 1 3 x" and h: "set x \<subseteq> set (positionsForSymbol g SURGE)"
    and k: "setSize (map positionKey (positionsForSymbol g SURGE)) = setSize (map positionKey x)
      \<and> \<not> list_ex (\<lambda>k. k \<notin> set (map positionKey x)) (map positionKey (positionsForSymbol g SURGE))"
    using a eventCells.sound [of v g 1 3 x]
    by (auto simp: surgeCellAddresses_def accept Let_def list_ex_iff holdsSymbol_positions
        simp del: eventCellAddresses.simps)
  then show "surgeCells g x"
    using surge_keys [of x g] by (simp add: surgeCells_def eventCells_def)
next
  fix x
  assume s: "surgeCells g x"
  then have e: "eventCells g 1 3 x" and d: "distinct x" and h: "set x = set (positionsForSymbol g SURGE)"
    by (auto simp: surgeCells_def eventCells_def)
  then show "surgeCellAddresses (JArray (map encodeAddress x)) g = Inr x"
    using surge_keys [of x g] eventCells.complete [of g 1 3 x]
    by (auto simp: surgeCellAddresses_def Let_def list_ex_iff holdsSymbol_positions
        simp del: eventCellAddresses.simps)
qed

definition vaultAddress :: "grid \<Rightarrow> CellAddress \<Rightarrow> bool" where
  "vaultAddress g p = (wf_address p \<and> holdsSymbol g VAULT p)"

lemma vaultEventCellAddress_Inr [accept]:
  "vaultEventCellAddress d g = Inr p \<longleftrightarrow> getProp d ''reel'' = JInt (reel p)
     \<and> getProp d ''row'' = JInt (row p) \<and> vaultAddress g p"
proof -
  have "\<not> outsideGrid g p" if "wf_address p" "holdsSymbol g VAULT p" for p
    using that by (auto simp: outsideGrid_iff holdsSymbol_def split: option.splits)
  then show ?thesis
    by (cases p) (auto simp: vaultEventCellAddress_def eventCellAddress_def accept vaultAddress_def
        wf_address_def simp del: bounded_255)
qed

end
