(* ===== verification/Decoder_Events.thy ===== *)
theory Decoder_Events
  imports Decoder_Fields
begin

text \<open>
  \<open>protocol/decoder.ts\<close>, second part: \<open>featureEvent\<close> with one decoder per event type, and
  \<open>events\<close>, which decodes the list and enforces the event grammar. The grammar is a
  sequence of checks over the decoded list; each group of checks is a definition, composed
  in the source's order.
\<close>

section \<open>One event\<close>

definition surgeCollectedOf :: "js_object \<Rightarrow> grid \<Rightarrow> decode_error + FeatureEvent" where
  "surgeCollectedOf d g =
     bindE (exactKeys d [''type'', ''count'', ''cells'', ''triggered'', ''guaranteed'', ''level'', ''total''])
       (\<lambda>_.
     bindE (boundedInteger (getProp d ''count'') 1 3) (\<lambda>count.
     bindE (surgeCellAddresses (getProp d ''cells'') g) (\<lambda>cells.
     bindE (booleanOf (getProp d ''triggered'')) (\<lambda>triggered.
     bindE (booleanOf (getProp d ''guaranteed'')) (\<lambda>guaranteed.
     if count \<noteq> int (length cells) then reject ''count must equal cells length''
     else if guaranteed \<noteq> (count = 3) then reject ''guaranteed must be true exactly when count is 3''
     else if guaranteed \<and> \<not> triggered
     then reject ''triggered must be true for a guaranteed collection''
     else bindE (boundedInteger (getProp d ''level'') 1 1000000) (\<lambda>level.
       bindE (boundedInteger (getProp d ''total'') 0 1000000) (\<lambda>tot.
       Inr (SurgeCollected count cells triggered guaranteed level tot))))))))"

definition rageTransformedOf :: "js_object \<Rightarrow> grid \<Rightarrow> decode_error + FeatureEvent" where
  "rageTransformedOf d g =
     bindE (exactKeys d [''type'', ''count'', ''cells'', ''level'', ''total'']) (\<lambda>_.
     bindE (boundedInteger (getProp d ''count'') 1 24) (\<lambda>count.
     bindE (eventCellAddresses (getProp d ''cells'') g 1 24) (\<lambda>cells.
     if count \<noteq> int (length cells) then reject ''count must equal cells length''
     else bindE (boundedInteger (getProp d ''level'') 1 1000000) (\<lambda>level.
       bindE (boundedInteger (getProp d ''total'') 0 1000000) (\<lambda>tot.
       Inr (RageTransformed count cells level tot))))))"

definition wheelJackpotTier :: "js \<Rightarrow> decode_error + string" where
  "wheelJackpotTier v = bindE (identifierOf v) (\<lambda>s.
     if \<not> mapHas WHEEL_INSTANT_MULTIPLIER_BY_TIER s
     then reject ''must be one of MINI, MINOR, MAJOR, MEGA, or GRAND'' else Inr s)"

definition instantAwardOf :: "js_object \<Rightarrow> decode_error + FeatureEvent" where
  "instantAwardOf d =
     bindE (wheelJackpotTier (getProp d ''prize'')) (\<lambda>prize.
     bindE (boundedInteger (getProp d ''multiplier'') 1 1000000) (\<lambda>suppliedMultiplier.
     let multiplier = the (map_of WHEEL_INSTANT_MULTIPLIER_BY_TIER prize) in
     if suppliedMultiplier \<noteq> multiplier then reject ''multiplier must equal the tier multiplier''
     else bindE (money (getProp d ''amountMinor'')) (\<lambda>amount.
       Inr (WheelAwarded ''INSTANT'' (Some prize) (Some multiplier) (Some amount)))))"

definition wheelAwardedOf :: "js_object \<Rightarrow> decode_error + FeatureEvent" where
  "wheelAwardedOf d =
     bindE (exactKeys d [''type'', ''outcome'', ''prize'', ''multiplier'', ''amountMinor'']) (\<lambda>_.
     bindE (identifierOf (getProp d ''outcome'')) (\<lambda>outcome.
     if outcome = ''INSTANT'' then instantAwardOf d
     else if outcome = ''EXPANSION'' \<or> outcome = ''OVERDRIVE'' then
       (if hasOwn d ''multiplier'' \<or> hasOwn d ''amountMinor''
        then reject ''feature outcomes must not contain multiplier or amountMinor''
        else let expectedPrize = (if outcome = ''EXPANSION'' then ''KONG_QUEST'' else ''KING_SPIN'') in
          if \<not> hasOwn d ''prize'' then Inr (WheelAwarded outcome None None None)
          else bindE (identifierOf (getProp d ''prize'')) (\<lambda>prize.
            if prize \<noteq> expectedPrize then reject ''prize must match the outcome''
            else Inr (WheelAwarded outcome (Some expectedPrize) None None)))
     else reject ''outcome must be INSTANT, EXPANSION, or OVERDRIVE''))"

definition featureModeOf :: "js \<Rightarrow> decode_error + FeatureMode" where
  "featureModeOf v = bindE (stringOf v) (\<lambda>s.
     if s \<noteq> ''EXPANSION'' \<and> s \<noteq> ''OVERDRIVE'' then reject ''mode must be EXPANSION or OVERDRIVE''
     else if s = ''EXPANSION'' then Inr EXPANSION else Inr OVERDRIVE)"

definition freeSpinsStartedOf :: "js_object \<Rightarrow> decode_error + FeatureEvent" where
  "freeSpinsStartedOf d =
     bindE (exactKeys d [''type'', ''mode'', ''awarded'']) (\<lambda>_.
     bindE (featureModeOf (getProp d ''mode'')) (\<lambda>m.
     bindE (boundedInteger (getProp d ''awarded'') 1 1000000) (\<lambda>awarded.
     if awarded \<noteq> 8 then reject ''awarded must equal the captured initial 8 Free Spins''
     else Inr (FreeSpinsStarted m awarded))))"

definition gridExpandedOf :: "js_object \<Rightarrow> decode_error + FeatureEvent" where
  "gridExpandedOf d =
     bindE (exactKeys d [''type'', ''rows'', ''ways'']) (\<lambda>_.
     bindE (boundedInteger (getProp d ''rows'') 1 255) (\<lambda>rows.
     bindE (boundedInteger (getProp d ''ways'') 1 2147483647) (\<lambda>ways.
     Inr (GridExpanded rows ways))))"

definition vaultGroupOf :: "EventType \<Rightarrow> js_object \<Rightarrow> grid \<Rightarrow> decode_error + FeatureEvent" where
  "vaultGroupOf t d g =
     bindE (exactKeys d [''type'', ''count'', ''cells'']) (\<lambda>_.
     bindE (boundedInteger (getProp d ''count'') 1 8) (\<lambda>count.
     bindE (vaultEventCellAddresses (getProp d ''cells'') g 1 8) (\<lambda>cells.
     if count \<noteq> int (length cells) then reject ''count must equal cells length''
     else Inr (VaultGroup t count cells))))"

definition vaultUnlockedOf :: "js_object \<Rightarrow> grid \<Rightarrow> decode_error + FeatureEvent" where
  "vaultUnlockedOf d g =
     bindE (exactKeys d [''type'', ''reel'', ''row'', ''prize'', ''multiplier'']) (\<lambda>_.
     bindE (vaultEventCellAddress d g) (\<lambda>p.
     bindE (identifierOf (getProp d ''prize'')) (\<lambda>prize.
     bindE (optionalOf (\<lambda>x. boundedInteger x 1 1000000) (getProp d ''multiplier'')) (\<lambda>mult.
     Inr (VaultUnlocked p prize mult)))))"

definition vaultAwardedOf :: "js_object \<Rightarrow> grid \<Rightarrow> decode_error + FeatureEvent" where
  "vaultAwardedOf d g =
     bindE (exactKeys d [''type'', ''reel'', ''row'', ''prize'', ''multiplier'', ''amountMinor'']) (\<lambda>_.
     bindE (vaultEventCellAddress d g) (\<lambda>p.
     bindE (boundedInteger (getProp d ''multiplier'') 1 1000000) (\<lambda>mult.
     bindE (money (getProp d ''amountMinor'')) (\<lambda>amount.
     bindE (optionalOf identifierOf (getProp d ''prize'')) (\<lambda>prize.
     Inr (VaultAwarded p mult amount prize))))))"

definition freeSpinAwardedOf :: "js_object \<Rightarrow> grid \<Rightarrow> decode_error + FeatureEvent" where
  "freeSpinAwardedOf d g =
     bindE (exactKeys d [''type'', ''count'', ''reel'', ''row'']) (\<lambda>_.
     bindE (boundedInteger (getProp d ''count'') 1 1000000) (\<lambda>count.
     if (getProp d ''reel'' = JUndefined) \<noteq> (getProp d ''row'' = JUndefined)
     then reject ''reel and row must be supplied together''
     else if getProp d ''reel'' = JUndefined then Inr (FreeSpinAwarded count None)
     else bindE (vaultEventCellAddress d g) (\<lambda>p. Inr (FreeSpinAwarded count (Some p)))))"

definition freeSpinCapReachedOf :: "js_object \<Rightarrow> grid \<Rightarrow> decode_error + FeatureEvent" where
  "freeSpinCapReachedOf d g =
     bindE (exactKeys d [''type'', ''reel'', ''row'']) (\<lambda>_.
     bindE (vaultEventCellAddress d g) (\<lambda>p. Inr (FreeSpinCapReached p)))"

definition winCapReachedOf :: "js_object \<Rightarrow> decode_error + FeatureEvent" where
  "winCapReachedOf d =
     bindE (exactKeys d [''type'', ''multiplier'', ''cumulativeWinMinor'']) (\<lambda>_.
     bindE (boundedInteger (getProp d ''multiplier'') 1 1000000) (\<lambda>mult.
     if mult \<noteq> PRIMAL_MAX_WIN_MULTIPLIER then reject ''multiplier must equal 2500''
     else bindE (money (getProp d ''cumulativeWinMinor'')) (\<lambda>cumulative.
       Inr (WinCapReached PRIMAL_MAX_WIN_MULTIPLIER cumulative))))"

definition vaultUpgradeStartedOf :: "js_object \<Rightarrow> decode_error + FeatureEvent" where
  "vaultUpgradeStartedOf d =
     bindE (exactKeys d [''type'', ''count'', ''step'']) (\<lambda>_.
     bindE (boundedInteger (getProp d ''count'') 1 8) (\<lambda>count.
     bindE (boundedInteger (getProp d ''step'') 1 16) (\<lambda>step.
     Inr (VaultUpgradeStarted count step))))"

definition vaultUpgradedOf :: "js_object \<Rightarrow> grid \<Rightarrow> decode_error + FeatureEvent" where
  "vaultUpgradedOf d g =
     bindE (exactKeys d [''type'', ''reel'', ''row'', ''fromMultiplier'', ''toMultiplier'', ''prize'',
       ''step'']) (\<lambda>_.
     bindE (vaultEventCellAddress d g) (\<lambda>p.
     bindE (boundedInteger (getProp d ''fromMultiplier'') 1 1000000) (\<lambda>fromMultiplier.
     bindE (boundedInteger (getProp d ''toMultiplier'') 1 1000000) (\<lambda>toMultiplier.
     if toMultiplier \<le> fromMultiplier
     then reject ''toMultiplier must be greater than fromMultiplier''
     else bindE (identifierOf (getProp d ''prize'')) (\<lambda>prize.
       bindE (boundedInteger (getProp d ''step'') 1 16) (\<lambda>step.
       Inr (VaultUpgraded p fromMultiplier toMultiplier prize step)))))))"

definition freeSpinsCompletedOf :: "js_object \<Rightarrow> decode_error + FeatureEvent" where
  "freeSpinsCompletedOf d =
     bindE (exactKeys d [''type'', ''mode'', ''awarded'', ''cumulativeWinMinor'']) (\<lambda>_.
     bindE (featureModeOf (getProp d ''mode'')) (\<lambda>m.
     bindE (boundedInteger (getProp d ''awarded'') 1 1000000) (\<lambda>awarded.
     bindE (money (getProp d ''cumulativeWinMinor'')) (\<lambda>cumulative.
     Inr (FreeSpinsCompleted m awarded cumulative)))))"

definition eventBodyOf :: "EventType \<Rightarrow> js_object \<Rightarrow> grid \<Rightarrow> decode_error + FeatureEvent" where
  "eventBodyOf t d g = (case t of
       surge_collected \<Rightarrow> surgeCollectedOf d g
     | rage_transformed \<Rightarrow> rageTransformedOf d g
     | wheel_started \<Rightarrow> bindE (exactKeys d [''type'']) (\<lambda>_. Inr WheelStarted)
     | wheel_awarded \<Rightarrow> wheelAwardedOf d
     | free_spins_started \<Rightarrow> freeSpinsStartedOf d
     | grid_expanded \<Rightarrow> gridExpandedOf d
     | vault_awarded \<Rightarrow> vaultAwardedOf d g
     | vault_unlocked \<Rightarrow> vaultUnlockedOf d g
     | free_spin_awarded \<Rightarrow> freeSpinAwardedOf d g
     | vault_upgraded \<Rightarrow> vaultUpgradedOf d g
     | vaults_upgrade_started \<Rightarrow> vaultUpgradeStartedOf d
     | free_spin_cap_reached \<Rightarrow> freeSpinCapReachedOf d g
     | win_cap_reached \<Rightarrow> winCapReachedOf d
     | free_spins_completed \<Rightarrow> freeSpinsCompletedOf d
     | vaults_landed \<Rightarrow> vaultGroupOf vaults_landed d g
     | vaults_locked \<Rightarrow> vaultGroupOf vaults_locked d g
     | vaults_unlock_started \<Rightarrow> vaultGroupOf vaults_unlock_started d g
     | vaults_unlock_completed \<Rightarrow> vaultGroupOf vaults_unlock_completed d g)"

definition featureEventOf :: "grid \<Rightarrow> js \<Rightarrow> decode_error + FeatureEvent" where
  "featureEventOf g v = bindE (recordOf v) (\<lambda>d.
     bindE (stringOf (getProp d ''type'')) (\<lambda>typeName.
     case type_of_name typeName of
       None \<Rightarrow> reject ''type contains unsupported feature event''
     | Some t \<Rightarrow> eventBodyOf t d g))"

section \<open>The event grammar\<close>

definition singletonTypes :: "EventType list" where
  "singletonTypes = [grid_expanded, surge_collected, rage_transformed, wheel_started, wheel_awarded,
     free_spins_started, win_cap_reached, free_spins_completed, vaults_landed, vaults_locked,
     vaults_unlock_started, vaults_unlock_completed]"

definition checkSingletons :: "FeatureEvent list \<Rightarrow> decode_error + unit" where
  "checkSingletons evs = foldE (\<lambda>t _.
     if 1 < length (eventsOfType evs t) then reject ''must not contain duplicate events of one type''
     else Inr ()) singletonTypes ()"

definition checkGridExpanded :: "grid \<Rightarrow> FeatureEvent list \<Rightarrow> decode_error + unit" where
  "checkGridExpanded g evs =
     (let i = indexOfType evs grid_expanded; rows = gridRows g in
      if 0 \<le> i then
        (case at evs i of
           Some (GridExpanded erows eways) \<Rightarrow>
             if i \<noteq> 0 \<or> erows \<noteq> rows \<or> eways \<noteq> rows ^ 3
             then reject ''grid.expanded must be first and match the result grid'' else Inr ()
         | _ \<Rightarrow> reject ''has an invalid grid expansion'')
      else Inr ())"

text \<open>The checks on a \<open>surge.collected\<close> event that is present, in the source's order.\<close>

definition checkSurge ::
  "FeatureEvent list \<Rightarrow> int \<Rightarrow> int \<Rightarrow> int \<Rightarrow> int \<Rightarrow> bool \<Rightarrow> int \<Rightarrow> int \<Rightarrow> decode_error + unit" where
  "checkSurge evs surgeIndex transformedIndex wheelStartedIndex count triggered level tot =
     (if triggered \<noteq> (0 \<le> wheelStartedIndex) then reject ''triggered must match wheel event presence''
      else if 0 \<le> wheelStartedIndex \<and> wheelStartedIndex \<le> surgeIndex
      then reject ''surge.collected must precede wheel.started''
      else if triggered \<and> count < 3 \<and> transformedIndex < 0
      then reject ''a one/two-Rage trigger requires rage.transformed''
      else if (\<not> triggered \<or> count = 3) \<and> 0 \<le> transformedIndex
      then reject ''rage.transformed is only valid for a triggered one/two-Rage result''
      else if 0 \<le> transformedIndex then
        (case at evs transformedIndex of
           Some (RageTransformed tcount cells tlevel ttot) \<Rightarrow>
             if \<not> triggered \<or> count + tcount \<noteq> 3 \<or> tlevel \<noteq> level \<or> ttot \<noteq> tot
               \<or> transformedIndex \<le> surgeIndex \<or> wheelStartedIndex \<le> transformedIndex
             then reject ''rage.transformed must complete a triggered collection to three before wheel.started''
             else Inr ()
         | _ \<Rightarrow> reject ''rage.transformed must complete a triggered collection to three before wheel.started'')
      else Inr ())"

definition checkRageAndWheel :: "FeatureEvent list \<Rightarrow> decode_error + unit" where
  "checkRageAndWheel evs =
     (let surgeIndex = indexOfType evs surge_collected;
          transformedIndex = indexOfType evs rage_transformed;
          wheelStartedIndex = indexOfType evs wheel_started;
          wheelAwardedIndex = indexOfType evs wheel_awarded in
      if (0 \<le> wheelStartedIndex) \<noteq> (0 \<le> wheelAwardedIndex)
      then reject ''wheel.started and wheel.awarded must occur together''
      else if 0 \<le> wheelStartedIndex \<and> wheelAwardedIndex \<le> wheelStartedIndex
      then reject ''wheel.started must precede wheel.awarded''
      else if 0 \<le> surgeIndex then
        (case at evs surgeIndex of
           Some (SurgeCollected count cells triggered guaranteed level tot) \<Rightarrow>
             checkSurge evs surgeIndex transformedIndex wheelStartedIndex count triggered level tot
         | _ \<Rightarrow> reject ''has an invalid surge.collected event'')
      else if 0 \<le> wheelStartedIndex \<or> 0 \<le> transformedIndex
      then reject ''Rage transformation and wheel events require surge.collected''
      else Inr ())"

definition checkFreeSpinsStarted :: "FeatureEvent list \<Rightarrow> decode_error + unit" where
  "checkFreeSpinsStarted evs =
     (let startedIndex = indexOfType evs free_spins_started;
          wheelAwardedIndex = indexOfType evs wheel_awarded in
      if 0 \<le> startedIndex \<and> (wheelAwardedIndex < 0 \<or> startedIndex \<noteq> wheelAwardedIndex + 1)
      then reject ''free_spins.started must immediately follow wheel.awarded''
      else if 0 \<le> wheelAwardedIndex then
        (case at evs wheelAwardedIndex of
           Some (WheelAwarded outcome p m a) \<Rightarrow>
             if outcome = ''INSTANT'' then
               (if 0 \<le> startedIndex then reject ''INSTANT must not start Free Spins'' else Inr ())
             else if startedIndex < 0
             then reject ''feature wheel outcomes require free_spins.started''
             else (case at evs startedIndex of
                 Some (FreeSpinsStarted m awarded) \<Rightarrow>
                   if mode_name m \<noteq> outcome
                   then reject ''wheel outcome must match the started Free Spins mode'' else Inr ()
               | _ \<Rightarrow> reject ''wheel outcome must match the started Free Spins mode'')
         | _ \<Rightarrow> reject ''has an invalid wheel.awarded event'')
      else Inr ())"

definition checkTerminalEvents :: "FeatureEvent list \<Rightarrow> decode_error + unit" where
  "checkTerminalEvents evs =
     (let completedIndex = indexOfType evs free_spins_completed;
          winCapIndex = indexOfType evs win_cap_reached;
          final = int (length evs) - 1 in
      if 0 \<le> completedIndex \<and> completedIndex \<noteq> final
      then reject ''free_spins.completed must be the final event''
      else if 0 \<le> winCapIndex \<and> winCapIndex \<noteq> final
        \<and> \<not> (completedIndex = final \<and> winCapIndex = completedIndex - 1)
      then reject ''win_cap.reached must be final or immediately precede free_spins.completed''
      else Inr ())"

definition isVaultDetail :: "FeatureEvent \<Rightarrow> bool" where
  "isVaultDetail e = (prefix ''vault.'' (type_name (type_of e))
     \<or> prefix ''vaults.'' (type_name (type_of e))
     \<or> type_of e = free_spin_awarded \<or> type_of e = free_spin_cap_reached)"

definition vaultDetailIndices :: "FeatureEvent list \<Rightarrow> int list" where
  "vaultDetailIndices evs =
     map fst (filter (\<lambda>(i, e). isVaultDetail e) (entriesFrom 0 evs))"

definition checkVaultGroups :: "FeatureEvent list \<Rightarrow> decode_error + unit" where
  "checkVaultGroups evs =
     (let landedIndex = indexOfType evs vaults_landed;
          lockedIndex = indexOfType evs vaults_locked;
          us = indexOfType evs vaults_unlock_started;
          uc = indexOfType evs vaults_unlock_completed in
      if vaultDetailIndices evs \<noteq> [] \<and> landedIndex < 0
      then reject ''Vault detail events require vaults.landed''
      else if 0 \<le> landedIndex \<and> list_ex (\<lambda>i. i < landedIndex) (vaultDetailIndices evs)
      then reject ''vaults.landed must precede Vault detail events''
      else if 0 \<le> lockedIndex \<and> 0 \<le> us
      then reject ''locked and unlocked Vault branches are mutually exclusive''
      else if (0 \<le> us) \<noteq> (0 \<le> uc) \<or> (0 \<le> us \<and> uc \<le> us)
      then reject ''Vault unlock start/completion events must be an ordered pair''
      else Inr ())"

fun isUpgradeStart :: "int \<Rightarrow> FeatureEvent \<Rightarrow> bool" where
  "isUpgradeStart step (VaultUpgradeStarted count s) = (s = step)"
| "isUpgradeStart step _ = False"

fun isUpgrade :: "int \<Rightarrow> FeatureEvent \<Rightarrow> bool" where
  "isUpgrade step (VaultUpgraded p f t prize s) = (s = step)"
| "isUpgrade step _ = False"

definition checkVaultDetail ::
  "FeatureEvent list \<Rightarrow> int \<times> FeatureEvent \<Rightarrow> unit \<Rightarrow> decode_error + unit" where
  "checkVaultDetail evs entry u =
     (let (i, e) = entry;
          us = indexOfType evs vaults_unlock_started;
          uc = indexOfType evs vaults_unlock_completed in
      case e of
        VaultUnlocked p prize m \<Rightarrow>
          if us < 0 \<or> i \<le> us \<or> uc \<le> i then reject ''vault.unlocked must occur inside the unlock group''
          else Inr ()
      | VaultUpgraded p f t prize step \<Rightarrow>
          let startedIndex = findIndex (isUpgradeStart step) evs in
          if startedIndex < 0 \<or> i \<le> startedIndex
          then reject ''vault.upgraded must follow its matching upgrade start'' else Inr ()
      | VaultUpgradeStarted count step \<Rightarrow>
          if int (length (filter (isUpgrade step) evs)) \<noteq> count
          then reject ''Vault upgrade count must match its step events''
          else if uc < 0 \<or> i \<le> uc then reject ''Vault upgrades must follow unlock completion''
          else Inr ()
      | _ \<Rightarrow> Inr ())"

definition checkLockedOrder :: "FeatureEvent list \<Rightarrow> decode_error + unit" where
  "checkLockedOrder evs =
     (let lockedIndex = indexOfType evs vaults_locked in
      if 0 \<le> lockedIndex \<and> lockedIndex \<le> indexOfType evs vaults_landed
      then reject ''vaults.locked must follow vaults.landed'' else Inr ())"

definition checkEventGrammar :: "grid \<Rightarrow> FeatureEvent list \<Rightarrow> decode_error + unit" where
  "checkEventGrammar g evs =
     bindE (checkSingletons evs) (\<lambda>_.
     bindE (checkGridExpanded g evs) (\<lambda>_.
     bindE (checkRageAndWheel evs) (\<lambda>_.
     bindE (checkFreeSpinsStarted evs) (\<lambda>_.
     bindE (checkTerminalEvents evs) (\<lambda>_.
     bindE (checkVaultGroups evs) (\<lambda>_.
     bindE (foldE (checkVaultDetail evs) (entriesFrom 0 evs) ()) (\<lambda>_.
     checkLockedOrder evs)))))))"

fun eventsOf :: "js \<Rightarrow> grid \<Rightarrow> decode_error + FeatureEvent list" where
  "eventsOf (JArray vs) g =
     (if 10000 < length vs then reject ''must be an array with at most 10000 entries''
      else bindE (mapE (featureEventOf g) vs) (\<lambda>decoded.
        bindE (checkEventGrammar g decoded) (\<lambda>_. Inr decoded)))"
| "eventsOf _ g = reject ''must be an array with at most 10000 entries''"

end
