(* ===== verification/Wire_Events.thy ===== *)
theory Wire_Events
  imports Wire_Values Decoder_Events
begin

text \<open>
  The wire contract of \<open>featureEvent\<close>: the well-formed events of a grid, their encoding
  and the proof that the decoder returns exactly these.
\<close>

section \<open>Well-formed events\<close>

abbreviation million :: "int \<Rightarrow> bool" where
  "million \<equiv> bounded 1 1000000"

fun instant_ok :: "string option \<Rightarrow> int option \<Rightarrow> string option \<Rightarrow> bool" where
  "instant_ok (Some tier) (Some m) (Some a) =
     (map_of WHEEL_INSTANT_MULTIPLIER_BY_TIER tier = Some m \<and> money_ok a)"
| "instant_ok _ _ _ = False"

lemma instant_ok_iff [simp]:
  "instant_ok prize mult amount \<longleftrightarrow>
     (\<exists>tier m a. prize = Some tier \<and> mult = Some m \<and> amount = Some a
       \<and> map_of WHEEL_INSTANT_MULTIPLIER_BY_TIER tier = Some m \<and> money_ok a)"
  by (cases "(prize, mult, amount)" rule: instant_ok.cases) auto

fun wf_event :: "grid \<Rightarrow> FeatureEvent \<Rightarrow> bool" where
  "wf_event g (SurgeCollected count cells triggered guaranteed level tot) =
     (surgeCells g cells \<and> count = int (length cells) \<and> bounded 1 3 count
      \<and> guaranteed = (count = 3) \<and> (guaranteed \<longrightarrow> triggered)
      \<and> million level \<and> bounded 0 1000000 tot)"
| "wf_event g (RageTransformed count cells level tot) =
     (eventCells g 1 24 cells \<and> count = int (length cells) \<and> bounded 1 24 count
      \<and> million level \<and> bounded 0 1000000 tot)"
| "wf_event g WheelStarted = True"
| "wf_event g (WheelAwarded outcome prize mult amount) =
     ((outcome = ''INSTANT'' \<and> instant_ok prize mult amount)
      \<or> (outcome = ''EXPANSION'' \<and> (prize = None \<or> prize = Some ''KONG_QUEST'') \<and> mult = None \<and> amount = None)
      \<or> (outcome = ''OVERDRIVE'' \<and> (prize = None \<or> prize = Some ''KING_SPIN'') \<and> mult = None \<and> amount = None))"
| "wf_event g (FreeSpinsStarted m awarded) = (m \<noteq> BASE \<and> awarded = 8)"
| "wf_event g (GridExpanded rows ways) = (bounded 1 255 rows \<and> bounded 1 2147483647 ways)"
| "wf_event g (VaultAwarded p m a prize) =
     (vaultAddress g p \<and> million m \<and> money_ok a \<and> optional identifier_ok prize)"
| "wf_event g (VaultGroup t count cells) =
     (t \<in> set vault_group_types \<and> vaultCells g 1 8 cells \<and> count = int (length cells) \<and> bounded 1 8 count)"
| "wf_event g (VaultUnlocked p prize m) =
     (vaultAddress g p \<and> identifier_ok prize \<and> optional million m)"
| "wf_event g (FreeSpinAwarded count p) = (million count \<and> optional (vaultAddress g) p)"
| "wf_event g (VaultUpgraded p f t prize step) =
     (vaultAddress g p \<and> million f \<and> million t \<and> f < t \<and> identifier_ok prize \<and> bounded 1 16 step)"
| "wf_event g (VaultUpgradeStarted count step) = (bounded 1 8 count \<and> bounded 1 16 step)"
| "wf_event g (FreeSpinCapReached p) = vaultAddress g p"
| "wf_event g (WinCapReached m cumulative) = (m = 2500 \<and> money_ok cumulative)"
| "wf_event g (FreeSpinsCompleted m awarded cumulative) =
     (m \<noteq> BASE \<and> million awarded \<and> money_ok cumulative)"

abbreviation addressFields :: "CellAddress \<Rightarrow> js_object" where
  "addressFields p \<equiv> [(''reel'', JInt (reel p)), (''row'', JInt (row p))]"

abbreviation cellsField :: "CellAddress list \<Rightarrow> string \<times> js" where
  "cellsField cells \<equiv> (''cells'', JArray (map encodeAddress cells))"

fun eventFields :: "FeatureEvent \<Rightarrow> js_object" where
  "eventFields (SurgeCollected count cells triggered guaranteed level tot) =
     [(''count'', JInt count), cellsField cells, (''triggered'', JBool triggered),
      (''guaranteed'', JBool guaranteed), (''level'', JInt level), (''total'', JInt tot)]"
| "eventFields (RageTransformed count cells level tot) =
     [(''count'', JInt count), cellsField cells, (''level'', JInt level), (''total'', JInt tot)]"
| "eventFields WheelStarted = []"
| "eventFields (WheelAwarded outcome prize mult amount) =
     (''outcome'', JString outcome) # optProp ''prize'' JString prize
       @ optProp ''multiplier'' JInt mult @ optProp ''amountMinor'' JString amount"
| "eventFields (FreeSpinsStarted m awarded) =
     [(''mode'', JString (mode_name m)), (''awarded'', JInt awarded)]"
| "eventFields (GridExpanded rows ways) = [(''rows'', JInt rows), (''ways'', JInt ways)]"
| "eventFields (VaultAwarded p m a prize) =
     addressFields p @ optProp ''prize'' JString prize
       @ [(''multiplier'', JInt m), (''amountMinor'', JString a)]"
| "eventFields (VaultGroup t count cells) = [(''count'', JInt count), cellsField cells]"
| "eventFields (VaultUnlocked p prize m) =
     addressFields p @ [(''prize'', JString prize)] @ optProp ''multiplier'' JInt m"
| "eventFields (FreeSpinAwarded count p) =
     (''count'', JInt count) # (case p of None \<Rightarrow> [] | Some q \<Rightarrow> addressFields q)"
| "eventFields (VaultUpgraded p f t prize step) =
     addressFields p @ [(''fromMultiplier'', JInt f), (''toMultiplier'', JInt t),
       (''prize'', JString prize), (''step'', JInt step)]"
| "eventFields (VaultUpgradeStarted count step) = [(''count'', JInt count), (''step'', JInt step)]"
| "eventFields (FreeSpinCapReached p) = addressFields p"
| "eventFields (WinCapReached m cumulative) =
     [(''multiplier'', JInt m), (''cumulativeWinMinor'', JString cumulative)]"
| "eventFields (FreeSpinsCompleted m awarded cumulative) =
     [(''mode'', JString (mode_name m)), (''awarded'', JInt awarded),
      (''cumulativeWinMinor'', JString cumulative)]"

definition encodeEvent :: "FeatureEvent \<Rightarrow> js" where
  "encodeEvent e = JObject ((''type'', JString (type_name (type_of e))) # eventFields e)"

section \<open>Every decoded event is well formed\<close>

lemma featureModeOf_Inr [accept]:
  "featureModeOf v = Inr m \<longleftrightarrow> m \<noteq> BASE \<and> v = JString (mode_name m)"
proof (cases v)
  case (JString s)
  then show ?thesis by (cases m) (simp_all add: featureModeOf_def)
qed (simp_all add: featureModeOf_def)

lemma tier_sound:
  "wheelJackpotTier v = Inr t \<Longrightarrow> \<exists>m. map_of WHEEL_INSTANT_MULTIPLIER_BY_TIER t = Some m"
  by (auto simp: wheelJackpotTier_def accept mapHas_def)

lemma event_bodies_sound:
  "surgeCollectedOf d g = Inr e \<Longrightarrow> wf_event g e"
  "rageTransformedOf d g = Inr e \<Longrightarrow> wf_event g e"
  "instantAwardOf d = Inr e \<Longrightarrow> wf_event g e"
  "freeSpinsStartedOf d = Inr e \<Longrightarrow> wf_event g e"
  "gridExpandedOf d = Inr e \<Longrightarrow> wf_event g e"
  "vaultGroupOf t d g = Inr e \<Longrightarrow> t \<in> set vault_group_types \<Longrightarrow> wf_event g e"
  "vaultUnlockedOf d g = Inr e \<Longrightarrow> wf_event g e"
  "vaultAwardedOf d g = Inr e \<Longrightarrow> wf_event g e"
  "freeSpinAwardedOf d g = Inr e \<Longrightarrow> wf_event g e"
  "freeSpinCapReachedOf d g = Inr e \<Longrightarrow> wf_event g e"
  "winCapReachedOf d = Inr e \<Longrightarrow> wf_event g e"
  "vaultUpgradeStartedOf d = Inr e \<Longrightarrow> wf_event g e"
  "vaultUpgradedOf d g = Inr e \<Longrightarrow> wf_event g e"
  "freeSpinsCompletedOf d = Inr e \<Longrightarrow> wf_event g e"
  subgoal unfolding surgeCollectedOf_def
    by (elim accepted) (auto simp: accept dest: surgeCells.sound)
  subgoal unfolding rageTransformedOf_def
    by (elim accepted) (auto simp: accept dest: eventCells.sound)
  subgoal unfolding instantAwardOf_def Let_def
    by (elim accepted) (auto simp: accept dest: tier_sound)
  subgoal unfolding freeSpinsStartedOf_def
    by (elim accepted) (auto simp: accept)
  subgoal unfolding gridExpandedOf_def
    by (elim accepted) (auto simp: accept)
  subgoal unfolding vaultGroupOf_def
    by (elim accepted) (auto simp: accept dest: vaultCells.sound)
  subgoal unfolding vaultUnlockedOf_def
    by (elim accepted) (auto simp: accept dest: bounded_int.optional_sound simp del: bounded_million)
  subgoal unfolding vaultAwardedOf_def
    by (elim accepted) (auto simp: accept dest: ident.optional_sound)
  subgoal unfolding freeSpinAwardedOf_def
    by (elim accepted) (auto simp: accept split: if_splits)
  subgoal unfolding freeSpinCapReachedOf_def
    by (elim accepted) (auto simp: accept)
  subgoal unfolding winCapReachedOf_def
    by (elim accepted) (auto simp: accept PRIMAL_MAX_WIN_MULTIPLIER_def)
  subgoal unfolding vaultUpgradeStartedOf_def
    by (elim accepted) (auto simp: accept)
  subgoal unfolding vaultUpgradedOf_def
    by (elim accepted) (auto simp: accept)
  subgoal unfolding freeSpinsCompletedOf_def
    by (elim accepted) (auto simp: accept)
  done

lemma wheelAwarded_sound: "wheelAwardedOf d = Inr e \<Longrightarrow> wf_event g e"
  unfolding wheelAwardedOf_def Let_def
  by (elim accepted) (auto simp: accept event_bodies_sound(3) split: if_splits)

lemma event_sound: "featureEventOf g v = Inr e \<Longrightarrow> wf_event g e"
  unfolding featureEventOf_def
  apply (elim accepted)
  apply (erule option_caseE)
  subgoal by simp
  subgoal for d n t
    by (cases t) (auto simp: eventBodyOf_def accept vault_group_types_def
      dest: event_bodies_sound wheelAwarded_sound)
  done


section \<open>Every well-formed event is decoded\<close>

lemma type_name_nonempty [simp]: "type_name t \<noteq> []"
  by (cases t) simp_all

lemma featureEvent_encoded:
  "featureEventOf g (encodeEvent e)
     = eventBodyOf (type_of e) ((''type'', JString (type_name (type_of e))) # eventFields e) g"
  by (simp add: featureEventOf_def encodeEvent_def decoding del: type_name.simps type_of.simps eventFields.simps)

lemma decoding_mode [decoding]: "m \<noteq> BASE \<Longrightarrow> featureModeOf (JString (mode_name m)) = Inr m"
  by (simp add: accept)

lemma decoding_address [decoding]:
  "getProp d ''reel'' = JInt (reel p) \<Longrightarrow> getProp d ''row'' = JInt (row p) \<Longrightarrow> vaultAddress g p \<Longrightarrow>
     vaultEventCellAddress d g = Inr p"
  by (simp add: accept)

lemma decoding_bool [decoding]: "booleanOf (JBool b) = Inr b"
  by simp

lemmas decoding_cells [decoding] = eventCells.complete vaultCells.complete surgeCells.complete

lemma tier_identifier:
  "map_of WHEEL_INSTANT_MULTIPLIER_BY_TIER t = Some m \<Longrightarrow> identifier_ok t \<and> million m"
  by (auto simp: WHEEL_INSTANT_MULTIPLIER_BY_TIER_def identifier_ok_def IDENTIFIER_PATTERN_def
      is_alnum_def is_identifier_char_def is_upper_def is_digit_def is_lower_def code_def split: if_splits)

lemma outcome_identifiers:
  "identifier_ok ''INSTANT''" "identifier_ok ''EXPANSION''" "identifier_ok ''OVERDRIVE''"
  "identifier_ok ''KONG_QUEST''" "identifier_ok ''KING_SPIN''"
  by (simp_all add: identifier_ok_def IDENTIFIER_PATTERN_def is_alnum_def is_identifier_char_def
      is_upper_def is_digit_def is_lower_def code_def)

lemma event_body_complete:
  "wf_event g e \<Longrightarrow>
     eventBodyOf (type_of e) ((''type'', JString (type_name (type_of e))) # eventFields e) g = Inr e"
proof (cases e)
  case (SurgeCollected count cells triggered guaranteed level tot)
  then show "wf_event g e \<Longrightarrow> ?thesis"
    by (auto simp: eventBodyOf_def surgeCollectedOf_def exactKeys_subset decoding simp del: bounded_million)
next
  case (RageTransformed count cells level tot)
  then show "wf_event g e \<Longrightarrow> ?thesis"
    by (auto simp: eventBodyOf_def rageTransformedOf_def exactKeys_subset decoding simp del: bounded_million
        eventCellAddresses.simps)
next
  case WheelStarted
  then show "wf_event g e \<Longrightarrow> ?thesis"
    by (simp add: eventBodyOf_def exactKeys_subset)
next
  case (WheelAwarded outcome prize mult amount)
  then show "wf_event g e \<Longrightarrow> ?thesis"
    by (auto simp: eventBodyOf_def wheelAwardedOf_def instantAwardOf_def wheelJackpotTier_def
        exactKeys_subset decoding outcome_identifiers mapHas_def Let_def tier_identifier simp del: bounded_million)
next
  case (FreeSpinsStarted m awarded)
  then show "wf_event g e \<Longrightarrow> ?thesis"
    by (auto simp: eventBodyOf_def freeSpinsStartedOf_def exactKeys_subset decoding)
next
  case (GridExpanded rows ways)
  then show "wf_event g e \<Longrightarrow> ?thesis"
    by (auto simp: eventBodyOf_def gridExpandedOf_def exactKeys_subset decoding)
next
  case (VaultAwarded p m a prize)
  then show "wf_event g e \<Longrightarrow> ?thesis"
    by (cases prize) (auto simp: eventBodyOf_def vaultAwardedOf_def exactKeys_subset decoding simp del: bounded_million)
next
  case (VaultGroup t count cells)
  then show "wf_event g e \<Longrightarrow> ?thesis"
    by (auto simp: eventBodyOf_def vault_group_types_def vaultGroupOf_def exactKeys_subset decoding)
next
  case (VaultUnlocked p prize m)
  then show "wf_event g e \<Longrightarrow> ?thesis"
    by (cases m) (auto simp: eventBodyOf_def vaultUnlockedOf_def exactKeys_subset decoding simp del: bounded_million)
next
  case (FreeSpinAwarded count p)
  then show "wf_event g e \<Longrightarrow> ?thesis"
    by (cases p) (auto simp: eventBodyOf_def freeSpinAwardedOf_def exactKeys_subset decoding simp del: bounded_million)
next
  case (VaultUpgraded p f t prize step)
  then show "wf_event g e \<Longrightarrow> ?thesis"
    by (auto simp: eventBodyOf_def vaultUpgradedOf_def exactKeys_subset decoding simp del: bounded_million)
next
  case (VaultUpgradeStarted count step)
  then show "wf_event g e \<Longrightarrow> ?thesis"
    by (auto simp: eventBodyOf_def vaultUpgradeStartedOf_def exactKeys_subset decoding)
next
  case (FreeSpinCapReached p)
  then show "wf_event g e \<Longrightarrow> ?thesis"
    by (auto simp: eventBodyOf_def freeSpinCapReachedOf_def exactKeys_subset decoding)
next
  case (WinCapReached m cumulative)
  then show "wf_event g e \<Longrightarrow> ?thesis"
    by (auto simp: eventBodyOf_def winCapReachedOf_def exactKeys_subset decoding PRIMAL_MAX_WIN_MULTIPLIER_def)
next
  case (FreeSpinsCompleted m awarded cumulative)
  then show "wf_event g e \<Longrightarrow> ?thesis"
    by (auto simp: eventBodyOf_def freeSpinsCompletedOf_def exactKeys_subset decoding simp del: bounded_million)
qed

lemma event_complete: "wf_event g e \<Longrightarrow> featureEventOf g (encodeEvent e) = Inr e"
  unfolding featureEvent_encoded by (rule event_body_complete)

interpretation event: codec "featureEventOf g" encodeEvent "wf_event g" for g
  by unfold_locales (fact event_sound event_complete)+

lemma wf_event_typed: "wf_event g e \<Longrightarrow> event_typed e"
  by (cases e) auto

end
