(* ===== verification/Wire_Wins.thy ===== *)
theory Wire_Wins
  imports Wire_Events
begin

text \<open>
  The wire contract of \<open>win\<close>: path awards with the WILD product law, the sums of their
  amounts and the union of their cells; the decoder returns exactly the well-formed wins of
  a well-formed grid.
\<close>

section \<open>Path awards\<close>

definition wf_path :: "grid \<Rightarrow> SymbolId \<Rightarrow> PathAward \<Rightarrow> bool" where
  "wf_path g s a =
     (map reel (path_cells a) = [0, 1, 2]
      \<and> list_all (\<lambda>p. wf_address p \<and> (holdsSymbol g s p \<or> holdsSymbol g WILD p)) (path_cells a)
      \<and> path_multiplier a = prod_list (map (wildMultiplier g) (path_cells a))
      \<and> bounded 1 1000000 (path_multiplier a)
      \<and> money_ok (path_baseAmountMinor a) \<and> money_ok (path_nominalAmountMinor a)
      \<and> money_ok (path_amountMinor a)
      \<and> BigInt (path_amountMinor a) \<le> BigInt (path_nominalAmountMinor a)
      \<and> \<not> baseInconsistent (path_multiplier a) (BigInt (path_baseAmountMinor a))
          (BigInt (path_nominalAmountMinor a)))"

definition encodePath :: "PathAward \<Rightarrow> js" where
  "encodePath a = JObject [cellsField (path_cells a), (''multiplier'', JInt (path_multiplier a)),
     (''baseAmountMinor'', JString (path_baseAmountMinor a)),
     (''nominalAmountMinor'', JString (path_nominalAmountMinor a)),
     (''amountMinor'', JString (path_amountMinor a))]"

definition addPath :: "PathAward \<Rightarrow> path_scan \<Rightarrow> path_scan" where
  "addPath a st = st\<lparr>
     pathCellKeys := rev (map positionKey (path_cells a)) @ pathCellKeys st,
     seenPaths := pathKey (path_cells a) # seenPaths st,
     pathAmountTotal := pathAmountTotal st + BigInt (path_amountMinor a),
     pathNominalAmountTotal := pathNominalAmountTotal st + BigInt (path_nominalAmountMinor a),
     pathAwards := pathAwards st @ [a]\<rparr>"

lemma wildMultiplier_other: "\<not> holdsSymbol g WILD p \<Longrightarrow> wildMultiplier g p = 1"
  by (auto simp: holdsSymbol_def wildMultiplier_def split: option.splits)

lemma wild_product:
  "foldE (wildStep g) cells acc = Inr m \<Longrightarrow> m = acc * prod_list (map (wildMultiplier g) cells)"
proof (induction cells arbitrary: acc)
  case Nil
  then show ?case by simp
next
  case (Cons p cells)
  then obtain acc' where "wildStep g p acc = Inr acc'" "foldE (wildStep g) cells acc' = Inr m"
    by (auto simp: accept)
  moreover from this(1) have "acc' = acc * wildMultiplier g p"
    by (auto simp: wildStep_def Let_def accept wildMultiplier_other split: if_splits)
  ultimately have "m = acc * wildMultiplier g p * prod_list (map (wildMultiplier g) cells)"
    using Cons.IH by blast
  then show ?case by (simp add: mult.assoc)
qed

lemma wf_grid_cell:
  assumes "wf_grid g" "cellAt g p = Some c"
  shows "wf_gridCell (reel p) c"
proof -
  obtain k where k: "reel p = int k" "k < 3" "nat (row p) < length (g ! k)" "c = g ! k ! nat (row p)"
    using assms by (cases "reel p") (auto simp: cellAt_Some wf_grid_def)
  then have "wf_reel (int k) (g ! k)"
    using assms(1) by (auto simp: wf_grid_def numeral_3_eq_3 less_Suc_eq numeral_2_eq_2)
  then show ?thesis using k by (simp add: wf_reel_def list_all_length)
qed

lemma wildMultiplier_pos: "wf_grid g \<Longrightarrow> 1 \<le> wildMultiplier g p"
  using wf_grid_cell [of g p]
  by (auto simp: wildMultiplier_def wf_gridCell_def wf_cell_def bounded_def split: option.splits)

lemma wild_product_pos: "wf_grid g \<Longrightarrow> 1 \<le> prod_list (map (wildMultiplier g) cells)"
proof (induction cells)
  case Nil
  then show ?case by simp
next
  case (Cons p cells)
  then show ?case
    using wildMultiplier_pos [of g p] mult_mono [of 1 "wildMultiplier g p" 1 "prod_list (map (wildMultiplier g) cells)"]
    by simp
qed

lemma wild_complete:
  "wf_grid g \<Longrightarrow> 1 \<le> acc \<Longrightarrow> acc * prod_list (map (wildMultiplier g) cells) \<le> 1000000 \<Longrightarrow>
     foldE (wildStep g) cells acc = Inr (acc * prod_list (map (wildMultiplier g) cells))"
proof (induction cells arbitrary: acc)
  case Nil
  then show ?case by simp
next
  case (Cons p cells)
  let ?rest = "prod_list (map (wildMultiplier g) cells)"
  have w: "1 \<le> wildMultiplier g p" and r: "1 \<le> ?rest"
    using Cons.prems(1) by (simp_all add: wildMultiplier_pos wild_product_pos)
  have pos: "1 \<le> acc * wildMultiplier g p"
    using Cons.prems(2) w mult_mono [of 1 acc 1 "wildMultiplier g p"] by simp
  have "acc * wildMultiplier g p * 1 \<le> acc * wildMultiplier g p * ?rest"
    using pos r by (intro mult_left_mono) simp_all
  then have le: "acc * wildMultiplier g p \<le> 1000000"
    using Cons.prems(3) by (simp add: mult.assoc)
  have "wildStep g p acc = Inr (acc * wildMultiplier g p)"
    using le pos by (auto simp: wildStep_def Let_def wildMultiplier_other safe_int_def MAX_SAFE_INTEGER_def)
  then show ?case
    using Cons.IH [OF Cons.prems(1) pos] Cons.prems(3) by (simp add: mult.assoc)
qed

lemma pathCell_Inr [accept]:
  "pathCellOf g s i v = Inr p \<longleftrightarrow>
     cellAddress v = Inr p \<and> reel p = i \<and> (holdsSymbol g s p \<or> holdsSymbol g WILD p)"
  by (auto simp: pathCellOf_def accept holdsSymbol_def split: option.splits)

lemma three_reels: "map reel ps = [0, 1, 2] \<longleftrightarrow> (\<exists>a b c. ps = [a, b, c] \<and> reel a = 0 \<and> reel b = 1 \<and> reel c = 2)"
  by (auto simp: map_eq_Cons_conv)

lemma pathCells_sound:
  assumes "pathCellsOf g s v = Inr cells"
  shows "map reel cells = [0, 1, 2]
    \<and> list_all (\<lambda>p. wf_address p \<and> (holdsSymbol g s p \<or> holdsSymbol g WILD p)) cells"
proof -
  obtain a b c where "v = JArray [a, b, c]" "mapIdxE (pathCellOf g s) 0 [a, b, c] = Inr cells"
    using assms by (cases v) (auto simp: accept three_list split: if_splits)
  then show ?thesis using address.sound by (auto simp: accept)
qed

lemma pathCells_complete:
  assumes "map reel cells = [0, 1, 2]"
    "list_all (\<lambda>p. wf_address p \<and> (holdsSymbol g s p \<or> holdsSymbol g WILD p)) cells"
  shows "pathCellsOf g s (JArray (map encodeAddress cells)) = Inr cells"
proof -
  obtain a b c where "cells = [a, b, c]" "reel a = 0" "reel b = 1" "reel c = 2"
    using assms(1) by (auto simp: three_reels)
  moreover from this have "pathCellOf g s (reel p) (encodeAddress p) = Inr p" if "p \<in> {a, b, c}" for p
    using assms(2) that address.complete by (auto simp: accept)
  then have "pathCellOf g s (reel a) (encodeAddress a) = Inr a" "pathCellOf g s (reel b) (encodeAddress b) = Inr b"
    "pathCellOf g s (reel c) (encodeAddress c) = Inr c" by auto
  ultimately show ?thesis by simp
qed

lemma pathAmounts_sound:
  "pathAmountsOf d m = Inr (b, n, a) \<Longrightarrow> money_ok b \<and> money_ok n \<and> money_ok a \<and> BigInt a \<le> BigInt n
     \<and> \<not> baseInconsistent m (BigInt b) (BigInt n)"
  unfolding pathAmountsOf_def Let_def
  apply (elim accepted)
  apply (drule amount.sound amount.optional_sound)+
  apply (auto split: option.splits)
  done

lemma pathAwardStep_sound:
  assumes "pathAwardStep g s item st = Inr st'"
  shows "\<exists>a. wf_path g s a \<and> pathKey (path_cells a) \<notin> set (seenPaths st) \<and> st' = addPath a st"
proof -
  from assms obtain d cells m b n a where
    cells: "pathCellsOf g s (getProp d ''cells'') = Inr cells"
    and fresh: "pathKey cells \<notin> set (seenPaths st)"
    and wild: "foldE (wildStep g) cells 1 = Inr m"
    and m: "boundedInteger (getProp d ''multiplier'') 1 1000000 = Inr m"
    and amounts: "pathAmountsOf d m = Inr (b, n, a)"
    and st': "st' = addPath \<lparr>path_cells = cells, path_multiplier = m, path_baseAmountMinor = b,
       path_nominalAmountMinor = n, path_amountMinor = a\<rparr> st"
    unfolding pathAwardStep_def
    by (elim accepted) (auto simp: addPath_def split: prod.splits)
  let ?a = "\<lparr>path_cells = cells, path_multiplier = m, path_baseAmountMinor = b,
       path_nominalAmountMinor = n, path_amountMinor = a\<rparr>"
  have "wf_path g s ?a"
    using pathCells_sound [OF cells] wild_product [OF wild] bounded_int.sound [OF m] pathAmounts_sound [OF amounts]
    by (simp add: wf_path_def)
  then show ?thesis using fresh st' by (intro exI [of _ ?a]) simp
qed

lemma pathAwardStep_complete:
  assumes "wf_grid g" "wf_path g s a" "pathKey (path_cells a) \<notin> set (seenPaths st)"
  shows "pathAwardStep g s (encodePath a) st = Inr (addPath a st)"
proof -
  have "foldE (wildStep g) (path_cells a) 1 = Inr (path_multiplier a)"
    using wild_complete [OF assms(1), of 1 "path_cells a"] assms(2) by (simp add: wf_path_def)
  moreover have "pathCellsOf g s (JArray (map encodeAddress (path_cells a))) = Inr (path_cells a)"
    using assms(2) by (intro pathCells_complete) (simp_all add: wf_path_def)
  moreover have "boundedInteger (JInt (path_multiplier a)) 1 1000000 = Inr (path_multiplier a)"
    using assms(2) by (intro bounded_int.complete) (simp add: wf_path_def)
  ultimately show ?thesis
    using assms(2,3)
    by (auto simp: pathAwardStep_def encodePath_def exactKeys_subset pathAmountsOf_def decoding Let_def
        wf_path_def addPath_def not_less simp del: pathCellsOf.simps bounded_million)
qed

text \<open>The loop over the path awards of one win.\<close>

definition paths_ok :: "grid \<Rightarrow> SymbolId \<Rightarrow> PathAward list \<Rightarrow> bool" where
  "paths_ok g s as = (list_all (wf_path g s) as \<and> distinct (map (pathKey \<circ> path_cells) as))"

definition scanOf :: "PathAward list \<Rightarrow> path_scan" where
  "scanOf as = foldl (\<lambda>st a. addPath a st) emptyPathScan as"

lemma scanOf_snoc [simp]: "scanOf (as @ [a]) = addPath a (scanOf as)"
  by (simp add: scanOf_def)

lemma scanOf_fields:
  "pathAwards (scanOf as) = as"
  "set (seenPaths (scanOf as)) = pathKey ` path_cells ` set as"
  "pathAmountTotal (scanOf as) = sum_list (map (BigInt \<circ> path_amountMinor) as)"
  "pathNominalAmountTotal (scanOf as) = sum_list (map (BigInt \<circ> path_nominalAmountMinor) as)"
  "set (pathCellKeys (scanOf as)) = positionKey ` (\<Union>a \<in> set as. set (path_cells a))"
  by (induction as rule: rev_induct) (auto simp: addPath_def scanOf_def emptyPathScan_def)

lemma paths_ok_snoc:
  "paths_ok g s (as @ [a]) \<longleftrightarrow>
     paths_ok g s as \<and> wf_path g s a \<and> pathKey (path_cells a) \<notin> set (seenPaths (scanOf as))"
  by (auto simp: paths_ok_def scanOf_fields image_comp)

lemma pathAwards_sound:
  assumes "foldE (pathAwardStep g s) items emptyPathScan = Inr st"
  shows "\<exists>as. length as = length items \<and> paths_ok g s as \<and> st = scanOf as"
proof (rule foldE_snoc_invariant [OF assms])
  show "\<exists>as. length as = length [] \<and> paths_ok g s as \<and> emptyPathScan = scanOf as"
    by (auto simp: paths_ok_def scanOf_def)
next
  fix ys :: "js list" and x st st'
  assume "\<exists>as. length as = length ys \<and> paths_ok g s as \<and> st = scanOf as"
    and step: "pathAwardStep g s x st = Inr st'"
  then obtain as where as: "length as = length ys" "paths_ok g s as" "st = scanOf as" by blast
  obtain a where "wf_path g s a" "pathKey (path_cells a) \<notin> set (seenPaths st)" "st' = addPath a st"
    using pathAwardStep_sound [OF step] by blast
  then show "\<exists>as. length as = length (ys @ [x]) \<and> paths_ok g s as \<and> st' = scanOf as"
    using as by (intro exI [of _ "as @ [a]"]) (simp add: paths_ok_snoc)
qed

lemma pathAwards_complete:
  "wf_grid g \<Longrightarrow> paths_ok g s as \<Longrightarrow>
     foldE (pathAwardStep g s) (map encodePath as) emptyPathScan = Inr (scanOf as)"
proof (induction as rule: rev_induct)
  case Nil
  then show ?case by (simp add: scanOf_def)
next
  case (snoc a as)
  then show ?case
    using pathAwardStep_complete [OF snoc.prems(1)] by (simp add: foldE_append paths_ok_snoc)
qed


section \<open>Wins\<close>

definition wf_winBase :: "grid \<Rightarrow> Win \<Rightarrow> bool" where
  "wf_winBase g w =
     (identifier_ok (win_id w) \<and> eventCells g 1 256 (win_cells w)
      \<and> money_ok (win_nominalAmountMinor w) \<and> money_ok (win_amountMinor w)
      \<and> BigInt (win_amountMinor w) \<le> BigInt (win_nominalAmountMinor w)
      \<and> optional (bounded 1 1000000) (win_multiplier w))"

definition wf_winPaths :: "grid \<Rightarrow> Win \<Rightarrow> PathAward list \<Rightarrow> bool" where
  "wf_winPaths g w as =
     (win_symbol w \<in> set payingSymbolSet \<and> bounded 1 512 (int (length as)) \<and> paths_ok g (win_symbol w) as
      \<and> (case win_multiplier w of None \<Rightarrow> True | Some m \<Rightarrow> list_all (\<lambda>a. path_multiplier a = m) as)
      \<and> sum_list (map (BigInt \<circ> path_amountMinor) as) = BigInt (win_amountMinor w)
      \<and> sum_list (map (BigInt \<circ> path_nominalAmountMinor) as) = BigInt (win_nominalAmountMinor w)
      \<and> set (win_cells w) = (\<Union>a \<in> set as. set (path_cells a)))"

definition wf_win :: "grid \<Rightarrow> Win \<Rightarrow> bool" where
  "wf_win g w = (wf_winBase g w \<and>
     (case win_pathAwards w of None \<Rightarrow> win_ways w = None
      | Some as \<Rightarrow> win_ways w = Some (int (length as)) \<and> wf_winPaths g w as))"

definition encodeWin :: "Win \<Rightarrow> js" where
  "encodeWin w = JObject (
     [(''id'', JString (win_id w)), (''symbol'', JString (symbol_name (win_symbol w)))]
     @ optProp ''ways'' JInt (win_ways w)
     @ [(''nominalAmountMinor'', JString (win_nominalAmountMinor w)),
        (''amountMinor'', JString (win_amountMinor w))]
     @ [cellsField (win_cells w)]
     @ optProp ''pathAwards'' (\<lambda>as. JArray (map encodePath as)) (win_pathAwards w)
     @ optProp ''multiplier'' JInt (win_multiplier w))"

lemma winCells_sound:
  assumes "winCellsOf v = Inr cells" "distinctAddresses g cells = Inr ks"
  shows "eventCells g 1 256 cells \<and> set ks = set (map positionKey cells)"
proof -
  obtain vs where "v = JArray vs" "vs \<noteq> []" "length vs \<le> 256" "mapE cellAddress vs = Inr cells"
    using assms(1) by (cases v) (auto simp: accept)
  then show ?thesis
    using assms(2) address.list_sound [of vs cells] mapE_length [of cellAddress vs cells]
      eventCells_inside [of cells g]
    by (cases vs) (auto simp: eventCells_def list_all_iff distinctAddresses_Inr)
qed

lemma winCells_complete:
  assumes "eventCells g 1 256 cells"
  shows "winCellsOf (JArray (map encodeAddress cells)) = Inr cells"
    "distinctAddresses g cells = Inr (rev (map positionKey cells))"
  using assms address.list_complete [of cells] eventCells_inside [of cells g]
  by (auto simp: eventCells_def list_all_iff distinctAddresses_Inr)

text \<open>The two sets of cell keys agree when the sets of cells do.\<close>

lemma keys_union:
  assumes "distinct cells" "set ks = positionKey ` P" "set ks' = positionKey ` set cells"
  shows "(setSize ks = setSize ks' \<and> \<not> list_ex (\<lambda>k. k \<notin> set ks) ks') = (set cells = P)"
proof -
  have fin: "finite P"
    using assms(2) finite_imageD [of positionKey P] by (metis List.finite_set inj_onI positionKey_inj)
  have "setSize xs = int (card (set xs))" for xs :: "string list"
    by (simp add: setSize_def length_remdups_card_conv)
  moreover have "card (positionKey ` A) = card A" for A
    by (intro card_image inj_onI) simp
  moreover have "list_ex (\<lambda>k. k \<notin> set ks) ks' \<longleftrightarrow> \<not> set cells \<subseteq> P"
    by (auto simp: list_ex_iff assms image_iff)
  ultimately show ?thesis
    using fin card_subset_eq [of P "set cells"] by (auto simp: assms(2,3))
qed

lemma winWithPaths_Inr:
  assumes "eventCells g 1 256 (win_cells w)" "set ks = set (map positionKey (win_cells w))"
  shows "winWithPaths g d ks w = Inr w' \<Longrightarrow>
      \<exists>as. wf_winPaths g w as \<and> w' = w\<lparr>win_ways := Some (int (length as)), win_pathAwards := Some as\<rparr>"
    and "wf_grid g \<Longrightarrow> wf_winPaths g w as \<Longrightarrow> getProp d ''ways'' = JInt (int (length as)) \<Longrightarrow>
      getProp d ''pathAwards'' = JArray (map encodePath as) \<Longrightarrow>
      winWithPaths g d ks w = Inr (w\<lparr>win_ways := Some (int (length as)), win_pathAwards := Some as\<rparr>)"
proof -
  have d: "distinct (win_cells w)" using assms(1) by (simp add: eventCells_def)
  have keys: "(setSize (pathCellKeys (scanOf as)) = setSize ks
      \<and> \<not> list_ex (\<lambda>k. k \<notin> set (pathCellKeys (scanOf as))) ks)
    = (set (win_cells w) = (\<Union>a \<in> set as. set (path_cells a)))" for as
    by (rule keys_union [OF d]) (simp_all add: scanOf_fields assms(2))
  {
    assume a: "winWithPaths g d ks w = Inr w'"
    then obtain ways st where paying: "win_symbol w \<in> set payingSymbolSet"
      and ways: "boundedInteger (getProp d ''ways'') 1 512 = Inr ways"
      and st: "pathAwardsOf g (win_symbol w) ways (getProp d ''pathAwards'') = Inr st"
      and m: "\<not> (case win_multiplier w of None \<Rightarrow> False
            | Some m \<Rightarrow> list_ex (\<lambda>a. path_multiplier a \<noteq> m) (pathAwards st))"
      and sums: "pathAmountTotal st = BigInt (win_amountMinor w)"
        "pathNominalAmountTotal st = BigInt (win_nominalAmountMinor w)"
      and k: "setSize (pathCellKeys st) = setSize ks \<and> \<not> list_ex (\<lambda>k. k \<notin> set (pathCellKeys st)) ks"
      and w': "w' = w\<lparr>win_ways := Some ways, win_pathAwards := Some (pathAwards st)\<rparr>"
      unfolding winWithPaths_def by (elim accepted) auto
    from st obtain items where "int (length items) = ways"
      "foldE (pathAwardStep g (win_symbol w)) items emptyPathScan = Inr st"
      by (cases "getProp d ''pathAwards''") (auto simp: accept)
    then obtain as where as: "int (length as) = ways" "paths_ok g (win_symbol w) as" "st = scanOf as"
      using pathAwards_sound by metis
    have "wf_winPaths g w as"
      using paying bounded_int.sound [OF ways] m sums k as keys [of as]
      by (auto simp: wf_winPaths_def scanOf_fields list_all_iff list_ex_iff split: option.splits)
    then show "\<exists>as. wf_winPaths g w as \<and> w' = w\<lparr>win_ways := Some (int (length as)), win_pathAwards := Some as\<rparr>"
      using w' as by (intro exI [of _ as]) (simp add: scanOf_fields)
  next
    assume wf: "wf_grid g" "wf_winPaths g w as" "getProp d ''ways'' = JInt (int (length as))"
      "getProp d ''pathAwards'' = JArray (map encodePath as)"
    have p: "foldE (pathAwardStep g (win_symbol w)) (map encodePath as) emptyPathScan = Inr (scanOf as)"
      using wf(2) by (intro pathAwards_complete wf(1)) (simp add: wf_winPaths_def)
    show "winWithPaths g d ks w = Inr (w\<lparr>win_ways := Some (int (length as)), win_pathAwards := Some as\<rparr>)"
      using wf(2) keys [of as] p
      by (auto simp: winWithPaths_def wf(3,4) decoding wf_winPaths_def scanOf_fields list_all_iff list_ex_iff
          split: option.splits)
  }
qed

lemma win_sound: "winOf g v = Inr w \<Longrightarrow> wf_win g w"
proof -
  assume a: "winOf g v = Inr w"
  obtain d cells ks s am nom i mult w0 where
    cells: "winCellsOf (getProp d ''cells'') = Inr cells" "distinctAddresses g cells = Inr ks"
    and am: "money (getProp d ''amountMinor'') = Inr am"
    and nom: "optionalOf money (getProp d ''nominalAmountMinor'') = Inr nom"
    and le: "BigInt am \<le> BigInt (case nom of None \<Rightarrow> am | Some n \<Rightarrow> n)"
    and i: "identifierOf (getProp d ''id'') = Inr i"
    and mult: "optionalOf (\<lambda>x. boundedInteger x 1 1000000) (getProp d ''multiplier'') = Inr mult"
    and w0: "w0 = \<lparr>win_id = i, win_symbol = s, win_ways = None,
                win_nominalAmountMinor = (case nom of None \<Rightarrow> am | Some n \<Rightarrow> n), win_amountMinor = am,
                win_multiplier = mult, win_cells = cells, win_pathAwards = None\<rparr>"
    and w: "(if getProp d ''ways'' = JUndefined then Inr w0 else winWithPaths g d ks w0) = Inr w"
    using a unfolding winOf_def Let_def by (elim accepted) auto
  note c = winCells_sound [OF cells]
  have base: "wf_winBase g w0"
    using c le amount.sound [OF am] amount.optional_sound [OF nom] ident.sound [OF i]
      bounded_int.optional_sound [OF mult]
    by (auto simp: wf_winBase_def w0 split: option.splits simp del: bounded_million)
  show ?thesis
  proof (cases "getProp d ''ways'' = JUndefined")
    case True
    then show ?thesis using w base by (auto simp: wf_win_def w0)
  next
    case False
    then obtain as where as: "wf_winPaths g w0 as"
      "w = w0\<lparr>win_ways := Some (int (length as)), win_pathAwards := Some as\<rparr>"
      using winWithPaths_Inr(1) [of g w0 ks d w] c w by (auto simp: w0)
    have "wf_winBase g w" "wf_winPaths g w as"
      using base as by (simp_all add: wf_winBase_def wf_winPaths_def)
    then show ?thesis using as(2) by (simp add: wf_win_def)
  qed
qed

lemma win_complete:
  assumes "wf_grid g" "wf_win g w"
  shows "winOf g (encodeWin w) = Inr w"
proof (cases "win_pathAwards w")
  case None
  then show ?thesis
    using assms(2) winCells_complete [of g "win_cells w"]
    by (cases "win_multiplier w")
      (auto simp: winOf_def encodeWin_def winKeys_def exactKeys_subset decoding wf_win_def wf_winBase_def
        Let_def simp del: bounded_million winCellsOf.simps)
next
  case (Some as)
  let ?d = "[(''id'', JString (win_id w)), (''symbol'', JString (symbol_name (win_symbol w)))]
     @ optProp ''ways'' JInt (win_ways w)
     @ [(''nominalAmountMinor'', JString (win_nominalAmountMinor w)),
        (''amountMinor'', JString (win_amountMinor w))]
     @ [cellsField (win_cells w)]
     @ optProp ''pathAwards'' (\<lambda>as. JArray (map encodePath as)) (win_pathAwards w)
     @ optProp ''multiplier'' JInt (win_multiplier w)"
  let ?w0 = "w\<lparr>win_ways := None, win_pathAwards := None\<rparr>"
  have wf: "eventCells g 1 256 (win_cells w)" "wf_winPaths g ?w0 as" "win_ways w = Some (int (length as))"
    using assms(2) Some by (auto simp: wf_win_def wf_winBase_def wf_winPaths_def)
  have "winWithPaths g ?d (rev (map positionKey (win_cells w))) ?w0
      = Inr (?w0\<lparr>win_ways := Some (int (length as)), win_pathAwards := Some as\<rparr>)"
    by (rule winWithPaths_Inr(2)) (use wf assms(1) Some in \<open>simp_all add: optProp_def split: option.splits\<close>)
  also have "?w0\<lparr>win_ways := Some (int (length as)), win_pathAwards := Some as\<rparr> = w"
    using wf(3) Some by simp
  finally have p: "winWithPaths g ?d (rev (map positionKey (win_cells w))) ?w0 = Inr w" .
  have w0: "\<lparr>win_id = win_id w, win_symbol = win_symbol w, win_ways = None,
      win_nominalAmountMinor = win_nominalAmountMinor w, win_amountMinor = win_amountMinor w,
      win_multiplier = win_multiplier w, win_cells = win_cells w, win_pathAwards = None\<rparr> = ?w0" by simp
  show ?thesis
    using assms(2) Some p [unfolded w0 [symmetric]] winCells_complete [OF wf(1)] wf(3)
    by (cases "win_multiplier w")
      (auto simp: winOf_def encodeWin_def winKeys_def exactKeys_subset decoding wf_win_def wf_winBase_def
        Let_def simp del: bounded_million winCellsOf.simps)
qed

end
