(* ===== verification/Decoder.thy ===== *)
theory Decoder
  imports Decoder_Events
begin

text \<open>
  \<open>protocol/decoder.ts\<close>, third part: the invariants that relate the parts of a
  \<open>spin.result\<close> (award identities, money conservation, the win-cap projection, the Wheel,
  Vault and reel projections), \<open>decodeSpinResult\<close> and \<open>decodeServerMessage\<close>. The stage
  observer, a diagnostic callback that returns nothing, is not modelled.
\<close>

section \<open>Win identities and award totals\<close>

record identity_scan =
  seenIDs :: "string list"
  seenPathSets :: "string list"
  claimedPaths :: "string list"

definition awardKey :: "PathAward \<Rightarrow> string" where
  "awardKey a = join ''|'' (map positionKey (path_cells a))"

definition semanticSet :: "SymbolId \<Rightarrow> string list \<Rightarrow> string" where
  "semanticSet s pathKeys = symbol_name s @ ''|'' @ join '','' (sort pathKeys)"

definition claimPath :: "string \<Rightarrow> string list \<Rightarrow> decode_error + string list" where
  "claimPath k claimed = (if k \<in> set claimed
     then reject ''pathAwards must not reuse a path from another win'' else Inr (k # claimed))"

definition winIdentityStep :: "Win \<Rightarrow> identity_scan \<Rightarrow> decode_error + identity_scan" where
  "winIdentityStep w st =
     (if win_id w \<in> set (seenIDs st) then reject ''wins must not contain duplicate ids''
      else let st1 = st\<lparr>seenIDs := win_id w # seenIDs st\<rparr> in
        case win_pathAwards w of
          None \<Rightarrow> Inr st1
        | Some awards1 \<Rightarrow>
            let pathKeys = map awardKey awards1; key = semanticSet (win_symbol w) pathKeys in
            if key \<in> set (seenPathSets st1)
            then reject ''wins must not contain duplicate semantic path sets''
            else bindE (foldE claimPath pathKeys (claimedPaths st1)) (\<lambda>claimed.
              Inr (st1\<lparr>seenPathSets := key # seenPathSets st1, claimedPaths := claimed\<rparr>)))"

definition validateWinIdentities :: "Win list \<Rightarrow> decode_error + unit" where
  "validateWinIdentities ws =
     bindE (foldE winIdentityStep ws \<lparr>seenIDs = [], seenPathSets = [], claimedPaths = []\<rparr>)
       (\<lambda>_. Inr ())"

text \<open>The \<open>amountMinor\<close> of a monetary event, when it has one.\<close>

fun eventAmount :: "FeatureEvent \<Rightarrow> string option" where
  "eventAmount (WheelAwarded outcome p m amount) = amount"
| "eventAmount (VaultAwarded p m amount prize) = Some amount"
| "eventAmount _ = None"

definition visibleAwards :: "Win list \<Rightarrow> FeatureEvent list \<Rightarrow> int" where
  "visibleAwards ws evs =
     fold (\<lambda>e acc. case eventAmount e of None \<Rightarrow> acc | Some a \<Rightarrow> acc + BigInt a) evs
       (foldl (\<lambda>acc w. acc + BigInt (win_amountMinor w)) 0 ws)"

definition validateVisibleAwardTotal ::
  "Win list \<Rightarrow> FeatureEvent list \<Rightarrow> string \<Rightarrow> decode_error + unit" where
  "validateVisibleAwardTotal ws evs totalWin =
     (if visibleAwards ws evs \<noteq> BigInt totalWin
      then reject ''totalWinMinor must equal the sum of visible win and monetary event awards''
      else Inr ())"

text \<open>\<open>{ nominal, paid }\<close>.\<close>

fun monetaryEventPaidFacts :: "FeatureEvent \<Rightarrow> string \<Rightarrow> (int \<times> int) option" where
  "monetaryEventPaidFacts (WheelAwarded outcome p m a) bet =
     (if outcome = ''INSTANT'' then Some (BigInt bet * the m, BigInt (the a)) else None)"
| "monetaryEventPaidFacts (VaultAwarded p m a prize) bet = Some (BigInt bet * m, BigInt a)"
| "monetaryEventPaidFacts _ bet = None"

text \<open>\<open>settledAmount\<close>: what is paid of a nominal amount, and the budget left.\<close>

definition settledAmount :: "bool \<Rightarrow> int \<Rightarrow> int \<Rightarrow> int \<times> int" where
  "settledAmount capped remaining nominal =
     (if \<not> capped then (nominal, remaining)
      else let paid = (if nominal < remaining then nominal else remaining) in (paid, remaining - paid))"

definition paidPathStep :: "bool \<Rightarrow> PathAward \<Rightarrow> int \<Rightarrow> decode_error + int" where
  "paidPathStep capped a pathRemaining =
     (let (expected, left) = settledAmount capped pathRemaining (BigInt (path_nominalAmountMinor a)) in
      if BigInt (path_amountMinor a) \<noteq> expected
      then reject ''pathAwards amountMinor does not match the authoritative win-cap projection''
      else Inr left)"

definition paidWinStep :: "bool \<Rightarrow> Win \<Rightarrow> int \<Rightarrow> decode_error + int" where
  "paidWinStep capped w remaining =
     (let (expected, left) = settledAmount capped remaining (BigInt (win_nominalAmountMinor w)) in
      if BigInt (win_amountMinor w) \<noteq> expected
      then reject ''wins amountMinor does not match the authoritative win-cap projection''
      else bindE (foldE (paidPathStep capped)
          (case win_pathAwards w of None \<Rightarrow> [] | Some as \<Rightarrow> as) expected) (\<lambda>pathRemaining.
        if capped \<and> win_pathAwards w \<noteq> None \<and> pathRemaining \<noteq> 0
        then reject ''pathAwards do not consume the paid aggregate amount''
        else Inr left))"

definition paidEventStep :: "bool \<Rightarrow> string \<Rightarrow> FeatureEvent \<Rightarrow> int \<Rightarrow> decode_error + int" where
  "paidEventStep capped bet e remaining =
     (case monetaryEventPaidFacts e bet of
        None \<Rightarrow> Inr remaining
      | Some (nominal, paid) \<Rightarrow>
          if MAX_SIGNED_INT64 < nominal
          then reject ''nominal award exceeds the signed-int64 money domain''
          else let (expected, left) = settledAmount capped remaining nominal in
            if paid \<noteq> expected
            then reject ''events amountMinor does not match the authoritative win-cap projection''
            else Inr left)"

definition validatePaidAwardProjection ::
  "Win list \<Rightarrow> FeatureEvent list \<Rightarrow> string \<Rightarrow> string \<Rightarrow> decode_error + unit" where
  "validatePaidAwardProjection ws evs bet totalWin =
     (let capped = hasEvent evs win_cap_reached in
      bindE (foldE (paidWinStep capped) ws (if capped then BigInt totalWin else 0)) (\<lambda>r1.
      bindE (foldE (paidEventStep capped bet) evs r1) (\<lambda>r2.
      if capped \<and> r2 \<noteq> 0
      then reject ''win_cap.reached paid awards do not consume this round's cap budget''
      else Inr ())))"

section \<open>Wheel, Vault, cap and reel projections\<close>

definition validateInstantProjection ::
  "FeatureEvent list \<Rightarrow> FeatureState \<Rightarrow> string \<Rightarrow> int \<Rightarrow> string \<Rightarrow> FeatureEvent option
     \<Rightarrow> decode_error + unit" where
  "validateInstantProjection evs s bet multiplier amount following =
     (let expectedAmount = BigInt bet * multiplier; capped = hasEvent evs win_cap_reached in
      if MAX_SIGNED_INT64 < expectedAmount
      then reject ''wheel.awarded INSTANT amount exceeds the signed-int64 money domain''
      else if expectedAmount < BigInt amount \<or> (\<not> capped \<and> BigInt amount \<noteq> expectedAmount)
      then reject ''wheel.awarded INSTANT amountMinor must equal its nominal award unless win-capped''
      else if (case following of None \<Rightarrow> False | Some e \<Rightarrow> type_of e = free_spins_started)
      then reject ''wheel.awarded INSTANT must not start Free Spins''
      else if mode s \<noteq> BASE \<or> freeSpinsRemaining s \<noteq> 0 \<or> played s \<noteq> 0
      then reject ''wheel.awarded INSTANT must project the next feature state as BASE''
      else Inr ())"

definition validateWheelAwardProjection ::
  "FeatureEvent list \<Rightarrow> FeatureState \<Rightarrow> string \<Rightarrow> string \<Rightarrow> decode_error + unit" where
  "validateWheelAwardProjection evs s bet totalWin =
     (let i = indexOfType evs wheel_awarded; following = at evs (i + 1) in
      if i < 0 then Inr ()
      else case at evs i of
        Some (WheelAwarded outcome p mult amount) \<Rightarrow>
          if outcome = ''INSTANT''
          then validateInstantProjection evs s bet (the mult) (the amount) following
          else (case following of
              Some (FreeSpinsStarted m awarded) \<Rightarrow>
                if mode_name m \<noteq> outcome
                then reject ''feature wheel outcomes must be immediately followed by matching free_spins.started''
                else if mode s \<noteq> m
                  \<or> freeSpinsRemaining s \<noteq> awarded
                  \<or> freeSpinsPlayed s \<noteq> Some 0
                  \<or> baseBetMinor s \<noteq> Some bet
                  \<or> freeSpinsWinMinor s \<noteq> Some totalWin
                then reject ''feature wheel outcomes must project eight unplayed Free Spins carrying this round's paid win at the locked bet''
                else Inr ()
            | _ \<Rightarrow> reject ''feature wheel outcomes must be immediately followed by matching free_spins.started'')
      | _ \<Rightarrow> reject ''events has an invalid wheel.awarded event'')"

definition inferredVaultOriginMode :: "FeatureEvent list \<Rightarrow> FeatureState \<Rightarrow> FeatureMode" where
  "inferredVaultOriginMode evs s =
     (if hasEvent evs grid_expanded then EXPANSION
      else case eventOfType evs free_spins_completed of
        Some (FreeSpinsCompleted m awarded cumulative) \<Rightarrow> m
      | _ \<Rightarrow> if \<not> hasEvent evs free_spins_started \<and> mode s \<noteq> BASE then mode s else BASE)"

definition VAULT_EVENT_TYPES :: "EventType list" where
  "VAULT_EVENT_TYPES = [vaults_landed, vaults_locked, vaults_unlock_started,
     vaults_unlock_completed, vault_unlocked, vault_awarded, vaults_upgrade_started,
     vault_upgraded, free_spin_awarded, free_spin_cap_reached]"

definition validateVaultAwardProjection ::
  "grid \<Rightarrow> FeatureEvent list \<Rightarrow> FeatureState \<Rightarrow> string \<Rightarrow> decode_error + unit" where
  "validateVaultAwardProjection g evs s bet =
     (if \<not> list_ex (\<lambda>e. type_of e \<in> set VAULT_EVENT_TYPES) evs then Inr ()
      else case validateVaultEventsAgainstOrigin (s\<lparr>mode := inferredVaultOriginMode evs s\<rparr>) g evs bet of
        Inl (SpinResultOriginError m) \<Rightarrow> reject (''events violate the Vault result contract: '' @ m)
      | Inl OriginTypeError \<Rightarrow> Inl DecodeTypeError
      | Inr u \<Rightarrow> Inr ())"

definition validateWinCapProjection ::
  "FeatureEvent list \<Rightarrow> FeatureState \<Rightarrow> string \<Rightarrow> string \<Rightarrow> decode_error + unit" where
  "validateWinCapProjection evs s bet totalWin =
     (case eventOfType evs win_cap_reached of
        Some (WinCapReached m cumulative) \<Rightarrow>
          let cap = BigInt bet * PRIMAL_MAX_WIN_MULTIPLIER in
          if MAX_SIGNED_INT64 < cap \<or> BigInt cumulative \<noteq> cap
          then reject ''win_cap.reached cumulativeWinMinor must equal betMinor multiplied by 2500''
          else (case eventOfType evs free_spins_completed of
              Some (FreeSpinsCompleted cm awarded completedWin) \<Rightarrow>
                if completedWin \<noteq> cumulative
                then reject ''win_cap.reached must equal the terminal Free Spins cumulative win''
                else Inr ()
            | _ \<Rightarrow>
                if mode s \<noteq> BASE then
                  (if freeSpinsWinMinor s \<noteq> Some cumulative
                   then reject ''win_cap.reached must equal the active Free Spins cumulative win''
                   else Inr ())
                else if totalWin \<noteq> cumulative
                then reject ''a Base win_cap.reached result total must equal its cumulative cap amount''
                else Inr ())
      | _ \<Rightarrow> Inr ())"

fun startsExpansion :: "FeatureEvent \<Rightarrow> bool" where
  "startsExpansion (FreeSpinsStarted m awarded) = (m = EXPANSION)"
| "startsExpansion _ = False"

fun completesExpansion :: "FeatureEvent \<Rightarrow> bool" where
  "completesExpansion (FreeSpinsCompleted m awarded cumulative) = (m = EXPANSION)"
| "completesExpansion _ = False"

definition validateResultReelProjection ::
  "grid \<Rightarrow> FeatureEvent list \<Rightarrow> FeatureState \<Rightarrow> decode_error + unit" where
  "validateResultReelProjection g evs s =
     (let rows = gridRows g;
          isExpansionSpin = (list_ex completesExpansion evs
            \<or> (mode s = EXPANSION \<and> \<not> list_ex startsExpansion evs)) in
      if rows < 3 \<or> 8 < rows then reject ''grid must contain 3-8 rows per reel''
      else if isExpansionSpin \<noteq> hasEvent evs grid_expanded
      then reject ''Kong Quest results must carry one leading grid.expanded event''
      else if \<not> isExpansionSpin \<and> rows \<noteq> 3
      then reject ''only Kong Quest results may use more than 3 rows''
      else Inr ())"

definition protocolVersion :: "js \<Rightarrow> decode_error + unit" where
  "protocolVersion v = (if v \<noteq> JNumber (JsInt 1) then reject ''protocolVersion must equal 1'' else Inr ())"

section \<open>Messages\<close>

definition spinResultKeys :: "string list" where
  "spinResultKeys = [''type'', ''protocolVersion'', ''requestId'', ''sessionId'', ''roundId'',
     ''sequence'', ''betMinor'', ''chargedBetMinor'', ''balanceMinor'', ''totalWinMinor'', ''grid'',
     ''wins'', ''events'', ''featureState'']"

fun winsOf :: "grid \<Rightarrow> js \<Rightarrow> decode_error + Win list" where
  "winsOf g (JArray vs) =
     (if 10000 < length vs then reject ''wins must be an array with at most 10000 entries''
      else mapE (winOf g) vs)"
| "winsOf g _ = reject ''wins must be an array with at most 10000 entries''"

text \<open>The invariants between the decoded parts, in the source's order.\<close>

definition validateParts ::
  "string \<Rightarrow> grid \<Rightarrow> Win list \<Rightarrow> FeatureEvent list \<Rightarrow> FeatureState \<Rightarrow> string \<Rightarrow> decode_error + unit" where
  "validateParts bet g ws evs s totalWin =
     bindE (validateWinIdentities ws) (\<lambda>_.
     bindE (validateVisibleAwardTotal ws evs totalWin) (\<lambda>_.
     bindE (validatePaidAwardProjection ws evs bet totalWin) (\<lambda>_.
     bindE (validateWinCapProjection evs s bet totalWin) (\<lambda>_.
     bindE (validateWheelAwardProjection evs s bet totalWin) (\<lambda>_.
     bindE (validateVaultAwardProjection g evs s bet) (\<lambda>_.
     validateResultReelProjection g evs s))))))"

definition decodeSpinResult :: "js_object \<Rightarrow> decode_error + SpinResult" where
  "decodeSpinResult d =
     bindE (exactKeys d spinResultKeys) (\<lambda>_.
     bindE (money (getProp d ''betMinor'')) (\<lambda>bet.
     bindE (gridOf (getProp d ''grid'')) (\<lambda>g.
     bindE (winsOf g (getProp d ''wins'')) (\<lambda>ws.
     bindE (eventsOf (getProp d ''events'') g) (\<lambda>evs.
     bindE (featureStateOf (getProp d ''featureState'')) (\<lambda>s.
     bindE (money (getProp d ''totalWinMinor'')) (\<lambda>totalWin.
     bindE (validateParts bet g ws evs s totalWin) (\<lambda>_.
     bindE (protocolVersion (getProp d ''protocolVersion'')) (\<lambda>_.
     bindE (identifierOf (getProp d ''requestId'')) (\<lambda>request.
     bindE (identifierOf (getProp d ''sessionId'')) (\<lambda>session.
     bindE (identifierOf (getProp d ''roundId'')) (\<lambda>round1.
     bindE (positiveInteger (getProp d ''sequence'')) (\<lambda>seqno.
     bindE (money (getProp d ''chargedBetMinor'')) (\<lambda>charged.
     bindE (money (getProp d ''balanceMinor'')) (\<lambda>balance.
     Inr \<lparr>requestId = request, sessionId = session, roundId = round1, sequence = seqno,
          betMinor = bet, chargedBetMinor = charged, balanceMinor = balance,
          totalWinMinor = totalWin, result_grid = g, wins = ws, events = evs,
          featureState = s\<rparr>)))))))))))))))"

definition sessionOpenedKeys :: "string list" where
  "sessionOpenedKeys = [''type'', ''protocolVersion'', ''engineRulesVersion'', ''requestId'',
     ''sessionId'', ''currency'', ''currencyExponent'', ''balanceMinor'', ''betOptionsMinor'',
     ''defaultBetMinor'', ''featureState'']"

fun betOptionsOf :: "js \<Rightarrow> decode_error + string list" where
  "betOptionsOf (JArray vs) =
     (if vs = [] \<or> 100 < length vs then reject ''betOptionsMinor must contain 1-100 entries''
      else mapE money vs)"
| "betOptionsOf _ = reject ''betOptionsMinor must contain 1-100 entries''"

definition decodeSessionOpened :: "js_object \<Rightarrow> decode_error + SessionOpened" where
  "decodeSessionOpened d =
     bindE (exactKeys d sessionOpenedKeys) (\<lambda>_.
     bindE (betOptionsOf (getProp d ''betOptionsMinor'')) (\<lambda>options.
     if setSize options \<noteq> int (length options)
     then reject ''betOptionsMinor entries must be unique''
     else bindE (money (getProp d ''defaultBetMinor'')) (\<lambda>defaultBet.
     if defaultBet \<notin> set options then reject ''defaultBetMinor must occur in betOptionsMinor''
     else if getProp d ''engineRulesVersion'' \<noteq> JString ENGINE_RULES_VERSION
     then reject ''engineRulesVersion must equal the client's''
     else bindE (stringOf (getProp d ''currency'')) (\<lambda>cur.
     if \<not> CURRENCY_PATTERN cur then reject ''currency must be a three-letter uppercase code''
     else bindE (protocolVersion (getProp d ''protocolVersion'')) (\<lambda>_.
     bindE (identifierOf (getProp d ''requestId'')) (\<lambda>request.
     bindE (identifierOf (getProp d ''sessionId'')) (\<lambda>session.
     bindE (boundedInteger (getProp d ''currencyExponent'') 0 6) (\<lambda>e.
     bindE (money (getProp d ''balanceMinor'')) (\<lambda>balance.
     bindE (featureStateOf (getProp d ''featureState'')) (\<lambda>s.
     Inr \<lparr>opened_requestId = request, opened_sessionId = session, currency = cur,
          currencyExponent = e, opened_balanceMinor = balance, betOptionsMinor = options,
          defaultBetMinor = defaultBet, opened_featureState = s\<rparr>))))))))))"

definition decodeError :: "js_object \<Rightarrow> decode_error + ServerError" where
  "decodeError d =
     bindE (exactKeys d [''type'', ''protocolVersion'', ''requestId'', ''sessionId'', ''roundId'',
       ''code'', ''message'', ''retryable'']) (\<lambda>_.
     bindE (protocolVersion (getProp d ''protocolVersion'')) (\<lambda>_.
     bindE (optionalIdentifier (getProp d ''requestId'')) (\<lambda>request.
     bindE (optionalIdentifier (getProp d ''sessionId'')) (\<lambda>session.
     bindE (optionalIdentifier (getProp d ''roundId'')) (\<lambda>round1.
     bindE (identifierOf (getProp d ''code'')) (\<lambda>code1.
     bindE (boundedString (getProp d ''message'') 512) (\<lambda>message.
     bindE (booleanOf (getProp d ''retryable'')) (\<lambda>retry.
     Inr \<lparr>error_requestId = request, error_sessionId = session, error_roundId = round1,
          error_code = code1, error_message = message, retryable = retry\<rparr>))))))))"

text \<open>
  The parser \<open>JSON.parse\<close> is a parameter: \<open>None\<close> when it throws. A string input is
  parsed first, any other value is decoded as it is.
\<close>

definition decodeMessage :: "js \<Rightarrow> decode_error + ServerMessage" where
  "decodeMessage raw = bindE (recordOf raw) (\<lambda>d.
     bindE (stringOf (getProp d ''type'')) (\<lambda>typeName.
     if typeName = ''session.opened'' then bindE (decodeSessionOpened d) (\<lambda>m. Inr (Opened m))
     else if typeName = ''spin.result'' then bindE (decodeSpinResult d) (\<lambda>m. Inr (Result m))
     else if typeName = ''error'' then bindE (decodeError d) (\<lambda>m. Inr (Error m))
     else reject ''unsupported message type''))"

definition decodeServerMessage ::
  "(string \<Rightarrow> js option) \<Rightarrow> js \<Rightarrow> decode_error + ServerMessage" where
  "decodeServerMessage JSON_parse input =
     (case input of
        JString s \<Rightarrow> (case JSON_parse s of
            None \<Rightarrow> reject ''message is not valid JSON''
          | Some raw \<Rightarrow> decodeMessage raw)
      | _ \<Rightarrow> decodeMessage input)"

end
