(* ===== verification/Wire_Messages.thy ===== *)
theory Wire_Messages
  imports Wire_Wins Decoder
begin

text \<open>
  The wire contract of whole messages: \<open>decodeServerMessage\<close> returns exactly the
  well-formed \<open>session.opened\<close>, \<open>spin.result\<close> and \<open>error\<close> messages; the money of a
  decoded result adds up, with and without the win cap.
\<close>

section \<open>Spin results\<close>

definition wf_result :: "SpinResult \<Rightarrow> bool" where
  "wf_result r =
     (identifier_ok (requestId r) \<and> identifier_ok (sessionId r) \<and> identifier_ok (roundId r)
      \<and> safe_int (sequence r) \<and> 0 < sequence r
      \<and> money_ok (betMinor r) \<and> money_ok (chargedBetMinor r) \<and> money_ok (balanceMinor r)
      \<and> money_ok (totalWinMinor r)
      \<and> wf_grid (result_grid r)
      \<and> length (wins r) \<le> 10000 \<and> list_all (wf_win (result_grid r)) (wins r)
      \<and> length (events r) \<le> 10000 \<and> list_all (wf_event (result_grid r)) (events r)
      \<and> checkEventGrammar (result_grid r) (events r) = Inr ()
      \<and> wf_featureState (featureState r)
      \<and> validateParts (betMinor r) (result_grid r) (wins r) (events r) (featureState r)
          (totalWinMinor r) = Inr ())"

definition resultFields :: "SpinResult \<Rightarrow> js_object" where
  "resultFields r = [(''type'', JString ''spin.result''), (''protocolVersion'', JInt 1),
     (''requestId'', JString (requestId r)), (''sessionId'', JString (sessionId r)),
     (''roundId'', JString (roundId r)), (''sequence'', JInt (sequence r)),
     (''betMinor'', JString (betMinor r)), (''chargedBetMinor'', JString (chargedBetMinor r)),
     (''balanceMinor'', JString (balanceMinor r)), (''totalWinMinor'', JString (totalWinMinor r)),
     (''grid'', encodeGrid (result_grid r)), (''wins'', JArray (map encodeWin (wins r))),
     (''events'', JArray (map encodeEvent (events r))),
     (''featureState'', encodeFeatureState (featureState r))]"

lemma protocolVersion_Inr [accept]: "protocolVersion v = Inr u \<longleftrightarrow> v = JInt 1"
  by (simp add: protocolVersion_def)

lemma wins_sound: "winsOf g v = Inr ws \<Longrightarrow> length ws \<le> 10000 \<and> list_all (wf_win g) ws"
  using mapE_all [of "winOf g" _ ws "wf_win g"] win_sound
  by (cases v) (auto simp: accept list_all_iff dest: mapE_length)

lemma wins_complete:
  "wf_grid g \<Longrightarrow> length ws \<le> 10000 \<Longrightarrow> list_all (wf_win g) ws \<Longrightarrow>
     winsOf g (JArray (map encodeWin ws)) = Inr ws"
  by (simp add: list_all_iff) (intro mapE_map win_complete, auto)

lemma events_sound:
  "eventsOf v g = Inr evs \<Longrightarrow> length evs \<le> 10000 \<and> list_all (wf_event g) evs \<and> checkEventGrammar g evs = Inr ()"
  using event.list_sound [of g _ evs]
  by (cases v) (auto simp: accept dest: mapE_length)

lemma events_complete:
  "length evs \<le> 10000 \<Longrightarrow> list_all (wf_event g) evs \<Longrightarrow> checkEventGrammar g evs = Inr () \<Longrightarrow>
     eventsOf (JArray (map encodeEvent evs)) g = Inr evs"
  by (simp add: event.list_complete)

lemma result_sound: "decodeSpinResult d = Inr r \<Longrightarrow> wf_result r"
  unfolding decodeSpinResult_def
  apply (elim accepted)
  apply (drule grid.sound wins_sound events_sound feature.sound)+
  apply (auto simp: wf_result_def accept)
  done

lemma result_complete: "wf_result r \<Longrightarrow> decodeSpinResult (resultFields r) = Inr r"
  by (simp add: decodeSpinResult_def resultFields_def exactKeys_subset spinResultKeys_def wf_result_def
      decoding grid.complete wins_complete events_complete feature.complete accept
      del: winsOf.simps eventsOf.simps)

section \<open>The other messages\<close>

definition wf_opened :: "SessionOpened \<Rightarrow> bool" where
  "wf_opened s =
     (identifier_ok (opened_requestId s) \<and> identifier_ok (opened_sessionId s)
      \<and> CURRENCY_PATTERN (currency s) \<and> bounded 0 6 (currencyExponent s)
      \<and> money_ok (opened_balanceMinor s)
      \<and> betOptionsMinor s \<noteq> [] \<and> length (betOptionsMinor s) \<le> 100
      \<and> list_all money_ok (betOptionsMinor s) \<and> distinct (betOptionsMinor s)
      \<and> defaultBetMinor s \<in> set (betOptionsMinor s)
      \<and> wf_featureState (opened_featureState s))"

definition openedFields :: "SessionOpened \<Rightarrow> js_object" where
  "openedFields s = [(''type'', JString ''session.opened''), (''protocolVersion'', JInt 1),
     (''engineRulesVersion'', JString ENGINE_RULES_VERSION),
     (''requestId'', JString (opened_requestId s)), (''sessionId'', JString (opened_sessionId s)),
     (''currency'', JString (currency s)), (''currencyExponent'', JInt (currencyExponent s)),
     (''balanceMinor'', JString (opened_balanceMinor s)),
     (''betOptionsMinor'', JArray (map JString (betOptionsMinor s))),
     (''defaultBetMinor'', JString (defaultBetMinor s)),
     (''featureState'', encodeFeatureState (opened_featureState s))]"

lemma betOptions_sound:
  "betOptionsOf v = Inr xs \<Longrightarrow> xs \<noteq> [] \<and> length xs \<le> 100 \<and> list_all money_ok xs"
  using amount.list_sound [of _ xs]
  by (cases v) (auto simp: accept dest: mapE_length)

lemma betOptions_complete:
  "xs \<noteq> [] \<Longrightarrow> length xs \<le> 100 \<Longrightarrow> list_all money_ok xs \<Longrightarrow> betOptionsOf (JArray (map JString xs)) = Inr xs"
  by (simp add: amount.list_complete)

lemma opened_sound: "decodeSessionOpened d = Inr s \<Longrightarrow> wf_opened s"
  unfolding decodeSessionOpened_def
  apply (elim accepted)
  apply (drule betOptions_sound feature.sound)+
  apply (auto simp: wf_opened_def accept setSize_distinct)
  done

lemma currency_nonempty: "CURRENCY_PATTERN c \<Longrightarrow> c \<noteq> []"
  by (auto simp: CURRENCY_PATTERN_def)

lemma opened_complete: "wf_opened s \<Longrightarrow> decodeSessionOpened (openedFields s) = Inr s"
  by (auto simp: decodeSessionOpened_def openedFields_def exactKeys_subset sessionOpenedKeys_def
      wf_opened_def decoding betOptions_complete feature.complete accept setSize_distinct list_all_iff
      currency_nonempty simp del: betOptionsOf.simps)

definition wf_error :: "ServerError \<Rightarrow> bool" where
  "wf_error e =
     (optional identifier_ok (error_requestId e) \<and> optional identifier_ok (error_sessionId e)
      \<and> optional identifier_ok (error_roundId e) \<and> identifier_ok (error_code e)
      \<and> error_message e \<noteq> [] \<and> length (error_message e) \<le> 512)"

definition errorFields :: "ServerError \<Rightarrow> js_object" where
  "errorFields e = [(''type'', JString ''error''), (''protocolVersion'', JInt 1)]
     @ optProp ''requestId'' JString (error_requestId e)
     @ optProp ''sessionId'' JString (error_sessionId e)
     @ optProp ''roundId'' JString (error_roundId e)
     @ [(''code'', JString (error_code e)), (''message'', JString (error_message e)),
        (''retryable'', JBool (retryable e))]"

lemma error_sound: "decodeError d = Inr e \<Longrightarrow> wf_error e"
  unfolding decodeError_def optionalIdentifier_def boundedString_def
  apply (elim accepted)
  apply (drule ident.optional_sound)+
  apply (auto simp: wf_error_def accept)
  done

lemma error_complete: "wf_error e \<Longrightarrow> decodeError (errorFields e) = Inr e"
  by (cases "error_requestId e"; cases "error_sessionId e"; cases "error_roundId e")
    (simp_all add: decodeError_def errorFields_def exactKeys_subset optionalIdentifier_def boundedString_def
      wf_error_def decoding accept)

section \<open>The whole protocol\<close>

fun wf_message :: "ServerMessage \<Rightarrow> bool" where
  "wf_message (Opened s) = wf_opened s"
| "wf_message (Result r) = wf_result r"
| "wf_message (Error e) = wf_error e"

fun encodeMessage :: "ServerMessage \<Rightarrow> js" where
  "encodeMessage (Opened s) = JObject (openedFields s)"
| "encodeMessage (Result r) = JObject (resultFields r)"
| "encodeMessage (Error e) = JObject (errorFields e)"

interpretation message: codec decodeMessage encodeMessage wf_message
proof unfold_locales
  fix v x
  assume "decodeMessage v = Inr x"
  then show "wf_message x"
    by (auto simp: decodeMessage_def accept dest: opened_sound result_sound error_sound split: if_splits)
next
  fix x
  assume "wf_message x"
  then show "decodeMessage (encodeMessage x) = Inr x"
  proof (cases x)
    case (Opened s)
    with \<open>wf_message x\<close> show ?thesis
      using opened_complete [of s] by (simp add: decodeMessage_def openedFields_def)
  next
    case (Result r)
    with \<open>wf_message x\<close> show ?thesis
      using result_complete [of r] by (simp add: decodeMessage_def resultFields_def)
  next
    case (Error e)
    with \<open>wf_message x\<close> show ?thesis
      using error_complete [of e] by (simp add: decodeMessage_def errorFields_def)
  qed
qed


section \<open>Money\<close>

definition eventMoney :: "FeatureEvent \<Rightarrow> int" where
  "eventMoney e = (case eventAmount e of None \<Rightarrow> 0 | Some a \<Rightarrow> BigInt a)"

lemma visibleAwards_sum:
  "visibleAwards ws evs = sum_list (map (\<lambda>w. BigInt (win_amountMinor w)) ws) + sum_list (map eventMoney evs)"
proof -
  have w: "foldl (\<lambda>acc w. acc + BigInt (win_amountMinor w)) acc ws
      = acc + sum_list (map (\<lambda>w. BigInt (win_amountMinor w)) ws)" for acc :: int
    by (induction ws arbitrary: acc) simp_all
  have "fold (\<lambda>e acc. case eventAmount e of None \<Rightarrow> acc | Some a \<Rightarrow> acc + BigInt a) evs acc
      = acc + sum_list (map eventMoney evs)" for acc
    by (induction evs arbitrary: acc) (auto simp: eventMoney_def split: option.splits)
  with w show ?thesis by (simp add: visibleAwards_def)
qed

lemma validateParts_Inr:
  assumes "validateParts bet g ws evs s total1 = Inr ()"
  shows "validateWinIdentities ws = Inr ()" "validateVisibleAwardTotal ws evs total1 = Inr ()"
    "validatePaidAwardProjection ws evs bet total1 = Inr ()"
    "validateWinCapProjection evs s bet total1 = Inr ()"
    "validateWheelAwardProjection evs s bet total1 = Inr ()"
    "validateVaultAwardProjection g evs s bet = Inr ()"
    "validateResultReelProjection g evs s = Inr ()"
  using assms by (auto simp: validateParts_def accept)

text \<open>
  The reference for the cap: each nominal amount is paid as far as the budget left allows.
\<close>

fun clip :: "int \<Rightarrow> int list \<Rightarrow> int list" where
  "clip budget [] = []"
| "clip budget (n # ns) = min n budget # clip (budget - min n budget) ns"

lemma clip_append:
  "clip b (xs @ ys) = clip b xs @ clip (b - sum_list (clip b xs)) ys"
  by (induction xs arbitrary: b) (simp_all add: diff_diff_eq)

lemma settledAmount_capped: "settledAmount True b n = (min n b, b - min n b)"
  by (auto simp: settledAmount_def Let_def min_def)

definition paidFacts :: "string \<Rightarrow> FeatureEvent list \<Rightarrow> (int \<times> int) list" where
  "paidFacts bet evs = List.map_filter (\<lambda>e. monetaryEventPaidFacts e bet) evs"

lemma paidFacts_simps [simp]:
  "paidFacts bet [] = []"
  "paidFacts bet (e # evs) = (case monetaryEventPaidFacts e bet of None \<Rightarrow> paidFacts bet evs
     | Some np \<Rightarrow> np # paidFacts bet evs)"
  by (simp_all add: paidFacts_def map_filter_simps split: option.split)

lemma paidWins_capped:
  assumes "foldE (paidWinStep True) ws b = Inr b'"
  shows "map (\<lambda>w. BigInt (win_amountMinor w)) ws = clip b (map (\<lambda>w. BigInt (win_nominalAmountMinor w)) ws)
    \<and> b' = b - sum_list (map (\<lambda>w. BigInt (win_amountMinor w)) ws)"
  using assms
proof (induction ws arbitrary: b)
  case Nil
  then show ?case by simp
next
  case (Cons w ws)
  then obtain c where c: "paidWinStep True w b = Inr c" "foldE (paidWinStep True) ws c = Inr b'"
    by (auto simp: accept)
  from c(1) have "BigInt (win_amountMinor w) = min (BigInt (win_nominalAmountMinor w)) b
      \<and> c = b - min (BigInt (win_nominalAmountMinor w)) b"
    by (auto simp: paidWinStep_def settledAmount_capped accept)
  then show ?case using Cons.IH [OF c(2)] by (simp add: diff_diff_eq)
qed

lemma paidEvents_capped:
  assumes "foldE (paidEventStep True bet) evs b = Inr b'"
  shows "map snd (paidFacts bet evs) = clip b (map fst (paidFacts bet evs))
    \<and> b' = b - sum_list (map snd (paidFacts bet evs))"
  using assms
proof (induction evs arbitrary: b)
  case Nil
  then show ?case by simp
next
  case (Cons e evs)
  then obtain c where c: "paidEventStep True bet e b = Inr c" "foldE (paidEventStep True bet) evs c = Inr b'"
    by (auto simp: accept)
  show ?case
  proof (cases "monetaryEventPaidFacts e bet")
    case None
    then have "b = c" using c(1) by (simp add: paidEventStep_def)
    then show ?thesis using c(2) Cons.IH [of c] None by simp
  next
    case (Some np)
    then have "snd np = min (fst np) b \<and> c = b - min (fst np) b"
      using c(1) by (auto simp: paidEventStep_def settledAmount_capped accept split: prod.splits)
    then show ?thesis using Cons.IH [OF c(2)] Some by (simp add: diff_diff_eq)
  qed
qed

lemma paidPaths_uncapped:
  "foldE (paidPathStep False) as b = Inr b' \<Longrightarrow>
     \<forall>a \<in> set as. BigInt (path_amountMinor a) = BigInt (path_nominalAmountMinor a)"
  by (induction as arbitrary: b) (auto simp: paidPathStep_def settledAmount_def accept)

lemma paidWins_uncapped:
  "foldE (paidWinStep False) ws b = Inr b' \<Longrightarrow>
     \<forall>w \<in> set ws. BigInt (win_amountMinor w) = BigInt (win_nominalAmountMinor w)
       \<and> (\<forall>as. win_pathAwards w = Some as \<longrightarrow>
            (\<forall>a \<in> set as. BigInt (path_amountMinor a) = BigInt (path_nominalAmountMinor a)))"
  by (induction ws arbitrary: b)
    (auto simp: paidWinStep_def settledAmount_def accept dest: paidPaths_uncapped)

lemma paidEvents_uncapped:
  "foldE (paidEventStep False bet) evs b = Inr b' \<Longrightarrow>
     \<forall>np \<in> set (paidFacts bet evs). snd np = fst np"
  by (induction evs arbitrary: b)
    (auto simp: paidEventStep_def settledAmount_def accept split: option.splits)

lemma paid_projection:
  assumes "validatePaidAwardProjection ws evs bet total1 = Inr ()"
  shows "if hasEvent evs win_cap_reached then
      map (\<lambda>w. BigInt (win_amountMinor w)) ws @ map snd (paidFacts bet evs)
        = clip (BigInt total1) (map (\<lambda>w. BigInt (win_nominalAmountMinor w)) ws @ map fst (paidFacts bet evs))
    else map (\<lambda>w. BigInt (win_amountMinor w)) ws = map (\<lambda>w. BigInt (win_nominalAmountMinor w)) ws
      \<and> map snd (paidFacts bet evs) = map fst (paidFacts bet evs)"
proof (cases "hasEvent evs win_cap_reached")
  case True
  then obtain b where b: "foldE (paidWinStep True) ws (BigInt total1) = Inr b"
    "foldE (paidEventStep True bet) evs b = Inr 0"
    using assms by (auto simp: validatePaidAwardProjection_def Let_def accept)
  have w: "map (\<lambda>w. BigInt (win_amountMinor w)) ws
      = clip (BigInt total1) (map (\<lambda>w. BigInt (win_nominalAmountMinor w)) ws)"
    using paidWins_capped [OF b(1)] by blast
  have "b = BigInt total1 - sum_list (map (\<lambda>w. BigInt (win_amountMinor w)) ws)"
    using paidWins_capped [OF b(1)] by blast
  then have beq: "b = BigInt total1
      - sum_list (clip (BigInt total1) (map (\<lambda>w. BigInt (win_nominalAmountMinor w)) ws))"
    unfolding w .
  have e: "map snd (paidFacts bet evs) = clip b (map fst (paidFacts bet evs))"
    using paidEvents_capped [OF b(2)] by blast
  show ?thesis unfolding if_P [OF True] clip_append w e beq ..
next
  case False
  then show ?thesis
    using assms by (auto simp: validatePaidAwardProjection_def Let_def accept
        dest!: paidWins_uncapped paidEvents_uncapped)
qed

end
