(* ===== verification/Decoder_Facts.thy ===== *)
theory Decoder_Facts
  imports Wire_Messages Origin_Totality
begin

text \<open>
  Facts about \<open>decoder.ts\<close> beyond the wire contract: the event grammar as an order of
  positions, totality of the decoder, the identities of wins and path awards, the WILD law
  on the middle reel, and the empty key that \<open>exactKeys\<close> lets through.
\<close>

section \<open>The event grammar\<close>

definition grammatical :: "FeatureEvent list \<Rightarrow> bool" where
  "grammatical evs =
     (let i = indexOfType evs; n = int (length evs) in
      (\<forall>t \<in> set singletonTypes. length (eventsOfType evs t) \<le> 1)
      \<and> (0 \<le> i grid_expanded \<longrightarrow> i grid_expanded = 0)
      \<and> (0 \<le> i wheel_started \<longleftrightarrow> 0 \<le> i wheel_awarded)
      \<and> (0 \<le> i wheel_started \<longrightarrow> 0 \<le> i surge_collected
           \<and> i surge_collected < i wheel_started \<and> i wheel_started < i wheel_awarded)
      \<and> (0 \<le> i rage_transformed \<longrightarrow> 0 \<le> i surge_collected
           \<and> i surge_collected < i rage_transformed \<and> i rage_transformed < i wheel_started)
      \<and> (0 \<le> i free_spins_started \<longrightarrow> 0 \<le> i wheel_awarded \<and> i free_spins_started = i wheel_awarded + 1)
      \<and> (0 \<le> i free_spins_completed \<longrightarrow> i free_spins_completed = n - 1)
      \<and> (0 \<le> i win_cap_reached \<longrightarrow> i win_cap_reached = n - 1
           \<or> i win_cap_reached = n - 2 \<and> i free_spins_completed = n - 1)
      \<and> (0 \<le> i vaults_unlock_started \<longleftrightarrow> 0 \<le> i vaults_unlock_completed)
      \<and> (0 \<le> i vaults_unlock_started \<longrightarrow>
           i vaults_unlock_started < i vaults_unlock_completed \<and> i vaults_locked < 0)
      \<and> (\<forall>k < length evs. isVaultDetail (evs ! k) \<longrightarrow>
           0 \<le> i vaults_landed \<and> i vaults_landed \<le> int k))"

lemma rageAndWheel_order:
  assumes "checkRageAndWheel evs = Inr ()"
  shows "(0 \<le> indexOfType evs wheel_started) = (0 \<le> indexOfType evs wheel_awarded)"
    "0 \<le> indexOfType evs wheel_started \<Longrightarrow> 0 \<le> indexOfType evs surge_collected
       \<and> indexOfType evs surge_collected < indexOfType evs wheel_started
       \<and> indexOfType evs wheel_started < indexOfType evs wheel_awarded"
    "0 \<le> indexOfType evs rage_transformed \<Longrightarrow> 0 \<le> indexOfType evs surge_collected
       \<and> indexOfType evs surge_collected < indexOfType evs rage_transformed
       \<and> indexOfType evs rage_transformed < indexOfType evs wheel_started"
  using assms
  by (auto simp: checkRageAndWheel_def checkSurge_def Let_def accept
      split: if_splits option.splits FeatureEvent.splits)

lemma freeSpinsStarted_order:
  "checkFreeSpinsStarted evs = Inr () \<Longrightarrow> 0 \<le> indexOfType evs free_spins_started \<Longrightarrow>
     0 \<le> indexOfType evs wheel_awarded
     \<and> indexOfType evs free_spins_started = indexOfType evs wheel_awarded + 1"
  by (auto simp: checkFreeSpinsStarted_def Let_def accept)

lemma terminal_order:
  assumes "checkTerminalEvents evs = Inr ()"
  shows "0 \<le> indexOfType evs free_spins_completed \<Longrightarrow>
      indexOfType evs free_spins_completed = int (length evs) - 1"
    "0 \<le> indexOfType evs win_cap_reached \<Longrightarrow>
      indexOfType evs win_cap_reached = int (length evs) - 1
      \<or> indexOfType evs win_cap_reached = int (length evs) - 2
        \<and> indexOfType evs free_spins_completed = int (length evs) - 1"
  using assms by (auto simp: checkTerminalEvents_def Let_def accept)

lemma vaultDetailIndices_iff:
  "int k \<in> set (vaultDetailIndices evs) \<longleftrightarrow> k < length evs \<and> isVaultDetail (evs ! k)"
  by (force simp: vaultDetailIndices_def entriesFrom_set image_iff)

lemma vaultGroups_order:
  assumes "checkVaultGroups evs = Inr ()"
  shows "(0 \<le> indexOfType evs vaults_unlock_started) = (0 \<le> indexOfType evs vaults_unlock_completed)"
    "0 \<le> indexOfType evs vaults_unlock_started \<Longrightarrow>
       indexOfType evs vaults_unlock_started < indexOfType evs vaults_unlock_completed
       \<and> indexOfType evs vaults_locked < 0"
    "k < length evs \<Longrightarrow> isVaultDetail (evs ! k) \<Longrightarrow>
       0 \<le> indexOfType evs vaults_landed \<and> indexOfType evs vaults_landed \<le> int k"
  subgoal using assms by (auto simp: checkVaultGroups_def Let_def accept)
  subgoal using assms by (auto simp: checkVaultGroups_def Let_def accept)
  subgoal
    using assms vaultDetailIndices_iff [of k evs]
    by (auto simp: checkVaultGroups_def Let_def accept list_ex_iff)
  done

lemma singletons_once:
  "checkSingletons evs = Inr () \<Longrightarrow> t \<in> set singletonTypes \<Longrightarrow> length (eventsOfType evs t) \<le> 1"
  by (auto simp: checkSingletons_def foldE_each not_less split: if_splits)

lemma gridExpanded_first:
  "checkGridExpanded g evs = Inr () \<Longrightarrow> 0 \<le> indexOfType evs grid_expanded \<Longrightarrow>
     indexOfType evs grid_expanded = 0
     \<and> (\<exists>es. evs = GridExpanded (gridRows g) (gridRows g ^ 3) # es)"
  by (cases evs)
    (auto simp: checkGridExpanded_def Let_def accept at_def split: if_splits FeatureEvent.splits)

lemma grammar_order:
  assumes "checkEventGrammar g evs = Inr ()"
  shows "grammatical evs"
proof -
  have s: "checkSingletons evs = Inr ()" "checkGridExpanded g evs = Inr ()" "checkRageAndWheel evs = Inr ()"
    "checkFreeSpinsStarted evs = Inr ()" "checkTerminalEvents evs = Inr ()" "checkVaultGroups evs = Inr ()"
    using assms by (auto simp: checkEventGrammar_def accept)
  show ?thesis
    unfolding grammatical_def Let_def
    using singletons_once [OF s(1)] gridExpanded_first [OF s(2)] rageAndWheel_order [OF s(3)]
      freeSpinsStarted_order [OF s(4)] terminal_order [OF s(5)] vaultGroups_order [OF s(6)]
    by (intro conjI ballI impI allI) blast+
qed

section \<open>The decoder throws only its own error\<close>

lemma never_reject [never_intro]: "never DecodeTypeError (reject s)"
  by (simp add: never_def)

lemma never_mapE [never_intro]:
  "(\<And>x. x \<in> set xs \<Longrightarrow> never e (f x)) \<Longrightarrow> never e (mapE f xs)"
  by (induction xs) (auto intro: never_intro)

lemma never_mapIdxE [never_intro]:
  "(\<And>k x. x \<in> set xs \<Longrightarrow> never e (f k x)) \<Longrightarrow> never e (mapIdxE f i xs)"
  by (induction xs arbitrary: i) (auto intro: never_intro)

lemma never_values [never_intro]:
  "never DecodeTypeError (recordOf v)"
  "never DecodeTypeError (stringOf v)"
  "never DecodeTypeError (numberOf v)"
  "never DecodeTypeError (booleanOf v)"
  by (cases v; simp add: never_def)+

lemma never_fields [never_intro]:
  "never DecodeTypeError (exactKeys d ks)"
  "never DecodeTypeError (boundedString v n)"
  "never DecodeTypeError (positiveInteger v)"
  "never DecodeTypeError (boundedInteger v lo hi)"
  "never DecodeTypeError (money v)"
  "never DecodeTypeError (identifierOf v)"
  "never DecodeTypeError (symbolOf v)"
  unfolding exactKeys_def boundedString_def positiveInteger_def nonNegativeInteger_def
    boundedInteger_def money_def identifierOf_def symbolOf_def
  by (intro never_intro)+

lemma never_optional [never_intro]:
  "(\<And>v. never e (f v)) \<Longrightarrow> never e (optionalOf f v)"
  unfolding optionalOf_def by (intro never_intro)

lemma never_structures [never_intro]:
  "never DecodeTypeError (featureStateOf v)"
  "never DecodeTypeError (gridCellOf i v)"
  "never DecodeTypeError (cellAddress v)"
  "never DecodeTypeError (distinctAddresses g cells)"
  "never DecodeTypeError (vaultEventCellAddress d g)"
  unfolding featureStateOf_def gridCellOf_def cellOf_def lockedFaceOf_def cellAddress_def
    distinctAddresses_def checkAddress_def vaultEventCellAddress_def eventCellAddress_def
  by (intro never_intro)+

lemma never_pathCell [never_intro]: "never DecodeTypeError (pathCellOf g s i v)"
  unfolding pathCellOf_def by (intro never_intro)

lemma never_arrays [never_intro]:
  "never DecodeTypeError (reelOf i v)"
  "never DecodeTypeError (eventCellAddresses v g lo hi)"
  "never DecodeTypeError (betOptionsOf v)"
  "never DecodeTypeError (winCellsOf v)"
  "never DecodeTypeError (pathCellsOf g s v)"
  subgoal by (cases v) (simp_all only: reelOf.simps never_reject, intro never_intro)
  subgoal by (cases v) (simp_all only: eventCellAddresses.simps never_reject, intro never_intro)
  subgoal by (cases v) (simp_all only: betOptionsOf.simps never_reject, intro never_intro)
  subgoal by (cases v) (simp_all only: winCellsOf.simps never_reject, intro never_intro)
  subgoal
    by (cases v) (simp_all only: pathCellsOf.simps never_reject, intro never_intro)
  done

lemma never_gridOf [never_intro]: "never DecodeTypeError (gridOf v)"
  by (cases v) (simp_all only: gridOf.simps never_reject, intro never_intro)

lemma never_vaultCells [never_intro]:
  "never DecodeTypeError (vaultEventCellAddresses v g lo hi)"
  "never DecodeTypeError (surgeCellAddresses v g)"
  unfolding vaultEventCellAddresses_def surgeCellAddresses_def Let_def by (intro never_intro)+

lemma never_pathStep [never_intro]: "never DecodeTypeError (pathAwardStep g s item st)"
  unfolding pathAwardStep_def wildStep_def pathAmountsOf_def Let_def by (intro never_intro)

lemma never_pathAwards [never_intro]: "never DecodeTypeError (pathAwardsOf g s ways v)"
  by (cases v) (simp_all only: pathAwardsOf.simps never_reject, intro never_intro)

lemma never_win [never_intro]: "never DecodeTypeError (winOf g v)"
  unfolding winOf_def winWithPaths_def Let_def by (intro never_intro)

lemma never_wins [never_intro]: "never DecodeTypeError (winsOf g v)"
  by (cases v) (simp_all only: winsOf.simps never_reject, intro never_intro)

lemma never_event_bodies [never_intro]:
  "never DecodeTypeError (surgeCollectedOf d g)"
  "never DecodeTypeError (rageTransformedOf d g)"
  "never DecodeTypeError (wheelAwardedOf d)"
  "never DecodeTypeError (freeSpinsStartedOf d)"
  "never DecodeTypeError (gridExpandedOf d)"
  "never DecodeTypeError (vaultGroupOf t d g)"
  "never DecodeTypeError (vaultUnlockedOf d g)"
  "never DecodeTypeError (vaultAwardedOf d g)"
  "never DecodeTypeError (freeSpinAwardedOf d g)"
  "never DecodeTypeError (freeSpinCapReachedOf d g)"
  "never DecodeTypeError (winCapReachedOf d)"
  "never DecodeTypeError (vaultUpgradeStartedOf d)"
  "never DecodeTypeError (vaultUpgradedOf d g)"
  "never DecodeTypeError (freeSpinsCompletedOf d)"
  unfolding surgeCollectedOf_def rageTransformedOf_def wheelAwardedOf_def instantAwardOf_def
    wheelJackpotTier_def freeSpinsStartedOf_def featureModeOf_def gridExpandedOf_def vaultGroupOf_def
    vaultUnlockedOf_def vaultAwardedOf_def freeSpinAwardedOf_def freeSpinCapReachedOf_def
    winCapReachedOf_def vaultUpgradeStartedOf_def vaultUpgradedOf_def freeSpinsCompletedOf_def Let_def
  by (intro never_intro)+

lemma never_event [never_intro]: "never DecodeTypeError (featureEventOf g v)"
proof -
  have "never DecodeTypeError (eventBodyOf t d g)" for t d
    by (cases t) (simp_all only: eventBodyOf_def EventType.case never_event_bodies, intro never_intro)
  then show ?thesis unfolding featureEventOf_def by (intro never_intro)
qed

lemma never_grammar [never_intro]: "never DecodeTypeError (checkEventGrammar g evs)"
proof -
  have "never DecodeTypeError (checkGridExpanded g evs)" "never DecodeTypeError (checkRageAndWheel evs)"
    "never DecodeTypeError (checkFreeSpinsStarted evs)"
    by (auto simp: checkGridExpanded_def checkRageAndWheel_def checkSurge_def checkFreeSpinsStarted_def
        Let_def never_def split: option.splits FeatureEvent.splits)
  moreover have "never DecodeTypeError (checkVaultDetail evs entry u)" for entry u
    by (auto simp: checkVaultDetail_def Let_def never_def split: prod.splits FeatureEvent.splits)
  ultimately show ?thesis
    unfolding checkEventGrammar_def checkSingletons_def checkTerminalEvents_def checkVaultGroups_def
      checkLockedOrder_def Let_def
    by (intro never_intro)
qed

lemma never_events [never_intro]: "never DecodeTypeError (eventsOf v g)"
  by (cases v) (simp_all only: eventsOf.simps never_reject, intro never_intro)

lemma never_projections:
  "never DecodeTypeError (validateWinIdentities ws)"
  "never DecodeTypeError (validateVisibleAwardTotal ws evs t)"
  "never DecodeTypeError (validatePaidAwardProjection ws evs bet t)"
  "never DecodeTypeError (validateWinCapProjection evs s bet t)"
  "never DecodeTypeError (validateWheelAwardProjection evs s bet t)"
  "never DecodeTypeError (validateResultReelProjection g evs s)"
  subgoal unfolding validateWinIdentities_def winIdentityStep_def claimPath_def Let_def
    by (intro never_intro)
  subgoal unfolding validateVisibleAwardTotal_def by (intro never_intro)
  subgoal unfolding validatePaidAwardProjection_def paidWinStep_def paidPathStep_def paidEventStep_def Let_def
    by (intro never_intro)
  subgoal by (auto simp: validateWinCapProjection_def Let_def never_def split: option.splits FeatureEvent.splits)
  subgoal by (auto simp: validateWheelAwardProjection_def validateInstantProjection_def Let_def never_def
      split: option.splits FeatureEvent.splits)
  subgoal unfolding validateResultReelProjection_def Let_def by (intro never_intro)
  done

lemma never_vaultProjection:
  assumes "list_all event_typed evs"
  shows "never DecodeTypeError (validateVaultAwardProjection g evs s bet)"
  using never_vaults [OF assms, of "s\<lparr>mode := inferredVaultOriginMode evs s\<rparr>" g bet]
  by (auto simp: validateVaultAwardProjection_def never_def split: sum.splits origin_error.splits)

lemma never_parts:
  assumes "eventsOf v g = Inr evs"
  shows "never DecodeTypeError (validateParts bet g ws evs s t)"
proof -
  have "list_all event_typed evs"
    using events_sound [OF assms] wf_event_typed by (auto simp: list_all_iff)
  then show ?thesis
    unfolding validateParts_def by (intro never_intro never_projections never_vaultProjection)
qed

lemma never_version [never_intro]: "never DecodeTypeError (protocolVersion v)"
  unfolding protocolVersion_def by (intro never_intro)

lemma never_message:
  "never DecodeTypeError (decodeMessage v)"
  unfolding decodeMessage_def decodeSessionOpened_def decodeSpinResult_def decodeError_def
    optionalIdentifier_def
  by (intro never_intro never_parts) assumption+


section \<open>Award identities\<close>

definition winPathList :: "Win \<Rightarrow> PathAward list" where
  "winPathList w = (case win_pathAwards w of None \<Rightarrow> [] | Some as \<Rightarrow> as)"

lemma claimPath_Inr [accept]: "claimPath k claimed = Inr c \<longleftrightarrow> k \<notin> set claimed \<and> c = k # claimed"
  by (auto simp: claimPath_def)

lemma claimPaths:
  "foldE claimPath ks claimed = Inr claimed' \<Longrightarrow> distinct claimed \<Longrightarrow>
     claimed' = rev ks @ claimed \<and> distinct claimed'"
proof (induction ks arbitrary: claimed)
  case Nil
  then show ?case by simp
next
  case (Cons k ks)
  then have "k \<notin> set claimed" "foldE claimPath ks (k # claimed) = Inr claimed'"
    by (auto simp: accept)
  then show ?case using Cons.IH [of "k # claimed"] Cons.prems(2) by auto
qed

definition identified :: "Win list \<Rightarrow> identity_scan \<Rightarrow> bool" where
  "identified ws st =
     (seenIDs st = rev (map win_id ws) \<and> distinct (seenIDs st)
      \<and> claimedPaths st = rev (map awardKey (concat (map winPathList ws))) \<and> distinct (claimedPaths st))"

lemma identified_step:
  assumes "identified ws st" "winIdentityStep w st = Inr st'"
  shows "identified (ws @ [w]) st'"
proof (cases "win_pathAwards w")
  case None
  with assms show ?thesis
    by (auto simp: identified_def winIdentityStep_def Let_def winPathList_def accept)
next
  case (Some as)
  then obtain claimed where c: "foldE claimPath (map awardKey as) (claimedPaths st) = Inr claimed"
    and st': "claimedPaths st' = claimed" "seenIDs st' = win_id w # seenIDs st" "win_id w \<notin> set (seenIDs st)"
    using assms(2) by (auto simp: winIdentityStep_def Let_def accept)
  have st: "seenIDs st = rev (map win_id ws)" "distinct (seenIDs st)"
    "claimedPaths st = rev (map awardKey (concat (map winPathList ws)))" "distinct (claimedPaths st)"
    using assms(1) unfolding identified_def by blast+
  note cl = claimPaths [OF c st(4)]
  show ?thesis
    unfolding identified_def
  proof (intro conjI)
    show "distinct (claimedPaths st')" unfolding st'(1) using cl by (rule conjunct2)
    show "distinct (seenIDs st')" using st'(2,3) st(2) by simp
    show "seenIDs st' = rev (map win_id (ws @ [w]))" using st'(2) st(1) by simp
    show "claimedPaths st' = rev (map awardKey (concat (map winPathList (ws @ [w]))))"
      using cl st'(1) st(3) Some by (simp add: winPathList_def)
  qed
qed

lemma win_identities:
  assumes "validateWinIdentities ws = Inr ()"
  shows "distinct (map win_id ws) \<and> distinct (map path_cells (concat (map winPathList ws)))"
proof -
  obtain st where st: "foldE winIdentityStep ws \<lparr>seenIDs = [], seenPathSets = [], claimedPaths = []\<rparr> = Inr st"
    using assms by (auto simp: validateWinIdentities_def accept)
  have "identified ws st"
  proof (rule foldE_snoc_invariant [OF st])
    show "identified [] \<lparr>seenIDs = [], seenPathSets = [], claimedPaths = []\<rparr>"
      by (simp add: identified_def)
  qed (rule identified_step)
  then have ids: "distinct (map win_id ws)" and d: "distinct (map awardKey (concat (map winPathList ws)))"
    by (auto simp: identified_def)
  have "map awardKey (concat (map winPathList ws))
      = map (\<lambda>cells. join ''|'' (map positionKey cells)) (map path_cells (concat (map winPathList ws)))"
    by (simp add: comp_def awardKey_def [abs_def])
  then have "distinct (map path_cells (concat (map winPathList ws)))"
    using d by (metis distinct_map)
  then show ?thesis using ids by blast
qed

section \<open>Path multipliers\<close>

lemma wild_middle_only:
  assumes "wf_grid g" "reel p \<noteq> 1"
  shows "wildMultiplier g p = 1"
  using wf_grid_cell [OF assms(1), of p] assms(2)
  by (auto simp: wildMultiplier_def wf_gridCell_def split: option.splits)

lemma path_multiplier_middle:
  assumes "wf_grid g" "wf_path g s a"
  shows "path_multiplier a = wildMultiplier g (path_cells a ! 1)"
proof -
  obtain p q r where "path_cells a = [p, q, r]" "reel p = 0" "reel r = 2"
    using assms(2) by (auto simp: wf_path_def three_reels)
  then show ?thesis
    using assms(2) wild_middle_only [OF assms(1), of p] wild_middle_only [OF assms(1), of r]
    by (simp add: wf_path_def)
qed

section \<open>The empty key\<close>

lemma exactKeys_empty_key: "[] \<notin> set allowed \<Longrightarrow> exactKeys (([], x) # d) allowed = Inr ()"
  by (simp add: exactKeys_def)

lemma result_empty_key:
  "wf_result r \<Longrightarrow> decodeSpinResult (([], x) # resultFields r @ extra) = Inr r"
  by (simp add: decodeSpinResult_def resultFields_def exactKeys_empty_key spinResultKeys_def wf_result_def
      decoding grid.complete wins_complete events_complete feature.complete accept
      del: winsOf.simps eventsOf.simps)

end
