(* ===== verification/Decoder_Properties.thy ===== *)
theory Decoder_Properties
  imports Decoder_Facts Samples
begin

text \<open>The properties of the message decoder, with witnesses on the sample results.\<close>

section \<open>Sample evaluations\<close>

lemma sample_fields:
  "identifier_ok ''spin-1''" "identifier_ok ''session-1''" "identifier_ok ''round-1''"
  "money_ok ''100''" "money_ok ''99900''" "money_ok ''500''" "money_ok ''200''"
  "wf_featureState (kingState 8 0 ''500'')" "wf_featureState baseState" "safe_int 1" "safe_int 11"
  by code_simp+

lemma trigger_parts:
  "wf_grid triggerGrid" "list_all (wf_event triggerGrid) triggerEvents"
  "checkEventGrammar triggerGrid triggerEvents = Inr ()"
  "validateParts ''100'' triggerGrid [] triggerEvents (kingState 8 0 ''500'') ''500'' = Inr ()"
  by code_simp+

lemma win_parts:
  "wf_grid winGrid" "wf_win winGrid orbitWin" "checkEventGrammar winGrid [] = Inr ()"
  "validateParts ''100'' winGrid [orbitWin] [] baseState ''200'' = Inr ()"
  by code_simp+

lemma trigger_wf: "wf_result triggerResult"
  by (simp add: wf_result_def triggerResult_def spinResult_def sample_fields trigger_parts)
    (simp add: triggerEvents_def)

lemma win_wf: "wf_result winResult"
  by (simp add: wf_result_def winResult_def spinResult_def sample_fields win_parts)

lemma trigger_decoded: "decodeMessage (JObject (resultFields triggerResult)) = Inr (Result triggerResult)"
  using message.complete [of "Result triggerResult"] trigger_wf by simp

lemma win_decoded: "decodeMessage (JObject (resultFields winResult)) = Inr (Result winResult)"
  using message.complete [of "Result winResult"] win_wf by simp

section \<open>The wire contract\<close>

text \<open>
  C1: \<open>decodeServerMessage\<close> returns a message exactly when it is well formed (identifiers,
  canonical int64 money, grid shape, wins, events, event grammar, cross-checks): every
  decoded message is well formed, and every well-formed message is the result of decoding
  its wire form, whatever JSON parser delivers it.
\<close>

theorem decoder_round_trip:
  "(decodeServerMessage JSON_parse input = Inr m \<longrightarrow> wf_message m)
    \<and> (wf_message m \<longrightarrow> decodeServerMessage JSON_parse (encodeMessage m) = Inr m)"
proof
  show "decodeServerMessage JSON_parse input = Inr m \<longrightarrow> wf_message m"
    using message.sound by (auto simp: decodeServerMessage_def split: js.splits option.splits)
  have "decodeServerMessage JSON_parse (encodeMessage m) = decodeMessage (encodeMessage m)"
    by (cases m) (simp_all add: decodeServerMessage_def)
  then show "wf_message m \<longrightarrow> decodeServerMessage JSON_parse (encodeMessage m) = Inr m"
    using message.complete by simp
qed

theorem decoder_round_trip_witness:
  "decodeServerMessage (\<lambda>s. None) (encodeMessage (Result triggerResult)) = Inr (Result triggerResult)"
  using decoder_round_trip [of "\<lambda>s. None" JNull "Result triggerResult"] trigger_wf by simp

text \<open>
  Decoding is total: for every input and every parser the decoder returns a message or
  throws \<open>ProtocolDecodeError\<close>; it never fails with another error, though it calls the
  origin guard on partly checked data.
\<close>

theorem decoder_total: "decodeServerMessage JSON_parse input \<noteq> Inl DecodeTypeError"
  using never_message by (auto simp: decodeServerMessage_def never_def split: js.splits option.splits)

section \<open>Money\<close>

text \<open>
  C23: the money of a decoded result adds up: the total is the sum of the win amounts and of
  the money events; the path awards of a win add up to the win, paid and nominal; no paid
  amount exceeds its nominal amount, and all are within signed 64 bits.
\<close>

theorem decoded_money_conserved:
  assumes "decodeMessage v = Inr (Result r)"
  shows "BigInt (totalWinMinor r)
      = sum_list (map (\<lambda>w. BigInt (win_amountMinor w)) (wins r)) + sum_list (map eventMoney (events r))
    \<and> (\<forall>w \<in> set (wins r).
         0 \<le> BigInt (win_amountMinor w) \<and> BigInt (win_amountMinor w) \<le> BigInt (win_nominalAmountMinor w)
         \<and> BigInt (win_nominalAmountMinor w) \<le> 9223372036854775807
         \<and> (\<forall>as. win_pathAwards w = Some as \<longrightarrow>
              sum_list (map (BigInt \<circ> path_amountMinor) as) = BigInt (win_amountMinor w)
              \<and> sum_list (map (BigInt \<circ> path_nominalAmountMinor) as) = BigInt (win_nominalAmountMinor w)))"
proof -
  have wf: "wf_result r" using message.sound [OF assms] by simp
  then have "validateVisibleAwardTotal (wins r) (events r) (totalWinMinor r) = Inr ()"
    and w: "list_all (wf_win (result_grid r)) (wins r)"
    using validateParts_Inr(2) by (auto simp: wf_result_def)
  then have "BigInt (totalWinMinor r) = visibleAwards (wins r) (events r)"
    by (simp add: validateVisibleAwardTotal_def accept)
  with w show ?thesis
    using money_ok_bounds
    by (auto simp: visibleAwards_sum wf_win_def wf_winBase_def wf_winPaths_def list_all_iff
        MAX_SIGNED_INT64_def split: option.splits)
qed

theorem decoded_money_conserved_witness:
  "BigInt (totalWinMinor winResult) = sum_list (map (\<lambda>w. BigInt (win_amountMinor w)) (wins winResult))
     + sum_list (map eventMoney (events winResult))"
  using decoded_money_conserved [OF win_decoded] by blast

text \<open>
  C32: the win cap clips in one order: with \<open>win_cap.reached\<close> the paid amounts of the wins
  and then of the money events are the nominal amounts clipped, one after the other, by the
  budget the total leaves (the reference \<open>clip\<close>); without it each is paid in full.
\<close>

theorem decoded_cap_projection:
  assumes "decodeMessage v = Inr (Result r)"
  shows "if hasEvent (events r) win_cap_reached then
      map (\<lambda>w. BigInt (win_amountMinor w)) (wins r) @ map snd (paidFacts (betMinor r) (events r))
        = clip (BigInt (totalWinMinor r)) (map (\<lambda>w. BigInt (win_nominalAmountMinor w)) (wins r)
            @ map fst (paidFacts (betMinor r) (events r)))
    else map (\<lambda>w. BigInt (win_amountMinor w)) (wins r) = map (\<lambda>w. BigInt (win_nominalAmountMinor w)) (wins r)
      \<and> map snd (paidFacts (betMinor r) (events r)) = map fst (paidFacts (betMinor r) (events r))"
proof -
  have "wf_result r" using message.sound [OF assms] by simp
  then have "validatePaidAwardProjection (wins r) (events r) (betMinor r) (totalWinMinor r) = Inr ()"
    using validateParts_Inr(3) by (auto simp: wf_result_def)
  then show ?thesis by (rule paid_projection)
qed

theorem decoded_cap_projection_witness:
  "map snd (paidFacts (betMinor triggerResult) (events triggerResult))
     = map fst (paidFacts (betMinor triggerResult) (events triggerResult))"
proof -
  have "\<not> hasEvent (events triggerResult) win_cap_reached"
    by (simp add: hasEvent_def triggerResult_def spinResult_def triggerEvents_def)
  then show ?thesis using decoded_cap_projection [OF trigger_decoded] by simp
qed

section \<open>Wins and paths\<close>

text \<open>
  Every path award of a decoded result takes one cell of each reel, in reel order, each
  showing the win's symbol or WILD; its multiplier is the WILD multiplier of its middle
  cell; its base amount and its nominal amount agree when the multiplier is 1; the cells of
  the win are the union of its paths; no path is awarded twice in the whole result.
\<close>

theorem decoded_paths_lawful:
  assumes "decodeMessage v = Inr (Result r)"
  shows "(\<forall>w \<in> set (wins r). \<forall>as. win_pathAwards w = Some as \<longrightarrow>
      win_ways w = Some (int (length as))
      \<and> set (win_cells w) = (\<Union>a \<in> set as. set (path_cells a))
      \<and> (\<forall>a \<in> set as. map reel (path_cells a) = [0, 1, 2]
           \<and> (\<forall>p \<in> set (path_cells a).
                holdsSymbol (result_grid r) (win_symbol w) p \<or> holdsSymbol (result_grid r) WILD p)
           \<and> path_multiplier a = wildMultiplier (result_grid r) (path_cells a ! 1)
           \<and> (path_multiplier a = 1 \<longrightarrow>
                BigInt (path_baseAmountMinor a) = BigInt (path_nominalAmountMinor a))))
    \<and> distinct (map path_cells (concat (map winPathList (wins r))))"
proof -
  have wf: "wf_result r" using message.sound [OF assms] by simp
  then have g: "wf_grid (result_grid r)" and w: "\<forall>w \<in> set (wins r). wf_win (result_grid r) w"
    and i: "validateWinIdentities (wins r) = Inr ()"
    using validateParts_Inr(1) by (auto simp: wf_result_def list_all_iff)
  have p: "wf_path (result_grid r) (win_symbol w) a"
    if "w \<in> set (wins r)" "win_pathAwards w = Some as" "a \<in> set as" for w as a
    using w that by (auto simp: wf_win_def wf_winPaths_def paths_ok_def list_all_iff)
  show ?thesis
  proof (intro conjI ballI allI impI)
    fix w as
    assume "w \<in> set (wins r)" "win_pathAwards w = Some as"
    then have "win_ways w = Some (int (length as))" "wf_winPaths (result_grid r) w as"
      using w by (auto simp: wf_win_def)
    then show "win_ways w = Some (int (length as))"
      "set (win_cells w) = (\<Union>a \<in> set as. set (path_cells a))"
      by (simp_all add: wf_winPaths_def)
  next
    fix w as a
    assume a: "w \<in> set (wins r)" "win_pathAwards w = Some as" "a \<in> set as"
    show "map reel (path_cells a) = [0, 1, 2]"
      using p [OF a] by (simp add: wf_path_def)
    show "path_multiplier a = wildMultiplier (result_grid r) (path_cells a ! 1)"
      by (rule path_multiplier_middle [OF g p [OF a]])
    show "BigInt (path_baseAmountMinor a) = BigInt (path_nominalAmountMinor a)" if "path_multiplier a = 1"
      using p [OF a] that by (simp add: wf_path_def baseInconsistent_def)
    fix q
    assume "q \<in> set (path_cells a)"
    then show "holdsSymbol (result_grid r) (win_symbol w) q \<or> holdsSymbol (result_grid r) WILD q"
      using p [OF a] by (auto simp: wf_path_def list_all_iff)
  next
    show "distinct (map path_cells (concat (map winPathList (wins r))))"
      using win_identities [OF i] by blast
  qed
qed

theorem decoded_paths_lawful_witness:
  "win_ways orbitWin = Some 1 \<and> distinct (map path_cells (winPathList orbitWin))"
proof -
  have "orbitWin \<in> set (wins winResult)" "wins winResult = [orbitWin]"
    by (simp_all add: winResult_def spinResult_def)
  moreover have "win_pathAwards orbitWin = Some (winPathList orbitWin)" "length (winPathList orbitWin) = 1"
    by (simp_all add: orbitWin_def winPathList_def)
  ultimately show ?thesis using decoded_paths_lawful [OF win_decoded] by auto
qed

section \<open>The event grammar\<close>

text \<open>
  The events of a decoded result obey the grammar: no duplicate of a singleton type, an
  expanded grid is announced first and matches the grid, Rage collection, transformation,
  Wheel start and Wheel award come in this order, free spins start directly after the
  Wheel award, completion is last and \<open>win_cap.reached\<close> last before it, and every Vault
  detail follows \<open>vaults.landed\<close>.
\<close>

theorem decoded_events_grammatical:
  assumes "decodeMessage v = Inr (Result r)"
  shows "grammatical (events r)
    \<and> (hasEvent (events r) grid_expanded \<longrightarrow>
         (\<exists>es. events r = GridExpanded (gridRows (result_grid r)) (gridRows (result_grid r) ^ 3) # es))"
proof -
  have "checkEventGrammar (result_grid r) (events r) = Inr ()"
    using message.sound [OF assms] by (simp add: wf_result_def)
  moreover from this have "checkGridExpanded (result_grid r) (events r) = Inr ()"
    by (auto simp: checkEventGrammar_def accept)
  ultimately show ?thesis
    using grammar_order gridExpanded_first indexOfType_neg [of "events r" grid_expanded]
    by (meson not_le)
qed

theorem decoded_events_grammatical_witness: "grammatical (events triggerResult)"
  using decoded_events_grammatical [OF trigger_decoded] by blast

section \<open>Unknown properties\<close>

text \<open>
  C36: \<open>exactKeys\<close> does not keep unknown properties out: with an empty key in front, any
  further properties are accepted and the result is decoded as if they were not there.
\<close>

theorem empty_key_disables_exact_keys:
  assumes "wf_result r"
  shows "decodeMessage (JObject (([], x) # resultFields r @ extra)) = Inr (Result r)"
proof -
  have "getProp (([], x) # resultFields r @ extra) ''type'' = JString ''spin.result''"
    by (simp add: resultFields_def)
  then show ?thesis
    using result_empty_key [OF assms] by (simp add: decodeMessage_def)
qed

theorem empty_key_disables_exact_keys_witness:
  "decodeMessage (JObject (([], JNull) # resultFields winResult @ [(''balance'', JNumber (JsInt 1))]))
     = Inr (Result winResult)"
  by (rule empty_key_disables_exact_keys [OF win_wf])

end
