(* ===== verification/Rgs_Decoder.thy ===== *)
theory Rgs_Decoder
  imports Wire_Messages
begin

text \<open>
  \<open>protocol/rgsDecoder.ts\<close>: the responses of the remote gaming server. A spin response is
  translated into a \<open>spin.result\<close> message, which the shared decoder then checks. The server's
  \<open>Date.parse\<close> is a parameter of the definitions that use it (\<open>None\<close> for NaN).
\<close>

datatype rgs_error = RgsProtocolError string | RgsDecodeError decode_error

abbreviation deny :: "string \<Rightarrow> rgs_error + 'a" where
  "deny s \<equiv> Inl (RgsProtocolError s)"

record RgsBinding =
  operatorId :: string
  rgs_sessionId :: string
  gameId :: string
  definitionVersion :: string
  definitionHash :: string
  rgs_currency :: string
  rgs_currencyExponent :: int
  jurisdiction :: string

record RgsSession =
  binding :: RgsBinding
  engineRulesVersion :: string
  session_status :: string
  expiresAt :: string
  session_idleDisconnectAt :: string
  session_balanceMinor :: string
  session_revision :: string
  session_sequence :: int
  session_featureState :: FeatureState

record RgsExchange =
  exchange_requestId :: string
  accessToken :: string
  serverTime :: string
  session :: RgsSession

record RgsSessionStatus =
  status_requestId :: string
  status_operatorId :: string
  status_sessionId :: string
  status_status :: string
  status_idleDisconnectAt :: string
  status_serverTime :: string

record RgsSpin =
  spin_result :: SpinResult
  spin_operatorId :: string
  spin_sessionId :: string
  spin_gameId :: string
  spin_definitionVersion :: string
  spin_definitionHash :: string
  spin_currency :: string
  roundKind :: string
  serverTransactionId :: string
  walletTransactionId :: string
  startRevision :: string
  endRevision :: string
  resultHash :: string
  spin_idleDisconnectAt :: string

record RgsRoundStatus =
  round_requestId :: string
  round_operatorId :: string
  round_sessionId :: string
  round_roundId :: string
  round_status :: string
  round_result :: "RgsSpin option"

record PendingDelivery =
  pending_requestId :: string
  pending_operatorId :: string
  pending_sessionId :: string
  pending_roundId :: string
  pending_sequence :: int
  pending_resultHash :: string
  originFeatureState :: FeatureState
  pending_result :: RgsSpin

record RgsErrorBody =
  rgs_error_requestId :: string
  rgs_error_code :: string
  rgs_error_message :: string

record Acknowledgement =
  ack_requestId :: string
  ack_operatorId :: string
  ack_sessionId :: string
  ack_roundId :: string
  ack_sequence :: int
  ack_resultHash :: string
  acknowledgedAt :: string

section \<open>Single values\<close>

fun rgsRecord :: "js \<Rightarrow> rgs_error + js_object" where
  "rgsRecord (JObject o1) = Inr o1"
| "rgsRecord _ = deny ''must be an object''"

text \<open>As in \<open>decoder.ts\<close>, a key is reported only when it is truthy.\<close>

definition rgsExactKeys :: "js_object \<Rightarrow> string list \<Rightarrow> string list \<Rightarrow> rgs_error + unit" where
  "rgsExactKeys o1 allowed required =
     (let unexpected = find (\<lambda>k. k \<notin> set allowed) (Object_keys o1);
          missing = find (\<lambda>k. \<not> hasOwn o1 k) required;
          truthy = (\<lambda>x. case x of None \<Rightarrow> False | Some k \<Rightarrow> k \<noteq> []) in
      if truthy unexpected then deny ''is not allowed''
      else if truthy missing then deny ''is required''
      else Inr ())"

fun textOf :: "js \<Rightarrow> nat \<Rightarrow> nat \<Rightarrow> rgs_error + string" where
  "textOf (JString s) minimum maximum =
     (if length s < minimum \<or> maximum < length s then deny ''must be a string in length range''
      else Inr s)"
| "textOf _ minimum maximum = deny ''must be a string in length range''"

definition rgsIdentifier :: "js \<Rightarrow> rgs_error + string" where
  "rgsIdentifier v = bindE (textOf v 1 128) (\<lambda>s.
     if \<not> (IDENTIFIER_PATTERN s \<and> length s \<le> 128) then deny ''must be an identifier'' else Inr s)"

fun rgsBoolean :: "js \<Rightarrow> rgs_error + bool" where
  "rgsBoolean (JBool b) = Inr b"
| "rgsBoolean _ = deny ''must be boolean''"

fun rgsInteger :: "js \<Rightarrow> int \<Rightarrow> int \<Rightarrow> rgs_error + int" where
  "rgsInteger (JNumber n) minimum maximum = (case safeInteger n of
       None \<Rightarrow> deny ''must be an integer in range''
     | Some i \<Rightarrow> if i < minimum \<or> maximum < i then deny ''must be an integer in range'' else Inr i)"
| "rgsInteger _ minimum maximum = deny ''must be an integer in range''"

definition rgsDecimal :: "bool \<Rightarrow> js \<Rightarrow> rgs_error + string" where
  "rgsDecimal positive v = bindE (textOf v 1 19) (\<lambda>s.
     if \<not> (if positive then POSITIVE_MONEY_PATTERN s else MONEY_PATTERN s)
       \<or> MAX_SIGNED_INT64 < BigInt s
     then deny ''must be a canonical signed-int64 decimal string'' else Inr s)"

definition revisionOf :: "js \<Rightarrow> rgs_error + string" where
  "revisionOf v = rgsDecimal False v"

text \<open>
  \<open>Number(decoded)\<close> is exact up to 2^53 and rounds a larger integer to a double that is at
  least 2^53, which \<open>Number.isSafeInteger\<close> refuses.
\<close>

definition sequenceOf :: "js \<Rightarrow> rgs_error + int" where
  "sequenceOf v = bindE (rgsDecimal False v) (\<lambda>s.
     let numeric = BigInt s in
     if \<not> safe_int numeric then deny ''exceeds the browser sequence domain'' else Inr numeric)"

definition positivePresentationInteger :: "js \<Rightarrow> rgs_error + int" where
  "positivePresentationInteger v = bindE (rgsDecimal True v) (\<lambda>s.
     let numeric = BigInt s in
     if \<not> safe_int numeric \<or> 1000000 < numeric
     then deny ''exceeds the presentation integer domain'' else Inr numeric)"

section \<open>Binding, feature state, envelope\<close>

definition bindingKeys :: "string list" where
  "bindingKeys = [''operatorId'', ''sessionId'', ''gameId'', ''definitionVersion'', ''definitionHash'',
     ''currency'', ''currencyExponent'', ''jurisdiction'']"

definition bindingOf :: "js_object \<Rightarrow> rgs_error + RgsBinding" where
  "bindingOf d =
     (if list_ex (\<lambda>k. \<not> hasOwn d k) bindingKeys then deny ''is required''
      else bindE (textOf (getProp d ''definitionHash'') 64 64) (\<lambda>hash.
        bindE (textOf (getProp d ''currency'') 3 3) (\<lambda>cur.
        bindE (textOf (getProp d ''jurisdiction'') 2 16) (\<lambda>jur.
        if \<not> DIGEST_PATTERN hash then deny ''definitionHash must be a lowercase SHA-256 digest''
        else if \<not> CURRENCY_PATTERN cur then deny ''currency is invalid''
        else if \<not> JURISDICTION_PATTERN jur then deny ''jurisdiction is invalid''
        else bindE (rgsIdentifier (getProp d ''operatorId'')) (\<lambda>op1.
          bindE (rgsIdentifier (getProp d ''sessionId'')) (\<lambda>sid.
          bindE (rgsIdentifier (getProp d ''gameId'')) (\<lambda>game.
          bindE (rgsIdentifier (getProp d ''definitionVersion'')) (\<lambda>version.
          bindE (rgsInteger (getProp d ''currencyExponent'') 0 6) (\<lambda>e.
          Inr \<lparr>operatorId = op1, rgs_sessionId = sid, gameId = game, definitionVersion = version,
               definitionHash = hash, rgs_currency = cur, rgs_currencyExponent = e,
               jurisdiction = jur\<rparr>)))))))))"

definition sameRgsBinding :: "RgsBinding \<Rightarrow> RgsBinding \<Rightarrow> bool" where
  "sameRgsBinding left right =
     (operatorId left = operatorId right
      \<and> rgs_sessionId left = rgs_sessionId right
      \<and> gameId left = gameId right
      \<and> definitionVersion left = definitionVersion right
      \<and> definitionHash left = definitionHash right
      \<and> rgs_currency left = rgs_currency right
      \<and> rgs_currencyExponent left = rgs_currencyExponent right
      \<and> jurisdiction left = jurisdiction right)"

definition rgsFeatureKeys :: "string list" where
  "rgsFeatureKeys = [''mode'', ''remaining'', ''awarded'', ''betMinor'', ''winMinor'', ''rageLevel'',
     ''rageCollected'']"

definition rgsFeatureState :: "js \<Rightarrow> rgs_error + FeatureState" where
  "rgsFeatureState v = bindE (rgsRecord v) (\<lambda>d.
     bindE (rgsExactKeys d rgsFeatureKeys rgsFeatureKeys) (\<lambda>_.
     bindE (textOf (getProp d ''mode'') 1 128) (\<lambda>m.
     if m \<noteq> ''NONE'' \<and> m \<noteq> ''EXPANSION'' \<and> m \<noteq> ''OVERDRIVE'' then deny ''mode is unsupported''
     else bindE (rgsInteger (getProp d ''remaining'') 0 1000000) (\<lambda>remaining.
     bindE (rgsInteger (getProp d ''awarded'') 0 1000000) (\<lambda>awarded.
     bindE (rgsDecimal False (getProp d ''betMinor'')) (\<lambda>bet.
     bindE (rgsDecimal False (getProp d ''winMinor'')) (\<lambda>win.
     bindE (rgsInteger (getProp d ''rageLevel'') 1 1000000) (\<lambda>level.
     bindE (rgsInteger (getProp d ''rageCollected'') 0 1000000) (\<lambda>collected.
     if m = ''NONE'' then
       (if remaining \<noteq> 0 \<or> awarded \<noteq> 0 \<or> bet \<noteq> ''0'' \<or> win \<noteq> ''0''
        then deny ''has a non-canonical NONE projection''
        else Inr \<lparr>mode = BASE, freeSpinsRemaining = 0, freeSpinsPlayed = Some 0, baseBetMinor = None,
          freeSpinsWinMinor = None, rageLevel = level, rageCollected = collected\<rparr>)
     else if remaining < 1 \<or> awarded < remaining \<or> bet = ''0''
     then deny ''has invalid active Free Spins counters or bet''
     else Inr \<lparr>mode = (if m = ''EXPANSION'' then EXPANSION else OVERDRIVE),
       freeSpinsRemaining = remaining, freeSpinsPlayed = Some (awarded - remaining),
       baseBetMinor = Some bet, freeSpinsWinMinor = Some win,
       rageLevel = level, rageCollected = collected\<rparr>)))))))))"

text \<open>\<open>{ data, requestId }\<close>.\<close>

definition envelope :: "js \<Rightarrow> rgs_error + js \<times> string" where
  "envelope v = bindE (rgsRecord v) (\<lambda>d.
     bindE (rgsExactKeys d [''data'', ''requestId''] [''data'', ''requestId'']) (\<lambda>_.
     bindE (rgsIdentifier (getProp d ''requestId'')) (\<lambda>request.
     Inr (getProp d ''data'', request))))"

definition requireMatchingRequestId :: "string \<Rightarrow> string \<Rightarrow> rgs_error + unit" where
  "requireMatchingRequestId actual expected =
     (if actual \<noteq> expected then deny ''response requestId does not match the request'' else Inr ())"

text \<open>The three lines every response decoder starts with.\<close>

definition responseData :: "js \<Rightarrow> string \<Rightarrow> rgs_error + js" where
  "responseData v expectedRequestId = bindE (envelope v) (\<lambda>(d, request).
     bindE (requireMatchingRequestId request expectedRequestId) (\<lambda>_. Inr d))"

section \<open>Session exchange and status\<close>

definition sessionKeys :: "string list" where
  "sessionKeys = [''operatorId'', ''sessionId'', ''gameId'', ''definitionVersion'', ''definitionHash'',
     ''engineRulesVersion'', ''currency'', ''currencyExponent'', ''jurisdiction'', ''status'',
     ''expiresAt'', ''idleDisconnectAt'', ''balanceMinor'', ''revision'', ''sequence'', ''feature'']"

definition sessionOf ::
  "(string \<Rightarrow> int option) \<Rightarrow> js_object \<Rightarrow> string \<Rightarrow> string \<Rightarrow> rgs_error + RgsSession" where
  "sessionOf Date_parse d expectedOperatorId expectedSessionId =
     bindE (rgsExactKeys d sessionKeys sessionKeys) (\<lambda>_.
     bindE (bindingOf d) (\<lambda>b.
     bindE (textOf (getProp d ''engineRulesVersion'') 1 128) (\<lambda>version.
     if version \<noteq> ENGINE_RULES_VERSION then deny ''engineRulesVersion must equal the client's''
     else if operatorId b \<noteq> expectedOperatorId \<or> rgs_sessionId b \<noteq> expectedSessionId
     then deny ''exchange returned a foreign operator/session binding''
     else bindE (textOf (getProp d ''status'') 1 128) (\<lambda>status.
     if status \<notin> {''ACTIVE'', ''BLOCKED'', ''CLOSED'', ''EXPIRED''}
     then deny ''status is unsupported''
     else bindE (textOf (getProp d ''expiresAt'') 20 64) (\<lambda>expires.
     case Date_parse expires of
       None \<Rightarrow> deny ''expiresAt must be an RFC3339 timestamp''
     | Some expiry \<Rightarrow> bindE (textOf (getProp d ''idleDisconnectAt'') 20 64) (\<lambda>idle.
     case Date_parse idle of
       None \<Rightarrow> deny ''idleDisconnectAt must be an RFC3339 timestamp''
     | Some idleTime \<Rightarrow>
     if expiry < idleTime then deny ''idleDisconnectAt must not exceed the session expiry''
     else bindE (rgsDecimal False (getProp d ''balanceMinor'')) (\<lambda>balance.
       bindE (revisionOf (getProp d ''revision'')) (\<lambda>rev1.
       bindE (sequenceOf (getProp d ''sequence'')) (\<lambda>seqno.
       bindE (rgsFeatureState (getProp d ''feature'')) (\<lambda>f.
       Inr \<lparr>binding = b, engineRulesVersion = ENGINE_RULES_VERSION, session_status = status,
            expiresAt = expires, session_idleDisconnectAt = idle, session_balanceMinor = balance,
            session_revision = rev1, session_sequence = seqno, session_featureState = f\<rparr>))))))))))"

definition decodeRgsExchange ::
  "(string \<Rightarrow> int option) \<Rightarrow> js \<Rightarrow> string \<Rightarrow> string \<Rightarrow> string \<Rightarrow> rgs_error + RgsExchange" where
  "decodeRgsExchange Date_parse v expectedRequestId expectedOperatorId expectedSessionId =
     bindE (responseData v expectedRequestId) (\<lambda>dv.
     bindE (rgsRecord dv) (\<lambda>d.
     bindE (rgsExactKeys d [''accessToken'', ''serverTime'', ''session'']
       [''accessToken'', ''serverTime'', ''session'']) (\<lambda>_.
     bindE (textOf (getProp d ''accessToken'') 80 8192) (\<lambda>token.
     bindE (textOf (getProp d ''serverTime'') 20 64) (\<lambda>time.
     if Date_parse time = None then deny ''serverTime must be an RFC3339 timestamp''
     else bindE (rgsRecord (getProp d ''session'')) (\<lambda>raw.
       bindE (sessionOf Date_parse raw expectedOperatorId expectedSessionId) (\<lambda>s.
       Inr \<lparr>exchange_requestId = expectedRequestId, accessToken = token, serverTime = time,
            session = s\<rparr>)))))))"

record RgsOpened =
  opened_message :: SessionOpened
  opened_idleDisconnectAt :: string
  opened_gameId :: string
  opened_definitionVersion :: string
  opened_definitionHash :: string

definition rgsSessionOpened ::
  "string \<Rightarrow> RgsSession \<Rightarrow> string list \<Rightarrow> string \<Rightarrow> rgs_error + RgsOpened" where
  "rgsSessionOpened request s options defaultBet =
     (case decodeMessage (JObject [
        (''type'', JString ''session.opened''),
        (''protocolVersion'', JInt 1),
        (''engineRulesVersion'', JString (engineRulesVersion s)),
        (''requestId'', JString request),
        (''sessionId'', JString (rgs_sessionId (binding s))),
        (''currency'', JString (rgs_currency (binding s))),
        (''currencyExponent'', JInt (rgs_currencyExponent (binding s))),
        (''balanceMinor'', JString (session_balanceMinor s)),
        (''betOptionsMinor'', JArray (map JString options)),
        (''defaultBetMinor'', JString defaultBet),
        (''featureState'', encodeFeatureState (session_featureState s))]) of
        Inl e \<Rightarrow> Inl (RgsDecodeError e)
      | Inr (Opened m) \<Rightarrow> Inr \<lparr>opened_message = m,
          opened_idleDisconnectAt = session_idleDisconnectAt s, opened_gameId = gameId (binding s),
          opened_definitionVersion = definitionVersion (binding s),
          opened_definitionHash = definitionHash (binding s)\<rparr>
      | Inr _ \<Rightarrow> deny ''invalid session projection'')"

definition decodeRgsSessionStatus ::
  "(string \<Rightarrow> int option) \<Rightarrow> js \<Rightarrow> string \<Rightarrow> string \<Rightarrow> string \<Rightarrow> rgs_error + RgsSessionStatus" where
  "decodeRgsSessionStatus Date_parse v expectedRequestId expectedOperatorId expectedSessionId =
     bindE (responseData v expectedRequestId) (\<lambda>dv.
     bindE (rgsRecord dv) (\<lambda>d.
     let keys = [''operatorId'', ''sessionId'', ''status'', ''idleDisconnectAt'', ''serverTime''] in
     bindE (rgsExactKeys d keys keys) (\<lambda>_.
     bindE (rgsIdentifier (getProp d ''operatorId'')) (\<lambda>op1.
     bindE (rgsIdentifier (getProp d ''sessionId'')) (\<lambda>sid.
     if op1 \<noteq> expectedOperatorId \<or> sid \<noteq> expectedSessionId
     then deny ''session status returned a foreign operator/session binding''
     else bindE (textOf (getProp d ''status'') 1 128) (\<lambda>status.
     if status \<noteq> ''ACTIVE'' \<and> status \<noteq> ''EXPIRED'' then deny ''status is unsupported''
     else bindE (textOf (getProp d ''idleDisconnectAt'') 20 64) (\<lambda>idle.
     bindE (textOf (getProp d ''serverTime'') 20 64) (\<lambda>time.
     if Date_parse idle = None then deny ''idleDisconnectAt must be an RFC3339 timestamp''
     else if Date_parse time = None then deny ''serverTime must be an RFC3339 timestamp''
     else Inr \<lparr>status_requestId = expectedRequestId, status_operatorId = op1, status_sessionId = sid,
       status_status = status, status_idleDisconnectAt = idle, status_serverTime = time\<rparr>))))))))"

section \<open>Translation of a spin\<close>

definition positionOf :: "js \<Rightarrow> rgs_error + CellAddress" where
  "positionOf v = bindE (rgsRecord v) (\<lambda>d.
     bindE (rgsExactKeys d [''reel'', ''row''] [''reel'', ''row'']) (\<lambda>_.
     bindE (rgsInteger (getProp d ''reel'') 0 2) (\<lambda>a.
     bindE (rgsInteger (getProp d ''row'') 0 7) (\<lambda>b. Inr (CellAddress a b)))))"

fun positionsOf :: "js \<Rightarrow> nat \<Rightarrow> nat \<Rightarrow> rgs_error + CellAddress list" where
  "positionsOf (JArray vs) minimum maximum =
     (if length vs < minimum \<or> maximum < length vs then deny ''must contain that many positions''
      else mapE positionOf vs)"
| "positionsOf _ minimum maximum = deny ''must contain that many positions''"

definition translatedFace ::
  "string \<Rightarrow> bool \<Rightarrow> js \<Rightarrow> rgs_error + string" where
  "translatedFace symbol rewarded v = bindE (textOf v 1 128) (\<lambda>face.
     if face \<notin> set LOCKED_VAULT_FACES then deny ''lockedVaultFace is unsupported''
     else if symbol \<noteq> ''VAULT'' then deny ''lockedVaultFace is only allowed on VAULT''
     else if rewarded then deny ''lockedVaultFace cannot coexist with multiplier or prize''
     else Inr face)"

definition translatedCell :: "js \<Rightarrow> rgs_error + js" where
  "translatedCell v = bindE (rgsRecord v) (\<lambda>d.
     bindE (rgsExactKeys d [''symbol'', ''multiplier'', ''prize'', ''lockedVaultFace''] [''symbol'']) (\<lambda>_.
     bindE (rgsIdentifier (getProp d ''symbol'')) (\<lambda>symbol.
     bindE (optionalOf (\<lambda>x. rgsInteger x 1 1000000) (getProp d ''multiplier'')) (\<lambda>mult.
     bindE (optionalOf rgsIdentifier (getProp d ''prize'')) (\<lambda>prize.
     bindE (optionalOf (translatedFace symbol (mult \<noteq> None \<or> prize \<noteq> None))
       (getProp d ''lockedVaultFace'')) (\<lambda>face.
     Inr (JObject ([(''symbol'', JString symbol)] @ optProp ''multiplier'' JInt mult
       @ optProp ''prize'' JString prize @ optProp ''lockedVaultFace'' JString face))))))))"

fun translatedReel :: "js \<Rightarrow> rgs_error + js" where
  "translatedReel (JArray cells) =
     (if length cells < 3 \<or> 8 < length cells then deny ''must contain 3-8 rows''
      else bindE (mapE translatedCell cells) (\<lambda>cs. Inr (JArray cs)))"
| "translatedReel _ = deny ''must contain 3-8 rows''"

fun translatedGrid :: "js \<Rightarrow> rgs_error + js" where
  "translatedGrid (JArray reels) =
     (if length reels \<noteq> 3 then deny ''grid must contain exactly three reels''
      else bindE (mapE translatedReel reels) (\<lambda>rs. Inr (JArray rs)))"
| "translatedGrid _ = deny ''grid must contain exactly three reels''"

definition rgsPathKeys :: "string list" where
  "rgsPathKeys = [''cells'', ''multiplier'', ''baseAmountMinor'', ''nominalAmountMinor'', ''amountMinor'']"

text \<open>A translated path award: its fields, paid and nominal amount.\<close>

definition translatedPath :: "js \<Rightarrow> rgs_error + PathAward" where
  "translatedPath v = bindE (rgsRecord v) (\<lambda>d.
     bindE (rgsExactKeys d rgsPathKeys rgsPathKeys) (\<lambda>_.
     bindE (rgsDecimal False (getProp d ''nominalAmountMinor'')) (\<lambda>nominal.
     bindE (rgsDecimal False (getProp d ''amountMinor'')) (\<lambda>amount.
     if BigInt nominal < BigInt amount then deny ''amountMinor must not exceed nominalAmountMinor''
     else bindE (positionsOf (getProp d ''cells'') 3 3) (\<lambda>cells.
       bindE (positivePresentationInteger (getProp d ''multiplier'')) (\<lambda>mult.
       bindE (rgsDecimal False (getProp d ''baseAmountMinor'')) (\<lambda>base.
       Inr \<lparr>path_cells = cells, path_multiplier = mult, path_baseAmountMinor = base,
            path_nominalAmountMinor = nominal, path_amountMinor = amount\<rparr>)))))))"

definition rgsWinKeys :: "string list" where
  "rgsWinKeys = [''id'', ''symbol'', ''ways'', ''nominalAmountMinor'', ''amountMinor'', ''cells'',
     ''pathAwards'']"

fun rgsPathAwards :: "js \<Rightarrow> rgs_error + js list" where
  "rgsPathAwards (JArray vs) =
     (if length vs < 1 \<or> 512 < length vs then deny ''pathAwards must contain 1-512 entries'' else Inr vs)"
| "rgsPathAwards _ = deny ''pathAwards must contain 1-512 entries''"

definition translatedWin :: "js \<Rightarrow> rgs_error + js" where
  "translatedWin v = bindE (rgsRecord v) (\<lambda>d.
     bindE (rgsExactKeys d (rgsWinKeys @ [''multiplier'']) rgsWinKeys) (\<lambda>_.
     bindE (rgsPathAwards (getProp d ''pathAwards'')) (\<lambda>items.
     bindE (rgsDecimal True (getProp d ''nominalAmountMinor'')) (\<lambda>nominal.
     bindE (rgsDecimal False (getProp d ''amountMinor'')) (\<lambda>amount.
     if BigInt nominal < BigInt amount then deny ''amountMinor must not exceed nominalAmountMinor''
     else bindE (mapE translatedPath items) (\<lambda>paths.
     if sum_list (map (BigInt \<circ> path_amountMinor) paths) \<noteq> BigInt amount
     then deny ''pathAwards amounts must sum to amountMinor''
     else if sum_list (map (BigInt \<circ> path_nominalAmountMinor) paths) \<noteq> BigInt nominal
     then deny ''pathAwards nominal amounts must sum to nominalAmountMinor''
     else bindE (rgsIdentifier (getProp d ''id'')) (\<lambda>i.
       bindE (rgsIdentifier (getProp d ''symbol'')) (\<lambda>symbol.
       bindE (rgsInteger (getProp d ''ways'') 1 512) (\<lambda>ways.
       bindE (positionsOf (getProp d ''cells'') 1 24) (\<lambda>cells.
       bindE (optionalOf positivePresentationInteger (getProp d ''multiplier'')) (\<lambda>mult.
       Inr (JObject ([(''id'', JString i), (''symbol'', JString symbol), (''ways'', JInt ways),
         (''nominalAmountMinor'', JString nominal), (''amountMinor'', JString amount),
         cellsField cells, (''pathAwards'', JArray (map encodePath paths))]
         @ optProp ''multiplier'' JInt mult)))))))))))))"

fun translatedWins :: "js \<Rightarrow> rgs_error + js" where
  "translatedWins (JArray vs) =
     (if 4096 < length vs then deny ''wins must be an array with at most 4096 entries''
      else bindE (mapE translatedWin vs) (\<lambda>ws. Inr (JArray ws)))"
| "translatedWins _ = deny ''wins must be an array with at most 4096 entries''"

section \<open>Events\<close>

definition RGS_EVENT_KEYS :: "string list" where
  "RGS_EVENT_KEYS = [''type'', ''count'', ''cells'', ''triggered'', ''guaranteed'', ''outcome'', ''prize'',
     ''multiplier'', ''amountMinor'', ''cumulativeWinMinor'', ''mode'', ''awarded'', ''rows'', ''ways'',
     ''reel'', ''row'', ''level'', ''total'', ''step'', ''fromMultiplier'', ''toMultiplier'']"

text \<open>The server's flat event: every field is present, whatever the type.\<close>

record FlatEvent =
  flat_type :: string
  flat_count :: int
  flat_cells :: "CellAddress list"
  flat_triggered :: bool
  flat_guaranteed :: bool
  flat_outcome :: string
  flat_prize :: string
  flat_multiplier :: string
  flat_amountMinor :: string
  flat_cumulativeWinMinor :: string
  flat_mode :: string
  flat_awarded :: int
  flat_rows :: int
  flat_ways :: int
  flat_reel :: int
  flat_row :: int
  flat_level :: int
  flat_total :: int
  flat_step :: int
  flat_fromMultiplier :: string
  flat_toMultiplier :: string

definition flatEventOf :: "js \<Rightarrow> rgs_error + FlatEvent" where
  "flatEventOf v = bindE (rgsRecord v) (\<lambda>d.
     bindE (rgsExactKeys d RGS_EVENT_KEYS RGS_EVENT_KEYS) (\<lambda>_.
     bindE (rgsIdentifier (getProp d ''type'')) (\<lambda>t.
     bindE (rgsInteger (getProp d ''count'') 0 1000000) (\<lambda>count.
     bindE (positionsOf (getProp d ''cells'') 0 24) (\<lambda>cells.
     bindE (rgsBoolean (getProp d ''triggered'')) (\<lambda>triggered.
     bindE (rgsBoolean (getProp d ''guaranteed'')) (\<lambda>guaranteed.
     bindE (textOf (getProp d ''outcome'') 0 128) (\<lambda>outcome.
     bindE (textOf (getProp d ''prize'') 0 128) (\<lambda>prize.
     bindE (rgsDecimal False (getProp d ''multiplier'')) (\<lambda>multiplier.
     bindE (rgsDecimal False (getProp d ''amountMinor'')) (\<lambda>amount.
     bindE (rgsDecimal False (getProp d ''cumulativeWinMinor'')) (\<lambda>cumulative.
     bindE (textOf (getProp d ''mode'') 1 128) (\<lambda>m.
     if m \<noteq> ''NONE'' \<and> m \<noteq> ''EXPANSION'' \<and> m \<noteq> ''OVERDRIVE'' then deny ''mode is unsupported''
     else bindE (rgsInteger (getProp d ''awarded'') 0 1000000) (\<lambda>awarded.
     bindE (rgsInteger (getProp d ''rows'') 0 8) (\<lambda>rows.
     bindE (rgsInteger (getProp d ''ways'') 0 2147483647) (\<lambda>ways.
     bindE (rgsInteger (getProp d ''reel'') 0 2) (\<lambda>a.
     bindE (rgsInteger (getProp d ''row'') 0 7) (\<lambda>b.
     bindE (rgsInteger (getProp d ''level'') 0 1000000) (\<lambda>level.
     bindE (rgsInteger (getProp d ''total'') 0 1000000) (\<lambda>tot.
     bindE (rgsInteger (getProp d ''step'') 0 16) (\<lambda>step.
     bindE (rgsDecimal False (getProp d ''fromMultiplier'')) (\<lambda>from1.
     bindE (rgsDecimal False (getProp d ''toMultiplier'')) (\<lambda>to1.
     Inr \<lparr>flat_type = t, flat_count = count, flat_cells = cells, flat_triggered = triggered,
          flat_guaranteed = guaranteed, flat_outcome = outcome, flat_prize = prize,
          flat_multiplier = multiplier, flat_amountMinor = amount,
          flat_cumulativeWinMinor = cumulative, flat_mode = m, flat_awarded = awarded,
          flat_rows = rows, flat_ways = ways, flat_reel = a, flat_row = b, flat_level = level,
          flat_total = tot, flat_step = step, flat_fromMultiplier = from1,
          flat_toMultiplier = to1\<rparr>)))))))))))))))))))))))"

definition flatMode :: "FlatEvent \<Rightarrow> rgs_error + js" where
  "flatMode e = (if flat_mode e = ''NONE'' then deny ''mode cannot be NONE''
     else Inr (JString (flat_mode e)))"

definition translatedWheel :: "FlatEvent \<Rightarrow> rgs_error + js_object" where
  "translatedWheel e =
     (if flat_outcome e = ''INSTANT'' then
        bindE (rgsIdentifier (JString (flat_prize e))) (\<lambda>prize.
        bindE (positivePresentationInteger (JString (flat_multiplier e))) (\<lambda>m.
        Inr [(''outcome'', JString (flat_outcome e)), (''prize'', JString prize),
             (''multiplier'', JInt m), (''amountMinor'', JString (flat_amountMinor e))]))
      else if flat_outcome e = ''EXPANSION'' \<or> flat_outcome e = ''OVERDRIVE''
      then Inr [(''outcome'', JString (flat_outcome e))]
      else deny ''outcome is unsupported'')"

definition flatAddress :: "FlatEvent \<Rightarrow> js_object" where
  "flatAddress e = [(''reel'', JInt (flat_reel e)), (''row'', JInt (flat_row e))]"

definition translatedFields :: "EventType \<Rightarrow> FlatEvent \<Rightarrow> rgs_error + js_object" where
  "translatedFields t e = (case t of
       surge_collected \<Rightarrow> Inr [(''count'', JInt (flat_count e)), cellsField (flat_cells e),
         (''triggered'', JBool (flat_triggered e)), (''guaranteed'', JBool (flat_guaranteed e)),
         (''level'', JInt (flat_level e)), (''total'', JInt (flat_total e))]
     | rage_transformed \<Rightarrow> Inr [(''count'', JInt (flat_count e)), cellsField (flat_cells e),
         (''level'', JInt (flat_level e)), (''total'', JInt (flat_total e))]
     | wheel_started \<Rightarrow> Inr []
     | wheel_awarded \<Rightarrow> translatedWheel e
     | free_spins_started \<Rightarrow> bindE (flatMode e) (\<lambda>m.
         Inr [(''mode'', m), (''awarded'', JInt (flat_awarded e))])
     | grid_expanded \<Rightarrow> Inr [(''rows'', JInt (flat_rows e)), (''ways'', JInt (flat_ways e))]
     | vault_unlocked \<Rightarrow> bindE (rgsIdentifier (JString (flat_prize e))) (\<lambda>prize.
         if flat_multiplier e \<noteq> ''0'' then
           bindE (positivePresentationInteger (JString (flat_multiplier e))) (\<lambda>m.
           Inr (flatAddress e @ [(''prize'', JString prize), (''multiplier'', JInt m)]))
         else Inr (flatAddress e @ [(''prize'', JString prize)]))
     | vault_awarded \<Rightarrow> bindE (rgsIdentifier (JString (flat_prize e))) (\<lambda>prize.
         bindE (positivePresentationInteger (JString (flat_multiplier e))) (\<lambda>m.
         Inr (flatAddress e @ [(''prize'', JString prize), (''multiplier'', JInt m),
           (''amountMinor'', JString (flat_amountMinor e))])))
     | free_spin_awarded \<Rightarrow> Inr ((''count'', JInt (flat_count e)) # flatAddress e)
     | free_spin_cap_reached \<Rightarrow> Inr (flatAddress e)
     | win_cap_reached \<Rightarrow> bindE (positivePresentationInteger (JString (flat_multiplier e))) (\<lambda>m.
         Inr [(''multiplier'', JInt m), (''cumulativeWinMinor'', JString (flat_cumulativeWinMinor e))])
     | vaults_upgrade_started \<Rightarrow> Inr [(''count'', JInt (flat_count e)), (''step'', JInt (flat_step e))]
     | vault_upgraded \<Rightarrow> bindE (positivePresentationInteger (JString (flat_fromMultiplier e))) (\<lambda>f.
         bindE (positivePresentationInteger (JString (flat_toMultiplier e))) (\<lambda>t1.
         bindE (rgsIdentifier (JString (flat_prize e))) (\<lambda>prize.
         Inr (flatAddress e @ [(''fromMultiplier'', JInt f), (''toMultiplier'', JInt t1),
           (''prize'', JString prize), (''step'', JInt (flat_step e))]))))
     | free_spins_completed \<Rightarrow> bindE (flatMode e) (\<lambda>m.
         Inr [(''mode'', m), (''awarded'', JInt (flat_awarded e)),
              (''cumulativeWinMinor'', JString (flat_cumulativeWinMinor e))])
     | _ \<Rightarrow> Inr [(''count'', JInt (flat_count e)), cellsField (flat_cells e)])"

definition translatedEvent :: "js \<Rightarrow> rgs_error + js" where
  "translatedEvent v = bindE (flatEventOf v) (\<lambda>e.
     case type_of_name (flat_type e) of
       None \<Rightarrow> deny ''type is unsupported''
     | Some t \<Rightarrow> bindE (translatedFields t e) (\<lambda>fields.
         Inr (JObject ((''type'', JString (flat_type e)) # fields))))"

fun translatedEvents :: "js \<Rightarrow> rgs_error + js" where
  "translatedEvents (JArray vs) =
     (if 4096 < length vs then deny ''events must be an array with at most 4096 entries''
      else bindE (mapE translatedEvent vs) (\<lambda>es. Inr (JArray es)))"
| "translatedEvents _ = deny ''events must be an array with at most 4096 entries''"

section \<open>Spin, round status, pending delivery\<close>

definition spinKeys :: "string list" where
  "spinKeys = [''operatorId'', ''sessionId'', ''roundId'', ''gameId'', ''definitionVersion'',
     ''definitionHash'', ''currency'', ''roundKind'', ''serverTransactionId'', ''walletTransactionId'',
     ''startRevision'', ''endRevision'', ''resultHash'', ''idleDisconnectAt'', ''sequence'', ''betMinor'',
     ''chargedBetMinor'', ''balanceMinor'', ''totalWinMinor'', ''grid'', ''wins'', ''events'', ''feature'']"

text \<open>Translation of the response into a \<open>spin.result\<close> message, decoded by the shared decoder.\<close>

definition spinProjection :: "js_object \<Rightarrow> string \<Rightarrow> string \<Rightarrow> rgs_error + SpinResult" where
  "spinProjection d request sid =
     bindE (translatedGrid (getProp d ''grid'')) (\<lambda>g.
     bindE (translatedWins (getProp d ''wins'')) (\<lambda>ws.
     bindE (translatedEvents (getProp d ''events'')) (\<lambda>evs.
     bindE (rgsFeatureState (getProp d ''feature'')) (\<lambda>f.
     bindE (rgsIdentifier (getProp d ''roundId'')) (\<lambda>round1.
     bindE (sequenceOf (getProp d ''sequence'')) (\<lambda>seqno.
     bindE (rgsDecimal True (getProp d ''betMinor'')) (\<lambda>bet.
     bindE (rgsDecimal False (getProp d ''chargedBetMinor'')) (\<lambda>charged.
     bindE (rgsDecimal False (getProp d ''balanceMinor'')) (\<lambda>balance.
     bindE (rgsDecimal False (getProp d ''totalWinMinor'')) (\<lambda>totalWin.
     case decodeMessage (JObject [(''type'', JString ''spin.result''), (''protocolVersion'', JInt 1),
         (''requestId'', JString request), (''sessionId'', JString sid), (''roundId'', JString round1),
         (''sequence'', JInt seqno), (''betMinor'', JString bet), (''chargedBetMinor'', JString charged),
         (''balanceMinor'', JString balance), (''totalWinMinor'', JString totalWin), (''grid'', g),
         (''wins'', ws), (''events'', evs), (''featureState'', encodeFeatureState f)]) of
       Inl e \<Rightarrow> Inl (RgsDecodeError e)
     | Inr (Result r) \<Rightarrow> Inr r
     | Inr _ \<Rightarrow> deny ''invalid spin projection''))))))))))"

definition decodedSpinData ::
  "(string \<Rightarrow> int option) \<Rightarrow> js \<Rightarrow> string \<Rightarrow> rgs_error + RgsSpin" where
  "decodedSpinData Date_parse v request = bindE (rgsRecord v) (\<lambda>d.
     bindE (rgsExactKeys d spinKeys spinKeys) (\<lambda>_.
     bindE (rgsIdentifier (getProp d ''operatorId'')) (\<lambda>op1.
     bindE (rgsIdentifier (getProp d ''sessionId'')) (\<lambda>sid.
     bindE (rgsIdentifier (getProp d ''gameId'')) (\<lambda>game.
     bindE (rgsIdentifier (getProp d ''definitionVersion'')) (\<lambda>version.
     bindE (textOf (getProp d ''definitionHash'') 64 64) (\<lambda>hash.
     if \<not> DIGEST_PATTERN hash then deny ''definitionHash is invalid''
     else bindE (textOf (getProp d ''currency'') 3 3) (\<lambda>cur.
     if \<not> CURRENCY_PATTERN cur then deny ''currency is invalid''
     else bindE (textOf (getProp d ''roundKind'') 1 128) (\<lambda>kind.
     if kind \<notin> {''BASE'', ''FREE_SPIN'', ''BONUS''} then deny ''roundKind is unsupported''
     else bindE (spinProjection d request sid) (\<lambda>r.
     bindE (rgsIdentifier (getProp d ''serverTransactionId'')) (\<lambda>st.
     bindE (rgsIdentifier (getProp d ''walletTransactionId'')) (\<lambda>wt.
     bindE (revisionOf (getProp d ''startRevision'')) (\<lambda>startRev.
     bindE (revisionOf (getProp d ''endRevision'')) (\<lambda>endRev.
     bindE (textOf (getProp d ''resultHash'') 64 64) (\<lambda>rhash.
     if \<not> DIGEST_PATTERN rhash then deny ''resultHash is invalid''
     else bindE (textOf (getProp d ''idleDisconnectAt'') 20 64) (\<lambda>idle.
     if Date_parse idle = None then deny ''idleDisconnectAt must be an RFC3339 timestamp''
     else Inr \<lparr>spin_result = r, spin_operatorId = op1, spin_sessionId = sid, spin_gameId = game,
       spin_definitionVersion = version, spin_definitionHash = hash, spin_currency = cur,
       roundKind = kind, serverTransactionId = st, walletTransactionId = wt,
       startRevision = startRev, endRevision = endRev, resultHash = rhash,
       spin_idleDisconnectAt = idle\<rparr>))))))))))))))))"

definition decodeRgsSpin ::
  "(string \<Rightarrow> int option) \<Rightarrow> js \<Rightarrow> string \<Rightarrow> rgs_error + RgsSpin" where
  "decodeRgsSpin Date_parse v expectedRequestId =
     bindE (responseData v expectedRequestId) (\<lambda>dv. decodedSpinData Date_parse dv expectedRequestId)"

definition decodeRgsRoundStatus ::
  "(string \<Rightarrow> int option) \<Rightarrow> js \<Rightarrow> string \<Rightarrow> rgs_error + RgsRoundStatus" where
  "decodeRgsRoundStatus Date_parse v expectedRequestId =
     bindE (responseData v expectedRequestId) (\<lambda>dv.
     bindE (rgsRecord dv) (\<lambda>d.
     let required = [''operatorId'', ''sessionId'', ''roundId'', ''status''] in
     bindE (rgsExactKeys d (required @ [''result'']) required) (\<lambda>_.
     bindE (textOf (getProp d ''status'') 1 128) (\<lambda>status.
     if status \<notin> {''PREPARED'', ''WALLET_PENDING'', ''COMMITTED'', ''REJECTED'', ''MANUAL_REVIEW''}
     then deny ''status is unsupported''
     else if (status = ''COMMITTED'') \<noteq> hasOwn d ''result''
     then deny ''only COMMITTED round status may contain result''
     else bindE (rgsIdentifier (getProp d ''operatorId'')) (\<lambda>op1.
       bindE (rgsIdentifier (getProp d ''sessionId'')) (\<lambda>sid.
       bindE (rgsIdentifier (getProp d ''roundId'')) (\<lambda>round1.
       bindE (if status = ''COMMITTED''
              then bindE (decodedSpinData Date_parse (getProp d ''result'') expectedRequestId)
                (\<lambda>x. Inr (Some x))
              else Inr None) (\<lambda>r.
       Inr \<lparr>round_requestId = expectedRequestId, round_operatorId = op1, round_sessionId = sid,
         round_roundId = round1, round_status = status, round_result = r\<rparr>))))))))"

definition pendingKeys :: "string list" where
  "pendingKeys = [''operatorId'', ''sessionId'', ''roundId'', ''sequence'', ''resultHash'',
     ''originFeature'', ''result'']"

definition decodePendingResultDelivery ::
  "(string \<Rightarrow> int option) \<Rightarrow> js \<Rightarrow> string \<Rightarrow> rgs_error + PendingDelivery" where
  "decodePendingResultDelivery Date_parse v expectedRequestId =
     bindE (responseData v expectedRequestId) (\<lambda>dv.
     bindE (rgsRecord dv) (\<lambda>d.
     bindE (rgsExactKeys d pendingKeys pendingKeys) (\<lambda>_.
     bindE (rgsIdentifier (getProp d ''operatorId'')) (\<lambda>op1.
     bindE (rgsIdentifier (getProp d ''sessionId'')) (\<lambda>sid.
     bindE (rgsIdentifier (getProp d ''roundId'')) (\<lambda>round1.
     bindE (sequenceOf (getProp d ''sequence'')) (\<lambda>seqno.
     bindE (textOf (getProp d ''resultHash'') 64 64) (\<lambda>rhash.
     if \<not> DIGEST_PATTERN rhash then deny ''resultHash is invalid''
     else bindE (decodedSpinData Date_parse (getProp d ''result'') expectedRequestId) (\<lambda>r.
       if spin_operatorId r \<noteq> op1 \<or> spin_sessionId r \<noteq> sid
         \<or> roundId (spin_result r) \<noteq> round1 \<or> sequence (spin_result r) \<noteq> seqno
         \<or> resultHash r \<noteq> rhash
       then deny ''pending result delivery identity mismatch''
       else bindE (rgsFeatureState (getProp d ''originFeature'')) (\<lambda>f.
         Inr \<lparr>pending_requestId = expectedRequestId, pending_operatorId = op1, pending_sessionId = sid,
           pending_roundId = round1, pending_sequence = seqno, pending_resultHash = rhash,
           originFeatureState = f, pending_result = r\<rparr>))))))))))"

definition ackKeys :: "string list" where
  "ackKeys = [''operatorId'', ''sessionId'', ''roundId'', ''sequence'', ''resultHash'', ''acknowledgedAt'']"

definition decodeResultDeliveryAcknowledgement ::
  "(string \<Rightarrow> int option) \<Rightarrow> js \<Rightarrow> string \<Rightarrow> string \<Rightarrow> string \<Rightarrow> string \<Rightarrow> int \<Rightarrow> string
     \<Rightarrow> rgs_error + Acknowledgement" where
  "decodeResultDeliveryAcknowledgement Date_parse v expectedRequestId expectedOperatorId
     expectedSessionId expectedRoundId expectedSequence expectedResultHash =
     bindE (responseData v expectedRequestId) (\<lambda>dv.
     bindE (rgsRecord dv) (\<lambda>d.
     bindE (rgsExactKeys d ackKeys ackKeys) (\<lambda>_.
     bindE (rgsIdentifier (getProp d ''operatorId'')) (\<lambda>op1.
     bindE (rgsIdentifier (getProp d ''sessionId'')) (\<lambda>sid.
     bindE (rgsIdentifier (getProp d ''roundId'')) (\<lambda>round1.
     bindE (sequenceOf (getProp d ''sequence'')) (\<lambda>seqno.
     bindE (textOf (getProp d ''resultHash'') 64 64) (\<lambda>rhash.
     if \<not> DIGEST_PATTERN rhash then deny ''resultHash is invalid''
     else if op1 \<noteq> expectedOperatorId \<or> sid \<noteq> expectedSessionId \<or> round1 \<noteq> expectedRoundId
       \<or> seqno \<noteq> expectedSequence \<or> rhash \<noteq> expectedResultHash
     then deny ''result delivery acknowledgement identity mismatch''
     else bindE (textOf (getProp d ''acknowledgedAt'') 20 64) (\<lambda>at1.
       if Date_parse at1 = None then deny ''acknowledgedAt is invalid''
       else Inr \<lparr>ack_requestId = expectedRequestId, ack_operatorId = op1, ack_sessionId = sid,
         ack_roundId = round1, ack_sequence = seqno, ack_resultHash = rhash,
         acknowledgedAt = at1\<rparr>)))))))))"

definition decodeRgsError :: "js \<Rightarrow> string \<Rightarrow> rgs_error + RgsErrorBody" where
  "decodeRgsError v expectedRequestId = bindE (rgsRecord v) (\<lambda>d.
     bindE (rgsExactKeys d [''error'', ''requestId''] [''error'', ''requestId'']) (\<lambda>_.
     bindE (rgsIdentifier (getProp d ''requestId'')) (\<lambda>request.
     bindE (requireMatchingRequestId request expectedRequestId) (\<lambda>_.
     bindE (rgsRecord (getProp d ''error'')) (\<lambda>body.
     bindE (rgsExactKeys body [''code'', ''message''] [''code'', ''message'']) (\<lambda>_.
     bindE (textOf (getProp body ''code'') 2 128) (\<lambda>code1.
     if \<not> ERROR_CODE_PATTERN code1 then deny ''code is invalid''
     else bindE (textOf (getProp body ''message'') 1 256) (\<lambda>message.
       Inr \<lparr>rgs_error_requestId = request, rgs_error_code = code1,
            rgs_error_message = message\<rparr>))))))))"

definition parseRgsJson :: "(string \<Rightarrow> js option) \<Rightarrow> string \<Rightarrow> rgs_error + js" where
  "parseRgsJson JSON_parse textValue =
     (if textValue = [] \<or> 4194304 < length textValue
      then deny ''RGS response body is empty or exceeds 4 MiB''
      else case JSON_parse textValue of
        None \<Rightarrow> deny ''RGS response is not valid JSON''
      | Some v \<Rightarrow> Inr v)"

end
