(* ===== verification/Rgs_Facts.thy ===== *)
theory Rgs_Facts
  imports Rgs_Decoder
begin

text \<open>
  Facts about the RGS decoder: when its single-value decoders accept, the wire contract of
  its feature state and binding as instances of the codec locale, and what a decoded spin
  shares with the message it is translated into.
\<close>

section \<open>Single values\<close>

lemma rgsRecord_Inr [accept]: "rgsRecord v = Inr d \<longleftrightarrow> v = JObject d"
  by (cases v) auto

lemma rgsBoolean_Inr [accept]: "rgsBoolean v = Inr b \<longleftrightarrow> v = JBool b"
  by (cases v) auto

lemma textOf_Inr [accept]:
  "textOf v lo hi = Inr s \<longleftrightarrow> v = JString s \<and> lo \<le> length s \<and> length s \<le> hi"
  by (cases v) auto

lemma rgsIdentifier_Inr [accept]: "rgsIdentifier v = Inr s \<longleftrightarrow> v = JString s \<and> identifier_ok s"
  by (cases s) (auto simp: rgsIdentifier_def accept identifier_ok_def IDENTIFIER_PATTERN_def)

lemma rgsInteger_Inr [accept]: "rgsInteger v lo hi = Inr i \<longleftrightarrow> v = JInt i \<and> bounded lo hi i"
proof (cases v)
  case (JNumber n)
  then show ?thesis by (cases n) (auto simp: bounded_def)
qed simp_all

definition positive_money :: "string \<Rightarrow> bool" where
  "positive_money s = (money_ok s \<and> s \<noteq> ''0'')"

lemma positive_pattern: "POSITIVE_MONEY_PATTERN s \<longleftrightarrow> MONEY_PATTERN s \<and> s \<noteq> ''0''"
  by (auto simp: MONEY_PATTERN_def POSITIVE_MONEY_PATTERN_def split: list.splits)

lemma rgsDecimal_Inr [accept]:
  "rgsDecimal False v = Inr s \<longleftrightarrow> v = JString s \<and> money_ok s"
  "rgsDecimal True v = Inr s \<longleftrightarrow> v = JString s \<and> positive_money s"
  using canonical_nonempty [of s]
  by (auto simp: rgsDecimal_def accept money_ok_def positive_money_def positive_pattern
      Suc_le_eq)

lemma revisionOf_Inr [accept]: "revisionOf v = Inr s \<longleftrightarrow> v = JString s \<and> money_ok s"
  by (simp add: revisionOf_def accept)

lemma length_decimal: "n < 10 ^ Suc k \<Longrightarrow> length (decimal n) \<le> Suc k"
proof (induction k arbitrary: n)
  case 0
  then show ?case by (subst decimal.simps) simp
next
  case (Suc k)
  have "n div 10 < 10 ^ Suc k" using Suc.prems by (simp add: less_mult_imp_div_less mult.commute)
  from Suc.IH [OF this] show ?case by (subst decimal.simps) simp
qed

lemma safe_money: "safe_int i \<Longrightarrow> 0 \<le> i \<Longrightarrow> money_ok (toString i)"
proof -
  assume a: "safe_int i" "0 \<le> i"
  then have "canonical (toString i)" by (simp add: canonical_toString)
  moreover have "length (decimal (nat i)) \<le> 16"
    using length_decimal [of "nat i" 15] a by (simp add: safe_int_def MAX_SAFE_INTEGER_def)
  then have "length (toString i) \<le> 19" using a by (simp add: toString_def)
  ultimately show ?thesis
    using a by (simp add: money_ok_def safe_int_def MAX_SAFE_INTEGER_def MAX_SIGNED_INT64_def)
qed

lemma sequenceOf_Inr [accept]:
  "sequenceOf v = Inr i \<longleftrightarrow> (\<exists>s. v = JString s \<and> money_ok s \<and> i = BigInt s \<and> safe_int i)"
  by (auto simp: sequenceOf_def accept Let_def)

lemma sequence_text: "sequenceOf v = Inr i \<longleftrightarrow> v = JString (toString i) \<and> safe_int i \<and> 0 \<le> i"
  using safe_money [of i] by (auto simp: accept toString_BigInt money_ok_canonical BigInt_nonneg)

lemma presentation_Inr [accept]:
  "positivePresentationInteger v = Inr i \<longleftrightarrow>
     v = JString (toString i) \<and> 1 \<le> i \<and> i \<le> 1000000"
proof
  assume "positivePresentationInteger v = Inr i"
  then obtain s where s: "v = JString s" "positive_money s" "i = BigInt s" "i \<le> 1000000"
    by (auto simp: positivePresentationInteger_def accept Let_def)
  then have "canonical s" by (simp add: positive_money_def money_ok_def)
  with s have "0 < i" "toString i = s"
    using BigInt_nonneg [of s] BigInt_eq_zero [of s] toString_BigInt [of s]
    by (auto simp: positive_money_def)
  with s show "v = JString (toString i) \<and> 1 \<le> i \<and> i \<le> 1000000" by auto
next
  assume a: "v = JString (toString i) \<and> 1 \<le> i \<and> i \<le> 1000000"
  then have safe: "safe_int i" by (simp add: safe_int_def MAX_SAFE_INTEGER_def)
  have "toString i \<noteq> ''0''" using a BigInt_toString [of i] by (auto simp del: BigInt_toString)
  then show "positivePresentationInteger v = Inr i"
    using a safe safe_money [of i] by (simp add: positivePresentationInteger_def accept positive_money_def)
qed

lemma rgsExactKeys_subset:
  "set (Object_keys d) \<subseteq> set allowed \<Longrightarrow> \<forall>k \<in> set required. hasOwn d k \<Longrightarrow>
     rgsExactKeys d allowed required = Inr ()"
proof -
  assume "set (Object_keys d) \<subseteq> set allowed" "\<forall>k \<in> set required. hasOwn d k"
  then have "find (\<lambda>k. k \<notin> set allowed) (Object_keys d) = None"
    "find (\<lambda>k. \<not> hasOwn d k) required = None"
    by (auto simp: find_None_iff)
  then show ?thesis by (simp add: rgsExactKeys_def)
qed

lemma responseData_Inr [accept]:
  "responseData v r = Inr x \<longleftrightarrow> (\<exists>d. v = JObject d
     \<and> rgsExactKeys d [''data'', ''requestId''] [''data'', ''requestId''] = Inr ()
     \<and> getProp d ''requestId'' = JString r \<and> identifier_ok r \<and> x = getProp d ''data'')"
  by (auto simp: responseData_def envelope_def requireMatchingRequestId_def accept)

section \<open>Feature states\<close>

text \<open>
  What the RGS feature block means: no feature, or an active one with at least one spin
  left, a positive locked bet and the awarded count split into remaining and played.
\<close>

definition canonicalState :: "FeatureState \<Rightarrow> bool" where
  "canonicalState s =
     (bounded 1 1000000 (rageLevel s) \<and> bounded 0 1000000 (rageCollected s)
      \<and> (case (freeSpinsPlayed s, baseBetMinor s, freeSpinsWinMinor s) of
           (Some n, None, None) \<Rightarrow> mode s = BASE \<and> freeSpinsRemaining s = 0 \<and> n = 0
         | (Some n, Some bet, Some w) \<Rightarrow> mode s \<noteq> BASE \<and> 1 \<le> freeSpinsRemaining s \<and> 0 \<le> n
             \<and> freeSpinsRemaining s + n \<le> 1000000 \<and> positive_money bet \<and> money_ok w
         | _ \<Rightarrow> False))"

definition rgsModeName :: "FeatureMode \<Rightarrow> string" where
  "rgsModeName m = (if m = BASE then ''NONE'' else mode_name m)"

definition encodeRgsState :: "FeatureState \<Rightarrow> js" where
  "encodeRgsState s =
     (let money = (\<lambda>x. JString (case x of None \<Rightarrow> ''0'' | Some t \<Rightarrow> t));
          done = (case freeSpinsPlayed s of None \<Rightarrow> 0 | Some n \<Rightarrow> n) in
      JObject [(''mode'', JString (rgsModeName (mode s))),
        (''remaining'', JInt (freeSpinsRemaining s)),
        (''awarded'', JInt (freeSpinsRemaining s + done)),
        (''betMinor'', money (baseBetMinor s)), (''winMinor'', money (freeSpinsWinMinor s)),
        (''rageLevel'', JInt (rageLevel s)), (''rageCollected'', JInt (rageCollected s))])"

lemma rgsFeatureState_sound: "rgsFeatureState v = Inr s \<Longrightarrow> canonicalState s"
  unfolding rgsFeatureState_def
  by (elim accepted)
    (auto simp: accept canonicalState_def bounded_def positive_money_def split: if_splits)

lemma canonicalState_cases:
  assumes "canonicalState s"
  obtains (none) level collected where
      "s = \<lparr>mode = BASE, freeSpinsRemaining = 0, freeSpinsPlayed = Some 0, baseBetMinor = None,
        freeSpinsWinMinor = None, rageLevel = level, rageCollected = collected\<rparr>"
      "bounded 1 1000000 level" "bounded 0 1000000 collected"
  | (active) m remaining n bet w level collected where
      "s = \<lparr>mode = m, freeSpinsRemaining = remaining, freeSpinsPlayed = Some n,
        baseBetMinor = Some bet, freeSpinsWinMinor = Some w, rageLevel = level,
        rageCollected = collected\<rparr>"
      "bounded 1 1000000 level" "bounded 0 1000000 collected" "m \<noteq> BASE" "1 \<le> remaining" "0 \<le> n"
      "remaining + n \<le> 1000000" "positive_money bet" "money_ok w"
  using assms by (cases s) (auto simp: canonicalState_def split: option.splits)

lemma rgsFeatureState_complete:
  assumes "canonicalState s"
  shows "rgsFeatureState (encodeRgsState s) = Inr s"
  using assms
proof (cases rule: canonicalState_cases)
  case none
  then show ?thesis
    by (simp add: rgsFeatureState_def encodeRgsState_def rgsExactKeys_subset rgsFeatureKeys_def
        rgsModeName_def accept bounded_def safe_int_def MAX_SAFE_INTEGER_def rgsDecimal_Inr [THEN iffD2])
next
  case (active m remaining n bet w level collected)
  then show ?thesis
    by (cases m)
      (simp_all add: rgsFeatureState_def encodeRgsState_def rgsExactKeys_subset rgsFeatureKeys_def
        rgsModeName_def accept bounded_def safe_int_def MAX_SAFE_INTEGER_def positive_money_def
        rgsDecimal_Inr [THEN iffD2])
qed

interpretation rgs_feature: codec rgsFeatureState encodeRgsState canonicalState
  by unfold_locales (fact rgsFeatureState_sound rgsFeatureState_complete)+

lemma canonicalState_wf: "canonicalState s \<Longrightarrow> wf_featureState s"
  by (erule canonicalState_cases)
    (auto simp: wf_featureState_def bounded_def safe_int_def MAX_SAFE_INTEGER_def positive_money_def)

end
