(* ===== verification/Rgs_Wire.thy ===== *)
theory Rgs_Wire
  imports Rgs_Facts
begin

text \<open>
  The wire form of a spin on the RGS boundary: the flat events, the path awards with decimal
  multipliers and the committed metadata; the translation of \<open>rgsDecoder.ts\<close> maps it to
  the message form of the shared decoder. \<open>rgsDecoder.ts\<close> has no encoder; the encodings
  are the response shapes its decoders read.
\<close>

section \<open>Positions and the grid\<close>

definition small_address :: "CellAddress \<Rightarrow> bool" where
  "small_address p = (0 \<le> reel p \<and> reel p \<le> 2 \<and> 0 \<le> row p \<and> row p \<le> 7)"

lemma small_bounded: "0 \<le> lo \<Longrightarrow> hi \<le> 2147483647 \<Longrightarrow> bounded lo hi i \<longleftrightarrow> lo \<le> i \<and> i \<le> hi"
  by (auto simp: bounded_def safe_int_def MAX_SAFE_INTEGER_def)

lemma rgsInteger_of: "0 \<le> lo \<Longrightarrow> hi \<le> 2147483647 \<Longrightarrow> lo \<le> i \<Longrightarrow> i \<le> hi \<Longrightarrow> rgsInteger (JInt i) lo hi = Inr i"
  by (simp add: rgsInteger_Inr small_bounded del: rgsInteger.simps)

lemma rgs_values:
  "identifier_ok s \<Longrightarrow> rgsIdentifier (JString s) = Inr s"
  "money_ok s \<Longrightarrow> rgsDecimal False (JString s) = Inr s"
  "positive_money s \<Longrightarrow> rgsDecimal True (JString s) = Inr s"
  "1 \<le> i \<Longrightarrow> i \<le> 1000000 \<Longrightarrow> positivePresentationInteger (JString (toString i)) = Inr i"
  "0 \<le> i \<Longrightarrow> safe_int i \<Longrightarrow> sequenceOf (JString (toString i)) = Inr i"
  "lo \<le> length s \<Longrightarrow> length s \<le> hi \<Longrightarrow> textOf (JString s) lo hi = Inr s"
  "money_ok s \<Longrightarrow> revisionOf (JString s) = Inr s"
  by (simp_all add: accept sequence_text safe_money del: textOf.simps)

interpretation rgs_position: codec positionOf encodeAddress small_address
proof unfold_locales
  fix v x
  assume "positionOf v = Inr x"
  then show "small_address x"
    by (auto simp: positionOf_def accept small_address_def bounded_def)
next
  fix x
  assume "small_address x"
  then show "positionOf (encodeAddress x) = Inr x"
    by (simp add: positionOf_def encodeAddress_def rgsExactKeys_subset small_address_def rgsInteger_of
        del: rgsInteger.simps)
qed

lemma positions_sound:
  "positionsOf v lo hi = Inr cells \<Longrightarrow>
     list_all small_address cells \<and> lo \<le> length cells \<and> length cells \<le> hi"
  using rgs_position.list_sound [of _ cells]
  by (cases v) (auto split: if_splits dest: mapE_length)

lemma positions_complete:
  "list_all small_address cells \<Longrightarrow> lo \<le> length cells \<Longrightarrow> length cells \<le> hi \<Longrightarrow>
     positionsOf (JArray (map encodeAddress cells)) lo hi = Inr cells"
  by (simp add: rgs_position.list_complete)

lemma wf_grid_reels:
  assumes "wf_grid g" "cells \<in> set g"
  shows "3 \<le> length cells \<and> length cells \<le> 8 \<and> list_all wf_cell cells"
proof -
  obtain a b c where "g = [a, b, c]" using assms(1) by (auto simp: wf_grid_def three_list)
  then show ?thesis
    using assms by (auto simp: wf_grid_def wf_reel_def wf_gridCell_def list_all_iff)
qed

lemma cell_in_small:
  assumes "wf_grid g" "cellAt g p \<noteq> None"
  shows "small_address p"
proof -
  from assms(1) have "length g = 3" "\<forall>cells \<in> set g. length cells \<le> 8"
    using wf_grid_reels by (auto simp: wf_grid_def)
  moreover from assms(2) obtain c where "cellAt g p = Some c" by auto
  ultimately have "nat (reel p) < 3" "length (g ! nat (reel p)) \<le> 8" "0 \<le> reel p" "0 \<le> row p"
    "row p < int (length (g ! nat (reel p)))"
    by (auto simp: cellAt_Some)
  then show ?thesis by (simp add: small_address_def)
qed

lemma eventCells_small: "wf_grid g \<Longrightarrow> eventCells g lo hi cells \<Longrightarrow> list_all small_address cells"
  using cell_in_small by (auto simp: eventCells_def list_all_iff)

lemma small_count:
  assumes "list_all small_address cells" "distinct cells"
  shows "length cells \<le> 24"
proof -
  have "set cells \<subseteq> (\<lambda>(a, b). CellAddress a b) ` ({0..2} \<times> {0..7})"
  proof
    fix p
    assume "p \<in> set cells"
    with assms(1) show "p \<in> (\<lambda>(a, b). CellAddress a b) ` ({0..2} \<times> {0..7})"
      by (cases p) (force simp: list_all_iff small_address_def)
  qed
  then have "card (set cells) \<le> card ((\<lambda>(a, b). CellAddress a b) ` ({0..2::int} \<times> {0..7::int}))"
    by (intro card_mono) auto
  also have "\<dots> \<le> card ({0..2::int} \<times> {0..7::int})" by (intro card_image_le) auto
  also have "\<dots> = 24" by (simp add: card_cartesian_product)
  finally show ?thesis using assms(2) by (simp add: distinct_card)
qed

lemma symbol_identifier: "identifier_ok (symbol_name s)"
  by (cases s) (simp_all add: identifier_ok_def IDENTIFIER_PATTERN_def is_alnum_def is_identifier_char_def
      is_upper_def is_lower_def is_digit_def code_def)

lemma face_text: "f \<in> set LOCKED_VAULT_FACES \<Longrightarrow> 1 \<le> length f \<and> length f \<le> 128"
  by (auto simp: LOCKED_VAULT_FACES_def)

lemma translatedCell_complete:
  assumes "wf_cell c"
  shows "translatedCell (encodeCell c) = Inr (encodeCell c)"
proof (cases "lockedVaultFace c")
  case None
  then show ?thesis
    using assms
    by (cases "cell_multiplier c"; cases "cell_prize c")
      (simp_all add: translatedCell_def encodeCell_def rgsExactKeys_subset wf_cell_def rgs_values
        symbol_identifier decoding_optional accept rgsInteger_Inr [THEN iffD2]
        del: rgsInteger.simps bounded_million)
next
  case (Some f)
  then have "f \<in> set LOCKED_VAULT_FACES" "cell_symbol c = VAULT" "cell_multiplier c = None"
    "cell_prize c = None"
    using assms by (auto simp: wf_cell_def)
  then show ?thesis
    using Some face_text [of f] symbol_identifier [of VAULT]
    by (simp add: translatedCell_def encodeCell_def rgsExactKeys_subset rgs_values
        decoding_optional translatedFace_def del: textOf.simps)
qed

lemma translatedGrid_complete:
  assumes "wf_grid g"
  shows "translatedGrid (encodeGrid g) = Inr (encodeGrid g)"
proof -
  have c: "mapE translatedCell (map encodeCell cells) = Inr (map encodeCell cells)"
    if "cells \<in> set g" for cells
  proof -
    have "\<forall>cell \<in> set cells. wf_cell cell"
      using wf_grid_reels [OF assms that] by (simp add: list_all_iff)
    then have "mapE translatedCell (map encodeCell cells) = Inr ys \<longleftrightarrow> ys = map encodeCell cells" for ys
      by (induction cells arbitrary: ys) (auto simp: translatedCell_complete accept)
    then show ?thesis by blast
  qed
  have l: "3 \<le> length cells \<and> length cells \<le> 8" if "cells \<in> set g" for cells
    using wf_grid_reels [OF assms that] by simp
  have "length g = 3" using assms by (simp add: wf_grid_def)
  then obtain r1 r2 r3 where g: "g = [r1, r2, r3]" by (auto simp: three_list)
  show ?thesis
    using c [of r1] c [of r2] c [of r3] l [of r1] l [of r2] l [of r3]
    by (simp add: g encodeGrid_def not_less)
qed

section \<open>Wins\<close>

text \<open>A live win carries its path awards and a positive nominal amount.\<close>

definition live_win :: "grid \<Rightarrow> Win \<Rightarrow> bool" where
  "live_win g w = (wf_win g w \<and> win_pathAwards w \<noteq> None \<and> positive_money (win_nominalAmountMinor w))"

definition encodeRgsPath :: "PathAward \<Rightarrow> js" where
  "encodeRgsPath a = JObject [cellsField (path_cells a),
     (''multiplier'', JString (toString (path_multiplier a))),
     (''baseAmountMinor'', JString (path_baseAmountMinor a)),
     (''nominalAmountMinor'', JString (path_nominalAmountMinor a)),
     (''amountMinor'', JString (path_amountMinor a))]"

definition encodeRgsWin :: "Win \<Rightarrow> js" where
  "encodeRgsWin w = JObject (
     [(''id'', JString (win_id w)), (''symbol'', JString (symbol_name (win_symbol w)))]
     @ optProp ''ways'' JInt (win_ways w)
     @ [(''nominalAmountMinor'', JString (win_nominalAmountMinor w)),
        (''amountMinor'', JString (win_amountMinor w))]
     @ [cellsField (win_cells w)]
     @ optProp ''pathAwards'' (\<lambda>as. JArray (map encodeRgsPath as)) (win_pathAwards w)
     @ optProp ''multiplier'' (\<lambda>m. JString (toString m)) (win_multiplier w))"

lemma wf_path_small:
  assumes "wf_grid g" "wf_path g s a"
  shows "list_all small_address (path_cells a)" "length (path_cells a) = 3"
proof -
  have "holdsSymbol g t p \<Longrightarrow> small_address p" for t p
    using cell_in_small [OF assms(1), of p] by (auto simp: holdsSymbol_def split: option.splits)
  then show "list_all small_address (path_cells a)"
    using assms(2) by (auto simp: wf_path_def list_all_iff)
  show "length (path_cells a) = 3"
    using assms(2) by (auto simp: wf_path_def three_reels)
qed

lemma translatedPath_complete:
  assumes "wf_grid g" "wf_path g s a"
  shows "translatedPath (encodeRgsPath a) = Inr a"
proof -
  have m: "1 \<le> path_multiplier a" "path_multiplier a \<le> 1000000"
    using assms(2) by (auto simp: wf_path_def bounded_def)
  have money: "money_ok (path_baseAmountMinor a)" "money_ok (path_nominalAmountMinor a)"
    "money_ok (path_amountMinor a)" "BigInt (path_amountMinor a) \<le> BigInt (path_nominalAmountMinor a)"
    using assms(2) by (auto simp: wf_path_def)
  show ?thesis
    using m money wf_path_small [OF assms]
    by (simp add: translatedPath_def encodeRgsPath_def rgsExactKeys_subset rgsPathKeys_def rgs_values
        positions_complete not_less del: positionsOf.simps)
qed

lemma translatedWin_complete:
  assumes "wf_grid g" "live_win g w"
  shows "translatedWin (encodeRgsWin w) = Inr (encodeWin w)"
proof -
  obtain as where as: "win_pathAwards w = Some as" "win_ways w = Some (int (length as))"
    and wf: "wf_winBase g w" "wf_winPaths g w as" "positive_money (win_nominalAmountMinor w)"
    using assms(2) by (auto simp: live_win_def wf_win_def)
  have p: "mapE translatedPath (map encodeRgsPath as) = Inr as"
    using wf(2) translatedPath_complete [OF assms(1)]
    by (intro mapE_map) (auto simp: wf_winPaths_def paths_ok_def list_all_iff)
  have n: "bounded 1 512 (int (length as))" using wf(2) by (simp add: wf_winPaths_def)
  then have n': "as \<noteq> []" "1 \<le> length as" "length as \<le> 512" by (auto simp: bounded_def)
  have cells: "eventCells g 1 256 (win_cells w)" using wf(1) by (simp add: wf_winBase_def)
  then have s: "list_all small_address (win_cells w)" by (rule eventCells_small [OF assms(1)])
  moreover have "length (win_cells w) \<le> 24"
    using small_count [OF s] cells by (simp add: eventCells_def)
  ultimately have c: "positionsOf (JArray (map encodeAddress (win_cells w))) 1 24 = Inr (win_cells w)"
    using cells by (intro positions_complete) (simp_all add: eventCells_def)
  show ?thesis
    using wf as p c n n' rgsInteger_of [of 1 512 "int (length as)"]
    by (cases "win_multiplier w")
      (simp_all add: translatedWin_def encodeRgsWin_def encodeWin_def rgsExactKeys_subset rgsWinKeys_def
        rgs_values wf_winBase_def wf_winPaths_def symbol_identifier decoding_optional not_less comp_def
        del: rgsInteger.simps positionsOf.simps)
qed

lemma translatedWins_complete:
  assumes "wf_grid g" "list_all (live_win g) ws" "length ws \<le> 4096"
  shows "translatedWins (JArray (map encodeRgsWin ws)) = Inr (JArray (map encodeWin ws))"
proof -
  have "mapE translatedWin (map encodeRgsWin ws) = Inr (map encodeWin ws)"
    using assms(2) by (induction ws) (simp_all add: translatedWin_complete [OF assms(1)])
  then show ?thesis using assms(3) by simp
qed

section \<open>Events\<close>

definition encodeFlat :: "FlatEvent \<Rightarrow> js" where
  "encodeFlat e = JObject [(''type'', JString (flat_type e)), (''count'', JInt (flat_count e)),
     cellsField (flat_cells e), (''triggered'', JBool (flat_triggered e)),
     (''guaranteed'', JBool (flat_guaranteed e)), (''outcome'', JString (flat_outcome e)),
     (''prize'', JString (flat_prize e)), (''multiplier'', JString (flat_multiplier e)),
     (''amountMinor'', JString (flat_amountMinor e)),
     (''cumulativeWinMinor'', JString (flat_cumulativeWinMinor e)), (''mode'', JString (flat_mode e)),
     (''awarded'', JInt (flat_awarded e)), (''rows'', JInt (flat_rows e)), (''ways'', JInt (flat_ways e)),
     (''reel'', JInt (flat_reel e)), (''row'', JInt (flat_row e)), (''level'', JInt (flat_level e)),
     (''total'', JInt (flat_total e)), (''step'', JInt (flat_step e)),
     (''fromMultiplier'', JString (flat_fromMultiplier e)),
     (''toMultiplier'', JString (flat_toMultiplier e))]"

definition flat_ok :: "FlatEvent \<Rightarrow> bool" where
  "flat_ok e =
     (identifier_ok (flat_type e) \<and> bounded 0 1000000 (flat_count e)
      \<and> list_all small_address (flat_cells e) \<and> length (flat_cells e) \<le> 24
      \<and> length (flat_outcome e) \<le> 128 \<and> length (flat_prize e) \<le> 128
      \<and> money_ok (flat_multiplier e) \<and> money_ok (flat_amountMinor e)
      \<and> money_ok (flat_cumulativeWinMinor e)
      \<and> flat_mode e \<in> {''NONE'', ''EXPANSION'', ''OVERDRIVE''}
      \<and> bounded 0 1000000 (flat_awarded e) \<and> bounded 0 8 (flat_rows e)
      \<and> bounded 0 2147483647 (flat_ways e) \<and> bounded 0 2 (flat_reel e) \<and> bounded 0 7 (flat_row e)
      \<and> bounded 0 1000000 (flat_level e) \<and> bounded 0 1000000 (flat_total e)
      \<and> bounded 0 16 (flat_step e) \<and> money_ok (flat_fromMultiplier e) \<and> money_ok (flat_toMultiplier e))"

lemma flatEvent_sound:
  assumes "flatEventOf v = Inr e"
  shows "flat_ok e"
  using assms unfolding flatEventOf_def
  apply (elim accepted)
  apply (drule positions_sound)
  apply (simp add: accept flat_ok_def del: bounded_million)
  apply (elim conjE)
  apply hypsubst
  apply (simp del: bounded_million)
  done

lemma rgsInteger_bounded: "bounded lo hi i \<Longrightarrow> rgsInteger (JInt i) lo hi = Inr i"
  by (simp add: rgsInteger_Inr del: rgsInteger.simps)

lemma flatEvent_complete:
  assumes "flat_ok e"
  shows "flatEventOf (encodeFlat e) = Inr e"
proof -
  have m: "flat_mode e \<in> {''NONE'', ''EXPANSION'', ''OVERDRIVE''}" using assms by (simp add: flat_ok_def)
  then have "1 \<le> length (flat_mode e)" "length (flat_mode e) \<le> 128" by auto
  then show ?thesis
    using assms m
    by (simp add: flatEventOf_def encodeFlat_def rgsExactKeys_subset RGS_EVENT_KEYS_def flat_ok_def
        rgs_values positions_complete rgsInteger_bounded
        del: rgsInteger.simps positionsOf.simps textOf.simps bounded_million)
qed

interpretation flat: codec flatEventOf encodeFlat flat_ok
  by unfold_locales (fact flatEvent_sound flatEvent_complete)+

end
