(* ===== verification/Rgs_Events.thy ===== *)
theory Rgs_Events
  imports Rgs_Wire
begin

text \<open>
  The flat events of the RGS: every live event has a flat form, which the translation of
  \<open>rgsDecoder.ts\<close> maps to its message form.
\<close>

text \<open>An event with every field at its neutral value.\<close>

definition plainFlat :: "EventType \<Rightarrow> FlatEvent" where
  "plainFlat t = \<lparr>flat_type = type_name t, flat_count = 0, flat_cells = [], flat_triggered = False,
     flat_guaranteed = False, flat_outcome = [], flat_prize = [], flat_multiplier = ''0'',
     flat_amountMinor = ''0'', flat_cumulativeWinMinor = ''0'', flat_mode = ''NONE'', flat_awarded = 0,
     flat_rows = 0, flat_ways = 0, flat_reel = 0, flat_row = 0, flat_level = 0, flat_total = 0,
     flat_step = 0, flat_fromMultiplier = ''0'', flat_toMultiplier = ''0''\<rparr>"

definition flatAt :: "CellAddress \<Rightarrow> FlatEvent \<Rightarrow> FlatEvent" where
  "flatAt p e = e\<lparr>flat_reel := reel p, flat_row := row p\<rparr>"

definition textOr :: "string \<Rightarrow> string option \<Rightarrow> string" where
  "textOr d x = (case x of None \<Rightarrow> d | Some s \<Rightarrow> s)"

definition numberOr :: "int option \<Rightarrow> string" where
  "numberOr x = (case x of None \<Rightarrow> ''0'' | Some n \<Rightarrow> toString n)"

fun flatEvent :: "FeatureEvent \<Rightarrow> FlatEvent" where
  "flatEvent (SurgeCollected count cells triggered guaranteed level tot) =
     (plainFlat surge_collected)\<lparr>flat_count := count, flat_cells := cells, flat_triggered := triggered,
       flat_guaranteed := guaranteed, flat_level := level, flat_total := tot\<rparr>"
| "flatEvent (RageTransformed count cells level tot) =
     (plainFlat rage_transformed)\<lparr>flat_count := count, flat_cells := cells, flat_level := level,
       flat_total := tot\<rparr>"
| "flatEvent WheelStarted = plainFlat wheel_started"
| "flatEvent (WheelAwarded outcome prize mult amount) =
     (plainFlat wheel_awarded)\<lparr>flat_outcome := outcome, flat_prize := textOr [] prize,
       flat_multiplier := numberOr mult, flat_amountMinor := textOr ''0'' amount\<rparr>"
| "flatEvent (FreeSpinsStarted m awarded) =
     (plainFlat free_spins_started)\<lparr>flat_mode := mode_name m, flat_awarded := awarded\<rparr>"
| "flatEvent (GridExpanded rows ways) = (plainFlat grid_expanded)\<lparr>flat_rows := rows, flat_ways := ways\<rparr>"
| "flatEvent (VaultAwarded p m a prize) =
     flatAt p ((plainFlat vault_awarded)\<lparr>flat_prize := textOr [] prize, flat_multiplier := toString m,
       flat_amountMinor := a\<rparr>)"
| "flatEvent (VaultGroup t count cells) = (plainFlat t)\<lparr>flat_count := count, flat_cells := cells\<rparr>"
| "flatEvent (VaultUnlocked p prize m) =
     flatAt p ((plainFlat vault_unlocked)\<lparr>flat_prize := prize, flat_multiplier := numberOr m\<rparr>)"
| "flatEvent (FreeSpinAwarded count p) =
     (case p of None \<Rightarrow> (plainFlat free_spin_awarded)\<lparr>flat_count := count\<rparr>
      | Some q \<Rightarrow> flatAt q ((plainFlat free_spin_awarded)\<lparr>flat_count := count\<rparr>))"
| "flatEvent (VaultUpgraded p f t prize step) =
     flatAt p ((plainFlat vault_upgraded)\<lparr>flat_fromMultiplier := toString f,
       flat_toMultiplier := toString t, flat_prize := prize, flat_step := step\<rparr>)"
| "flatEvent (VaultUpgradeStarted count step) =
     (plainFlat vaults_upgrade_started)\<lparr>flat_count := count, flat_step := step\<rparr>"
| "flatEvent (FreeSpinCapReached p) = flatAt p (plainFlat free_spin_cap_reached)"
| "flatEvent (WinCapReached m cumulative) =
     (plainFlat win_cap_reached)\<lparr>flat_multiplier := toString m, flat_cumulativeWinMinor := cumulative\<rparr>"
| "flatEvent (FreeSpinsCompleted m awarded cumulative) =
     (plainFlat free_spins_completed)\<lparr>flat_mode := mode_name m, flat_awarded := awarded,
       flat_cumulativeWinMinor := cumulative\<rparr>"

text \<open>
  The events the server can express: no alias on a feature outcome, a prize on every award,
  an address on every extra spin, at most eight rows.
\<close>

fun expressible :: "FeatureEvent \<Rightarrow> bool" where
  "expressible (WheelAwarded outcome prize m a) = (outcome = ''INSTANT'' \<or> prize = None)"
| "expressible (VaultAwarded p m a prize) = (prize \<noteq> None)"
| "expressible (FreeSpinAwarded count p) = (p \<noteq> None)"
| "expressible (GridExpanded rows ways) = (rows \<le> 8)"
| "expressible _ = True"

definition live_event :: "grid \<Rightarrow> FeatureEvent \<Rightarrow> bool" where
  "live_event g e = (wf_event g e \<and> expressible e)"

section \<open>Flat forms are accepted\<close>

lemma type_identifier: "identifier_ok (type_name t)"
  by (cases t) (simp_all add: identifier_ok_def IDENTIFIER_PATTERN_def is_alnum_def is_identifier_char_def
      is_upper_def is_lower_def is_digit_def code_def)

lemma bounded_weaken: "bounded lo hi i \<Longrightarrow> lo' \<le> lo \<Longrightarrow> hi \<le> hi' \<Longrightarrow> bounded lo' hi' i"
  by (auto simp: bounded_def)

lemma plain_ok: "flat_ok (plainFlat t)"
  by (simp add: flat_ok_def plainFlat_def type_identifier small_bounded)

lemma vault_small:
  assumes "wf_grid g" "vaultAddress g p"
  shows "bounded 0 2 (reel p) \<and> bounded 0 7 (row p)"
  using assms cell_in_small [OF assms(1), of p]
  by (auto simp: vaultAddress_def holdsSymbol_def small_address_def small_bounded split: option.splits)

lemma surge_event_cells: "surgeCells g cells \<Longrightarrow> eventCells g 1 3 cells"
  by (simp add: surgeCells_def)

lemma vault_event_cells: "vaultCells g lo hi cells \<Longrightarrow> eventCells g lo hi cells"
  by (simp add: vaultCells_def)

lemma cells_ok:
  "wf_grid g \<Longrightarrow> eventCells g lo hi cells \<Longrightarrow> list_all small_address cells \<and> length cells \<le> 24"
  using eventCells_small small_count by (auto simp: eventCells_def)

lemma number_money: "bounded 0 1000000 i \<Longrightarrow> money_ok (toString i)"
  by (auto simp: bounded_def safe_money)

lemma identifier_length: "identifier_ok s \<Longrightarrow> length s \<le> 128"
  by (simp add: identifier_ok_def)

lemma tier_money: "map_of WHEEL_INSTANT_MULTIPLIER_BY_TIER t = Some m \<Longrightarrow> money_ok (toString m)"
  using tier_identifier [of t m] number_money [of m] by (auto simp: bounded_def)

lemma flat_event_ok:
  assumes "wf_grid g" "live_event g e"
  shows "flat_ok (flatEvent e)"
proof (cases e)
  case (SurgeCollected count cells triggered guaranteed level tot)
  then show ?thesis
    using assms plain_ok [of surge_collected] cells_ok [OF assms(1) surge_event_cells, of cells]
    by (auto simp: live_event_def flat_ok_def plainFlat_def small_bounded)
next
  case (RageTransformed count cells level tot)
  then show ?thesis
    using assms plain_ok [of rage_transformed] cells_ok [OF assms(1), of 1 24 cells]
    by (auto simp: live_event_def flat_ok_def plainFlat_def small_bounded)
next
  case (VaultGroup t count cells)
  then show ?thesis
    using assms plain_ok [of t] cells_ok [OF assms(1) vault_event_cells, of 1 8 cells]
    by (auto simp: live_event_def flat_ok_def plainFlat_def small_bounded)
next
  case (WheelAwarded outcome prize mult amount)
  then show ?thesis
    using assms plain_ok [of wheel_awarded] tier_identifier tier_money
    by (auto simp: live_event_def flat_ok_def plainFlat_def textOr_def numberOr_def identifier_length
        small_bounded)
next
  case (FreeSpinsStarted m awarded)
  then show ?thesis
    using assms plain_ok [of free_spins_started]
    by (cases m) (auto simp: live_event_def flat_ok_def plainFlat_def small_bounded)
next
  case (FreeSpinsCompleted m awarded cumulative)
  then show ?thesis
    using assms plain_ok [of free_spins_completed]
    by (cases m) (auto simp: live_event_def flat_ok_def plainFlat_def small_bounded)
next
  case (GridExpanded rows ways)
  then show ?thesis
    using assms plain_ok [of grid_expanded]
    by (auto simp: live_event_def flat_ok_def plainFlat_def small_bounded)
next
  case (VaultAwarded p m a prize)
  then show ?thesis
    using assms plain_ok [of vault_awarded] vault_small [OF assms(1), of p]
    by (auto simp: live_event_def flat_ok_def flatAt_def plainFlat_def textOr_def
        identifier_length number_money small_bounded)
next
  case (VaultUnlocked p prize m)
  then show ?thesis
    using assms plain_ok [of vault_unlocked] vault_small [OF assms(1), of p]
    by (auto simp: live_event_def flat_ok_def flatAt_def plainFlat_def numberOr_def
        identifier_length number_money small_bounded split: option.splits)
next
  case (FreeSpinAwarded count p)
  then show ?thesis
    using assms plain_ok [of free_spin_awarded] vault_small [OF assms(1), of "the p"]
    by (auto simp: live_event_def flat_ok_def flatAt_def plainFlat_def small_bounded)
next
  case (VaultUpgraded p f t prize step)
  then show ?thesis
    using assms plain_ok [of vault_upgraded] vault_small [OF assms(1), of p]
    by (auto simp: live_event_def flat_ok_def flatAt_def plainFlat_def
        identifier_length number_money small_bounded)
next
  case (VaultUpgradeStarted count step)
  then show ?thesis
    using assms plain_ok [of vaults_upgrade_started]
    by (auto simp: live_event_def flat_ok_def plainFlat_def small_bounded)
next
  case (FreeSpinCapReached p)
  then show ?thesis
    using assms plain_ok [of free_spin_cap_reached] vault_small [OF assms(1), of p]
    by (simp add: live_event_def flat_ok_def flatAt_def plainFlat_def)
next
  case (WinCapReached m cumulative)
  then show ?thesis
    using assms plain_ok [of win_cap_reached]
    by (auto simp: live_event_def flat_ok_def plainFlat_def number_money small_bounded)
qed (simp add: plain_ok)

section \<open>Translation\<close>

lemma toString_zero: "toString m = ''0'' \<longleftrightarrow> m = 0"
proof
  assume "toString m = ''0''"
  then have "BigInt (toString m) = BigInt ''0''" by simp
  then show "m = 0" by (simp only: BigInt_toString BigInt_zero)
qed (simp add: toString_def)

lemma number_text: "million m \<Longrightarrow> positivePresentationInteger (JString (toString m)) = Inr m"
  using rgs_values(4) [of m] by (simp add: bounded_def)

lemma flatAt_fields [simp]:
  "flat_type (flatAt p e) = flat_type e" "flat_prize (flatAt p e) = flat_prize e"
  "flat_multiplier (flatAt p e) = flat_multiplier e" "flat_amountMinor (flatAt p e) = flat_amountMinor e"
  "flat_count (flatAt p e) = flat_count e" "flat_step (flatAt p e) = flat_step e"
  "flat_fromMultiplier (flatAt p e) = flat_fromMultiplier e"
  "flat_toMultiplier (flatAt p e) = flat_toMultiplier e"
  "flatAddress (flatAt p e) = addressFields p"
  by (simp_all add: flatAt_def flatAddress_def)

lemma plainFlat_type [simp]: "flat_type (plainFlat t) = type_name t"
  by (simp add: plainFlat_def)

lemma flat_event_type [simp]: "flat_type (flatEvent e) = type_name (type_of e)"
  by (cases e) (simp_all split: option.split)

lemma translatedFields_complete:
  assumes "live_event g e"
  shows "translatedFields (type_of e) (flatEvent e) = Inr (eventFields e)"
proof (cases e)
  case (WheelAwarded outcome prize mult amount)
  show ?thesis
  proof (cases "outcome = ''INSTANT''")
    case True
    then obtain tier m a where i: "prize = Some tier" "mult = Some m" "amount = Some a"
      "map_of WHEEL_INSTANT_MULTIPLIER_BY_TIER tier = Some m"
      using assms WheelAwarded by (auto simp: live_event_def)
    then show ?thesis
      using WheelAwarded True tier_identifier [OF i(4)]
      by (simp add: translatedFields_def translatedWheel_def textOr_def numberOr_def rgs_values(1)
          number_text del: bounded_million)
  next
    case False
    then have "outcome = ''EXPANSION'' \<or> outcome = ''OVERDRIVE''" "prize = None" "mult = None" "amount = None"
      using assms WheelAwarded by (simp_all add: live_event_def, blast+)
    then show ?thesis
      using WheelAwarded False by (simp add: translatedFields_def translatedWheel_def)
  qed
next
  case (FreeSpinsStarted m awarded)
  then show ?thesis
    using assms by (cases m) (auto simp: live_event_def translatedFields_def flatMode_def)
next
  case (FreeSpinsCompleted m awarded cumulative)
  then show ?thesis
    using assms by (cases m) (auto simp: live_event_def translatedFields_def flatMode_def)
next
  case (VaultAwarded p m a prize)
  then show ?thesis
    using assms
    by (auto simp: live_event_def translatedFields_def textOr_def rgs_values(1) number_text
        simp del: bounded_million)
next
  case (VaultUnlocked p prize m)
  then show ?thesis
    using assms number_text toString_zero
    by (cases m)
      (simp_all add: live_event_def translatedFields_def numberOr_def rgs_values(1) toString_zero
        bounded_def)
next
  case (VaultUpgraded p f t prize step)
  then show ?thesis
    using assms
    by (auto simp: live_event_def translatedFields_def rgs_values(1) number_text simp del: bounded_million)
next
  case (WinCapReached m cumulative)
  then show ?thesis
    using assms by (auto simp: live_event_def translatedFields_def rgs_values(4))
next
  case (VaultGroup t count cells)
  then show ?thesis
    using assms by (auto simp: live_event_def translatedFields_def vault_group_types_def)
next
  case (FreeSpinAwarded count p)
  then show ?thesis
    using assms by (auto simp: live_event_def translatedFields_def)
qed (use assms in \<open>simp_all add: live_event_def translatedFields_def\<close>)

lemma translatedEvent_complete:
  assumes "wf_grid g" "live_event g e"
  shows "translatedEvent (encodeFlat (flatEvent e)) = Inr (encodeEvent e)"
  using flat.complete [OF flat_event_ok [OF assms]] translatedFields_complete [OF assms(2)]
  by (simp add: translatedEvent_def encodeEvent_def)

lemma translatedEvents_complete:
  assumes "wf_grid g" "list_all (live_event g) evs" "length evs \<le> 4096"
  shows "translatedEvents (JArray (map (encodeFlat \<circ> flatEvent) evs)) = Inr (JArray (map encodeEvent evs))"
proof -
  have "mapE translatedEvent (map (encodeFlat \<circ> flatEvent) evs) = Inr (map encodeEvent evs)"
    using assms(2) by (induction evs) (simp_all add: translatedEvent_complete [OF assms(1)])
  then show ?thesis using assms(3) by simp
qed

end
