(* ===== verification/Rgs_Spin.thy ===== *)
theory Rgs_Spin
  imports Rgs_Events
begin

text \<open>
  The wire contract of a committed spin on the RGS boundary, as an instance of the codec
  locale: the translation followed by the shared decoder returns exactly the live spins.
\<close>

section \<open>What a decoded part carries\<close>

lemma mapE_twice:
  assumes "mapE f vs = Inr xs" "mapE h xs = Inr ys" "\<And>v x y. f v = Inr x \<Longrightarrow> h x = Inr y \<Longrightarrow> P y"
  shows "length ys = length vs \<and> list_all P ys"
  using assms(1,2)
proof (induction vs arbitrary: xs ys)
  case Nil
  then show ?case by simp
next
  case (Cons v vs)
  then obtain x xs' y ys' where "f v = Inr x" "mapE f vs = Inr xs'" "h x = Inr y" "mapE h xs' = Inr ys'"
    "ys = y # ys'"
    by (auto simp: accept)
  then show ?case using Cons.IH assms(3) by simp
qed

lemma translatedWin_shape:
  assumes "translatedWin v = Inr j"
  shows "\<exists>i symbol ways nominal amount cells paths mult. positive_money nominal \<and>
    j = JObject ([(''id'', JString i), (''symbol'', JString symbol), (''ways'', JInt ways),
         (''nominalAmountMinor'', JString nominal), (''amountMinor'', JString amount),
         cellsField cells, (''pathAwards'', JArray (map encodePath paths))]
         @ optProp ''multiplier'' JInt mult)"
  using assms unfolding translatedWin_def
  apply (elim accepted)
  apply (simp only: rgsDecimal_Inr sum.inject)
  apply blast
  done

lemma winOf_fields:
  assumes "winOf g v = Inr w" "v = JObject d" "getProp d ''nominalAmountMinor'' = JString nominal"
    "getProp d ''ways'' \<noteq> JUndefined"
  shows "win_nominalAmountMinor w = nominal \<and> win_pathAwards w \<noteq> None"
  using assms unfolding winOf_def winWithPaths_def Let_def
  by (elim accepted) (auto simp: accept optionalOf_Inr split: option.splits)

lemma translatedWin_live:
  assumes "translatedWin v = Inr j" "winOf g j = Inr w"
  shows "live_win g w"
proof -
  obtain i symbol ways nominal amount cells paths mult where p: "positive_money nominal"
    and j: "j = JObject ([(''id'', JString i), (''symbol'', JString symbol), (''ways'', JInt ways),
         (''nominalAmountMinor'', JString nominal), (''amountMinor'', JString amount),
         cellsField cells, (''pathAwards'', JArray (map encodePath paths))]
         @ optProp ''multiplier'' JInt mult)"
    using translatedWin_shape [OF assms(1)] by blast
  have "win_nominalAmountMinor w = nominal \<and> win_pathAwards w \<noteq> None"
    by (rule winOf_fields [OF assms(2) j]) simp_all
  then show ?thesis
    using p win_sound [OF assms(2)] by (simp add: live_win_def)
qed

lemma translatedWins_live:
  assumes "translatedWins v = Inr j" "winsOf g j = Inr ws"
  shows "length ws \<le> 4096 \<and> list_all (live_win g) ws"
proof -
  obtain vs js where v: "\<not> 4096 < length vs" "mapE translatedWin vs = Inr js" "j = JArray js"
    using assms(1) by (cases v) (auto simp: accept)
  then have w: "mapE (winOf g) js = Inr ws" using assms(2) by (auto simp: accept)
  show ?thesis using v(1) mapE_twice [OF v(2) w, of "live_win g"] translatedWin_live by auto
qed

lemma expressible_other:
  "type_of e \<notin> {wheel_awarded, vault_awarded, free_spin_awarded, grid_expanded} \<Longrightarrow> expressible e"
  by (cases e) simp_all

lemma eventBody_type: "eventBodyOf t d g = Inr e \<Longrightarrow> type_of e = t"
  apply (cases t; simp add: eventBodyOf_def)
  apply (unfold surgeCollectedOf_def rageTransformedOf_def wheelAwardedOf_def instantAwardOf_def
      freeSpinsStartedOf_def gridExpandedOf_def vaultGroupOf_def vaultUnlockedOf_def
      vaultAwardedOf_def freeSpinAwardedOf_def freeSpinCapReachedOf_def winCapReachedOf_def
      vaultUpgradeStartedOf_def vaultUpgradedOf_def freeSpinsCompletedOf_def Let_def)
  apply (elim accepted; force simp: bindE_def split: if_splits sum.splits)+
  done

lemma translatedWheel_shape:
  "translatedWheel f = Inr flds \<Longrightarrow>
     getProp flds ''outcome'' = JString ''INSTANT'' \<or> \<not> hasOwn flds ''prize''"
  unfolding translatedWheel_def
  by (cases "flat_outcome f = ''INSTANT''") (auto simp: accept split: if_splits)

lemma body_expressible:
  "wheelAwardedOf d = Inr e \<Longrightarrow>
     getProp d ''outcome'' = JString ''INSTANT'' \<or> \<not> hasOwn d ''prize'' \<Longrightarrow> expressible e"
  "vaultAwardedOf d g = Inr e \<Longrightarrow> getProp d ''prize'' \<noteq> JUndefined \<Longrightarrow> expressible e"
  "freeSpinAwardedOf d g = Inr e \<Longrightarrow> getProp d ''reel'' \<noteq> JUndefined \<Longrightarrow> expressible e"
  "gridExpandedOf d = Inr e \<Longrightarrow> getProp d ''rows'' = JInt n \<Longrightarrow> n \<le> 8 \<Longrightarrow> expressible e"
  subgoal unfolding wheelAwardedOf_def instantAwardOf_def Let_def
    by (elim accepted) (auto simp: accept split: if_splits)
  subgoal unfolding vaultAwardedOf_def
    by (elim accepted) (auto simp: optionalOf_Inr split: option.splits)
  subgoal unfolding freeSpinAwardedOf_def
    by (elim accepted) (auto simp: accept)
  subgoal unfolding gridExpandedOf_def
    by (elim accepted) (auto simp: accept)
  done

lemma translatedFields_expressible:
  assumes "translatedFields t f = Inr flds" "flat_ok f"
    "eventBodyOf t ((''type'', x) # flds) g = Inr e"
  shows "expressible e"
proof (cases "t \<in> {wheel_awarded, vault_awarded, free_spin_awarded, grid_expanded}")
  case False
  then show ?thesis using eventBody_type [OF assms(3)] expressible_other by metis
next
  case True
  then consider "t = wheel_awarded" | "t = vault_awarded" | "t = free_spin_awarded" | "t = grid_expanded"
    by auto
  then show ?thesis
  proof cases
    case 1
    then show ?thesis
      using assms(1,3) body_expressible(1) [of "(''type'', x) # flds" e] translatedWheel_shape [of f flds]
      by (simp add: translatedFields_def eventBodyOf_def)
  next
    case 2
    then have "getProp flds ''prize'' \<noteq> JUndefined"
      using assms(1) unfolding translatedFields_def
      by simp (elim accepted, auto simp: flatAddress_def)
    then show ?thesis
      using assms(3) 2 body_expressible(2) [of "(''type'', x) # flds" g e] by (simp add: eventBodyOf_def)
  next
    case 3
    then show ?thesis
      using assms(1,3) body_expressible(3) [of "(''type'', x) # flds" g e]
      by (auto simp: translatedFields_def eventBodyOf_def flatAddress_def)
  next
    case 4
    then have "getProp flds ''rows'' = JInt (flat_rows f)" "flat_rows f \<le> 8"
      using assms(1,2) by (auto simp: translatedFields_def flat_ok_def bounded_def)
    then show ?thesis
      using assms(3) 4 body_expressible(4) [of "(''type'', x) # flds" e] by (simp add: eventBodyOf_def)
  qed
qed

lemma translatedEvent_live:
  assumes "translatedEvent v = Inr j" "featureEventOf g j = Inr e"
  shows "live_event g e"
proof -
  obtain f t flds where f: "flatEventOf v = Inr f" "type_of_name (flat_type f) = Some t"
    "translatedFields t f = Inr flds" "j = JObject ((''type'', JString (flat_type f)) # flds)"
    using assms(1) by (auto simp: translatedEvent_def accept split: option.splits)
  then have "eventBodyOf t ((''type'', JString (flat_type f)) # flds) g = Inr e"
    using assms(2) by (simp add: featureEventOf_def accept)
  then have "expressible e"
    using translatedFields_expressible [OF f(3) flatEvent_sound [OF f(1)]] by blast
  then show ?thesis using event_sound [OF assms(2)] by (simp add: live_event_def)
qed

lemma translatedEvents_live:
  assumes "translatedEvents v = Inr j" "eventsOf j g = Inr evs"
  shows "length evs \<le> 4096 \<and> list_all (live_event g) evs"
proof -
  obtain vs js where v: "\<not> 4096 < length vs" "mapE translatedEvent vs = Inr js" "j = JArray js"
    using assms(1) by (cases v) (auto simp: accept)
  then have w: "mapE (featureEventOf g) js = Inr evs" using assms(2) by (auto simp: accept)
  show ?thesis using v(1) mapE_twice [OF v(2) w, of "live_event g"] translatedEvent_live by auto
qed

section \<open>Live results and spins\<close>

definition live_result :: "SpinResult \<Rightarrow> bool" where
  "live_result r =
     (wf_result r \<and> positive_money (betMinor r)
      \<and> length (wins r) \<le> 4096 \<and> list_all (live_win (result_grid r)) (wins r)
      \<and> length (events r) \<le> 4096 \<and> list_all (live_event (result_grid r)) (events r)
      \<and> canonicalState (featureState r))"

definition rgsResultFields :: "SpinResult \<Rightarrow> js_object" where
  "rgsResultFields r = [(''roundId'', JString (roundId r)), (''sequence'', JString (toString (sequence r))),
     (''betMinor'', JString (betMinor r)), (''chargedBetMinor'', JString (chargedBetMinor r)),
     (''balanceMinor'', JString (balanceMinor r)), (''totalWinMinor'', JString (totalWinMinor r)),
     (''grid'', encodeGrid (result_grid r)), (''wins'', JArray (map encodeRgsWin (wins r))),
     (''events'', JArray (map (encodeFlat \<circ> flatEvent) (events r))),
     (''feature'', encodeRgsState (featureState r))]"

lemma decodeSpinResult_parts:
  assumes "decodeSpinResult d = Inr r"
  shows "winsOf (result_grid r) (getProp d ''wins'') = Inr (wins r)
    \<and> eventsOf (getProp d ''events'') (result_grid r) = Inr (events r)
    \<and> featureStateOf (getProp d ''featureState'') = Inr (featureState r)
    \<and> money (getProp d ''betMinor'') = Inr (betMinor r)
    \<and> identifierOf (getProp d ''requestId'') = Inr (requestId r)
    \<and> identifierOf (getProp d ''sessionId'') = Inr (sessionId r)"
  using assms unfolding decodeSpinResult_def
  apply (elim accepted)
  apply (simp only: sum.inject)
  apply hypsubst
  apply simp
  done

definition projectionFields ::
  "string \<Rightarrow> string \<Rightarrow> string \<Rightarrow> int \<Rightarrow> string \<Rightarrow> string \<Rightarrow> string \<Rightarrow> string \<Rightarrow> js \<Rightarrow> js \<Rightarrow> js
     \<Rightarrow> FeatureState \<Rightarrow> js_object" where
  "projectionFields request sid round1 n bet charged balance totalWin g ws evs f =
     [(''type'', JString ''spin.result''), (''protocolVersion'', JInt 1),
      (''requestId'', JString request), (''sessionId'', JString sid), (''roundId'', JString round1),
      (''sequence'', JInt n), (''betMinor'', JString bet), (''chargedBetMinor'', JString charged),
      (''balanceMinor'', JString balance), (''totalWinMinor'', JString totalWin), (''grid'', g),
      (''wins'', ws), (''events'', evs), (''featureState'', encodeFeatureState f)]"

lemma result_case_Inr:
  "(case m of Inl e \<Rightarrow> Inl (RgsDecodeError e) | Inr (Result r) \<Rightarrow> Inr r
     | Inr _ \<Rightarrow> deny ''invalid spin projection'') = Inr x \<longleftrightarrow> m = Inr (Result x)"
  by (auto split: sum.splits ServerMessage.splits)

lemma spinProjection_Inr:
  "spinProjection d request sid = Inr r \<longleftrightarrow>
     (\<exists>g ws evs f round1 n bet charged balance totalWin.
        translatedGrid (getProp d ''grid'') = Inr g
        \<and> translatedWins (getProp d ''wins'') = Inr ws
        \<and> translatedEvents (getProp d ''events'') = Inr evs
        \<and> rgsFeatureState (getProp d ''feature'') = Inr f
        \<and> rgsIdentifier (getProp d ''roundId'') = Inr round1
        \<and> sequenceOf (getProp d ''sequence'') = Inr n
        \<and> rgsDecimal True (getProp d ''betMinor'') = Inr bet
        \<and> rgsDecimal False (getProp d ''chargedBetMinor'') = Inr charged
        \<and> rgsDecimal False (getProp d ''balanceMinor'') = Inr balance
        \<and> rgsDecimal False (getProp d ''totalWinMinor'') = Inr totalWin
        \<and> decodeMessage (JObject (projectionFields request sid round1 n bet charged balance totalWin
             g ws evs f)) = Inr (Result r))"
  unfolding spinProjection_def projectionFields_def bindE_Inr result_case_Inr by blast

lemma projection_decode:
  "decodeMessage (JObject (projectionFields request sid round1 n bet charged balance totalWin g ws evs f))
      = Inr (Result r) \<longleftrightarrow>
   decodeSpinResult (projectionFields request sid round1 n bet charged balance totalWin g ws evs f) = Inr r"
proof -
  have "getProp (projectionFields request sid round1 n bet charged balance totalWin g ws evs f) ''type''
      = JString ''spin.result''"
    by (simp add: projectionFields_def)
  then show ?thesis by (simp add: decodeMessage_def accept)
qed

lemma spinProjection_sound:
  assumes "spinProjection d request sid = Inr r"
  shows "live_result r \<and> requestId r = request \<and> sessionId r = sid"
proof -
  obtain g ws evs f round1 n bet charged balance totalWin
    where t: "translatedWins (getProp d ''wins'') = Inr ws" "translatedEvents (getProp d ''events'') = Inr evs"
      "rgsFeatureState (getProp d ''feature'') = Inr f" "rgsDecimal True (getProp d ''betMinor'') = Inr bet"
    and m: "decodeMessage (JObject (projectionFields request sid round1 n bet charged balance totalWin
         g ws evs f)) = Inr (Result r)"
    using assms unfolding spinProjection_Inr by blast
  have wf: "wf_result r" using message.sound [OF m] by simp
  note p = decodeSpinResult_parts [OF m [unfolded projection_decode]]
  have f: "canonicalState f" using rgs_feature.sound [OF t(3)] .
  then have s: "featureState r = f"
    using p feature.complete [OF canonicalState_wf [OF f]] by (simp add: projectionFields_def)
  have "winsOf (result_grid r) ws = Inr (wins r)" "eventsOf evs (result_grid r) = Inr (events r)"
    "betMinor r = bet" "requestId r = request" "sessionId r = sid"
    using p by (simp_all add: projectionFields_def accept)
  then show ?thesis
    using wf f s t(4) translatedWins_live [OF t(1)] translatedEvents_live [OF t(2)]
    by (simp add: live_result_def accept)
qed

lemma projection_of_result:
  "resultFields r = projectionFields (requestId r) (sessionId r) (roundId r) (sequence r) (betMinor r)
     (chargedBetMinor r) (balanceMinor r) (totalWinMinor r) (encodeGrid (result_grid r))
     (JArray (map encodeWin (wins r))) (JArray (map encodeEvent (events r))) (featureState r)"
  by (simp add: resultFields_def projectionFields_def)

lemma spinProjection_complete:
  assumes r: "live_result r"
    and d: "\<And>k. k \<in> {''roundId'', ''sequence'', ''betMinor'', ''chargedBetMinor'', ''balanceMinor'',
        ''totalWinMinor'', ''grid'', ''wins'', ''events'', ''feature''} \<Longrightarrow>
      getProp d k = getProp (rgsResultFields r) k"
  shows "spinProjection d (requestId r) (sessionId r) = Inr r"
proof -
  have wf: "wf_result r" and g: "wf_grid (result_grid r)" using r by (simp_all add: live_result_def wf_result_def)
  have m: "decodeMessage (JObject (resultFields r)) = Inr (Result r)"
    using message.complete [of "Result r"] wf by simp
  have "translatedGrid (getProp d ''grid'') = Inr (encodeGrid (result_grid r))"
    using translatedGrid_complete [OF g] by (simp add: d rgsResultFields_def)
  moreover have "translatedWins (getProp d ''wins'') = Inr (JArray (map encodeWin (wins r)))"
    using translatedWins_complete [OF g, of "wins r"] r by (simp add: d rgsResultFields_def live_result_def)
  moreover have "translatedEvents (getProp d ''events'') = Inr (JArray (map encodeEvent (events r)))"
    using translatedEvents_complete [OF g, of "events r"] r by (simp add: d rgsResultFields_def live_result_def)
  moreover have "rgsFeatureState (getProp d ''feature'') = Inr (featureState r)"
    using rgs_feature.complete [of "featureState r"] r by (simp add: d rgsResultFields_def live_result_def)
  moreover have "rgsIdentifier (getProp d ''roundId'') = Inr (roundId r)"
    "sequenceOf (getProp d ''sequence'') = Inr (sequence r)"
    "rgsDecimal True (getProp d ''betMinor'') = Inr (betMinor r)"
    "rgsDecimal False (getProp d ''chargedBetMinor'') = Inr (chargedBetMinor r)"
    "rgsDecimal False (getProp d ''balanceMinor'') = Inr (balanceMinor r)"
    "rgsDecimal False (getProp d ''totalWinMinor'') = Inr (totalWinMinor r)"
    using r wf by (simp_all add: d rgsResultFields_def live_result_def wf_result_def rgs_values)
  ultimately show ?thesis
    unfolding spinProjection_Inr using m [unfolded projection_of_result] by blast
qed

section \<open>The whole spin\<close>

definition live_spin :: "(string \<Rightarrow> int option) \<Rightarrow> string \<Rightarrow> RgsSpin \<Rightarrow> bool" where
  "live_spin Date_parse request s =
     (live_result (spin_result s) \<and> requestId (spin_result s) = request
      \<and> sessionId (spin_result s) = spin_sessionId s
      \<and> identifier_ok (spin_operatorId s) \<and> identifier_ok (spin_gameId s)
      \<and> identifier_ok (spin_definitionVersion s) \<and> DIGEST_PATTERN (spin_definitionHash s)
      \<and> CURRENCY_PATTERN (spin_currency s) \<and> roundKind s \<in> {''BASE'', ''FREE_SPIN'', ''BONUS''}
      \<and> identifier_ok (serverTransactionId s) \<and> identifier_ok (walletTransactionId s)
      \<and> money_ok (startRevision s) \<and> money_ok (endRevision s) \<and> DIGEST_PATTERN (resultHash s)
      \<and> 20 \<le> length (spin_idleDisconnectAt s) \<and> length (spin_idleDisconnectAt s) \<le> 64
      \<and> Date_parse (spin_idleDisconnectAt s) \<noteq> None)"

definition rgsSpinFields :: "RgsSpin \<Rightarrow> js_object" where
  "rgsSpinFields s = [(''operatorId'', JString (spin_operatorId s)),
     (''sessionId'', JString (spin_sessionId s)), (''gameId'', JString (spin_gameId s)),
     (''definitionVersion'', JString (spin_definitionVersion s)),
     (''definitionHash'', JString (spin_definitionHash s)), (''currency'', JString (spin_currency s)),
     (''roundKind'', JString (roundKind s)),
     (''serverTransactionId'', JString (serverTransactionId s)),
     (''walletTransactionId'', JString (walletTransactionId s)),
     (''startRevision'', JString (startRevision s)), (''endRevision'', JString (endRevision s)),
     (''resultHash'', JString (resultHash s)), (''idleDisconnectAt'', JString (spin_idleDisconnectAt s))]
     @ rgsResultFields (spin_result s)"

definition encodeRgsSpin :: "RgsSpin \<Rightarrow> js" where
  "encodeRgsSpin s = JObject (rgsSpinFields s)"

lemma rgsSpinFields_get:
  "getProp (rgsSpinFields s) ''operatorId'' = JString (spin_operatorId s)"
  "getProp (rgsSpinFields s) ''sessionId'' = JString (spin_sessionId s)"
  "getProp (rgsSpinFields s) ''gameId'' = JString (spin_gameId s)"
  "getProp (rgsSpinFields s) ''definitionVersion'' = JString (spin_definitionVersion s)"
  "getProp (rgsSpinFields s) ''definitionHash'' = JString (spin_definitionHash s)"
  "getProp (rgsSpinFields s) ''currency'' = JString (spin_currency s)"
  "getProp (rgsSpinFields s) ''roundKind'' = JString (roundKind s)"
  "getProp (rgsSpinFields s) ''serverTransactionId'' = JString (serverTransactionId s)"
  "getProp (rgsSpinFields s) ''walletTransactionId'' = JString (walletTransactionId s)"
  "getProp (rgsSpinFields s) ''startRevision'' = JString (startRevision s)"
  "getProp (rgsSpinFields s) ''endRevision'' = JString (endRevision s)"
  "getProp (rgsSpinFields s) ''resultHash'' = JString (resultHash s)"
  "getProp (rgsSpinFields s) ''idleDisconnectAt'' = JString (spin_idleDisconnectAt s)"
  by (simp_all add: rgsSpinFields_def)

lemma rgsSpinFields_result:
  "k \<in> {''roundId'', ''sequence'', ''betMinor'', ''chargedBetMinor'', ''balanceMinor'',
        ''totalWinMinor'', ''grid'', ''wins'', ''events'', ''feature''} \<Longrightarrow>
     getProp (rgsSpinFields s) k = getProp (rgsResultFields (spin_result s)) k"
  by (elim insertE) (simp_all add: rgsSpinFields_def)

lemma rgsSpinFields_keys: "rgsExactKeys (rgsSpinFields s) spinKeys spinKeys = Inr ()"
  by (rule rgsExactKeys_subset) (simp_all add: rgsSpinFields_def rgsResultFields_def spinKeys_def)

lemma digest_length: "DIGEST_PATTERN s \<Longrightarrow> length s = 64"
  by (simp add: DIGEST_PATTERN_def)

lemma currency_length: "CURRENCY_PATTERN s \<Longrightarrow> length s = 3"
  by (simp add: CURRENCY_PATTERN_def)

lemma decodedSpinData_sound:
  assumes "decodedSpinData Date_parse v request = Inr s"
  shows "live_spin Date_parse request s"
  using assms unfolding decodedSpinData_def
  apply (elim accepted)
  apply (drule spinProjection_sound)
  apply (simp only: sum.inject)
  apply hypsubst
  apply (simp add: live_spin_def accept)
  done

lemma decodedSpinData_complete:
  assumes "live_spin Date_parse request s"
  shows "decodedSpinData Date_parse (encodeRgsSpin s) request = Inr s"
proof -
  have "spinProjection (rgsSpinFields s) (requestId (spin_result s)) (sessionId (spin_result s))
      = Inr (spin_result s)"
    using assms by (intro spinProjection_complete rgsSpinFields_result) (simp add: live_spin_def)
  then have p: "spinProjection (rgsSpinFields s) request (spin_sessionId s) = Inr (spin_result s)"
    using assms by (simp add: live_spin_def)
  have "identifier_ok (spin_sessionId s)"
    using assms by (auto simp: live_spin_def live_result_def wf_result_def)
  moreover have "1 \<le> length (roundKind s)" "length (roundKind s) \<le> 128"
    using assms by (auto simp: live_spin_def)
  ultimately show ?thesis
    unfolding encodeRgsSpin_def decodedSpinData_def
    using assms p digest_length [of "spin_definitionHash s"] digest_length [of "resultHash s"]
      currency_length [of "spin_currency s"]
    by (simp add: live_spin_def rgs_values rgsSpinFields_keys rgsSpinFields_get del: textOf.simps)
qed

interpretation rgs_spin: codec "\<lambda>v. decodedSpinData Date_parse v request" encodeRgsSpin
    "live_spin Date_parse request" for Date_parse request
  by unfold_locales (fact decodedSpinData_sound decodedSpinData_complete)+

end
