(* ===== verification/Rgs_Properties.thy ===== *)
theory Rgs_Properties
  imports Rgs_Spin Decoder_Facts Samples
begin

text \<open>
  The properties of the RGS decoder, with witnesses: which spins, deliveries, exchanges and
  acknowledgements it accepts, and that a decoded session opens.
\<close>

section \<open>Sample values\<close>

definition hash64 :: string where
  "hash64 = replicate 64 (CHR ''a'')"

definition sampleClock :: "string \<Rightarrow> int option" where
  "sampleClock s = (if length s = 20 then Some 0 else None)"

definition sampleTime :: string where
  "sampleTime = ''2026-01-01T00:00:00Z''"

definition liveResult :: SpinResult where
  "liveResult = winResult\<lparr>featureState := baseState\<lparr>freeSpinsPlayed := Some 0\<rparr>\<rparr>"

definition liveSpin :: RgsSpin where
  "liveSpin = \<lparr>spin_result = liveResult, spin_operatorId = ''operator-1'', spin_sessionId = ''session-1'',
     spin_gameId = ''primal'', spin_definitionVersion = ''v6'', spin_definitionHash = hash64,
     spin_currency = ''EUR'', roundKind = ''BASE'', serverTransactionId = ''tx-1'',
     walletTransactionId = ''wt-1'', startRevision = ''3'', endRevision = ''4'', resultHash = hash64,
     spin_idleDisconnectAt = sampleTime\<rparr>"

lemma live_parts:
  "identifier_ok ''spin-1''" "identifier_ok ''session-1''" "identifier_ok ''round-1''"
  "positive_money ''100''" "money_ok ''100''" "money_ok ''99900''" "money_ok ''200''"
  "canonicalState (baseState\<lparr>freeSpinsPlayed := Some 0\<rparr>)"
  "wf_featureState (baseState\<lparr>freeSpinsPlayed := Some 0\<rparr>)" "safe_int 11"
  "wf_grid winGrid" "live_win winGrid orbitWin" "wf_win winGrid orbitWin" "checkEventGrammar winGrid [] = Inr ()"
  "validateParts ''100'' winGrid [orbitWin] [] (baseState\<lparr>freeSpinsPlayed := Some 0\<rparr>) ''200'' = Inr ()"
  by code_simp+

lemma live_sample: "live_result liveResult"
  by (simp add: live_result_def wf_result_def liveResult_def winResult_def spinResult_def live_parts)

lemma hash_ok: "DIGEST_PATTERN hash64"
  by (simp add: DIGEST_PATTERN_def hash64_def list_all_iff is_digit_def code_def)

lemma more_parts:
  "identifier_ok ''operator-1''" "identifier_ok ''primal''" "identifier_ok ''v6''"
  "identifier_ok ''tx-1''" "identifier_ok ''wt-1''" "money_ok ''3''" "money_ok ''4''"
  "CURRENCY_PATTERN ''EUR''"
  by code_simp+

lemma clock_ok: "20 \<le> length sampleTime" "length sampleTime \<le> 64" "sampleClock sampleTime = Some 0"
  by (simp_all add: sampleTime_def sampleClock_def)

lemma live_spin_sample: "live_spin sampleClock ''spin-1'' liveSpin"
  using live_sample
  by (simp add: live_spin_def liveSpin_def hash_ok more_parts clock_ok)
    (simp add: liveResult_def winResult_def spinResult_def)

section \<open>Spins\<close>

text \<open>An envelope around response data.\<close>

definition response :: "string \<Rightarrow> js \<Rightarrow> js" where
  "response request d = JObject [(''data'', d), (''requestId'', JString request)]"

lemma response_data: "identifier_ok request \<Longrightarrow> responseData (response request d) request = Inr d"
  by (simp add: responseData_Inr response_def rgsExactKeys_subset)

text \<open>
  C16: \<open>decodeRgsSpin\<close> accepts exactly the live spins: what it returns is a live spin of the
  request, and every live spin is decoded from its wire form, flat events and decimal
  multipliers included, so the translation into the shared message format loses nothing.
\<close>

theorem rgs_spin_round_trip:
  "(decodeRgsSpin Date_parse v request = Inr s \<longrightarrow> live_spin Date_parse request s)
    \<and> (live_spin Date_parse request s \<longrightarrow>
         decodeRgsSpin Date_parse (response request (encodeRgsSpin s)) request = Inr s)"
proof (intro conjI impI)
  assume "decodeRgsSpin Date_parse v request = Inr s"
  then show "live_spin Date_parse request s"
    using rgs_spin.sound by (auto simp: decodeRgsSpin_def accept)
next
  assume s: "live_spin Date_parse request s"
  then have "identifier_ok request" by (auto simp: live_spin_def live_result_def wf_result_def)
  then show "decodeRgsSpin Date_parse (response request (encodeRgsSpin s)) request = Inr s"
    using rgs_spin.complete [OF s] by (simp add: decodeRgsSpin_def response_data)
qed

lemma live_spin_decoded:
  "decodeRgsSpin sampleClock (response ''spin-1'' (encodeRgsSpin liveSpin)) ''spin-1'' = Inr liveSpin"
  using rgs_spin.complete [OF live_spin_sample] live_parts(1) by (simp add: decodeRgsSpin_def response_data)

theorem rgs_spin_round_trip_witness:
  "decodeRgsSpin sampleClock (response ''spin-1'' (encodeRgsSpin liveSpin)) ''spin-1'' = Inr liveSpin"
  using rgs_spin_round_trip live_spin_sample by blast

text \<open>
  A decoded spin belongs to the request and to one session, was bet with a positive
  amount, itemises every win into path awards, and carries a feature state that is either
  empty or has a spin left and a positive locked bet.
\<close>

theorem rgs_spin_facts:
  assumes "decodeRgsSpin Date_parse v request = Inr s"
  shows "requestId (spin_result s) = request \<and> sessionId (spin_result s) = spin_sessionId s
    \<and> 0 < BigInt (betMinor (spin_result s))
    \<and> (\<forall>w \<in> set (wins (spin_result s)).
         win_pathAwards w \<noteq> None \<and> 0 < BigInt (win_nominalAmountMinor w))
    \<and> (if mode (featureState (spin_result s)) = BASE
       then freeSpinsRemaining (featureState (spin_result s)) = 0
         \<and> baseBetMinor (featureState (spin_result s)) = None
       else 1 \<le> freeSpinsRemaining (featureState (spin_result s))
         \<and> (\<exists>bet. baseBetMinor (featureState (spin_result s)) = Some bet \<and> 0 < BigInt bet))"
proof -
  have pos: "0 < BigInt t" if "positive_money t" for t
    using that BigInt_nonneg [of t] BigInt_eq_zero [of t]
    by (auto simp: positive_money_def money_ok_def)
  have live: "live_spin Date_parse request s"
    using assms rgs_spin.sound by (auto simp: decodeRgsSpin_def accept)
  then have "canonicalState (featureState (spin_result s))"
    by (simp add: live_spin_def live_result_def)
  then show ?thesis
    using live pos
    by (cases rule: canonicalState_cases)
      (auto simp: live_spin_def live_result_def live_win_def list_all_iff)
qed

theorem rgs_spin_facts_witness: "sessionId (spin_result liveSpin) = ''session-1''"
  using rgs_spin_facts [OF live_spin_decoded] by (simp add: liveSpin_def)

section \<open>Round status and pending delivery\<close>

text \<open>
  A round status carries a result exactly when it is COMMITTED, the result is a live
  spin of the request, and the status answers the request it was asked with.
\<close>

theorem round_status_result:
  assumes "decodeRgsRoundStatus Date_parse v request = Inr x"
  shows "(round_status x = ''COMMITTED'' \<longleftrightarrow> round_result x \<noteq> None)
    \<and> round_requestId x = request
    \<and> (\<forall>s. round_result x = Some s \<longrightarrow> live_spin Date_parse request s)"
  using assms unfolding decodeRgsRoundStatus_def Let_def
  apply (elim accepted)
  apply (simp only: sum.inject)
  apply hypsubst
  apply (simp only: RgsRoundStatus.simps)
  subgoal for dv d u status u1 u2 u3 r
    by (cases "status = ''COMMITTED''") (auto simp: bindE_Inr dest: rgs_spin.sound)
  done

definition statusFields :: "string \<Rightarrow> string \<Rightarrow> string \<Rightarrow> string \<Rightarrow> js \<Rightarrow> js" where
  "statusFields op1 sid round1 status result = JObject [(''operatorId'', JString op1), (''sessionId'', JString sid),
     (''roundId'', JString round1), (''status'', JString status), (''result'', result)]"

lemma status_decoded:
  "decodeRgsRoundStatus sampleClock
     (response ''spin-1'' (statusFields ''operator-1'' ''session-1'' ''round-1'' ''COMMITTED'' (encodeRgsSpin liveSpin)))
     ''spin-1'' = Inr \<lparr>round_requestId = ''spin-1'', round_operatorId = ''operator-1'',
       round_sessionId = ''session-1'', round_roundId = ''round-1'', round_status = ''COMMITTED'',
       round_result = Some liveSpin\<rparr>"
  unfolding decodeRgsRoundStatus_def response_data [OF live_parts(1)] statusFields_def Let_def
  by (simp add: rgsExactKeys_subset rgs_values(1) live_parts(1-3) more_parts(1)
      rgs_spin.complete [OF live_spin_sample])

theorem round_status_result_witness:
  "live_spin sampleClock ''spin-1'' liveSpin"
  using round_status_result [OF status_decoded] by (simp only: RgsRoundStatus.simps option.inject simp_thms)

lemma live_spin_session: "live_spin Date_parse request s \<Longrightarrow> sessionId (spin_result s) = spin_sessionId s"
  by (simp add: live_spin_def)

text \<open>
  A pending delivery is returned only when operator, session, round, sequence and
  result hash of the delivery are those of the spin it carries, and the origin feature
  state is canonical.
\<close>

theorem pending_delivery_bound:
  assumes "decodePendingResultDelivery Date_parse v request = Inr x"
  shows "spin_operatorId (pending_result x) = pending_operatorId x
    \<and> spin_sessionId (pending_result x) = pending_sessionId x
    \<and> sessionId (spin_result (pending_result x)) = pending_sessionId x
    \<and> roundId (spin_result (pending_result x)) = pending_roundId x
    \<and> sequence (spin_result (pending_result x)) = pending_sequence x
    \<and> resultHash (pending_result x) = pending_resultHash x
    \<and> live_spin Date_parse request (pending_result x) \<and> canonicalState (originFeatureState x)"
proof -
  have "spin_operatorId (pending_result x) = pending_operatorId x
    \<and> spin_sessionId (pending_result x) = pending_sessionId x
    \<and> roundId (spin_result (pending_result x)) = pending_roundId x
    \<and> sequence (spin_result (pending_result x)) = pending_sequence x
    \<and> resultHash (pending_result x) = pending_resultHash x
    \<and> live_spin Date_parse request (pending_result x) \<and> canonicalState (originFeatureState x)"
    using assms unfolding decodePendingResultDelivery_def
    apply (elim accepted)
    apply (drule rgs_spin.sound rgs_feature.sound)+
    apply (simp only: sum.inject)
    apply hypsubst
    apply simp
    done
  moreover from this have "sessionId (spin_result (pending_result x)) = pending_sessionId x"
    using live_spin_session by metis
  ultimately show ?thesis by blast
qed

definition deliveryFields :: "PendingDelivery \<Rightarrow> js" where
  "deliveryFields x = JObject [(''operatorId'', JString (pending_operatorId x)),
     (''sessionId'', JString (pending_sessionId x)), (''roundId'', JString (pending_roundId x)),
     (''sequence'', JString (toString (pending_sequence x))),
     (''resultHash'', JString (pending_resultHash x)),
     (''originFeature'', encodeRgsState (originFeatureState x)),
     (''result'', encodeRgsSpin (pending_result x))]"

definition sampleDelivery :: PendingDelivery where
  "sampleDelivery = \<lparr>pending_requestId = ''spin-1'', pending_operatorId = ''operator-1'',
     pending_sessionId = ''session-1'', pending_roundId = ''round-1'', pending_sequence = 11,
     pending_resultHash = hash64, originFeatureState = baseState\<lparr>freeSpinsPlayed := Some 0\<rparr>,
     pending_result = liveSpin\<rparr>"

lemma delivery_decoded:
  "decodePendingResultDelivery sampleClock (response ''spin-1'' (deliveryFields sampleDelivery)) ''spin-1''
     = Inr sampleDelivery"
proof -
  have l: "spin_operatorId liveSpin = ''operator-1''" "spin_sessionId liveSpin = ''session-1''"
    "roundId (spin_result liveSpin) = ''round-1''" "sequence (spin_result liveSpin) = 11"
    "resultHash liveSpin = hash64"
    by (simp_all add: liveSpin_def liveResult_def winResult_def spinResult_def)
  show ?thesis
    unfolding decodePendingResultDelivery_def response_data [OF live_parts(1)] deliveryFields_def
      sampleDelivery_def
    by (simp add: rgsExactKeys_subset pendingKeys_def rgs_values(1,5) live_parts more_parts hash_ok
        digest_length [OF hash_ok] rgs_spin.complete [OF live_spin_sample]
        rgs_feature.complete [OF live_parts(8)] l cong: bindE_step)
qed

theorem pending_delivery_bound_witness:
  "roundId (spin_result (pending_result sampleDelivery)) = pending_roundId sampleDelivery"
  using pending_delivery_bound [OF delivery_decoded] by blast

section \<open>Acknowledgements\<close>

definition ackFields :: "string \<Rightarrow> string \<Rightarrow> string \<Rightarrow> int \<Rightarrow> string \<Rightarrow> string \<Rightarrow> js" where
  "ackFields op1 sid round1 n hash at1 = JObject [(''operatorId'', JString op1), (''sessionId'', JString sid),
     (''roundId'', JString round1), (''sequence'', JString (toString n)), (''resultHash'', JString hash),
     (''acknowledgedAt'', JString at1)]"

definition ack_ok ::
  "(string \<Rightarrow> int option) \<Rightarrow> string \<Rightarrow> string \<Rightarrow> string \<Rightarrow> string \<Rightarrow> int \<Rightarrow> string \<Rightarrow> string \<Rightarrow> bool" where
  "ack_ok Date_parse request op1 sid round1 n hash at1 =
     (identifier_ok request \<and> identifier_ok op1 \<and> identifier_ok sid \<and> identifier_ok round1
      \<and> safe_int n \<and> 0 \<le> n \<and> DIGEST_PATTERN hash
      \<and> 20 \<le> length at1 \<and> length at1 \<le> 64 \<and> Date_parse at1 \<noteq> None)"

lemma ack_sound:
  "decodeResultDeliveryAcknowledgement Date_parse v request op1 sid round1 n hash = Inr a \<Longrightarrow>
     a = \<lparr>ack_requestId = request, ack_operatorId = op1, ack_sessionId = sid, ack_roundId = round1,
          ack_sequence = n, ack_resultHash = hash, acknowledgedAt = acknowledgedAt a\<rparr>
     \<and> ack_ok Date_parse request op1 sid round1 n hash (acknowledgedAt a)"
  unfolding decodeResultDeliveryAcknowledgement_def ack_ok_def
  apply (elim accepted)
  apply (simp only: sum.inject)
  apply hypsubst
  apply (clarsimp simp: responseData_Inr rgsIdentifier_Inr sequence_text textOf_Inr)
  done

lemma ack_complete:
  "ack_ok Date_parse request op1 sid round1 n hash at1 \<Longrightarrow>
     decodeResultDeliveryAcknowledgement Date_parse (response request (ackFields op1 sid round1 n hash at1))
       request op1 sid round1 n hash
     = Inr \<lparr>ack_requestId = request, ack_operatorId = op1, ack_sessionId = sid, ack_roundId = round1,
          ack_sequence = n, ack_resultHash = hash, acknowledgedAt = at1\<rparr>"
  using digest_length [of hash]
  by (simp add: ack_ok_def decodeResultDeliveryAcknowledgement_def response_data ackFields_def
      rgsExactKeys_subset ackKeys_def rgs_values del: textOf.simps cong: bindE_step)

text \<open>
  An acknowledgement is decoded exactly when it repeats the expected operator, session,
  round, sequence and result hash and its time parses: the returned record consists of the
  expected values, and the response that repeats them is accepted.
\<close>

theorem acknowledgement_exact:
  "(decodeResultDeliveryAcknowledgement Date_parse v request op1 sid round1 n hash = Inr a \<longrightarrow>
      (ack_operatorId a, ack_sessionId a, ack_roundId a, ack_sequence a, ack_resultHash a)
        = (op1, sid, round1, n, hash) \<and> Date_parse (acknowledgedAt a) \<noteq> None)
    \<and> (ack_ok Date_parse request op1 sid round1 n hash at1 \<longrightarrow>
      (\<exists>b. decodeResultDeliveryAcknowledgement Date_parse
          (response request (ackFields op1 sid round1 n hash at1)) request op1 sid round1 n hash = Inr b
        \<and> acknowledgedAt b = at1))"
  using ack_sound [of Date_parse v request op1 sid round1 n hash a]
    ack_complete [of Date_parse request op1 sid round1 n hash at1]
  by (auto simp: ack_ok_def) (metis Acknowledgement.select_convs)+

theorem acknowledgement_exact_witness:
  "\<exists>b. decodeResultDeliveryAcknowledgement sampleClock
      (response ''spin-1'' (ackFields ''operator-1'' ''session-1'' ''round-1'' 11 hash64 sampleTime))
      ''spin-1'' ''operator-1'' ''session-1'' ''round-1'' 11 hash64 = Inr b \<and> acknowledgedAt b = sampleTime"
proof -
  have "ack_ok sampleClock ''spin-1'' ''operator-1'' ''session-1'' ''round-1'' 11 hash64 sampleTime"
    using live_parts more_parts hash_ok clock_ok by (simp add: ack_ok_def)
  then show ?thesis using acknowledgement_exact by blast
qed

section \<open>Sessions\<close>

definition wf_binding :: "RgsBinding \<Rightarrow> bool" where
  "wf_binding b =
     (identifier_ok (operatorId b) \<and> identifier_ok (rgs_sessionId b) \<and> identifier_ok (gameId b)
      \<and> identifier_ok (definitionVersion b) \<and> DIGEST_PATTERN (definitionHash b)
      \<and> CURRENCY_PATTERN (rgs_currency b) \<and> bounded 0 6 (rgs_currencyExponent b)
      \<and> JURISDICTION_PATTERN (jurisdiction b))"

lemma binding_sound: "bindingOf d = Inr b \<Longrightarrow> wf_binding b"
  unfolding bindingOf_def Let_def
  apply (elim accepted)
  apply (simp only: sum.inject)
  apply hypsubst
  apply (simp add: wf_binding_def accept)
  done

text \<open>What a session block guarantees: its binding, and the idle time within the expiry.\<close>

definition live_session :: "(string \<Rightarrow> int option) \<Rightarrow> string \<Rightarrow> string \<Rightarrow> RgsSession \<Rightarrow> bool" where
  "live_session Date_parse op1 sid s =
     (wf_binding (binding s) \<and> operatorId (binding s) = op1 \<and> rgs_sessionId (binding s) = sid
      \<and> engineRulesVersion s = ENGINE_RULES_VERSION
      \<and> (case (Date_parse (expiresAt s), Date_parse (session_idleDisconnectAt s)) of
           (Some expiry, Some idle) \<Rightarrow> idle \<le> expiry | _ \<Rightarrow> False)
      \<and> money_ok (session_balanceMinor s) \<and> safe_int (session_sequence s) \<and> 0 \<le> session_sequence s
      \<and> canonicalState (session_featureState s))"

lemma session_sound: "sessionOf Date_parse d op1 sid = Inr s \<Longrightarrow> live_session Date_parse op1 sid s"
  unfolding sessionOf_def
  apply (elim accepted)
  apply (drule binding_sound)
  apply (simp split: option.splits if_splits)
  apply (elim accepted)
  apply (simp split: option.splits if_splits)
  apply (elim accepted)
  apply (drule rgs_feature.sound)
  apply (simp only: sum.inject)
  apply hypsubst
  apply (auto simp: live_session_def accept money_ok_canonical intro!: BigInt_nonneg)
  done

text \<open>The \<open>session.opened\<close> message a session is projected onto.\<close>

definition openedOf :: "string \<Rightarrow> RgsSession \<Rightarrow> string list \<Rightarrow> string \<Rightarrow> SessionOpened" where
  "openedOf request s options defaultBet = \<lparr>opened_requestId = request,
     opened_sessionId = rgs_sessionId (binding s), currency = rgs_currency (binding s),
     currencyExponent = rgs_currencyExponent (binding s),
     opened_balanceMinor = session_balanceMinor s, betOptionsMinor = options,
     defaultBetMinor = defaultBet, opened_featureState = session_featureState s\<rparr>"

definition bets_ok :: "string list \<Rightarrow> string \<Rightarrow> bool" where
  "bets_ok options defaultBet =
     (length options \<le> 100 \<and> list_all money_ok options \<and> distinct options
      \<and> defaultBet \<in> set options)"

lemma opened_unfold:
  "engineRulesVersion s = ENGINE_RULES_VERSION \<Longrightarrow>
     rgsSessionOpened request s options defaultBet =
       (case decodeMessage (encodeMessage (Opened (openedOf request s options defaultBet))) of
          Inl e \<Rightarrow> Inl (RgsDecodeError e)
        | Inr (Opened m) \<Rightarrow> Inr \<lparr>opened_message = m,
            opened_idleDisconnectAt = session_idleDisconnectAt s, opened_gameId = gameId (binding s),
            opened_definitionVersion = definitionVersion (binding s),
            opened_definitionHash = definitionHash (binding s)\<rparr>
        | Inr _ \<Rightarrow> deny ''invalid session projection'')"
  by (simp add: rgsSessionOpened_def openedOf_def openedFields_def)

lemma texts_Inr: "mapE money (map JString xs) = Inr ys \<longleftrightarrow> ys = xs \<and> list_all money_ok xs"
  by (induction xs arbitrary: ys) (auto simp: accept)

lemma opened_bets:
  assumes "decodeMessage (encodeMessage (Opened y)) = Inr (Opened m)"
  shows "bets_ok (betOptionsMinor y) (defaultBetMinor y)"
proof -
  have m: "decodeSessionOpened (openedFields y) = Inr m"
    using assms by (simp add: decodeMessage_def openedFields_def bindE_Inr split: if_splits)
  then have "betOptionsMinor m = betOptionsMinor y \<and> defaultBetMinor m = defaultBetMinor y"
    unfolding decodeSessionOpened_def
    apply (elim accepted)
    apply (simp only: sum.inject)
    apply hypsubst
    apply (simp add: openedFields_def accept texts_Inr split: if_splits)
    done
  with opened_sound [OF m] show ?thesis by (simp add: wf_opened_def bets_ok_def)
qed

text \<open>
  After an accepted token exchange the session belongs to the expected operator and
  session, idles out within its expiry, and opens exactly with a valid bet list: at most 100
  distinct canonical amounts among which the default bet is. The opened message then
  carries the exchanged balance, currency and feature state unchanged.
\<close>

theorem rgs_session_opens:
  assumes "decodeRgsExchange Date_parse v request op1 sid = Inr x"
  shows "live_session Date_parse op1 sid (session x)
    \<and> (if bets_ok options defaultBet
       then rgsSessionOpened (exchange_requestId x) (session x) options defaultBet
         = Inr \<lparr>opened_message = openedOf request (session x) options defaultBet,
             opened_idleDisconnectAt = session_idleDisconnectAt (session x),
             opened_gameId = gameId (binding (session x)),
             opened_definitionVersion = definitionVersion (binding (session x)),
             opened_definitionHash = definitionHash (binding (session x))\<rparr>
       else \<exists>e. rgsSessionOpened (exchange_requestId x) (session x) options defaultBet = Inl e)"
proof -
  have x: "identifier_ok request \<and> exchange_requestId x = request
      \<and> live_session Date_parse op1 sid (session x)"
    using assms unfolding decodeRgsExchange_def
    apply (elim accepted)
    apply (drule session_sound)
    apply (simp only: sum.inject)
    apply hypsubst
    apply (auto simp: responseData_Inr)
    done
  then have version: "engineRulesVersion (session x) = ENGINE_RULES_VERSION"
    by (simp add: live_session_def)
  let ?o = "openedOf request (session x) options defaultBet"
  show ?thesis
  proof (cases "bets_ok options defaultBet")
    case True
    with x have "wf_opened ?o"
      by (auto simp: wf_opened_def openedOf_def bets_ok_def live_session_def wf_binding_def canonicalState_wf)
    then have "decodeMessage (encodeMessage (Opened ?o)) = Inr (Opened ?o)"
      using message.complete [of "Opened ?o"] by simp
    then show ?thesis using True x by (simp add: opened_unfold [OF version])
  next
    case False
    have "decodeMessage (encodeMessage (Opened ?o)) \<noteq> Inr (Opened m)" for m
      using False opened_bets [of ?o m] by (auto simp: openedOf_def)
    then show ?thesis
      using False x by (auto simp: opened_unfold [OF version] split: sum.split ServerMessage.split)
  qed
qed

definition sampleBinding :: RgsBinding where
  "sampleBinding = \<lparr>operatorId = ''operator-1'', rgs_sessionId = ''session-1'', gameId = ''primal'',
     definitionVersion = ''v6'', definitionHash = hash64, rgs_currency = ''EUR'',
     rgs_currencyExponent = 2, jurisdiction = ''MT''\<rparr>"

definition sampleSession :: RgsSession where
  "sampleSession = \<lparr>binding = sampleBinding, engineRulesVersion = ENGINE_RULES_VERSION,
     session_status = ''ACTIVE'', expiresAt = sampleTime, session_idleDisconnectAt = sampleTime,
     session_balanceMinor = ''99900'', session_revision = ''3'', session_sequence = 11,
     session_featureState = baseState\<lparr>freeSpinsPlayed := Some 0\<rparr>\<rparr>"

definition sessionFields :: "RgsSession \<Rightarrow> js_object" where
  "sessionFields s = [(''operatorId'', JString (operatorId (binding s))),
     (''sessionId'', JString (rgs_sessionId (binding s))), (''gameId'', JString (gameId (binding s))),
     (''definitionVersion'', JString (definitionVersion (binding s))),
     (''definitionHash'', JString (definitionHash (binding s))),
     (''engineRulesVersion'', JString (engineRulesVersion s)),
     (''currency'', JString (rgs_currency (binding s))),
     (''currencyExponent'', JInt (rgs_currencyExponent (binding s))),
     (''jurisdiction'', JString (jurisdiction (binding s))), (''status'', JString (session_status s)),
     (''expiresAt'', JString (expiresAt s)), (''idleDisconnectAt'', JString (session_idleDisconnectAt s)),
     (''balanceMinor'', JString (session_balanceMinor s)), (''revision'', JString (session_revision s)),
     (''sequence'', JString (toString (session_sequence s))),
     (''feature'', encodeRgsState (session_featureState s))]"

lemma binding_decoded: "bindingOf (sessionFields sampleSession) = Inr sampleBinding"
proof -
  have "CURRENCY_PATTERN ''EUR''" "JURISDICTION_PATTERN ''MT''" by code_simp+
  then show ?thesis
    by (simp add: bindingOf_def sessionFields_def sampleSession_def sampleBinding_def Let_def
        bindingKeys_def rgs_values live_parts more_parts hash_ok digest_length [OF hash_ok] bounded_def safe_int_def
        MAX_SAFE_INTEGER_def)
qed

lemma session_decoded:
  "sessionOf sampleClock (sessionFields sampleSession) ''operator-1'' ''session-1'' = Inr sampleSession"
proof -
  have keys: "rgsExactKeys (sessionFields sampleSession) sessionKeys sessionKeys = Inr ()"
    by (rule rgsExactKeys_subset) (simp_all add: sessionFields_def sessionKeys_def)
  have version: "ENGINE_RULES_VERSION \<noteq> []" "length ENGINE_RULES_VERSION \<le> 128"
    by (simp_all add: ENGINE_RULES_VERSION_def)
  have get: "getProp (sessionFields sampleSession) ''engineRulesVersion'' = JString ENGINE_RULES_VERSION"
    "getProp (sessionFields sampleSession) ''status'' = JString ''ACTIVE''"
    "getProp (sessionFields sampleSession) ''expiresAt'' = JString sampleTime"
    "getProp (sessionFields sampleSession) ''idleDisconnectAt'' = JString sampleTime"
    "getProp (sessionFields sampleSession) ''balanceMinor'' = JString ''99900''"
    "getProp (sessionFields sampleSession) ''revision'' = JString ''3''"
    "getProp (sessionFields sampleSession) ''sequence'' = JString (toString 11)"
    "getProp (sessionFields sampleSession) ''feature'' = encodeRgsState (baseState\<lparr>freeSpinsPlayed := Some 0\<rparr>)"
    by (simp_all add: sessionFields_def sampleSession_def)
  show ?thesis
    using version clock_ok
    by (simp add: sessionOf_def keys binding_decoded get rgs_values(1-5,7) live_parts(6,10)
        more_parts(6) rgs_feature.complete [OF live_parts(8)])
      (simp add: sampleSession_def sampleBinding_def)
qed

definition sampleExchange :: RgsExchange where
  "sampleExchange = \<lparr>exchange_requestId = ''spin-1'', accessToken = replicate 80 (CHR ''t''),
     serverTime = sampleTime, session = sampleSession\<rparr>"

lemma exchange_decoded:
  "decodeRgsExchange sampleClock (response ''spin-1'' (JObject
     [(''accessToken'', JString (replicate 80 (CHR ''t''))), (''serverTime'', JString sampleTime),
      (''session'', JObject (sessionFields sampleSession))])) ''spin-1'' ''operator-1'' ''session-1''
   = Inr sampleExchange"
  using clock_ok
  by (simp add: decodeRgsExchange_def response_data [OF live_parts(1)] rgsExactKeys_subset
      session_decoded sampleExchange_def)

theorem rgs_session_opens_witness:
  "\<exists>r. rgsSessionOpened ''spin-1'' sampleSession [''100'', ''200''] ''100'' = Inr r
     \<and> opened_balanceMinor (opened_message r) = ''99900''"
proof -
  have "bets_ok [''100'', ''200''] ''100''" by code_simp
  then show ?thesis
    using rgs_session_opens [OF exchange_decoded, of "[''100'', ''200'']" "''100''"]
    by (simp add: sampleExchange_def openedOf_def sampleSession_def)
qed

section \<open>Errors\<close>

abbreviation rgs_safe :: "rgs_error + 'a \<Rightarrow> bool" where
  "rgs_safe m \<equiv> never (RgsDecodeError DecodeTypeError) m"

lemma rgs_safe_values [never_intro]:
  "rgs_safe (deny s)" "rgs_safe (rgsRecord v)" "rgs_safe (textOf v lo hi)" "rgs_safe (rgsBoolean v)"
  "rgs_safe (rgsInteger v a b)"
  by (simp_all add: never_def) (cases v; simp split: option.split)+

lemma rgs_safe_keys [never_intro]: "rgs_safe (rgsExactKeys d ks ls)"
  by (simp add: never_def rgsExactKeys_def Let_def)

lemma rgs_safe_scalars [never_intro]:
  "rgs_safe (rgsIdentifier v)" "rgs_safe (rgsDecimal b v)" "rgs_safe (revisionOf v)"
  "rgs_safe (sequenceOf v)" "rgs_safe (positivePresentationInteger v)"
  "rgs_safe (requireMatchingRequestId a c)"
  unfolding rgsIdentifier_def rgsDecimal_def revisionOf_def sequenceOf_def
    positivePresentationInteger_def requireMatchingRequestId_def Let_def
  by (intro never_intro)+

lemma rgs_safe_envelope [never_intro]: "rgs_safe (responseData v request)"
  unfolding responseData_def envelope_def by (intro never_intro)

lemma rgs_safe_maps [never_intro]:
  "(\<And>x. rgs_safe (f x)) \<Longrightarrow> rgs_safe (mapE f xs)"
  by (induction xs) (auto intro: never_intro)

lemma rgs_safe_optional [never_intro]: "(\<And>x. rgs_safe (f x)) \<Longrightarrow> rgs_safe (optionalOf f v)"
  unfolding optionalOf_def by (intro never_intro)

lemma rgs_safe_blocks [never_intro]:
  "rgs_safe (bindingOf d)" "rgs_safe (rgsFeatureState v)" "rgs_safe (positionOf v)"
  unfolding bindingOf_def rgsFeatureState_def positionOf_def Let_def by (intro never_intro)+

lemma rgs_safe_positions [never_intro]: "rgs_safe (positionsOf v a b)"
  by (cases v) (simp_all only: positionsOf.simps, (intro never_intro)+)

lemma rgs_safe_grid [never_intro]:
  "rgs_safe (translatedFace t b v)" "rgs_safe (translatedCell v)" "rgs_safe (translatedReel v)"
  "rgs_safe (translatedGrid v)"
proof -
  show face: "rgs_safe (translatedFace t b v)" for t b v
    unfolding translatedFace_def by (intro never_intro)
  show cell: "rgs_safe (translatedCell v)" for v
    unfolding translatedCell_def by (intro never_intro face)
  show reel: "rgs_safe (translatedReel v)" for v
    by (cases v) (simp_all only: translatedReel.simps, (intro never_intro cell)+)
  show "rgs_safe (translatedGrid v)"
    by (cases v) (simp_all only: translatedGrid.simps, (intro never_intro reel)+)
qed

lemma rgs_safe_wins [never_intro]: "rgs_safe (translatedWins v)"
proof -
  have path: "rgs_safe (translatedPath v)" for v
    unfolding translatedPath_def by (intro never_intro)
  have paths: "rgs_safe (rgsPathAwards v)" for v
    by (cases v) (simp_all only: rgsPathAwards.simps, (intro never_intro)+)
  have win: "rgs_safe (translatedWin v)" for v
    unfolding translatedWin_def by (intro never_intro path paths)
  show ?thesis by (cases v) (simp_all only: translatedWins.simps, (intro never_intro win)+)
qed

lemma rgs_safe_events [never_intro]: "rgs_safe (translatedEvents v)"
proof -
  have flat: "rgs_safe (flatEventOf v)" for v
    unfolding flatEventOf_def by (intro never_intro)
  have mode: "rgs_safe (flatMode e)" "rgs_safe (translatedWheel e)" for e
    unfolding flatMode_def translatedWheel_def by (intro never_intro)+
  have bodies: "rgs_safe (translatedFields t e)" for t e
    unfolding translatedFields_def
    by (cases t) (simp_all only: EventType.case, (intro never_intro mode)+)
  have event: "rgs_safe (translatedEvent v)" for v
    unfolding translatedEvent_def by (intro never_intro flat bodies)
  show ?thesis by (cases v) (simp_all only: translatedEvents.simps, (intro never_intro event)+)
qed

lemma never_message_cases [never_intro]:
  assumes "\<And>m. rgs_safe (f m)"
  shows "rgs_safe (case decodeMessage v of Inl e \<Rightarrow> Inl (RgsDecodeError e) | Inr m \<Rightarrow> f m)"
  using assms never_message [of v] by (auto simp: never_def split: sum.split)

lemma rgs_safe_spin [never_intro]: "rgs_safe (decodedSpinData Date_parse v request)"
proof -
  have one: "rgs_safe (case m of Opened x \<Rightarrow> deny s | Result r \<Rightarrow> Inr r | Error e \<Rightarrow> deny s)" for m s
    by (cases m) (simp_all add: never_def)
  have "rgs_safe (spinProjection d request sid)" for d sid
    unfolding spinProjection_def by (intro never_intro one)
  then show ?thesis unfolding decodedSpinData_def by (intro never_intro)
qed

text \<open>
  Whatever value arrives, each RGS decoder returns its record or throws an
  \<open>RgsProtocolError\<close> or the shared decoder's \<open>ProtocolDecodeError\<close>: none of them reads a
  property of undefined.
\<close>

theorem rgs_decoder_total:
  "rgs_safe (decodeRgsExchange Date_parse v request op1 sid)
    \<and> rgs_safe (rgsSessionOpened request s options defaultBet)
    \<and> rgs_safe (decodeRgsSessionStatus Date_parse v request op1 sid)
    \<and> rgs_safe (decodeRgsSpin Date_parse v request)
    \<and> rgs_safe (decodeRgsRoundStatus Date_parse v request)
    \<and> rgs_safe (decodePendingResultDelivery Date_parse v request)
    \<and> rgs_safe (decodeResultDeliveryAcknowledgement Date_parse v request op1 sid round1 n hash)
    \<and> rgs_safe (decodeRgsError v request)"
proof -
  have one: "rgs_safe (case m of Opened x \<Rightarrow> Inr (f x) | Result r \<Rightarrow> deny t | Error e \<Rightarrow> deny t)"
    for m t and f :: "SessionOpened \<Rightarrow> RgsOpened"
    by (cases m) (simp_all add: never_def)
  have sess: "rgs_safe (sessionOf Date_parse d op1 sid)" for d
    unfolding sessionOf_def by (intro never_intro)
  show ?thesis
    unfolding decodeRgsExchange_def rgsSessionOpened_def decodeRgsSessionStatus_def decodeRgsSpin_def
      decodeRgsRoundStatus_def decodePendingResultDelivery_def decodeResultDeliveryAcknowledgement_def
      decodeRgsError_def Let_def
    by (intro conjI never_intro one sess)
qed

end
