(* ===== verification/Recovery_Ledger.thy ===== *)
theory Recovery_Ledger
  imports Rgs_Wire Feature_Cycle
begin

text \<open>
  The recovery ledger of \<open>protocol/RgsGateway.ts\<close>: the record a browser keeps of a round
  it may have submitted, its strict decoder (current and legacy version), its storage, and the
  reconstruction of a request origin from a committed result. \<open>JSON.parse\<close> and
  \<open>JSON.stringify\<close> are parameters of the storage.
\<close>

section \<open>Data\<close>

record LedgerCommon =
  bindingFingerprint :: string
  ledger_roundId :: string
  ledger_betMinor :: string
  ledger_startRevision :: string

text \<open>Version 2 carries the whole origin, the legacy version 1 only its mode.\<close>

datatype RgsRecoveryLedger =
    LedgerV2 (ledger_common: LedgerCommon) FeatureState
  | LedgerV1 (ledger_common: LedgerCommon) FeatureMode

fun ledgerOriginMode :: "RgsRecoveryLedger \<Rightarrow> FeatureMode" where
  "ledgerOriginMode (LedgerV2 c s) = mode s"
| "ledgerOriginMode (LedgerV1 c m) = m"

section \<open>Decoding\<close>

fun isFeatureMode :: "js \<Rightarrow> FeatureMode option" where
  "isFeatureMode (JString s) = mode_of_name s"
| "isFeatureMode _ = None"

definition BASE_LEDGER_FEATURE_KEYS :: "string list" where
  "BASE_LEDGER_FEATURE_KEYS =
     [''mode'', ''freeSpinsRemaining'', ''freeSpinsPlayed'', ''rageLevel'', ''rageCollected'']"

definition ACTIVE_LEDGER_FEATURE_KEYS :: "string list" where
  "ACTIVE_LEDGER_FEATURE_KEYS = BASE_LEDGER_FEATURE_KEYS @ [''baseBetMinor'', ''freeSpinsWinMinor'']"

fun exactLedgerRecord :: "js \<Rightarrow> string list \<Rightarrow> rgs_error + js_object" where
  "exactLedgerRecord (JObject d) keys =
     (if length (Object_keys d) \<noteq> length keys \<or> list_ex (\<lambda>k. \<not> hasOwn d k) keys
      then deny ''has an unexpected shape'' else Inr d)"
| "exactLedgerRecord _ keys = deny ''must be an object''"

fun ledgerInteger :: "js \<Rightarrow> int \<Rightarrow> rgs_error + int" where
  "ledgerInteger (JNumber n) minimum = (case safeInteger n of
       None \<Rightarrow> deny ''must be an integer in range''
     | Some i \<Rightarrow> if i < minimum \<or> 1000000 < i then deny ''must be an integer in range'' else Inr i)"
| "ledgerInteger _ minimum = deny ''must be an integer in range''"

fun canonicalMoneyForProtocol :: "bool \<Rightarrow> js \<Rightarrow> rgs_error + string" where
  "canonicalMoneyForProtocol positive (JString s) =
     (if 19 < length s \<or> \<not> MONEY_PATTERN s \<or> MAX_SIGNED_INT64 < BigInt s \<or> (positive \<and> s = ''0'')
      then deny ''must be a canonical signed-int64 decimal string'' else Inr s)"
| "canonicalMoneyForProtocol positive _ = deny ''must be a canonical signed-int64 decimal string''"

definition activeLedgerState ::
  "js_object \<Rightarrow> string \<Rightarrow> FeatureMode \<Rightarrow> int \<Rightarrow> int \<Rightarrow> int \<Rightarrow> int \<Rightarrow> rgs_error + FeatureState" where
  "activeLedgerState d ledgerBet m remaining done level collected =
     bindE (canonicalMoneyForProtocol True (getProp d ''baseBetMinor'')) (\<lambda>bet.
     bindE (canonicalMoneyForProtocol False (getProp d ''freeSpinsWinMinor'')) (\<lambda>win.
     if remaining < 1 \<or> 1000000 < remaining + done \<or> bet \<noteq> ledgerBet
     then deny ''has invalid active Free Spins counters or locked bet''
     else Inr \<lparr>mode = m, freeSpinsRemaining = remaining, freeSpinsPlayed = Some done,
       baseBetMinor = Some bet, freeSpinsWinMinor = Some win, rageLevel = level,
       rageCollected = collected\<rparr>))"

fun decodeLedgerFeatureState :: "js \<Rightarrow> string \<Rightarrow> rgs_error + FeatureState" where
  "decodeLedgerFeatureState (JObject o1) ledgerBet =
     (case isFeatureMode (getProp o1 ''mode'') of
        None \<Rightarrow> deny ''ledger.originFeatureState.mode is unsupported''
      | Some m \<Rightarrow>
        bindE (exactLedgerRecord (JObject o1)
          (if m = BASE then BASE_LEDGER_FEATURE_KEYS else ACTIVE_LEDGER_FEATURE_KEYS)) (\<lambda>d.
        bindE (ledgerInteger (getProp d ''freeSpinsRemaining'') 0) (\<lambda>remaining.
        bindE (ledgerInteger (getProp d ''freeSpinsPlayed'') 0) (\<lambda>done.
        bindE (ledgerInteger (getProp d ''rageLevel'') 1) (\<lambda>level.
        bindE (ledgerInteger (getProp d ''rageCollected'') 0) (\<lambda>collected.
        if collected = 0 \<and> level \<noteq> 1 then deny ''has a non-canonical empty Rage meter''
        else if m = BASE then
          (if remaining \<noteq> 0 \<or> done \<noteq> 0 then deny ''has a non-canonical Base projection''
           else Inr \<lparr>mode = m, freeSpinsRemaining = remaining, freeSpinsPlayed = Some done,
             baseBetMinor = None, freeSpinsWinMinor = None, rageLevel = level,
             rageCollected = collected\<rparr>)
        else activeLedgerState d ledgerBet m remaining done level collected))))))"
| "decodeLedgerFeatureState _ ledgerBet = deny ''ledger.originFeatureState must be an object''"

text \<open>The allowlisted literal: an absent optional field is a property with value \<open>undefined\<close>.\<close>

definition allowlisted :: "FeatureState \<Rightarrow> js" where
  "allowlisted s =
     JObject ([(''mode'', JString (mode_name (mode s))),
       (''freeSpinsRemaining'', JInt (freeSpinsRemaining s)),
       (''freeSpinsPlayed'', case freeSpinsPlayed s of None \<Rightarrow> JUndefined | Some n \<Rightarrow> JInt n),
       (''rageLevel'', JInt (rageLevel s)), (''rageCollected'', JInt (rageCollected s))]
      @ (if mode s = BASE then [] else
         [(''baseBetMinor'', case baseBetMinor s of None \<Rightarrow> JUndefined | Some b \<Rightarrow> JString b),
          (''freeSpinsWinMinor'', case freeSpinsWinMinor s of None \<Rightarrow> JUndefined | Some w \<Rightarrow> JString w)]))"

definition persistedLedgerFeatureState :: "FeatureState \<Rightarrow> string \<Rightarrow> rgs_error + FeatureState" where
  "persistedLedgerFeatureState s ledgerBet = decodeLedgerFeatureState (allowlisted s) ledgerBet"

fun textField :: "js \<Rightarrow> string option" where
  "textField (JString s) = Some s"
| "textField _ = None"

definition decodeLedgerCommon :: "js_object \<Rightarrow> rgs_error + LedgerCommon" where
  "decodeLedgerCommon d =
     (case (textField (getProp d ''bindingFingerprint''), textField (getProp d ''roundId''),
            textField (getProp d ''betMinor''), textField (getProp d ''startRevision'')) of
        (Some fingerprint, Some round1, Some _, Some _) \<Rightarrow>
          if \<not> DIGEST_PATTERN fingerprint \<or> \<not> (IDENTIFIER_PATTERN round1 \<and> length round1 \<le> 128)
          then deny ''persisted RGS recovery ledger contains invalid fields''
          else bindE (canonicalMoneyForProtocol True (getProp d ''betMinor'')) (\<lambda>bet.
            bindE (canonicalMoneyForProtocol False (getProp d ''startRevision'')) (\<lambda>rev1.
            Inr \<lparr>bindingFingerprint = fingerprint, ledger_roundId = round1,
              ledger_betMinor = bet, ledger_startRevision = rev1\<rparr>))
      | _ \<Rightarrow> deny ''persisted RGS recovery ledger contains invalid fields'')"

definition ledgerKeys :: "string \<Rightarrow> string list" where
  "ledgerKeys originKey =
     [''version'', ''bindingFingerprint'', ''roundId'', ''betMinor'', ''startRevision'', originKey]"

fun decodeLedger :: "js \<Rightarrow> rgs_error + RgsRecoveryLedger" where
  "decodeLedger (JObject o1) =
     (if getProp o1 ''version'' = JInt 1 then
        bindE (exactLedgerRecord (JObject o1) (ledgerKeys ''originMode'')) (\<lambda>d.
        bindE (decodeLedgerCommon d) (\<lambda>common.
        case isFeatureMode (getProp d ''originMode'') of
          None \<Rightarrow> deny ''persisted RGS recovery ledger contains invalid fields''
        | Some m \<Rightarrow> Inr (LedgerV1 common m)))
      else if getProp o1 ''version'' = JInt 2 then
        bindE (exactLedgerRecord (JObject o1) (ledgerKeys ''originFeatureState'')) (\<lambda>d.
        bindE (decodeLedgerCommon d) (\<lambda>common.
        bindE (decodeLedgerFeatureState (getProp d ''originFeatureState'') (ledger_betMinor common)) (\<lambda>s.
        Inr (LedgerV2 common s))))
      else deny ''persisted RGS recovery ledger version is unsupported'')"
| "decodeLedger _ = deny ''persisted RGS recovery ledger must be an object''"

section \<open>Storage\<close>

text \<open>The browser storage: item texts by key. A stored ledger is one JSON object.\<close>

type_synonym web_storage = "string \<rightharpoonup> string"

definition ledgerObject :: "LedgerCommon \<Rightarrow> FeatureState \<Rightarrow> js" where
  "ledgerObject c s = JObject [(''version'', JInt 2),
     (''bindingFingerprint'', JString (bindingFingerprint c)), (''roundId'', JString (ledger_roundId c)),
     (''betMinor'', JString (ledger_betMinor c)), (''startRevision'', JString (ledger_startRevision c)),
     (''originFeatureState'', allowlisted s)]"

definition ledgerLoad ::
  "(string \<Rightarrow> js option) \<Rightarrow> string \<Rightarrow> web_storage \<Rightarrow> rgs_error + js option" where
  "ledgerLoad JSON_parse key st = (case st key of
       None \<Rightarrow> Inr None
     | Some encoded \<Rightarrow> (case JSON_parse encoded of
         None \<Rightarrow> deny ''persisted RGS recovery ledger is not valid JSON''
       | Some v \<Rightarrow> Inr (Some v)))"

definition ledgerSave ::
  "(js \<Rightarrow> string) \<Rightarrow> string \<Rightarrow> LedgerCommon \<Rightarrow> FeatureState \<Rightarrow> web_storage
     \<Rightarrow> rgs_error + web_storage" where
  "ledgerSave JSON_stringify key c s st =
     bindE (persistedLedgerFeatureState s (ledger_betMinor c)) (\<lambda>origin.
     Inr (st(key \<mapsto> JSON_stringify (ledgerObject c origin))))"

definition ledgerClear :: "string \<Rightarrow> web_storage \<Rightarrow> web_storage" where
  "ledgerClear key st = st(key := None)"

section \<open>Comparing and reconstructing origins\<close>

definition sameFeatureState :: "FeatureState \<Rightarrow> FeatureState \<Rightarrow> bool" where
  "sameFeatureState left right =
     (mode left = mode right
      \<and> freeSpinsRemaining left = freeSpinsRemaining right
      \<and> played left = played right
      \<and> baseBetMinor left = baseBetMinor right
      \<and> freeSpinsWinMinor left = freeSpinsWinMinor right
      \<and> rageLevel left = rageLevel right
      \<and> rageCollected left = rageCollected right)"

definition addRevision :: "string \<Rightarrow> int \<Rightarrow> rgs_error + string" where
  "addRevision revision increment =
     (let result = BigInt revision + increment in
      if result < 0 \<or> MAX_SIGNED_INT64 < result then deny ''RGS revision overflow''
      else Inr (toString result))"

definition subtractMoney :: "string \<Rightarrow> string \<Rightarrow> rgs_error + string" where
  "subtractMoney left right =
     (let result = BigInt left - BigInt right in
      if result < 0 \<or> MAX_SIGNED_INT64 < result then deny ''cannot be reconstructed safely''
      else Inr (toString result))"

text \<open>The meter (level, collected) a Base result proves for its origin.\<close>

definition provableLegacyRageOriginForBase :: "SpinResult \<Rightarrow> rgs_error + int \<times> int" where
  "provableLegacyRageOriginForBase result =
     (case eventOfType (events result) surge_collected of
        Some (SurgeCollected count cells triggered guaranteed level tot) \<Rightarrow>
          if count \<noteq> 3
          then deny ''committed v1 Base recovery cannot reconstruct a one/two-Rage origin safely''
          else Inr (level, tot)
      | _ \<Rightarrow> Inr (rageLevel (featureState result), rageCollected (featureState result)))"

definition activeOrigin ::
  "string \<Rightarrow> FeatureMode \<Rightarrow> int \<Rightarrow> SpinResult \<Rightarrow> rgs_error + FeatureState" where
  "activeOrigin bet originMode awardedThisRound result =
     (let next1 = featureState result;
          remaining = freeSpinsRemaining next1 + 1 - awardedThisRound in
      case (freeSpinsPlayed next1, freeSpinsWinMinor next1) of
        (Some n, Some runningWin) \<Rightarrow>
          if n < 1 \<or> remaining < 1 then deny ''active Free Spins origin cannot be reconstructed''
          else bindE (subtractMoney runningWin (totalWinMinor result)) (\<lambda>win.
            Inr \<lparr>mode = originMode, freeSpinsRemaining = remaining, freeSpinsPlayed = Some (n - 1),
              baseBetMinor = Some bet, freeSpinsWinMinor = Some win,
              rageLevel = rageLevel next1, rageCollected = rageCollected next1\<rparr>)
      | _ \<Rightarrow> deny ''active Free Spins origin cannot be reconstructed'')"

definition terminalOrigin ::
  "string \<Rightarrow> FeatureMode \<Rightarrow> int \<Rightarrow> SpinResult \<Rightarrow> rgs_error + FeatureState" where
  "terminalOrigin bet originMode awardedThisRound result =
     (case eventOfType (events result) free_spins_completed of
        Some (FreeSpinsCompleted m awarded cumulative) \<Rightarrow>
          if m \<noteq> originMode \<or> awardedThisRound \<noteq> 0
          then deny ''terminal Free Spins origin cannot be reconstructed''
          else bindE (subtractMoney cumulative (totalWinMinor result)) (\<lambda>win.
            Inr \<lparr>mode = originMode, freeSpinsRemaining = 1, freeSpinsPlayed = Some (awarded - 1),
              baseBetMinor = Some bet, freeSpinsWinMinor = Some win,
              rageLevel = rageLevel (featureState result),
              rageCollected = rageCollected (featureState result)\<rparr>)
      | _ \<Rightarrow> deny ''terminal Free Spins origin cannot be reconstructed'')"

definition reconstructOriginFeatureState ::
  "FeatureState option \<Rightarrow> RgsRecoveryLedger \<Rightarrow> SpinResult \<Rightarrow> rgs_error + FeatureState" where
  "reconstructOriginFeatureState pendingOrigin ledger result =
     (case pendingOrigin of
        Some s \<Rightarrow> Inr s
      | None \<Rightarrow>
        let originMode = ledgerOriginMode ledger;
            bet = ledger_betMinor (ledger_common ledger);
            awardedThisRound = sum_list (map awardedCount (events result)) in
        if originMode = BASE then
          bindE (provableLegacyRageOriginForBase result) (\<lambda>(level, collected).
          Inr \<lparr>mode = BASE, freeSpinsRemaining = 0, freeSpinsPlayed = Some 0, baseBetMinor = None,
            freeSpinsWinMinor = None, rageLevel = level, rageCollected = collected\<rparr>)
        else if mode (featureState result) = originMode
        then activeOrigin bet originMode awardedThisRound result
        else terminalOrigin bet originMode awardedThisRound result)"

end
