(* ===== verification/Recovery_Properties.thy ===== *)
theory Recovery_Properties
  imports Recovery_Ledger Samples
begin

text \<open>
  The recovery ledger keeps what it was given: the strict decoder accepts exactly the ledgers
  of its format, a saved ledger loads back, and the origin reconstructed for a legacy ledger is
  the origin the result was validated against.
\<close>

section \<open>Origins a ledger may carry\<close>

definition ledger_state :: "string \<Rightarrow> FeatureState \<Rightarrow> bool" where
  "ledger_state bet s =
     (canonicalState s \<and> (rageCollected s = 0 \<longrightarrow> rageLevel s = 1)
      \<and> freeSpinsRemaining s \<le> 1000000
      \<and> (mode s \<noteq> BASE \<longrightarrow> baseBetMinor s = Some bet))"

lemma ledgerInteger_Inr [accept]:
  "ledgerInteger v lo = Inr i \<longleftrightarrow> v = JInt i \<and> safe_int i \<and> lo \<le> i \<and> i \<le> 1000000"
proof (cases v)
  case (JNumber n)
  then show ?thesis by (cases n) auto
qed simp_all

lemma canonicalMoney_Inr [accept]:
  "canonicalMoneyForProtocol p v = Inr s \<longleftrightarrow>
     v = JString s \<and> (if p then positive_money s else money_ok s)"
  by (cases v) (auto simp: positive_money_def money_ok_def)

lemma canonicalMoney_of:
  "positive_money s \<Longrightarrow> canonicalMoneyForProtocol True (JString s) = Inr s"
  "money_ok s \<Longrightarrow> canonicalMoneyForProtocol False (JString s) = Inr s"
  by (simp_all add: accept del: canonicalMoneyForProtocol.simps)

lemma exactLedgerRecord_Inr [accept]:
  "exactLedgerRecord v ks = Inr d \<longleftrightarrow>
     v = JObject d \<and> length (Object_keys d) = length ks \<and> list_all (hasOwn d) ks"
  by (cases v) (auto simp: list_all_iff list_ex_iff)

lemma isFeatureMode_Some: "isFeatureMode v = Some m \<longleftrightarrow> v = JString (mode_name m)"
  by (cases v) (auto simp: mode_of_name_Some)

lemma activeLedgerState_sound:
  "activeLedgerState d bet m remaining n level collected = Inr s \<Longrightarrow> m \<noteq> BASE \<Longrightarrow>
     0 \<le> n \<Longrightarrow> 1 \<le> level \<Longrightarrow> level \<le> 1000000 \<Longrightarrow> 0 \<le> collected \<Longrightarrow> collected \<le> 1000000 \<Longrightarrow>
     (collected = 0 \<longrightarrow> level = 1) \<Longrightarrow> ledger_state bet s"
  unfolding activeLedgerState_def
  by (elim accepted) (auto simp: accept ledger_state_def canonicalState_def)

lemma ledgerState_sound:
  assumes "decodeLedgerFeatureState v bet = Inr s"
  shows "ledger_state bet s"
proof -
  from assms obtain o1 m where v: "v = JObject o1" "isFeatureMode (getProp o1 ''mode'') = Some m"
    by (cases v) (auto split: option.splits)
  from assms show ?thesis
    unfolding v(1) decodeLedgerFeatureState.simps v(2) option.case
    apply (elim accepted)
    apply (cases "m = BASE")
     apply (simp only: simp_thms if_True, elim accepted)
     apply (auto simp: ledgerInteger_Inr ledger_state_def canonicalState_def) [1]
    apply (simp only: simp_thms if_False)
    apply (erule activeLedgerState_sound)
    apply (auto simp: ledgerInteger_Inr)
    done
qed

lemma ledgerState_complete:
  assumes "ledger_state bet s"
  shows "decodeLedgerFeatureState (allowlisted s) bet = Inr s"
proof -
  have "canonicalState s" using assms by (simp add: ledger_state_def)
  then show ?thesis
  proof (cases rule: canonicalState_cases)
    case (none level collected)
    with assms show ?thesis
      by (simp add: allowlisted_def ledger_state_def bounded_def BASE_LEDGER_FEATURE_KEYS_def
          safe_int_def MAX_SAFE_INTEGER_def mode_of_name_def)
  next
    case (active m remaining n b w level collected)
    from active assms have "b = bet" by (simp add: ledger_state_def)
    with active assms show ?thesis
      by (simp add: allowlisted_def ledger_state_def bounded_def BASE_LEDGER_FEATURE_KEYS_def
          ACTIVE_LEDGER_FEATURE_KEYS_def activeLedgerState_def canonicalMoney_of
          safe_int_def MAX_SAFE_INTEGER_def del: canonicalMoneyForProtocol.simps mode_name.simps)
  qed
qed

interpretation ledger_state: codec "\<lambda>v. decodeLedgerFeatureState v bet" allowlisted "ledger_state bet" for bet
  by unfold_locales (fact ledgerState_sound ledgerState_complete)+

text \<open>What is persisted is the state itself, with the unused money of a Base state dropped.\<close>

lemma persisted_state:
  "persistedLedgerFeatureState s bet = Inr s' \<Longrightarrow>
     ledger_state bet s'
     \<and> s' = (if mode s = BASE then s\<lparr>baseBetMinor := None, freeSpinsWinMinor := None\<rparr> else s)"
  using ledgerState_sound [of "allowlisted s" bet s']
  by (cases s)
    (auto simp: persistedLedgerFeatureState_def allowlisted_def activeLedgerState_def accept
      isFeatureMode_Some BASE_LEDGER_FEATURE_KEYS_def ACTIVE_LEDGER_FEATURE_KEYS_def
      split: option.splits if_splits)

section \<open>Ledgers\<close>

definition wf_common :: "LedgerCommon \<Rightarrow> bool" where
  "wf_common c = (DIGEST_PATTERN (bindingFingerprint c) \<and> identifier_ok (ledger_roundId c)
     \<and> positive_money (ledger_betMinor c) \<and> money_ok (ledger_startRevision c))"

fun wf_ledger :: "RgsRecoveryLedger \<Rightarrow> bool" where
  "wf_ledger (LedgerV2 c s) = (wf_common c \<and> ledger_state (ledger_betMinor c) s)"
| "wf_ledger (LedgerV1 c m) = wf_common c"

lemma textField_Some [simp]: "textField v = Some s \<longleftrightarrow> v = JString s"
  by (cases v) auto

lemma ledgerCommon_sound: "decodeLedgerCommon d = Inr c \<Longrightarrow> wf_common c"
  by (auto simp: decodeLedgerCommon_def accept wf_common_def identifier_ok_def positive_money_def
      money_ok_def split: option.splits if_splits)

lemma ledgerCommon_complete:
  assumes "wf_common c"
    and "getProp d ''bindingFingerprint'' = JString (bindingFingerprint c)"
      "getProp d ''roundId'' = JString (ledger_roundId c)"
      "getProp d ''betMinor'' = JString (ledger_betMinor c)"
      "getProp d ''startRevision'' = JString (ledger_startRevision c)"
  shows "decodeLedgerCommon d = Inr c"
  using assms
  by (simp add: decodeLedgerCommon_def wf_common_def identifier_ok_def canonicalMoney_of
      del: canonicalMoneyForProtocol.simps)

fun encodeLedger :: "RgsRecoveryLedger \<Rightarrow> js" where
  "encodeLedger (LedgerV2 c s) = ledgerObject c s"
| "encodeLedger (LedgerV1 c m) = JObject [(''version'', JInt 1),
     (''bindingFingerprint'', JString (bindingFingerprint c)), (''roundId'', JString (ledger_roundId c)),
     (''betMinor'', JString (ledger_betMinor c)), (''startRevision'', JString (ledger_startRevision c)),
     (''originMode'', JString (mode_name m))]"

interpretation ledger: codec decodeLedger encodeLedger wf_ledger
proof unfold_locales
  fix v l
  assume "decodeLedger v = Inr l"
  then show "wf_ledger l"
    apply (cases v)
    apply (auto simp: accept split: if_splits option.splits)
    apply (erule ledgerCommon_sound ledgerState_sound)+
    done
next
  fix l
  assume wf: "wf_ledger l"
  show "decodeLedger (encodeLedger l) = Inr l"
  proof (cases l)
    case (LedgerV2 c s)
    with wf have "decodeLedgerFeatureState (allowlisted s) (ledger_betMinor c) = Inr s"
      by (simp add: ledger_state.complete)
    moreover have "decodeLedgerCommon [(''version'', JInt 2),
        (''bindingFingerprint'', JString (bindingFingerprint c)), (''roundId'', JString (ledger_roundId c)),
        (''betMinor'', JString (ledger_betMinor c)), (''startRevision'', JString (ledger_startRevision c)),
        (''originFeatureState'', allowlisted s)] = Inr c"
      using wf LedgerV2 by (intro ledgerCommon_complete) simp_all
    ultimately show ?thesis
      using LedgerV2 by (simp add: ledgerObject_def ledgerKeys_def)
  next
    case (LedgerV1 c m)
    have "decodeLedgerCommon [(''version'', JInt 1),
        (''bindingFingerprint'', JString (bindingFingerprint c)), (''roundId'', JString (ledger_roundId c)),
        (''betMinor'', JString (ledger_betMinor c)), (''startRevision'', JString (ledger_startRevision c)),
        (''originMode'', JString (mode_name m))] = Inr c"
      using wf LedgerV1 by (intro ledgerCommon_complete) simp_all
    then show ?thesis
      using LedgerV1 by (simp add: ledgerKeys_def del: mode_name.simps)
  qed
qed


definition sampleLedger :: LedgerCommon where
  "sampleLedger = \<lparr>bindingFingerprint = replicate 64 (CHR ''a''), ledger_roundId = ''round-1'',
     ledger_betMinor = ''100'', ledger_startRevision = ''7''\<rparr>"


section \<open>Reconstructed origins\<close>

lemma awarded_sum: "sum_list (map awardedCount (events r)) = spinAwards r"
proof -
  have "sum_list (map awardedCount evs) = sum_list (map awardedCount (eventsOfType evs free_spin_awarded))"
    for evs
  proof (induction evs)
    case Nil
    then show ?case by (simp add: eventsOfType_def)
  next
    case (Cons e evs)
    then show ?case by (cases e) (simp_all add: eventsOfType_def)
  qed
  then show ?thesis by (simp add: spinAwards_def)
qed

lemma spinAwards_nonneg: "accepts s r \<Longrightarrow> mode s \<noteq> BASE \<Longrightarrow> 0 \<le> spinAwards r"
proof -
  assume "accepts s r" "mode s \<noteq> BASE"
  then have "\<forall>e \<in> set (eventsOfType (events r) free_spin_awarded). awardedCount e = 1"
    using accepts_parts(6) [of s r]
    by (auto simp: validateFreeSpinsOrigin_def Let_def accept list_ex_iff)
  then show "0 \<le> spinAwards r" unfolding spinAwards_def by (auto intro!: sum_list_nonneg)
qed

lemma subtract_added:
  assumes "money_ok w" shows "subtractMoney (addMoney (Some w) t) t = Inr w"
  using money_ok_bounds [OF assms] toString_BigInt [OF money_ok_canonical [OF assms]]
  by (simp add: subtractMoney_def addMoney_def Let_def)

lemma free_origin:
  assumes acc: "accepts s r" and ls: "ledger_state bet s" and m: "mode s \<noteq> BASE"
    and l: "ledgerOriginMode l = mode s" "ledger_betMinor (ledger_common l) = bet"
  shows "reconstructOriginFeatureState None l r = Inr s"
proof -
  from ls m obtain n w where s: "freeSpinsPlayed s = Some n" "baseBetMinor s = Some bet"
      "freeSpinsWinMinor s = Some w" "0 \<le> n" "1 \<le> freeSpinsRemaining s" "money_ok w"
    by (auto simp: ledger_state_def elim!: canonicalState_cases)
  have p: "played s = n" using s by (simp add: played_def)
  note f = free_spin_facts [OF acc m]
  show ?thesis
  proof (cases "0 < freeSpinsRemaining s - 1 + spinAwards r")
    case True
    note c = counters_active [OF f(5) True]
    have "freeSpinsPlayed (featureState r) = Some (n + 1)"
      using f(5) True p by (auto simp: validateFreeSpinCounters_def Let_def accept spinAwards_def)
    with c s p f l m show ?thesis
      by (cases s) (simp add: reconstructOriginFeatureState_def activeOrigin_def awarded_sum subtract_added)
  next
    case False
    note c = counters_terminal [OF f(5) False]
    have "spinAwards r = 0" "freeSpinsRemaining s = 1"
      using c(2) s(5) spinAwards_nonneg [OF acc m] by linarith+
    with c s p f l m show ?thesis
      by (cases s) (simp add: reconstructOriginFeatureState_def terminalOrigin_def awarded_sum subtract_added)
  qed
qed

lemma eventOfType_hd:
  "eventOfType evs t = (case eventsOfType evs t of [] \<Rightarrow> None | e # es \<Rightarrow> Some e)"
  by (induction evs) (auto simp: eventOfType_def eventsOfType_def)

lemma base_meter:
  assumes acc: "accepts s r" and m: "mode s = BASE"
    and n: "n = length (positionsForSymbol (result_grid r) SURGE)"
  shows "if n = 0 \<or> n = 3 then provableLegacyRageOriginForBase r = Inr (rageLevel s, rageCollected s)
    else \<exists>e. provableLegacyRageOriginForBase r = Inl e"
proof (cases "positionsForSymbol (result_grid r) SURGE = []")
  case True
  then have z: "rageEventCount (events r) = 0" "rageCollected (featureState r) = rageCollected s"
    "rageLevel (featureState r) = rageLevel s"
    using accepts_parts(4) [OF acc] m
    by (auto simp: validateRageEventsAgainstOrigin_def Let_def accept)
  then have "eventsOfType (events r) surge_collected = []" by (simp add: rageEventCount_def)
  with z n True show ?thesis
    by (simp add: provableLegacyRageOriginForBase_def eventOfType_hd)
next
  case False
  with accepts_parts(4) [OF acc] m
  have "settledRage s r (positionsForSymbol (result_grid r) SURGE) = Inr ()"
    by (simp add: validateRageEventsAgainstOrigin_def Let_def)
  then obtain count cells triggered guaranteed level tot es where
    e: "eventsOfType (events r) surge_collected
          = SurgeCollected count cells triggered guaranteed level tot # es"
    and c: "\<not> collectionMismatch s (positionsForSymbol (result_grid r) SURGE) count cells triggered
          guaranteed level tot"
    and l: "int n = 3 \<longrightarrow> level = rageLevel s"
    by (auto simp: settledRage_def Let_def accept n split: list.splits FeatureEvent.splits if_splits)
  from c have "count = int n" "int n = 3 \<longrightarrow> tot = rageCollected s"
    by (auto simp: collectionMismatch_def Let_def n)
  with e l False n show ?thesis
    by (auto simp: provableLegacyRageOriginForBase_def eventOfType_hd)
qed

text \<open>
  C13: when a legacy ledger does not hold the origin, the origin reconstructed from an accepted
  committed result is exactly the state the spin was submitted in. Only a Base result with one
  or two settled Rage symbols is refused: its level no longer proves the meter of its origin.
\<close>

theorem legacy_origin_reconstructed:
  assumes "accepts origin result" and "ledger_state bet origin"
    and "ledgerOriginMode l = mode origin" and "ledger_betMinor (ledger_common l) = bet"
    and "n = length (positionsForSymbol (result_grid result) SURGE)"
  shows "if mode origin \<noteq> BASE \<or> n = 0 \<or> n = 3
    then reconstructOriginFeatureState None l result = Inr origin
    else \<exists>e. reconstructOriginFeatureState None l result = Inl e"
proof (cases "mode origin = BASE")
  case True
  have "canonicalState origin" using assms(2) by (simp add: ledger_state_def)
  then have "origin = \<lparr>mode = BASE, freeSpinsRemaining = 0, freeSpinsPlayed = Some 0,
      baseBetMinor = None, freeSpinsWinMinor = None, rageLevel = rageLevel origin,
      rageCollected = rageCollected origin\<rparr>"
    by (cases rule: canonicalState_cases) (use True in auto)
  with base_meter [OF assms(1) True assms(5)] True assms(3) show ?thesis
    by (auto simp: reconstructOriginFeatureState_def split: if_splits)
next
  case False
  then show ?thesis using free_origin [OF assms(1,2) False assms(3,4)] by simp
qed

lemma king_origin: "accepts (kingState 8 0 ''500'') kingResult"
  unfolding accepts_def by code_simp

theorem legacy_origin_reconstructed_witness:
  "reconstructOriginFeatureState None (LedgerV1 sampleLedger OVERDRIVE) kingResult
     = Inr (kingState 8 0 ''500'')"
proof -
  have k: "ledger_state ''100'' (kingState 8 0 ''500'')" by code_simp
  have m: "mode (kingState 8 0 ''500'') = OVERDRIVE" by (simp add: kingState_def)
  show ?thesis
    using legacy_origin_reconstructed [OF king_origin k, of "LedgerV1 sampleLedger OVERDRIVE"] m
    by (simp add: sampleLedger_def)
qed

end
