(* ===== verification/Gateway_Http.thy ===== *)
theory Gateway_Http
  imports Rgs_Decoder Complex_Main
begin

text \<open>
  The transport rules of \<open>protocol/RgsGateway.ts\<close>: which HTTP answers are values, which
  are errors and of what kind, how long a retry waits, and when an access token is refreshed.
  Times are milliseconds as exact rationals: the browser's monotonic clock has decimals.
  \<open>Date.parse\<close>, \<open>toUTCString\<close>, \<open>JSON.parse\<close> and \<open>atob\<close> are parameters.
\<close>

type_synonym ms = rat

definition MAX_ADMISSION_RETRY_AFTER_MS :: rat where
  "MAX_ADMISSION_RETRY_AFTER_MS = 1000000"

definition MAX_TIMER_DELAY_MS :: rat where
  "MAX_TIMER_DELAY_MS = 2147483647"

definition EDGE_RATE_LIMITED :: string where
  "EDGE_RATE_LIMITED = ''RATE_LIMITED''"

section \<open>Errors\<close>

text \<open>
  The error classes the handlers tell apart: an HTTP error (status, request, code, message,
  retry delay), a network failure (timed out, request), a protocol violation, a result the
  origin guard refuses, a failed delivery to the controller, an aborted request and any
  other exception.
\<close>

datatype gateway_error =
    RgsHttpError int string string string "ms option"
  | RgsNetworkError bool string
  | ProtocolError rgs_error
  | RgsDeliveryError
  | OtherError

abbreviation protocol :: "string \<Rightarrow> gateway_error + 'a" where
  "protocol s \<equiv> Inl (ProtocolError (RgsProtocolError s))"

definition liftE :: "rgs_error + 'a \<Rightarrow> gateway_error + 'a" where
  "liftE m = (case m of Inl e \<Rightarrow> Inl (ProtocolError e) | Inr x \<Rightarrow> Inr x)"

text \<open>The tests the handlers make on an error (\<open>retryableHttp\<close> on HTTP errors only).\<close>

fun retryableHttp :: "gateway_error \<Rightarrow> bool" where
  "retryableHttp (RgsHttpError status request code1 message retry) =
     (status = 202 \<or> status = 429 \<or> 500 \<le> status)"
| "retryableHttp _ = False"

fun provablyPreTransaction :: "gateway_error \<Rightarrow> bool" where
  "provablyPreTransaction (RgsHttpError status request code1 message retry) =
     (status = 429 \<and> code1 = ''RATE_LIMITED''
      \<or> status = 503 \<and> (code1 = ''ADMISSION_UNAVAILABLE'' \<or> code1 = ''WALLET_UNAVAILABLE''
           \<or> code1 = ''CAPACITY_UNAVAILABLE''))"
| "provablyPreTransaction _ = False"

fun unrecoverableRefreshAuthorization :: "gateway_error \<Rightarrow> bool" where
  "unrecoverableRefreshAuthorization (RgsHttpError status request code1 message retry) =
     (status = 401 \<or> status = 403 \<or> status = 410 \<or> status = 423)"
| "unrecoverableRefreshAuthorization _ = False"

fun isNetworkError :: "gateway_error \<Rightarrow> bool" where
  "isNetworkError (RgsNetworkError timedOut request) = True"
| "isNetworkError _ = False"

fun retryAfterOf :: "gateway_error \<Rightarrow> ms option" where
  "retryAfterOf (RgsHttpError status request code1 message retry) = retry"
| "retryAfterOf _ = None"

fun serverError :: "gateway_error \<Rightarrow> string option \<Rightarrow> string option \<Rightarrow> ServerError option" where
  "serverError (RgsHttpError status request code1 message retry) sid round1 =
     Some \<lparr>error_requestId = Some request, error_sessionId = sid, error_roundId = round1,
       error_code = code1, error_message = message,
       retryable = retryableHttp (RgsHttpError status request code1 message retry)\<rparr>"
| "serverError _ sid round1 = None"

section \<open>Retry-After\<close>

definition isInteger :: "rat \<Rightarrow> bool" where
  "isInteger q = (of_int \<lfloor>q\<rfloor> = q)"

definition isSafeInteger :: "rat \<Rightarrow> bool" where
  "isSafeInteger q = (isInteger q \<and> \<bar>q\<bar> \<le> of_int MAX_SAFE_INTEGER)"

text \<open>\<open>/^[1-9][0-9]{0,5}$/\<close> and the pattern of an IMF-fixdate.\<close>

definition SECONDS_PATTERN :: "string \<Rightarrow> bool" where
  "SECONDS_PATTERN s = (POSITIVE_MONEY_PATTERN s \<and> length s \<le> 6)"

definition digits :: "nat \<Rightarrow> string \<Rightarrow> bool" where
  "digits n s = (length s = n \<and> list_all is_digit s)"

definition IMF_FIXDATE_PATTERN :: "string \<Rightarrow> bool" where
  "IMF_FIXDATE_PATTERN s =
     (length s = 29
      \<and> take 3 s \<in> {''Mon'', ''Tue'', ''Wed'', ''Thu'', ''Fri'', ''Sat'', ''Sun''}
      \<and> take 2 (drop 3 s) = '', ''
      \<and> digits 2 (take 2 (drop 5 s)) \<and> s ! 7 = CHR '' ''
      \<and> take 3 (drop 8 s) \<in> {''Jan'', ''Feb'', ''Mar'', ''Apr'', ''May'', ''Jun'', ''Jul'', ''Aug'',
          ''Sep'', ''Oct'', ''Nov'', ''Dec''}
      \<and> s ! 11 = CHR '' ''
      \<and> digits 4 (take 4 (drop 12 s)) \<and> s ! 16 = CHR '' ''
      \<and> digits 2 (take 2 (drop 17 s)) \<and> s ! 19 = CHR '':''
      \<and> digits 2 (take 2 (drop 20 s)) \<and> s ! 22 = CHR '':''
      \<and> digits 2 (take 2 (drop 23 s))
      \<and> drop 25 s = '' GMT'')"

definition admissible :: "rat \<Rightarrow> bool" where
  "admissible delay =
     (isSafeInteger delay \<and> 1000 \<le> delay \<and> delay \<le> MAX_ADMISSION_RETRY_AFTER_MS)"

definition safeRetryAfterMs ::
  "(string \<Rightarrow> int option) \<Rightarrow> (int \<Rightarrow> string) \<Rightarrow> string option \<Rightarrow> ms \<Rightarrow> ms option" where
  "safeRetryAfterMs Date_parse toUTCString value now =
     (case value of
        None \<Rightarrow> None
      | Some s \<Rightarrow>
        if SECONDS_PATTERN s then
          (let delay = of_int (BigInt s) * 1000 in if admissible delay then Some delay else None)
        else if IMF_FIXDATE_PATTERN s then
          (case Date_parse s of
             None \<Rightarrow> None
           | Some parsed \<Rightarrow>
             if toUTCString parsed \<noteq> s then None
             else let delay = of_int parsed - now in if admissible delay then Some delay else None)
        else None)"

section \<open>Retry delays\<close>

text \<open>\<open>Number.EPSILON\<close>.\<close>

definition EPSILON :: rat where
  "EPSILON = 1 / 4503599627370496"

text \<open>The jitter sample: \<open>None\<close> when the source throws or is not finite.\<close>

definition distributedRetryDelayMs :: "ms \<Rightarrow> ms \<Rightarrow> rat option \<Rightarrow> ms" where
  "distributedRetryDelayMs exponentialDelay minimumDelay sample =
     (let flr = max 0 (max exponentialDelay minimumDelay) in
      if flr = 0 then 0
      else let unit = (case sample of None \<Rightarrow> 1 / 2 | Some c \<Rightarrow> min (1 - EPSILON) (max 0 c));
               spread = min 1000 (max 1 (of_int \<lfloor>flr\<rfloor>)) in
           min MAX_TIMER_DELAY_MS (flr + of_int \<lfloor>spread * unit\<rfloor>))"

definition acknowledgementDelayMs :: "ms \<Rightarrow> ms \<Rightarrow> int \<Rightarrow> ms" where
  "acknowledgementDelayMs maxDelay baseDelay attempts =
     min maxDelay (baseDelay * 2 ^ nat (min (attempts - 1) 10))"

definition pollDelay :: "ms \<Rightarrow> int \<Rightarrow> ms" where
  "pollDelay base attempts = min 8000 (base * 2 ^ nat (min attempts 5))"

definition refreshBackoffMs :: "int \<Rightarrow> ms" where
  "refreshBackoffMs attempt = min 30000 (1000 * 2 ^ nat (min attempt 5))"

definition configuredInteger :: "int option \<Rightarrow> int \<Rightarrow> int \<Rightarrow> int \<Rightarrow> int option" where
  "configuredInteger value fallback minimum maximum =
     (let decoded = (case value of None \<Rightarrow> fallback | Some v \<Rightarrow> v) in
      if \<not> safe_int decoded \<or> decoded < minimum \<or> maximum < decoded then None else Some decoded)"

section \<open>Token lifetime\<close>

fun splitOn :: "char \<Rightarrow> string \<Rightarrow> string list" where
  "splitOn c [] = [[]]"
| "splitOn c (x # xs) = (if x = c then [] # splitOn c xs
     else case splitOn c xs of [] \<Rightarrow> [[x]] | y # ys \<Rightarrow> (x # y) # ys)"

definition fromBase64Url :: "string \<Rightarrow> string" where
  "fromBase64Url s =
     (let encoded = map (\<lambda>c. if c = CHR ''-'' then CHR ''+'' else if c = CHR ''_'' then CHR ''/'' else c) s in
      encoded @ replicate ((4 - length encoded mod 4) mod 4) (CHR ''=''))"

fun claimSeconds :: "js \<Rightarrow> int option" where
  "claimSeconds (JNumber n) = safeInteger n"
| "claimSeconds _ = None"

text \<open>Issue and expiry in milliseconds; \<open>atob\<close> and \<open>JSON.parse\<close> yield \<open>None\<close> when they throw.\<close>

definition compactTokenLifetime ::
  "(string \<Rightarrow> string option) \<Rightarrow> (string \<Rightarrow> js option) \<Rightarrow> string \<Rightarrow> (int \<times> int) option" where
  "compactTokenLifetime atob JSON_parse token =
     (case splitOn (CHR ''.'') token of
        [_, part, _] \<Rightarrow>
          (case Option.bind (atob (fromBase64Url part)) JSON_parse of
             Some (JObject claims) \<Rightarrow>
               (case (claimSeconds (getProp claims ''iat''), claimSeconds (getProp claims ''exp'')) of
                  (Some iat, Some expiry) \<Rightarrow>
                    if expiry \<le> iat then None else Some (iat * 1000, expiry * 1000)
                | _ \<Rightarrow> None)
           | _ \<Rightarrow> None)
      | _ \<Rightarrow> None)"

text \<open>\<open>0.8\<close> of a multiple of 1000 is an integer, so the floor is exact.\<close>

definition refreshDelayMs :: "(int \<times> int) option \<Rightarrow> ms \<Rightarrow> ms option" where
  "refreshDelayMs lifetime now =
     (case lifetime of
        None \<Rightarrow> None
      | Some (issued, expires) \<Rightarrow>
        let target = min (issued + (expires - issued) * 4 div 5) (expires - 30000) in
        Some (max 1000 (min MAX_TIMER_DELAY_MS (of_int target - now))))"

definition tokenRefreshDelayMs ::
  "(string \<Rightarrow> string option) \<Rightarrow> (string \<Rightarrow> js option) \<Rightarrow> string \<Rightarrow> ms \<Rightarrow> ms option" where
  "tokenRefreshDelayMs atob JSON_parse token now =
     refreshDelayMs (compactTokenLifetime atob JSON_parse token) now"

section \<open>HTTP answers\<close>

text \<open>Reading a response body: its text, over the limit, not decodable, or interrupted.\<close>

datatype body_outcome = BodyText string | BodyTooLarge | BodyUndecodable | BodyInterrupted

record http_response =
  http_status :: int
  http_header :: "string \<Rightarrow> string option"
  http_body :: body_outcome

text \<open>How a request ended: the response, and whether the gateway closed it or it timed out.\<close>

record exchange_outcome =
  fetched :: "http_response option"
  gateway_closed :: bool
  request_aborted :: bool
  request_timedOut :: bool

definition isJsonContentType :: "http_response \<Rightarrow> bool" where
  "isJsonContentType r =
     (case http_header r ''Content-Type'' of
        None \<Rightarrow> False
      | Some s \<Rightarrow> toLowerCase (trim (takeWhile (\<lambda>c. c \<noteq> CHR '';'') s)) = ''application/json'')"

definition throwIfEdgeRateLimited ::
  "(string \<Rightarrow> int option) \<Rightarrow> (int \<Rightarrow> string) \<Rightarrow> http_response \<Rightarrow> string \<Rightarrow> ms \<Rightarrow> gateway_error + unit" where
  "throwIfEdgeRateLimited Date_parse toUTCString r request now =
     (if http_status r \<noteq> 429 \<or> http_header r ''X-RGS-Edge-Error'' \<noteq> Some EDGE_RATE_LIMITED then Inr ()
      else case safeRetryAfterMs Date_parse toUTCString (http_header r ''Retry-After'') now of
        None \<Rightarrow> protocol ''RGS edge rate limit response has an unsafe Retry-After''
      | Some delay \<Rightarrow> Inl (RgsHttpError 429 request EDGE_RATE_LIMITED
          ''RGS edge admission is temporarily rate limited'' (Some delay)))"

text \<open>A failed \<open>fetch\<close> or an interrupted body: rethrown when the gateway itself ended the request.\<close>

definition interrupted :: "exchange_outcome \<Rightarrow> string \<Rightarrow> gateway_error" where
  "interrupted x request =
     (if gateway_closed x \<or> request_aborted x \<and> \<not> request_timedOut x then OtherError
      else RgsNetworkError (request_timedOut x) request)"

definition bodyTextOf :: "exchange_outcome \<Rightarrow> string \<Rightarrow> http_response \<Rightarrow> gateway_error + string" where
  "bodyTextOf x request r = (case http_body r of
       BodyText s \<Rightarrow> Inr s
     | BodyTooLarge \<Rightarrow> protocol ''RGS response body exceeds the 4 MiB safety limit''
     | BodyUndecodable \<Rightarrow> protocol ''RGS response body cannot be decoded safely''
     | BodyInterrupted \<Rightarrow> Inl (interrupted x request))"

definition response_ok :: "http_response \<Rightarrow> bool" where
  "response_ok r = (200 \<le> http_status r \<and> http_status r \<le> 299)"

definition httpFailure ::
  "(string \<Rightarrow> int option) \<Rightarrow> (int \<Rightarrow> string) \<Rightarrow> http_response \<Rightarrow> string \<Rightarrow> ms \<Rightarrow> js \<Rightarrow> gateway_error + 'a" where
  "httpFailure Date_parse toUTCString r request now raw =
     bindE (liftE (decodeRgsError raw request)) (\<lambda>e.
     Inl (RgsHttpError (http_status r) request (rgs_error_code e) (rgs_error_message e)
       (safeRetryAfterMs Date_parse toUTCString (http_header r ''Retry-After'') now)))"

definition post ::
  "(string \<Rightarrow> int option) \<Rightarrow> (int \<Rightarrow> string) \<Rightarrow> (string \<Rightarrow> js option) \<Rightarrow> ms \<Rightarrow> string
     \<Rightarrow> exchange_outcome \<Rightarrow> gateway_error + js" where
  "post Date_parse toUTCString JSON_parse now request x =
     (case fetched x of
        None \<Rightarrow> Inl (interrupted x request)
      | Some r \<Rightarrow>
        bindE (throwIfEdgeRateLimited Date_parse toUTCString r request now) (\<lambda>_.
        if \<not> isJsonContentType r then protocol ''RGS response Content-Type must be application/json''
        else bindE (bodyTextOf x request r) (\<lambda>txt.
        bindE (liftE (parseRgsJson JSON_parse txt)) (\<lambda>raw.
        if \<not> response_ok r \<or> http_status r = 202
        then httpFailure Date_parse toUTCString r request now raw
        else if http_status r \<noteq> 200 then protocol ''unexpected successful RGS HTTP status''
        else Inr raw))))"

text \<open>The pending-result \<open>GET\<close>: an empty 204 is \<open>null\<close>.\<close>

definition getPendingResult ::
  "(string \<Rightarrow> int option) \<Rightarrow> (int \<Rightarrow> string) \<Rightarrow> (string \<Rightarrow> js option) \<Rightarrow> ms \<Rightarrow> string
     \<Rightarrow> exchange_outcome \<Rightarrow> gateway_error + js option" where
  "getPendingResult Date_parse toUTCString JSON_parse now request x =
     (case fetched x of
        None \<Rightarrow> Inl (interrupted x request)
      | Some r \<Rightarrow>
        bindE (throwIfEdgeRateLimited Date_parse toUTCString r request now) (\<lambda>_.
        bindE (bodyTextOf x request r) (\<lambda>txt.
        if http_status r = 204 then
          (if txt \<noteq> [] then protocol ''RGS 204 pending-result response must have an empty body''
           else Inr None)
        else if \<not> isJsonContentType r
        then protocol ''RGS response Content-Type must be application/json''
        else bindE (liftE (parseRgsJson JSON_parse txt)) (\<lambda>raw.
        if \<not> response_ok r then httpFailure Date_parse toUTCString r request now raw
        else if http_status r \<noteq> 200 then protocol ''unexpected successful RGS HTTP status''
        else Inr (Some raw)))))"

end
