(* ===== verification/Result_Guard.thy ===== *)
theory Result_Guard
  imports Protocol_Types
begin

text \<open>
  The small decision functions around a spin: which committed result may be applied
  (\<open>protocol/spinResultGuard.ts\<close>), which bet a session starts with
  (\<open>app/state/betSelection.ts\<close>), when the spin control is enabled
  (\<open>app/state/controlGate.ts\<close>) and when a free spin is played automatically
  (\<open>app/freeSpinAutoplay.ts\<close>).
\<close>

section \<open>The result guard\<close>

record SpinResultGuardState =
  guard_sessionId :: "string option"
  pendingRoundId :: "string option"
  pendingBetMinor :: "string option"
  lastAppliedSequence :: int
  lastAppliedRoundId :: "string option"

datatype SpinResultReason =
  session_mismatch | stale_sequence | unsolicited | round_mismatch | bet_mismatch

datatype SpinResultDecision = accept_result | duplicate_result | reject_result SpinResultReason

text \<open>JavaScript truthiness of an optional string.\<close>

definition truthy :: "string option \<Rightarrow> bool" where
  "truthy s = (case s of None \<Rightarrow> False | Some t \<Rightarrow> t \<noteq> [])"

definition classifySpinResult :: "SpinResultGuardState \<Rightarrow> SpinResult \<Rightarrow> SpinResultDecision" where
  "classifySpinResult state result =
     (if \<not> truthy (guard_sessionId state) \<or> Some (sessionId result) \<noteq> guard_sessionId state
      then reject_result session_mismatch
      else if sequence result < lastAppliedSequence state then reject_result stale_sequence
      else if sequence result = lastAppliedSequence state then
        (if Some (roundId result) = lastAppliedRoundId state then duplicate_result
         else reject_result stale_sequence)
      else if \<not> truthy (pendingRoundId state) then reject_result unsolicited
      else if Some (roundId result) \<noteq> pendingRoundId state then reject_result round_mismatch
      else if \<not> truthy (pendingBetMinor state) \<or> Some (betMinor result) \<noteq> pendingBetMinor state
      then reject_result bet_mismatch
      else accept_result)"

lemma classify_accept:
  "classifySpinResult s r = accept_result \<Longrightarrow>
     guard_sessionId s = Some (sessionId r) \<and> pendingRoundId s = Some (roundId r)
     \<and> pendingBetMinor s = Some (betMinor r) \<and> lastAppliedSequence s < sequence r"
  by (auto simp: classifySpinResult_def split: if_splits)

lemma classify_duplicate:
  "classifySpinResult s r = duplicate_result \<Longrightarrow>
     sequence r = lastAppliedSequence s \<and> lastAppliedRoundId s = Some (roundId r)"
  by (auto simp: classifySpinResult_def split: if_splits)

section \<open>The bet of a session\<close>

definition featureLockedBet :: "FeatureState \<Rightarrow> string \<Rightarrow> string" where
  "featureLockedBet s fallback =
     (if 0 < freeSpinsRemaining s \<and> truthy (baseBetMinor s) then the (baseBetMinor s) else fallback)"

definition selectSessionBet :: "SessionOpened \<Rightarrow> string \<Rightarrow> bool \<Rightarrow> string" where
  "selectSessionBet s previousBet hasOpenedSession =
     (if 0 < freeSpinsRemaining (opened_featureState s) \<and> truthy (baseBetMinor (opened_featureState s))
      then the (baseBetMinor (opened_featureState s))
      else if \<not> hasOpenedSession then defaultBetMinor s
      else if previousBet \<in> set (betOptionsMinor s) then previousBet else defaultBetMinor s)"

section \<open>Control gates\<close>

record ControlGateState =
  launchReady :: bool
  gameReady :: bool
  online :: bool
  pendingSpin :: bool

definition canEnableSpin :: "ControlGateState \<Rightarrow> bool" where
  "canEnableSpin s = (launchReady s \<and> gameReady s \<and> online s \<and> \<not> pendingSpin s)"

record FreeSpinAutoplayGate =
  gate_mode :: FeatureMode
  gate_remaining :: int
  gate_online :: bool
  gate_canSpin :: bool
  gate_pendingSpin :: bool
  gate_destroyed :: bool

text \<open>A counter that is not a safe integer never schedules a spin.\<close>

definition shouldScheduleFreeSpin :: "FreeSpinAutoplayGate \<Rightarrow> bool" where
  "shouldScheduleFreeSpin i =
     (\<not> gate_destroyed i \<and> gate_mode i \<noteq> BASE
      \<and> safe_int (gate_remaining i)
      \<and> 0 < gate_remaining i \<and> gate_online i \<and> gate_canSpin i \<and> \<not> gate_pendingSpin i)"

definition freeSpinAutoplayDelay :: "bool \<Rightarrow> int" where
  "freeSpinAutoplayDelay reducedMotion = (if reducedMotion then 120 else 300)"

definition didFeatureModeEnd :: "FeatureState \<Rightarrow> FeatureState \<Rightarrow> bool" where
  "didFeatureModeEnd previous current = (mode previous \<noteq> BASE \<and> mode current = BASE)"

end
