(* ===== verification/Gateway_State.thy ===== *)
theory Gateway_State
  imports Recovery_Ledger Gateway_Http Result_Guard
begin

text \<open>
  The state of the \<open>RgsGateway\<close> class of \<open>protocol/RgsGateway.ts\<close> and the operations every
  handler shares: timers, notifications, termination, the server clock, the session deadline.

  A handler is a function on the gateway; what it sends, stores and reports is appended to
  the log. A pending round is an object the asynchronous code compares by identity: each
  one gets a fresh number. The reply of every awaited call, the clocks and the outcome of
  callbacks are arguments. Callbacks do not call back into the gateway, except that the
  controller may close it while it is handed a result.
\<close>

section \<open>Data\<close>

record GatewayConfig =
  cfg_operatorId :: string
  cfg_sessionId :: string
  cfg_betOptionsMinor :: "string list"
  cfg_defaultBetMinor :: string
  cfg_hasStorage :: bool
  cfg_pollDelayMs :: int
  cfg_maxPollAttempts :: int
  cfg_ackRetryBaseDelayMs :: int
  cfg_ackRetryMaxDelayMs :: int
  cfg_ackMaxAttempts :: int
  cfg_ackRetryWindowMs :: int
  cfg_sessionStatusProbeEnabled :: bool
  cfg_Date_parse :: "string \<Rightarrow> int option"
  cfg_atob :: "string \<Rightarrow> string option"
  cfg_JSON_parse :: "string \<Rightarrow> js option"

text \<open>
  What one run of a handler observes: the wall clock, the monotonic clock (\<open>None\<close> when it
  throws or is not a finite non-negative number), the jitter sample, the status interval
  (\<open>None\<close> when its source throws) and whether the storage answers a read or a write;
  removing an item and generating a request identifier do not fail.
\<close>

record environment =
  env_now :: ms
  env_monotonic :: "ms option"
  env_jitter :: "rat option"
  env_statusInterval :: "rat option"
  env_storageWorks :: bool

record PendingRound =
  pending_id :: nat
  pending_ledger :: RgsRecoveryLedger
  pending_roundKind :: string
  pending_originFeatureState :: "FeatureState option"
  pollAttempts :: int
  pollRequestActive :: bool
  resubmitOnNotFound :: bool
  pending_blocked :: bool
  deliveredSequence :: "int option"
  deliveredResultHash :: "string option"
  acknowledgementInFlight :: bool
  acknowledgementRequestActive :: bool
  acknowledgementNotBeforeAtMs :: "ms option"
  acknowledgementAttempts :: int
  acknowledgementStartedAtMs :: "ms option"
  acknowledgementExhausted :: bool

datatype gateway_timer =
  PollTimer | AcknowledgementRetryTimer | AcknowledgementDeadlineTimer | RefreshTimer
  | SessionTimeoutTimer | SessionStatusTimer

text \<open>
  How the controller takes a result it is handed: it accepts, it throws, or it closes the
  gateway meanwhile.
\<close>

datatype delivery = ControllerAccepts | ControllerThrows | ControllerCloses

text \<open>
  A suspended asynchronous call, with the variables it captured: it goes on once, with the
  outcome of the request it awaits.
\<close>

datatype awaited =
    AwaitExchange nat
  | AwaitDiscovery nat RgsExchange string
  | AwaitSpin nat
  | AwaitPoll nat string
  | AwaitAcknowledgement nat
  | AwaitProbe nat RgsSession
  | AwaitRefresh nat RgsSession
  | AwaitProactiveRefresh string

datatype report = ReportServerError ServerError | ReportError gateway_error

text \<open>
  What leaves the gateway: requests with the body that identifies the round, writes of the
  ledger storage, callbacks, and timers set.
\<close>

datatype gateway_effect =
    PostSpin string string string string
  | PostStatus string
  | PostAcknowledgement string int string
  | PostSessionStatus
  | PostRefresh
  | PostExchange string
  | GetPending
  | SaveLedger LedgerCommon FeatureState
  | ClearLedger
  | OnStatus string
  | OnSession RgsOpened
  | OnSpinResult SpinResult FeatureState delivery
  | OnSpinResultAcknowledged string int
  | OnError report
  | OnOperatorSessionRequired report
  | OnSessionTimeout string
  | SetTimer gateway_timer ms

record gateway =
  gw_launchCode :: "string option"
  gw_accessToken :: "string option"
  gw_session :: "RgsSession option"
  gw_sessionProjectionRequestId :: "string option"
  gw_bindingFingerprint :: "string option"
  gw_pending :: "PendingRound option"
  gw_nextPendingId :: nat
  gw_lastAppliedSequence :: int
  gw_lastAppliedRoundId :: "string option"
  gw_connecting :: bool
  gw_connected :: bool
  gw_wageringBlocked :: bool
  gw_closed :: bool
  gw_generation :: nat
  gw_timers :: "gateway_timer set"
  gw_pollNotBeforeAtMs :: "ms option"
  gw_sessionStatusRequestActive :: bool
  gw_serverClockAnchor :: "(ms \<times> ms) option"
  gw_refreshNotBeforeAtMs :: "ms option"
  gw_refreshActive :: bool
  gw_proactiveRefreshToken :: "string option"
  gw_proactiveRefreshAttempt :: int
  gw_runtimeOnline :: bool
  gw_runtimeVisible :: bool
  gw_runtimeRecoveryStatusEmitted :: bool
  gw_connectParked :: bool
  gw_sessionTimeoutNotified :: bool
  gw_callbacks :: bool
  gw_stored :: "js option"
  gw_awaiting :: "awaited list"
  gw_log :: "gateway_effect list"

type_synonym 'a gateway_call = "(gateway_error + 'a) \<times> gateway"

definition newPending ::
  "nat \<Rightarrow> RgsRecoveryLedger \<Rightarrow> string \<Rightarrow> FeatureState option \<Rightarrow> bool \<Rightarrow> PendingRound" where
  "newPending i l kind origin resubmit =
     \<lparr>pending_id = i, pending_ledger = l, pending_roundKind = kind,
      pending_originFeatureState = origin, pollAttempts = 0, pollRequestActive = False,
      resubmitOnNotFound = resubmit, pending_blocked = False, deliveredSequence = None,
      deliveredResultHash = None, acknowledgementInFlight = False,
      acknowledgementRequestActive = False, acknowledgementNotBeforeAtMs = None,
      acknowledgementAttempts = 0, acknowledgementStartedAtMs = None,
      acknowledgementExhausted = False\<rparr>"

definition newGateway :: "string \<Rightarrow> js option \<Rightarrow> gateway" where
  "newGateway launchCode stored =
     \<lparr>gw_launchCode = Some launchCode, gw_accessToken = None, gw_session = None,
      gw_sessionProjectionRequestId = None, gw_bindingFingerprint = None, gw_pending = None,
      gw_nextPendingId = 0, gw_lastAppliedSequence = 0, gw_lastAppliedRoundId = None,
      gw_connecting = False, gw_connected = False, gw_wageringBlocked = False, gw_closed = False,
      gw_generation = 0, gw_timers = {}, gw_pollNotBeforeAtMs = None,
      gw_sessionStatusRequestActive = False, gw_serverClockAnchor = None,
      gw_refreshNotBeforeAtMs = None, gw_refreshActive = False, gw_proactiveRefreshToken = None,
      gw_proactiveRefreshAttempt = 0, gw_runtimeOnline = True, gw_runtimeVisible = True,
      gw_runtimeRecoveryStatusEmitted = False, gw_connectParked = False,
      gw_sessionTimeoutNotified = False, gw_callbacks = True, gw_stored = stored, gw_awaiting = [],
      gw_log = []\<rparr>"

definition emit :: "gateway_effect \<Rightarrow> gateway \<Rightarrow> gateway" where
  "emit x g = g\<lparr>gw_log := gw_log g @ [x]\<rparr>"

text \<open>Suspending and resuming a call.\<close>

definition await :: "awaited \<Rightarrow> gateway \<Rightarrow> gateway" where
  "await a g = g\<lparr>gw_awaiting := a # gw_awaiting g\<rparr>"

definition resume :: "awaited \<Rightarrow> (gateway \<Rightarrow> gateway) \<Rightarrow> gateway \<Rightarrow> gateway" where
  "resume a f g = (if a \<in> set (gw_awaiting g)
     then f (g\<lparr>gw_awaiting := remove1 a (gw_awaiting g)\<rparr>) else g)"

text \<open>A callback; the null callbacks of a closed gateway do nothing.\<close>

definition notify :: "gateway_effect \<Rightarrow> gateway \<Rightarrow> gateway" where
  "notify x g = (if gw_callbacks g then emit x g else g)"

definition mapPending :: "(PendingRound \<Rightarrow> PendingRound) \<Rightarrow> gateway \<Rightarrow> gateway" where
  "mapPending f g = g\<lparr>gw_pending := map_option f (gw_pending g)\<rparr>"

definition isCurrent :: "nat \<Rightarrow> gateway \<Rightarrow> bool" where
  "isCurrent gen g = (\<not> gw_closed g \<and> gen = gw_generation g)"

text \<open>
  \<open>this.isPending(pending)\<close> for the round with number \<open>i\<close>, with the round as it is now.
\<close>

definition currentPending :: "nat \<Rightarrow> gateway \<Rightarrow> PendingRound option" where
  "currentPending i g = (if gw_closed g then None else case gw_pending g of
     None \<Rightarrow> None | Some p \<Rightarrow> if pending_id p = i then Some p else None)"

definition isPending :: "nat \<Rightarrow> gateway \<Rightarrow> bool" where
  "isPending i g = (currentPending i g \<noteq> None)"

definition withPending :: "nat \<Rightarrow> (PendingRound \<Rightarrow> gateway \<Rightarrow> gateway) \<Rightarrow> gateway \<Rightarrow> gateway" where
  "withPending i f g = (case currentPending i g of None \<Rightarrow> g | Some p \<Rightarrow> f p g)"

text \<open>\<open>this.runtimeOnline && this.runtimeVisible\<close>.\<close>

definition available :: "gateway \<Rightarrow> bool" where
  "available g = (gw_runtimeOnline g \<and> gw_runtimeVisible g)"

definition sessionIdOf :: "gateway \<Rightarrow> string option" where
  "sessionIdOf g = map_option (\<lambda>s. rgs_sessionId (binding s)) (gw_session g)"

definition pendingRound :: "PendingRound \<Rightarrow> string" where
  "pendingRound p = ledger_roundId (ledger_common (pending_ledger p))"

definition requireSession :: "gateway \<Rightarrow> gateway_error + RgsSession" where
  "requireSession g = (case gw_session g of
     None \<Rightarrow> protocol ''RGS session is not established'' | Some s \<Rightarrow> Inr s)"

section \<open>Timers\<close>

definition setTimer :: "gateway_timer \<Rightarrow> ms \<Rightarrow> gateway \<Rightarrow> gateway" where
  "setTimer t delay g = emit (SetTimer t delay) (g\<lparr>gw_timers := insert t (gw_timers g)\<rparr>)"

definition clearTimer :: "gateway_timer \<Rightarrow> gateway \<Rightarrow> gateway" where
  "clearTimer t g = g\<lparr>gw_timers := gw_timers g - {t}\<rparr>"

definition clearPollTimer :: "bool \<Rightarrow> gateway \<Rightarrow> gateway" where
  "clearPollTimer preserveSchedule g =
     (let g1 = clearTimer PollTimer g in
      if preserveSchedule then g1 else g1\<lparr>gw_pollNotBeforeAtMs := None\<rparr>)"

definition clearAcknowledgementRetryTimer :: "bool \<Rightarrow> gateway \<Rightarrow> gateway" where
  "clearAcknowledgementRetryTimer preserveSchedule g =
     (let g1 = clearTimer AcknowledgementRetryTimer g in
      if preserveSchedule then g1
      else mapPending (\<lambda>p. p\<lparr>acknowledgementNotBeforeAtMs := None\<rparr>) g1)"

definition clearRefreshTimer :: "bool \<Rightarrow> gateway \<Rightarrow> gateway" where
  "clearRefreshTimer preserveSchedule g =
     (let g1 = clearTimer RefreshTimer g in
      if preserveSchedule then g1 else g1\<lparr>gw_refreshNotBeforeAtMs := None\<rparr>)"

text \<open>The six clear calls every shutdown starts with.\<close>

definition clearAllTimers :: "gateway \<Rightarrow> gateway" where
  "clearAllTimers g =
     clearTimer SessionStatusTimer (clearTimer SessionTimeoutTimer (clearRefreshTimer False
       (clearTimer AcknowledgementDeadlineTimer (clearAcknowledgementRetryTimer False
         (clearPollTimer False g)))))"

text \<open>The callback of a timer that is still set; it is cleared first.\<close>

definition fire :: "gateway_timer \<Rightarrow> (gateway \<Rightarrow> gateway) \<Rightarrow> gateway \<Rightarrow> gateway" where
  "fire t f g = (if t \<in> gw_timers g then f (clearTimer t g) else g)"

section \<open>Termination\<close>

definition blockPending :: "PendingRound \<Rightarrow> PendingRound" where
  "blockPending p = p\<lparr>pending_blocked := True, pollRequestActive := False,
     acknowledgementInFlight := False, acknowledgementRequestActive := False\<rparr>"

text \<open>The part both terminations share; the pending round and its ledger stay.\<close>

definition shutDown :: "gateway \<Rightarrow> gateway" where
  "shutDown g =
     (let notifyOffline = gw_connected g \<or> gw_connecting g;
          g1 = (mapPending blockPending g)\<lparr>gw_wageringBlocked := True, gw_closed := True,
                 gw_connected := False, gw_connecting := False,
                 gw_generation := gw_generation g + 1\<rparr>;
          g2 = (clearAllTimers g1)\<lparr>gw_proactiveRefreshToken := None, gw_accessToken := None,
                 gw_launchCode := None\<rparr> in
      if notifyOffline then notify (OnStatus ''offline'') g2 else g2)"

definition forgetSession :: "gateway \<Rightarrow> gateway" where
  "forgetSession g = g\<lparr>gw_session := None, gw_sessionProjectionRequestId := None,
     gw_bindingFingerprint := None, gw_connectParked := False,
     gw_runtimeRecoveryStatusEmitted := False, gw_callbacks := False\<rparr>"

definition terminateForOperatorRelaunch :: "report \<Rightarrow> gateway \<Rightarrow> gateway" where
  "terminateForOperatorRelaunch cause g =
     (if gw_closed g then g
      else forgetSession (notify (OnOperatorSessionRequired cause)
        (notify (OnError cause) (shutDown g))))"

definition terminateForSessionTimeout :: "gateway \<Rightarrow> gateway" where
  "terminateForSessionTimeout g =
     (if gw_sessionTimeoutNotified g \<or> gw_closed g then g
      else case gw_session g of
        None \<Rightarrow> g
      | Some s \<Rightarrow>
        if session_idleDisconnectAt s = [] then g
        else forgetSession (notify (OnSessionTimeout (session_idleDisconnectAt s))
          ((shutDown (g\<lparr>gw_sessionTimeoutNotified := True\<rparr>))\<lparr>gw_sessionStatusRequestActive := False\<rparr>)))"

definition terminalError :: "string option \<Rightarrow> string option \<Rightarrow> string option \<Rightarrow> string \<Rightarrow> string \<Rightarrow> report" where
  "terminalError request sid round1 code1 message =
     ReportServerError \<lparr>error_requestId = request, error_sessionId = sid, error_roundId = round1,
       error_code = code1, error_message = message, retryable = False\<rparr>"

text \<open>The cause of a termination: an HTTP error as a server error, any other as it is.\<close>

definition reportOf :: "gateway_error \<Rightarrow> string option \<Rightarrow> string option \<Rightarrow> report" where
  "reportOf e sid round1 =
     (case serverError e sid round1 of None \<Rightarrow> ReportError e | Some s \<Rightarrow> ReportServerError s)"

definition errorCodeOf :: "gateway_error \<Rightarrow> string" where
  "errorCodeOf e = (case e of RgsHttpError status request code1 message retry \<Rightarrow> code1 | _ \<Rightarrow> [])"

definition isSessionTimeout :: "gateway_error \<Rightarrow> bool" where
  "isSessionTimeout e = (errorCodeOf e = ''SESSION_TIMEOUT'')"

definition reportError :: "gateway_error \<Rightarrow> string option \<Rightarrow> gateway \<Rightarrow> gateway" where
  "reportError e round1 g =
     (if gw_closed g then g
      else case e of
        RgsHttpError status request code1 message retry \<Rightarrow>
          if isSessionTimeout e then terminateForSessionTimeout g
          else let g1 = (if unrecoverableRefreshAuthorization e then
                 let notifyOffline = gw_connected g;
                     g2 = (clearRefreshTimer False (g\<lparr>gw_wageringBlocked := True, gw_connected := False,
                            gw_accessToken := None\<rparr>))\<lparr>gw_proactiveRefreshToken := None\<rparr> in
                 if notifyOffline then notify (OnStatus ''offline'') g2 else g2 else g) in
               notify (OnError (reportOf e (sessionIdOf g1) round1)) g1
      | _ \<Rightarrow> notify (OnError (ReportError e)) g)"

section \<open>The server clock\<close>

definition sessionClockNow :: "environment \<Rightarrow> gateway \<Rightarrow> ms" where
  "sessionClockNow env g = (case gw_serverClockAnchor g of
       None \<Rightarrow> env_now env
     | Some (epoch, sync) \<Rightarrow> (case env_monotonic env of
         None \<Rightarrow> epoch
       | Some m \<Rightarrow> epoch + max 0 (m - sync)))"

definition synchronizeServerClock ::
  "GatewayConfig \<Rightarrow> environment \<Rightarrow> string \<Rightarrow> gateway \<Rightarrow> unit gateway_call" where
  "synchronizeServerClock cfg env time g =
     (case (env_monotonic env, cfg_Date_parse cfg time) of
        (Some m, Some parsed) \<Rightarrow>
          let estimate = (case gw_serverClockAnchor g of
                None \<Rightarrow> of_int parsed
              | Some (epoch, sync) \<Rightarrow> epoch + max 0 (m - sync)) in
          (Inr (), g\<lparr>gw_serverClockAnchor := Some (max (of_int parsed) estimate, m)\<rparr>)
      | _ \<Rightarrow> (protocol ''RGS monotonic clock is invalid'', g))"

text \<open>The decoders only let idle times through that \<open>Date.parse\<close> reads.\<close>

definition idleTime :: "GatewayConfig \<Rightarrow> string \<Rightarrow> ms" where
  "idleTime cfg s = (case cfg_Date_parse cfg s of None \<Rightarrow> 0 | Some t \<Rightarrow> of_int t)"

definition expireSessionAtAuthoritativeDeadline ::
  "GatewayConfig \<Rightarrow> environment \<Rightarrow> gateway \<Rightarrow> bool \<times> gateway" where
  "expireSessionAtAuthoritativeDeadline cfg env g =
     (if \<not> cfg_sessionStatusProbeEnabled cfg \<or> gw_closed g then (False, g)
      else case gw_session g of
        None \<Rightarrow> (False, g)
      | Some s \<Rightarrow>
        if sessionClockNow env g < idleTime cfg (session_idleDisconnectAt s) then (False, g)
        else (True, terminateForSessionTimeout g))"

definition armSessionTimeout ::
  "GatewayConfig \<Rightarrow> environment \<Rightarrow> string \<Rightarrow> gateway \<Rightarrow> gateway" where
  "armSessionTimeout cfg env idle g0 =
     (let g = clearTimer SessionTimeoutTimer g0 in
      if \<not> cfg_sessionStatusProbeEnabled cfg \<or> gw_closed g
        \<or> map_option session_idleDisconnectAt (gw_session g) \<noteq> Some idle then g
      else let remaining = idleTime cfg idle - sessionClockNow env g in
        if remaining \<le> 0 then terminateForSessionTimeout g
        else setTimer SessionTimeoutTimer (min MAX_TIMER_DELAY_MS remaining) g)"

text \<open>The callback of the session timer.\<close>

definition sessionTimeoutFired ::
  "GatewayConfig \<Rightarrow> environment \<Rightarrow> string \<Rightarrow> gateway \<Rightarrow> gateway" where
  "sessionTimeoutFired cfg env idle g =
     (if gw_closed g \<or> map_option session_idleDisconnectAt (gw_session g) \<noteq> Some idle then g
      else let (expired, g1) = expireSessionAtAuthoritativeDeadline cfg env g in
        if expired then g1 else armSessionTimeout cfg env idle g1)"

definition laterIdleDisconnectAt :: "GatewayConfig \<Rightarrow> string \<Rightarrow> string \<Rightarrow> string" where
  "laterIdleDisconnectAt cfg current candidate =
     (if idleTime cfg current < idleTime cfg candidate then candidate else current)"

definition sameCompleteBinding :: "RgsBinding \<Rightarrow> RgsBinding \<Rightarrow> bool" where
  "sameCompleteBinding left right =
     (operatorId left = operatorId right \<and> rgs_sessionId left = rgs_sessionId right
      \<and> gameId left = gameId right \<and> definitionVersion left = definitionVersion right
      \<and> definitionHash left = definitionHash right \<and> rgs_currency left = rgs_currency right
      \<and> rgs_currencyExponent left = rgs_currencyExponent right
      \<and> jurisdiction left = jurisdiction right)"

definition sameCompleteSessionIdentity :: "RgsSession \<Rightarrow> RgsSession \<Rightarrow> bool" where
  "sameCompleteSessionIdentity left right =
     (engineRulesVersion left = engineRulesVersion right \<and> sameCompleteBinding (binding left) (binding right))"

definition partialBindingMatches :: "RgsSpin \<Rightarrow> RgsBinding \<Rightarrow> bool" where
  "partialBindingMatches spin b =
     (spin_operatorId spin = operatorId b \<and> spin_sessionId spin = rgs_sessionId b
      \<and> spin_gameId spin = gameId b \<and> spin_definitionVersion spin = definitionVersion b
      \<and> spin_definitionHash spin = definitionHash b \<and> spin_currency spin = rgs_currency b)"

end
