(* ===== verification/Gateway_Rounds.thy ===== *)
theory Gateway_Rounds
  imports Gateway_State
begin

text \<open>
  The round of \<open>RgsGateway\<close>: submission, polling, acceptance of a committed result, its
  acknowledgement, and the ways a round ends. Each asynchronous method is split at its
  awaited request: a handler that starts it and one that takes its outcome. A round is named
  by its number, so a handler that runs after the round is gone does nothing.
\<close>

section \<open>The end of a round\<close>

definition exhaustResultAcknowledgement ::
  "nat \<Rightarrow> gateway_error option \<Rightarrow> gateway \<Rightarrow> gateway" where
  "exhaustResultAcknowledgement i cause = withPending i (\<lambda>p g.
     if acknowledgementExhausted p then g
     else let request = (case cause of
             Some (RgsHttpError status request code1 message retry) \<Rightarrow> Some request
           | Some (RgsNetworkError timedOut request) \<Rightarrow> Some request
           | _ \<Rightarrow> None) in
       terminateForOperatorRelaunch
         (terminalError request (sessionIdOf g) (Some (pendingRound p))
           ''RESULT_ACKNOWLEDGEMENT_RECOVERY_REQUIRED''
           ''Committed result acknowledgement requires an operator relaunch'')
         (mapPending (\<lambda>q. q\<lparr>acknowledgementExhausted := True, acknowledgementInFlight := False,
           pending_blocked := True\<rparr>) g))"

definition exhaustRoundRecovery :: "nat \<Rightarrow> gateway \<Rightarrow> gateway" where
  "exhaustRoundRecovery i = withPending i (\<lambda>p g.
     if pending_blocked p then g
     else terminateForOperatorRelaunch
       (terminalError None (sessionIdOf g) (Some (pendingRound p)) ''ROUND_RECOVERY_EXHAUSTED''
         ''Round recovery polling is exhausted; obtain a fresh operator relaunch'')
       (mapPending (\<lambda>q. q\<lparr>resubmitOnNotFound := False\<rparr>) g))"

text \<open>Without a round when the pending-result discovery fails.\<close>

definition terminateRecovery :: "string option \<Rightarrow> gateway_error \<Rightarrow> gateway \<Rightarrow> gateway" where
  "terminateRecovery round1 cause g =
     (if isSessionTimeout cause then terminateForSessionTimeout g
      else terminateForOperatorRelaunch (reportOf cause (sessionIdOf g) round1) g)"

definition terminatePendingRecovery :: "nat \<Rightarrow> gateway_error \<Rightarrow> gateway \<Rightarrow> gateway" where
  "terminatePendingRecovery i cause = withPending i (\<lambda>p g.
     terminateRecovery (Some (pendingRound p)) cause g)"

definition blockForManualReview :: "nat \<Rightarrow> gateway \<Rightarrow> gateway" where
  "blockForManualReview i = withPending i (\<lambda>p g.
     terminateForOperatorRelaunch
       (terminalError None (sessionIdOf g) (Some (pendingRound p)) ''MANUAL_REVIEW''
         ''Session requires manual review'') g)"

definition clearPending :: "GatewayConfig \<Rightarrow> nat \<Rightarrow> gateway \<Rightarrow> gateway" where
  "clearPending cfg i = withPending i (\<lambda>p g.
     let g1 = (if cfg_hasStorage cfg then (emit ClearLedger g)\<lparr>gw_stored := None\<rparr> else g) in
     (clearTimer AcknowledgementDeadlineTimer (clearAcknowledgementRetryTimer False
       (clearPollTimer False g1)))\<lparr>gw_pending := None\<rparr>)"

text \<open>The report names the round even when it is no longer pending.\<close>

definition finishRejectedRound ::
  "GatewayConfig \<Rightarrow> nat \<Rightarrow> string \<Rightarrow> string \<Rightarrow> string \<Rightarrow> gateway \<Rightarrow> gateway" where
  "finishRejectedRound cfg i round1 code1 message g =
     notify (OnError (terminalError None (sessionIdOf g) (Some round1) code1 message))
       (clearPending cfg i g)"

section \<open>Acceptance of a committed result\<close>

definition closeGateway :: "gateway \<Rightarrow> gateway" where
  "closeGateway g =
     (if gw_closed g then g
      else let g1 = clearAllTimers (g\<lparr>gw_closed := True, gw_connected := False,
                 gw_connecting := False, gw_generation := gw_generation g + 1\<rparr>);
               g2 = g1\<lparr>gw_proactiveRefreshToken := None, gw_pending := None,
                 gw_lastAppliedSequence := 0, gw_lastAppliedRoundId := None,
                 gw_refreshActive := False, gw_proactiveRefreshAttempt := 0,
                 gw_accessToken := None, gw_launchCode := None, gw_session := None,
                 gw_sessionProjectionRequestId := None, gw_bindingFingerprint := None,
                 gw_connectParked := False, gw_runtimeRecoveryStatusEmitted := False,
                 gw_sessionTimeoutNotified := False, gw_sessionStatusRequestActive := False,
                 gw_serverClockAnchor := None\<rparr> in
        (notify (OnStatus ''offline'') g2)\<lparr>gw_callbacks := False\<rparr>)"

text \<open>The economic identity, before and after the revision the code adds to.\<close>

definition identityMismatch :: "PendingRound \<Rightarrow> RgsBinding \<Rightarrow> RgsSpin \<Rightarrow> bool" where
  "identityMismatch p b decoded =
     (let c = ledger_common (pending_ledger p); result = spin_result decoded in
      \<not> partialBindingMatches decoded b
      \<or> sessionId result \<noteq> rgs_sessionId b
      \<or> roundId result \<noteq> ledger_roundId c
      \<or> betMinor result \<noteq> ledger_betMinor c
      \<or> startRevision decoded \<noteq> ledger_startRevision c)"

definition settlementMismatch :: "PendingRound \<Rightarrow> RgsSpin \<Rightarrow> string \<Rightarrow> bool" where
  "settlementMismatch p decoded next1 =
     (let c = ledger_common (pending_ledger p); result = spin_result decoded in
      endRevision decoded \<noteq> next1
      \<or> roundKind decoded \<noteq> pending_roundKind p
      \<or> (pending_roundKind p = ''BASE'' \<and> chargedBetMinor result \<noteq> ledger_betMinor c)
      \<or> (pending_roundKind p = ''FREE_SPIN'' \<and> chargedBetMinor result \<noteq> ''0''))"

definition economicIdentity :: "PendingRound \<Rightarrow> RgsBinding \<Rightarrow> RgsSpin \<Rightarrow> gateway_error + unit" where
  "economicIdentity p b decoded =
     (if identityMismatch p b decoded
      then protocol ''committed RGS result does not match the pending economic identity''
      else bindE (liftE (addRevision (ledger_startRevision (ledger_common (pending_ledger p))) 1)) (\<lambda>next1.
        if settlementMismatch p decoded next1
        then protocol ''committed RGS result does not match the pending economic identity''
        else Inr ()))"

definition guardState :: "PendingRound \<Rightarrow> RgsBinding \<Rightarrow> gateway \<Rightarrow> SpinResultGuardState" where
  "guardState p b g = \<lparr>guard_sessionId = Some (rgs_sessionId b),
     pendingRoundId = Some (pendingRound p),
     pendingBetMinor = Some (ledger_betMinor (ledger_common (pending_ledger p))),
     lastAppliedSequence = gw_lastAppliedSequence g,
     lastAppliedRoundId = gw_lastAppliedRoundId g\<rparr>"

definition nextSession :: "GatewayConfig \<Rightarrow> RgsSession \<Rightarrow> RgsSpin \<Rightarrow> RgsSession" where
  "nextSession cfg s decoded =
     s\<lparr>session_balanceMinor := balanceMinor (spin_result decoded),
       session_revision := endRevision decoded, session_sequence := sequence (spin_result decoded),
       session_featureState := featureState (spin_result decoded),
       session_idleDisconnectAt :=
         laterIdleDisconnectAt cfg (session_idleDisconnectAt s) (spin_idleDisconnectAt decoded)\<rparr>"

text \<open>What is recorded once the controller has the result.\<close>

definition recordDelivery ::
  "GatewayConfig \<Rightarrow> environment \<Rightarrow> RgsSpin \<Rightarrow> RgsSession \<Rightarrow> gateway \<Rightarrow> gateway" where
  "recordDelivery cfg env decoded next1 g =
     (let result = spin_result decoded;
          g1 = g\<lparr>gw_lastAppliedSequence := sequence result,
            gw_lastAppliedRoundId := Some (roundId result), gw_session := Some next1\<rparr>;
          g2 = armSessionTimeout cfg env (session_idleDisconnectAt next1) g1;
          g3 = mapPending (\<lambda>q. q\<lparr>deliveredSequence := Some (sequence result),
            deliveredResultHash := Some (resultHash decoded), acknowledgementInFlight := False,
            acknowledgementRequestActive := False\<rparr>) g2 in
      clearPollTimer False g3)"

definition deliverResult ::
  "GatewayConfig \<Rightarrow> environment \<Rightarrow> delivery \<Rightarrow> RgsSpin \<Rightarrow> FeatureState \<Rightarrow> RgsSession
     \<Rightarrow> gateway \<Rightarrow> unit gateway_call" where
  "deliverResult cfg env callback decoded origin s g0 =
     (let g = notify (OnSpinResult (spin_result decoded) origin callback) g0 in
      case callback of
        ControllerThrows \<Rightarrow> (Inl RgsDeliveryError, g)
      | ControllerCloses \<Rightarrow> (Inr (), closeGateway g)
      | ControllerAccepts \<Rightarrow> (Inr (), recordDelivery cfg env decoded (nextSession cfg s decoded) g))"

text \<open>The checks of a committed result, up to the origin it was validated against.\<close>

datatype acceptance = Deliver FeatureState RgsSession | Duplicate

definition checkCommitted ::
  "GatewayConfig \<Rightarrow> PendingRound \<Rightarrow> RgsSpin \<Rightarrow> gateway \<Rightarrow> gateway_error + acceptance" where
  "checkCommitted cfg p decoded g =
     bindE (requireSession g) (\<lambda>s.
     bindE (economicIdentity p (binding s) decoded) (\<lambda>_.
     case classifySpinResult (guardState p (binding s) g) (spin_result decoded) of
       reject_result reason \<Rightarrow> protocol ''committed RGS result was rejected''
     | duplicate_result \<Rightarrow> Inr Duplicate
     | accept_result \<Rightarrow>
       bindE (liftE (reconstructOriginFeatureState (pending_originFeatureState p) (pending_ledger p)
         (spin_result decoded))) (\<lambda>origin.
       if validateSpinResultAgainstOrigin origin (spin_result decoded) \<noteq> Inr () then Inl OtherError
       else if idleTime cfg (expiresAt s) < idleTime cfg (spin_idleDisconnectAt decoded)
       then protocol ''committed RGS idle deadline exceeds the session expiry''
       else Inr (Deliver origin s))))"

definition acceptCommitted ::
  "GatewayConfig \<Rightarrow> environment \<Rightarrow> delivery \<Rightarrow> nat \<Rightarrow> RgsSpin \<Rightarrow> gateway \<Rightarrow> unit gateway_call" where
  "acceptCommitted cfg env callback i decoded g =
     (case currentPending i g of
        None \<Rightarrow> (Inr (), g)
      | Some p \<Rightarrow>
        if \<not> available g then (Inr (), g)
        else case checkCommitted cfg p decoded g of
          Inl e \<Rightarrow> (Inl e, g)
        | Inr Duplicate \<Rightarrow>
            (Inr (), if deliveredSequence p \<noteq> Some (sequence (spin_result decoded))
                     then clearPending cfg i g else g)
        | Inr (Deliver origin s) \<Rightarrow> deliverResult cfg env callback decoded origin s g)"

section \<open>Submission\<close>

definition schedulePoll ::
  "GatewayConfig \<Rightarrow> environment \<Rightarrow> nat \<Rightarrow> ms option \<Rightarrow> gateway \<Rightarrow> gateway" where
  "schedulePoll cfg env i minimumDelay = withPending i (\<lambda>p g.
     if pending_blocked p \<or> PollTimer \<in> gw_timers g then g
     else if cfg_maxPollAttempts cfg \<le> pollAttempts p then exhaustRoundRecovery i g
     else let delay = (if minimumDelay = Some 0 then 0
            else distributedRetryDelayMs (pollDelay (of_int (cfg_pollDelayMs cfg)) (pollAttempts p))
              (case minimumDelay of None \<Rightarrow> 0 | Some d \<Rightarrow> d) (env_jitter env));
            g1 = g\<lparr>gw_pollNotBeforeAtMs := Some (sessionClockNow env g + delay)\<rparr> in
       if \<not> available g1 then g1 else setTimer PollTimer delay g1)"

definition reportAndPoll ::
  "GatewayConfig \<Rightarrow> environment \<Rightarrow> nat \<Rightarrow> gateway_error \<Rightarrow> gateway \<Rightarrow> gateway" where
  "reportAndPoll cfg env i e = withPending i (\<lambda>p g.
     schedulePoll cfg env i (retryAfterOf e) (reportError e (Some (pendingRound p)) g))"

definition setResubmit :: "bool \<Rightarrow> gateway \<Rightarrow> gateway" where
  "setResubmit b = mapPending (\<lambda>q. q\<lparr>resubmitOnNotFound := b\<rparr>)"

definition handleSubmitError ::
  "GatewayConfig \<Rightarrow> environment \<Rightarrow> nat \<Rightarrow> gateway_error \<Rightarrow> gateway \<Rightarrow> gateway" where
  "handleSubmitError cfg env i e = withPending i (\<lambda>p g.
     case e of
       RgsHttpError status request code1 message retry \<Rightarrow>
         if status = 202 \<and> code1 = ''ROUND_PENDING'' then schedulePoll cfg env i retry g
         else if status = 409 \<and> code1 = ''ROUND_REJECTED'' then
           (if \<not> available g then g else finishRejectedRound cfg i (pendingRound p) code1 message g)
         else if retryableHttp e
         then reportAndPoll cfg env i e (setResubmit (provablyPreTransaction e) g)
         else terminatePendingRecovery i e g
     | RgsNetworkError timedOut request \<Rightarrow> reportAndPoll cfg env i e (setResubmit True g)
     | RgsDeliveryError \<Rightarrow> reportAndPoll cfg env i e g
     | _ \<Rightarrow> terminatePendingRecovery i e g)"

text \<open>Submission up to its request, whose body repeats the ledger of the round.\<close>

definition submitPending :: "GatewayConfig \<Rightarrow> environment \<Rightarrow> nat \<Rightarrow> gateway \<Rightarrow> gateway" where
  "submitPending cfg env i = withPending i (\<lambda>p g.
     if pending_blocked p then g
     else let g1 = setResubmit False g in
       case requireSession g1 of
         Inl e \<Rightarrow> handleSubmitError cfg env i e g1
       | Inr s \<Rightarrow> await (AwaitSpin i) (emit (PostSpin (pendingRound p) (pending_roundKind p)
           (ledger_betMinor (ledger_common (pending_ledger p)))
           (ledger_startRevision (ledger_common (pending_ledger p)))) g1))"

definition submitPendingDone ::
  "GatewayConfig \<Rightarrow> environment \<Rightarrow> delivery \<Rightarrow> nat \<Rightarrow> gateway_error + RgsSpin \<Rightarrow> gateway \<Rightarrow> gateway" where
  "submitPendingDone cfg env callback i outcome g =
     (case outcome of
        Inl e \<Rightarrow> handleSubmitError cfg env i e g
      | Inr decoded \<Rightarrow> (case acceptCommitted cfg env callback i decoded g of
          (Inr _, g1) \<Rightarrow> g1
        | (Inl e, g1) \<Rightarrow> handleSubmitError cfg env i e g1))"

definition refuseSpin :: "gateway_error \<Rightarrow> gateway \<Rightarrow> bool gateway_call" where
  "refuseSpin e g = (Inr False, notify (OnError (ReportError e)) g)"

definition storageError :: gateway_error where
  "storageError = OtherError"

text \<open>A new round: its ledger is saved before it becomes pending and is submitted.\<close>

definition openRound ::
  "GatewayConfig \<Rightarrow> environment \<Rightarrow> LedgerCommon \<Rightarrow> FeatureState \<Rightarrow> bool \<Rightarrow> gateway \<Rightarrow> bool gateway_call" where
  "openRound cfg env c origin activeFeature g =
     (if cfg_hasStorage cfg \<and> \<not> env_storageWorks env then refuseSpin storageError g
      else let g1 = (if cfg_hasStorage cfg
             then (emit (SaveLedger c origin) g)\<lparr>gw_stored := Some (ledgerObject c origin)\<rparr> else g);
           i = gw_nextPendingId g;
           p = newPending i (LedgerV2 c origin) (if activeFeature then ''FREE_SPIN'' else ''BASE'')
             (Some origin) False in
        (Inr True, submitPending cfg env i (g1\<lparr>gw_pending := Some p, gw_nextPendingId := i + 1\<rparr>)))"

text \<open>The gates of \<open>requestSpin\<close> before the bet is read.\<close>

definition spinGate :: "string \<Rightarrow> gateway \<Rightarrow> bool" where
  "spinGate roundId1 g =
     (\<not> gw_closed g \<and> \<not> gw_wageringBlocked g \<and> gw_connected g \<and> available g
      \<and> gw_pending g = None \<and> truthy (gw_accessToken g)
      \<and> (case gw_session g of None \<Rightarrow> False | Some s \<Rightarrow> session_status s = ''ACTIVE'')
      \<and> IDENTIFIER_PATTERN roundId1 \<and> length roundId1 \<le> 128)"

definition requestSpin ::
  "GatewayConfig \<Rightarrow> environment \<Rightarrow> string \<Rightarrow> string \<Rightarrow> gateway \<Rightarrow> bool gateway_call" where
  "requestSpin cfg env roundId1 bet g0 =
     (let (expired, g) = expireSessionAtAuthoritativeDeadline cfg env g0 in
      if expired \<or> \<not> spinGate roundId1 g then (Inr False, g)
      else case canonicalMoneyForProtocol True (JString bet) of
        Inl e \<Rightarrow> refuseSpin (ProtocolError e) g
      | Inr canonicalBet \<Rightarrow>
        if canonicalBet \<notin> set (cfg_betOptionsMinor cfg) then (Inr False, g)
        else let s = the (gw_session g); origin = session_featureState s;
                 activeFeature = (mode origin \<noteq> BASE) in
          if activeFeature \<and> baseBetMinor origin \<noteq> Some canonicalBet then (Inr False, g)
          else if \<not> truthy (gw_bindingFingerprint g)
          then refuseSpin (ProtocolError (RgsProtocolError ''RGS binding fingerprint is not ready'')) g
          else case persistedLedgerFeatureState origin canonicalBet of
            Inl e \<Rightarrow> (Inl (ProtocolError e), g)
          | Inr persisted \<Rightarrow>
            openRound cfg env \<lparr>bindingFingerprint = the (gw_bindingFingerprint g),
              ledger_roundId = roundId1, ledger_betMinor = canonicalBet,
              ledger_startRevision = session_revision s\<rparr> persisted activeFeature g)"

section \<open>Polling\<close>

definition handlePollError ::
  "GatewayConfig \<Rightarrow> environment \<Rightarrow> nat \<Rightarrow> gateway_error \<Rightarrow> gateway \<Rightarrow> gateway" where
  "handlePollError cfg env i e = withPending i (\<lambda>p g.
     if (case e of RgsHttpError status request code1 message retry \<Rightarrow> status = 404 | _ \<Rightarrow> False)
       \<and> resubmitOnNotFound p
       \<and> map_option session_revision (gw_session g)
           = Some (ledger_startRevision (ledger_common (pending_ledger p)))
     then (if cfg_maxPollAttempts cfg \<le> pollAttempts p then exhaustRoundRecovery i g
           else submitPending cfg env i (setResubmit False g))
     else if isNetworkError e \<or> retryableHttp e \<or> e = RgsDeliveryError
     then reportAndPoll cfg env i e g
     else terminatePendingRecovery i e g)"

text \<open>The \<open>finally\<close> of a poll.\<close>

definition pollFinally :: "nat \<Rightarrow> gateway \<Rightarrow> gateway" where
  "pollFinally i = withPending i (\<lambda>p. mapPending (\<lambda>q. q\<lparr>pollRequestActive := False\<rparr>))"

definition pollPending :: "GatewayConfig \<Rightarrow> environment \<Rightarrow> nat \<Rightarrow> gateway \<Rightarrow> gateway" where
  "pollPending cfg env i = withPending i (\<lambda>p g.
     if pending_blocked p \<or> pollRequestActive p \<or> \<not> available g then g
     else let g1 = mapPending (\<lambda>q. q\<lparr>pollAttempts := pollAttempts q + 1, pollRequestActive := True\<rparr>) g in
       case requireSession g1 of
         Inl e \<Rightarrow> pollFinally i (handlePollError cfg env i e g1)
       | Inr s \<Rightarrow> await (AwaitPoll i (pendingRound p)) (emit (PostStatus (pendingRound p)) g1))"

text \<open>The timer's callback forgets the schedule before the poll starts.\<close>

definition pollTimerFired :: "GatewayConfig \<Rightarrow> environment \<Rightarrow> nat \<Rightarrow> gateway \<Rightarrow> gateway" where
  "pollTimerFired cfg env i g = pollPending cfg env i (g\<lparr>gw_pollNotBeforeAtMs := None\<rparr>)"

text \<open>Writes to the round object of the poll, pending or not.\<close>

definition ofRound :: "nat \<Rightarrow> (PendingRound \<Rightarrow> PendingRound) \<Rightarrow> PendingRound \<Rightarrow> PendingRound" where
  "ofRound i f q = (if pending_id q = i then f q else q)"

definition refundPoll :: "nat \<Rightarrow> gateway \<Rightarrow> gateway" where
  "refundPoll i = mapPending (ofRound i (\<lambda>q. q\<lparr>pollAttempts := max 0 (pollAttempts q - 1)\<rparr>))"

text \<open>The answer of the status endpoint for its round; an error is thrown to the caller.\<close>

definition applyStatus ::
  "GatewayConfig \<Rightarrow> environment \<Rightarrow> delivery \<Rightarrow> nat \<Rightarrow> string \<Rightarrow> RgsRoundStatus \<Rightarrow> gateway
     \<Rightarrow> unit gateway_call" where
  "applyStatus cfg env callback i round1 status g =
     (if round_status status = ''COMMITTED'' then
        (case round_result status of
           None \<Rightarrow> (protocol ''COMMITTED status omitted its result'', g)
         | Some decoded \<Rightarrow>
           if \<not> available g then (Inr (), refundPoll i g)
           else acceptCommitted cfg env callback i decoded g)
      else if round_status status = ''PREPARED'' \<or> round_status status = ''WALLET_PENDING''
      then (Inr (), schedulePoll cfg env i None g)
      else if round_status status = ''REJECTED'' then
        (Inr (), if \<not> available g then refundPoll i g
          else finishRejectedRound cfg i round1 ''ROUND_REJECTED'' ''Round was rejected'' g)
      else if round_status status = ''MANUAL_REVIEW'' then (Inr (), blockForManualReview i g)
      else (Inr (), g))"

definition checkStatus :: "string \<Rightarrow> RgsRoundStatus \<Rightarrow> gateway \<Rightarrow> gateway_error + unit" where
  "checkStatus round1 status g =
     bindE (requireSession g) (\<lambda>s.
     if round_operatorId status \<noteq> operatorId (binding s)
       \<or> round_sessionId status \<noteq> rgs_sessionId (binding s) \<or> round_roundId status \<noteq> round1
     then protocol ''round status returned a foreign binding or round'' else Inr ())"

text \<open>The outcome of a poll of round \<open>round1\<close>, whose object has number \<open>i\<close>.\<close>

definition pollPendingDone ::
  "GatewayConfig \<Rightarrow> environment \<Rightarrow> delivery \<Rightarrow> nat \<Rightarrow> string \<Rightarrow> gateway_error + RgsRoundStatus
     \<Rightarrow> gateway \<Rightarrow> gateway" where
  "pollPendingDone cfg env callback i round1 outcome g =
     pollFinally i (case bindE outcome (\<lambda>status. bindE (checkStatus round1 status g) (\<lambda>_. Inr status)) of
       Inl e \<Rightarrow> handlePollError cfg env i e g
     | Inr status \<Rightarrow>
       (case applyStatus cfg env callback i round1 status
           (mapPending (ofRound i (\<lambda>q. q\<lparr>resubmitOnNotFound := False\<rparr>)) g) of
         (Inr _, g1) \<Rightarrow> g1
       | (Inl e, g1) \<Rightarrow> handlePollError cfg env i e g1))"

definition resumeRoundRecovery :: "GatewayConfig \<Rightarrow> environment \<Rightarrow> gateway \<Rightarrow> gateway" where
  "resumeRoundRecovery cfg env g =
     (case gw_pending g of
        None \<Rightarrow> g
      | Some p \<Rightarrow>
        if pending_blocked p \<or> deliveredSequence p \<noteq> None \<or> pollRequestActive p then g
        else case gw_pollNotBeforeAtMs g of
          Some notBefore \<Rightarrow>
            setTimer PollTimer (max 0 (of_int \<lceil>notBefore - sessionClockNow env g\<rceil>)) g
        | None \<Rightarrow> schedulePoll cfg env (pending_id p) (Some 0) g)"

section \<open>Acknowledgement\<close>

definition acknowledgementWindowOpen ::
  "GatewayConfig \<Rightarrow> environment \<Rightarrow> PendingRound \<Rightarrow> gateway \<Rightarrow> bool" where
  "acknowledgementWindowOpen cfg env p g =
     (case acknowledgementStartedAtMs p of
        None \<Rightarrow> False
      | Some startedAt \<Rightarrow> sessionClockNow env g < startedAt + of_int (cfg_ackRetryWindowMs cfg))"

definition acknowledgementAttemptAllowed ::
  "GatewayConfig \<Rightarrow> environment \<Rightarrow> PendingRound \<Rightarrow> gateway \<Rightarrow> bool" where
  "acknowledgementAttemptAllowed cfg env p g =
     (acknowledgementWindowOpen cfg env p g
      \<and> acknowledgementAttempts p < cfg_ackMaxAttempts cfg \<and> \<not> acknowledgementExhausted p)"

definition armAcknowledgementRetry :: "ms \<Rightarrow> gateway \<Rightarrow> gateway" where
  "armAcknowledgementRetry delay g = setTimer AcknowledgementRetryTimer delay g"

definition scheduleAcknowledgementDeadline ::
  "GatewayConfig \<Rightarrow> environment \<Rightarrow> nat \<Rightarrow> gateway \<Rightarrow> gateway" where
  "scheduleAcknowledgementDeadline cfg env i = withPending i (\<lambda>p g.
     let g1 = clearTimer AcknowledgementDeadlineTimer g in
     case acknowledgementStartedAtMs p of
       None \<Rightarrow> g1
     | Some startedAt \<Rightarrow>
       setTimer AcknowledgementDeadlineTimer
         (of_int \<lceil>max 0 (startedAt + of_int (cfg_ackRetryWindowMs cfg) - sessionClockNow env g1)\<rceil>) g1)"

definition scheduleAcknowledgementRetry ::
  "GatewayConfig \<Rightarrow> environment \<Rightarrow> nat \<Rightarrow> gateway_error \<Rightarrow> gateway \<Rightarrow> gateway" where
  "scheduleAcknowledgementRetry cfg env i e = withPending i (\<lambda>p g.
     if acknowledgementExhausted p then g
     else case acknowledgementStartedAtMs p of
       None \<Rightarrow> exhaustResultAcknowledgement i (Some e) g
     | Some startedAt \<Rightarrow>
       if cfg_ackMaxAttempts cfg \<le> acknowledgementAttempts p
       then exhaustResultAcknowledgement i (Some e) g
       else let delay = distributedRetryDelayMs
                  (acknowledgementDelayMs (of_int (cfg_ackRetryMaxDelayMs cfg))
                    (of_int (cfg_ackRetryBaseDelayMs cfg)) (acknowledgementAttempts p))
                  (case retryAfterOf e of None \<Rightarrow> 0 | Some d \<Rightarrow> d) (env_jitter env);
                now = sessionClockNow env g;
                deadline = startedAt + of_int (cfg_ackRetryWindowMs cfg) in
         if deadline \<le> now \<or> deadline - now \<le> delay
         then exhaustResultAcknowledgement i (Some e) g
         else let g1 = mapPending (\<lambda>q. q\<lparr>acknowledgementNotBeforeAtMs := Some (now + delay)\<rparr>)
                    (clearAcknowledgementRetryTimer False g) in
           if \<not> gw_runtimeOnline g1 then g1 else armAcknowledgementRetry delay g1)"

definition acknowledgementFinally :: "nat \<Rightarrow> gateway \<Rightarrow> gateway" where
  "acknowledgementFinally i = withPending i (\<lambda>p.
     mapPending (\<lambda>q. q\<lparr>acknowledgementRequestActive := False\<rparr>))"

definition handleAcknowledgementError ::
  "GatewayConfig \<Rightarrow> environment \<Rightarrow> nat \<Rightarrow> gateway_error \<Rightarrow> gateway \<Rightarrow> gateway" where
  "handleAcknowledgementError cfg env i e = withPending i (\<lambda>p g.
     if \<not> acknowledgementWindowOpen cfg env p g then exhaustResultAcknowledgement i (Some e) g
     else let g1 = reportError e (Some (pendingRound p)) g in
       if isNetworkError e \<or> retryableHttp e then scheduleAcknowledgementRetry cfg env i e g1
       else if gw_accessToken g1 = None \<or> unrecoverableRefreshAuthorization e
       then exhaustResultAcknowledgement i (Some e) g1
       else withPending i (\<lambda>_. mapPending (\<lambda>q. q\<lparr>acknowledgementInFlight := False\<rparr>)) g1)"

text \<open>One acknowledgement request up to its transmission.\<close>

definition submitResultAcknowledgement ::
  "GatewayConfig \<Rightarrow> environment \<Rightarrow> nat \<Rightarrow> gateway \<Rightarrow> gateway" where
  "submitResultAcknowledgement cfg env i = withPending i (\<lambda>p g.
     case (deliveredSequence p, deliveredResultHash p) of
       (Some seqno, Some hash) \<Rightarrow>
         if \<not> gw_runtimeOnline g \<or> acknowledgementRequestActive p then g
         else if \<not> acknowledgementAttemptAllowed cfg env p g
         then exhaustResultAcknowledgement i None g
         else let g1 = mapPending (\<lambda>q. q\<lparr>acknowledgementRequestActive := True,
                acknowledgementAttempts := acknowledgementAttempts q + 1\<rparr>) g in
           case requireSession g1 of
             Inl e \<Rightarrow> acknowledgementFinally i (handleAcknowledgementError cfg env i e g1)
           | Inr s \<Rightarrow> await (AwaitAcknowledgement i)
               (emit (PostAcknowledgement (pendingRound p) seqno hash) g1)
     | _ \<Rightarrow> g)"

definition submitResultAcknowledgementDone ::
  "GatewayConfig \<Rightarrow> environment \<Rightarrow> nat \<Rightarrow> gateway_error + Acknowledgement \<Rightarrow> gateway \<Rightarrow> gateway" where
  "submitResultAcknowledgementDone cfg env i outcome = withPending i (\<lambda>p g.
     acknowledgementFinally i (case outcome of
       Inl e \<Rightarrow> handleAcknowledgementError cfg env i e g
     | Inr ack \<Rightarrow>
       if \<not> acknowledgementWindowOpen cfg env p g \<or> acknowledgementExhausted p
       then handleAcknowledgementError cfg env i
         (ProtocolError (RgsProtocolError ''RGS result acknowledgement recovery window expired'')) g
       else case deliveredSequence p of
         None \<Rightarrow> g
       | Some seqno \<Rightarrow>
         notify (OnSpinResultAcknowledged (pendingRound p) seqno) (clearPending cfg i g)))"

definition acknowledgeSpinResult ::
  "GatewayConfig \<Rightarrow> environment \<Rightarrow> string \<Rightarrow> int \<Rightarrow> gateway \<Rightarrow> bool \<times> gateway" where
  "acknowledgeSpinResult cfg env roundId1 seqno g =
     (case gw_pending g of
        None \<Rightarrow> (False, g)
      | Some p \<Rightarrow>
        let i = pending_id p in
        if \<not> isPending i g \<or> deliveredSequence p \<noteq> Some seqno \<or> deliveredResultHash p = None
          \<or> pendingRound p \<noteq> roundId1 \<or> acknowledgementExhausted p then (False, g)
        else if acknowledgementInFlight p then (True, g)
        else let g1 = (if acknowledgementStartedAtMs p = None
               then scheduleAcknowledgementDeadline cfg env i
                 (mapPending (\<lambda>q. q\<lparr>acknowledgementStartedAtMs := Some (sessionClockNow env g)\<rparr>) g)
               else g);
             p1 = the (gw_pending g1) in
          if \<not> acknowledgementAttemptAllowed cfg env p1 g1
          then (False, exhaustResultAcknowledgement i None g1)
          else (True, submitResultAcknowledgement cfg env i
            (mapPending (\<lambda>q. q\<lparr>acknowledgementInFlight := True\<rparr>) g1)))"

text \<open>The callbacks of the retry and the deadline timer.\<close>

definition acknowledgementRetryFired ::
  "GatewayConfig \<Rightarrow> environment \<Rightarrow> nat \<Rightarrow> nat \<Rightarrow> gateway \<Rightarrow> gateway" where
  "acknowledgementRetryFired cfg env gen i g =
     (if \<not> isCurrent gen g then g
      else withPending i (\<lambda>p g. if acknowledgementExhausted p then g
        else submitResultAcknowledgement cfg env i
          (mapPending (\<lambda>q. q\<lparr>acknowledgementNotBeforeAtMs := None\<rparr>) g)) g)"

definition acknowledgementDeadlineFired :: "nat \<Rightarrow> nat \<Rightarrow> gateway \<Rightarrow> gateway" where
  "acknowledgementDeadlineFired gen i g =
     (if \<not> isCurrent gen g then g else exhaustResultAcknowledgement i None g)"

definition resumeResultAcknowledgement ::
  "GatewayConfig \<Rightarrow> environment \<Rightarrow> gateway \<Rightarrow> gateway" where
  "resumeResultAcknowledgement cfg env g =
     (case gw_pending g of
        None \<Rightarrow> g
      | Some p \<Rightarrow>
        let i = pending_id p; now = sessionClockNow env g in
        if pending_blocked p \<or> deliveredSequence p = None \<or> acknowledgementStartedAtMs p = None
          \<or> acknowledgementExhausted p \<or> acknowledgementRequestActive p then g
        else if \<not> acknowledgementAttemptAllowed cfg env p g
        then exhaustResultAcknowledgement i None g
        else case acknowledgementNotBeforeAtMs p of
          Some notBefore \<Rightarrow>
            if now < notBefore then armAcknowledgementRetry (of_int \<lceil>notBefore - now\<rceil>) g
            else submitResultAcknowledgement cfg env i
              (mapPending (\<lambda>q. q\<lparr>acknowledgementNotBeforeAtMs := None,
                acknowledgementInFlight := True\<rparr>) g)
        | None \<Rightarrow> submitResultAcknowledgement cfg env i
            (mapPending (\<lambda>q. q\<lparr>acknowledgementInFlight := True\<rparr>) g))"

end
