(* ===== verification/Gateway_Session.thy ===== *)
theory Gateway_Session
  imports Gateway_Rounds
begin

text \<open>
  The session of \<open>RgsGateway\<close>: the token exchange and the recovery of a round it finds, the
  availability of the page, token refresh and the status probe.
\<close>

section \<open>Token refresh timers\<close>

definition scheduleProactiveRefreshAttempt ::
  "environment \<Rightarrow> string \<Rightarrow> ms \<Rightarrow> gateway \<Rightarrow> gateway" where
  "scheduleProactiveRefreshAttempt env token delay g =
     (let g1 = g\<lparr>gw_proactiveRefreshToken := Some token,
            gw_refreshNotBeforeAtMs := Some (sessionClockNow env g + delay)\<rparr> in
      if gw_closed g1 \<or> \<not> gw_runtimeOnline g1 then g1 else setTimer RefreshTimer delay g1)"

definition scheduleProactiveRefresh ::
  "GatewayConfig \<Rightarrow> environment \<Rightarrow> string \<Rightarrow> gateway \<Rightarrow> gateway" where
  "scheduleProactiveRefresh cfg env token g0 =
     (let g = (clearRefreshTimer False g0)\<lparr>gw_proactiveRefreshAttempt := 0\<rparr> in
      case tokenRefreshDelayMs (cfg_atob cfg) (cfg_JSON_parse cfg) token (sessionClockNow env g) of
        None \<Rightarrow> g\<lparr>gw_proactiveRefreshToken := None\<rparr>
      | Some delay \<Rightarrow>
        let g1 = g\<lparr>gw_proactiveRefreshToken := Some token\<rparr> in
        if gw_closed g1 \<or> \<not> gw_runtimeOnline g1 then g1
        else scheduleProactiveRefreshAttempt env token delay g1)"

definition failClosedAfterRefresh :: "gateway_error \<Rightarrow> gateway \<Rightarrow> gateway" where
  "failClosedAfterRefresh e g =
     (if gw_closed g then g
      else terminateForOperatorRelaunch
        (case e of
           RgsHttpError status request code1 message retry \<Rightarrow>
             if \<not> retryableHttp e then reportOf e (sessionIdOf g) (map_option pendingRound (gw_pending g))
             else ReportError (ProtocolError (RgsProtocolError ''RGS access token could not be refreshed''))
         | _ \<Rightarrow> ReportError (ProtocolError (RgsProtocolError ''RGS access token could not be refreshed''))) g)"

text \<open>The rejection handler of the proactive refresh.\<close>

definition proactiveRefreshFailed ::
  "GatewayConfig \<Rightarrow> environment \<Rightarrow> string \<Rightarrow> gateway_error \<Rightarrow> gateway \<Rightarrow> gateway" where
  "proactiveRefreshFailed cfg env token e g =
     (if gw_closed g then g
      else if isNetworkError e \<or> retryableHttp e then
        let now = sessionClockNow env g;
            remaining = (case compactTokenLifetime (cfg_atob cfg) (cfg_JSON_parse cfg) token of
              None \<Rightarrow> 0 | Some (issued, expires) \<Rightarrow> of_int expires - now);
            delay = distributedRetryDelayMs (refreshBackoffMs (gw_proactiveRefreshAttempt g))
              (case retryAfterOf e of None \<Rightarrow> 0 | Some d \<Rightarrow> d) (env_jitter env);
            g1 = g\<lparr>gw_proactiveRefreshAttempt := gw_proactiveRefreshAttempt g + 1\<rparr> in
        if delay + 1000 < remaining
        then scheduleProactiveRefreshAttempt env token delay
          (reportError e (map_option pendingRound (gw_pending g1)) g1)
        else failClosedAfterRefresh e g1
      else failClosedAfterRefresh e g)"

definition resumeProactiveRefresh :: "GatewayConfig \<Rightarrow> environment \<Rightarrow> gateway \<Rightarrow> gateway" where
  "resumeProactiveRefresh cfg env g =
     (if \<not> truthy (gw_proactiveRefreshToken g) \<or> gw_closed g \<or> \<not> gw_runtimeOnline g
        \<or> RefreshTimer \<in> gw_timers g \<or> gw_refreshActive g then g
      else let token = the (gw_proactiveRefreshToken g); now = sessionClockNow env g in
        case compactTokenLifetime (cfg_atob cfg) (cfg_JSON_parse cfg) token of
          Some (issued, expires) \<Rightarrow>
            if of_int expires \<le> now
            then failClosedAfterRefresh (ProtocolError (RgsProtocolError
              ''RGS access token expired while the browser was offline'')) g
            else scheduleProactiveRefreshAttempt env token
              (case gw_refreshNotBeforeAtMs g of None \<Rightarrow> 0 | Some t \<Rightarrow> max 0 (t - now)) g
        | None \<Rightarrow> failClosedAfterRefresh (ProtocolError (RgsProtocolError
            ''RGS access token expired while the browser was offline'')) g)"

section \<open>The status probe\<close>

definition nextSessionStatusDelay :: "environment \<Rightarrow> gateway_error + ms" where
  "nextSessionStatusDelay env = (case env_statusInterval env of
       None \<Rightarrow> protocol ''RGS session status interval source failed''
     | Some delay \<Rightarrow>
       if \<not> isSafeInteger delay \<or> delay < 25000 \<or> 30000 < delay
       then protocol ''RGS session status interval must be 25000-30000ms'' else Inr delay)"

definition scheduleSessionStatusProbe ::
  "GatewayConfig \<Rightarrow> environment \<Rightarrow> ms option \<Rightarrow> gateway \<Rightarrow> gateway" where
  "scheduleSessionStatusProbe cfg env delay g =
     (if \<not> cfg_sessionStatusProbeEnabled cfg \<or> gw_closed g \<or> \<not> gw_connected g
        \<or> gw_session g = None \<or> \<not> truthy (gw_accessToken g) \<or> \<not> available g
        \<or> SessionStatusTimer \<in> gw_timers g \<or> gw_sessionStatusRequestActive g then g
      else case (case delay of Some d \<Rightarrow> Inr d | None \<Rightarrow> nextSessionStatusDelay env) of
        Inl e \<Rightarrow> terminateForOperatorRelaunch (ReportError e) g
      | Inr scheduled \<Rightarrow> setTimer SessionStatusTimer scheduled g)"

definition probeFinally :: "GatewayConfig \<Rightarrow> environment \<Rightarrow> nat \<Rightarrow> gateway \<Rightarrow> gateway" where
  "probeFinally cfg env gen g =
     (let g1 = g\<lparr>gw_sessionStatusRequestActive := False\<rparr> in
      if isCurrent gen g1 then scheduleSessionStatusProbe cfg env None g1 else g1)"

definition handleProbeError :: "nat \<Rightarrow> gateway_error \<Rightarrow> gateway \<Rightarrow> gateway" where
  "handleProbeError gen e g =
     (if \<not> isCurrent gen g then g
      else if isSessionTimeout e then terminateForSessionTimeout g
      else if isNetworkError e \<or> retryableHttp e then g
      else terminateForOperatorRelaunch
        (reportOf e (sessionIdOf g) (map_option pendingRound (gw_pending g))) g)"

definition probeSessionStatus :: "GatewayConfig \<Rightarrow> environment \<Rightarrow> nat \<Rightarrow> gateway \<Rightarrow> gateway" where
  "probeSessionStatus cfg env gen g =
     (if \<not> isCurrent gen g \<or> gw_sessionStatusRequestActive g \<or> \<not> available g then g
      else let g1 = g\<lparr>gw_sessionStatusRequestActive := True\<rparr> in
        case requireSession g1 of
          Inl e \<Rightarrow> probeFinally cfg env gen (handleProbeError gen e g1)
        | Inr s \<Rightarrow> await (AwaitProbe gen s) (emit PostSessionStatus g1))"

definition statusTimerFired :: "GatewayConfig \<Rightarrow> environment \<Rightarrow> nat \<Rightarrow> gateway \<Rightarrow> gateway" where
  "statusTimerFired cfg env gen g =
     (if \<not> isCurrent gen g then g else probeSessionStatus cfg env gen g)"

definition applySessionStatus ::
  "GatewayConfig \<Rightarrow> environment \<Rightarrow> RgsSession \<Rightarrow> RgsSessionStatus \<Rightarrow> gateway \<Rightarrow> unit gateway_call" where
  "applySessionStatus cfg env sessionBefore status g =
     (case requireSession g of
        Inl e \<Rightarrow> (Inl e, g)
      | Inr current \<Rightarrow>
        if \<not> sameCompleteSessionIdentity current sessionBefore
        then (protocol ''RGS session binding changed during status probe'', g)
        else if idleTime cfg (expiresAt current) < idleTime cfg (status_idleDisconnectAt status)
        then (protocol ''RGS session status idle deadline exceeds session expiry'', g)
        else case synchronizeServerClock cfg env (status_serverTime status) g of
          (Inl e, g1) \<Rightarrow> (Inl e, g1)
        | (Inr _, g1) \<Rightarrow>
          let idle = laterIdleDisconnectAt cfg (session_idleDisconnectAt current)
                (status_idleDisconnectAt status);
              g2 = g1\<lparr>gw_session := Some (current\<lparr>session_idleDisconnectAt := idle\<rparr>)\<rparr> in
          if status_status status = ''EXPIRED'' then (Inr (), terminateForSessionTimeout g2)
          else let (expired, g3) = expireSessionAtAuthoritativeDeadline cfg env g2 in
            (Inr (), if expired then (if gw_closed g3 then g3 else terminateForSessionTimeout g3)
              else armSessionTimeout cfg env idle g3))"

definition probeSessionStatusDone ::
  "GatewayConfig \<Rightarrow> environment \<Rightarrow> nat \<Rightarrow> RgsSession \<Rightarrow> gateway_error + RgsSessionStatus \<Rightarrow> gateway
     \<Rightarrow> gateway" where
  "probeSessionStatusDone cfg env gen sessionBefore outcome g =
     probeFinally cfg env gen
       (case outcome of
          Inl e \<Rightarrow> handleProbeError gen e g
        | Inr status \<Rightarrow>
          if \<not> isCurrent gen g then g
          else case applySessionStatus cfg env sessionBefore status g of
            (Inr _, g1) \<Rightarrow> g1
          | (Inl e, g1) \<Rightarrow> handleProbeError gen e g1)"

section \<open>Refreshed sessions\<close>

text \<open>The result of the pending round was accepted while the refresh was on its way.\<close>

definition staleCommittedOverlap ::
  "int \<Rightarrow> RgsSession \<Rightarrow> RgsSession \<Rightarrow> RgsSession \<Rightarrow> bool" where
  "staleCommittedOverlap start baseline current refreshed =
     (BigInt (session_revision baseline) = start \<and> BigInt (session_revision refreshed) = start
      \<and> BigInt (session_revision current) = start + 1
      \<and> session_sequence baseline = session_sequence refreshed
      \<and> session_sequence current = session_sequence baseline + 1
      \<and> session_balanceMinor refreshed = session_balanceMinor baseline
      \<and> sameFeatureState (session_featureState refreshed) (session_featureState baseline))"

definition validateRefreshedSession ::
  "GatewayConfig \<Rightarrow> RgsSession \<Rightarrow> RgsSession \<Rightarrow> gateway \<Rightarrow> gateway_error + RgsSession" where
  "validateRefreshedSession cfg refreshed baseline g =
     bindE (requireSession g) (\<lambda>current.
     let laterIdle = laterIdleDisconnectAt cfg (session_idleDisconnectAt current)
           (session_idleDisconnectAt refreshed) in
     if \<not> sameCompleteSessionIdentity current baseline
     then protocol ''RGS session binding changed during refresh''
     else if session_revision refreshed = session_revision current
       \<and> session_sequence refreshed = session_sequence current then
       (if session_balanceMinor refreshed \<noteq> session_balanceMinor current
          \<or> \<not> sameFeatureState (session_featureState refreshed) (session_featureState current)
        then protocol ''refreshed RGS session changed economic state without advancing revision''
        else Inr (current\<lparr>expiresAt := expiresAt refreshed, session_idleDisconnectAt := laterIdle\<rparr>))
     else case gw_pending g of
       None \<Rightarrow> protocol ''RGS session advanced without a pending browser round''
     | Some p \<Rightarrow>
       let start = BigInt (ledger_startRevision (ledger_common (pending_ledger p)));
           revision = BigInt (session_revision refreshed);
           delta = revision - BigInt (session_revision current) in
       if staleCommittedOverlap start baseline current refreshed
       then Inr (current\<lparr>expiresAt := expiresAt refreshed\<rparr>)
       else if revision < start \<or> start + 1 < revision \<or> delta < 0 \<or> 1 < delta
         \<or> session_sequence refreshed \<noteq> session_sequence current + delta
       then protocol ''refreshed RGS session is outside the pending round revision/sequence window''
       else Inr (refreshed\<lparr>session_idleDisconnectAt := laterIdle\<rparr>))"

definition projectSession ::
  "GatewayConfig \<Rightarrow> string \<Rightarrow> RgsSession \<Rightarrow> gateway \<Rightarrow> unit gateway_call" where
  "projectSession cfg request s g =
     (case rgsSessionOpened request s (cfg_betOptionsMinor cfg) (cfg_defaultBetMinor cfg) of
        Inl e \<Rightarrow> (Inl (ProtocolError e), g)
      | Inr m \<Rightarrow> (Inr (), notify (OnSession m) g))"

definition refreshError :: "nat \<Rightarrow> gateway_error \<Rightarrow> gateway \<Rightarrow> gateway" where
  "refreshError gen e g =
     (if \<not> isCurrent gen g then g
      else case e of
        ProtocolError (RgsProtocolError s) \<Rightarrow> terminateForOperatorRelaunch (ReportError e) g
      | RgsHttpError status request code1 message retry \<Rightarrow>
          if isSessionTimeout e then terminateForSessionTimeout g
          else if unrecoverableRefreshAuthorization e
          then terminateForOperatorRelaunch
            (reportOf e (sessionIdOf g) (map_option pendingRound (gw_pending g))) g
          else g
      | _ \<Rightarrow> g)"

definition requireAccessToken :: "gateway \<Rightarrow> gateway_error + string" where
  "requireAccessToken g = (if truthy (gw_accessToken g) then Inr (the (gw_accessToken g))
     else protocol ''RGS access token is not available'')"

text \<open>A refresh up to its request; a second caller waits for the first one.\<close>

definition refreshAccessToken :: "gateway \<Rightarrow> gateway" where
  "refreshAccessToken g =
     (if gw_refreshActive g then g
      else case bindE (requireSession g) (\<lambda>s. bindE (requireAccessToken g) (\<lambda>_. Inr s)) of
        Inl e \<Rightarrow> refreshError (gw_generation g) e g
      | Inr s \<Rightarrow> await (AwaitRefresh (gw_generation g) s)
          (emit PostRefresh (g\<lparr>gw_refreshActive := True\<rparr>)))"

definition checkRefresh ::
  "GatewayConfig \<Rightarrow> RgsSession \<Rightarrow> gateway_error + RgsExchange \<Rightarrow> gateway
     \<Rightarrow> gateway_error + RgsExchange \<times> RgsSession" where
  "checkRefresh cfg sessionBefore outcome g =
     bindE outcome (\<lambda>x.
     if session_status (session x) \<noteq> ''ACTIVE''
       \<or> \<not> sameCompleteSessionIdentity (session x) sessionBefore
     then protocol ''RGS refresh changed the immutable session binding or status''
     else bindE (validateRefreshedSession cfg (session x) sessionBefore g) (\<lambda>s. Inr (x, s)))"

definition applyRefresh ::
  "GatewayConfig \<Rightarrow> environment \<Rightarrow> RgsExchange \<Rightarrow> RgsSession \<Rightarrow> gateway \<Rightarrow> unit gateway_call" where
  "applyRefresh cfg env x s g =
     (case synchronizeServerClock cfg env (serverTime x)
         (g\<lparr>gw_accessToken := Some (accessToken x), gw_session := Some s\<rparr>) of
        (Inl e, g1) \<Rightarrow> (Inl e, g1)
      | (Inr _, g1) \<Rightarrow>
        let g2 = armSessionTimeout cfg env (session_idleDisconnectAt s)
              (g1\<lparr>gw_sessionProjectionRequestId := Some (exchange_requestId x),
                 gw_wageringBlocked := False, gw_proactiveRefreshAttempt := 0\<rparr>) in
        case (if available g2 then projectSession cfg (exchange_requestId x) s g2 else (Inr (), g2)) of
          (Inl e, g3) \<Rightarrow> (Inl e, g3)
        | (Inr _, g3) \<Rightarrow> (Inr (), scheduleProactiveRefresh cfg env (accessToken x) g3))"

text \<open>The outcome of a refresh.\<close>

definition refreshAccessTokenDone ::
  "GatewayConfig \<Rightarrow> environment \<Rightarrow> nat \<Rightarrow> RgsSession \<Rightarrow> gateway_error + RgsExchange
     \<Rightarrow> gateway \<Rightarrow> gateway" where
  "refreshAccessTokenDone cfg env gen sessionBefore outcome g =
     (case checkRefresh cfg sessionBefore outcome g of
        Inl e \<Rightarrow> refreshError gen e g
      | Inr (x, s) \<Rightarrow> if \<not> isCurrent gen g then g else snd (applyRefresh cfg env x s g))
        \<lparr>gw_refreshActive := False\<rparr>"

text \<open>
  The timer of the proactive refresh for \<open>token\<close>: it starts a refresh or joins the one under
  way, and handles its rejection.
\<close>

definition refreshTimerFired :: "string \<Rightarrow> gateway \<Rightarrow> gateway" where
  "refreshTimerFired token g =
     await (AwaitProactiveRefresh token) (refreshAccessToken (g\<lparr>gw_refreshNotBeforeAtMs := None\<rparr>))"

definition proactiveRefreshDone ::
  "GatewayConfig \<Rightarrow> environment \<Rightarrow> string \<Rightarrow> gateway_error option \<Rightarrow> gateway \<Rightarrow> gateway" where
  "proactiveRefreshDone cfg env token rejection g =
     (case rejection of None \<Rightarrow> g | Some e \<Rightarrow> proactiveRefreshFailed cfg env token e g)"

end
