(* ===== verification/Gateway_Exchange.thy ===== *)
theory Gateway_Exchange
  imports Gateway_Session
begin

text \<open>
  The start of a gateway and its life cycle: the token exchange, the recovery of a stored or
  an undelivered round, the availability of the page; and the runs of the whole gateway as
  a transition relation over its handlers.
\<close>

section \<open>Recovery at the exchange\<close>

definition loadLedger :: "GatewayConfig \<Rightarrow> environment \<Rightarrow> gateway \<Rightarrow> gateway_error + js option" where
  "loadLedger cfg env g =
     (if \<not> cfg_hasStorage cfg then Inr None
      else if \<not> env_storageWorks env then Inl OtherError else Inr (gw_stored g))"

text \<open>The session cursor when there is no round to recover.\<close>

definition freshCursor :: "RgsSession \<Rightarrow> gateway \<Rightarrow> gateway" where
  "freshCursor s g = g\<lparr>gw_lastAppliedSequence := session_sequence s, gw_lastAppliedRoundId := None\<rparr>"

definition adoptPending ::
  "RgsRecoveryLedger \<Rightarrow> FeatureState option \<Rightarrow> bool \<Rightarrow> int \<Rightarrow> gateway \<Rightarrow> gateway" where
  "adoptPending l origin resubmit applied g =
     g\<lparr>gw_lastAppliedSequence := applied, gw_lastAppliedRoundId := None,
       gw_pending := Some (newPending (gw_nextPendingId g) l
         (if ledgerOriginMode l = BASE then ''BASE'' else ''FREE_SPIN'') origin resubmit),
       gw_nextPendingId := gw_nextPendingId g + 1\<rparr>"

text \<open>A ledger whose round the server does not know: the origin is the session's state.\<close>

definition restoreUncommitted ::
  "GatewayConfig \<Rightarrow> environment \<Rightarrow> RgsSession \<Rightarrow> RgsRecoveryLedger \<Rightarrow> gateway \<Rightarrow> unit gateway_call" where
  "restoreUncommitted cfg env s l g =
     (let c = ledger_common l; state = session_featureState s in
      if mode state \<noteq> ledgerOriginMode l
        \<or> (ledgerOriginMode l \<noteq> BASE \<and> baseBetMinor state \<noteq> Some (ledger_betMinor c))
      then (protocol ''persisted RGS round origin does not match the durable feature state'', g)
      else case l of
        LedgerV2 _ origin \<Rightarrow>
          if \<not> sameFeatureState state origin
          then (protocol ''persisted RGS round origin does not match the durable feature state'', g)
          else (Inr (), adoptPending l (Some origin) True (session_sequence s) g)
      | LedgerV1 _ _ \<Rightarrow>
          (case persistedLedgerFeatureState state (ledger_betMinor c) of
             Inl e \<Rightarrow> (Inl (ProtocolError e), g)
           | Inr origin \<Rightarrow>
             if \<not> env_storageWorks env then (Inl OtherError, g)
             else (Inr (), adoptPending (LedgerV2 c origin) (Some origin) True (session_sequence s)
               ((emit (SaveLedger c origin) g)\<lparr>gw_stored := Some (ledgerObject c origin)\<rparr>))))"

definition restoreCommitted :: "RgsSession \<Rightarrow> RgsRecoveryLedger \<Rightarrow> gateway \<Rightarrow> unit gateway_call" where
  "restoreCommitted s l g =
     (if session_sequence s < 1
      then (protocol ''committed RGS recovery has no result sequence'', g)
      else (Inr (), adoptPending l (case l of LedgerV2 _ origin \<Rightarrow> Some origin | LedgerV1 _ _ \<Rightarrow> None)
        False (session_sequence s - 1) g))"

definition restorePendingLedger ::
  "GatewayConfig \<Rightarrow> environment \<Rightarrow> RgsSession \<Rightarrow> string \<Rightarrow> gateway \<Rightarrow> unit gateway_call" where
  "restorePendingLedger cfg env s fingerprint g =
     (case loadLedger cfg env g of
        Inl e \<Rightarrow> (Inl e, g)
      | Inr None \<Rightarrow> (Inr (), freshCursor s g)
      | Inr (Some raw) \<Rightarrow>
        (case decodeLedger raw of
           Inl e \<Rightarrow> (Inl (ProtocolError e), g)
         | Inr l \<Rightarrow>
           let c = ledger_common l;
               delta = BigInt (session_revision s) - BigInt (ledger_startRevision c) in
           if bindingFingerprint c \<noteq> fingerprint
           then (Inr (), freshCursor s ((emit ClearLedger g)\<lparr>gw_stored := None\<rparr>))
           else if ledger_betMinor c \<notin> set (cfg_betOptionsMinor cfg)
           then (protocol ''persisted RGS round uses an unconfigured bet'', g)
           else if delta < 0 \<or> 1 < delta
           then (protocol ''persisted RGS round does not match the durable session revision'', g)
           else if delta = 0 then restoreUncommitted cfg env s l g
           else restoreCommitted s l g))"

text \<open>The checks of a pending delivery against the exchanged session, with its origin.\<close>

definition deliveryMismatch :: "RgsSession \<Rightarrow> PendingDelivery \<Rightarrow> FeatureState \<Rightarrow> bool" where
  "deliveryMismatch s d origin =
     (let committed = pending_result d; result = spin_result committed; b = binding s in
      pending_operatorId d \<noteq> operatorId b
      \<or> pending_sessionId d \<noteq> rgs_sessionId b
      \<or> \<not> partialBindingMatches committed b
      \<or> sessionId result \<noteq> rgs_sessionId b
      \<or> roundId result \<noteq> pending_roundId d
      \<or> sequence result \<noteq> session_sequence s
      \<or> balanceMinor result \<noteq> session_balanceMinor s
      \<or> endRevision committed \<noteq> session_revision s
      \<or> addRevision (startRevision committed) 1 \<noteq> Inr (endRevision committed)
      \<or> roundKind committed \<noteq> (if mode origin = BASE then ''BASE'' else ''FREE_SPIN'')
      \<or> \<not> sameFeatureState (featureState result) (session_featureState s))"

definition checkDelivery :: "RgsSession \<Rightarrow> PendingDelivery \<Rightarrow> gateway_error + FeatureState" where
  "checkDelivery s d =
     (let result = spin_result (pending_result d) in
      bindE (liftE (persistedLedgerFeatureState (originFeatureState d) (betMinor result))) (\<lambda>origin.
      if deliveryMismatch s d origin
      then protocol ''pending result delivery does not match the exchanged authoritative session''
      else if validateSpinResultAgainstOrigin origin result \<noteq> Inr () then Inl OtherError
      else Inr origin))"

definition adoptDelivery ::
  "string \<Rightarrow> RgsSession \<Rightarrow> PendingDelivery \<Rightarrow> FeatureState \<Rightarrow> gateway \<Rightarrow> gateway" where
  "adoptDelivery fingerprint s d origin g =
     adoptPending (LedgerV2 \<lparr>bindingFingerprint = fingerprint, ledger_roundId = pending_roundId d,
         ledger_betMinor = betMinor (spin_result (pending_result d)),
         ledger_startRevision = startRevision (pending_result d)\<rparr> origin)
       (Some origin) False (session_sequence s - 1) g"

section \<open>The exchange\<close>

definition exchangeFailed :: "nat \<Rightarrow> gateway_error \<Rightarrow> gateway \<Rightarrow> gateway" where
  "exchangeFailed gen e g =
     (if \<not> isCurrent gen g then g
      else reportError e None (notify (OnStatus ''offline'')
        (g\<lparr>gw_connecting := False, gw_connected := False,
           gw_runtimeRecoveryStatusEmitted := False\<rparr>)))"

definition acceptDiscovered ::
  "GatewayConfig \<Rightarrow> environment \<Rightarrow> delivery \<Rightarrow> nat \<Rightarrow> RgsSpin \<Rightarrow> gateway \<Rightarrow> gateway" where
  "acceptDiscovered cfg env callback i decoded g =
     (case acceptCommitted cfg env callback i decoded g of
        (Inr _, g1) \<Rightarrow> g1
      | (Inl e, g1) \<Rightarrow> withPending i (\<lambda>p g2.
          if e = RgsDeliveryError
          then schedulePoll cfg env i None (reportError e (Some (pendingRound p)) g2)
          else terminatePendingRecovery i e g2) g1)"

text \<open>The last part of the exchange: the session goes online and a recovered round resumes.\<close>

definition finishExchange ::
  "GatewayConfig \<Rightarrow> environment \<Rightarrow> delivery \<Rightarrow> nat \<Rightarrow> RgsExchange \<Rightarrow> RgsSpin option \<Rightarrow> gateway
     \<Rightarrow> gateway" where
  "finishExchange cfg env callback gen x discovered g =
     (if \<not> isCurrent gen g then g
      else let g1 = armSessionTimeout cfg env (session_idleDisconnectAt (session x))
                 (g\<lparr>gw_connecting := False, gw_connected := True, gw_wageringBlocked := False\<rparr>);
               g2 = scheduleSessionStatusProbe cfg env None g1 in
        case (if available g2
              then projectSession cfg (exchange_requestId x) (session x) (notify (OnStatus ''online'') g2)
              else (Inr (), g2)) of
          (Inl e, g3) \<Rightarrow> exchangeFailed gen e g3
        | (Inr _, g3) \<Rightarrow>
          let g4 = scheduleProactiveRefresh cfg env (accessToken x) g3 in
          case (discovered, gw_pending g4) of
            (Some decoded, Some p) \<Rightarrow> acceptDiscovered cfg env callback (pending_id p) decoded g4
          | (None, Some p) \<Rightarrow> schedulePoll cfg env (pending_id p) (Some 0) g4
          | _ \<Rightarrow> g4)"

definition adoptSession ::
  "GatewayConfig \<Rightarrow> environment \<Rightarrow> RgsExchange \<Rightarrow> string \<Rightarrow> gateway \<Rightarrow> unit gateway_call" where
  "adoptSession cfg env x fingerprint g =
     (case synchronizeServerClock cfg env (serverTime x)
         (g\<lparr>gw_accessToken := Some (accessToken x), gw_session := Some (session x)\<rparr>) of
        (Inl e, g1) \<Rightarrow> (Inl e, g1)
      | (Inr _, g1) \<Rightarrow> restorePendingLedger cfg env (session x) fingerprint
          (g1\<lparr>gw_sessionProjectionRequestId := Some (exchange_requestId x),
             gw_bindingFingerprint := Some fingerprint\<rparr>))"

definition checkExchange ::
  "gateway_error + RgsExchange \<Rightarrow> (RgsBinding \<Rightarrow> gateway_error + string)
     \<Rightarrow> gateway_error + RgsExchange \<times> string" where
  "checkExchange outcome fingerprintOf =
     bindE outcome (\<lambda>x.
     if session_status (session x) \<noteq> ''ACTIVE''
     then protocol ''RGS exchange returned a non-ACTIVE session''
     else bindE (fingerprintOf (binding (session x))) (\<lambda>fingerprint.
     if \<not> DIGEST_PATTERN fingerprint then protocol ''RGS binding fingerprint is invalid''
     else Inr (x, fingerprint)))"

text \<open>
  The reply of the exchange; the fingerprint of its binding is a parameter. Without a stored
  round, a session with results asks for an undelivered one and goes on in \<open>discoverDone\<close>.
\<close>

definition exchangeDone ::
  "GatewayConfig \<Rightarrow> environment \<Rightarrow> delivery \<Rightarrow> nat \<Rightarrow> gateway_error + RgsExchange
     \<Rightarrow> (RgsBinding \<Rightarrow> gateway_error + string) \<Rightarrow> gateway \<Rightarrow> gateway" where
  "exchangeDone cfg env callback gen outcome fingerprintOf g =
     (case checkExchange outcome fingerprintOf of
        Inl e \<Rightarrow> exchangeFailed gen e g
      | Inr (x, fingerprint) \<Rightarrow>
        if \<not> isCurrent gen g then g
        else case adoptSession cfg env x fingerprint g of
          (Inl e, g1) \<Rightarrow> exchangeFailed gen e g1
        | (Inr _, g1) \<Rightarrow>
          if gw_pending g1 = None \<and> session_sequence (session x) \<noteq> 0 then await (AwaitDiscovery gen x fingerprint) (emit GetPending g1)
          else finishExchange cfg env callback gen x None g1)"

definition discoverDone ::
  "GatewayConfig \<Rightarrow> environment \<Rightarrow> delivery \<Rightarrow> nat \<Rightarrow> RgsExchange \<Rightarrow> string
     \<Rightarrow> gateway_error + PendingDelivery option \<Rightarrow> gateway \<Rightarrow> gateway" where
  "discoverDone cfg env callback gen x fingerprint outcome g =
     (case bindE outcome (\<lambda>d. case d of
          None \<Rightarrow> Inr None
        | Some delivery \<Rightarrow> bindE (checkDelivery (session x) delivery) (\<lambda>origin. Inr (Some (delivery, origin)))) of
        Inl e \<Rightarrow> if \<not> isCurrent gen g then g else terminateRecovery None e g
      | Inr None \<Rightarrow> finishExchange cfg env callback gen x None g
      | Inr (Some (delivery, origin)) \<Rightarrow>
          finishExchange cfg env callback gen x (Some (pending_result delivery))
            (adoptDelivery fingerprint (session x) delivery origin g))"

definition connectGateway :: "gateway \<Rightarrow> gateway" where
  "connectGateway g =
     (if gw_closed g \<or> gw_connecting g \<or> gw_connected g then g
      else if \<not> truthy (gw_launchCode g)
      then notify (OnError (ReportError OtherError)) g
      else if \<not> available g
      then notify (OnStatus ''recovering'')
        (g\<lparr>gw_connectParked := True, gw_runtimeRecoveryStatusEmitted := True\<rparr>)
      else await (AwaitExchange (gw_generation g)) ((emit (PostExchange (the (gw_launchCode g)))
        (notify (OnStatus ''connecting'')
          (g\<lparr>gw_connectParked := False, gw_runtimeRecoveryStatusEmitted := False,
             gw_connecting := True\<rparr>)))\<lparr>gw_launchCode := None\<rparr>))"

section \<open>Availability of the page\<close>

definition pauseForUnavailability :: "bool \<Rightarrow> gateway \<Rightarrow> gateway" where
  "pauseForUnavailability wasAvailable g =
     (let g1 = (if \<not> gw_runtimeOnline g
            then clearRefreshTimer True (clearAcknowledgementRetryTimer True g) else g) in
      if available g1 then g1
      else let g2 = clearTimer SessionStatusTimer (clearPollTimer True g1) in
        if wasAvailable \<and> (gw_connected g2 \<or> gw_connecting g2)
          \<and> (case gw_pending g2 of None \<Rightarrow> True | Some p \<Rightarrow> deliveredSequence p = None)
        then notify (OnStatus ''recovering'') (g2\<lparr>gw_runtimeRecoveryStatusEmitted := True\<rparr>)
        else g2)"

definition resumeAvailability :: "GatewayConfig \<Rightarrow> environment \<Rightarrow> gateway \<Rightarrow> unit gateway_call" where
  "resumeAvailability cfg env g =
     (if gw_connectParked g then (Inr (), connectGateway g)
      else case (if gw_runtimeRecoveryStatusEmitted g \<and> gw_connected g \<and> gw_session g \<noteq> None
                   \<and> truthy (gw_sessionProjectionRequestId g)
                 then projectSession cfg (the (gw_sessionProjectionRequestId g)) (the (gw_session g))
                   (notify (OnStatus ''online'') (g\<lparr>gw_runtimeRecoveryStatusEmitted := False\<rparr>))
                 else (Inr (), g)) of
        (Inl e, g1) \<Rightarrow> (Inl e, g1)
      | (Inr _, g1) \<Rightarrow>
        (Inr (), scheduleSessionStatusProbe cfg env (Some 0) (resumeRoundRecovery cfg env g1)))"

definition setRuntimeAvailability ::
  "GatewayConfig \<Rightarrow> environment \<Rightarrow> bool \<Rightarrow> bool \<Rightarrow> gateway \<Rightarrow> unit gateway_call" where
  "setRuntimeAvailability cfg env onlineNow visibleNow g0 =
     (let wasOnline = gw_runtimeOnline g0; wasAvailable = available g0;
          g = g0\<lparr>gw_runtimeOnline := onlineNow, gw_runtimeVisible := visibleNow\<rparr> in
      if gw_closed g then (Inr (), g)
      else let (expired, g1) = expireSessionAtAuthoritativeDeadline cfg env g in
        if expired then (Inr (), g1)
        else let g2 = pauseForUnavailability wasAvailable g1;
                 g3 = (if \<not> wasOnline \<and> gw_runtimeOnline g2
                   then resumeResultAcknowledgement cfg env (resumeProactiveRefresh cfg env g2) else g2) in
          if \<not> wasAvailable \<and> available g3 then resumeAvailability cfg env g3 else (Inr (), g3))"

section \<open>Runs\<close>

text \<open>
  What can happen to a gateway: a call of the application, the firing of a set timer (with the
  variables its callback captured) or the outcome of an awaited request. A reauthorization
  is the refresh an unauthorized request asks for before it is repeated.
\<close>

datatype gateway_event =
    Connect
  | ExchangeDone nat "gateway_error + RgsExchange" "RgsBinding \<Rightarrow> gateway_error + string" delivery
  | DiscoverDone nat RgsExchange string "gateway_error + PendingDelivery option" delivery
  | RequestSpin string string
  | SpinDone nat "gateway_error + RgsSpin" delivery
  | PollTimerFired nat
  | PollDone nat string "gateway_error + RgsRoundStatus" delivery
  | Acknowledge string int
  | AckRetryFired nat nat
  | AckDeadlineFired nat nat
  | AckDone nat "gateway_error + Acknowledgement"
  | SetAvailability bool bool
  | StatusTimerFired nat
  | ProbeDone nat RgsSession "gateway_error + RgsSessionStatus"
  | SessionTimerFired string
  | Reauthorize
  | RefreshTimerFired string
  | RefreshDone nat RgsSession "gateway_error + RgsExchange"
  | ProactiveRefreshDone string "gateway_error option"
  | Close

definition handle :: "GatewayConfig \<Rightarrow> environment \<Rightarrow> gateway_event \<Rightarrow> gateway \<Rightarrow> gateway" where
  "handle cfg env ev g = (case ev of
       Connect \<Rightarrow> connectGateway g
     | ExchangeDone gen outcome fp callback \<Rightarrow>
         resume (AwaitExchange gen) (exchangeDone cfg env callback gen outcome fp) g
     | DiscoverDone gen x fingerprint outcome callback \<Rightarrow>
         resume (AwaitDiscovery gen x fingerprint)
           (discoverDone cfg env callback gen x fingerprint outcome) g
     | RequestSpin round1 bet \<Rightarrow> snd (requestSpin cfg env round1 bet g)
     | SpinDone i outcome callback \<Rightarrow>
         resume (AwaitSpin i) (submitPendingDone cfg env callback i outcome) g
     | PollTimerFired i \<Rightarrow> fire PollTimer (pollTimerFired cfg env i) g
     | PollDone i round1 outcome callback \<Rightarrow>
         resume (AwaitPoll i round1) (pollPendingDone cfg env callback i round1 outcome) g
     | Acknowledge round1 seqno \<Rightarrow> snd (acknowledgeSpinResult cfg env round1 seqno g)
     | AckRetryFired gen i \<Rightarrow>
         fire AcknowledgementRetryTimer (acknowledgementRetryFired cfg env gen i) g
     | AckDeadlineFired gen i \<Rightarrow>
         fire AcknowledgementDeadlineTimer (acknowledgementDeadlineFired gen i) g
     | AckDone i outcome \<Rightarrow>
         resume (AwaitAcknowledgement i) (submitResultAcknowledgementDone cfg env i outcome) g
     | SetAvailability onlineNow visibleNow \<Rightarrow> snd (setRuntimeAvailability cfg env onlineNow visibleNow g)
     | StatusTimerFired gen \<Rightarrow> fire SessionStatusTimer (statusTimerFired cfg env gen) g
     | ProbeDone gen s0 outcome \<Rightarrow>
         resume (AwaitProbe gen s0) (probeSessionStatusDone cfg env gen s0 outcome) g
     | SessionTimerFired idle \<Rightarrow> fire SessionTimeoutTimer (sessionTimeoutFired cfg env idle) g
     | Reauthorize \<Rightarrow> refreshAccessToken g
     | RefreshTimerFired token \<Rightarrow> fire RefreshTimer (refreshTimerFired token) g
     | RefreshDone gen s0 outcome \<Rightarrow>
         resume (AwaitRefresh gen s0) (refreshAccessTokenDone cfg env gen s0 outcome) g
     | ProactiveRefreshDone token rejection \<Rightarrow>
         resume (AwaitProactiveRefresh token) (proactiveRefreshDone cfg env token rejection) g
     | Close \<Rightarrow> closeGateway g)"

inductive gateway_reach :: "GatewayConfig \<Rightarrow> gateway \<Rightarrow> gateway \<Rightarrow> bool" for cfg g where
  start: "gateway_reach cfg g g"
| step: "gateway_reach cfg g g1 \<Longrightarrow> gateway_reach cfg g (handle cfg env ev g1)"

end
