(* ===== verification/Gateway_Frame.thy ===== *)
theory Gateway_Frame
  imports Gateway_Exchange
begin

text \<open>
  What most operations of the gateway leave alone. A calm change delivers nothing, submits
  nothing, keeps the stored ledger and the identity of the pending round, and never reopens,
  reconnects or revives anything; the operations that are not calm are the ones the
  invariants of the gateway are about.
\<close>

named_theorems calm_intro \<open>operations that are calm\<close>

section \<open>Calm changes\<close>

fun key_effect :: "gateway_effect \<Rightarrow> bool" where
  "key_effect (OnSpinResult r s d) = True"
| "key_effect (PostSpin a b c d) = True"
| "key_effect (SaveLedger c s) = True"
| "key_effect ClearLedger = True"
| "key_effect _ = False"

fun key_await :: "awaited \<Rightarrow> bool" where
  "key_await (AwaitExchange gen) = True"
| "key_await (AwaitDiscovery gen x f) = True"
| "key_await (AwaitSpin i) = True"
| "key_await _ = False"

definition keyLog :: "gateway \<Rightarrow> gateway_effect list" where
  "keyLog g = filter key_effect (gw_log g)"

definition keyAwaits :: "gateway \<Rightarrow> awaited list" where
  "keyAwaits g = filter key_await (gw_awaiting g)"

text \<open>A round that may only lose its right to be submitted again.\<close>

definition calmRound :: "PendingRound \<Rightarrow> PendingRound \<Rightarrow> bool" where
  "calmRound p q = (pending_id q = pending_id p \<and> pending_ledger q = pending_ledger p
     \<and> pending_roundKind q = pending_roundKind p
     \<and> pending_originFeatureState q = pending_originFeatureState p
     \<and> deliveredSequence q = deliveredSequence p
     \<and> (resubmitOnNotFound q \<longrightarrow> resubmitOnNotFound p))"

definition calmPending :: "bool \<Rightarrow> PendingRound option \<Rightarrow> PendingRound option \<Rightarrow> bool" where
  "calmPending gone x y = (case (x, y) of
       (_, None) \<Rightarrow> x = None \<or> gone
     | (None, Some q) \<Rightarrow> False
     | (Some p, Some q) \<Rightarrow> calmRound p q)"

text \<open>The flags (closed, connected, launch code, session) only ever switch off.\<close>

definition calmFlags :: "gateway \<Rightarrow> gateway \<Rightarrow> bool" where
  "calmFlags g h =
     ((gw_closed g \<longrightarrow> gw_closed h)
      \<and> (gw_lastAppliedSequence h = gw_lastAppliedSequence g \<or> gw_closed h)
      \<and> (gw_connected h \<longrightarrow> gw_connected g)
      \<and> (gw_launchCode h \<noteq> None \<longrightarrow> gw_launchCode h = gw_launchCode g)
      \<and> (gw_session g = None \<longrightarrow> gw_session h = None))"

definition calmTrace :: "gateway \<Rightarrow> gateway \<Rightarrow> bool" where
  "calmTrace g h = (keyLog h = keyLog g \<and> keyAwaits h = keyAwaits g \<and> gw_stored h = gw_stored g
     \<and> gw_nextPendingId h = gw_nextPendingId g)"

definition calm :: "gateway \<Rightarrow> gateway \<Rightarrow> bool" where
  "calm g h = (calmTrace g h \<and> calmFlags g h
     \<and> calmPending (gw_closed h) (gw_pending g) (gw_pending h))"

lemma calmRound_refl [simp]: "calmRound p p"
  by (simp add: calmRound_def)

lemma calmRound_trans: "calmRound p q \<Longrightarrow> calmRound q r \<Longrightarrow> calmRound p r"
  by (simp add: calmRound_def)

lemma calmPending_refl [simp]: "calmPending c x x"
  by (simp add: calmPending_def split: option.split)

lemma calmPending_simps [simp]:
  "calmPending c x None \<longleftrightarrow> x = None \<or> c" "\<not> calmPending c None (Some q)" "calmPending c (Some p) (Some q) \<longleftrightarrow> calmRound p q"
  by (simp_all add: calmPending_def split: option.split)

lemma calmPending_trans:
  "calmPending c x y \<Longrightarrow> calmPending d y z \<Longrightarrow> (c \<Longrightarrow> d) \<Longrightarrow> calmPending d x z"
  by (cases x; cases y; cases z) (auto intro: calmRound_trans)

lemma calmPending_map: "(\<And>p. calmRound p (f p)) \<Longrightarrow> calmPending c x y \<Longrightarrow> calmPending c x (map_option f y)"
  by (cases x; cases y) (auto intro: calmRound_trans)

lemma calmPending_gone [simp]: "calmPending True x None"
  by (simp add: calmPending_def split: option.split)

lemma calmPending_weaken: "calmPending c x y \<Longrightarrow> calmPending True x y"
  by (cases x; cases y) (auto simp: calmPending_def)

lemma calm_refl [calm_intro, simp]: "calm g g"
  by (simp add: calm_def calmTrace_def calmFlags_def)

lemma calmFlags_trans: "calmFlags g h \<Longrightarrow> calmFlags h k \<Longrightarrow> calmFlags g k"
  by (auto simp: calmFlags_def)

lemma calm_trans: "calm g h \<Longrightarrow> calm h k \<Longrightarrow> calm g k"
  using calmFlags_trans [of g h k]
    calmPending_trans [of "gw_closed h" "gw_pending g" "gw_pending h" "gw_closed k" "gw_pending k"]
  by (simp add: calm_def calmTrace_def calmFlags_def)

text \<open>Fields no invariant reads.\<close>

lemma calm_fields [simp]:
  "calm g (h\<lparr>gw_timers := ts\<rparr>) = calm g h"
  "calm g (h\<lparr>gw_pollNotBeforeAtMs := t\<rparr>) = calm g h"
  "calm g (h\<lparr>gw_refreshNotBeforeAtMs := t\<rparr>) = calm g h"
  "calm g (h\<lparr>gw_refreshActive := b\<rparr>) = calm g h"
  "calm g (h\<lparr>gw_sessionStatusRequestActive := b\<rparr>) = calm g h"
  "calm g (h\<lparr>gw_serverClockAnchor := a\<rparr>) = calm g h"
  "calm g (h\<lparr>gw_proactiveRefreshToken := t1\<rparr>) = calm g h"
  "calm g (h\<lparr>gw_proactiveRefreshAttempt := i\<rparr>) = calm g h"
  "calm g (h\<lparr>gw_runtimeOnline := b\<rparr>) = calm g h"
  "calm g (h\<lparr>gw_runtimeVisible := b\<rparr>) = calm g h"
  "calm g (h\<lparr>gw_runtimeRecoveryStatusEmitted := b\<rparr>) = calm g h"
  "calm g (h\<lparr>gw_connectParked := b\<rparr>) = calm g h"
  "calm g (h\<lparr>gw_sessionTimeoutNotified := b\<rparr>) = calm g h"
  "calm g (h\<lparr>gw_callbacks := b\<rparr>) = calm g h"
  "calm g (h\<lparr>gw_wageringBlocked := b\<rparr>) = calm g h"
  "calm g (h\<lparr>gw_generation := n\<rparr>) = calm g h"
  "calm g (h\<lparr>gw_accessToken := t1\<rparr>) = calm g h"
  "calm g (h\<lparr>gw_sessionProjectionRequestId := t1\<rparr>) = calm g h"
  "calm g (h\<lparr>gw_bindingFingerprint := t1\<rparr>) = calm g h"
  "calm g (h\<lparr>gw_connecting := b\<rparr>) = calm g h"
  by (simp_all add: calm_def calmTrace_def calmFlags_def keyLog_def keyAwaits_def)

lemma calm_closing [calm_intro]:
  "calm g h \<Longrightarrow> calm g (h\<lparr>gw_connected := False\<rparr>)"
  "calm g h \<Longrightarrow> calm g (h\<lparr>gw_closed := True\<rparr>)"
  "calm g h \<Longrightarrow> calm g (h\<lparr>gw_launchCode := None\<rparr>)"
  "calm g h \<Longrightarrow> calm g (h\<lparr>gw_session := None\<rparr>)"
  by (auto simp: calm_def calmTrace_def calmFlags_def keyLog_def keyAwaits_def intro: calmPending_weaken)

lemma calm_session [calm_intro]:
  "calm g h \<Longrightarrow> gw_session h \<noteq> None \<Longrightarrow> calm g (h\<lparr>gw_session := s\<rparr>)"
  by (auto simp: calm_def calmTrace_def calmFlags_def keyLog_def keyAwaits_def)

lemma calm_mapPending [calm_intro]:
  "(\<And>p. calmRound p (f p)) \<Longrightarrow> calm g h \<Longrightarrow> calm g (mapPending f h)"
  by (simp add: calm_def calmTrace_def calmFlags_def keyLog_def keyAwaits_def mapPending_def calmPending_map)

lemma calm_emit [calm_intro]: "\<not> key_effect x \<Longrightarrow> calm g h \<Longrightarrow> calm g (emit x h)"
  by (simp add: calm_def calmTrace_def calmFlags_def keyLog_def keyAwaits_def emit_def)

lemma calm_notify [calm_intro]: "\<not> key_effect x \<Longrightarrow> calm g h \<Longrightarrow> calm g (notify x h)"
  by (simp add: notify_def calm_emit)

lemma calm_await [calm_intro]: "\<not> key_await a \<Longrightarrow> calm g h \<Longrightarrow> calm g (await a h)"
  by (simp add: calm_def calmTrace_def calmFlags_def keyLog_def keyAwaits_def await_def)

lemma calm_resume:
  assumes "\<not> key_await a" "\<And>h. calm g h \<Longrightarrow> calm g (f h)"
  shows "calm g (resume a f g)"
proof -
  have "filter key_await (remove1 a xs) = filter key_await xs" for xs
    using assms(1) by (induction xs) auto
  then have "calm g (g\<lparr>gw_awaiting := remove1 a (gw_awaiting g)\<rparr>)"
    by (simp add: calm_def calmTrace_def calmFlags_def keyLog_def keyAwaits_def)
  then show ?thesis using assms(2) by (simp add: resume_def)
qed

lemma calm_if [calm_intro]:
  "(c \<Longrightarrow> calm g h) \<Longrightarrow> (\<not> c \<Longrightarrow> calm g k) \<Longrightarrow> calm g (if c then h else k)"
  by simp

lemma calm_option [calm_intro]:
  "(x = None \<Longrightarrow> calm g h) \<Longrightarrow> (\<And>y. x = Some y \<Longrightarrow> calm g (f y)) \<Longrightarrow>
     calm g (case x of None \<Rightarrow> h | Some y \<Rightarrow> f y)"
  by (cases x) simp_all

lemma calm_sum [calm_intro]:
  "(\<And>e. x = Inl e \<Longrightarrow> calm g (h e)) \<Longrightarrow> (\<And>y. x = Inr y \<Longrightarrow> calm g (f y)) \<Longrightarrow>
     calm g (case x of Inl e \<Rightarrow> h e | Inr y \<Rightarrow> f y)"
  by (cases x) simp_all

lemma calm_error [calm_intro]:
  "(\<And>a b c d e1. e = RgsHttpError a b c d e1 \<Longrightarrow> calm g (h1 a b c d e1)) \<Longrightarrow>
     (\<And>a b. e = RgsNetworkError a b \<Longrightarrow> calm g (h2 a b)) \<Longrightarrow>
     (\<And>a. e = ProtocolError a \<Longrightarrow> calm g (h3 a)) \<Longrightarrow> (e = RgsDeliveryError \<Longrightarrow> calm g h4) \<Longrightarrow>
     (e = OtherError \<Longrightarrow> calm g h5) \<Longrightarrow>
     calm g (case e of RgsHttpError a b c d e1 \<Rightarrow> h1 a b c d e1 | RgsNetworkError a b \<Rightarrow> h2 a b
       | ProtocolError a \<Rightarrow> h3 a | RgsDeliveryError \<Rightarrow> h4 | OtherError \<Rightarrow> h5)"
  by (cases e) simp_all

lemma calm_withPending [calm_intro]:
  "(\<And>p. currentPending i h = Some p \<Longrightarrow> calm g h \<Longrightarrow> calm g (f p h)) \<Longrightarrow> calm g h \<Longrightarrow>
     calm g (withPending i f h)"
  by (simp add: withPending_def split: option.split)

text \<open>Handlers that also return a value.\<close>

lemma calm_pair [calm_intro]: "calm g h \<Longrightarrow> calm g (snd (r, h))"
  by simp

lemma calm_snd_if [calm_intro]:
  "(c \<Longrightarrow> calm g (snd x)) \<Longrightarrow> (\<not> c \<Longrightarrow> calm g (snd y)) \<Longrightarrow> calm g (snd (if c then x else y))"
  by simp

lemma calm_snd_option [calm_intro]:
  "(x = None \<Longrightarrow> calm g (snd h)) \<Longrightarrow> (\<And>y. x = Some y \<Longrightarrow> calm g (snd (f y))) \<Longrightarrow>
     calm g (snd (case x of None \<Rightarrow> h | Some y \<Rightarrow> f y))"
  by (cases x) simp_all

lemma calm_snd_sum [calm_intro]:
  "(\<And>e. x = Inl e \<Longrightarrow> calm g (snd (h e))) \<Longrightarrow> (\<And>y. x = Inr y \<Longrightarrow> calm g (snd (f y))) \<Longrightarrow>
     calm g (snd (case x of Inl e \<Rightarrow> h e | Inr y \<Rightarrow> f y))"
  by (cases x) simp_all

lemma calm_snd_prod [calm_intro]:
  "(\<And>a b. x = (a, b) \<Longrightarrow> calm g (snd (f a b))) \<Longrightarrow> calm g (snd (case x of (a, b) \<Rightarrow> f a b))"
  by (cases x) simp

lemma calm_prod [calm_intro]:
  "(\<And>a b. x = (a, b) \<Longrightarrow> calm g (f a b)) \<Longrightarrow> calm g (case x of (a, b) \<Rightarrow> f a b)"
  by (cases x) simp

lemma calm_of_pair: "x = (a, b) \<Longrightarrow> calm g (snd x) \<Longrightarrow> calm g b"
  by simp

lemma calm_fire:
  assumes "\<And>h. calm g h \<Longrightarrow> calm g (f h)"
  shows "calm g (fire t f g)"
  using assms by (simp add: fire_def clearTimer_def)

section \<open>Shared operations\<close>

lemma calm_setTimer [calm_intro]: "calm g h \<Longrightarrow> calm g (setTimer t d h)"
  by (simp add: setTimer_def calm_emit)

lemma calm_clearTimer [calm_intro]: "calm g h \<Longrightarrow> calm g (clearTimer t h)"
  by (simp add: clearTimer_def)

lemma calm_clearPollTimer [calm_intro]: "calm g h \<Longrightarrow> calm g (clearPollTimer b h)"
  by (simp add: clearPollTimer_def Let_def calm_clearTimer)

lemma calm_clearAckTimer [calm_intro]: "calm g h \<Longrightarrow> calm g (clearAcknowledgementRetryTimer b h)"
  by (simp add: clearAcknowledgementRetryTimer_def Let_def calm_clearTimer calm_mapPending calmRound_def)

lemma calm_clearRefreshTimer [calm_intro]: "calm g h \<Longrightarrow> calm g (clearRefreshTimer b h)"
  by (simp add: clearRefreshTimer_def Let_def calm_clearTimer)

lemma calm_clearAllTimers [calm_intro]: "calm g h \<Longrightarrow> calm g (clearAllTimers h)"
  unfolding clearAllTimers_def by (intro calm_intro)

lemma calm_shutDown [calm_intro]: "calm g h \<Longrightarrow> calm g (shutDown h)"
proof -
  assume "calm g h"
  then have "calm g (mapPending blockPending h)"
    by (intro calm_intro) (simp_all add: calmRound_def blockPending_def)
  then have "calm g ((mapPending blockPending h)\<lparr>gw_wageringBlocked := True, gw_closed := True,
      gw_connected := False, gw_connecting := False, gw_generation := gw_generation h + 1\<rparr>)"
    by (simp add: calm_closing)
  then show ?thesis
    unfolding shutDown_def Let_def by (simp add: calm_closing calm_clearAllTimers calm_notify)
qed

lemma calm_forgetSession [calm_intro]: "calm g h \<Longrightarrow> calm g (forgetSession h)"
  by (simp add: forgetSession_def calm_closing)

lemma calm_terminate [calm_intro]:
  "calm g h \<Longrightarrow> calm g (terminateForOperatorRelaunch cause h)"
  unfolding terminateForOperatorRelaunch_def by (intro calm_intro) simp_all

lemma calm_terminateTimeout [calm_intro]: "calm g h \<Longrightarrow> calm g (terminateForSessionTimeout h)"
  unfolding terminateForSessionTimeout_def
  by (intro calm_intro) (simp_all add: calm_shutDown)

lemma calm_reportError [calm_intro]: "calm g h \<Longrightarrow> calm g (reportError e round1 h)"
  unfolding reportError_def Let_def
  by (intro calm_intro) (simp_all add: calm_closing calm_clearRefreshTimer)

lemma calm_armSessionTimeout [calm_intro]: "calm g h \<Longrightarrow> calm g (armSessionTimeout cfg env idle h)"
  unfolding armSessionTimeout_def Let_def by (intro calm_intro)

lemma calm_expire [calm_intro]:
  "calm g h \<Longrightarrow> calm g (snd (expireSessionAtAuthoritativeDeadline cfg env h))"
  by (simp add: expireSessionAtAuthoritativeDeadline_def calm_terminateTimeout split: option.split)

lemma calm_sessionTimeoutFired [calm_intro]: "calm g h \<Longrightarrow> calm g (sessionTimeoutFired cfg env idle h)"
  using calm_expire [of g h cfg env]
  by (auto simp: sessionTimeoutFired_def split: prod.split intro!: calm_intro)

lemma calm_synchronize [calm_intro]:
  "calm g h \<Longrightarrow> calm g (snd (synchronizeServerClock cfg env t h))"
  by (simp add: synchronizeServerClock_def Let_def split: option.split)

section \<open>Rounds\<close>

lemma calm_exhaustAck [calm_intro]: "calm g h \<Longrightarrow> calm g (exhaustResultAcknowledgement i e h)"
  unfolding exhaustResultAcknowledgement_def Let_def
  by (intro calm_intro) (simp_all add: calmRound_def)

lemma calm_exhaustRound [calm_intro]: "calm g h \<Longrightarrow> calm g (exhaustRoundRecovery i h)"
  unfolding exhaustRoundRecovery_def by (intro calm_intro) (simp_all add: calmRound_def)

lemma calm_terminateRecovery [calm_intro]: "calm g h \<Longrightarrow> calm g (terminateRecovery r e h)"
  unfolding terminateRecovery_def by (intro calm_intro)

lemma calm_terminatePending [calm_intro]: "calm g h \<Longrightarrow> calm g (terminatePendingRecovery i e h)"
  unfolding terminatePendingRecovery_def by (intro calm_intro)

lemma calm_manualReview [calm_intro]: "calm g h \<Longrightarrow> calm g (blockForManualReview i h)"
  unfolding blockForManualReview_def by (intro calm_intro)

lemma calm_schedulePoll [calm_intro]: "calm g h \<Longrightarrow> calm g (schedulePoll cfg env i d h)"
  unfolding schedulePoll_def Let_def by (intro calm_intro) simp_all

lemma calm_reportAndPoll [calm_intro]: "calm g h \<Longrightarrow> calm g (reportAndPoll cfg env i e h)"
  unfolding reportAndPoll_def by (intro calm_intro)

lemma calm_noResubmit [calm_intro]: "calm g h \<Longrightarrow> calm g (setResubmit False h)"
  unfolding setResubmit_def by (intro calm_intro) (simp_all add: calmRound_def)

lemma calm_pollFinally [calm_intro]: "calm g h \<Longrightarrow> calm g (pollFinally i h)"
  unfolding pollFinally_def by (intro calm_intro) (simp_all add: calmRound_def)

lemma calm_refundPoll [calm_intro]: "calm g h \<Longrightarrow> calm g (refundPoll i h)"
  unfolding refundPoll_def by (intro calm_intro) (simp_all add: calmRound_def ofRound_def)

lemma calm_resumeRound [calm_intro]: "calm g h \<Longrightarrow> calm g (resumeRoundRecovery cfg env h)"
  unfolding resumeRoundRecovery_def by (intro calm_intro)

section \<open>Acknowledgements\<close>

lemma calm_ackDeadline [calm_intro]: "calm g h \<Longrightarrow> calm g (scheduleAcknowledgementDeadline cfg env i h)"
  unfolding scheduleAcknowledgementDeadline_def Let_def by (intro calm_intro)

lemma calm_ackRetry [calm_intro]: "calm g h \<Longrightarrow> calm g (scheduleAcknowledgementRetry cfg env i e h)"
  unfolding scheduleAcknowledgementRetry_def armAcknowledgementRetry_def Let_def
  by (intro calm_intro) (simp_all add: calmRound_def)

lemma calm_ackFinally [calm_intro]: "calm g h \<Longrightarrow> calm g (acknowledgementFinally i h)"
  unfolding acknowledgementFinally_def by (intro calm_intro) (simp_all add: calmRound_def)

lemma calm_ackError [calm_intro]: "calm g h \<Longrightarrow> calm g (handleAcknowledgementError cfg env i e h)"
  unfolding handleAcknowledgementError_def Let_def
  by (intro calm_intro) (simp_all add: calmRound_def)

lemma calm_submitAck [calm_intro]: "calm g h \<Longrightarrow> calm g (submitResultAcknowledgement cfg env i h)"
  unfolding submitResultAcknowledgement_def Let_def
  by (intro calm_intro) (simp_all add: calmRound_def)

lemma calm_acknowledge [calm_intro]: "calm g (snd (acknowledgeSpinResult cfg env r n g))"
proof -
  have start: "calm g (mapPending (\<lambda>q. q\<lparr>acknowledgementStartedAtMs := t\<rparr>) g)" for t
    by (intro calm_intro) (simp_all add: calmRound_def)
  have flight: "calm g (mapPending (\<lambda>q. q\<lparr>acknowledgementInFlight := True\<rparr>) h)" if "calm g h" for h
    by (intro calm_intro that) (simp add: calmRound_def)
  show ?thesis
    unfolding acknowledgeSpinResult_def Let_def
    by (auto split: option.split intro!: calm_intro flight start)
qed

lemma calm_ackRetryFired [calm_intro]: "calm g h \<Longrightarrow> calm g (acknowledgementRetryFired cfg env gen i h)"
  unfolding acknowledgementRetryFired_def by (intro calm_intro) (simp_all add: calmRound_def)

lemma calm_ackDeadlineFired [calm_intro]: "calm g h \<Longrightarrow> calm g (acknowledgementDeadlineFired gen i h)"
  unfolding acknowledgementDeadlineFired_def by (intro calm_intro)

lemma calm_resumeAck [calm_intro]: "calm g h \<Longrightarrow> calm g (resumeResultAcknowledgement cfg env h)"
  unfolding resumeResultAcknowledgement_def armAcknowledgementRetry_def Let_def
  by (intro calm_intro) (simp_all add: calmRound_def)

section \<open>The session\<close>

lemma calm_refreshAttempt [calm_intro]:
  "calm g h \<Longrightarrow> calm g (scheduleProactiveRefreshAttempt env t d h)"
  unfolding scheduleProactiveRefreshAttempt_def Let_def by (intro calm_intro) simp_all

lemma calm_proactiveRefresh [calm_intro]: "calm g h \<Longrightarrow> calm g (scheduleProactiveRefresh cfg env t h)"
  unfolding scheduleProactiveRefresh_def Let_def
  by (intro calm_intro) (simp_all add: calm_clearRefreshTimer)

lemma calm_failClosed [calm_intro]: "calm g h \<Longrightarrow> calm g (failClosedAfterRefresh e h)"
  unfolding failClosedAfterRefresh_def by (intro calm_intro)

lemma calm_proactiveFailed [calm_intro]: "calm g h \<Longrightarrow> calm g (proactiveRefreshFailed cfg env t e h)"
  unfolding proactiveRefreshFailed_def Let_def by (intro calm_intro) simp_all

lemma calm_proactiveDone [calm_intro]: "calm g h \<Longrightarrow> calm g (proactiveRefreshDone cfg env t r h)"
  unfolding proactiveRefreshDone_def by (intro calm_intro)

lemma calm_resumeRefresh [calm_intro]: "calm g h \<Longrightarrow> calm g (resumeProactiveRefresh cfg env h)"
  unfolding resumeProactiveRefresh_def Let_def by (intro calm_intro)

lemma calm_scheduleProbe [calm_intro]: "calm g h \<Longrightarrow> calm g (scheduleSessionStatusProbe cfg env d h)"
  unfolding scheduleSessionStatusProbe_def by (intro calm_intro)

lemma calm_probeFinally [calm_intro]: "calm g h \<Longrightarrow> calm g (probeFinally cfg env gen h)"
  unfolding probeFinally_def Let_def by (intro calm_intro) simp_all

lemma calm_probeError [calm_intro]: "calm g h \<Longrightarrow> calm g (handleProbeError gen e h)"
  unfolding handleProbeError_def by (intro calm_intro)

lemma calm_probe [calm_intro]: "calm g h \<Longrightarrow> calm g (probeSessionStatus cfg env gen h)"
  unfolding probeSessionStatus_def Let_def by (intro calm_intro) simp_all

lemma calm_statusFired [calm_intro]: "calm g h \<Longrightarrow> calm g (statusTimerFired cfg env gen h)"
  unfolding statusTimerFired_def by (intro calm_intro)

lemma requireSession_Some: "requireSession g = Inr s \<longleftrightarrow> gw_session g = Some s"
  by (simp add: requireSession_def split: option.split)

lemma synchronize_session [simp]: "gw_session (snd (synchronizeServerClock cfg env t h)) = gw_session h"
  by (simp add: synchronizeServerClock_def Let_def split: option.split)

lemma calm_applyStatus [calm_intro]:
  assumes "calm g h" shows "calm g (snd (applySessionStatus cfg env s0 status h))"
proof -
  have sync: "calm g h1 \<and> gw_session h1 = gw_session h"
    if "synchronizeServerClock cfg env t h = (r, h1)" for t r h1
    using calm_synchronize [OF assms, of cfg env t] synchronize_session [of cfg env t h] that by simp
  have expire: "calm g h2" if "expireSessionAtAuthoritativeDeadline cfg env h1 = (b, h2)" "calm g h1"
    for h1 b h2
    using calm_expire [OF that(2), of cfg env] that(1) by simp
  have session: "calm g (h1\<lparr>gw_session := Some s\<rparr>)"
    if "synchronizeServerClock cfg env t h = (r, h1)" "requireSession h = Inr c" for t r h1 c s
    using sync [OF that(1)] that(2) by (intro calm_session) (simp_all add: requireSession_Some)
  show ?thesis
    unfolding applySessionStatus_def Let_def
    by (intro calm_intro assms; (drule sync)?; (drule expire)?;
        (simp add: assms session calm_terminateTimeout calm_armSessionTimeout)?;
        (simp add: calm_session requireSession_Some)?)
qed

lemma calm_probeDone [calm_intro]:
  assumes "calm g h" shows "calm g (probeSessionStatusDone cfg env gen s0 outcome h)"
proof -
  have "calm g h1" if "applySessionStatus cfg env s0 status h = (r, h1)" for status r h1
    using calm_applyStatus [OF assms, of cfg env s0 status] that by simp
  then show ?thesis
    unfolding probeSessionStatusDone_def by (intro calm_intro assms; blast?)
qed

lemma calm_refreshError [calm_intro]: "calm g h \<Longrightarrow> calm g (refreshError gen e h)"
  unfolding refreshError_def
  by (intro calm_intro) (auto split: rgs_error.split intro: calm_terminate)

lemma calm_refreshAccess [calm_intro]: "calm g h \<Longrightarrow> calm g (refreshAccessToken h)"
  unfolding refreshAccessToken_def by (intro calm_intro) simp_all

lemma calm_refreshFired [calm_intro]: "calm g h \<Longrightarrow> calm g (refreshTimerFired t h)"
  unfolding refreshTimerFired_def by (intro calm_intro) simp_all

lemma calm_projectSession [calm_intro]: "calm g h \<Longrightarrow> calm g (snd (projectSession cfg r s h))"
  by (simp add: projectSession_def calm_notify split: sum.split)

lemma calm_exchangeFailed [calm_intro]: "calm g h \<Longrightarrow> calm g (exchangeFailed gen e h)"
  unfolding exchangeFailed_def
  by (intro calm_intro) (simp_all add: calm_closing)

lemma calm_pause [calm_intro]: "calm g h \<Longrightarrow> calm g (pauseForUnavailability b h)"
  unfolding pauseForUnavailability_def Let_def
  by (intro calm_intro) (simp_all add: calm_clearTimer calm_clearPollTimer calm_clearRefreshTimer
      calm_clearAckTimer)

end
