(* ===== verification/Gateway_Invariant.thy ===== *)
theory Gateway_Invariant
  imports Gateway_Frame Origin_Properties
begin

text \<open>
  The invariant of the gateway over all its runs: what it has handed to the controller was
  validated and in order, what it has submitted was stored first, and the facts about rounds,
  awaited requests and the recovery handshake that keep both true.
\<close>

section \<open>Reading the log\<close>

text \<open>The sequences of the results the controller accepted.\<close>

fun accepted_sequences :: "gateway_effect list \<Rightarrow> int list" where
  "accepted_sequences [] = []"
| "accepted_sequences (OnSpinResult r s ControllerAccepts # xs) = sequence r # accepted_sequences xs"
| "accepted_sequences (x # xs) = accepted_sequences xs"

text \<open>The content of the ledger storage after the writes in the log.\<close>

fun replay :: "js option \<Rightarrow> gateway_effect list \<Rightarrow> js option" where
  "replay s [] = s"
| "replay s (SaveLedger c f # xs) = replay (Some (ledgerObject c f)) xs"
| "replay s (ClearLedger # xs) = replay None xs"
| "replay s (x # xs) = replay s xs"

text \<open>A stored ledger is about a round when it has its identifier, bet and start revision.\<close>

fun names_round :: "js option \<Rightarrow> string \<Rightarrow> string \<Rightarrow> string \<Rightarrow> bool" where
  "names_round (Some (JObject d)) r b v =
     (getProp d ''roundId'' = JString r \<and> getProp d ''betMinor'' = JString b
      \<and> getProp d ''startRevision'' = JString v)"
| "names_round _ r b v = False"

text \<open>What every key effect must find in the log before it.\<close>

fun effect_ok :: "bool \<Rightarrow> js option \<Rightarrow> gateway_effect list \<Rightarrow> gateway_effect \<Rightarrow> bool" where
  "effect_ok storage s0 prior (OnSpinResult r s d) =
     (accepts s r \<and> list_all (\<lambda>n. n < sequence r) (accepted_sequences prior))"
| "effect_ok storage s0 prior (PostSpin r k b v) = (storage \<longrightarrow> names_round (replay s0 prior) r b v)"
| "effect_ok storage s0 prior x = True"

fun sound_from :: "bool \<Rightarrow> js option \<Rightarrow> gateway_effect list \<Rightarrow> gateway_effect list \<Rightarrow> bool" where
  "sound_from storage s0 prior [] = True"
| "sound_from storage s0 prior (x # xs) =
     (effect_ok storage s0 prior x \<and> sound_from storage s0 (prior @ [x]) xs)"

lemma replay_append [simp]: "replay s (xs @ ys) = replay (replay s xs) ys"
  by (induction s xs rule: replay.induct) simp_all

lemma accepted_append [simp]:
  "accepted_sequences (xs @ ys) = accepted_sequences xs @ accepted_sequences ys"
  by (induction xs rule: accepted_sequences.induct) simp_all

lemma sound_append:
  "sound_from st s0 pre (xs @ ys) = (sound_from st s0 pre xs \<and> sound_from st s0 (pre @ xs) ys)"
  by (induction xs arbitrary: pre) auto

lemma replay_key: "replay s (filter key_effect xs) = replay s xs"
  by (induction s xs rule: replay.induct) simp_all

lemma accepted_key: "accepted_sequences (filter key_effect xs) = accepted_sequences xs"
  by (induction xs rule: accepted_sequences.induct) simp_all

lemma key_split:
  assumes "sound_from st s0 [] (filter key_effect (xs @ y # ys))" "key_effect y"
  shows "effect_ok st s0 (filter key_effect xs) y"
  using assms by (simp add: sound_append)

section \<open>The invariant\<close>

fun handshake :: "awaited \<Rightarrow> bool" where
  "handshake (AwaitExchange gen) = True"
| "handshake (AwaitDiscovery gen x f) = True"
| "handshake _ = False"

definition starting :: "gateway \<Rightarrow> bool" where
  "starting g = (gw_launchCode g \<noteq> None \<or> list_ex handshake (keyAwaits g))"

text \<open>Nothing delivered, no round, not connected: the state the handshake starts in.\<close>

definition pristine :: "gateway \<Rightarrow> bool" where
  "pristine g = (accepted_sequences (keyLog g) = [] \<and> gw_pending g = None \<and> \<not> gw_connected g)"

definition one_handshake :: "gateway \<Rightarrow> bool" where
  "one_handshake g =
     (length (filter handshake (keyAwaits g)) + (if gw_launchCode g \<noteq> None then 1 else 0) \<le> (1::nat))"

definition round_named :: "PendingRound \<Rightarrow> gateway \<Rightarrow> bool" where
  "round_named p g = names_round (gw_stored g) (pendingRound p)
     (ledger_betMinor (ledger_common (pending_ledger p)))
     (ledger_startRevision (ledger_common (pending_ledger p)))"

definition fresh_ids :: "gateway \<Rightarrow> bool" where
  "fresh_ids g = ((\<forall>p. gw_pending g = Some p \<longrightarrow> pending_id p < gw_nextPendingId g)
     \<and> (\<forall>i. AwaitSpin i \<in> set (keyAwaits g) \<longrightarrow> i < gw_nextPendingId g))"

definition submittable :: "GatewayConfig \<Rightarrow> gateway \<Rightarrow> bool" where
  "submittable cfg g = (\<forall>p. cfg_hasStorage cfg \<longrightarrow> gw_pending g = Some p \<longrightarrow>
     resubmitOnNotFound p \<or> AwaitSpin (pending_id p) \<in> set (keyAwaits g) \<longrightarrow> round_named p g)"

definition cursor_ok :: "gateway \<Rightarrow> bool" where
  "cursor_ok g = list_all (\<lambda>n. n \<le> gw_lastAppliedSequence g) (accepted_sequences (keyLog g))"

definition stored_ok :: "GatewayConfig \<Rightarrow> js option \<Rightarrow> gateway \<Rightarrow> bool" where
  "stored_ok cfg s0 g = (cfg_hasStorage cfg \<longrightarrow> gw_stored g = replay s0 (keyLog g))"

definition live :: "GatewayConfig \<Rightarrow> js option \<Rightarrow> gateway \<Rightarrow> bool" where
  "live cfg s0 g = (stored_ok cfg s0 g \<and> cursor_ok g \<and> (starting g \<longrightarrow> pristine g)
     \<and> one_handshake g \<and> fresh_ids g \<and> submittable cfg g)"

definition gateway_inv :: "GatewayConfig \<Rightarrow> js option \<Rightarrow> gateway \<Rightarrow> bool" where
  "gateway_inv cfg s0 g = (sound_from (cfg_hasStorage cfg) s0 [] (keyLog g)
     \<and> (gw_closed g \<or> live cfg s0 g))"

lemmas live_defs = live_def stored_ok_def cursor_ok_def starting_def pristine_def one_handshake_def
  fresh_ids_def submittable_def round_named_def

lemma start_inv: "gateway_inv cfg s0 (newGateway launchCode s0)"
  by (simp add: gateway_inv_def live_defs newGateway_def keyLog_def keyAwaits_def)

text \<open>Fields the invariant does not read.\<close>

lemma inv_fields [simp]:
  "gateway_inv cfg s0 (g\<lparr>gw_session := s\<rparr>) = gateway_inv cfg s0 g"
  "gateway_inv cfg s0 (g\<lparr>gw_accessToken := t\<rparr>) = gateway_inv cfg s0 g"
  "gateway_inv cfg s0 (g\<lparr>gw_sessionProjectionRequestId := t\<rparr>) = gateway_inv cfg s0 g"
  "gateway_inv cfg s0 (g\<lparr>gw_bindingFingerprint := t\<rparr>) = gateway_inv cfg s0 g"
  "gateway_inv cfg s0 (g\<lparr>gw_wageringBlocked := b\<rparr>) = gateway_inv cfg s0 g"
  "gateway_inv cfg s0 (g\<lparr>gw_connecting := b\<rparr>) = gateway_inv cfg s0 g"
  "gateway_inv cfg s0 (g\<lparr>gw_proactiveRefreshAttempt := n\<rparr>) = gateway_inv cfg s0 g"
  "gateway_inv cfg s0 (g\<lparr>gw_refreshActive := b\<rparr>) = gateway_inv cfg s0 g"
  "gateway_inv cfg s0 (g\<lparr>gw_connectParked := b\<rparr>) = gateway_inv cfg s0 g"
  "gateway_inv cfg s0 (g\<lparr>gw_runtimeRecoveryStatusEmitted := b\<rparr>) = gateway_inv cfg s0 g"
  "gateway_inv cfg s0 (g\<lparr>gw_lastAppliedRoundId := t\<rparr>) = gateway_inv cfg s0 g"
  "gateway_inv cfg s0 (g\<lparr>gw_timers := ts\<rparr>) = gateway_inv cfg s0 g"
  by (simp_all add: gateway_inv_def live_defs keyLog_def keyAwaits_def)

lemma calmPending_Some:
  "calmPending c x (Some q) \<Longrightarrow> \<exists>p. x = Some p \<and> calmRound p q"
  by (cases x) (simp_all add: calmPending_def)

lemma inv_calm:
  assumes "gateway_inv cfg s0 g" and "calm g h" shows "gateway_inv cfg s0 h"
proof (cases "gw_closed h")
  case True
  with assms show ?thesis by (simp add: gateway_inv_def calm_def calmTrace_def)
next
  case False
  from assms(2) have t: "keyLog h = keyLog g" "keyAwaits h = keyAwaits g" "gw_stored h = gw_stored g"
      "gw_nextPendingId h = gw_nextPendingId g"
    and f: "calmFlags g h" and p: "calmPending (gw_closed h) (gw_pending g) (gw_pending h)"
    by (simp_all add: calm_def calmTrace_def)
  from False f have open1: "\<not> gw_closed g" and seq: "gw_lastAppliedSequence h = gw_lastAppliedSequence g"
    and conn: "gw_connected h \<Longrightarrow> gw_connected g"
    and code: "gw_launchCode h \<noteq> None \<Longrightarrow> gw_launchCode g \<noteq> None"
    by (auto simp: calmFlags_def)
  from assms(1) open1 have l: "live cfg s0 g" and s: "sound_from (cfg_hasStorage cfg) s0 [] (keyLog g)"
    by (simp_all add: gateway_inv_def)
  have old: "\<exists>p. gw_pending g = Some p \<and> calmRound p q" if "gw_pending h = Some q" for q
    using p that by (simp add: calmPending_Some)
  have op: "starting h \<Longrightarrow> starting g" and one: "one_handshake g \<Longrightarrow> one_handshake h"
    using code by (cases "gw_launchCode h"; simp add: starting_def one_handshake_def t)+
  have "pristine g \<Longrightarrow> pristine h"
    using conn old by (cases "gw_pending h") (auto simp: pristine_def t)
  moreover have "fresh_ids g \<Longrightarrow> fresh_ids h"
    using old by (fastforce simp: fresh_ids_def t calmRound_def)
  moreover have "submittable cfg g \<Longrightarrow> submittable cfg h"
    using old by (fastforce simp: submittable_def t calmRound_def round_named_def pendingRound_def)
  ultimately have "live cfg s0 h"
    using l op one by (auto simp: live_def stored_ok_def cursor_ok_def t seq)
  with s show ?thesis by (simp add: gateway_inv_def t)
qed

lemma inv_notify: "\<not> key_effect x \<Longrightarrow> gateway_inv cfg s0 g \<Longrightarrow> gateway_inv cfg s0 (notify x g)"
  by (rule inv_calm [OF _ calm_notify [OF _ calm_refl]])

lemma inv_sound: "gateway_inv cfg s0 g \<Longrightarrow> sound_from (cfg_hasStorage cfg) s0 [] (keyLog g)"
  by (simp add: gateway_inv_def)

lemma inv_live: "gateway_inv cfg s0 g \<Longrightarrow> \<not> gw_closed g \<Longrightarrow> live cfg s0 g"
  by (simp add: gateway_inv_def)

lemma inv_closedI: "sound_from (cfg_hasStorage cfg) s0 [] (keyLog g) \<Longrightarrow> gw_closed g \<Longrightarrow> gateway_inv cfg s0 g"
  by (simp add: gateway_inv_def)

lemma inv_liveI: "sound_from (cfg_hasStorage cfg) s0 [] (keyLog g) \<Longrightarrow> live cfg s0 g \<Longrightarrow> gateway_inv cfg s0 g"
  by (simp add: gateway_inv_def)

lemma inv_option:
  "(x = None \<Longrightarrow> gateway_inv cfg s0 h) \<Longrightarrow> (\<And>y. x = Some y \<Longrightarrow> gateway_inv cfg s0 (f y)) \<Longrightarrow>
     gateway_inv cfg s0 (case x of None \<Rightarrow> h | Some y \<Rightarrow> f y)"
  by (cases x) simp_all

lemma inv_if:
  "(c \<Longrightarrow> gateway_inv cfg s0 g) \<Longrightarrow> (\<not> c \<Longrightarrow> gateway_inv cfg s0 h) \<Longrightarrow>
     gateway_inv cfg s0 (if c then g else h)"
  by simp

lemma inv_sum:
  "(\<And>e. x = Inl e \<Longrightarrow> gateway_inv cfg s0 (h e)) \<Longrightarrow> (\<And>y. x = Inr y \<Longrightarrow> gateway_inv cfg s0 (f y)) \<Longrightarrow>
     gateway_inv cfg s0 (case x of Inl e \<Rightarrow> h e | Inr y \<Rightarrow> f y)"
  by (cases x) simp_all

lemma inv_withPending:
  "gateway_inv cfg s0 g \<Longrightarrow> (\<And>p. currentPending i g = Some p \<Longrightarrow> gateway_inv cfg s0 (f p g)) \<Longrightarrow>
     gateway_inv cfg s0 (withPending i f g)"
  by (simp add: withPending_def split: option.split)

lemma inv_resume:
  assumes "gateway_inv cfg s0 g"
    and "\<And>h. a \<in> set (gw_awaiting g) \<Longrightarrow> h = g\<lparr>gw_awaiting := remove1 a (gw_awaiting g)\<rparr> \<Longrightarrow>
      gateway_inv cfg s0 (f h)"
  shows "gateway_inv cfg s0 (resume a f g)"
  using assms by (simp add: resume_def)

lemma currentPendingD:
  "currentPending i g = Some p \<Longrightarrow> \<not> gw_closed g \<and> gw_pending g = Some p \<and> pending_id p = i"
  by (auto simp: currentPending_def split: if_splits option.splits)

end
