(* ===== verification/Gateway_Safety.thy ===== *)
theory Gateway_Safety
  imports Gateway_Invariant
begin

text \<open>
  Every event keeps the invariant of the gateway: the operations that are not calm, one by
  one (a round opened, submitted, delivered and cleared, the exchange and its recovery), and
  their composition in the handlers.
\<close>

section \<open>Rounds\<close>

definition matched :: "GatewayConfig \<Rightarrow> nat \<Rightarrow> gateway \<Rightarrow> bool" where
  "matched cfg i g = (\<forall>p. cfg_hasStorage cfg \<longrightarrow> currentPending i g = Some p \<longrightarrow> round_named p g)"

lemma matched_calm: "matched cfg i g \<Longrightarrow> calm g h \<Longrightarrow> matched cfg i h"
proof -
  assume m: "matched cfg i g" and c: "calm g h"
  have "\<exists>p. currentPending i g = Some p \<and> calmRound p q" if "currentPending i h = Some q" for q
  proof -
    from currentPendingD [OF that] have q: "\<not> gw_closed h" "gw_pending h = Some q" "pending_id q = i"
      by simp_all
    from q(2) c obtain p where p: "gw_pending g = Some p" "calmRound p q"
      using calmPending_Some [of "gw_closed h" "gw_pending g" q] by (auto simp: calm_def)
    from c q(1) have "\<not> gw_closed g" by (auto simp: calm_def calmFlags_def)
    with p q show ?thesis by (simp add: currentPending_def calmRound_def)
  qed
  with m c show "matched cfg i h"
    by (fastforce simp: matched_def round_named_def calm_def calmTrace_def calmRound_def pendingRound_def)
qed

lemma inv_clearPending [intro]:
  "gateway_inv cfg s0 g \<Longrightarrow> gateway_inv cfg s0 (clearPending cfg i g)"
  unfolding clearPending_def Let_def
  by (rule inv_withPending)
    (auto dest: currentPendingD simp: gateway_inv_def live_defs keyLog_def keyAwaits_def emit_def
      clearTimer_def clearAcknowledgementRetryTimer_def clearPollTimer_def mapPending_def Let_def sound_append)

lemma inv_finishRejected [intro]:
  "gateway_inv cfg s0 g \<Longrightarrow> gateway_inv cfg s0 (finishRejectedRound cfg i r c m g)"
  unfolding finishRejectedRound_def by (intro inv_notify inv_clearPending) simp_all

lemma inv_mapPending:
  assumes "gateway_inv cfg s0 g"
    and "\<And>p. gw_pending g = Some p \<Longrightarrow> pending_id (f p) = pending_id p \<and> pending_ledger (f p) = pending_ledger p
      \<and> (resubmitOnNotFound (f p) \<longrightarrow> resubmitOnNotFound p \<or> (cfg_hasStorage cfg \<longrightarrow> round_named p g))"
  shows "gateway_inv cfg s0 (mapPending f g)"
proof (cases "gw_pending g")
  case None
  then have "mapPending f g = g" by (cases g) (simp add: mapPending_def)
  then show ?thesis using assms(1) by simp
next
  case (Some p)
  with assms(2) [OF Some] assms(1) show ?thesis
    by (auto simp: gateway_inv_def live_defs keyLog_def keyAwaits_def mapPending_def pendingRound_def)
qed

lemma inv_setResubmit:
  "gateway_inv cfg s0 g \<Longrightarrow> matched cfg i g \<Longrightarrow> currentPending i g = Some p \<Longrightarrow>
     gateway_inv cfg s0 (setResubmit b g)"
  unfolding setResubmit_def
  using currentPendingD [of i g p] by (intro inv_mapPending) (auto simp: matched_def)

lemma inv_submitted:
  assumes "gateway_inv cfg s0 g" and "currentPending i g = Some p" and "cfg_hasStorage cfg \<Longrightarrow> round_named p g"
  shows "gateway_inv cfg s0 (await (AwaitSpin i) (emit (PostSpin (pendingRound p) k
    (ledger_betMinor (ledger_common (pending_ledger p)))
    (ledger_startRevision (ledger_common (pending_ledger p)))) g))"
  using assms currentPendingD [OF assms(2)]
  by (auto simp: gateway_inv_def live_defs keyLog_def keyAwaits_def await_def emit_def sound_append)

lemma inv_handleSubmitError:
  assumes "gateway_inv cfg s0 g" and "matched cfg i g"
  shows "gateway_inv cfg s0 (handleSubmitError cfg env i e g)"
proof -
  have again: "gateway_inv cfg s0 (setResubmit b g)" if "currentPending i g = Some p" for b p
    using inv_setResubmit [OF assms that] .
  have stop: "gateway_inv cfg s0 (terminatePendingRecovery i e g)"
    and poll: "gateway_inv cfg s0 (schedulePoll cfg env i d g)" for d
    by (auto intro: inv_calm [OF assms(1)] calm_intro)
  have report: "gateway_inv cfg s0 (reportAndPoll cfg env i e h)" if "gateway_inv cfg s0 h" for h
    using that by (auto intro: inv_calm calm_intro)
  show ?thesis
  proof (cases e)
    case (RgsHttpError st rq c m t)
    show ?thesis
      unfolding handleSubmitError_def RgsHttpError gateway_error.case
      by (intro inv_withPending inv_if assms again inv_finishRejected poll
          report [unfolded RgsHttpError] stop [unfolded RgsHttpError]; assumption)
  next
    case (RgsNetworkError t rq)
    then show ?thesis
      unfolding handleSubmitError_def
      by (intro inv_withPending assms) (simp add: report [unfolded RgsNetworkError] again)
  qed (use assms(1) report stop in \<open>auto simp: handleSubmitError_def intro!: inv_withPending\<close>)
qed

lemma inv_submitPending:
  assumes "gateway_inv cfg s0 g" and "matched cfg i g"
  shows "gateway_inv cfg s0 (submitPending cfg env i g)"
proof -
  have c: "calm g (setResubmit False g)" by (intro calm_intro)
  note i = inv_calm [OF assms(1) c] and m = matched_calm [OF assms(2) c]
  have "gateway_inv cfg s0 (await (AwaitSpin i) (emit (PostSpin (pendingRound p) k
      (ledger_betMinor (ledger_common (pending_ledger p)))
      (ledger_startRevision (ledger_common (pending_ledger p)))) (setResubmit False g)))"
    if "currentPending i g = Some p" for p k
  proof -
    from currentPendingD [OF that]
    have "currentPending i (setResubmit False g) = Some (p\<lparr>resubmitOnNotFound := False\<rparr>)"
      by (simp add: currentPending_def setResubmit_def mapPending_def)
    from inv_submitted [OF i this] this m show ?thesis by (simp add: matched_def pendingRound_def)
  qed
  with i m assms(1) show ?thesis
    unfolding submitPending_def Let_def
    by (intro inv_withPending inv_if inv_sum inv_handleSubmitError) simp_all
qed

section \<open>Delivery\<close>

lemma clearAll_closed [simp]: "gw_closed (clearAllTimers g) = gw_closed g"
  by (simp add: clearAllTimers_def clearTimer_def clearRefreshTimer_def clearPollTimer_def
      clearAcknowledgementRetryTimer_def mapPending_def Let_def)

lemma calm_close: "calm g (closeGateway g)"
proof -
  let ?h = "clearAllTimers (g\<lparr>gw_closed := True, gw_connected := False, gw_connecting := False,
    gw_generation := gw_generation g + 1\<rparr>)"
  have h: "calm g ?h" by (intro calm_intro) (simp_all add: calm_closing)
  have c: "gw_closed ?h" by simp
  have "calm g (?h\<lparr>gw_proactiveRefreshToken := None, gw_pending := None,
      gw_lastAppliedSequence := 0, gw_lastAppliedRoundId := None, gw_refreshActive := False,
      gw_proactiveRefreshAttempt := 0, gw_accessToken := None, gw_launchCode := None,
      gw_session := None, gw_sessionProjectionRequestId := None, gw_bindingFingerprint := None,
      gw_connectParked := False, gw_runtimeRecoveryStatusEmitted := False,
      gw_sessionTimeoutNotified := False, gw_sessionStatusRequestActive := False,
      gw_serverClockAnchor := None\<rparr>)"
    using h c by (auto simp: calm_def calmTrace_def calmFlags_def keyLog_def keyAwaits_def)
  then show ?thesis
    unfolding closeGateway_def Let_def by (simp add: calm_notify)
qed

lemma closed_close: "gw_closed (closeGateway g)"
  by (simp add: closeGateway_def Let_def notify_def emit_def)

lemma inv_handed:
  assumes "gateway_inv cfg s0 g" and "currentPending i g = Some p" and "accepts s r"
    and "gw_lastAppliedSequence g < sequence r"
  shows "gateway_inv cfg s0 ((notify (OnSpinResult r s ControllerAccepts) g)\<lparr>gw_lastAppliedSequence := sequence r\<rparr>)"
    and "gateway_inv cfg s0 (notify (OnSpinResult r s ControllerThrows) g)"
    and "gateway_inv cfg s0 (closeGateway (notify (OnSpinResult r s ControllerCloses) g))"
proof -
  from assms(1,2) have l: "live cfg s0 g" and p: "gw_pending g = Some p"
    using inv_live currentPendingD by blast+
  then have le: "list_all (\<lambda>n. n < sequence r) (accepted_sequences (keyLog g))"
    and no: "\<not> starting g"
    using assms(4) by (auto simp: live_def cursor_ok_def pristine_def list_all_iff)
  have s: "sound_from (cfg_hasStorage cfg) s0 [] (keyLog (notify (OnSpinResult r s d) g))" for d
    using inv_sound [OF assms(1)] assms(3) le
    by (simp add: notify_def emit_def keyLog_def sound_append accepted_key)
  have "live cfg s0 ((notify (OnSpinResult r s ControllerAccepts) g)\<lparr>gw_lastAppliedSequence := sequence r\<rparr>)"
    using l no le assms(4)
    by (auto simp: live_defs keyLog_def keyAwaits_def notify_def emit_def list_all_iff)
  with s [of ControllerAccepts]
  show "gateway_inv cfg s0 ((notify (OnSpinResult r s ControllerAccepts) g)\<lparr>gw_lastAppliedSequence := sequence r\<rparr>)"
    by (intro inv_liveI) (simp_all add: keyLog_def)
  have "live cfg s0 (notify (OnSpinResult r s ControllerThrows) g)"
    using l no by (auto simp: live_defs keyLog_def keyAwaits_def notify_def emit_def)
  with s [of ControllerThrows] show "gateway_inv cfg s0 (notify (OnSpinResult r s ControllerThrows) g)"
    by (rule inv_liveI)
  have "keyLog (closeGateway h) = keyLog h" for h
    using calm_close [of h] by (simp add: calm_def calmTrace_def)
  with s [of ControllerCloses] closed_close
  show "gateway_inv cfg s0 (closeGateway (notify (OnSpinResult r s ControllerCloses) g))"
    by (intro inv_closedI) simp_all
qed

lemma inv_recordDelivery:
  assumes "gateway_inv cfg s0 (g\<lparr>gw_lastAppliedSequence := sequence (spin_result d)\<rparr>)"
  shows "gateway_inv cfg s0 (recordDelivery cfg env d n g)"
  unfolding recordDelivery_def Let_def
  by (intro inv_calm [OF _ calm_clearPollTimer [OF calm_refl]] inv_mapPending
      inv_calm [OF _ calm_armSessionTimeout [OF calm_refl]])
    (use assms in simp_all)

lemma checkCommitted_Deliver:
  assumes "checkCommitted cfg p d g = Inr (Deliver origin s)"
  shows "accepts origin (spin_result d) \<and> gw_lastAppliedSequence g < sequence (spin_result d)
    \<and> requireSession g = Inr s"
proof -
  from assms obtain b where s: "requireSession g = Inr b"
    and d: "(case classifySpinResult (guardState p (binding b) g) (spin_result d) of
       reject_result reason \<Rightarrow> protocol ''committed RGS result was rejected''
     | duplicate_result \<Rightarrow> Inr Duplicate
     | accept_result \<Rightarrow>
       bindE (liftE (reconstructOriginFeatureState (pending_originFeatureState p) (pending_ledger p)
         (spin_result d))) (\<lambda>origin.
       if validateSpinResultAgainstOrigin origin (spin_result d) \<noteq> Inr () then Inl OtherError
       else if idleTime cfg (expiresAt b) < idleTime cfg (spin_idleDisconnectAt d)
       then protocol ''committed RGS idle deadline exceeds the session expiry''
       else Inr (Deliver origin b))) = Inr (Deliver origin s)"
    unfolding checkCommitted_def by (elim bindE_E) blast
  from d have c: "classifySpinResult (guardState p (binding b) g) (spin_result d) = accept_result"
    by (auto split: SpinResultDecision.splits)
  from d have "accepts origin (spin_result d) \<and> b = s"
    unfolding c SpinResultDecision.case
    by (elim bindE_E) (auto simp: accepts_def split: if_splits)
  with s classify_accept [OF c] show ?thesis by (simp add: guardState_def)
qed

lemma inv_acceptCommitted:
  assumes "gateway_inv cfg s0 g"
  shows "gateway_inv cfg s0 (snd (acceptCommitted cfg env cb i d g))"
proof (cases "currentPending i g")
  case None
  then show ?thesis using assms by (simp add: acceptCommitted_def)
next
  case (Some p)
  have "gateway_inv cfg s0 (snd (deliverResult cfg env cb d origin s g))"
    if "checkCommitted cfg p d g = Inr (Deliver origin s)" for origin s
  proof -
    from checkCommitted_Deliver [OF that] inv_handed [OF assms Some] show ?thesis
      by (simp add: deliverResult_def Let_def inv_recordDelivery split: delivery.split)
  qed
  with Some assms show ?thesis
    by (auto simp: acceptCommitted_def split: sum.split acceptance.split)
qed

lemma acceptCommitted_error:
  assumes "acceptCommitted cfg env cb i d g = (Inl e, h)" and "matched cfg i g"
  shows "matched cfg i h"
proof -
  have "h = g \<or> (\<exists>r s. h = notify (OnSpinResult r s ControllerThrows) g)"
    using assms(1)
    by (auto simp: acceptCommitted_def deliverResult_def Let_def
        split: option.splits if_splits sum.splits acceptance.splits delivery.splits)
  moreover have "matched cfg i (notify x g)" for x
    using assms(2) by (simp add: matched_def currentPending_def round_named_def notify_def emit_def)
  ultimately show ?thesis using assms(2) by auto
qed

end
