(* ===== verification/Gateway_Runs.thy ===== *)
theory Gateway_Runs
  imports Gateway_Safety Recovery_Properties
begin

text \<open>
  The handlers of \<open>handle\<close> keep the invariant, so every run of a gateway does.
\<close>

section \<open>Names of stored rounds\<close>

lemma names_ledgerObject:
  "names_round (Some (ledgerObject c s)) (ledger_roundId c) (ledger_betMinor c) (ledger_startRevision c)"
  by (simp add: ledgerObject_def getProp_def)

lemma common_names:
  "decodeLedgerCommon d = Inr c \<Longrightarrow>
     names_round (Some (JObject d)) (ledger_roundId c) (ledger_betMinor c) (ledger_startRevision c)"
  by (auto simp: decodeLedgerCommon_def accept split: option.splits if_splits)

lemma decoded_names:
  assumes "decodeLedger raw = Inr l"
  shows "names_round (Some raw) (ledger_roundId (ledger_common l)) (ledger_betMinor (ledger_common l))
    (ledger_startRevision (ledger_common l))"
proof -
  from assms obtain o1 where o: "raw = JObject o1" by (cases raw) simp_all
  have "decodeLedgerCommon o1 = Inr (ledger_common l)"
    using assms unfolding o decodeLedger.simps
    by (auto simp: accept split: if_splits option.splits)
  then show ?thesis unfolding o by (rule common_names)
qed

section \<open>Requests and their outcomes\<close>

lemma awaiting_key: "key_await a \<Longrightarrow> a \<in> set (gw_awaiting g) \<Longrightarrow> a \<in> set (keyAwaits g)"
  by (simp add: keyAwaits_def)

lemma filter_remove1_le: "length (filter P (remove1 a xs)) \<le> length (filter P xs)"
  by (induction xs) auto

lemma inv_resumed:
  assumes "gateway_inv cfg s0 g" shows "gateway_inv cfg s0 (g\<lparr>gw_awaiting := remove1 a (gw_awaiting g)\<rparr>)"
proof -
  let ?h = "g\<lparr>gw_awaiting := remove1 a (gw_awaiting g)\<rparr>"
  have sub: "set (keyAwaits ?h) \<subseteq> set (keyAwaits g)"
    using set_remove1_subset [of a "gw_awaiting g"] by (auto simp: keyAwaits_def)
  have "filter key_await (remove1 a xs) = (if key_await a then remove1 a (filter key_await xs)
      else filter key_await xs)" for xs
    by (induction xs) auto
  then have "length (filter handshake (keyAwaits ?h)) \<le> length (filter handshake (keyAwaits g))"
    using filter_remove1_le [of handshake a "filter key_await (gw_awaiting g)"] by (simp add: keyAwaits_def)
  then have "one_handshake g \<Longrightarrow> one_handshake ?h" by (simp add: one_handshake_def split: if_splits)
  moreover have "starting ?h \<Longrightarrow> starting g" using sub by (auto simp: starting_def list_ex_iff)
  moreover have "live cfg s0 g \<Longrightarrow> fresh_ids ?h \<and> submittable cfg ?h"
    using sub by (fastforce simp: live_def fresh_ids_def submittable_def round_named_def)
  ultimately have "live cfg s0 g \<Longrightarrow> live cfg s0 ?h"
    by (auto simp: live_def stored_ok_def cursor_ok_def pristine_def keyLog_def)
  with assms show ?thesis by (auto simp: gateway_inv_def keyLog_def)
qed

lemma matched_awaited:
  assumes "gateway_inv cfg s0 g" and "AwaitSpin i \<in> set (gw_awaiting g)"
  shows "matched cfg i (g\<lparr>gw_awaiting := xs\<rparr>)"
proof -
  have "round_named p (g\<lparr>gw_awaiting := xs\<rparr>)"
    if "cfg_hasStorage cfg" "currentPending i g = Some p" for p
    using assms that(1) currentPendingD [OF that(2)] awaiting_key [OF _ assms(2)]
    by (auto simp: gateway_inv_def live_def submittable_def round_named_def)
  then show ?thesis by (auto simp: matched_def currentPending_def)
qed

lemma inv_submitDone:
  assumes "gateway_inv cfg s0 g" and "matched cfg i g"
  shows "gateway_inv cfg s0 (submitPendingDone cfg env cb i outcome g)"
proof (cases outcome)
  case (Inl e)
  with inv_handleSubmitError [OF assms] show ?thesis by (simp add: submitPendingDone_def)
next
  case (Inr d)
  obtain r h where h: "acceptCommitted cfg env cb i d g = (r, h)" by fastforce
  with inv_acceptCommitted [OF assms(1), of env cb i d] have i: "gateway_inv cfg s0 h" by simp
  show ?thesis
  proof (cases r)
    case (Inl e)
    with h have "acceptCommitted cfg env cb i d g = (Inl e, h)" by simp
    from inv_handleSubmitError [OF i acceptCommitted_error [OF this assms(2)]] Inl Inr h
    show ?thesis by (simp add: submitPendingDone_def)
  qed (use Inr h i in \<open>simp add: submitPendingDone_def\<close>)
qed

lemma inv_handlePollError:
  assumes "gateway_inv cfg s0 g" shows "gateway_inv cfg s0 (handlePollError cfg env i e g)"
proof -
  have stop: "gateway_inv cfg s0 (terminatePendingRecovery i e g)"
    "gateway_inv cfg s0 (exhaustRoundRecovery i g)" "gateway_inv cfg s0 (reportAndPoll cfg env i e g)"
    by (auto intro: inv_calm [OF assms] calm_intro)
  have submit: "gateway_inv cfg s0 (submitPending cfg env i (setResubmit False g))"
    if "currentPending i g = Some p" "resubmitOnNotFound p" for p
  proof -
    have c: "calm g (setResubmit False g)" by (intro calm_intro)
    have "matched cfg i g"
      using that currentPendingD [OF that(1)] assms
      by (auto simp: matched_def gateway_inv_def live_def submittable_def)
    from inv_submitPending [OF inv_calm [OF assms c] matched_calm [OF this c]] show ?thesis .
  qed
  show ?thesis
    unfolding handlePollError_def
    by (intro inv_withPending inv_if assms stop) (auto intro: submit)
qed

lemma inv_applyStatus:
  assumes "gateway_inv cfg s0 g"
  shows "gateway_inv cfg s0 (snd (applyStatus cfg env cb i r st g))"
proof -
  have "gateway_inv cfg s0 (refundPoll i g)" "gateway_inv cfg s0 (schedulePoll cfg env i None g)"
    "gateway_inv cfg s0 (blockForManualReview i g)"
    by (auto intro: inv_calm [OF assms] calm_intro)
  with assms show ?thesis
    by (auto simp: applyStatus_def inv_finishRejected inv_acceptCommitted split: option.split)
qed

lemma inv_pollDone:
  assumes "gateway_inv cfg s0 g"
  shows "gateway_inv cfg s0 (pollPendingDone cfg env cb i r outcome g)"
proof -
  have f: "gateway_inv cfg s0 (pollFinally i h)" if "gateway_inv cfg s0 h" for h
    using that by (auto intro: inv_calm calm_intro)
  have "gateway_inv cfg s0 (mapPending (ofRound i (\<lambda>q. q\<lparr>resubmitOnNotFound := False\<rparr>)) g)"
    by (rule inv_mapPending [OF assms]) (simp add: ofRound_def)
  note a = inv_applyStatus [OF this]
  have "gateway_inv cfg s0 h" if "applyStatus cfg env cb i r st
      (mapPending (ofRound i (\<lambda>q. q\<lparr>resubmitOnNotFound := False\<rparr>)) g) = (x, h)" for st x h
    using a [of env cb i r st] that by simp
  then show ?thesis
    unfolding pollPendingDone_def
    by (intro f) (auto simp: assms inv_handlePollError split: sum.split prod.split)
qed

lemma inv_ackDone:
  assumes "gateway_inv cfg s0 g"
  shows "gateway_inv cfg s0 (submitResultAcknowledgementDone cfg env i outcome g)"
proof -
  have f: "gateway_inv cfg s0 (acknowledgementFinally i h)" if "gateway_inv cfg s0 h" for h
    using that by (auto intro: inv_calm calm_intro)
  have e: "gateway_inv cfg s0 (handleAcknowledgementError cfg env i x g)" for x
    by (auto intro: inv_calm [OF assms] calm_intro)
  show ?thesis
    unfolding submitResultAcknowledgementDone_def
    by (intro inv_withPending f assms inv_sum inv_if e inv_option inv_notify inv_clearPending) simp_all
qed

section \<open>Opening a round\<close>

lemma inv_opened:
  assumes "gateway_inv cfg s0 g" and "gw_pending g = None" and "gw_connected g" and "\<not> gw_closed g"
    and "p = newPending (gw_nextPendingId g) (LedgerV2 c origin) kind (Some origin) False"
    and "g1 = (if cfg_hasStorage cfg
      then (emit (SaveLedger c origin) g)\<lparr>gw_stored := Some (ledgerObject c origin)\<rparr> else g)"
  shows "gateway_inv cfg s0 (g1\<lparr>gw_pending := Some p, gw_nextPendingId := gw_nextPendingId g + 1\<rparr>)"
    and "matched cfg (gw_nextPendingId g)
      (g1\<lparr>gw_pending := Some p, gw_nextPendingId := gw_nextPendingId g + 1\<rparr>)"
proof -
  from assms(1,4) have l: "live cfg s0 g" by (rule inv_live)
  with assms(3) have "\<not> starting g" by (auto simp: live_def pristine_def)
  with l inv_sound [OF assms(1)]
  show "gateway_inv cfg s0 (g1\<lparr>gw_pending := Some p, gw_nextPendingId := gw_nextPendingId g + 1\<rparr>)"
    by (auto simp: assms(5,6) gateway_inv_def live_defs newPending_def keyLog_def keyAwaits_def emit_def
        sound_append less_Suc_eq)
  show "matched cfg (gw_nextPendingId g)
      (g1\<lparr>gw_pending := Some p, gw_nextPendingId := gw_nextPendingId g + 1\<rparr>)"
    using assms(4) names_ledgerObject [of c origin]
    by (auto simp: assms(5,6) matched_def currentPending_def round_named_def newPending_def pendingRound_def emit_def)
qed

lemma inv_openRound:
  assumes "gateway_inv cfg s0 g" and "spinGate r g"
  shows "gateway_inv cfg s0 (snd (openRound cfg env c origin active g))"
proof -
  from assms(2) have g: "gw_pending g = None" "gw_connected g" "\<not> gw_closed g"
    by (auto simp: spinGate_def)
  note o = inv_opened [OF assms(1) g refl refl, of c origin]
  from inv_submitPending [OF o] assms(1) show ?thesis
    by (simp add: openRound_def refuseSpin_def inv_notify Let_def)
qed

lemma expire_pair: "calm g (snd (expireSessionAtAuthoritativeDeadline cfg env g))"
  by (rule calm_expire [OF calm_refl])

lemma inv_requestSpin:
  assumes "gateway_inv cfg s0 g" shows "gateway_inv cfg s0 (snd (requestSpin cfg env r bet g))"
proof -
  obtain x h where h: "expireSessionAtAuthoritativeDeadline cfg env g = (x, h)" by fastforce
  with inv_calm [OF assms expire_pair [of g cfg env]] have i: "gateway_inv cfg s0 h" by simp
  have refuse: "gateway_inv cfg s0 (snd (refuseSpin e h))" for e
    by (simp add: refuseSpin_def inv_notify i)
  show ?thesis
  proof (cases "x \<or> \<not> spinGate r h")
    case False
    then have "gateway_inv cfg s0 (snd (openRound cfg env c origin active h))" for c origin active
      using inv_openRound [OF i, of r] by simp
    with False show ?thesis
      unfolding requestSpin_def h prod.case Let_def by (simp add: i refuse split: sum.split)
  qed (simp add: requestSpin_def h i)
qed

section \<open>The exchange\<close>

text \<open>No other handshake request is awaited once the last one has answered.\<close>

lemma handshake_over:
  assumes "gateway_inv cfg s0 g" and "\<not> gw_closed g" and "handshake a" and "a \<in> set (gw_awaiting g)"
  shows "pristine g" and "gw_launchCode g = None"
    and "\<not> list_ex handshake (keyAwaits (g\<lparr>gw_awaiting := remove1 a (gw_awaiting g)\<rparr>))"
proof -
  let ?h = "g\<lparr>gw_awaiting := remove1 a (gw_awaiting g)\<rparr>"
  have l: "live cfg s0 g" using assms(1,2) by (rule inv_live)
  have k: "key_await a" using assms(3) by (cases a) simp_all
  from awaiting_key [OF this assms(4)] have m: "a \<in> set (keyAwaits g)" .
  with assms(3) have s: "starting g" by (auto simp: starting_def list_ex_iff)
  with l show "pristine g" by (simp add: live_def)
  have a: "a \<in> set (filter handshake (keyAwaits g))" using m assms(3) by simp
  then have pos: "0 < length (filter handshake (keyAwaits g))" by (rule length_pos_if_in_set)
  with l show "gw_launchCode g = None" by (simp add: live_def one_handshake_def split: if_splits)
  have one: "length (filter handshake (keyAwaits g)) \<le> 1"
    using l by (simp add: live_def one_handshake_def split: if_splits)
  with a have "filter handshake (keyAwaits g) = [a]"
    by (cases "filter handshake (keyAwaits g)") auto
  moreover have "filter P (remove1 b xs) = remove1 b (filter P xs)" if "P b" for P and b :: awaited and xs
    using that by (induction xs) auto
  ultimately have "filter handshake (keyAwaits ?h) = []"
    using k assms(3) by (simp add: keyAwaits_def)
  then show "\<not> list_ex handshake (keyAwaits ?h)"
    by (simp add: list_ex_iff filter_empty_conv)
qed

text \<open>The state the exchange adopts a session in.\<close>

definition adopting :: "GatewayConfig \<Rightarrow> js option \<Rightarrow> gateway \<Rightarrow> bool" where
  "adopting cfg s0 g = (gateway_inv cfg s0 g \<and> pristine g \<and> \<not> gw_closed g \<and> gw_launchCode g = None
     \<and> \<not> list_ex handshake (keyAwaits g))"

lemma adopting_resumed:
  assumes "gateway_inv cfg s0 g" and "\<not> gw_closed g" and "handshake a" and "a \<in> set (gw_awaiting g)"
  shows "adopting cfg s0 (g\<lparr>gw_awaiting := remove1 a (gw_awaiting g)\<rparr>)"
  using handshake_over [OF assms] inv_resumed [OF assms(1), of a] assms(2)
  by (simp add: adopting_def pristine_def keyLog_def)

lemma adopting_fields [simp]:
  "adopting cfg s0 (g\<lparr>gw_accessToken := t\<rparr>) = adopting cfg s0 g"
  "adopting cfg s0 (g\<lparr>gw_session := s\<rparr>) = adopting cfg s0 g"
  "adopting cfg s0 (g\<lparr>gw_sessionProjectionRequestId := t\<rparr>) = adopting cfg s0 g"
  "adopting cfg s0 (g\<lparr>gw_bindingFingerprint := t\<rparr>) = adopting cfg s0 g"
  "adopting cfg s0 (g\<lparr>gw_serverClockAnchor := a\<rparr>) = adopting cfg s0 g"
  by (simp_all add: adopting_def gateway_inv_def live_defs keyLog_def keyAwaits_def)

lemma inv_freshCursor:
  "adopting cfg s0 g \<Longrightarrow> gateway_inv cfg s0 (freshCursor s g)"
  by (auto simp: adopting_def freshCursor_def gateway_inv_def live_defs keyLog_def keyAwaits_def)

lemma inv_adoptPending:
  assumes "adopting cfg s0 g"
    and "resubmit \<Longrightarrow> cfg_hasStorage cfg \<Longrightarrow> names_round (gw_stored g) (ledger_roundId (ledger_common l))
      (ledger_betMinor (ledger_common l)) (ledger_startRevision (ledger_common l))"
  shows "gateway_inv cfg s0 (adoptPending l origin resubmit n g)"
  using assms
  by (auto simp: adopting_def adoptPending_def gateway_inv_def live_defs newPending_def pendingRound_def
      keyLog_def keyAwaits_def less_Suc_eq)

lemma adopting_stored:
  assumes "adopting cfg s0 g"
  shows "adopting cfg s0 ((emit (SaveLedger c f) g)\<lparr>gw_stored := Some (ledgerObject c f)\<rparr>)"
    and "adopting cfg s0 ((emit ClearLedger g)\<lparr>gw_stored := None\<rparr>)"
  using assms
  by (auto simp: adopting_def gateway_inv_def live_defs keyLog_def keyAwaits_def emit_def sound_append)

lemma inv_restoreUncommitted:
  assumes "adopting cfg s0 g" and "gw_stored g = Some raw" and "decodeLedger raw = Inr l"
  shows "gateway_inv cfg s0 (snd (restoreUncommitted cfg env s l g))"
proof -
  have g: "gateway_inv cfg s0 g" using assms(1) by (simp add: adopting_def)
  have "gateway_inv cfg s0 (adoptPending l o1 b n g)" for o1 b n
    using inv_adoptPending [OF assms(1)] decoded_names [OF assms(3)] assms(2) by simp
  moreover have "gateway_inv cfg s0 (adoptPending (LedgerV2 c o2) o1 b n
      ((emit (SaveLedger c o2) g)\<lparr>gw_stored := Some (ledgerObject c o2)\<rparr>))" for c o1 o2 b n
    using inv_adoptPending [OF adopting_stored(1) [OF assms(1)]] names_ledgerObject [of c o2] by simp
  ultimately show ?thesis
    using g by (auto simp: restoreUncommitted_def Let_def split: RgsRecoveryLedger.split sum.split)
qed

lemma inv_restorePendingLedger:
  assumes "adopting cfg s0 g"
  shows "gateway_inv cfg s0 (snd (restorePendingLedger cfg env s f g))"
proof -
  have g: "gateway_inv cfg s0 g" using assms by (simp add: adopting_def)
  have "gateway_inv cfg s0 (snd (restoreCommitted s l g))" for l
    using inv_adoptPending [OF assms, of False] g by (simp add: restoreCommitted_def)
  moreover have "gw_stored g = Some raw" if "loadLedger cfg env g = Inr (Some raw)" for raw
    using that by (simp add: loadLedger_def split: if_splits)
  ultimately show ?thesis
    using g inv_freshCursor [OF assms] inv_freshCursor [OF adopting_stored(2) [OF assms]]
      inv_restoreUncommitted [OF assms]
    by (auto simp: restorePendingLedger_def Let_def split: sum.split option.split)
qed

text \<open>What the adoption of a session keeps until the gateway is connected.\<close>

definition prepared :: "gateway \<Rightarrow> bool" where
  "prepared g = (\<not> starting g \<and> accepted_sequences (keyLog g) = [] \<and> \<not> gw_connected g)"

lemma prepared_eq:
  "gw_launchCode h = gw_launchCode g \<Longrightarrow> keyAwaits h = keyAwaits g \<Longrightarrow>
     accepted_sequences (keyLog h) = accepted_sequences (keyLog g) \<Longrightarrow>
     gw_connected h = gw_connected g \<Longrightarrow> prepared h = prepared g"
  by (simp add: prepared_def starting_def)

lemma adopting_prepared: "adopting cfg s0 g \<Longrightarrow> prepared g"
  by (simp add: adopting_def prepared_def starting_def pristine_def)

lemma prepared_adoptPending [simp]: "prepared (adoptPending l o1 b n g) = prepared g"
  by (rule prepared_eq) (simp_all add: adoptPending_def keyLog_def keyAwaits_def)

lemma prepared_freshCursor [simp]: "prepared (freshCursor s g) = prepared g"
  by (rule prepared_eq) (simp_all add: freshCursor_def keyLog_def keyAwaits_def)

lemma prepared_stored [simp]:
  "prepared ((emit (SaveLedger c f) g)\<lparr>gw_stored := x\<rparr>) = prepared g"
  "prepared ((emit ClearLedger g)\<lparr>gw_stored := x\<rparr>) = prepared g"
  by (rule prepared_eq; simp add: keyLog_def keyAwaits_def emit_def)+

lemma prepared_restore: "prepared g \<Longrightarrow> prepared (snd (restorePendingLedger cfg env s f g))"
  by (simp add: restorePendingLedger_def restoreUncommitted_def restoreCommitted_def Let_def
      split: sum.split option.split RgsRecoveryLedger.split)

lemma inv_adoptSession:
  assumes "adopting cfg s0 g"
  shows "gateway_inv cfg s0 (snd (adoptSession cfg env x f g))"
    and "prepared (snd (adoptSession cfg env x f g))"
proof -
  let ?g = "g\<lparr>gw_accessToken := Some (accessToken x), gw_session := Some (session x)\<rparr>"
  obtain r h where h: "synchronizeServerClock cfg env (serverTime x) ?g = (r, h)" by fastforce
  then have "adopting cfg s0 h"
    using assms by (auto simp: synchronizeServerClock_def Let_def split: option.splits)
  then have a: "adopting cfg s0 (h\<lparr>gw_sessionProjectionRequestId := Some (exchange_requestId x),
      gw_bindingFingerprint := Some f\<rparr>)" by simp
  then have i: "gateway_inv cfg s0 h" "prepared h"
    using adopting_prepared [OF \<open>adopting cfg s0 h\<close>] by (simp_all add: adopting_def)
  show "gateway_inv cfg s0 (snd (adoptSession cfg env x f g))"
    using inv_restorePendingLedger [OF a] i by (simp add: adoptSession_def h split: sum.split)
  show "prepared (snd (adoptSession cfg env x f g))"
    using prepared_restore [OF adopting_prepared [OF a]] i by (simp add: adoptSession_def h split: sum.split)
qed

section \<open>Going online\<close>

lemma inv_acceptDiscovered:
  assumes "gateway_inv cfg s0 g" shows "gateway_inv cfg s0 (acceptDiscovered cfg env cb i d g)"
proof -
  obtain r h where h: "acceptCommitted cfg env cb i d g = (r, h)" by fastforce
  with inv_acceptCommitted [OF assms, of env cb i d] have i: "gateway_inv cfg s0 h" by simp
  have "gateway_inv cfg s0 (schedulePoll cfg env i None (reportError e r1 h))"
    "gateway_inv cfg s0 (terminatePendingRecovery i e h)" for e r1
    by (auto intro: inv_calm [OF i] calm_intro)
  with i show ?thesis
    unfolding acceptDiscovered_def h prod.case by (auto intro!: inv_withPending split: sum.split)
qed

lemma inv_connected:
  "gateway_inv cfg s0 g \<Longrightarrow> prepared g \<Longrightarrow> gateway_inv cfg s0 (g\<lparr>gw_connected := True\<rparr>)"
  by (auto simp: gateway_inv_def live_defs prepared_def keyLog_def keyAwaits_def)

lemma inv_finishExchange:
  assumes "gateway_inv cfg s0 g" and "prepared g"
  shows "gateway_inv cfg s0 (finishExchange cfg env cb gen x d g)"
proof -
  let ?h = "g\<lparr>gw_connecting := False, gw_connected := True, gw_wageringBlocked := False\<rparr>"
  have h: "gateway_inv cfg s0 ?h"
    using inv_connected [of cfg s0 "g\<lparr>gw_connecting := False\<rparr>"] assms
    by (simp add: prepared_def starting_def keyAwaits_def keyLog_def)
  let ?g2 = "scheduleSessionStatusProbe cfg env None
    (armSessionTimeout cfg env (session_idleDisconnectAt (session x)) ?h)"
  obtain r g3 where g3: "(if available ?g2
      then projectSession cfg (exchange_requestId x) (session x) (notify (OnStatus ''online'') ?g2)
      else (Inr (), ?g2)) = (r, g3)" by fastforce
  have "calm ?h ?g2" by (intro calm_intro)
  then have "calm ?h (snd (if available ?g2
      then projectSession cfg (exchange_requestId x) (session x) (notify (OnStatus ''online'') ?g2)
      else (Inr (), ?g2)))" by (intro calm_intro) simp_all
  then have c: "calm ?h g3" by (simp add: g3)
  let ?g4 = "scheduleProactiveRefresh cfg env (accessToken x) g3"
  have "gateway_inv cfg s0 (exchangeFailed gen e g3)" for e
    by (intro inv_calm [OF h] calm_intro c)
  moreover have i4: "gateway_inv cfg s0 ?g4" by (intro inv_calm [OF h] calm_intro c)
  moreover have "gateway_inv cfg s0 (schedulePoll cfg env i t ?g4)" for i t
    by (intro inv_calm [OF i4] calm_intro)
  ultimately show ?thesis
    unfolding finishExchange_def Let_def g3 prod.case
    by (simp add: assms inv_acceptDiscovered split: sum.split option.split)
qed

lemma inv_exchangeFailed: "gateway_inv cfg s0 g \<Longrightarrow> gateway_inv cfg s0 (exchangeFailed gen e g)"
  by (erule inv_calm) (intro calm_intro)

lemma inv_exchangeDone:
  assumes "gateway_inv cfg s0 g" and "\<not> gw_closed g \<Longrightarrow> adopting cfg s0 g"
  shows "gateway_inv cfg s0 (exchangeDone cfg env cb gen outcome fp g)"
proof (cases "gw_closed g")
  case True
  then have "\<not> isCurrent gen g" by (simp add: isCurrent_def)
  with assms(1) show ?thesis
    by (simp add: exchangeDone_def exchangeFailed_def split: sum.split prod.split)
next
  case False
  note a = inv_adoptSession [OF assms(2) [OF False]]
  have "gateway_inv cfg s0 h \<and> prepared h" if "adoptSession cfg env x f g = (r, h)" for x f r h
    using a [of env x f] that by simp
  moreover have "gateway_inv cfg s0 (await (AwaitDiscovery gen x f) (emit GetPending h))"
    if "gateway_inv cfg s0 h" "prepared h" "gw_pending h = None" for x f h
    using that by (auto simp: gateway_inv_def live_defs prepared_def keyLog_def keyAwaits_def await_def
        emit_def list_ex_iff filter_empty_conv)
  ultimately show ?thesis
    unfolding exchangeDone_def
    by (auto simp: assms(1) inv_exchangeFailed inv_finishExchange split: sum.split prod.split)
qed

lemma inv_adoptDelivery:
  assumes "adopting cfg s0 g"
  shows "gateway_inv cfg s0 (adoptDelivery f s d origin g)" "prepared (adoptDelivery f s d origin g)"
  using inv_adoptPending [OF assms, of False] adopting_prepared [OF assms]
  by (simp_all add: adoptDelivery_def)

lemma inv_discoverDone:
  assumes "gateway_inv cfg s0 g" and "\<not> gw_closed g \<Longrightarrow> adopting cfg s0 g"
  shows "gateway_inv cfg s0 (discoverDone cfg env cb gen x f outcome g)"
proof (cases "gw_closed g")
  case True
  then have "\<not> isCurrent gen (adoptDelivery f (session x) d origin g)" "\<not> isCurrent gen g" for d origin
    by (simp_all add: isCurrent_def adoptDelivery_def adoptPending_def)
  moreover have "gateway_inv cfg s0 (adoptDelivery f (session x) d origin g)" for d origin
    using True assms(1)
    by (simp add: gateway_inv_def adoptDelivery_def adoptPending_def keyLog_def)
  ultimately show ?thesis
    using assms(1) by (simp add: discoverDone_def finishExchange_def split: sum.split option.split prod.split)
next
  case False
  note a = assms(2) [OF False]
  have "gateway_inv cfg s0 (terminateRecovery None e g)" for e
    by (intro inv_calm [OF assms(1)] calm_intro)
  with assms(1) inv_adoptDelivery [OF a] adopting_prepared [OF a] show ?thesis
    by (simp add: discoverDone_def inv_finishExchange split: sum.split option.split prod.split)
qed

lemma notify_code: "gw_launchCode (notify x g) = gw_launchCode g"
  by (simp add: notify_def emit_def)

lemma inv_connect:
  assumes "gateway_inv cfg s0 g" shows "gateway_inv cfg s0 (connectGateway g)"
proof -
  have "gateway_inv cfg s0 ((await (AwaitExchange (gw_generation g)) ((emit (PostExchange c) h)\<lparr>gw_launchCode := None\<rparr>)))"
    if "gateway_inv cfg s0 h" "gw_launchCode h \<noteq> None" for c h
    using that by (auto simp: gateway_inv_def live_defs keyLog_def keyAwaits_def await_def emit_def)
  moreover have "gw_launchCode g \<noteq> None" if "truthy (gw_launchCode g)"
    using that by (cases "gw_launchCode g") (simp_all add: truthy_def)
  ultimately show ?thesis
    using assms unfolding connectGateway_def
    by (intro inv_if) (simp_all add: inv_notify notify_code)
qed

section \<open>Availability, refresh and polls\<close>

lemma inv_resumeAvailability:
  assumes "gateway_inv cfg s0 g" shows "gateway_inv cfg s0 (snd (resumeAvailability cfg env g))"
proof -
  obtain r h where h: "(if gw_runtimeRecoveryStatusEmitted g \<and> gw_connected g \<and> gw_session g \<noteq> None
        \<and> truthy (gw_sessionProjectionRequestId g)
      then projectSession cfg (the (gw_sessionProjectionRequestId g)) (the (gw_session g))
        (notify (OnStatus ''online'') (g\<lparr>gw_runtimeRecoveryStatusEmitted := False\<rparr>))
      else (Inr (), g)) = (r, h)" by fastforce
  have "calm g (snd (if gw_runtimeRecoveryStatusEmitted g \<and> gw_connected g \<and> gw_session g \<noteq> None
        \<and> truthy (gw_sessionProjectionRequestId g)
      then projectSession cfg (the (gw_sessionProjectionRequestId g)) (the (gw_session g))
        (notify (OnStatus ''online'') (g\<lparr>gw_runtimeRecoveryStatusEmitted := False\<rparr>))
      else (Inr (), g)))" by (intro calm_intro) simp_all
  then have c: "calm g h" by (simp only: h snd_conv)
  have "gateway_inv cfg s0 h" "gateway_inv cfg s0
      (scheduleSessionStatusProbe cfg env (Some 0) (resumeRoundRecovery cfg env h))"
    by (intro inv_calm [OF assms] calm_intro c)+
  then show ?thesis
    unfolding resumeAvailability_def h prod.case by (simp add: inv_connect [OF assms] split: sum.split)
qed

lemma inv_setAvailability:
  assumes "gateway_inv cfg s0 g" shows "gateway_inv cfg s0 (snd (setRuntimeAvailability cfg env o1 v g))"
proof -
  let ?g = "g\<lparr>gw_runtimeOnline := o1, gw_runtimeVisible := v\<rparr>"
  obtain x h where h: "expireSessionAtAuthoritativeDeadline cfg env ?g = (x, h)" by fastforce
  have "calm g ?g" by simp
  then have c: "calm g h"
    using calm_trans [OF _ expire_pair [of ?g cfg env]] h by simp
  let ?p = "pauseForUnavailability (available g) h"
  have p: "calm g ?p" "calm g (resumeResultAcknowledgement cfg env (resumeProactiveRefresh cfg env ?p))"
    by (intro calm_intro c)+
  define k where "k = (if \<not> gw_runtimeOnline g \<and> gw_runtimeOnline ?p
    then resumeResultAcknowledgement cfg env (resumeProactiveRefresh cfg env ?p) else ?p)"
  have k: "gateway_inv cfg s0 k"
    using inv_calm [OF assms p(1)] inv_calm [OF assms p(2)] by (simp add: k_def)
  have "setRuntimeAvailability cfg env o1 v g = (if gw_closed g then (Inr (), ?g)
      else if x then (Inr (), h)
      else if \<not> available g \<and> available k then resumeAvailability cfg env k else (Inr (), k))"
    unfolding setRuntimeAvailability_def Let_def h prod.case k_def by simp
  then show ?thesis
    using inv_calm [OF assms \<open>calm g ?g\<close>] inv_calm [OF assms c] k inv_resumeAvailability [OF k]
    by simp
qed

lemma inv_refreshDone:
  assumes "gateway_inv cfg s0 g"
  shows "gateway_inv cfg s0 (refreshAccessTokenDone cfg env gen before outcome g)"
proof -
  have e: "gateway_inv cfg s0 (refreshError gen e g)" for e
    by (intro inv_calm [OF assms] calm_intro)
  have "gateway_inv cfg s0 (snd (applyRefresh cfg env x s g))" for x s
  proof -
    let ?g = "g\<lparr>gw_accessToken := Some (accessToken x), gw_session := Some s\<rparr>"
    have i: "gateway_inv cfg s0 ?g" using assms by simp
    obtain r h where h: "synchronizeServerClock cfg env (serverTime x) ?g = (r, h)" by fastforce
    have c: "calm ?g h"
      using calm_synchronize [OF calm_refl, of ?g cfg env "serverTime x"] by (simp add: h)
    let ?k = "armSessionTimeout cfg env (session_idleDisconnectAt s)
      (h\<lparr>gw_sessionProjectionRequestId := Some (exchange_requestId x), gw_wageringBlocked := False,
         gw_proactiveRefreshAttempt := 0\<rparr>)"
    have k: "calm ?g ?k" by (intro calm_intro) (simp add: c)
    obtain r1 m where m: "(if available ?k then projectSession cfg (exchange_requestId x) s ?k
        else (Inr (), ?k)) = (r1, m)" by fastforce
    have "calm ?g (snd (if available ?k then projectSession cfg (exchange_requestId x) s ?k
        else (Inr (), ?k)))" by (intro calm_intro k)
    then have "calm ?g m" by (simp only: m snd_conv)
    then have "gateway_inv cfg s0 m" "gateway_inv cfg s0 (scheduleProactiveRefresh cfg env (accessToken x) m)"
      by (auto intro!: inv_calm [OF i] calm_intro)
    with inv_calm [OF i c] show ?thesis
      unfolding applyRefresh_def h prod.case Let_def m by (simp split: sum.split)
  qed
  with e assms show ?thesis by (simp add: refreshAccessTokenDone_def split: sum.split prod.split)
qed

lemma inv_pollTimerFired:
  assumes "gateway_inv cfg s0 g" shows "gateway_inv cfg s0 (pollTimerFired cfg env i g)"
proof -
  let ?h = "g\<lparr>gw_pollNotBeforeAtMs := None\<rparr>"
  have h: "gateway_inv cfg s0 ?h" by (rule inv_calm [OF assms]) simp
  have c: "calm ?h (mapPending (\<lambda>q. q\<lparr>pollAttempts := pollAttempts q + 1, pollRequestActive := True\<rparr>) ?h)"
    by (intro calm_intro) (simp add: calmRound_def)
  have f: "gateway_inv cfg s0 (pollFinally i k)" if "gateway_inv cfg s0 k" for k
    using that by (auto intro: inv_calm calm_intro)
  have a: "gateway_inv cfg s0 (await (AwaitPoll i r) (emit (PostStatus r) (mapPending
      (\<lambda>q. q\<lparr>pollAttempts := pollAttempts q + 1, pollRequestActive := True\<rparr>) ?h)))" for r
    by (intro inv_calm [OF h] calm_intro c) simp_all
  show ?thesis
    unfolding pollTimerFired_def pollPending_def Let_def
    by (intro inv_withPending h inv_if inv_sum f inv_handlePollError inv_calm [OF h c] a)
qed

section \<open>Every run\<close>

lemma inv_fire:
  assumes "gateway_inv cfg s0 g" and "\<And>h. gateway_inv cfg s0 h \<Longrightarrow> gateway_inv cfg s0 (f h)"
  shows "gateway_inv cfg s0 (fire t f g)"
  using assms by (simp add: fire_def clearTimer_def)

text \<open>The events that are calm, whatever the state.\<close>

fun calm_event :: "gateway_event \<Rightarrow> bool" where
  "calm_event (Acknowledge r n) = True"
| "calm_event (AckRetryFired gen i) = True"
| "calm_event (AckDeadlineFired gen i) = True"
| "calm_event (StatusTimerFired gen) = True"
| "calm_event (ProbeDone gen s outcome) = True"
| "calm_event (SessionTimerFired idle) = True"
| "calm_event Reauthorize = True"
| "calm_event (RefreshTimerFired token) = True"
| "calm_event (ProactiveRefreshDone token rejection) = True"
| "calm_event Close = True"
| "calm_event _ = False"

lemma handle_calm: "calm_event ev \<Longrightarrow> calm g (handle cfg env ev g)"
  by (cases ev) (simp_all add: handle_def calm_acknowledge calm_close calm_refreshAccess calm_fire calm_resume
      calm_ackRetryFired calm_ackDeadlineFired calm_statusFired calm_probeDone calm_sessionTimeoutFired
      calm_refreshFired calm_proactiveDone)

lemma inv_resume_step:
  assumes "gateway_inv cfg s0 g" and "\<And>h. gateway_inv cfg s0 h \<Longrightarrow> gateway_inv cfg s0 (f h)"
  shows "gateway_inv cfg s0 (resume a f g)"
  using assms inv_resumed [OF assms(1), of a] by (simp add: resume_def)

lemma inv_handle:
  assumes i: "gateway_inv cfg s0 g" shows "gateway_inv cfg s0 (handle cfg env ev g)"
proof (cases ev)
  case (ExchangeDone gen outcome fp cb)
  have "gateway_inv cfg s0 (exchangeDone cfg env cb gen outcome fp
      (g\<lparr>gw_awaiting := remove1 (AwaitExchange gen) (gw_awaiting g)\<rparr>))"
    if "AwaitExchange gen \<in> set (gw_awaiting g)"
    using that by (intro inv_exchangeDone inv_resumed i adopting_resumed) simp_all
  with i ExchangeDone show ?thesis by (simp add: handle_def resume_def)
next
  case (DiscoverDone gen x f outcome cb)
  have "gateway_inv cfg s0 (discoverDone cfg env cb gen x f outcome
      (g\<lparr>gw_awaiting := remove1 (AwaitDiscovery gen x f) (gw_awaiting g)\<rparr>))"
    if "AwaitDiscovery gen x f \<in> set (gw_awaiting g)"
    using that by (intro inv_discoverDone inv_resumed i adopting_resumed) simp_all
  with i DiscoverDone show ?thesis by (simp add: handle_def resume_def)
next
  case (SpinDone n outcome cb)
  have "gateway_inv cfg s0 (submitPendingDone cfg env cb n outcome
      (g\<lparr>gw_awaiting := remove1 (AwaitSpin n) (gw_awaiting g)\<rparr>))"
    if "AwaitSpin n \<in> set (gw_awaiting g)"
    by (intro inv_submitDone inv_resumed i matched_awaited [OF i that])
  with i SpinDone show ?thesis by (simp add: handle_def resume_def)
next
  case (PollTimerFired n)
  with i show ?thesis by (simp add: handle_def inv_fire inv_pollTimerFired)
next
  case (PollDone n r outcome cb)
  with i show ?thesis by (simp add: handle_def inv_resume_step inv_pollDone)
next
  case (AckDone n outcome)
  with i show ?thesis by (simp add: handle_def inv_resume_step inv_ackDone)
next
  case (RefreshDone gen s1 outcome)
  with i show ?thesis by (simp add: handle_def inv_resume_step inv_refreshDone)
qed (use i inv_calm [OF i handle_calm, of ev cfg env] in
      \<open>simp_all add: handle_def inv_connect inv_requestSpin inv_setAvailability\<close>)

lemma run_inv: "gateway_reach cfg (newGateway launchCode stored) g \<Longrightarrow> gateway_inv cfg stored g"
  by (induction rule: gateway_reach.induct) (simp_all add: start_inv inv_handle)

end
