(* ===== verification/Gateway_Properties.thy ===== *)
theory Gateway_Properties
  imports Gateway_Runs Rgs_Properties
begin

text \<open>
  The properties of the gateway as a whole: what every run delivers, submits and stores, what a
  closed gateway does, which events release a stored ledger.
\<close>

section \<open>Runs as event lists\<close>

fun run :: "GatewayConfig \<Rightarrow> (environment \<times> gateway_event) list \<Rightarrow> gateway \<Rightarrow> gateway" where
  "run cfg [] g = g"
| "run cfg ((env, ev) # es) g = run cfg es (handle cfg env ev g)"

lemma run_reach: "gateway_reach cfg g0 g \<Longrightarrow> gateway_reach cfg g0 (run cfg es g)"
  by (induction cfg es g rule: run.induct) (simp_all add: gateway_reach.step)

section \<open>A closed gateway\<close>

text \<open>Nothing the outside can observe of rounds changes.\<close>

definition quiet :: "gateway \<Rightarrow> gateway \<Rightarrow> bool" where
  "quiet g h = (gw_closed h \<and> keyLog h = keyLog g \<and> gw_stored h = gw_stored g)"

lemma quiet_calm: "gw_closed g \<Longrightarrow> calm g h \<Longrightarrow> quiet g h"
  by (simp add: quiet_def calm_def calmTrace_def calmFlags_def)

lemma closed_pending [simp]: "gw_closed g \<Longrightarrow> currentPending i g = None"
  by (simp add: currentPending_def)

lemma closed_current [simp]: "gw_closed g \<Longrightarrow> \<not> isCurrent gen g"
  by (simp add: isCurrent_def)

lemma quiet_resume:
  assumes "gw_closed g" and "\<And>h. gw_closed h \<Longrightarrow> quiet h (f h)"
  shows "quiet g (resume a f g)"
  using assms(2) [of "g\<lparr>gw_awaiting := remove1 a (gw_awaiting g)\<rparr>"] assms(1)
  by (simp add: resume_def quiet_def keyLog_def)

lemma closed_submitDone: "gw_closed g \<Longrightarrow> submitPendingDone cfg env cb i outcome g = g"
  by (simp add: submitPendingDone_def handleSubmitError_def withPending_def acceptCommitted_def split: sum.split)

lemma closed_exchangeDone: "gw_closed g \<Longrightarrow> exchangeDone cfg env cb gen outcome fp g = g"
  by (simp add: exchangeDone_def exchangeFailed_def split: sum.split prod.split)

lemma closed_discoverDone:
  assumes "gw_closed g" shows "quiet g (discoverDone cfg env cb gen x f outcome g)"
proof -
  have "\<not> isCurrent gen (adoptDelivery f (session x) d origin g)" for d origin
    using assms by (simp add: isCurrent_def adoptDelivery_def adoptPending_def)
  moreover have "quiet g (adoptDelivery f (session x) d origin g)" for d origin
    using assms by (simp add: quiet_def adoptDelivery_def adoptPending_def keyLog_def)
  ultimately show ?thesis
    using assms by (simp add: discoverDone_def finishExchange_def quiet_def split: sum.split option.split prod.split)
qed

lemma closed_pollDone:
  assumes "gw_closed g" shows "quiet g (pollPendingDone cfg env cb i r outcome g)"
proof -
  let ?m = "mapPending (ofRound i (\<lambda>q. q\<lparr>resubmitOnNotFound := False\<rparr>)) g"
  have c: "gw_closed ?m" and q: "quiet g ?m" "quiet g (refundPoll i ?m)"
    using assms by (simp_all add: mapPending_def refundPoll_def quiet_def keyLog_def)
  have n: "quiet g (notify (OnError x) ?m)" for x
    using q(1) by (simp add: quiet_def notify_def emit_def keyLog_def)
  have "quiet g (snd (applyStatus cfg env cb i r st ?m))" for st
    using c q n by (simp add: applyStatus_def acceptCommitted_def schedulePoll_def withPending_def
        blockForManualReview_def finishRejectedRound_def clearPending_def split: option.split)
  then have s: "applyStatus cfg env cb i r st ?m = (x, h) \<Longrightarrow> quiet g h" for st x h
    using eq_snd_iff by metis
  have e: "handlePollError cfg env i e h = h \<and> pollFinally i h = h" if "quiet g h" for e h
    using that by (simp add: quiet_def handlePollError_def pollFinally_def withPending_def)
  have "quiet g g" using assms by (simp add: quiet_def)
  with e s show ?thesis
    unfolding pollPendingDone_def by (auto split: sum.split prod.split)
qed

lemma closed_step:
  assumes "gw_closed g" shows "quiet g (handle cfg env ev g)"
proof (cases "calm_event ev")
  case True
  with assms show ?thesis by (intro quiet_calm handle_calm)
next
  case False
  have refl: "quiet h h" if "gw_closed h" for h using that by (simp add: quiet_def)
  have "quiet h (pollTimerFired cfg env i h)" if "gw_closed h" for i h
    using that by (simp add: pollTimerFired_def pollPending_def withPending_def currentPending_def
        quiet_def keyLog_def)
  then have p: "quiet g (fire PollTimer (pollTimerFired cfg env i) g)" for i
    using assms by (simp add: fire_def quiet_def clearTimer_def keyLog_def)
  have "quiet h (refreshAccessTokenDone cfg env gen s outcome h)" if "gw_closed h" for gen s outcome h
    using that by (simp add: refreshAccessTokenDone_def refreshError_def quiet_def keyLog_def
        split: sum.split prod.split)
  then have r: "quiet g (resume (AwaitRefresh gen s) (refreshAccessTokenDone cfg env gen s outcome) g)"
    for gen s outcome using assms by (intro quiet_resume)
  have "quiet g (snd (requestSpin cfg env r1 b g))" for r1 b
    using assms by (simp add: requestSpin_def expireSessionAtAuthoritativeDeadline_def spinGate_def refl)
  moreover have "quiet g (snd (setRuntimeAvailability cfg env o1 v g))" for o1 v
    using assms by (simp add: setRuntimeAvailability_def Let_def quiet_def keyLog_def)
  moreover have "quiet g (resume (AwaitAcknowledgement i)
      (submitResultAcknowledgementDone cfg env i outcome) g)" for i outcome
    using assms by (intro quiet_resume) (simp_all add: submitResultAcknowledgementDone_def withPending_def refl)
  ultimately show ?thesis
    using False assms p r
    by (cases ev) (simp_all add: handle_def connectGateway_def refl closed_submitDone closed_exchangeDone
        closed_discoverDone closed_pollDone quiet_resume)
qed

text \<open>
  C17: a closed gateway is silent for good: whatever happens afterwards, it stays closed, hands out
  no result, submits no round and does not touch the stored ledger.
\<close>

theorem closed_gateway_is_silent:
  assumes "gateway_reach cfg g h" and "gw_closed g"
  shows "gw_closed h \<and> filter key_effect (gw_log h) = filter key_effect (gw_log g)
    \<and> gw_stored h = gw_stored g"
  using assms
proof (induction rule: gateway_reach.induct)
  case (step g1 env ev)
  then have "quiet g1 (handle cfg env ev g1)" by (intro closed_step) simp
  with step show ?case by (simp add: quiet_def keyLog_def)
qed simp

section \<open>Deliveries and submissions\<close>

text \<open>
  C4: every result the gateway hands to the controller, in any run and any interleaving of
  replies, timers and calls, was validated against the origin handed over with it, and comes
  later in the session than every result the controller accepted before.
\<close>

theorem deliveries_are_guarded:
  assumes "gateway_reach cfg (newGateway launchCode stored) g"
    and "gw_log g = xs @ OnSpinResult r origin d # ys"
  shows "validateSpinResultAgainstOrigin origin r = Inr ()
    \<and> list_all (\<lambda>n. n < sequence r) (accepted_sequences xs)"
proof -
  have "sound_from (cfg_hasStorage cfg) stored [] (filter key_effect (gw_log g))"
    using inv_sound [OF run_inv [OF assms(1)]] by (simp add: keyLog_def)
  from key_split [OF this [unfolded assms(2)]] show ?thesis
    by (simp add: accepts_def accepted_key)
qed

text \<open>
  C5: with a ledger storage, no round is submitted or submitted again unless the storage holds
  its ledger at that moment: its identifier, its bet and its start revision.
\<close>

theorem submissions_are_stored:
  assumes "gateway_reach cfg (newGateway launchCode stored) g" and "cfg_hasStorage cfg"
    and "gw_log g = xs @ PostSpin r kind b v # ys"
  shows "names_round (replay stored xs) r b v"
proof -
  have "sound_from (cfg_hasStorage cfg) stored [] (filter key_effect (gw_log g))"
    using inv_sound [OF run_inv [OF assms(1)]] by (simp add: keyLog_def)
  from key_split [OF this [unfolded assms(3)]] assms(2) show ?thesis
    by (simp add: replay_key)
qed

text \<open>A sample gateway: it connects, submits a round and hands over its result.\<close>

definition sampleConfig :: GatewayConfig where
  "sampleConfig = \<lparr>cfg_operatorId = ''operator-1'', cfg_sessionId = ''session-1'',
     cfg_betOptionsMinor = [''100'', ''200''], cfg_defaultBetMinor = ''100'', cfg_hasStorage = True,
     cfg_pollDelayMs = 250, cfg_maxPollAttempts = 3, cfg_ackRetryBaseDelayMs = 500,
     cfg_ackRetryMaxDelayMs = 10000, cfg_ackMaxAttempts = 4, cfg_ackRetryWindowMs = 30000,
     cfg_sessionStatusProbeEnabled = False, cfg_Date_parse = sampleClock, cfg_atob = (\<lambda>_. None),
     cfg_JSON_parse = (\<lambda>_. None)\<rparr>"

definition sampleEnv :: environment where
  "sampleEnv = \<lparr>env_now = 0, env_monotonic = Some 0, env_jitter = None, env_statusInterval = None,
     env_storageWorks = True\<rparr>"

definition connectEvents :: "gateway_event list" where
  "connectEvents = [Connect,
     ExchangeDone 0 (Inr (sampleExchange\<lparr>session := sampleSession\<lparr>session_sequence := 0\<rparr>\<rparr>))
       (\<lambda>_. Inr hash64) ControllerAccepts, RequestSpin ''round-1'' ''100'']"

definition sampleRun :: "gateway_event list \<Rightarrow> gateway" where
  "sampleRun evs = run sampleConfig (map (Pair sampleEnv) (connectEvents @ evs)) (newGateway ''code'' None)"

definition delivered :: gateway where
  "delivered = sampleRun [SpinDone 0 (Inr liveSpin) ControllerAccepts]"

lemma sampleRun_reach: "gateway_reach sampleConfig (newGateway ''code'' None) (sampleRun evs)"
  unfolding sampleRun_def by (intro run_reach gateway_reach.start)

lemma delivered_logs:
  "(let l = gw_log delivered in
     l = take 6 l @ OnSpinResult liveResult (baseState\<lparr>freeSpinsPlayed := Some 0\<rparr>) ControllerAccepts # []
     \<and> l = take 5 l @ PostSpin ''round-1'' ''BASE'' ''100'' ''3'' # drop 6 l)"
  by code_simp

lemmas delivered_log = delivered_logs [unfolded Let_def, THEN conjunct1]
lemmas submitted_log = delivered_logs [unfolded Let_def, THEN conjunct2]

theorem deliveries_are_guarded_witness:
  "validateSpinResultAgainstOrigin (baseState\<lparr>freeSpinsPlayed := Some 0\<rparr>) liveResult = Inr ()"
  using deliveries_are_guarded [OF sampleRun_reach delivered_log [unfolded delivered_def]] by simp

theorem submissions_are_stored_witness:
  "names_round (replay None (take 5 (gw_log delivered))) ''round-1'' ''100'' ''3''"
  using submissions_are_stored [OF sampleRun_reach _ submitted_log [unfolded delivered_def]]
  by (simp add: delivered_def sampleConfig_def)

theorem closed_gateway_is_silent_witness:
  "filter key_effect (gw_log (handle sampleConfig sampleEnv Connect (closeGateway delivered)))
     = filter key_effect (gw_log (closeGateway delivered))"
  using closed_gateway_is_silent [OF gateway_reach.step [OF gateway_reach.start] closed_close] by blast

end
