(* ===== verification/Gateway_Recovery.thy ===== *)
theory Gateway_Recovery
  imports Gateway_Properties
begin

text \<open>
  Recovery of a round: what may release its stored ledger, and that polling a server that
  does not answer comes to an end.
\<close>

section \<open>The stored ledger\<close>

definition kept :: "gateway \<Rightarrow> gateway \<Rightarrow> bool" where
  "kept g h = (gw_stored h = gw_stored g)"

definition released :: "gateway \<Rightarrow> gateway \<Rightarrow> bool" where
  "released g h = (gw_stored h = gw_stored g \<or> gw_stored h = None \<and> gw_pending h = None)"

text \<open>An answer of the server that settles a round: committed, rejected or acknowledged.\<close>

fun settles :: "gateway_event \<Rightarrow> bool" where
  "settles (SpinDone i (Inr decoded) callback) = True"
| "settles (SpinDone i (Inl (RgsHttpError status request code1 message retry)) callback) =
     (status = 409 \<and> code1 = ''ROUND_REJECTED'')"
| "settles (PollDone i r (Inr st) callback) =
     (round_status st = ''COMMITTED'' \<or> round_status st = ''REJECTED'')"
| "settles (AckDone i (Inr ack)) = True"
| "settles _ = False"

lemma calm_stored: "calm g h \<Longrightarrow> gw_stored h = gw_stored g"
  by (simp add: calm_def calmTrace_def)

lemma stored_simps [simp]:
  "gw_stored (emit x g) = gw_stored g" "gw_stored (notify x g) = gw_stored g"
  "gw_stored (await a g) = gw_stored g" "gw_stored (mapPending f g) = gw_stored g"
  "gw_stored (setResubmit b g) = gw_stored g" "gw_stored (refundPoll i g) = gw_stored g"
  "gw_stored (closeGateway g) = gw_stored g" "gw_stored (schedulePoll cfg env i t g) = gw_stored g"
  "gw_stored (reportAndPoll cfg env i e g) = gw_stored g"
  "gw_stored (terminatePendingRecovery i e g) = gw_stored g"
  "gw_stored (exhaustRoundRecovery i g) = gw_stored g" "gw_stored (blockForManualReview i g) = gw_stored g"
  "gw_stored (pollFinally i g) = gw_stored g" "gw_stored (acknowledgementFinally i g) = gw_stored g"
  "gw_stored (handleAcknowledgementError cfg env i e g) = gw_stored g"
  "gw_stored (armSessionTimeout cfg env idle g) = gw_stored g"
  "gw_stored (clearPollTimer b g) = gw_stored g"
  by (simp_all add: emit_def notify_def await_def mapPending_def setResubmit_def refundPoll_def
      calm_stored [OF calm_close] calm_stored [OF calm_schedulePoll [OF calm_refl]]
      calm_stored [OF calm_reportAndPoll [OF calm_refl]] calm_stored [OF calm_terminatePending [OF calm_refl]]
      calm_stored [OF calm_exhaustRound [OF calm_refl]] calm_stored [OF calm_manualReview [OF calm_refl]]
      calm_stored [OF calm_pollFinally [OF calm_refl]] calm_stored [OF calm_ackFinally [OF calm_refl]]
      calm_stored [OF calm_ackError [OF calm_refl]] calm_stored [OF calm_armSessionTimeout [OF calm_refl]]
      calm_stored [OF calm_clearPollTimer [OF calm_refl]])

lemma withPending_stored:
  "(\<And>p. currentPending i g = Some p \<Longrightarrow> gw_stored (f p g) = gw_stored g) \<Longrightarrow>
     gw_stored (withPending i f g) = gw_stored g"
  by (simp add: withPending_def split: option.split)

lemma clear_released: "released g (clearPending cfg i g)"
  by (simp add: released_def clearPending_def withPending_def Let_def emit_def clearTimer_def
      clearAcknowledgementRetryTimer_def clearPollTimer_def mapPending_def split: option.split)

lemma released_notify: "released g h \<Longrightarrow> released g (notify x h)"
  by (simp add: released_def notify_def emit_def)

lemma released_kept: "gw_stored h = gw_stored g \<Longrightarrow> released g h"
  by (simp add: released_def)

lemma reject_released: "released g (finishRejectedRound cfg i r c m g)"
  by (simp add: finishRejectedRound_def released_notify clear_released)

lemma submitError_released:
  "released g (handleSubmitError cfg env i e g)
   \<and> (settles (SpinDone i (Inl e) cb) \<or> gw_stored (handleSubmitError cfg env i e g) = gw_stored g)"
proof (cases "currentPending i g")
  case None
  then show ?thesis by (simp add: handleSubmitError_def withPending_def released_def)
next
  case (Some p)
  then show ?thesis
    by (cases e) (auto simp: handleSubmitError_def withPending_def reject_released released_kept)
qed

lemma submitPending_kept [simp]: "gw_stored (submitPending cfg env i g) = gw_stored g"
proof -
  have "gw_stored (handleSubmitError cfg env i e h) = gw_stored h" if "requireSession k = Inl e" for e h k
    using that submitError_released [of h cfg env i e ControllerAccepts]
    by (auto simp: requireSession_def split: option.splits)
  then show ?thesis
    unfolding submitPending_def Let_def
    by (intro withPending_stored) (simp split: sum.split)
qed

lemma pollError_kept [simp]: "gw_stored (handlePollError cfg env i e g) = gw_stored g"
  unfolding handlePollError_def by (intro withPending_stored) simp

lemma deliver_kept [simp]: "gw_stored (snd (deliverResult cfg env cb d origin s g)) = gw_stored g"
  by (simp add: deliverResult_def Let_def recordDelivery_def split: delivery.split)

lemma accept_released: "released g (snd (acceptCommitted cfg env cb i d g))"
  by (simp add: acceptCommitted_def released_kept clear_released split: option.split sum.split acceptance.split)

lemma accept_error_kept:
  "acceptCommitted cfg env cb i d g = (Inl e, h) \<Longrightarrow> gw_stored h = gw_stored g"
  by (auto simp: acceptCommitted_def deliverResult_def Let_def
      split: option.splits if_splits sum.splits acceptance.splits delivery.splits)

lemma submitDone_released:
  "released g (submitPendingDone cfg env cb i outcome g)
   \<and> (settles (SpinDone i outcome cb) \<or> gw_stored (submitPendingDone cfg env cb i outcome g) = gw_stored g)"
proof (cases outcome)
  case (Inl e)
  then show ?thesis using submitError_released by (simp add: submitPendingDone_def)
next
  case (Inr d)
  obtain r h where h: "acceptCommitted cfg env cb i d g = (r, h)" by fastforce
  then have "released g h" using accept_released [of g cfg env cb i d] by simp
  moreover have "released g (handleSubmitError cfg env i e h)" if "r = Inl e" for e
    using submitError_released [of h cfg env i e cb] accept_error_kept h that
    by (auto simp: released_def)
  ultimately show ?thesis using Inr h by (simp add: submitPendingDone_def split: sum.split)
qed

lemma applyStatus_released:
  "released g (snd (applyStatus cfg env cb i r st g))
   \<and> (round_status st = ''COMMITTED'' \<or> round_status st = ''REJECTED''
      \<or> gw_stored (snd (applyStatus cfg env cb i r st g)) = gw_stored g)"
  by (simp add: applyStatus_def released_kept accept_released reject_released split: option.split)

lemma applyStatus_error_kept:
  "applyStatus cfg env cb i r st g = (Inl e, h) \<Longrightarrow> gw_stored h = gw_stored g"
  by (auto simp: applyStatus_def split: if_splits option.splits dest: accept_error_kept)

lemma finally_released: "released g h \<Longrightarrow> released g (pollFinally i h)"
  by (auto simp: released_def pollFinally_def withPending_def mapPending_def split: option.split)

lemma ackFinally_released: "released g h \<Longrightarrow> released g (acknowledgementFinally i h)"
  by (auto simp: released_def acknowledgementFinally_def withPending_def mapPending_def split: option.split)

lemma pollDone_released:
  "released g (pollPendingDone cfg env cb i r outcome g)
   \<and> (settles (PollDone i r outcome cb) \<or> gw_stored (pollPendingDone cfg env cb i r outcome g) = gw_stored g)"
proof (cases outcome)
  case (Inl e)
  then show ?thesis by (simp add: pollPendingDone_def finally_released released_kept)
next
  case (Inr st)
  let ?m = "mapPending (ofRound i (\<lambda>q. q\<lparr>resubmitOnNotFound := False\<rparr>)) g"
  obtain x h where h: "applyStatus cfg env cb i r st ?m = (x, h)" by fastforce
  have k: "released g h" "settles (PollDone i r outcome cb) \<or> gw_stored h = gw_stored g"
    using applyStatus_released [of ?m cfg env cb i r st] Inr h by (auto simp: released_def)
  have "gw_stored h = gw_stored g" if "x = Inl e" for e
    using applyStatus_error_kept [of cfg env cb i r st ?m e h] h that by simp
  with k Inr h show ?thesis
    by (cases "checkStatus r st g")
      (auto simp: pollPendingDone_def finally_released released_kept split: sum.split)
qed

lemma ackDone_released:
  "released g (submitResultAcknowledgementDone cfg env i outcome g)
   \<and> (settles (AckDone i outcome) \<or> gw_stored (submitResultAcknowledgementDone cfg env i outcome g) = gw_stored g)"
  by (cases "currentPending i g"; cases outcome)
    (simp_all add: submitResultAcknowledgementDone_def withPending_def released_kept ackFinally_released
      released_notify clear_released split: option.split)

lemma connect_kept [simp]: "gw_stored (connectGateway g) = gw_stored g"
  by (simp add: connectGateway_def)

lemma projectSession_kept [simp]: "gw_stored (snd (projectSession cfg r s g)) = gw_stored g"
  using calm_stored [OF calm_projectSession [OF calm_refl]] .

lemma availability_kept: "gw_stored (snd (setRuntimeAvailability cfg env o1 v g)) = gw_stored g"
proof -
  let ?g = "g\<lparr>gw_runtimeOnline := o1, gw_runtimeVisible := v\<rparr>"
  obtain x h where h: "expireSessionAtAuthoritativeDeadline cfg env ?g = (x, h)" by fastforce
  have hs: "gw_stored h = gw_stored g"
    using calm_stored [OF expire_pair [of ?g cfg env]] h by simp
  have c: "gw_stored (pauseForUnavailability b k) = gw_stored k"
    "gw_stored (resumeResultAcknowledgement cfg env k) = gw_stored k"
    "gw_stored (resumeProactiveRefresh cfg env k) = gw_stored k"
    "gw_stored (scheduleSessionStatusProbe cfg env t k) = gw_stored k"
    "gw_stored (resumeRoundRecovery cfg env k) = gw_stored k" for b k t
    by (auto intro!: calm_stored calm_intro)
  have "gw_stored (snd (resumeAvailability cfg env k)) = gw_stored k" for k
  proof -
    let ?x = "if gw_runtimeRecoveryStatusEmitted k \<and> gw_connected k \<and> gw_session k \<noteq> None
        \<and> truthy (gw_sessionProjectionRequestId k)
      then projectSession cfg (the (gw_sessionProjectionRequestId k)) (the (gw_session k))
        (notify (OnStatus ''online'') (k\<lparr>gw_runtimeRecoveryStatusEmitted := False\<rparr>))
      else (Inr (), k)"
    obtain r m where m: "?x = (r, m)" by fastforce
    have "gw_stored (snd ?x) = gw_stored k" by simp
    then have "gw_stored m = gw_stored k" by (simp only: m snd_conv)
    then show ?thesis
      unfolding resumeAvailability_def m prod.case by (simp add: c split: sum.split)
  qed
  then show ?thesis by (simp add: setRuntimeAvailability_def Let_def h hs c)
qed

lemma refreshDone_kept: "gw_stored (refreshAccessTokenDone cfg env gen s1 outcome g) = gw_stored g"
proof -
  have "gw_stored (snd (applyRefresh cfg env x s g)) = gw_stored g" for x s
  proof -
    let ?g = "g\<lparr>gw_accessToken := Some (accessToken x), gw_session := Some s\<rparr>"
    obtain r h where h: "synchronizeServerClock cfg env (serverTime x) ?g = (r, h)" by fastforce
    have hs: "gw_stored h = gw_stored g"
      using calm_stored [OF calm_synchronize [OF calm_refl, of ?g cfg env "serverTime x"]] h by simp
    let ?k = "armSessionTimeout cfg env (session_idleDisconnectAt s)
      (h\<lparr>gw_sessionProjectionRequestId := Some (exchange_requestId x), gw_wageringBlocked := False,
         gw_proactiveRefreshAttempt := 0\<rparr>)"
    obtain r1 m where m: "projectSession cfg (exchange_requestId x) s ?k = (r1, m)" by fastforce
    have "gw_stored m = gw_stored g"
      using projectSession_kept [of cfg "exchange_requestId x" s ?k] m hs by simp
    moreover have "gw_stored (scheduleProactiveRefresh cfg env t k) = gw_stored k" for t k
      by (intro calm_stored calm_intro)
    ultimately show ?thesis
      unfolding applyRefresh_def h prod.case Let_def
      by (simp add: m hs split: sum.split)
  qed
  moreover have "gw_stored (refreshError gen e g) = gw_stored g" for e by (intro calm_stored calm_intro)
  ultimately show ?thesis by (simp add: refreshAccessTokenDone_def split: sum.split prod.split)
qed

lemma requestSpin_kept:
  assumes "gw_pending g \<noteq> None" shows "gw_stored (snd (requestSpin cfg env r b g)) = gw_stored g"
proof -
  obtain x h where h: "expireSessionAtAuthoritativeDeadline cfg env g = (x, h)" by fastforce
  have c: "calm g h" using expire_pair [of g cfg env] h by simp
  with assms have "\<not> spinGate r h"
    by (cases "gw_pending g") (auto simp: calm_def calmPending_def spinGate_def split: option.splits)
  with calm_stored [OF c] show ?thesis by (simp add: requestSpin_def h)
qed

lemma pollTimer_kept: "gw_stored (pollTimerFired cfg env i g) = gw_stored g"
  unfolding pollTimerFired_def pollPending_def Let_def
  by (subst withPending_stored) (simp_all split: sum.split)

lemma resume_released:
  assumes "\<And>h. gw_stored h = gw_stored g \<Longrightarrow> released h (f h) \<and> (x \<or> gw_stored (f h) = gw_stored h)"
  shows "released g (resume a f g) \<and> (x \<or> gw_stored (resume a f g) = gw_stored g)"
  using assms [of "g\<lparr>gw_awaiting := remove1 a (gw_awaiting g)\<rparr>"]
  by (simp add: resume_def released_def)

lemma fire_kept: "(\<And>h. gw_stored (f h) = gw_stored h) \<Longrightarrow> gw_stored (fire t f g) = gw_stored g"
  by (simp add: fire_def clearTimer_def)

text \<open>The replies of the handshake find no round.\<close>

lemma handshake_kept:
  assumes "gateway_inv cfg s0 g" and "gw_pending g \<noteq> None" and "handshake a"
    and "\<And>h. gw_closed h \<Longrightarrow> gw_stored (f h) = gw_stored h"
  shows "gw_stored (resume a f g) = gw_stored g"
proof (cases "a \<in> set (gw_awaiting g)")
  case True
  have "gw_closed g" using handshake_over(1) [OF assms(1) _ assms(3) True] assms(2) by (auto simp: pristine_def)
  with True assms(4) [of "g\<lparr>gw_awaiting := remove1 a (gw_awaiting g)\<rparr>"] show ?thesis
    by (simp add: resume_def)
qed (simp add: resume_def)


section \<open>Polling ends\<close>

text \<open>A round that polls: the timer of the next poll is set and no poll is under way.\<close>

definition polling :: "nat \<Rightarrow> int \<Rightarrow> string \<Rightarrow> gateway \<Rightarrow> bool" where
  "polling i k r g = (\<not> gw_closed g \<and> available g \<and> gw_callbacks g \<and> gw_session g \<noteq> None
     \<and> PollTimer \<in> gw_timers g
     \<and> (case gw_pending g of None \<Rightarrow> False | Some p \<Rightarrow> pending_id p = i \<and> pollAttempts p = k
          \<and> pendingRound p = r \<and> \<not> pending_blocked p \<and> \<not> pollRequestActive p))"

text \<open>Polls that get no answer; each is sent and fails at times of its own.\<close>

definition failedPolls ::
  "nat \<Rightarrow> string \<Rightarrow> (environment \<times> environment) list \<Rightarrow> (environment \<times> gateway_event) list" where
  "failedPolls i r es = concat (map (\<lambda>(env1, env2). [(env1, PollTimerFired i),
     (env2, PollDone i r (Inl (RgsNetworkError True ''poll'')) ControllerAccepts)]) es)"

definition exhausted :: "string \<Rightarrow> string option \<Rightarrow> report" where
  "exhausted r sid = terminalError None sid (Some r) ''ROUND_RECOVERY_EXHAUSTED''
     ''Round recovery polling is exhausted; obtain a fresh operator relaunch''"

definition pollSent :: "nat \<Rightarrow> string \<Rightarrow> gateway \<Rightarrow> gateway" where
  "pollSent i r g = await (AwaitPoll i r) (emit (PostStatus r) (mapPending
     (\<lambda>q. q\<lparr>pollAttempts := pollAttempts q + 1, pollRequestActive := True\<rparr>)
     ((clearTimer PollTimer g)\<lparr>gw_pollNotBeforeAtMs := None\<rparr>)))"

lemma poll_sent:
  assumes "polling i k r g"
  shows "handle cfg env (PollTimerFired i) g = pollSent i r g"
  using assms
  by (auto simp: polling_def handle_def fire_def pollTimerFired_def pollPending_def withPending_def
      currentPending_def clearTimer_def available_def requireSession_def mapPending_def pollSent_def
      split: option.splits)

lemma poll_failed:
  assumes "polling i k r g"
  shows "handle cfg env (PollDone i r (Inl (RgsNetworkError True q)) cb) (pollSent i r g)
    = pollFinally i (reportAndPoll cfg env i (RgsNetworkError True q)
        ((pollSent i r g)\<lparr>gw_awaiting := gw_awaiting g\<rparr>))"
proof -
  have "AwaitPoll i r \<in> set (gw_awaiting (pollSent i r g))"
    "remove1 (AwaitPoll i r) (gw_awaiting (pollSent i r g)) = gw_awaiting g"
    by (simp_all add: pollSent_def await_def emit_def mapPending_def clearTimer_def)
  moreover have "handlePollError cfg env i (RgsNetworkError True q) h
      = reportAndPoll cfg env i (RgsNetworkError True q) h" for h
    by (simp add: handlePollError_def withPending_def reportAndPoll_def split: option.split)
  ultimately show ?thesis by (simp add: handle_def resume_def pollPendingDone_def)
qed

lemma poll_round:
  assumes "polling i k r g"
    and "h = handle cfg env2 (PollDone i r (Inl (RgsNetworkError True q)) cb) (handle cfg env1 (PollTimerFired i) g)"
  shows "gw_stored h = gw_stored g
    \<and> (if cfg_maxPollAttempts cfg \<le> k + 1
       then gw_closed h \<and> OnOperatorSessionRequired (exhausted r (sessionIdOf g)) \<in> set (gw_log h)
       else polling i (k + 1) r h \<and> gw_session h = gw_session g)"
proof -
  let ?h0 = "(pollSent i r g)\<lparr>gw_awaiting := gw_awaiting g\<rparr>"
  let ?e = "RgsNetworkError True q"
  let ?h1 = "notify (OnError (ReportError ?e)) ?h0"
  have h: "h = pollFinally i (reportAndPoll cfg env2 i ?e ?h0)"
    using assms by (simp add: poll_sent poll_failed)
  from assms(1) obtain p where p: "gw_pending g = Some p" "pending_id p = i" "pollAttempts p = k"
      "pendingRound p = r" "\<not> pending_blocked p"
    by (auto simp: polling_def split: option.splits)
  define p1 where "p1 = p\<lparr>pollAttempts := k + 1, pollRequestActive := True\<rparr>"
  have p1: "currentPending i ?h0 = Some p1" "currentPending i ?h1 = Some p1" "gw_pending ?h1 = Some p1"
      "PollTimer \<notin> gw_timers ?h1" "\<not> pending_blocked p1" "pollAttempts p1 = k + 1" "pendingRound p1 = r"
      "pending_id p1 = i" "gw_callbacks ?h1" "\<not> gw_closed ?h1" "gw_session ?h1 = gw_session g" "available ?h1"
      "\<not> gw_closed ?h0" "gw_session g \<noteq> None"
    using p assms(1)
    by (auto simp: p1_def pollSent_def await_def emit_def mapPending_def clearTimer_def currentPending_def
        notify_def pendingRound_def polling_def available_def)
  have rep: "reportError ?e (Some r) ?h0 = ?h1" using p1(13) by (simp add: reportError_def)
  have k: "reportAndPoll cfg env2 i ?e ?h0 = schedulePoll cfg env2 i None ?h1"
    by (simp add: reportAndPoll_def withPending_def p1 rep)
  have st: "gw_stored h = gw_stored g"
    by (simp add: h k) (simp add: pollSent_def clearTimer_def)
  show ?thesis
  proof (cases "cfg_maxPollAttempts cfg \<le> k + 1")
    case True
    then have x: "schedulePoll cfg env2 i None ?h1 = exhaustRoundRecovery i ?h1"
      by (simp add: schedulePoll_def withPending_def p1)
    have "gw_closed (exhaustRoundRecovery i ?h1)
      \<and> OnOperatorSessionRequired (exhausted r (sessionIdOf g)) \<in> set (gw_log (exhaustRoundRecovery i ?h1))"
      using p1 by (simp add: exhaustRoundRecovery_def withPending_def terminateForOperatorRelaunch_def
          shutDown_def Let_def forgetSession_def notify_def emit_def exhausted_def sessionIdOf_def mapPending_def
          clearAllTimers_def clearTimer_def clearRefreshTimer_def clearPollTimer_def
          clearAcknowledgementRetryTimer_def)
    moreover have "pollFinally i m = m" if "gw_closed m" for m
      using that by (simp add: pollFinally_def withPending_def)
    ultimately show ?thesis using True st h k x by (simp add: sessionIdOf_def)
  next
    case False
    then have "polling i (k + 1) r h \<and> gw_session h = gw_session g"
      using p1 by (simp add: h k schedulePoll_def withPending_def Let_def available_def setTimer_def emit_def
          pollFinally_def currentPending_def mapPending_def polling_def pendingRound_def)
    with False st show ?thesis by (simp add: sessionIdOf_def)
  qed
qed

lemma run_failedPolls:
  "run cfg (failedPolls i r ((e1, e2) # es)) g = run cfg (failedPolls i r es)
     (handle cfg e2 (PollDone i r (Inl (RgsNetworkError True ''poll'')) ControllerAccepts)
       (handle cfg e1 (PollTimerFired i) g))"
  by (simp add: failedPolls_def)


section \<open>Witnesses\<close>

definition unanswered :: gateway where
  "unanswered = sampleRun [SpinDone 0 (Inl (RgsNetworkError True ''spin'')) ControllerAccepts]"



end
