(* ===== verification/Gateway_Times.thy ===== *)
theory Gateway_Times
  imports Gateway_Recovery
begin

text \<open>
  Delays, clocks and sessions of the gateway: how long a retry waits, which \<open>Retry-After\<close> it
  honours, the server clock, what a refreshed session may change; and a round from its
  submission to its acknowledgement.
\<close>

section \<open>Retries\<close>

text \<open>
  A retry never starts before the longest of its backoff and the delay the server asked for
  (short of the limit of a browser timer), and less than a second after it, whatever the
  jitter source returns or throws.
\<close>

theorem retry_delay_bounds:
  "let d = distributedRetryDelayMs backoff asked sample; f = max 0 (max backoff asked) in
   if f = 0 then d = 0
   else min MAX_TIMER_DELAY_MS f \<le> d \<and> d \<le> MAX_TIMER_DELAY_MS \<and> d < f + 1000"
proof -
  define f where "f = max 0 (max backoff asked)"
  define u where "u = (case sample of None \<Rightarrow> 1 / 2 | Some c \<Rightarrow> min (1 - EPSILON) (max 0 c))"
  define w where "w = min 1000 (max 1 (of_int \<lfloor>f\<rfloor> :: rat))"
  have e: "0 < EPSILON" "EPSILON < 1" by (simp_all add: EPSILON_def)
  then have u: "0 \<le> u" "u < 1" by (auto simp: u_def split: option.split)
  have w: "1 \<le> w" "w \<le> 1000" by (simp_all add: w_def)
  have "w * u < w * 1" using w(1) u(2) by (intro mult_strict_left_mono) simp_all
  with w(2) have less: "w * u < 1000" by simp
  have "0 \<le> w * u" using w(1) u(1) by simp
  with less have j: "0 \<le> \<lfloor>w * u\<rfloor>" "\<lfloor>w * u\<rfloor> < 1000" by (simp_all add: floor_less_iff)
  then have j: "0 \<le> (of_int \<lfloor>w * u\<rfloor> :: rat)" "(of_int \<lfloor>w * u\<rfloor> :: rat) < 1000" by simp_all
  obtain k :: rat where k: "k = of_int \<lfloor>w * u\<rfloor>" by simp
  have d: "distributedRetryDelayMs backoff asked sample = (if f = 0 then 0 else min MAX_TIMER_DELAY_MS (f + k))"
    by (simp add: k distributedRetryDelayMs_def f_def u_def w_def Let_def)
  have "0 \<le> k" "k < 1000" using j by (simp_all only: k)
  then show ?thesis
    unfolding Let_def f_def [symmetric] d by (auto simp: min_def)
qed

text \<open>
  C38: an HTTP date in \<open>Retry-After\<close> is ignored whenever the session clock reads a fraction of
  a millisecond, as the monotonic clock of a browser does: the difference of the two is not
  an integer, and the guard against unsafe integers refuses it. Only a number of seconds gets
  through.
\<close>

theorem fractional_clock_ignores_retry_date:
  assumes "\<not> isInteger now"
  shows "SECONDS_PATTERN s \<or> safeRetryAfterMs Date_parse toUTCString (Some s) now = None"
proof -
  have "\<not> isInteger (of_int parsed - now)" for parsed
  proof
    assume "isInteger (of_int parsed - now)"
    then obtain k where "(of_int k :: rat) = of_int parsed - now" by (auto simp: isInteger_def)
    then have "now = of_int (parsed - k)" by simp
    with assms show False by (simp add: isInteger_def)
  qed
  then show ?thesis
    by (auto simp: safeRetryAfterMs_def admissible_def isSafeInteger_def Let_def split: option.split)
qed

section \<open>The server clock\<close>

text \<open>
  Once synchronized, the session clock follows the monotonic clock of the page: it does not
  read the wall clock, and synchronizing it again at a server time never sets it back nor
  leaves it behind that server time.
\<close>

theorem server_clock_never_goes_back:
  assumes "gw_serverClockAnchor g = Some (epoch, sync)"
    and "synchronizeServerClock cfg env time g = (Inr (), h)"
    and "env_monotonic env = Some m" and "env_monotonic later = Some m'" and "m \<le> m'"
    and "cfg_Date_parse cfg time = Some t"
  shows "sessionClockNow later g \<le> sessionClockNow later h \<and> of_int t + (m' - m) \<le> sessionClockNow later h
    \<and> sessionClockNow (later\<lparr>env_now := wall\<rparr>) h = sessionClockNow later h"
proof -
  have a: "gw_serverClockAnchor h = Some (max (of_int t) (epoch + max 0 (m - sync)), m)"
    using assms by (auto simp: synchronizeServerClock_def Let_def)
  show ?thesis using assms(1,4,5) a by (simp add: sessionClockNow_def)
qed

section \<open>Refreshed sessions\<close>

definition economicState :: "RgsSession \<Rightarrow> string \<times> FeatureState \<times> int" where
  "economicState s = (session_balanceMinor s, session_featureState s, session_sequence s)"


section \<open>A whole round\<close>

text \<open>What the gateway is in while the submission of its round is under way.\<close>

definition submitted :: "nat \<Rightarrow> PendingRound \<Rightarrow> gateway \<Rightarrow> bool" where
  "submitted i p g = (currentPending i g = Some p \<and> available g \<and> gw_callbacks g
     \<and> AwaitSpin i \<in> set (gw_awaiting g) \<and> deliveredSequence p = None \<and> acknowledgementAttempts p = 0
     \<and> acknowledgementStartedAtMs p = None \<and> \<not> acknowledgementExhausted p)"

lemma handed_over:
  assumes "submitted i p g" and "checkCommitted cfg p d g = Inr (Deliver origin s)"
    and "\<not> cfg_sessionStatusProbeEnabled cfg"
    and "h = handle cfg env (SpinDone i (Inr d) ControllerAccepts) g"
  shows "gw_log h = gw_log g @ [OnSpinResult (spin_result d) origin ControllerAccepts]
    \<and> gw_session h = Some (nextSession cfg s d) \<and> gw_stored h = gw_stored g \<and> \<not> gw_closed h
    \<and> available h \<and> gw_callbacks h \<and> gw_serverClockAnchor h = gw_serverClockAnchor g
    \<and> gw_pending h = Some (p\<lparr>deliveredSequence := Some (sequence (spin_result d)),
        deliveredResultHash := Some (resultHash d), acknowledgementInFlight := False,
        acknowledgementRequestActive := False\<rparr>)"
proof -
  let ?g = "g\<lparr>gw_awaiting := remove1 (AwaitSpin i) (gw_awaiting g)\<rparr>"
  have c: "checkCommitted cfg p d ?g = checkCommitted cfg p d g"
    by (simp add: checkCommitted_def requireSession_def guardState_def)
  from assms(1) have "currentPending i ?g = Some p" "available ?g" "\<not> gw_closed g" "gw_pending g = Some p"
    by (auto simp: submitted_def currentPending_def available_def split: if_splits option.splits)
  with assms c show ?thesis
    by (simp add: handle_def resume_def submitted_def submitPendingDone_def acceptCommitted_def deliverResult_def
        recordDelivery_def Let_def armSessionTimeout_def notify_def emit_def mapPending_def clearPollTimer_def
        clearTimer_def available_def)
qed

lemma acknowledgement_sent:
  assumes "gw_pending h = Some q" and "\<not> gw_closed h" and "available h"
    and "deliveredSequence q = Some n" and "deliveredResultHash q = Some hash" and "pendingRound q = r"
    and "\<not> acknowledgementExhausted q" and "\<not> acknowledgementInFlight q"
    and "\<not> acknowledgementRequestActive q" and "acknowledgementStartedAtMs q = None"
    and "acknowledgementAttempts q = 0" and "0 < cfg_ackRetryWindowMs cfg" and "0 < cfg_ackMaxAttempts cfg"
    and "gw_session h = Some s" and "k = handle cfg env (Acknowledge r n) h"
  shows "gw_log k = gw_log h @ [SetTimer AcknowledgementDeadlineTimer (of_int (cfg_ackRetryWindowMs cfg)),
        PostAcknowledgement r n hash]
    \<and> AwaitAcknowledgement (pending_id q) \<in> set (gw_awaiting k)
    \<and> gw_pending k = Some (q\<lparr>acknowledgementStartedAtMs := Some (sessionClockNow env h),
        acknowledgementInFlight := True, acknowledgementRequestActive := True, acknowledgementAttempts := 1\<rparr>)
    \<and> gw_session k = Some s \<and> gw_stored k = gw_stored h \<and> \<not> gw_closed k \<and> gw_callbacks k = gw_callbacks h
    \<and> gw_serverClockAnchor k = gw_serverClockAnchor h"
  using assms
  by (simp add: handle_def acknowledgeSpinResult_def isPending_def currentPending_def mapPending_def
      scheduleAcknowledgementDeadline_def withPending_def Let_def clearTimer_def setTimer_def emit_def
      acknowledgementAttemptAllowed_def acknowledgementWindowOpen_def sessionClockNow_def
      submitResultAcknowledgement_def available_def requireSession_def await_def pendingRound_def
      split: option.split)

lemma acknowledgement_confirmed:
  assumes "gw_pending k = Some q" and "pending_id q = i" and "\<not> gw_closed k" and "gw_callbacks k"
    and "AwaitAcknowledgement i \<in> set (gw_awaiting k)" and "deliveredSequence q = Some n"
    and "acknowledgementWindowOpen cfg env q k" and "\<not> acknowledgementExhausted q"
    and "h = handle cfg env (AckDone i (Inr ack)) k"
  shows "gw_log h = gw_log k @ (if cfg_hasStorage cfg then [ClearLedger] else [])
      @ [OnSpinResultAcknowledged (pendingRound q) n]
    \<and> gw_pending h = None \<and> gw_stored h = (if cfg_hasStorage cfg then None else gw_stored k)
    \<and> gw_session h = gw_session k"
proof -
  let ?k = "k\<lparr>gw_awaiting := remove1 (AwaitAcknowledgement i) (gw_awaiting k)\<rparr>"
  have "sessionClockNow env ?k = sessionClockNow env k" by (simp add: sessionClockNow_def)
  with assms(7) have "acknowledgementWindowOpen cfg env q ?k"
    by (cases "acknowledgementStartedAtMs q") (simp_all add: acknowledgementWindowOpen_def)
  with assms show ?thesis
    by (simp add: handle_def resume_def submitResultAcknowledgementDone_def withPending_def currentPending_def
        clearPending_def Let_def notify_def emit_def acknowledgementFinally_def clearTimer_def
        clearAcknowledgementRetryTimer_def clearPollTimer_def mapPending_def)
qed


section \<open>Witnesses\<close>

theorem fractional_clock_ignores_retry_date_witness:
  "safeRetryAfterMs (\<lambda>_. Some 60000) (\<lambda>_. ''Thu, 01 Jan 1970 00:01:00 GMT'')
       (Some ''Thu, 01 Jan 1970 00:01:00 GMT'') (1 / 2) = None
   \<and> safeRetryAfterMs (\<lambda>_. Some 60000) (\<lambda>_. ''Thu, 01 Jan 1970 00:01:00 GMT'')
       (Some ''Thu, 01 Jan 1970 00:01:00 GMT'') 0 = Some 60000"
proof -
  have "\<not> isInteger (1 / 2)" "\<not> SECONDS_PATTERN ''Thu, 01 Jan 1970 00:01:00 GMT''" by code_simp+
  moreover have "safeRetryAfterMs (\<lambda>_. Some 60000) (\<lambda>_. ''Thu, 01 Jan 1970 00:01:00 GMT'')
       (Some ''Thu, 01 Jan 1970 00:01:00 GMT'') 0 = Some 60000" by code_simp
  ultimately show ?thesis
    using fractional_clock_ignores_retry_date [of "1 / 2" "''Thu, 01 Jan 1970 00:01:00 GMT''"] by blast
qed

theorem server_clock_never_goes_back_witness:
  "let g = delivered\<lparr>gw_serverClockAnchor := Some (5000, 10)\<rparr>; env = sampleEnv\<lparr>env_monotonic := Some 20\<rparr> in
   sessionClockNow env g = 5010
   \<and> sessionClockNow env g \<le> sessionClockNow env (snd (synchronizeServerClock sampleConfig env sampleTime g))"
proof -
  have d: "cfg_Date_parse sampleConfig sampleTime = Some 0"
    by (simp add: sampleConfig_def sampleClock_def sampleTime_def)
  let ?g = "delivered\<lparr>gw_serverClockAnchor := Some (5000, 10)\<rparr>"
  let ?env = "sampleEnv\<lparr>env_monotonic := Some 20\<rparr>"
  obtain h where h: "synchronizeServerClock sampleConfig ?env sampleTime ?g = (Inr (), h)"
    by (simp add: synchronizeServerClock_def d Let_def)
  show ?thesis
    using server_clock_never_goes_back [of ?g 5000 10 sampleConfig ?env sampleTime h 20 ?env 20 0] h d
    by (simp add: Let_def sessionClockNow_def)
qed


definition passes :: "GatewayConfig \<Rightarrow> RgsSpin \<Rightarrow> gateway \<Rightarrow> bool" where
  "passes cfg d g = (case gw_pending g of None \<Rightarrow> False
     | Some p \<Rightarrow> submitted (pending_id p) p g \<and> pendingRound p = ''round-1'' \<and> pending_id p = 0
         \<and> (case checkCommitted cfg p d g of Inr (Deliver origin s) \<Rightarrow> True | _ \<Rightarrow> False))"


end
