(* ===== verification/Money_Format.thy ===== *)
theory Money_Format
  imports Js_Values
begin

text \<open>
  The money formatter of a session (\<open>protocol/moneyFormatter.ts\<close>): a canonical amount of
  minor units is shown with its decimal point and thousands separators by moving digits only,
  and the digits shown read back as exactly that amount.
\<close>

section \<open>The code\<close>

datatype money_error = MoneyDisplayBindingError string

record MinorUnitFormatter =
  formatter_currency :: string
  formatter_exponent :: int

definition createMinorUnitFormatter :: "string \<Rightarrow> js_number \<Rightarrow> money_error + MinorUnitFormatter" where
  "createMinorUnitFormatter currency1 exponent =
     (if \<not> CURRENCY_PATTERN currency1 then Inl (MoneyDisplayBindingError ''currency'')
      else case safeInteger exponent of
        None \<Rightarrow> Inl (MoneyDisplayBindingError ''currencyExponent'')
      | Some e \<Rightarrow> if e < 0 \<or> 6 < e then Inl (MoneyDisplayBindingError ''currencyExponent'')
                  else Inr \<lparr>formatter_currency = currency1, formatter_exponent = e\<rparr>)"

definition padStart :: "nat \<Rightarrow> char \<Rightarrow> string \<Rightarrow> string" where
  "padStart n c s = replicate (n - length s) c @ s"

text \<open>
  The separator goes between two digits when a positive multiple of three digits follows: what
  \<open>/\B(?=(\d{3})+(?!\d))/g\<close> matches in a string of digits.
\<close>

fun groupDigits :: "string \<Rightarrow> string" where
  "groupDigits (c # d # ds) =
     (if length (d # ds) mod 3 = 0 then c # CHR '','' # groupDigits (d # ds)
      else c # groupDigits (d # ds))"
| "groupDigits cs = cs"

definition format_money :: "MinorUnitFormatter \<Rightarrow> string \<Rightarrow> bool \<Rightarrow> money_error + string" where
  "format_money f value grouped =
     (if \<not> MONEY_PATTERN value then Inl (MoneyDisplayBindingError ''money'')
      else let e = nat (formatter_exponent f);
               minimumDigits = (if e = 0 then 1 else e + 1);
               normalized = padStart minimumDigits CHR ''0'' value;
               wholeDigits = (if e = 0 then normalized else take (length normalized - e) normalized);
               whole = (if grouped then groupDigits wholeDigits else wholeDigits) in
           Inr (if e = 0 then whole else whole @ ''.'' @ drop (length normalized - e) normalized))"

definition sameMoneyDisplayBinding :: "string \<times> int \<Rightarrow> string \<times> int \<Rightarrow> bool" where
  "sameMoneyDisplayBinding l r = (fst l = fst r \<and> snd l = snd r)"

section \<open>What a reader sees\<close>

text \<open>Groups of three digits behind a first group of one to three.\<close>

fun in_thousands :: "string list \<Rightarrow> bool" where
  "in_thousands [] = False"
| "in_thousands (g # gs) = (0 < length g \<and> length g \<le> 3 \<and> list_all (\<lambda>h. length h = 3) gs)"

lemma one_group: "\<exists>gs. [c] = join '','' gs \<and> concat gs = [c] \<and> in_thousands gs \<and> length (hd gs) mod 3 = Suc 0"
  by (intro exI [of _ "[[c]]"]) simp

lemma groupDigits_groups:
  "s \<noteq> [] \<Longrightarrow> \<exists>gs. groupDigits s = join '','' gs \<and> concat gs = s \<and> in_thousands gs
     \<and> length (hd gs) mod 3 = length s mod 3"
proof (induction s rule: groupDigits.induct)
  case (1 c d ds)
  show ?case
  proof (cases "length (d # ds) mod 3 = 0")
    case True
    then obtain gs where gs: "groupDigits (d # ds) = join '','' gs" "concat gs = d # ds"
        "in_thousands gs" "length (hd gs) mod 3 = 0"
      using 1 by auto
    then have "0 < length (hd gs) \<and> length (hd gs) \<le> 3" by (cases gs) simp_all
    with gs(4) have "length (hd gs) = 3" by presburger
    with gs have "in_thousands ([c] # gs)" by (cases gs) simp_all
    moreover have "length (c # d # ds) mod 3 = 1" using True by (simp add: mod_Suc)
    ultimately show ?thesis using gs True
      by (intro exI [of _ "[c] # gs"]) (cases gs; simp)
  next
    case False
    then obtain g gs where gs: "groupDigits (d # ds) = join '','' (g # gs)" "concat (g # gs) = d # ds"
        "in_thousands (g # gs)" "length g mod 3 = length (d # ds) mod 3"
    proof -
      obtain gs where "groupDigits (d # ds) = join '','' gs" "concat gs = d # ds"
          "in_thousands gs" "length (hd gs) mod 3 = length (d # ds) mod 3"
        using 1(2) False by blast
      then show ?thesis using that by (cases gs) simp_all
    qed
    have "length g < 3" using gs False by (auto simp: le_less)
    with gs have "in_thousands ((c # g) # gs)" by simp
    moreover have "length (c # g) mod 3 = length (c # d # ds) mod 3"
      using gs(4) by (simp add: mod_Suc)
    ultimately show ?thesis using gs False
      by (intro exI [of _ "(c # g) # gs"]) (cases gs; simp)
  qed
qed (simp_all add: one_group)

lemma decimal_value_zeros: "decimal_value 0 (replicate n CHR ''0'' @ s) = decimal_value 0 s"
  by (induction n) (simp_all add: digit_value_def code_def)

lemma decimal_value_split:
  "decimal_value acc s = acc * 10 ^ length s + decimal_value 0 s"
proof (induction s arbitrary: acc)
  case Nil
  then show ?case by simp
next
  case (Cons c s)
  show ?case
    using Cons.IH [of "10 * acc + digit_value c"] Cons.IH [of "digit_value c"]
    by (simp add: algebra_simps)
qed

lemma canonical_digits: "MONEY_PATTERN s \<Longrightarrow> list_all is_digit s \<and> s \<noteq> []"
  by (cases s) (auto simp: MONEY_PATTERN_def is_digit_def code_def)

text \<open>The whole part of a padded amount has no superfluous zero in front.\<close>

lemma padded_whole:
  assumes "MONEY_PATTERN v"
  shows "MONEY_PATTERN (take (length (padStart (Suc e) CHR ''0'' v) - e) (padStart (Suc e) CHR ''0'' v))"
proof (cases "length v \<le> e")
  case True
  then have "take (length (padStart (Suc e) CHR ''0'' v) - e) (padStart (Suc e) CHR ''0'' v) = ''0''"
    by (simp add: padStart_def Suc_diff_le)
  then show ?thesis by (simp add: MONEY_PATTERN_def)
next
  case False
  then obtain k where k: "length v - e = Suc k" by (cases "length v - e") simp_all
  obtain c cs where v: "v = c # cs" using assms by (cases v) (simp_all add: MONEY_PATTERN_def)
  have "list_all is_digit (take k cs)"
    using assms v by (auto simp: MONEY_PATTERN_def list_all_iff dest: in_set_takeD)
  then show ?thesis using assms v k False
    by (auto simp: padStart_def MONEY_PATTERN_def not_le)
qed

text \<open>
  C31: what the player reads is the amount, exactly. For every currency with at most six decimals
  and every canonical amount, the formatter succeeds; the part behind the point has exactly the
  decimals of the currency; the part before it has no superfluous zero, is split into thousands
  when asked to (and shown as it is otherwise); and the two parts read together as a decimal
  number are the minor units of the server, of any size.
\<close>

theorem formatted_money_is_exact:
  assumes "createMinorUnitFormatter currency1 exponent = Inr f" and "MONEY_PATTERN v"
    and "e = nat (formatter_exponent f)"
  shows "\<exists>gs whole fraction. format_money f v grouped = Inr (whole @ (if e = 0 then '''' else ''.'' @ fraction))
    \<and> whole = (if grouped then join '','' gs else concat gs) \<and> in_thousands gs
    \<and> MONEY_PATTERN (concat gs) \<and> list_all is_digit fraction \<and> length fraction = e
    \<and> BigInt (concat gs) * 10 ^ e + int (decimal_value 0 fraction) = BigInt v"
proof -
  define p where "p = padStart (Suc e) CHR ''0'' v"
  define w where "w = take (length p - e) p"
  define r where "r = drop (length p - e) p"
  have w: "MONEY_PATTERN w"
    using padded_whole [OF assms(2)] by (simp add: w_def p_def)
  then obtain gs where gs: "groupDigits w = join '','' gs" "concat gs = w" "in_thousands gs"
    using groupDigits_groups canonical_digits by blast
  have p: "list_all is_digit p" "e \<le> length p"
    using canonical_digits [OF assms(2)]
    by (auto simp: p_def padStart_def list_all_iff is_digit_def code_def)
  have wr: "p = w @ r" by (simp add: w_def r_def)
  from p have r: "list_all is_digit r" "length r = e" by (auto simp: r_def list_all_iff dest: in_set_dropD)
  have "decimal_value 0 v = decimal_value 0 (w @ r)"
    by (simp add: wr [symmetric] p_def padStart_def decimal_value_zeros)
  also have "\<dots> = decimal_value 0 w * 10 ^ e + decimal_value 0 r"
    using decimal_value_split [of "decimal_value 0 w" r] r(2) by (simp add: decimal_value_append)
  finally have "BigInt w * 10 ^ e + int (decimal_value 0 r) = BigInt v"
    using w assms(2) by (simp add: BigInt_canonical)
  moreover have "format_money f v grouped
      = Inr ((if grouped then join '','' gs else w) @ (if e = 0 then '''' else ''.'' @ r))"
  proof (cases "e = 0")
    case True
    then have "w = padStart 1 CHR ''0'' v" by (simp add: w_def p_def)
    with True show ?thesis using assms(2,3) gs(1) by (simp add: format_money_def Let_def)
  next
    case False
    then show ?thesis using assms(2,3) gs(1) by (simp add: format_money_def Let_def w_def r_def p_def)
  qed
  ultimately show ?thesis using gs w r by auto
qed

theorem formatted_money_is_exact_witness:
  "format_money \<lparr>formatter_currency = ''EUR'', formatter_exponent = 2\<rparr> ''123456789'' True = Inr ''1,234,567.89''
   \<and> (\<exists>gs whole fraction. format_money \<lparr>formatter_currency = ''EUR'', formatter_exponent = 2\<rparr> ''123456789'' True
        = Inr (whole @ ''.'' @ fraction) \<and> whole = join '','' gs \<and> in_thousands gs
        \<and> BigInt (concat gs) * 100 + int (decimal_value 0 fraction) = 123456789)"
proof -
  let ?f = "\<lparr>formatter_currency = ''EUR'', formatter_exponent = 2\<rparr>"
  have "createMinorUnitFormatter ''EUR'' (JsInt 2) = Inr ?f" "MONEY_PATTERN ''123456789''"
      "format_money ?f ''123456789'' True = Inr ''1,234,567.89''"
      "BigInt ''123456789'' = 123456789"
    by code_simp+
  then show ?thesis
    using formatted_money_is_exact [of "''EUR''" "JsInt 2" ?f "''123456789''" 2 True] by auto
qed

end
