(* ===== verification/Machines.thy ===== *)
theory Machines
  imports Prelude
begin

text \<open>
  The interface the explicit state machines of the client share: an operation either throws, and
  leaves the machine as it was, or returns the new state. A caller drives a machine with any
  sequence of operations; an invariant of the accepted ones holds in every state so reached.
\<close>

definition attempt :: "('s \<Rightarrow> 'e \<Rightarrow> 'err + 's) \<Rightarrow> 'e \<Rightarrow> 's \<Rightarrow> 's" where
  "attempt step e s = (case step s e of Inl err \<Rightarrow> s | Inr s' \<Rightarrow> s')"

definition drive :: "('s \<Rightarrow> 'e \<Rightarrow> 'err + 's) \<Rightarrow> 'e list \<Rightarrow> 's \<Rightarrow> 's" where
  "drive step es s = fold (attempt step) es s"

definition accepts :: "('s \<Rightarrow> 'e \<Rightarrow> 'err + 's) \<Rightarrow> 'e list \<Rightarrow> 's \<Rightarrow> 'err + 's" where
  "accepts step es s = foldE (\<lambda>e s. step s e) es s"

lemma drive_simps [simp]:
  "drive step [] s = s" "drive step (e # es) s = drive step es (attempt step e s)"
  "drive step (es @ fs) s = drive step fs (drive step es s)"
  by (simp_all add: drive_def)

lemma accepts_simps [simp]:
  "accepts step [] s = Inr s" "accepts step (e # es) s = bindE (step s e) (accepts step es)"
  "accepts step (es @ fs) s = bindE (accepts step es s) (accepts step fs)"
  by (auto simp: accepts_def foldE_append fun_eq_iff bindE_def split: sum.splits)

lemma accepts_drive: "accepts step es s = Inr s' \<Longrightarrow> drive step es s = s'"
  by (induction es arbitrary: s) (auto simp: attempt_def accept)

locale machine =
  fixes step :: "'s \<Rightarrow> 'e \<Rightarrow> 'err + 's"
    and start :: 's
    and inv :: "'s \<Rightarrow> bool"
  assumes inv_start: "inv start"
    and inv_step: "inv s \<Longrightarrow> step s e = Inr s' \<Longrightarrow> inv s'"
begin

lemma inv_attempt: "inv s \<Longrightarrow> inv (attempt step e s)"
  by (auto simp: attempt_def split: sum.split dest: inv_step)

lemma inv_drive_from: "inv s \<Longrightarrow> inv (drive step es s)"
  by (induction es arbitrary: s) (simp_all add: inv_attempt)

lemma inv_drive: "inv (drive step es start)"
  by (rule inv_drive_from [OF inv_start])

lemma inv_accepts: "accepts step es start = Inr s \<Longrightarrow> inv s"
  using inv_drive [of es] by (simp add: accepts_drive)

end

end
