(* ===== verification/Music_Pot.thy ===== *)
theory Music_Pot
  imports Js_Values Machines Complex_Main
begin

text \<open>
  The pot behind the base game's music (\<open>audio/BaseMusicPotStateMachine.ts\<close>): wins fill it,
  seconds drain it in tenths of a minor unit, its size in bets selects the music level.

  A BigInt is an \<open>int\<close>. The scheduler's time is a rational: the double's rounding is not
  modelled, and \<open>None\<close> stands for a number that is not finite. Every operation throws before
  its first assignment, so a refused one leaves the state as it was; the level callback is the
  log \<open>pot_changes\<close>.
\<close>

section \<open>State\<close>

record music_pot =
  betMinorValue :: "int option"
  potTenths :: int
  reduceRateTenths :: int
  pot_level :: nat
  isIdle :: bool
  isDocked :: bool
  isRoundOpen :: bool
  secondsSinceLastSpin :: nat
  secondsSinceLastLevelChange :: nat
  pendingTickMs :: rat
  pot_changes :: "(nat \<times> nat) list"

definition emptyPot :: music_pot where
  "emptyPot = \<lparr>betMinorValue = None, potTenths = 0, reduceRateTenths = 1, pot_level = 0,
     isIdle = False, isDocked = False, isRoundOpen = False, secondsSinceLastSpin = 0,
     secondsSinceLastLevelChange = 0, pendingTickMs = 0, pot_changes = []\<rparr>"

datatype pot_error = PotTypeError | PotRangeError | PotError

definition parseMinor :: "string \<Rightarrow> bool \<Rightarrow> pot_error + int" where
  "parseMinor s allowZero =
     (if \<not> MONEY_PATTERN s then Inl PotTypeError
      else if \<not> allowZero \<and> BigInt s = 0 then Inl PotRangeError else Inr (BigInt s))"

definition formatTenthsOfMinor :: "int \<Rightarrow> string" where
  "formatTenthsOfMinor v =
     (if v mod 10 = 0 then toString (v div 10) else toString (v div 10) @ ''.'' @ toString (v mod 10))"

definition reduceRateLabel :: "int \<Rightarrow> string" where
  "reduceRateLabel r = (if r = 1 then ''0.1'' else if r = 2 then ''0.2'' else ''0.4'')"

definition pot_bet :: "music_pot \<Rightarrow> pot_error + int" where
  "pot_bet p = (case betMinorValue p of None \<Rightarrow> Inl PotError | Some b \<Rightarrow> Inr b)"

section \<open>Levels\<close>

definition BASE_MUSIC_POT_THRESHOLDS :: "int list" where
  "BASE_MUSIC_POT_THRESHOLDS = [1, 2]"

definition amountForLevel :: "int \<Rightarrow> music_pot \<Rightarrow> pot_error + int" where
  "amountForLevel l p = (case Prelude.at BASE_MUSIC_POT_THRESHOLDS l of
       None \<Rightarrow> Inr 0
     | Some t \<Rightarrow> bindE (pot_bet p) (\<lambda>b. Inr (b * t * 10)))"

definition levelForAmount :: "int \<Rightarrow> music_pot \<Rightarrow> pot_error + nat" where
  "levelForAmount a p = bindE (pot_bet p) (\<lambda>b. Inr (if b * 2 * 10 \<le> a then 1 else 0))"

definition updateLevel :: "music_pot \<Rightarrow> pot_error + music_pot" where
  "updateLevel p = (if isDocked p then Inr p else bindE (levelForAmount (potTenths p) p) (\<lambda>next1.
     if next1 = pot_level p then Inr p
     else Inr (p\<lparr>pot_level := next1, secondsSinceLastLevelChange := 0,
                 pot_changes := pot_changes p @ [(pot_level p, next1)]\<rparr>)))"

section \<open>Rounds\<close>

definition beginRound :: "string \<Rightarrow> music_pot \<Rightarrow> pot_error + music_pot" where
  "beginRound s p = bindE (throwIf (isRoundOpen p) PotError) (\<lambda>_.
     bindE (parseMinor s False) (\<lambda>b.
       Inr (p\<lparr>betMinorValue := Some b, isRoundOpen := True, isIdle := False\<rparr>)))"

definition recordWin :: "string \<Rightarrow> music_pot \<Rightarrow> pot_error + music_pot" where
  "recordWin s p = bindE (throwIf (\<not> isRoundOpen p) PotError) (\<lambda>_.
     bindE (parseMinor s True) (\<lambda>win. bindE (pot_bet p) (\<lambda>b.
       updateLevel (p\<lparr>potTenths := min (potTenths p + win * 10) (b * 5 * 10), reduceRateTenths := 1\<rparr>))))"

definition recordNoWin :: "music_pot \<Rightarrow> pot_error + music_pot" where
  "recordNoWin p = bindE (throwIf (\<not> isRoundOpen p) PotError) (\<lambda>_.
     Inr (p\<lparr>reduceRateTenths := min 4 (reduceRateTenths p * 2)\<rparr>))"

definition endRound :: "music_pot \<Rightarrow> pot_error + music_pot" where
  "endRound p = bindE (throwIf (\<not> isRoundOpen p) PotError) (\<lambda>_.
     Inr (p\<lparr>isRoundOpen := False, isIdle := True, secondsSinceLastSpin := 0\<rparr>))"

section \<open>Time\<close>

definition downgradeLevel :: "music_pot \<Rightarrow> pot_error + music_pot" where
  "downgradeLevel p = bindE (amountForLevel (int (pot_level p) - 1) p) (\<lambda>a.
     updateLevel (p\<lparr>secondsSinceLastSpin := 0, potTenths := a\<rparr>))"

definition updateIdle :: "music_pot \<Rightarrow> pot_error + music_pot" where
  "updateIdle p = (let q = p\<lparr>secondsSinceLastSpin := secondsSinceLastSpin p + 1\<rparr> in
     if isIdle q \<and> 0 < potTenths q \<and> 30 < secondsSinceLastSpin q then downgradeLevel q else Inr q)"

definition updatePot :: "music_pot \<Rightarrow> pot_error + music_pot" where
  "updatePot p = (let q = p\<lparr>secondsSinceLastLevelChange := secondsSinceLastLevelChange p + 1\<rparr> in
     if potTenths q \<le> 0 \<or> secondsSinceLastLevelChange q < 5 then Inr q
     else let q = q\<lparr>secondsSinceLastLevelChange := min (secondsSinceLastLevelChange q) 5\<rparr> in
       bindE (pot_bet q) (\<lambda>b. let reduce = b * reduceRateTenths q in
         if reduce \<le> 0 then Inr q
         else updateLevel (q\<lparr>potTenths := max 0 (potTenths q - reduce)\<rparr>)))"

definition updateOneSecond :: "music_pot \<Rightarrow> pot_error + music_pot" where
  "updateOneSecond p = bindE (updateIdle p) updatePot"

lemma second_off: "1000 \<le> x \<Longrightarrow> nat \<lfloor>x - 1000\<rfloor> < nat \<lfloor>x :: rat\<rfloor>"
proof -
  assume "1000 \<le> x"
  then have "1000 \<le> \<lfloor>x\<rfloor>" by (simp add: le_floor_iff)
  then show ?thesis by simp
qed

text \<open>
  The catch-up loop of the scheduler. It ends because every round takes a second off the time
  owed; the operations of a round do not read that time, so it is written back at the end.
\<close>

function catchUp :: "rat \<Rightarrow> music_pot \<Rightarrow> pot_error + music_pot" where
  "catchUp pending1 p = (if 1000 \<le> pending1 then bindE (updateOneSecond p) (catchUp (pending1 - 1000))
     else Inr (p\<lparr>pendingTickMs := pending1\<rparr>))"
  by pat_completeness auto

termination catchUp
  by (relation "measure (\<lambda>(pending1, p). nat \<lfloor>pending1\<rfloor>)") (simp_all only: wf_measure in_measure prod.case second_off)

declare catchUp.simps [simp del]

definition pot_tick :: "rat option \<Rightarrow> music_pot \<Rightarrow> pot_error + music_pot" where
  "pot_tick elapsed p = (case elapsed of None \<Rightarrow> Inl PotRangeError | Some t \<Rightarrow>
     if t < 0 then Inl PotRangeError
     else if isDocked p then Inr p
     else catchUp (pendingTickMs p + t) p)"

definition dock :: "music_pot \<Rightarrow> music_pot" where
  "dock p = p\<lparr>isDocked := True\<rparr>"

definition undock :: "music_pot \<Rightarrow> music_pot" where
  "undock p = p\<lparr>isDocked := False\<rparr>"

datatype pot_operation =
  BeginRound string | RecordWin string | RecordNoWin | EndRound | Tick "rat option" | Dock | Undock

fun pot_step :: "music_pot \<Rightarrow> pot_operation \<Rightarrow> pot_error + music_pot" where
  "pot_step p (BeginRound b) = beginRound b p"
| "pot_step p (RecordWin w) = recordWin w p"
| "pot_step p RecordNoWin = recordNoWin p"
| "pot_step p EndRound = endRound p"
| "pot_step p (Tick t) = pot_tick t p"
| "pot_step p Dock = Inr (dock p)"
| "pot_step p Undock = Inr (undock p)"

section \<open>The audio manager's use of it\<close>

text \<open>The manager swallows every error of the pot (\<open>audio/AudioManager.ts\<close>).\<close>

definition beginBaseMusicRound :: "bool \<Rightarrow> string \<Rightarrow> music_pot \<Rightarrow> music_pot" where
  "beginBaseMusicRound destroyed b p =
     (if destroyed \<or> isRoundOpen p then p else attempt pot_step (BeginRound b) p)"

definition recordBaseMusicRoundOutcome :: "bool \<Rightarrow> string \<Rightarrow> music_pot \<Rightarrow> music_pot" where
  "recordBaseMusicRoundOutcome destroyed w p =
     (if destroyed \<or> \<not> isRoundOpen p then p
      else attempt pot_step (if POSITIVE_MONEY_PATTERN w then RecordWin w else RecordNoWin) p)"

definition endBaseMusicRound :: "bool \<Rightarrow> music_pot \<Rightarrow> music_pot" where
  "endBaseMusicRound destroyed p =
     (if destroyed \<or> \<not> isRoundOpen p then p else attempt pot_step EndRound p)"

section \<open>Invariant\<close>

text \<open>
  An idle pot at the loud level but below its threshold (the bet has been raised since) has not
  been idle for longer than the level has been settled: the next drain comes before the idle
  downgrade.
\<close>

definition pot_inv :: "nat \<Rightarrow> music_pot \<Rightarrow> bool" where
  "pot_inv lag p = (0 \<le> potTenths p \<and> 1 \<le> reduceRateTenths p \<and> reduceRateTenths p \<le> 4
     \<and> pot_level p \<le> 1 \<and> 0 \<le> pendingTickMs p
     \<and> (pot_level p = 1 \<longrightarrow> 0 < potTenths p \<and> secondsSinceLastLevelChange p \<le> 5)
     \<and> (case betMinorValue p of None \<Rightarrow> potTenths p = 0 \<and> \<not> isRoundOpen p
        | Some b \<Rightarrow> 0 < b \<and> (isIdle p \<and> pot_level p = 1 \<and> potTenths p < 20 * b
            \<longrightarrow> secondsSinceLastSpin p \<le> secondsSinceLastLevelChange p + lag)))"

lemma pot_bet_Some [simp]: "betMinorValue p = Some b \<Longrightarrow> pot_bet p = Inr b"
  by (simp add: pot_bet_def)

lemma parseMinor_Inr: "parseMinor s z = Inr n \<longleftrightarrow> MONEY_PATTERN s \<and> n = BigInt s \<and> (z \<or> n \<noteq> 0)"
  by (auto simp: parseMinor_def)

lemma amountForLevel_below:
  "betMinorValue p = Some b \<Longrightarrow> amountForLevel (-1) p = Inr 0 \<and> amountForLevel 0 p = Inr (10 * b)"
  by (simp add: amountForLevel_def Prelude.at_def BASE_MUSIC_POT_THRESHOLDS_def)

lemma updateLevel_bet:
  "betMinorValue p = Some b \<Longrightarrow> updateLevel p = Inr (if isDocked p then p
     else let n = (if 20 * b \<le> potTenths p then 1 else 0) in
       if n = pot_level p then p
       else p\<lparr>pot_level := n, secondsSinceLastLevelChange := 0, pot_changes := pot_changes p @ [(pot_level p, n)]\<rparr>)"
  by (simp add: updateLevel_def levelForAmount_def Let_def)

lemma inv_empty: "pot_inv 0 emptyPot"
  by (simp add: pot_inv_def emptyPot_def)

lemma inv_begin: "pot_inv 0 p \<Longrightarrow> beginRound s p = Inr q \<Longrightarrow> pot_inv 0 q"
  using BigInt_nonneg [of s]
  by (cases "betMinorValue p") (auto simp: beginRound_def accept parseMinor_Inr pot_inv_def)

lemma inv_win: "pot_inv 0 p \<Longrightarrow> recordWin s p = Inr q \<Longrightarrow> pot_inv 0 q"
  using BigInt_nonneg [of s]
  by (cases "betMinorValue p")
    (auto simp: recordWin_def accept parseMinor_Inr updateLevel_bet pot_inv_def Let_def pot_bet_def
       split: if_splits)

lemma inv_no_win: "pot_inv 0 p \<Longrightarrow> recordNoWin p = Inr q \<Longrightarrow> pot_inv 0 q"
  by (cases "betMinorValue p") (auto simp: recordNoWin_def accept pot_inv_def)

lemma inv_end: "pot_inv 0 p \<Longrightarrow> endRound p = Inr q \<Longrightarrow> pot_inv 0 q"
  by (cases "betMinorValue p") (auto simp: endRound_def accept pot_inv_def)

section \<open>A second passes\<close>

text \<open>Seconds until the pot is empty: its bets, the wait before a drain, and level changes to come.\<close>

definition calm_within :: "music_pot \<Rightarrow> int" where
  "calm_within p = (case betMinorValue p of None \<Rightarrow> 0 | Some b \<Rightarrow>
     (potTenths p + b - 1) div b + int (4 - secondsSinceLastLevelChange p)
     + (if pot_level p = 1 then 4 else if 20 * b \<le> potTenths p then 8 else 0))"

definition same_bet :: "music_pot \<Rightarrow> music_pot \<Rightarrow> bool" where
  "same_bet p q = (betMinorValue q = betMinorValue p \<and> isDocked q = isDocked p
     \<and> pendingTickMs q = pendingTickMs p \<and> isRoundOpen q = isRoundOpen p)"

lemma idle_second:
  assumes "pot_inv 0 p" "\<not> isDocked p" "betMinorValue p = Some b" "0 < potTenths p"
  shows "\<exists>q. updateIdle p = Inr q \<and> pot_inv 1 q \<and> same_bet p q \<and> calm_within q \<le> calm_within p"
proof (cases "isIdle p \<and> 30 < secondsSinceLastSpin p + 1")
  case False
  then show ?thesis
    using assms by (auto simp: updateIdle_def Let_def pot_inv_def same_bet_def calm_within_def)
next
  case True
  note inv = assms(1) [unfolded pot_inv_def assms(3)]
  define d where "d = p\<lparr>secondsSinceLastSpin := 0, potTenths := (if pot_level p = 1 then 10 * b else 0)\<rparr>"
  have "amountForLevel (int (pot_level p) - 1) (p\<lparr>secondsSinceLastSpin := Suc (secondsSinceLastSpin p)\<rparr>)
      = Inr (potTenths d)"
    using inv assms(3) amountForLevel_below [of "p\<lparr>secondsSinceLastSpin := Suc (secondsSinceLastSpin p)\<rparr>" b]
    by (cases "pot_level p = 1") (auto simp: d_def le_Suc_eq)
  then have "updateIdle p = updateLevel d"
    using True assms(4) by (simp add: updateIdle_def Let_def downgradeLevel_def d_def)
  also have "\<dots> = Inr (if pot_level p = 1
      then d\<lparr>pot_level := 0, secondsSinceLastLevelChange := 0, pot_changes := pot_changes p @ [(1, 0)]\<rparr>
      else d)"
    using inv assms(2,3) by (cases "pot_level p = 1") (simp_all add: updateLevel_bet d_def Let_def)
  finally have idle: "updateIdle p = \<dots>" .
  show ?thesis
  proof (cases "pot_level p = 1")
    case level: True
    with True inv have high: "20 * b \<le> potTenths p" by (auto simp: not_less)
    have "(10 * b + b - 1) div b \<le> (potTenths p + b - 1) div b - 10"
    proof -
      have "(10 * b + b - 1) div b \<le> (potTenths p + b - 1 + (-10) * b) div b"
        using high inv by (intro zdiv_mono1) auto
      also have "\<dots> = (potTenths p + b - 1) div b - 10"
        using inv by (subst div_mult_self1) auto
      finally show ?thesis .
    qed
    with level inv assms idle show ?thesis
      by (simp add: d_def pot_inv_def same_bet_def calm_within_def)
  next
    case False
    moreover from inv assms(4) have "0 \<le> (potTenths p + b - 1) div b" "(b - 1) div b = 0"
      by (simp_all add: pos_imp_zdiv_nonneg_iff div_pos_pos_trivial)
    ultimately show ?thesis using inv assms idle
      by (simp add: d_def pot_inv_def same_bet_def calm_within_def)
  qed
qed

lemma drained: "0 < b \<Longrightarrow> b \<le> r \<Longrightarrow> (x - r + b - 1) div b \<le> (x + b - 1) div b - (1 :: int)"
proof -
  assume b: "0 < b" "b \<le> r"
  have "(x - r + b - 1) div b \<le> (x + b - 1 + (-1) * b) div b"
    using b by (intro zdiv_mono1) auto
  also have "\<dots> = (x + b - 1) div b - 1" using b by (subst div_mult_self1) auto
  finally show ?thesis .
qed

lemma pot_second:
  assumes "pot_inv 1 q" "\<not> isDocked q" "betMinorValue q = Some b"
  shows "\<exists>r. updatePot q = Inr r \<and> pot_inv 0 r \<and> same_bet q r
    \<and> (potTenths r = 0 \<or> calm_within r < calm_within q)"
proof -
  note inv = assms(1) [unfolded pot_inv_def assms(3)]
  consider "potTenths q = 0" | "0 < potTenths q" "secondsSinceLastLevelChange q < 4"
    | "0 < potTenths q" "4 \<le> secondsSinceLastLevelChange q"
    using inv by fastforce
  then show ?thesis
  proof cases
    case 1
    with assms inv show ?thesis
      by (auto simp: updatePot_def Let_def pot_inv_def same_bet_def)
  next
    case 2
    with assms inv show ?thesis
      by (auto simp: updatePot_def Let_def pot_inv_def same_bet_def calm_within_def)
  next
    case 3
    define left1 where "left1 = max 0 (potTenths q - b * reduceRateTenths q)"
    define d where "d = q\<lparr>secondsSinceLastLevelChange := 5, potTenths := left1\<rparr>"
    define n where "n = (if 20 * b \<le> left1 then 1 else 0 :: nat)"
    have r: "0 < b" "b \<le> b * reduceRateTenths q"
      using inv by auto
    then have "\<not> b * reduceRateTenths q \<le> 0" by linarith
    have "updatePot q = updateLevel d"
      using 3 \<open>\<not> _ \<le> 0\<close> assms(2,3) by (simp add: updatePot_def Let_def d_def left1_def)
    also have "\<dots> = Inr (if n = pot_level q then d
        else d\<lparr>pot_level := n, secondsSinceLastLevelChange := 0, pot_changes := pot_changes q @ [(pot_level q, n)]\<rparr>)"
      using assms(2,3) by (simp add: updateLevel_bet d_def n_def Let_def)
    finally have second: "updatePot q = \<dots>" .
    have level: "n = 1 \<longleftrightarrow> 20 * b \<le> left1" "n \<le> 1" by (simp_all add: n_def)
    have left1: "0 \<le> left1" "left1 \<le> potTenths q"
        "left1 = 0 \<or> (left1 + b - 1) div b \<le> (potTenths q + b - 1) div b - 1"
      using drained [OF r] r inv by (auto simp: left1_def max_def)
    show ?thesis
      using 3 level left1 r assms inv unfolding second
      by (cases "n = pot_level q") (simp_all add: d_def pot_inv_def same_bet_def calm_within_def, auto)
  qed
qed

lemma inv_lag: "pot_inv 0 p \<Longrightarrow> pot_inv 1 p"
  by (auto simp: pot_inv_def split: option.splits)

lemma same_bet_trans: "same_bet p q \<Longrightarrow> same_bet q r \<Longrightarrow> same_bet p r"
  by (simp add: same_bet_def)

lemma quiet_second:
  assumes "pot_inv 0 p" "potTenths p = 0"
  shows "\<exists>q. updateOneSecond p = Inr q \<and> pot_inv 0 q \<and> same_bet p q \<and> potTenths q = 0"
  using assms by (auto simp: updateOneSecond_def updateIdle_def updatePot_def Let_def pot_inv_def
      same_bet_def split: option.splits)

lemma one_second:
  assumes "pot_inv 0 p" "\<not> isDocked p"
  shows "\<exists>q. updateOneSecond p = Inr q \<and> pot_inv 0 q \<and> same_bet p q
    \<and> (potTenths q = 0 \<or> potTenths p \<noteq> 0 \<and> calm_within q < calm_within p)"
proof (cases "potTenths p = 0")
  case True
  with quiet_second [OF assms(1)] show ?thesis by blast
next
  case False
  with assms(1) obtain b where b: "betMinorValue p = Some b" "0 < potTenths p"
    by (auto simp: pot_inv_def split: option.splits)
  with idle_second assms obtain q where q: "updateIdle p = Inr q" "pot_inv 1 q" "same_bet p q"
      "calm_within q \<le> calm_within p" by blast
  with assms(2) b have "\<not> isDocked q" "betMinorValue q = Some b" by (simp_all add: same_bet_def)
  with q pot_second obtain r where "updatePot q = Inr r" "pot_inv 0 r" "same_bet q r"
      "potTenths r = 0 \<or> calm_within r < calm_within q" by blast
  with q False show ?thesis by (auto simp: updateOneSecond_def dest: same_bet_trans)
qed

lemma calm_within_positive: "pot_inv l p \<Longrightarrow> potTenths p \<noteq> 0 \<Longrightarrow> 0 < calm_within p"
proof -
  assume inv: "pot_inv l p" and "potTenths p \<noteq> 0"
  then obtain b where b: "betMinorValue p = Some b" "0 < b" "0 < potTenths p"
    by (auto simp: pot_inv_def split: option.splits)
  then have "b div b \<le> (potTenths p + b - 1) div b" by (intro zdiv_mono1) auto
  with b show ?thesis by (simp add: calm_within_def)
qed

lemma floor_second: "\<lfloor>(x - 1000) / 1000\<rfloor> = \<lfloor>x / 1000 :: rat\<rfloor> - 1"
proof -
  have "(x - 1000) / 1000 = x / 1000 - 1" by (simp add: diff_divide_distrib)
  then show ?thesis by (simp only: floor_diff_one)
qed

lemma catch_up:
  "pot_inv 0 p \<Longrightarrow> \<not> isDocked p \<Longrightarrow> 0 \<le> x \<Longrightarrow>
     \<exists>q. catchUp x p = Inr q \<and> pot_inv 0 q \<and> isRoundOpen q = isRoundOpen p
       \<and> 0 \<le> pendingTickMs q \<and> pendingTickMs q < 1000
       \<and> (potTenths p = 0 \<or> calm_within p \<le> \<lfloor>x / 1000\<rfloor> \<longrightarrow> potTenths q = 0)"
proof (induction x p rule: catchUp.induct)
  case (1 x p)
  show ?case
  proof (cases "1000 \<le> x")
    case True
    obtain q where q: "updateOneSecond p = Inr q" "pot_inv 0 q" "same_bet p q"
        "potTenths q = 0 \<or> potTenths p \<noteq> 0 \<and> calm_within q < calm_within p"
      using one_second [OF 1(2,3)] by blast
    then have "\<not> isDocked q" using 1(3) by (simp add: same_bet_def)
    with 1(1) [OF True q(2)] True obtain r where r: "catchUp (x - 1000) q = Inr r" "pot_inv 0 r"
        "isRoundOpen r = isRoundOpen q" "0 \<le> pendingTickMs r" "pendingTickMs r < 1000"
        "potTenths q = 0 \<or> calm_within q \<le> \<lfloor>(x - 1000) / 1000\<rfloor> \<longrightarrow> potTenths r = 0"
      by auto
    then have "potTenths p = 0 \<or> calm_within p \<le> \<lfloor>x / 1000\<rfloor> \<longrightarrow> potTenths r = 0"
      using q(4) by (auto simp: floor_second)
    with q r True show ?thesis
      by (simp add: catchUp.simps [of x p] same_bet_def)
  next
    case False
    have "potTenths p = 0" if "calm_within p \<le> \<lfloor>x / 1000\<rfloor>"
    proof (rule ccontr)
      assume "potTenths p \<noteq> 0"
      with calm_within_positive [OF 1(2)] have "0 < calm_within p" .
      with that have "1 \<le> \<lfloor>x / 1000\<rfloor>" by linarith
      then have "1 \<le> x / 1000" by (simp only: one_le_floor)
      with False show False by simp
    qed
    with False 1 show ?thesis
      by (auto simp: catchUp.simps [of x p] pot_inv_def split: option.splits)
  qed
qed

lemma pot_tick_Inr:
  "pot_tick t p = Inr q \<longleftrightarrow> (\<exists>x. t = Some x \<and> 0 \<le> x
     \<and> (if isDocked p then q = p else catchUp (pendingTickMs p + x) p = Inr q))"
  by (cases t) (auto simp: pot_tick_def)

lemma inv_tick: "pot_inv 0 p \<Longrightarrow> pot_tick t p = Inr q \<Longrightarrow> pot_inv 0 q"
proof (cases "isDocked p")
  case True
  assume "pot_inv 0 p" "pot_tick t p = Inr q"
  with True show ?thesis by (auto simp: pot_tick_Inr)
next
  case False
  assume inv: "pot_inv 0 p" and "pot_tick t p = Inr q"
  with False obtain x where x: "0 \<le> x" "catchUp (pendingTickMs p + x) p = Inr q"
    by (auto simp: pot_tick_Inr)
  moreover have "0 \<le> pendingTickMs p + x" using inv x(1) by (simp add: pot_inv_def)
  ultimately show ?thesis using catch_up [OF inv False] by fastforce
qed

lemma inv_dock: "pot_inv 0 p \<Longrightarrow> pot_inv 0 (dock p) \<and> pot_inv 0 (undock p)"
  by (cases "betMinorValue p") (auto simp: dock_def undock_def pot_inv_def)

interpretation pot: machine pot_step emptyPot "pot_inv 0"
proof unfold_locales
  fix p e q
  assume "pot_inv 0 p" "pot_step p e = Inr q"
  then show "pot_inv 0 q"
    by (cases e) (auto intro: inv_begin inv_win inv_no_win inv_end inv_tick dest: inv_dock)
qed (rule inv_empty)

text \<open>
  Without wins the music calms down, whatever happened before. In every state the pot can
  reach by any sequence of its operations, accepted or refused, the scheduler never throws while
  the pot is not docked, and once as many seconds have passed as there are bets in the pot
  (rounded up) plus twelve, the pot is empty and the music is at its quiet level.
\<close>

theorem music_calms_down:
  assumes "p = drive pot_step es emptyPot" and "\<not> isDocked p" and "betMinorValue p = Some b"
    and "0 \<le> t"
  shows "\<exists>q. pot_tick (Some t) p = Inr q
    \<and> ((potTenths p + b - 1) div b + 12 \<le> \<lfloor>t / 1000\<rfloor> \<longrightarrow> potTenths q = 0 \<and> pot_level q = 0)"
proof -
  have inv: "pot_inv 0 p" using pot.inv_drive assms(1) by simp
  then have x: "0 \<le> pendingTickMs p + t" using assms(4) by (simp add: pot_inv_def)
  have "calm_within p \<le> (potTenths p + b - 1) div b + 12"
  proof -
    define l where "l = int (4 - secondsSinceLastLevelChange p)"
    have "l \<le> 4" by (simp add: l_def)
    then show ?thesis using assms(3) by (simp add: calm_within_def l_def [symmetric])
  qed
  moreover have "\<lfloor>t / 1000\<rfloor> \<le> \<lfloor>(pendingTickMs p + t) / 1000\<rfloor>"
    using inv by (intro floor_mono) (simp add: pot_inv_def)
  moreover obtain q where "catchUp (pendingTickMs p + t) p = Inr q" "pot_inv 0 q"
      "calm_within p \<le> \<lfloor>(pendingTickMs p + t) / 1000\<rfloor> \<longrightarrow> potTenths q = 0"
    using catch_up [OF inv assms(2) x] by blast
  moreover have "potTenths q = 0 \<longrightarrow> pot_level q = 0"
    using calculation by (auto simp: pot_inv_def)
  ultimately show ?thesis using assms(2,4) by (auto simp: pot_tick_def)
qed

theorem music_calms_down_witness:
  "\<exists>q. pot_tick (Some 62000) (drive pot_step [BeginRound ''100'', RecordWin ''900''] emptyPot) = Inr q
     \<and> potTenths q = 0 \<and> pot_level q = 0"
proof -
  let ?p = "drive pot_step [BeginRound ''100'', RecordWin ''900''] emptyPot"
  have "\<not> isDocked ?p \<and> betMinorValue ?p = Some 100 \<and> potTenths ?p = 5000 \<and> pot_level ?p = 1"
    by code_simp
  then show ?thesis using music_calms_down [of ?p "[BeginRound ''100'', RecordWin ''900'']" 100 62000] by (simp del: drive_simps)
qed

end
