(* ===== verification/Reel_Round.thy ===== *)
theory Reel_Round
  imports Protocol_Types Machines Complex_Main
begin

text \<open>
  The visual life of one round of the reels: the strict state machine
  (\<open>reels/ReelRoundStateMachine.ts\<close>), the projection of a result onto what the reels show
  (\<open>reels/reelRoundContract.ts\<close>), the stop plan (\<open>reels/stopPlanner.ts\<close>) and the decisions
  taken from the settled grid (\<open>reels/StopSequencer.ts\<close>).

  Observers of the state machine cannot disturb it (their errors are swallowed), so they are
  left out. A reel number is an \<open>int\<close>: only its equality with an integer is tested.
\<close>

section \<open>The state machine\<close>

datatype ReelRoundState =
  Idle | Spin_Start | Spinning | Spin_Stopping | Reel_Stop_One_By_One | Result_Show | Win_Line_Animation

datatype ReelRoundEvent =
    SPIN_ACCEPTED string
  | REELS_STARTED
  | RESULT_RECEIVED string js_number
  | REEL_STOP_STARTED int
  | ALL_REELS_STOPPED
  | WIN_PRESENTATION_STARTED
  | ROUND_COMPLETE
  | RESET

fun reel_event_type :: "ReelRoundEvent \<Rightarrow> string" where
  "reel_event_type (SPIN_ACCEPTED r) = ''SPIN_ACCEPTED''"
| "reel_event_type REELS_STARTED = ''REELS_STARTED''"
| "reel_event_type (RESULT_RECEIVED r n) = ''RESULT_RECEIVED''"
| "reel_event_type (REEL_STOP_STARTED k) = ''REEL_STOP_STARTED''"
| "reel_event_type ALL_REELS_STOPPED = ''ALL_REELS_STOPPED''"
| "reel_event_type WIN_PRESENTATION_STARTED = ''WIN_PRESENTATION_STARTED''"
| "reel_event_type ROUND_COMPLETE = ''ROUND_COMPLETE''"
| "reel_event_type RESET = ''RESET''"

record ReelRoundSnapshot =
  reel_state :: ReelRoundState
  reel_roundId :: "string option"
  reel_rows :: "int option"
  stopStartedReels :: "int list"
  reel_revision :: nat
  lastEvent :: "string option"

datatype reel_error = InvalidReelRoundTransitionError ReelRoundState string

definition idleReels :: ReelRoundSnapshot where
  "idleReels = \<lparr>reel_state = Idle, reel_roundId = None, reel_rows = None, stopStartedReels = [],
     reel_revision = 0, lastEvent = None\<rparr>"

definition REEL_COUNT :: nat where
  "REEL_COUNT = 3"

fun integerRows :: "js_number \<Rightarrow> int option" where
  "integerRows (JsInt n) = (if 3 \<le> n \<and> n \<le> 8 then Some n else None)"
| "integerRows _ = None"

definition invalid :: "ReelRoundSnapshot \<Rightarrow> ReelRoundEvent \<Rightarrow> reel_error + 'a" where
  "invalid s e = Inl (InvalidReelRoundTransitionError (reel_state s) (reel_event_type e))"

definition reel_resolve :: "ReelRoundSnapshot \<Rightarrow> ReelRoundEvent \<Rightarrow> reel_error + ReelRoundSnapshot" where
  "reel_resolve s e = (let next1 = s\<lparr>reel_revision := reel_revision s + 1, lastEvent := Some (reel_event_type e)\<rparr> in
     case reel_state s of
       Idle \<Rightarrow> (case e of
           SPIN_ACCEPTED r \<Rightarrow> if trim r = [] then invalid s e
             else Inr (next1\<lparr>reel_state := Spin_Start, reel_roundId := Some (trim r), reel_rows := None, stopStartedReels := []\<rparr>)
         | _ \<Rightarrow> invalid s e)
     | Spin_Start \<Rightarrow> (case e of
           REELS_STARTED \<Rightarrow> Inr (next1\<lparr>reel_state := Spinning, reel_rows := None, stopStartedReels := []\<rparr>)
         | _ \<Rightarrow> invalid s e)
     | Spinning \<Rightarrow> (case e of
           RESULT_RECEIVED r n \<Rightarrow>
             if Some r \<noteq> reel_roundId s then invalid s e
             else if integerRows n = None then invalid s e
             else Inr (next1\<lparr>reel_state := Spin_Stopping, reel_rows := integerRows n, stopStartedReels := []\<rparr>)
         | _ \<Rightarrow> invalid s e)
     | Spin_Stopping \<Rightarrow> (case e of
           REEL_STOP_STARTED k \<Rightarrow> if k \<noteq> 0 then invalid s e
             else Inr (next1\<lparr>reel_state := Reel_Stop_One_By_One, stopStartedReels := [k]\<rparr>)
         | _ \<Rightarrow> invalid s e)
     | Reel_Stop_One_By_One \<Rightarrow> (case e of
           REEL_STOP_STARTED k \<Rightarrow>
             if k \<noteq> int (length (stopStartedReels s)) \<or> REEL_COUNT \<le> length (stopStartedReels s) then invalid s e
             else Inr (next1\<lparr>stopStartedReels := stopStartedReels s @ [k]\<rparr>)
         | ALL_REELS_STOPPED \<Rightarrow>
             if length (stopStartedReels s) \<noteq> REEL_COUNT then invalid s e
             else Inr (next1\<lparr>reel_state := Result_Show\<rparr>)
         | _ \<Rightarrow> invalid s e)
     | Result_Show \<Rightarrow> (case e of
           WIN_PRESENTATION_STARTED \<Rightarrow> Inr (next1\<lparr>reel_state := Win_Line_Animation\<rparr>)
         | _ \<Rightarrow> invalid s e)
     | Win_Line_Animation \<Rightarrow> (case e of
           ROUND_COMPLETE \<Rightarrow>
             Inr (next1\<lparr>reel_state := Idle, reel_roundId := None, reel_rows := None, stopStartedReels := []\<rparr>)
         | _ \<Rightarrow> invalid s e))"

definition reel_transition :: "ReelRoundSnapshot \<Rightarrow> ReelRoundEvent \<Rightarrow> reel_error + ReelRoundSnapshot" where
  "reel_transition s e = (case e of
       RESET \<Rightarrow> Inr \<lparr>reel_state = Idle, reel_roundId = None, reel_rows = None, stopStartedReels = [],
                  reel_revision = reel_revision s + 1, lastEvent = Some (reel_event_type e)\<rparr>
     | _ \<Rightarrow> reel_resolve s e)"

text \<open>What every snapshot satisfies.\<close>

fun reels_wf :: "ReelRoundState \<Rightarrow> string option \<Rightarrow> int option \<Rightarrow> int list \<Rightarrow> bool" where
  "reels_wf Idle r n k = (r = None \<and> n = None \<and> k = [])"
| "reels_wf Spin_Start r n k = (r \<noteq> None \<and> n = None \<and> k = [])"
| "reels_wf Spinning r n k = (r \<noteq> None \<and> n = None \<and> k = [])"
| "reels_wf Spin_Stopping r n k = (r \<noteq> None \<and> (\<exists>m \<in> {3..8}. n = Some m) \<and> k = [])"
| "reels_wf Reel_Stop_One_By_One r n k = (r \<noteq> None \<and> (\<exists>m \<in> {3..8}. n = Some m) \<and> k \<in> {[0], [0, 1], [0, 1, 2]})"
| "reels_wf st r n k = (r \<noteq> None \<and> (\<exists>m \<in> {3..8}. n = Some m) \<and> k = [0, 1, 2])"

definition reel_inv :: "ReelRoundSnapshot \<Rightarrow> bool" where
  "reel_inv s = reels_wf (reel_state s) (reel_roundId s) (reel_rows s) (stopStartedReels s)"

lemma integerRows_bounds: "integerRows n = Some m \<Longrightarrow> 3 \<le> m \<and> m \<le> 8"
  by (cases n) (auto split: if_splits)

text \<open>The accepted transitions, one by one.\<close>

lemmas reel_steps = reel_transition_def reel_resolve_def Let_def invalid_def

lemma reel_transition_reset: "reel_transition s RESET = Inr q \<Longrightarrow> reel_inv q"
  by (auto simp: reel_transition_def reel_inv_def)

lemma reel_transition_inv:
  assumes "reel_inv s" and "reel_transition s e = Inr q"
  shows "reel_inv q \<and> reel_revision q = reel_revision s + 1"
proof (cases "e = RESET")
  case True
  with assms(2) show ?thesis by (auto simp: reel_transition_def reel_inv_def)
next
  case False
  with assms(2) have "reel_resolve s e = Inr q" by (cases e) (simp_all add: reel_transition_def)
  with assms(1) show ?thesis
    by (cases "reel_state s"; cases e)
      (auto simp: reel_resolve_def Let_def invalid_def reel_inv_def REEL_COUNT_def
        dest: integerRows_bounds split: if_splits)
qed

interpretation reels: machine reel_transition idleReels reel_inv
proof unfold_locales
  show "reel_inv idleReels" by (simp add: reel_inv_def idleReels_def)
qed (simp add: reel_transition_inv)

lemma reel_start_next:
  assumes "reel_state s = Reel_Stop_One_By_One" "stopStartedReels s = map int [0..<n]" "n < 3"
  shows "\<exists>q. reel_transition s (REEL_STOP_STARTED (int n)) = Inr q \<and> reel_state q = Reel_Stop_One_By_One
    \<and> stopStartedReels q = map int [0..<Suc n] \<and> reel_roundId q = reel_roundId s"
  using assms by (simp add: reel_transition_def reel_resolve_def Let_def REEL_COUNT_def)

lemma reel_start_first:
  assumes "reel_state s = Spin_Stopping"
  shows "\<exists>q. reel_transition s (REEL_STOP_STARTED 0) = Inr q \<and> reel_state q = Reel_Stop_One_By_One
    \<and> stopStartedReels q = [0] \<and> reel_roundId q = reel_roundId s"
  using assms by (simp add: reel_transition_def reel_resolve_def Let_def)

lemma reel_all_stopped:
  assumes "reel_state s = Reel_Stop_One_By_One" "stopStartedReels s = map int [0..<3]"
  shows "\<exists>q. reel_transition s ALL_REELS_STOPPED = Inr q \<and> reel_state q = Result_Show
    \<and> stopStartedReels q = map int [0..<3] \<and> reel_roundId q = reel_roundId s"
  using assms by (simp add: reel_transition_def reel_resolve_def Let_def REEL_COUNT_def)

section \<open>What the reels show of a result\<close>

record AuthoritativeReelRound =
  round_roundId :: string
  round_rows :: int
  round_grid :: "GridCell list list"
  round_wins :: "Win list"
  round_events :: "FeatureEvent list"
  round_totalWinMinor :: string

text \<open>\<open>None\<close> is the error thrown for a malformed grid; the deep copy is the value itself.\<close>

definition malformedGrid :: "GridCell list list \<Rightarrow> bool" where
  "malformedGrid grid1 = (let rows = (case grid1 of [] \<Rightarrow> 0 | reel1 # _ \<Rightarrow> length reel1) in
     length grid1 \<noteq> 3 \<or> rows < 3 \<or> 8 < rows \<or> list_ex (\<lambda>r. length r \<noteq> rows) grid1)"

definition authoritativeReelRoundFromV1 :: "SpinResult \<Rightarrow> AuthoritativeReelRound option" where
  "authoritativeReelRoundFromV1 r =
     (if malformedGrid (result_grid r) then None
      else Some \<lparr>round_roundId = roundId r, round_rows = int (length (hd (result_grid r))),
                 round_grid = result_grid r, round_wins = wins r, round_events = events r,
                 round_totalWinMinor = totalWinMinor r\<rparr>)"

section \<open>The stop plan\<close>

record ReelStopStep =
  step_reel :: nat
  step_delayMs :: rat
  step_settleMs :: rat

definition PRIMAL_FIRST_BRAKE :: rat where "PRIMAL_FIRST_BRAKE = 1500"
definition PRIMAL_FAST_FIRST_BRAKE :: rat where "PRIMAL_FAST_FIRST_BRAKE = 600"
definition PRIMAL_REEL_GAP :: rat where "PRIMAL_REEL_GAP = 300"
definition PRIMAL_FAST_REEL_GAP :: rat where "PRIMAL_FAST_REEL_GAP = 150"
definition PRIMAL_REEL_SETTLE_MS :: rat where "PRIMAL_REEL_SETTLE_MS = 300 + 350"
definition PRIMAL_FAST_REEL_SETTLE_MS :: rat where "PRIMAL_FAST_REEL_SETTLE_MS = 300 + 250"

text \<open>The three options default to the captured timing; a value that is not finite is not a rational.\<close>

definition createStopPlan :: "int \<Rightarrow> rat option \<Rightarrow> rat option \<Rightarrow> rat option \<Rightarrow> ReelStopStep list option" where
  "createStopPlan reelCount firstDelay reelGap settle =
     (if \<not> safe_int reelCount \<or> reelCount \<le> 0 then None
      else let first = case_option PRIMAL_FIRST_BRAKE id firstDelay;
               gap = case_option PRIMAL_REEL_GAP id reelGap;
               settleMs = case_option PRIMAL_REEL_SETTLE_MS id settle in
        if first < 0 \<or> gap < 0 \<or> settleMs < 0 then None
        else Some (map (\<lambda>k. \<lparr>step_reel = k, step_delayMs = first + of_nat k * gap, step_settleMs = settleMs\<rparr>)
               [0..<nat reelCount]))"

section \<open>Decisions from the settled grid\<close>

definition hasSurge :: "GridCell list \<Rightarrow> bool" where
  "hasSurge cells = list_ex (\<lambda>c. cell_symbol c = SURGE) cells"

text \<open>Whether the third reel is held back: its own cells have no part in it.\<close>

definition createAnticipationTriggerPlan :: "GridCell list list \<Rightarrow> bool" where
  "createAnticipationTriggerPlan grid1 =
     (3 \<le> length grid1 \<and> hasSurge (grid1 ! 0) \<and> hasSurge (grid1 ! 1))"

datatype PostStopActivationPlan =
    WildReveal (activation_cells: "CellAddress list")
  | SurgeFeatureActivation (activation_cells: "CellAddress list")

fun activation_delayMs :: "PostStopActivationPlan \<Rightarrow> rat" where
  "activation_delayMs (WildReveal c) = 1000"
| "activation_delayMs (SurgeFeatureActivation c) = 1250"

definition cellsWhere :: "(GridCell \<Rightarrow> bool) \<Rightarrow> GridCell list list \<Rightarrow> CellAddress list" where
  "cellsWhere p grid1 = concat (map (\<lambda>(i, reel1).
     map (\<lambda>(j, c). CellAddress i j) (filter (\<lambda>(j, c). p c) (entriesFrom 0 reel1))) (entriesFrom 0 grid1))"

definition createPostStopActivationPlan :: "GridCell list list \<Rightarrow> PostStopActivationPlan option" where
  "createPostStopActivationPlan grid1 = (let
     wilds = cellsWhere (\<lambda>c. cell_symbol c = WILD \<and> (case cell_multiplier c of None \<Rightarrow> False | Some m \<Rightarrow> 2 \<le> m)) grid1;
     surges = cellsWhere (\<lambda>c. cell_symbol c = SURGE) grid1 in
     if wilds \<noteq> [] then Some (WildReveal wilds)
     else if length surges = 3 then Some (SurgeFeatureActivation surges)
     else None)"

end
