(* ===== verification/Stop_Sequencer.thy ===== *)
theory Stop_Sequencer
  imports Reel_Round
begin

text \<open>
  The stop sequencer (\<open>reels/StopSequencer.ts\<close>): one presentation runs three asynchronous
  calls, one per reel, which wait for their turn, brake, land, and together start the
  activation that follows the last landing.

  Every suspension point of the code is a value of \<open>reel_stage\<close> or \<open>post_stage\<close>, and every
  thing that can happen is an event: a call, a timer, or the end of an animation of the view. An
  event carries the clock of its moment. A timer fires when it is due and no other timer is due
  earlier; the promise continuations an event resolves run before the next event, in the order in
  which they were registered, which is the order of the reels. The timing options are the ones of
  the controller (\<open>{}\<close>, the captured plan).

  Hooks that only decorate are a log: their errors are swallowed and they do not call back into
  the sequencer. The two hooks whose errors propagate, \<open>onReelStopStart\<close> and
  \<open>onAllReelsStopped\<close>, are parameters that act on a state of their own.
\<close>

datatype ReelStopMode = NORMAL | FAST | SLOW

fun stopBrakeMs :: "ReelStopMode \<Rightarrow> rat" where
  "stopBrakeMs SLOW = 3000"
| "stopBrakeMs m = 300"

fun stopTotalMs :: "ReelStopMode \<Rightarrow> rat" where
  "stopTotalMs NORMAL = 650"
| "stopTotalMs FAST = 550"
| "stopTotalMs SLOW = 3000"

datatype reel_stage =
    Waiting rat bool
  | AtBarrier
  | Braking ReelStopMode rat bool
  | Landed bool
  | Gone

datatype post_stage =
    PostIdle
  | HideWait rat
  | HideTail rat
  | TransitionWait PostStopActivationPlan rat
  | ActivationHook PostStopActivationPlan
  | OutroWait PostStopActivationPlan rat
  | CompleteHook
  | PostDone

datatype anticipation_stop = ReelImpact | FastForward | Cancelled | Failure | Completed

datatype outcome = PresentationCompleted | PresentationCancelled | PresentationFailed

datatype sequencer_effect =
    SetRows int
  | ReelStopStart nat ReelStopMode
  | ReelLanded nat ReelStopMode
  | AllReelsStopped bool
  | AnticipationStart
  | AnticipationStop anticipation_stop bool
  | AnticipationHideComplete
  | PostStopTransitionStart PostStopActivationPlan bool
  | PostStopActivation PostStopActivationPlan
  | PostStopActivationComplete PostStopActivationPlan
  | ViewFastForward
  | ViewCancel
  | PresentationEnds outcome

record 'h sequencer =
  presenting :: bool
  fastForwardRequested :: bool
  quickStopReleaseTimer :: "rat option"
  spinStartedAtMs :: "rat option"
  anticipationPlan :: bool
  anticipationActive :: bool
  presentationGeneration :: nat
  sq_run :: nat
  sq_grid :: "GridCell list list"
  sq_fastPlay :: bool
  sq_stages :: "reel_stage list"
  impactedReels :: "nat list"
  sq_post :: post_stage
  sq_failed :: bool
  sq_hooks :: 'h
  sq_log :: "sequencer_effect list"

text \<open>The propagating hooks, what the view does when told to, and whether an activation hook is asynchronous.\<close>

record 'h sequencer_hooks =
  onReelStopStart :: "nat \<Rightarrow> 'h \<Rightarrow> 'h option"
  onAllReelsStopped :: "'h \<Rightarrow> 'h option"
  viewSetRows :: "int \<Rightarrow> bool"
  viewCommit :: "nat \<Rightarrow> bool"
  activationPending :: bool
  completionPending :: bool

definition idleSequencer :: "'h \<Rightarrow> 'h sequencer" where
  "idleSequencer h = \<lparr>presenting = False, fastForwardRequested = False, quickStopReleaseTimer = None,
     spinStartedAtMs = None, anticipationPlan = False, anticipationActive = False,
     presentationGeneration = 0, sq_run = 0, sq_grid = [], sq_fastPlay = False, sq_stages = [],
     impactedReels = [], sq_post = PostIdle, sq_failed = False, sq_hooks = h, sq_log = []\<rparr>"

definition note1 :: "sequencer_effect \<Rightarrow> 'h sequencer \<Rightarrow> 'h sequencer" where
  "note1 e s = s\<lparr>sq_log := sq_log s @ [e]\<rparr>"

definition put_stage :: "nat \<Rightarrow> reel_stage \<Rightarrow> 'h sequencer \<Rightarrow> 'h sequencer" where
  "put_stage k st s = s\<lparr>sq_stages := (sq_stages s)[k := st]\<rparr>"

definition stage :: "'h sequencer \<Rightarrow> nat \<Rightarrow> reel_stage" where
  "stage s k = (if k < length (sq_stages s) then sq_stages s ! k else Gone)"

text \<open>Whether the presentation that runs is the current one.\<close>

definition current :: "'h sequencer \<Rightarrow> bool" where
  "current s = (presenting s \<and> sq_run s = presentationGeneration s)"

section \<open>Anticipation and quick stop\<close>

definition startAnticipation :: "'h sequencer \<Rightarrow> 'h sequencer" where
  "startAnticipation s =
     (if \<not> anticipationPlan s \<or> anticipationActive s \<or> fastForwardRequested s then s
      else note1 AnticipationStart (s\<lparr>anticipationActive := True\<rparr>))"

definition stopAnticipation :: "anticipation_stop \<Rightarrow> bool \<Rightarrow> 'h sequencer \<Rightarrow> 'h sequencer" where
  "stopAnticipation reason ff s =
     (if \<not> anticipationPlan s \<or> \<not> anticipationActive s then s
      else note1 (AnticipationStop reason ff) (s\<lparr>anticipationActive := False\<rparr>))"

definition quickStopFloorReached :: "rat \<Rightarrow> 'h sequencer \<Rightarrow> bool" where
  "quickStopFloorReached now s = (case spinStartedAtMs s of None \<Rightarrow> True
     | Some t \<Rightarrow> PRIMAL_FAST_FIRST_BRAKE \<le> now - t)"

definition clearQuickStopReleaseTimer :: "'h sequencer \<Rightarrow> 'h sequencer" where
  "clearQuickStopReleaseTimer s = s\<lparr>quickStopReleaseTimer := None\<rparr>"

section \<open>The end of a presentation\<close>

text \<open>The \<open>finally\<close> block; the waits it releases belong to calls that have ended.\<close>

definition finishPresentation :: "outcome \<Rightarrow> 'h sequencer \<Rightarrow> 'h sequencer" where
  "finishPresentation out s = note1 (PresentationEnds out)
     ((clearQuickStopReleaseTimer (stopAnticipation Completed (fastForwardRequested s) s))
        \<lparr>sq_stages := [], sq_post := PostDone, fastForwardRequested := False, presenting := False,
         spinStartedAtMs := None, anticipationPlan := False, sq_failed := False\<rparr>)"

text \<open>The \<open>catch\<close> block: only the current presentation cleans up.\<close>

definition failPresentation :: "'h sequencer \<Rightarrow> 'h sequencer" where
  "failPresentation s = finishPresentation PresentationFailed
     (if sq_run s = presentationGeneration s
      then note1 ViewCancel ((stopAnticipation Failure (fastForwardRequested s) s)
             \<lparr>presentationGeneration := presentationGeneration s + 1\<rparr>)
      else s)"

definition ended :: "reel_stage \<Rightarrow> bool" where
  "ended st = (st = Landed True \<or> st = Gone)"

text \<open>
  What \<open>present\<close> awaits: the three calls, then the activation. An error of one of them rejects the
  whole at the end of the event.
\<close>

definition settle :: "'h sequencer \<Rightarrow> 'h sequencer" where
  "settle s =
     (if \<not> presenting s then s
      else if sq_failed s then failPresentation s
      else if list_all ended (sq_stages s) \<and> sq_post s \<in> {PostIdle, PostDone}
        then finishPresentation (if sq_run s = presentationGeneration s then PresentationCompleted
                                 else PresentationCancelled) s
      else s)"

section \<open>The activation after the last stop\<close>

definition PRIMAL_REEL_ANTICIPATION_TRANSITION_MS :: rat where
  "PRIMAL_REEL_ANTICIPATION_TRANSITION_MS = 333333 / 1000"

definition PRIMAL_ANTICIPATION_COPY_CLEAR_LEAD_MS :: rat where
  "PRIMAL_ANTICIPATION_COPY_CLEAR_LEAD_MS = 1000 / 30"

definition playActivation :: "rat \<Rightarrow> PostStopActivationPlan \<Rightarrow> 'h sequencer \<Rightarrow> 'h sequencer" where
  "playActivation now plan s = s\<lparr>sq_post := OutroWait plan (now + activation_delayMs plan)\<rparr>"

definition activate :: "'h sequencer_hooks \<Rightarrow> rat \<Rightarrow> PostStopActivationPlan \<Rightarrow> 'h sequencer \<Rightarrow> 'h sequencer" where
  "activate hk now plan s = (let s = note1 (PostStopActivation plan) s in
     if activationPending hk then s\<lparr>sq_post := ActivationHook plan\<rparr> else playActivation now plan s)"

definition presentPostStopActivation :: "'h sequencer_hooks \<Rightarrow> rat \<Rightarrow> 'h sequencer \<Rightarrow> 'h sequencer" where
  "presentPostStopActivation hk now s = (case createPostStopActivationPlan (sq_grid s) of
       None \<Rightarrow>
         if anticipationPlan s \<and> \<not> fastForwardRequested s
         then s\<lparr>sq_post := HideWait (now + (PRIMAL_REEL_ANTICIPATION_TRANSITION_MS - PRIMAL_ANTICIPATION_COPY_CLEAR_LEAD_MS))\<rparr>
         else s\<lparr>sq_post := PostDone\<rparr>
     | Some plan \<Rightarrow>
         let s = note1 (PostStopTransitionStart plan (fastForwardRequested s)) s in
         if anticipationPlan s then s\<lparr>sq_post := TransitionWait plan (now + PRIMAL_REEL_ANTICIPATION_TRANSITION_MS)\<rparr>
         else activate hk now plan s)"

text \<open>The timer of the activation, and the promise of one of its hooks.\<close>

fun postTimer :: "'h sequencer_hooks \<Rightarrow> rat \<Rightarrow> post_stage \<Rightarrow> 'h sequencer \<Rightarrow> 'h sequencer" where
  "postTimer hk now (HideWait d) s = (note1 AnticipationHideComplete s)
     \<lparr>sq_post := HideTail (now + PRIMAL_ANTICIPATION_COPY_CLEAR_LEAD_MS)\<rparr>"
| "postTimer hk now (HideTail d) s = s\<lparr>sq_post := PostDone\<rparr>"
| "postTimer hk now (TransitionWait plan d) s = activate hk now plan s"
| "postTimer hk now (OutroWait plan d) s = (note1 (PostStopActivationComplete plan) s)
     \<lparr>sq_post := (if completionPending hk then CompleteHook else PostDone)\<rparr>"
| "postTimer hk now p s = s"

fun postHookSettled :: "rat \<Rightarrow> post_stage \<Rightarrow> 'h sequencer \<Rightarrow> 'h sequencer" where
  "postHookSettled now (ActivationHook plan) s =
     (if sq_run s = presentationGeneration s then playActivation now plan s else s\<lparr>sq_post := PostDone\<rparr>)"
| "postHookSettled now CompleteHook s = s\<lparr>sq_post := PostDone\<rparr>"
| "postHookSettled now p s = s"

section \<open>A reel\<close>

definition stopMode :: "'h sequencer \<Rightarrow> nat \<Rightarrow> ReelStopMode" where
  "stopMode s k = (if sq_fastPlay s \<or> fastForwardRequested s then FAST
     else if k = 2 \<and> anticipationPlan s then SLOW else NORMAL)"

definition startReel :: "'h sequencer_hooks \<Rightarrow> rat \<Rightarrow> nat \<Rightarrow> 'h sequencer \<Rightarrow> 'h sequencer" where
  "startReel hk now k s = (let m = stopMode s k in
     case onReelStopStart hk k (sq_hooks s) of
       None \<Rightarrow> put_stage k Gone (s\<lparr>sq_failed := True\<rparr>)
     | Some h \<Rightarrow> note1 (ReelStopStart k m)
         (put_stage k (Braking m (now + stopBrakeMs m) False) (s\<lparr>sq_hooks := h\<rparr>)))"

text \<open>The wait of a reel is over; the third one still waits for the second to land when held back.\<close>

definition continueReel :: "'h sequencer_hooks \<Rightarrow> rat \<Rightarrow> nat \<Rightarrow> 'h sequencer \<Rightarrow> 'h sequencer" where
  "continueReel hk now k s =
     (if sq_run s \<noteq> presentationGeneration s then put_stage k Gone s
      else if k = 2 \<and> anticipationPlan s \<and> 1 \<notin> set (impactedReels s) then put_stage k AtBarrier s
      else startReel hk now k s)"

definition releaseReel :: "'h sequencer_hooks \<Rightarrow> rat \<Rightarrow> nat \<Rightarrow> 'h sequencer \<Rightarrow> 'h sequencer" where
  "releaseReel hk now k s = (case stage s k of Waiting d b \<Rightarrow> continueReel hk now k s | _ \<Rightarrow> s)"

text \<open>\<open>releasePendingDelays(true)\<close>: the waits for a turn, in the order of the reels.\<close>

definition releaseReels :: "'h sequencer_hooks \<Rightarrow> rat \<Rightarrow> 'h sequencer \<Rightarrow> 'h sequencer" where
  "releaseReels hk now s = releaseReel hk now 2 (releaseReel hk now 1 (releaseReel hk now 0 s))"

definition reelTimer :: "'h sequencer_hooks \<Rightarrow> rat \<Rightarrow> nat \<Rightarrow> 'h sequencer \<Rightarrow> 'h sequencer" where
  "reelTimer hk now k s = (case stage s k of
       Waiting d b \<Rightarrow> if fastForwardRequested s \<and> \<not> quickStopFloorReached now s then put_stage k (Waiting d True) s
                      else continueReel hk now k s
     | _ \<Rightarrow> s)"

definition allStopped :: "'h sequencer_hooks \<Rightarrow> rat \<Rightarrow> 'h sequencer \<Rightarrow> 'h sequencer" where
  "allStopped hk now s =
     (let s = (clearQuickStopReleaseTimer s)\<lparr>spinStartedAtMs := None\<rparr> in
      case onAllReelsStopped hk (sq_hooks s) of
        None \<Rightarrow> s\<lparr>sq_failed := True\<rparr>
      | Some h \<Rightarrow> presentPostStopActivation hk now
          (note1 (AllReelsStopped (fastForwardRequested s)) (s\<lparr>sq_hooks := h\<rparr>)))"

text \<open>A reel lands: what the landing starts, and the barrier it opens.\<close>

definition anticipateAt :: "nat \<Rightarrow> ReelStopMode \<Rightarrow> 'h sequencer \<Rightarrow> 'h sequencer" where
  "anticipateAt k m s = (let s = (if k = 1 \<and> m = NORMAL \<and> \<not> fastForwardRequested s then startAnticipation s else s) in
     if k = 2 \<and> anticipationPlan s then stopAnticipation ReelImpact (fastForwardRequested s) s else s)"

definition openBarrier :: "'h sequencer_hooks \<Rightarrow> rat \<Rightarrow> nat \<Rightarrow> 'h sequencer \<Rightarrow> 'h sequencer" where
  "openBarrier hk now k s = (if k = 1 \<and> stage s 2 = AtBarrier then continueReel hk now 2 s else s)"

definition impact :: "'h sequencer_hooks \<Rightarrow> rat \<Rightarrow> nat \<Rightarrow> 'h sequencer \<Rightarrow> 'h sequencer" where
  "impact hk now k s = (case stage s k of
       Braking m d settled \<Rightarrow>
         let s = put_stage k (Landed settled) s in
         if \<not> viewCommit hk k then s\<lparr>sq_failed := True\<rparr>
         else let s = anticipateAt k m (note1 (ReelLanded k m) s);
                  s = s\<lparr>impactedReels := impactedReels s @ [k]\<rparr>;
                  s = (if length (impactedReels s) = 3 then allStopped hk now s else s) in
              openBarrier hk now k s
     | _ \<Rightarrow> s)"

section \<open>Calls\<close>

definition markSpinStart :: "rat \<Rightarrow> 'h sequencer \<Rightarrow> 'h sequencer" where
  "markSpinStart now s = (clearQuickStopReleaseTimer s)\<lparr>spinStartedAtMs := Some now, fastForwardRequested := False\<rparr>"

definition scheduleQuickStopRelease :: "'h sequencer_hooks \<Rightarrow> rat \<Rightarrow> 'h sequencer \<Rightarrow> 'h sequencer" where
  "scheduleQuickStopRelease hk now s = (let s = clearQuickStopReleaseTimer s;
       remainingMs = (case spinStartedAtMs s of None \<Rightarrow> 0
         | Some t \<Rightarrow> max 0 (PRIMAL_FAST_FIRST_BRAKE - (now - t))) in
     if remainingMs \<le> 0 then releaseReels hk now s
     else s\<lparr>quickStopReleaseTimer := Some (now + remainingMs)\<rparr>)"

text \<open>The reel that brakes slowly, whose impact a quick stop brings forward.\<close>

definition slowReel :: "'h sequencer \<Rightarrow> bool" where
  "slowReel s = (case stage s 2 of Braking m d b \<Rightarrow> m = SLOW | _ \<Rightarrow> False)"

definition requestFastForward :: "'h sequencer_hooks \<Rightarrow> rat \<Rightarrow> 'h sequencer \<Rightarrow> bool \<times> 'h sequencer" where
  "requestFastForward hk now s =
     (if spinStartedAtMs s = None then (False, s)
      else let slow = slowReel s; first = \<not> fastForwardRequested s;
               s = s\<lparr>fastForwardRequested := True\<rparr>;
               s = (if slow then note1 ViewFastForward (stopAnticipation FastForward True s) else s);
               s = (if first then scheduleQuickStopRelease hk now s else s);
               s = (if slow then impact hk now 2 s else s) in
           (True, s))"

text \<open>The waits a cancellation releases end their calls; a reel at the barrier does not wait on them.\<close>

fun cancelledStage :: "reel_stage \<Rightarrow> reel_stage" where
  "cancelledStage (Waiting d b) = Gone"
| "cancelledStage (Braking m d settled) = Landed settled"
| "cancelledStage st = st"

fun cancelledPost :: "post_stage \<Rightarrow> post_stage" where
  "cancelledPost (HideWait d) = PostDone"
| "cancelledPost (HideTail d) = PostDone"
| "cancelledPost (TransitionWait plan d) = PostDone"
| "cancelledPost (OutroWait plan d) = PostDone"
| "cancelledPost p = p"

definition cancel :: "'h sequencer \<Rightarrow> bool \<times> 'h sequencer" where
  "cancel s = (let s = (clearQuickStopReleaseTimer s)\<lparr>spinStartedAtMs := None\<rparr> in
     if \<not> presenting s then (False, s\<lparr>fastForwardRequested := False\<rparr>)
     else let s = stopAnticipation Cancelled (fastForwardRequested s)
                    (s\<lparr>presentationGeneration := presentationGeneration s + 1\<rparr>) in
       (True, note1 ViewCancel (s\<lparr>sq_stages := map cancelledStage (sq_stages s), sq_post := cancelledPost (sq_post s)\<rparr>)))"

definition stopPlanOf :: "bool \<Rightarrow> ReelStopStep list" where
  "stopPlanOf fastPlay = (case (if fastPlay
       then createStopPlan 3 (Some PRIMAL_FAST_FIRST_BRAKE) (Some PRIMAL_FAST_REEL_GAP) (Some PRIMAL_FAST_REEL_SETTLE_MS)
       else createStopPlan 3 None None None) of None \<Rightarrow> [] | Some plan \<Rightarrow> plan)"

text \<open>
  When a reel may start, from the moment \<open>present\<close> is called: a late result shortens the wait of
  the first reel only, the gaps between the reels stay.
\<close>

definition reelDelay :: "rat \<Rightarrow> rat \<Rightarrow> bool \<Rightarrow> nat \<Rightarrow> rat" where
  "reelDelay now started fastPlay k = (let plan = stopPlanOf fastPlay; first = step_delayMs (plan ! 0);
       elapsed = max 0 (now - started) in
     max 0 (first - elapsed) + max 0 (step_delayMs (plan ! k) - first))"

definition beginWait :: "'h sequencer_hooks \<Rightarrow> rat \<Rightarrow> nat \<Rightarrow> 'h sequencer \<Rightarrow> 'h sequencer" where
  "beginWait hk now k s = (case stage s k of
       Waiting d b \<Rightarrow> if d \<le> now \<or> fastForwardRequested s \<and> quickStopFloorReached now s
                      then continueReel hk now k s else s
     | _ \<Rightarrow> s)"

definition present ::
  "'h sequencer_hooks \<Rightarrow> rat \<Rightarrow> GridCell list list \<Rightarrow> bool \<Rightarrow> 'h sequencer \<Rightarrow> bool \<times> 'h sequencer" where
  "present hk now grid1 fastPlay s =
     (if malformedGrid grid1 \<or> presenting s then (False, s)
      else let started = (case spinStartedAtMs s of None \<Rightarrow> now | Some t \<Rightarrow> t);
               s = s\<lparr>presenting := True, spinStartedAtMs := Some started,
                     anticipationPlan := \<not> (fastPlay \<or> fastForwardRequested s) \<and> createAnticipationTriggerPlan grid1,
                     anticipationActive := False,
                     presentationGeneration := presentationGeneration s + 1,
                     sq_run := presentationGeneration s + 1, sq_grid := grid1, sq_fastPlay := fastPlay,
                     sq_stages := map (\<lambda>k. Waiting (now + reelDelay now started fastPlay k) False) [0..<3],
                     impactedReels := [], sq_post := PostIdle, sq_failed := False\<rparr>;
               s = note1 (SetRows (int (length (hd grid1)))) s in
           (True, if viewSetRows hk (int (length (hd grid1)))
                  then settle (beginWait hk now 2 (beginWait hk now 1 (beginWait hk now 0 s)))
                  else failPresentation s))"

section \<open>Events\<close>

datatype sequencer_timer = QuickStopTimer | ReelTimer nat | ImpactTimer nat | PostTimer

fun stageTimer :: "nat \<Rightarrow> reel_stage \<Rightarrow> (sequencer_timer \<times> rat) list" where
  "stageTimer k (Waiting d b) = (if b then [] else [(ReelTimer k, d)])"
| "stageTimer k (Braking m d b) = [(ImpactTimer k, d)]"
| "stageTimer k st = []"

fun postTimers :: "post_stage \<Rightarrow> (sequencer_timer \<times> rat) list" where
  "postTimers (HideWait d) = [(PostTimer, d)]"
| "postTimers (HideTail d) = [(PostTimer, d)]"
| "postTimers (TransitionWait p d) = [(PostTimer, d)]"
| "postTimers (OutroWait p d) = [(PostTimer, d)]"
| "postTimers p = []"

definition timers :: "'h sequencer \<Rightarrow> (sequencer_timer \<times> rat) list" where
  "timers s = (case quickStopReleaseTimer s of None \<Rightarrow> [] | Some d \<Rightarrow> [(QuickStopTimer, d)])
     @ concat (map (\<lambda>k. stageTimer k (stage s k)) [0..<3]) @ postTimers (sq_post s)"

text \<open>A timer that may fire now: set, due, and not behind one that is due earlier.\<close>

definition fires :: "rat \<Rightarrow> sequencer_timer \<Rightarrow> 'h sequencer \<Rightarrow> bool" where
  "fires now t s = list_ex (\<lambda>(t', d). t' = t \<and> d \<le> now \<and> list_all (\<lambda>(t'', d'). d \<le> d') (timers s)) (timers s)"

fun timerFires :: "'h sequencer_hooks \<Rightarrow> rat \<Rightarrow> sequencer_timer \<Rightarrow> 'h sequencer \<Rightarrow> 'h sequencer" where
  "timerFires hk now QuickStopTimer s = releaseReels hk now (s\<lparr>quickStopReleaseTimer := None\<rparr>)"
| "timerFires hk now (ReelTimer k) s = reelTimer hk now k s"
| "timerFires hk now (ImpactTimer k) s = impact hk now k s"
| "timerFires hk now PostTimer s = postTimer hk now (sq_post s) s"

fun stopSettled :: "reel_stage \<Rightarrow> reel_stage" where
  "stopSettled (Braking m d b) = Braking m d True"
| "stopSettled (Landed b) = Landed True"
| "stopSettled st = st"

datatype sequencer_event =
    MarkSpinStart
  | RequestFastForward
  | Cancel
  | Present "GridCell list list" bool
  | Fire sequencer_timer
  | StopSettled nat
  | StopRejected nat
  | HookSettled

text \<open>An animation of the view ends, well or badly, only after it was started.\<close>

definition started :: "reel_stage \<Rightarrow> bool" where
  "started st = (case st of Braking m d b \<Rightarrow> \<not> b | Landed b \<Rightarrow> \<not> b | _ \<Rightarrow> False)"

fun sequencer_step :: "'h sequencer_hooks \<Rightarrow> rat \<Rightarrow> sequencer_event \<Rightarrow> 'h sequencer \<Rightarrow> 'h sequencer" where
  "sequencer_step hk now MarkSpinStart s = markSpinStart now s"
| "sequencer_step hk now RequestFastForward s = settle (snd (requestFastForward hk now s))"
| "sequencer_step hk now Cancel s = settle (snd (cancel s))"
| "sequencer_step hk now (Present grid1 fastPlay) s = snd (present hk now grid1 fastPlay s)"
| "sequencer_step hk now (Fire t) s = (if fires now t s then settle (timerFires hk now t s) else s)"
| "sequencer_step hk now (StopSettled k) s =
     (if started (stage s k) then settle (put_stage k (stopSettled (stage s k)) s) else s)"
| "sequencer_step hk now (StopRejected k) s =
     (if presenting s \<and> started (stage s k) then failPresentation s else s)"
| "sequencer_step hk now HookSettled s = settle (postHookSettled now (sq_post s) s)"

definition sequencer_run :: "'h sequencer_hooks \<Rightarrow> (rat \<times> sequencer_event) list \<Rightarrow> 'h sequencer \<Rightarrow> 'h sequencer" where
  "sequencer_run hk es s = fold (\<lambda>(now, e). sequencer_step hk now e) es s"

end
