(* ===== verification/Stop_Order.thy ===== *)
theory Stop_Order
  imports Stop_Sequencer
begin

text \<open>
  The order the stop sequencer promises its listener: whatever the player does and however the
  timers fall, the reels start to brake in the order 0, 1, 2, each once, and the end is announced
  once, after the third landing. The locale states what a listener has to accept for that; its
  interpretation is the reel state machine.
\<close>

fun starts :: "sequencer_effect list \<Rightarrow> nat list" where
  "starts [] = []"
| "starts (ReelStopStart k m # es) = k # starts es"
| "starts (e # es) = starts es"

fun ends :: "sequencer_effect list \<Rightarrow> outcome list" where
  "ends [] = []"
| "ends (PresentationEnds out # es) = out # ends es"
| "ends (e # es) = ends es"

lemma starts_append [simp]: "starts (es @ fs) = starts es @ starts fs"
  by (induction es rule: starts.induct) simp_all

lemma ends_append [simp]: "ends (es @ fs) = ends es @ ends fs"
  by (induction es rule: ends.induct) simp_all

fun quiet :: "sequencer_effect \<Rightarrow> bool" where
  "quiet (ReelStopStart k m) = False"
| "quiet (PresentationEnds out) = False"
| "quiet e = True"

lemma quiet_starts [simp]: "quiet e \<Longrightarrow> starts [e] = [] \<and> ends [e] = []"
  by (cases e) simp_all

section \<open>Frames\<close>

text \<open>Steps that decorate: they leave alone what the order depends on.\<close>

definition same_core :: "'h sequencer \<Rightarrow> 'h sequencer \<Rightarrow> bool" where
  "same_core s t = (presenting t = presenting s \<and> fastForwardRequested t = fastForwardRequested s
     \<and> spinStartedAtMs t = spinStartedAtMs s \<and> anticipationPlan t = anticipationPlan s
     \<and> presentationGeneration t = presentationGeneration s \<and> sq_run t = sq_run s
     \<and> sq_stages t = sq_stages s \<and> impactedReels t = impactedReels s \<and> sq_post t = sq_post s
     \<and> sq_failed t = sq_failed s \<and> sq_hooks t = sq_hooks s
     \<and> starts (sq_log t) = starts (sq_log s) \<and> ends (sq_log t) = ends (sq_log s))"

lemma same_core_refl [simp]: "same_core s s"
  by (simp add: same_core_def)

lemma same_core_trans: "same_core s t \<Longrightarrow> same_core t u \<Longrightarrow> same_core s u"
  by (simp add: same_core_def)

lemma same_note1 [simp]: "quiet e \<Longrightarrow> same_core s (note1 e s)"
  by (simp add: same_core_def note1_def)

lemma same_anticipation:
  "same_core s (startAnticipation s)" "same_core s (stopAnticipation r ff s)"
  "same_core s (anticipateAt k m s)"
  by (auto simp: startAnticipation_def stopAnticipation_def anticipateAt_def Let_def same_core_def note1_def)

lemma same_clear [simp]: "same_core s (clearQuickStopReleaseTimer s)"
  "same_core s (s\<lparr>quickStopReleaseTimer := q\<rparr>)"
  by (simp_all add: same_core_def clearQuickStopReleaseTimer_def)

lemma stage_put: "k < length (sq_stages s) \<Longrightarrow> stage (put_stage k st s) j = (if j = k then st else stage s j)"
  by (simp add: stage_def put_stage_def)

lemma same_stage: "same_core s t \<Longrightarrow> stage t = stage s"
  by (simp add: same_core_def stage_def fun_eq_iff)

lemma stageTimer_iff:
  "(ReelTimer k, d) \<in> set (stageTimer j st) \<longleftrightarrow> j = k \<and> st = Waiting d False"
  "(ImpactTimer k, d) \<in> set (stageTimer j st) \<longleftrightarrow> j = k \<and> (\<exists>m b. st = Braking m d b)"
  "(PostTimer, d) \<notin> set (stageTimer j st)" "(QuickStopTimer, d) \<notin> set (stageTimer j st)"
  by (cases st; auto)+

lemma postTimers_iff:
  "(ReelTimer k, d) \<notin> set (postTimers p)" "(ImpactTimer k, d) \<notin> set (postTimers p)"
  "(QuickStopTimer, d) \<notin> set (postTimers p)"
  by (cases p; simp)+

lemma timer_waiting: "(ReelTimer k, d) \<in> set (timers s) \<longleftrightarrow> k < 3 \<and> stage s k = Waiting d False"
  by (auto simp: timers_def stageTimer_iff postTimers_iff split: option.splits)

lemma timer_impact: "(ImpactTimer k, d) \<in> set (timers s) \<longleftrightarrow> k < 3 \<and> (\<exists>m b. stage s k = Braking m d b)"
  by (auto simp: timers_def stageTimer_iff postTimers_iff split: option.splits)

lemma fires_iff:
  "fires now t s \<longleftrightarrow> (\<exists>d. (t, d) \<in> set (timers s) \<and> d \<le> now \<and> (\<forall>(t', d') \<in> set (timers s). d \<le> d'))"
  by (force simp: fires_def list_ex_iff list_all_iff)

text \<open>What may happen while a presentation runs: anything but another call of \<open>present\<close> or \<open>markSpinStart\<close>.\<close>

fun during :: "sequencer_event \<Rightarrow> bool" where
  "during MarkSpinStart = False"
| "during (Present g f) = False"
| "during (StopRejected k) = False"
| "during e = True"

section \<open>The listener\<close>

locale stop_listener =
  fixes hk :: "'h sequencer_hooks"
    and ready :: "nat \<Rightarrow> 'h \<Rightarrow> bool"
    and over :: "'h \<Rightarrow> bool"
  assumes accepts_start: "n < 3 \<Longrightarrow> ready n h \<Longrightarrow> \<exists>h'. onReelStopStart hk n h = Some h' \<and> ready (Suc n) h'"
    and accepts_all: "ready 3 h \<Longrightarrow> \<exists>h'. onAllReelsStopped hk h = Some h' \<and> over h'"
    and view: "viewSetRows hk rows" "viewCommit hk k"
begin

definition turn :: "nat \<Rightarrow> nat \<Rightarrow> reel_stage \<Rightarrow> bool" where
  "turn n k st = (if k < n then (\<exists>m d b. st = Braking m d b) \<or> (\<exists>b. st = Landed b)
     else (\<exists>d. st = Waiting d False) \<or> st = AtBarrier \<and> k = 2)"

definition landed :: "'h sequencer \<Rightarrow> nat set" where
  "landed s = {k. k < 3 \<and> (\<exists>b. stage s k = Landed b)}"

definition waits_in_order :: "'h sequencer \<Rightarrow> bool" where
  "waits_in_order s = ((\<forall>k d. stage s k = Waiting d False \<longrightarrow>
       (\<exists>t. spinStartedAtMs s = Some t \<and> t + PRIMAL_FAST_FIRST_BRAKE \<le> d))
     \<and> (\<forall>j k d d'. j < k \<and> stage s j = Waiting d False \<and> stage s k = Waiting d' False \<longrightarrow> d < d'))"

text \<open>\<open>n\<close> reels have started; \<open>rolling\<close> leaves open whether the barrier is up to date.\<close>

definition rolling :: "nat \<Rightarrow> 'h sequencer \<Rightarrow> bool" where
  "rolling n s = (presenting s \<and> sq_run s = presentationGeneration s \<and> \<not> sq_failed s
     \<and> length (sq_stages s) = 3 \<and> n \<le> 3 \<and> (\<forall>k < 3. turn n k (stage s k))
     \<and> distinct (impactedReels s) \<and> set (impactedReels s) = landed s
     \<and> (stage s 2 = AtBarrier \<longrightarrow> n = 2 \<and> anticipationPlan s)
     \<and> waits_in_order s \<and> starts (sq_log s) = [0..<n] \<and> ends (sq_log s) = []
     \<and> (if length (impactedReels s) = 3 then over (sq_hooks s)
        else ready n (sq_hooks s) \<and> sq_post s = PostIdle))"

definition live :: "nat \<Rightarrow> 'h sequencer \<Rightarrow> bool" where
  "live n s = (rolling n s \<and> (stage s 2 = AtBarrier \<longrightarrow> 1 \<notin> set (impactedReels s)))"

definition cancelled :: "'h sequencer \<Rightarrow> bool" where
  "cancelled s = (presenting s \<and> sq_run s < presentationGeneration s \<and> \<not> sq_failed s
     \<and> spinStartedAtMs s = None \<and> quickStopReleaseTimer s = None
     \<and> (\<forall>st \<in> set (sq_stages s). (\<exists>b. st = Landed b) \<or> st = Gone \<or> st = AtBarrier)
     \<and> sq_post s = cancelledPost (sq_post s)
     \<and> (\<exists>n \<le> 3. starts (sq_log s) = [0..<n]) \<and> ends (sq_log s) = [])"

definition done1 :: "'h sequencer \<Rightarrow> bool" where
  "done1 s = (\<not> presenting s \<and> spinStartedAtMs s = None \<and> quickStopReleaseTimer s = None
     \<and> sq_stages s = [] \<and> sq_post s = PostDone
     \<and> (\<exists>n \<le> 3. starts (sq_log s) = [0..<n])
     \<and> (ends (sq_log s) = [PresentationCancelled]
        \<or> ends (sq_log s) = [PresentationCompleted] \<and> starts (sq_log s) = [0..<3] \<and> over (sq_hooks s)))"

definition good :: "'h sequencer \<Rightarrow> bool" where
  "good s = ((\<exists>n. live n s) \<or> cancelled s \<or> done1 s)"

lemma rolling_same: "rolling n s \<Longrightarrow> same_core s t \<Longrightarrow> rolling n t"
  using same_stage [of s t]
  by (simp add: rolling_def landed_def waits_in_order_def same_core_def)

lemma live_same: "live n s \<Longrightarrow> same_core s t \<Longrightarrow> live n t"
  using rolling_same [of n s t] same_stage [of s t] by (simp add: live_def same_core_def)

lemma rolling_stage: "rolling n s \<Longrightarrow> k < 3 \<Longrightarrow> turn n k (stage s k)"
  by (simp add: rolling_def)

lemma rolling_fields:
  "rolling n s \<Longrightarrow> presenting s \<and> sq_run s = presentationGeneration s \<and> \<not> sq_failed s
     \<and> length (sq_stages s) = 3 \<and> n \<le> 3 \<and> set (impactedReels s) = landed s \<and> distinct (impactedReels s)"
  by (simp add: rolling_def)

lemma landed_below: "rolling n s \<Longrightarrow> landed s \<subseteq> {..<n}"
proof
  fix k
  assume r: "rolling n s" and "k \<in> landed s"
  then obtain b where "k < 3" "stage s k = Landed b" by (auto simp: landed_def)
  with rolling_stage [OF r, of k] show "k \<in> {..<n}" by (auto simp: turn_def split: if_splits)
qed

lemma impacted_length: "rolling n s \<Longrightarrow> length (impactedReels s) \<le> n \<and> length (impactedReels s) = card (landed s)"
proof -
  assume r: "rolling n s"
  then have "length (impactedReels s) = card (landed s)"
    using rolling_fields distinct_card by metis
  moreover have "card (landed s) \<le> n"
    using card_mono [OF _ landed_below [OF r]] by simp
  ultimately show ?thesis by simp
qed

lemma rolling_hooks: "rolling n s \<Longrightarrow> if length (impactedReels s) = 3 then over (sq_hooks s)
    else ready n (sq_hooks s) \<and> sq_post s = PostIdle"
  unfolding rolling_def by (elim conjE)

lemma started_hooks:
  assumes "rolling n s" and "n < 3"
  shows "ready n (sq_hooks s) \<and> sq_post s = PostIdle"
proof -
  have "length (impactedReels s) \<noteq> 3" using impacted_length [OF assms(1)] assms(2) by linarith
  with rolling_hooks [OF assms(1)] show ?thesis by simp
qed

lemma rollingI:
  assumes "presenting s" "sq_run s = presentationGeneration s" "\<not> sq_failed s"
    "length (sq_stages s) = 3" "n \<le> 3" "\<And>k. k < 3 \<Longrightarrow> turn n k (stage s k)"
    "distinct (impactedReels s)" "set (impactedReels s) = landed s"
    "stage s 2 = AtBarrier \<Longrightarrow> n = 2 \<and> anticipationPlan s"
    "waits_in_order s" "starts (sq_log s) = [0..<n]" "ends (sq_log s) = []"
    "length (impactedReels s) = 3 \<Longrightarrow> over (sq_hooks s)"
    "length (impactedReels s) \<noteq> 3 \<Longrightarrow> ready n (sq_hooks s) \<and> sq_post s = PostIdle"
  shows "rolling n s"
  using assms by (simp add: rolling_def)

lemma startReel_live:
  assumes r: "rolling n s" and "n < 3"
  shows "live (Suc n) (startReel hk now n s)"
proof -
  obtain h where h: "onReelStopStart hk n (sq_hooks s) = Some h" "ready (Suc n) h"
    using accepts_start [OF assms(2)] started_hooks [OF assms] by blast
  define m where "m = stopMode s n"
  define t where "t = startReel hk now n s"
  have t: "t = note1 (ReelStopStart n m) (put_stage n (Braking m (now + stopBrakeMs m) False) (s\<lparr>sq_hooks := h\<rparr>))"
    by (simp add: t_def startReel_def h m_def Let_def)
  have len: "length (sq_stages s) = 3" using r by (simp add: rolling_def)
  then have st: "stage t j = (if j = n then Braking m (now + stopBrakeMs m) False else stage s j)" for j
    using assms(2) by (auto simp: t stage_def put_stage_def note1_def)
  have not3: "length (impactedReels s) \<noteq> 3" using impacted_length [OF r] assms(2) by linarith
  have fields: "presenting t = presenting s" "sq_run t = sq_run s"
      "presentationGeneration t = presentationGeneration s" "sq_failed t = sq_failed s"
      "length (sq_stages t) = length (sq_stages s)" "impactedReels t = impactedReels s"
      "anticipationPlan t = anticipationPlan s" "spinStartedAtMs t = spinStartedAtMs s"
      "starts (sq_log t) = starts (sq_log s) @ [n]" "ends (sq_log t) = ends (sq_log s)"
      "sq_hooks t = h" "sq_post t = sq_post s"
    by (simp_all add: t note1_def put_stage_def)
  have barrier: "stage t 2 \<noteq> AtBarrier"
    using r assms(2) by (auto simp: st rolling_def)
  have "landed t = landed s"
    using rolling_stage [OF r assms(2)] by (auto simp: landed_def st turn_def split: if_splits)
  moreover have "waits_in_order t"
    using r by (auto simp: rolling_def waits_in_order_def st fields split: if_splits)
  moreover have "turn (Suc n) k (stage t k)" if "k < 3" for k
    using rolling_stage [OF r that] by (auto simp: turn_def st less_Suc_eq)
  ultimately have "rolling (Suc n) t"
    using r assms(2) h(2) not3 started_hooks [OF assms] barrier
    by (intro rollingI) (simp_all add: fields rolling_def)
  with barrier show ?thesis by (simp add: live_def t_def)
qed

lemma put_barrier:
  assumes r: "rolling n s" and "n = 2" and "anticipationPlan s" and "1 \<notin> set (impactedReels s)"
    and w: "stage s 2 = Waiting d b"
  shows "live 2 (put_stage 2 AtBarrier s)"
proof -
  define t where "t = put_stage 2 AtBarrier s"
  have len: "length (sq_stages s) = 3" using r by (simp add: rolling_def)
  then have st: "stage t j = (if j = 2 then AtBarrier else stage s j)" for j
    by (simp add: t_def stage_put)
  have fields: "presenting t = presenting s" "sq_run t = sq_run s"
      "presentationGeneration t = presentationGeneration s" "sq_failed t = sq_failed s"
      "length (sq_stages t) = length (sq_stages s)" "impactedReels t = impactedReels s"
      "anticipationPlan t = anticipationPlan s" "spinStartedAtMs t = spinStartedAtMs s"
      "sq_log t = sq_log s" "sq_hooks t = sq_hooks s" "sq_post t = sq_post s"
    by (simp_all add: t_def put_stage_def)
  have "landed t = landed s" using w by (auto simp: landed_def st)
  moreover have "waits_in_order t"
    using r by (auto simp: rolling_def waits_in_order_def st fields split: if_splits)
  moreover have "turn 2 k (stage t k)" if "k < 3" for k
    using rolling_stage [OF r that] assms(2) by (auto simp: turn_def st)
  ultimately have "rolling 2 t"
    using r assms by (intro rollingI) (auto simp: fields rolling_def split: if_splits)
  then show ?thesis using assms(4) by (simp add: live_def fields t_def [symmetric])
qed

lemma continueReel_live:
  assumes "live n s" and "n < 3" and "stage s n = Waiting d b"
  shows "\<exists>n'. live n' (continueReel hk now n s) \<and> (\<forall>j < 3. (\<exists>d b. stage (continueReel hk now n s) j = Waiting d b)
    \<longrightarrow> n < j \<and> stage (continueReel hk now n s) j = stage s j)"
proof -
  from assms(1) have r: "rolling n s" by (simp add: live_def)
  have others: "n < j" if "j < 3" "stage s j = Waiting d' b'" "j \<noteq> n" for j d' b'
    using rolling_stage [OF r that(1)] that by (auto simp: turn_def split: if_splits)
  have len: "length (sq_stages s) = 3" using r by (simp add: rolling_def)
  show ?thesis
  proof (cases "n = 2 \<and> anticipationPlan s \<and> 1 \<notin> set (impactedReels s)")
    case True
    then have "continueReel hk now n s = put_stage 2 AtBarrier s"
      using rolling_fields [OF r] by (simp add: continueReel_def)
    with put_barrier [OF r] True assms(3) others len show ?thesis
      by (auto simp: stage_put intro!: exI [of _ 2])
  next
    case False
    then have "continueReel hk now n s = startReel hk now n s"
      using rolling_fields [OF r] by (auto simp: continueReel_def)
    moreover obtain h where "onReelStopStart hk n (sq_hooks s) = Some h"
      using accepts_start [OF assms(2)] started_hooks [OF r assms(2)] by blast
    then have "stage (startReel hk now n s) j = (if j = n then Braking (stopMode s n) (now + stopBrakeMs (stopMode s n)) False else stage s j)" for j
      using len assms(2) by (auto simp: startReel_def Let_def stage_def put_stage_def note1_def)
    ultimately show ?thesis
      using startReel_live [OF r assms(2)] others by (auto split: if_splits)
  qed
qed

text \<open>The reels before \<open>k\<close> no longer wait for their turn.\<close>

definition past :: "nat \<Rightarrow> 'h sequencer \<Rightarrow> bool" where
  "past k s = (\<forall>j < k. \<forall>d b. stage s j \<noteq> Waiting d b)"

lemma next_in_turn:
  assumes "live n s" "past k s" "k < 3" "stage s k = Waiting d b"
  shows "k = n"
proof (rule ccontr)
  from assms(1) have r: "rolling n s" by (simp add: live_def)
  assume "k \<noteq> n"
  with rolling_stage [OF r assms(3)] assms(4) have "n < k" by (auto simp: turn_def split: if_splits)
  with rolling_stage [OF r, of n] assms(3) have "(\<exists>d. stage s n = Waiting d False) \<or> stage s n = AtBarrier \<and> n = 2"
    by (auto simp: turn_def)
  with \<open>n < k\<close> assms(2,3) show False by (auto simp: past_def)
qed

lemma continue_past:
  assumes "live n s" "past k s" "k < 3" "stage s k = Waiting d b"
  shows "\<exists>n'. live n' (continueReel hk now k s) \<and> past (Suc k) (continueReel hk now k s)
    \<and> (\<forall>j. k < j \<and> j < 3 \<longrightarrow> (\<exists>d b. stage (continueReel hk now k s) j = Waiting d b)
        \<longrightarrow> stage (continueReel hk now k s) j = stage s j)"
proof -
  have n: "k = n" by (rule next_in_turn [OF assms])
  obtain n' where "live n' (continueReel hk now n s)"
      and w: "\<forall>j < 3. (\<exists>d b. stage (continueReel hk now n s) j = Waiting d b)
        \<longrightarrow> n < j \<and> stage (continueReel hk now n s) j = stage s j"
    using continueReel_live [OF assms(1)] assms(3,4) n by blast
  moreover have "past (Suc k) (continueReel hk now n s)"
    unfolding past_def using w assms(3) n by (metis less_SucE less_Suc_eq_le less_le_trans not_less_iff_gr_or_eq)
  ultimately show ?thesis using n by blast
qed

lemma releaseReel_past:
  assumes "live n s" "past k s" "k < 3"
  shows "\<exists>n'. live n' (releaseReel hk now k s) \<and> past (Suc k) (releaseReel hk now k s)"
proof (cases "\<exists>d b. stage s k = Waiting d b")
  case True
  then obtain d b where "stage s k = Waiting d b" by blast
  with continue_past [OF assms] show ?thesis by (auto simp: releaseReel_def)
next
  case False
  then have "releaseReel hk now k s = s" by (auto simp: releaseReel_def split: reel_stage.splits)
  with False assms(1,2) show ?thesis by (auto simp: past_def less_Suc_eq)
qed

lemma releaseReels_live: "live n s \<Longrightarrow> \<exists>n'. live n' (releaseReels hk now s)"
proof -
  assume "live n s"
  moreover have "past 0 s" by (simp add: past_def)
  ultimately obtain n1 where "live n1 (releaseReel hk now 0 s)" "past (Suc 0) (releaseReel hk now 0 s)"
    using releaseReel_past by fastforce
  then obtain n2 where "live n2 (releaseReel hk now 1 (releaseReel hk now 0 s))"
      "past (Suc (Suc 0)) (releaseReel hk now 1 (releaseReel hk now 0 s))"
    using releaseReel_past [of n1 _ "Suc 0"] by fastforce
  then show ?thesis
    using releaseReel_past [of n2 _ "Suc (Suc 0)"] by (fastforce simp: releaseReels_def numeral_2_eq_2)
qed

lemma reelTimer_live:
  assumes l: "live n s" and f: "fires now (ReelTimer k) s"
  shows "\<exists>n'. live n' (reelTimer hk now k s)"
proof -
  from l have r: "rolling n s" by (simp add: live_def)
  from f obtain d where d: "(ReelTimer k, d) \<in> set (timers s)" "d \<le> now"
      and first: "\<forall>(t', d') \<in> set (timers s). d \<le> d'"
    by (auto simp: fires_iff)
  have k: "stage s k = Waiting d False" "k < 3" using d(1) timer_waiting by blast+
  have w: "waits_in_order s" using r by (simp add: rolling_def)
  have "stage s j \<noteq> Waiting d' b" if "j < k" for j d' b
  proof
    assume j: "stage s j = Waiting d' b"
    with rolling_stage [OF r, of j] that k(2) have "b = False" by (auto simp: turn_def split: if_splits)
    with j that k have "d' < d" using w by (auto simp: waits_in_order_def)
    moreover have "(ReelTimer j, d') \<in> set (timers s)"
      using j \<open>b = False\<close> that k(2) by (simp add: timer_waiting)
    ultimately show False using first by fastforce
  qed
  then have "past k s" by (simp add: past_def)
  moreover obtain t where "spinStartedAtMs s = Some t" "t + PRIMAL_FAST_FIRST_BRAKE \<le> d"
    using w k(1) unfolding waits_in_order_def by blast
  then have "quickStopFloorReached now s" using d(2) by (simp add: quickStopFloorReached_def)
  ultimately show ?thesis using continue_past [OF l _ k(2,1)] k by (auto simp: reelTimer_def)
qed

lemma presentPost_same:
  "same_core s ((presentPostStopActivation hk' now s)\<lparr>sq_post := sq_post s\<rparr>)"
  by (auto simp: presentPostStopActivation_def activate_def playActivation_def Let_def same_core_def
      note1_def split: option.split)

lemma rolling_over:
  assumes "rolling n s" "over h" "length (impactedReels s) = 3"
  shows "rolling n (s\<lparr>sq_hooks := h, sq_post := p, spinStartedAtMs := None\<rparr>)"
proof -
  have "stage (s\<lparr>sq_hooks := h, sq_post := p, spinStartedAtMs := None\<rparr>) = stage s"
    by (simp add: stage_def fun_eq_iff)
  moreover have n: "n = 3" using impacted_length [OF assms(1)] assms(1,3) by (simp add: rolling_def)
  have "stage s k \<noteq> Waiting d b" for k d b
    using rolling_stage [OF assms(1), of k] rolling_fields [OF assms(1)] n
    by (cases "k < 3") (auto simp: turn_def stage_def)
  ultimately show ?thesis
    using assms by (simp add: rolling_def landed_def waits_in_order_def)
qed

lemma still_braking:
  assumes r: "rolling n s" and k: "k < 3" and st: "stage s k = Braking m d b"
  shows "k < n" "k \<notin> landed s" "length (impactedReels s) < n" "n \<le> 3"
proof -
  show n: "k < n" using rolling_stage [OF r k] st by (auto simp: turn_def split: if_splits)
  show notin: "k \<notin> landed s" using st by (simp add: landed_def)
  then have "landed s \<subseteq> {..<n} - {k}" using landed_below [OF r] by auto
  then have "card (landed s) \<le> card ({..<n} - {k})" by (intro card_mono) simp_all
  with n impacted_length [OF r] show "length (impactedReels s) < n" by simp
  show "n \<le> 3" using rolling_fields [OF r] by simp
qed

text \<open>The state right after a landing, before what it starts.\<close>

definition touchdown :: "nat \<Rightarrow> ReelStopMode \<Rightarrow> bool \<Rightarrow> 'h sequencer \<Rightarrow> 'h sequencer" where
  "touchdown k m b s = (let t = anticipateAt k m (note1 (ReelLanded k m) (put_stage k (Landed b) s)) in
     t\<lparr>impactedReels := impactedReels t @ [k]\<rparr>)"

lemma impact_unfold:
  assumes "stage s k = Braking m d b"
  shows "impact hk now k s = openBarrier hk now k (let t = touchdown k m b s in
    if length (impactedReels t) = 3 then allStopped hk now t else t)"
  using assms view(2) by (simp add: impact_def touchdown_def Let_def)

lemma touchdown_fields:
  assumes "length (sq_stages s) = 3" "k < 3"
  shows "same_core (put_stage k (Landed b) s) ((touchdown k m b s)\<lparr>impactedReels := impactedReels s\<rparr>)"
    and "impactedReels (touchdown k m b s) = impactedReels s @ [k]"
    and "stage (touchdown k m b s) j = (if j = k then Landed b else stage s j)"
proof -
  let ?t = "anticipateAt k m (note1 (ReelLanded k m) (put_stage k (Landed b) s))"
  have core: "same_core (put_stage k (Landed b) s) ?t"
    using same_anticipation(3) same_note1 same_core_trans quiet.simps(4) by metis
  then show "same_core (put_stage k (Landed b) s) ((touchdown k m b s)\<lparr>impactedReels := impactedReels s\<rparr>)"
    and "impactedReels (touchdown k m b s) = impactedReels s @ [k]"
    by (simp_all add: touchdown_def Let_def same_core_def put_stage_def)
  from core have "sq_stages (touchdown k m b s) = (sq_stages s)[k := Landed b]"
    by (simp add: touchdown_def Let_def same_core_def put_stage_def)
  then show "stage (touchdown k m b s) j = (if j = k then Landed b else stage s j)"
    using assms by (simp add: stage_def)
qed

lemma touchdown_rolling:
  assumes r: "rolling n s" and k: "k < 3" and st: "stage s k = Braking m d b"
    and t: "t = touchdown k m b s" and h: "over' \<longleftrightarrow> length (impactedReels t) = 3"
    and "over' \<Longrightarrow> over h" "\<not> over' \<Longrightarrow> h = sq_hooks s"
  shows "rolling n (t\<lparr>sq_hooks := h\<rparr>)"
proof -
  have len: "length (sq_stages s) = 3" using r by (simp add: rolling_def)
  note f = touchdown_fields [OF len k, where b = b and m = m, folded t]
  have fields: "presenting t = presenting s" "sq_run t = sq_run s"
      "presentationGeneration t = presentationGeneration s" "sq_failed t = sq_failed s"
      "length (sq_stages t) = length (sq_stages s)" "anticipationPlan t = anticipationPlan s"
      "spinStartedAtMs t = spinStartedAtMs s" "starts (sq_log t) = starts (sq_log s)"
      "ends (sq_log t) = ends (sq_log s)" "sq_hooks t = sq_hooks s" "sq_post t = sq_post s"
    using f(1) by (simp_all add: same_core_def put_stage_def)
  let ?t = "t\<lparr>sq_hooks := h\<rparr>"
  have st': "stage ?t j = (if j = k then Landed b else stage s j)" for j
  proof -
    have "stage ?t = stage t" by (simp add: stage_def fun_eq_iff)
    then show ?thesis using f(3) by simp
  qed
  note n = still_braking(1) [OF r k st] and notin = still_braking(2) [OF r k st]
  have landed: "landed ?t = insert k (landed s)" using k by (auto simp: landed_def st')
  have "waits_in_order ?t"
    using r by (auto simp: rolling_def waits_in_order_def st' fields split: if_splits)
  moreover have "turn n j (stage ?t j)" if "j < 3" for j
    using rolling_stage [OF r that] n by (auto simp: turn_def st')
  moreover have "length (impactedReels s) \<noteq> 3"
    using still_braking(3,4) [OF r k st] by simp
  ultimately show ?thesis
    using r n landed notin assms(5-7) rolling_hooks [OF r]
    by (intro rollingI) (auto simp: fields f(2) rolling_def st' split: if_splits)
qed

lemma allStopped_rolling:
  assumes "rolling n (t\<lparr>sq_hooks := h\<rparr>)" "over h" "length (impactedReels t) = 3"
    and h: "onAllReelsStopped hk (sq_hooks t) = Some h"
  shows "rolling n (allStopped hk now t) \<and> stage (allStopped hk now t) = stage t
    \<and> impactedReels (allStopped hk now t) = impactedReels t"
proof -
  define u where "u = note1 (AllReelsStopped (fastForwardRequested t))
    ((clearQuickStopReleaseTimer t)\<lparr>spinStartedAtMs := None, sq_hooks := h\<rparr>)"
  define v where "v = presentPostStopActivation hk now u"
  have v: "allStopped hk now t = v"
    by (simp add: allStopped_def h Let_def u_def v_def clearQuickStopReleaseTimer_def)
  have core: "same_core u (v\<lparr>sq_post := sq_post u\<rparr>)"
    unfolding v_def by (rule presentPost_same)
  have "rolling n (t\<lparr>sq_hooks := h, sq_post := sq_post v, spinStartedAtMs := None\<rparr>)"
    using rolling_over [OF assms(1,2)] assms(3) by simp
  moreover have "same_core (t\<lparr>sq_hooks := h, sq_post := sq_post v, spinStartedAtMs := None\<rparr>) v"
    using core by (simp add: same_core_def u_def note1_def clearQuickStopReleaseTimer_def)
  ultimately have "rolling n v" by (rule rolling_same)
  moreover have "sq_stages v = sq_stages t" "impactedReels v = impactedReels t"
    using core by (simp_all add: same_core_def u_def note1_def clearQuickStopReleaseTimer_def)
  then have "stage v = stage t" by (simp add: stage_def fun_eq_iff)
  ultimately show ?thesis using v \<open>impactedReels v = _\<close> by simp
qed

lemma impact_live:
  assumes l: "live n s" and k: "k < 3"
  shows "\<exists>n'. live n' (impact hk now k s)"
proof (cases "\<exists>m d b. stage s k = Braking m d b")
  case False
  then have "impact hk now k s = s" by (auto simp: impact_def split: reel_stage.splits)
  with l show ?thesis by auto
next
  case True
  then obtain m d b where st: "stage s k = Braking m d b" by blast
  from l have r: "rolling n s" by (simp add: live_def)
  have len: "length (sq_stages s) = 3" using r by (simp add: rolling_def)
  define t where "t = touchdown k m b s"
  define u where "u = (if length (impactedReels t) = 3 then allStopped hk now t else t)"
  note f = touchdown_fields [OF len k, where b = b and m = m, folded t_def]
  have "rolling n u \<and> stage u = stage t \<and> impactedReels u = impactedReels t"
  proof (cases "length (impactedReels t) = 3")
    case all: True
    have "length (impactedReels s) \<noteq> 3" "sq_hooks t = sq_hooks s"
      using all f by (simp_all add: same_core_def put_stage_def)
    moreover from this(1) all f(2) have "n = 3"
      using still_braking(3,4) [OF r k st] by simp
    ultimately have "ready 3 (sq_hooks t)" using rolling_hooks [OF r] by simp
    then obtain h where h: "onAllReelsStopped hk (sq_hooks t) = Some h" "over h"
      using accepts_all by blast
    have "rolling n (t\<lparr>sq_hooks := h\<rparr>)"
      using touchdown_rolling [OF r k st t_def, of True h] all h(2) by simp
    with allStopped_rolling [OF _ h(2) all h(1), of n now] all show ?thesis by (simp add: u_def)
  next
    case False
    have "sq_hooks t = sq_hooks s" using f(1) by (simp add: same_core_def put_stage_def)
    then have "rolling n (t\<lparr>sq_hooks := sq_hooks t\<rparr>)"
      using touchdown_rolling [OF r k st t_def, of False "sq_hooks s"] False by simp
    with False show ?thesis by (simp add: u_def)
  qed
  then have u: "rolling n u" "stage u j = (if j = k then Landed b else stage s j)"
      "impactedReels u = impactedReels s @ [k]" for j
    using f(2,3) by simp_all
  have "impact hk now k s = openBarrier hk now k u"
    by (simp add: impact_unfold [OF st] t_def [symmetric] u_def Let_def)
  moreover have "\<exists>n'. live n' (openBarrier hk now k u)"
  proof (cases "k = 1 \<and> stage u 2 = AtBarrier")
    case True
    then have "n = 2" using u(1) by (simp add: rolling_def)
    have "Suc 0 \<in> set (impactedReels u)" using True u(3) by simp
    moreover have "sq_run u = presentationGeneration u" using rolling_fields [OF u(1)] by simp
    ultimately have "continueReel hk now 2 u = startReel hk now 2 u"
      by (simp add: continueReel_def)
    with True startReel_live [OF u(1)] \<open>n = 2\<close> show ?thesis by (auto simp: openBarrier_def)
  next
    case False
    have "live n u"
      using l u False by (auto simp: live_def)
    with False show ?thesis by (auto simp: openBarrier_def)
  qed
  ultimately show ?thesis by simp
qed

section \<open>Every event\<close>

lemma stopAnticipation_log [simp]:
  "starts (sq_log (stopAnticipation x ff s)) = starts (sq_log s)"
  "ends (sq_log (stopAnticipation x ff s)) = ends (sq_log s)"
  "sq_hooks (stopAnticipation x ff s) = sq_hooks s"
  using same_anticipation(2) [of s x ff] by (simp_all add: same_core_def)

lemma finish_fields:
  "\<not> presenting (finishPresentation out s) \<and> spinStartedAtMs (finishPresentation out s) = None
   \<and> quickStopReleaseTimer (finishPresentation out s) = None \<and> sq_stages (finishPresentation out s) = []
   \<and> sq_post (finishPresentation out s) = PostDone
   \<and> starts (sq_log (finishPresentation out s)) = starts (sq_log s)
   \<and> ends (sq_log (finishPresentation out s)) = ends (sq_log s) @ [out]
   \<and> sq_hooks (finishPresentation out s) = sq_hooks s"
  by (simp add: finishPresentation_def note1_def clearQuickStopReleaseTimer_def)

lemma live_ended:
  assumes l: "live n s" and e: "list_all ended (sq_stages s)"
  shows "n = 3 \<and> length (impactedReels s) = 3"
proof -
  from l have r: "rolling n s" by (simp add: live_def)
  have "k \<in> landed s" if "k < 3" for k
  proof -
    have "ended (stage s k)"
      using e that rolling_fields [OF r] by (simp add: list_all_length stage_def)
    then show ?thesis using rolling_stage [OF r that] that by (auto simp: ended_def turn_def landed_def split: if_splits)
  qed
  then have "landed s = {..<3}" by (auto simp: landed_def)
  with impacted_length [OF r] rolling_fields [OF r] show ?thesis by simp
qed

lemma settle_live: "live n s \<Longrightarrow> good (settle s)"
proof -
  assume l: "live n s"
  then have r: "rolling n s" by (simp add: live_def)
  note f = rolling_fields [OF r]
  show ?thesis
  proof (cases "list_all ended (sq_stages s) \<and> sq_post s \<in> {PostIdle, PostDone}")
    case True
    with live_ended [OF l] have "n = 3" "over (sq_hooks s)" using rolling_hooks [OF r] by simp_all
    moreover have "settle s = finishPresentation PresentationCompleted s"
      using True f by (simp add: settle_def)
    ultimately have "done1 (settle s)"
      using r finish_fields [of PresentationCompleted s] by (auto simp: done1_def rolling_def)
    then show ?thesis by (simp add: good_def)
  next
    case False
    then have "settle s = s" using f by (auto simp: settle_def)
    with l show ?thesis by (auto simp: good_def)
  qed
qed

lemma settle_cancelled: "cancelled s \<Longrightarrow> good (settle s)"
proof -
  assume c: "cancelled s"
  show ?thesis
  proof (cases "list_all ended (sq_stages s) \<and> sq_post s \<in> {PostIdle, PostDone}")
    case True
    then have "settle s = finishPresentation PresentationCancelled s"
      using c by (auto simp: settle_def cancelled_def)
    then have "done1 (settle s)"
      using c finish_fields [of PresentationCancelled s] by (auto simp: done1_def cancelled_def)
    then show ?thesis by (simp add: good_def)
  next
    case False
    then have "settle s = s" using c by (auto simp: settle_def cancelled_def)
    with c show ?thesis by (auto simp: good_def)
  qed
qed

lemma settle_done: "done1 s \<Longrightarrow> good (settle s)"
  by (simp add: settle_def done1_def good_def)

lemma cancel_live: "live n s \<Longrightarrow> cancelled (snd (cancel s))"
proof -
  assume "live n s"
  then have r: "rolling n s" by (simp add: live_def)
  have "(\<exists>b. cancelledStage st = Landed b) \<or> cancelledStage st = Gone \<or> cancelledStage st = AtBarrier" for st
    by (cases st) auto
  moreover have "cancelledPost (cancelledPost p) = cancelledPost p" for p
    by (cases p) simp_all
  ultimately show ?thesis
    using r by (auto simp: cancel_def Let_def cancelled_def rolling_def note1_def stopAnticipation_def
        clearQuickStopReleaseTimer_def)
qed

lemma cancel_again: "cancelled s \<Longrightarrow> cancelled (snd (cancel s))"
proof -
  assume c: "cancelled s"
  have "(\<exists>b. cancelledStage st = Landed b) \<or> cancelledStage st = Gone \<or> cancelledStage st = AtBarrier" for st
    by (cases st) auto
  moreover have "cancelledPost (cancelledPost p) = cancelledPost p" for p
    by (cases p) simp_all
  ultimately show ?thesis
    using c by (auto simp: cancel_def Let_def cancelled_def note1_def stopAnticipation_def
        clearQuickStopReleaseTimer_def)
qed

lemma done_idle: "done1 s \<Longrightarrow> done1 (snd (cancel s))"
  by (auto simp: cancel_def Let_def done1_def clearQuickStopReleaseTimer_def)

lemma live_fast: "live n s \<Longrightarrow> live n (s\<lparr>fastForwardRequested := f\<rparr>)"
proof -
  assume "live n s"
  moreover have st: "stage (s\<lparr>fastForwardRequested := f\<rparr>) = stage s" by (simp add: stage_def fun_eq_iff)
  moreover have "landed (s\<lparr>fastForwardRequested := f\<rparr>) = landed s"
      "waits_in_order (s\<lparr>fastForwardRequested := f\<rparr>) = waits_in_order s"
    by (simp_all add: st landed_def waits_in_order_def)
  ultimately have "rolling n (s\<lparr>fastForwardRequested := f\<rparr>)" by (simp add: live_def rolling_def)
  with \<open>live n s\<close> st show ?thesis by (simp add: live_def)
qed

lemma schedule_live:
  assumes "live n s"
  shows "\<exists>n'. live n' (scheduleQuickStopRelease hk now s)"
proof -
  have l: "live n (clearQuickStopReleaseTimer s)" by (rule live_same [OF assms same_clear(1)])
  show ?thesis
    unfolding scheduleQuickStopRelease_def Let_def
    using releaseReels_live [OF l, of now] live_same [OF l same_clear(2)] by auto
qed

lemma fastForward_live:
  assumes "live n s"
  shows "\<exists>n'. live n' (snd (requestFastForward hk now s))"
proof (cases "spinStartedAtMs s")
  case None
  with assms show ?thesis by (auto simp: requestFastForward_def)
next
  case (Some t)
  define s1 where "s1 = (if slowReel s then note1 ViewFastForward (stopAnticipation FastForward True
      (s\<lparr>fastForwardRequested := True\<rparr>)) else s\<lparr>fastForwardRequested := True\<rparr>)"
  define s2 where "s2 = (if \<not> fastForwardRequested s then scheduleQuickStopRelease hk now s1 else s1)"
  have "same_core x (note1 ViewFastForward (stopAnticipation FastForward True x))" for x
    by (rule same_core_trans [OF same_anticipation(2) same_note1]) simp
  then have "live n s1"
    using live_fast [OF assms, of True] live_same by (auto simp: s1_def)
  moreover have "\<exists>n'. live n' (scheduleQuickStopRelease hk now s1)"
    by (rule schedule_live [OF \<open>live n s1\<close>])
  ultimately have "\<exists>n'. live n' s2" unfolding s2_def by (cases "fastForwardRequested s") auto
  then obtain n' where "live n' s2" by blast
  then obtain n'' where "live n'' (if slowReel s then impact hk now 2 s2 else s2)"
    using impact_live [of n' s2 2] by (cases "slowReel s") auto
  moreover have "snd (requestFastForward hk now s) = (if slowReel s then impact hk now 2 s2 else s2)"
    by (simp add: requestFastForward_def Some Let_def s2_def s1_def)
  ultimately show ?thesis by auto
qed

lemma post_over:
  assumes l: "live n s" and "sq_post s \<noteq> PostIdle" and core: "same_core s (t\<lparr>sq_post := sq_post s\<rparr>)"
  shows "live n t"
proof -
  from l have r: "rolling n s" by (simp add: live_def)
  then have all: "length (impactedReels s) = 3" using rolling_hooks [OF r] assms(2) by (auto split: if_splits)
  have st: "stage t = stage s"
    using core by (simp add: stage_def fun_eq_iff same_core_def)
  have "rolling n t"
    using r all core st by (auto simp: rolling_def same_core_def landed_def waits_in_order_def)
  with l st core show ?thesis by (auto simp: live_def same_core_def)
qed

lemma postTimer_same: "same_core s ((postTimer hk' now p s)\<lparr>sq_post := sq_post s\<rparr>)"
  by (cases p) (auto simp: activate_def playActivation_def Let_def same_core_def note1_def)

lemma postHook_same: "same_core s ((postHookSettled now p s)\<lparr>sq_post := sq_post s\<rparr>)"
  by (cases p) (auto simp: playActivation_def same_core_def)

lemma timer_post: "(PostTimer, d) \<in> set (timers s) \<Longrightarrow> sq_post s \<noteq> PostIdle"
  by (cases "sq_post s") (auto simp: timers_def stageTimer_iff split: option.splits)

lemma timer_live:
  assumes l: "live n s" and f: "fires now t s"
  shows "\<exists>n'. live n' (timerFires hk now t s)"
proof -
  from f obtain d where d: "(t, d) \<in> set (timers s)" by (auto simp: fires_iff)
  show ?thesis
  proof (cases t)
    case QuickStopTimer
    then show ?thesis
      using releaseReels_live [OF live_same [OF l same_clear(2)]] by simp
  next
    case (ReelTimer k)
    with reelTimer_live [OF l] f show ?thesis by simp
  next
    case (ImpactTimer k)
    with d have "k < 3" by (simp add: timer_impact)
    with impact_live [OF l] ImpactTimer show ?thesis by simp
  next
    case PostTimer
    with d timer_post have "sq_post s \<noteq> PostIdle" by blast
    with post_over [OF l _ postTimer_same] PostTimer show ?thesis by auto
  qed
qed

lemma put_settled:
  assumes l: "live n s" and "started (stage s k)"
  shows "live n (put_stage k (stopSettled (stage s k)) s)"
proof -
  from l have r: "rolling n s" by (simp add: live_def)
  define t where "t = put_stage k (stopSettled (stage s k)) s"
  have "k < length (sq_stages s)"
    using assms(2) by (auto simp: stage_def started_def split: if_splits)
  then have st: "stage t j = (if j = k then stopSettled (stage s k) else stage s j)" and k: "k < 3" for j
    using r by (simp_all add: t_def stage_put rolling_def)
  have fields: "presenting t = presenting s" "sq_run t = sq_run s"
      "presentationGeneration t = presentationGeneration s" "sq_failed t = sq_failed s"
      "length (sq_stages t) = length (sq_stages s)" "impactedReels t = impactedReels s"
      "anticipationPlan t = anticipationPlan s" "spinStartedAtMs t = spinStartedAtMs s"
      "sq_log t = sq_log s" "sq_hooks t = sq_hooks s" "sq_post t = sq_post s"
    by (simp_all add: t_def put_stage_def)
  have s: "(\<exists>m d b. stage s k = Braking m d b \<and> stage t k = Braking m d True)
      \<or> (\<exists>b. stage s k = Landed b \<and> stage t k = Landed True)"
    using assms(2) by (cases "stage s k") (auto simp: started_def st)
  then have "landed t = landed s" by (auto simp: landed_def st)
  moreover have "waits_in_order t"
    using r s by (auto simp: rolling_def waits_in_order_def st fields split: if_splits)
  moreover have "turn n j (stage t j)" if "j < 3" for j
    using rolling_stage [OF r that] s by (auto simp: turn_def st split: if_splits)
  moreover have "stage t 2 = AtBarrier \<longleftrightarrow> stage s 2 = AtBarrier"
    using s by (auto simp: st)
  ultimately have "rolling n t" and "stage t 2 = AtBarrier \<longleftrightarrow> stage s 2 = AtBarrier"
    using r by (simp_all add: rolling_def fields)
  with l show ?thesis unfolding t_def [symmetric] by (simp add: live_def fields)
qed

lemma cancelled_timers:
  assumes "cancelled s"
  shows "timers s = []"
proof -
  have "stageTimer k (stage s k) = []" for k
  proof (cases "k < length (sq_stages s)")
    case True
    then have "stage s k \<in> set (sq_stages s)" by (simp add: stage_def)
    with assms show ?thesis by (auto simp: cancelled_def)
  qed (simp add: stage_def)
  moreover have "postTimers (sq_post s) = []"
    using assms by (cases "sq_post s") (auto simp: cancelled_def)
  ultimately show ?thesis using assms by (simp add: timers_def cancelled_def)
qed

lemma done_timers: "done1 s \<Longrightarrow> timers s = []"
  by (simp add: timers_def done1_def stage_def)

lemma cancelled_settled:
  assumes "cancelled s" and "started (stage s k)"
  shows "cancelled (put_stage k (stopSettled (stage s k)) s)"
proof -
  have "k < length (sq_stages s)"
    using assms(2) by (auto simp: stage_def started_def split: if_splits)
  then have "stage s k \<in> set (sq_stages s)" by (simp add: stage_def)
  with assms obtain b where "stage s k = Landed b"
    by (auto simp: cancelled_def started_def)
  then show ?thesis
    using assms(1) set_update_subset_insert [of "sq_stages s" k "Landed True"]
    by (auto simp: cancelled_def put_stage_def)
qed

lemma cancelled_hook: "cancelled s \<Longrightarrow> cancelled (postHookSettled now (sq_post s) s)"
  by (cases "sq_post s") (auto simp: cancelled_def)

lemma step_live: "live n s \<Longrightarrow> during e \<Longrightarrow> good (sequencer_step hk now e s)"
proof (cases e)
  case RequestFastForward
  assume "live n s"
  with fastForward_live [of n s now] RequestFastForward show ?thesis by (auto intro: settle_live)
next
  case Cancel
  assume "live n s"
  with Cancel show ?thesis by (simp add: settle_cancelled cancel_live)
next
  case (Fire t)
  assume l: "live n s"
  then have "good s" by (auto simp: good_def)
  with Fire timer_live [OF l, of now t] show ?thesis by (auto intro: settle_live)
next
  case (StopSettled k)
  assume l: "live n s"
  then have "good s" by (auto simp: good_def)
  with StopSettled put_settled [OF l] show ?thesis by (auto intro: settle_live)
next
  case HookSettled
  assume l: "live n s"
  have "live n (postHookSettled now (sq_post s) s)"
  proof (cases "sq_post s = PostIdle")
    case True
    with l show ?thesis by simp
  next
    case False
    show ?thesis by (rule post_over [OF l False postHook_same])
  qed
  with HookSettled show ?thesis by (simp add: settle_live)
qed simp_all

lemma step_cancelled: "cancelled s \<Longrightarrow> during e \<Longrightarrow> good (sequencer_step hk now e s)"
proof (cases e)
  case RequestFastForward
  assume c: "cancelled s"
  then have "requestFastForward hk now s = (False, s)" by (simp add: requestFastForward_def cancelled_def)
  with c RequestFastForward show ?thesis by (simp add: settle_cancelled)
next
  case Cancel
  assume "cancelled s"
  with Cancel show ?thesis by (simp add: settle_cancelled cancel_again)
next
  case (Fire t)
  assume c: "cancelled s"
  with Fire cancelled_timers [OF c] show ?thesis by (simp add: fires_iff good_def)
next
  case (StopSettled k)
  assume c: "cancelled s"
  then have "good s" by (simp add: good_def)
  with c StopSettled show ?thesis by (simp add: settle_cancelled cancelled_settled)
next
  case HookSettled
  assume "cancelled s"
  with HookSettled show ?thesis by (simp add: settle_cancelled cancelled_hook)
qed simp_all

lemma step_done: "done1 s \<Longrightarrow> during e \<Longrightarrow> good (sequencer_step hk now e s)"
proof (cases e)
  case RequestFastForward
  assume c: "done1 s"
  then have "requestFastForward hk now s = (False, s)" by (simp add: requestFastForward_def done1_def)
  with c RequestFastForward show ?thesis by (simp add: settle_done)
next
  case Cancel
  assume "done1 s"
  with Cancel show ?thesis by (simp add: settle_done done_idle)
next
  case (Fire t)
  assume c: "done1 s"
  with Fire done_timers [OF c] show ?thesis by (simp add: fires_iff good_def)
next
  case (StopSettled k)
  assume c: "done1 s"
  then have "\<not> started (stage s k)" by (simp add: done1_def stage_def started_def)
  with c StopSettled show ?thesis by (simp add: good_def)
next
  case HookSettled
  assume c: "done1 s"
  with HookSettled have "sequencer_step hk now e s = settle s" by (simp add: done1_def)
  with c show ?thesis by (simp add: settle_done)
qed simp_all

lemma step_good: "good s \<Longrightarrow> during e \<Longrightarrow> good (sequencer_step hk now e s)"
  unfolding good_def [of s] using step_live step_cancelled step_done by blast

lemma good_run: "good s \<Longrightarrow> list_all (\<lambda>(now, e). during e) es \<Longrightarrow> good (sequencer_run hk es s)"
proof (induction es arbitrary: s)
  case Nil
  then show ?case by (simp add: sequencer_run_def)
next
  case (Cons x es)
  obtain now e where x: "x = (now, e)" by force
  have "good (sequencer_step hk now e s)"
    using Cons.prems step_good x by simp
  with Cons x show ?case by (simp add: sequencer_run_def)
qed

text \<open>A presentation begins: what need not wait starts at once, in the order of the reels.\<close>

definition held :: "rat \<Rightarrow> nat \<Rightarrow> 'h sequencer \<Rightarrow> bool" where
  "held now k s = (\<forall>j < k. \<forall>d b. stage s j = Waiting d b \<longrightarrow>
     now < d \<and> \<not> (fastForwardRequested s \<and> quickStopFloorReached now s))"

lemma beginWait_live:
  assumes l: "live n s" and h: "held now k s" and k: "k < 3"
  shows "\<exists>n'. live n' (beginWait hk now k s) \<and> held now (Suc k) (beginWait hk now k s)"
proof (cases "\<exists>d b. stage s k = Waiting d b \<and> (d \<le> now \<or> fastForwardRequested s \<and> quickStopFloorReached now s)")
  case True
  then obtain d b where st: "stage s k = Waiting d b"
      and begins: "d \<le> now \<or> fastForwardRequested s \<and> quickStopFloorReached now s" by blast
  from l have r: "rolling n s" by (simp add: live_def)
  have "stage s j \<noteq> Waiting d' b'" if j: "j < k" for j d' b'
  proof
    assume w: "stage s j = Waiting d' b'"
    have "b = False" "b' = False"
      using rolling_stage [OF r, of j] rolling_stage [OF r k] w st j k by (auto simp: turn_def split: if_splits)
    with w st j r have "d' < d" by (auto simp: rolling_def waits_in_order_def)
    with h j w begins show False by (auto simp: held_def)
  qed
  then have "past k s" by (simp add: past_def)
  then obtain n' where "live n' (continueReel hk now k s)" "past (Suc k) (continueReel hk now k s)"
    using continue_past [OF l _ k st] by blast
  moreover have "beginWait hk now k s = continueReel hk now k s"
    using st begins by (auto simp: beginWait_def)
  ultimately show ?thesis by (auto simp: held_def past_def)
next
  case False
  then have "beginWait hk now k s = s" by (auto simp: beginWait_def split: reel_stage.splits)
  with False l h show ?thesis by (auto simp: held_def less_Suc_eq)
qed

lemma begin_all:
  assumes "live n s"
  shows "good (settle (beginWait hk now 2 (beginWait hk now 1 (beginWait hk now 0 s))))"
proof -
  have "held now 0 s" by (simp add: held_def)
  with assms obtain n1 where 1: "live n1 (beginWait hk now 0 s)" "held now (Suc 0) (beginWait hk now 0 s)"
    using beginWait_live by fastforce
  obtain n2 where 2: "live n2 (beginWait hk now 1 (beginWait hk now 0 s))"
      "held now 2 (beginWait hk now 1 (beginWait hk now 0 s))"
    using beginWait_live [OF 1] by (auto simp: numeral_2_eq_2)
  show ?thesis using beginWait_live [OF 2] by (auto intro: settle_live)
qed

end

lemma upt_three: "[0..<3] = [0, 1, 2 :: nat]"
  by (simp add: upt_rec)

lemma stop_plan: "k < 3 \<Longrightarrow> step_delayMs (stopPlanOf fastPlay ! k) =
    (if fastPlay then 600 + of_nat k * 150 else 1500 + of_nat k * 300)"
  by (simp add: stopPlanOf_def createStopPlan_def safe_int_def MAX_SAFE_INTEGER_def PRIMAL_FAST_FIRST_BRAKE_def
      PRIMAL_FAST_REEL_GAP_def PRIMAL_FAST_REEL_SETTLE_MS_def PRIMAL_FIRST_BRAKE_def PRIMAL_REEL_GAP_def
      PRIMAL_REEL_SETTLE_MS_def Let_def)

lemma reelDelay_eq: "k < 3 \<Longrightarrow> reelDelay now started1 fastPlay k =
    max 0 ((if fastPlay then 600 else 1500) - max 0 (now - started1)) + of_nat k * (if fastPlay then 150 else 300)"
  by (simp add: reelDelay_def stop_plan Let_def)

context stop_listener
begin

lemma present_good:
  assumes "\<not> presenting s" "\<not> malformedGrid grid1" "case spinStartedAtMs s of None \<Rightarrow> True | Some t \<Rightarrow> t \<le> now"
    and "ready 0 (sq_hooks s)" "sq_log s = []"
  shows "good (snd (present hk now grid1 fastPlay s))"
proof -
  define t where "t = (case spinStartedAtMs s of None \<Rightarrow> now | Some t \<Rightarrow> t)"
  have t: "t \<le> now" using assms(3) by (simp add: t_def split: option.splits)
  define i where "i = note1 (SetRows (int (length (hd grid1)))) (s\<lparr>presenting := True, spinStartedAtMs := Some t,
                     anticipationPlan := \<not> (fastPlay \<or> fastForwardRequested s) \<and> createAnticipationTriggerPlan grid1,
                     anticipationActive := False,
                     presentationGeneration := presentationGeneration s + 1,
                     sq_run := presentationGeneration s + 1, sq_grid := grid1, sq_fastPlay := fastPlay,
                     sq_stages := map (\<lambda>k. Waiting (now + reelDelay now t fastPlay k) False) [0..<3],
                     impactedReels := [], sq_post := PostIdle, sq_failed := False\<rparr>)"
  have st: "stage i k = (if k < 3 then Waiting (now + reelDelay now t fastPlay k) False else Gone)" for k
    by (simp add: i_def stage_def note1_def)
  have started1: "spinStartedAtMs i = Some t" by (simp add: i_def note1_def)
  have "waits_in_order i"
    unfolding waits_in_order_def
  proof (intro conjI allI impI)
    fix k d
    assume "stage i k = Waiting d False"
    then have k: "k < 3" "d = now + reelDelay now t fastPlay k" by (simp_all add: st split: if_splits)
    have "0 \<le> (of_nat k :: rat)" by simp
    with t have "t + PRIMAL_FAST_FIRST_BRAKE \<le> d"
      by (simp add: k reelDelay_eq PRIMAL_FAST_FIRST_BRAKE_def max_def)
    with started1 show "\<exists>t. spinStartedAtMs i = Some t \<and> t + PRIMAL_FAST_FIRST_BRAKE \<le> d" by blast
  next
    fix j k d d'
    assume a: "j < k \<and> stage i j = Waiting d False \<and> stage i k = Waiting d' False"
    then have "(of_nat j :: rat) < of_nat k" by simp
    with a show "d < d'" by (auto simp: st reelDelay_eq split: if_splits)
  qed
  moreover have "landed i = {}" by (simp add: landed_def st)
  ultimately have "rolling 0 i"
    using assms(4,5) by (intro rollingI) (simp_all add: turn_def st, simp_all add: i_def note1_def)
  then have "live 0 i" by (simp add: live_def st)
  then have "good (settle (beginWait hk now 2 (beginWait hk now 1 (beginWait hk now 0 i))))"
    by (rule begin_all)
  moreover have "snd (present hk now grid1 fastPlay s)
      = settle (beginWait hk now 2 (beginWait hk now 1 (beginWait hk now 0 i)))"
    using assms(1,2) by (simp add: present_def Let_def view(1) i_def t_def)
  ultimately show ?thesis by simp
qed

lemma presentation_orderly:
  assumes "\<not> presenting s" "\<not> malformedGrid grid1" "case spinStartedAtMs s of None \<Rightarrow> True | Some t \<Rightarrow> t \<le> now"
    and "ready 0 (sq_hooks s)" "sq_log s = []" "list_all (\<lambda>(now, e). during e) es"
    and "t = sequencer_run hk es (snd (present hk now grid1 fastPlay s))"
  shows "(\<exists>n \<le> 3. starts (sq_log t) = [0..<n]) \<and> (presenting t \<longleftrightarrow> ends (sq_log t) = [])
    \<and> set (ends (sq_log t)) \<subseteq> {PresentationCompleted, PresentationCancelled}
    \<and> (PresentationCompleted \<in> set (ends (sq_log t)) \<longrightarrow> starts (sq_log t) = [0, 1, 2] \<and> over (sq_hooks t))"
proof -
  have "good t"
    using good_run [OF present_good [OF assms(1-5)] assms(6)] assms(7) by simp
  then show ?thesis
    using upt_three by (auto simp: good_def live_def rolling_def cancelled_def done1_def)
qed

end

end
