(* ===== verification/Reel_Properties.thy ===== *)
theory Reel_Properties
  imports Stop_Order
begin

text \<open>
  The stop sequencer drives the reel state machine the way the controller wires them
  (\<open>app/AppController.ts\<close>): no interleaving of timers, quick stops and cancellations makes the
  machine refuse an event. And the one place where a presentation can hang.
\<close>

definition reelHooks :: "bool \<Rightarrow> bool \<Rightarrow> ReelRoundSnapshot sequencer_hooks" where
  "reelHooks activation completion = \<lparr>
     onReelStopStart = (\<lambda>k h. case reel_transition h (REEL_STOP_STARTED (int k)) of Inl e \<Rightarrow> None | Inr q \<Rightarrow> Some q),
     onAllReelsStopped = (\<lambda>h. case reel_transition h ALL_REELS_STOPPED of Inl e \<Rightarrow> None | Inr q \<Rightarrow> Some q),
     viewSetRows = (\<lambda>rows. True), viewCommit = (\<lambda>k. True),
     activationPending = activation, completionPending = completion\<rparr>"

definition stopping :: "string option \<Rightarrow> nat \<Rightarrow> ReelRoundSnapshot \<Rightarrow> bool" where
  "stopping r n h = (reel_roundId h = r \<and>
     (if n = 0 then reel_state h = Spin_Stopping
      else reel_state h = Reel_Stop_One_By_One \<and> stopStartedReels h = map int [0..<n]))"

definition shown :: "string option \<Rightarrow> ReelRoundSnapshot \<Rightarrow> bool" where
  "shown r h = (reel_roundId h = r \<and> reel_state h = Result_Show \<and> stopStartedReels h = [0, 1, 2])"

lemma stopping_start:
  assumes "n < 3" and "stopping r n h"
  shows "\<exists>h'. onReelStopStart (reelHooks a c) n h = Some h' \<and> stopping r (Suc n) h'"
proof (cases "n = 0")
  case True
  with assms(2) reel_start_first [of h] show ?thesis by (auto simp: stopping_def reelHooks_def)
next
  case False
  with assms reel_start_next [of h n] show ?thesis by (auto simp: stopping_def reelHooks_def)
qed

lemma stopping_all:
  assumes "stopping r 3 h"
  shows "\<exists>h'. onAllReelsStopped (reelHooks a c) h = Some h' \<and> shown r h'"
  using assms reel_all_stopped [of h] upt_three by (auto simp: stopping_def shown_def reelHooks_def)

interpretation reel_stops: stop_listener "reelHooks a c" "stopping r" "shown r" for a c r
proof unfold_locales
  fix n h
  show "n < 3 \<Longrightarrow> stopping r n h \<Longrightarrow> \<exists>h'. onReelStopStart (reelHooks a c) n h = Some h' \<and> stopping r (Suc n) h'"
    by (rule stopping_start)
  show "stopping r 3 h \<Longrightarrow> \<exists>h'. onAllReelsStopped (reelHooks a c) h = Some h' \<and> shown r h'"
    by (rule stopping_all)
qed (simp_all add: reelHooks_def)


section \<open>A presentation that never ends\<close>

definition stuck :: "'h sequencer \<Rightarrow> bool" where
  "stuck s = (presenting s \<and> sq_run s < presentationGeneration s \<and> \<not> sq_failed s \<and> stage s 2 = AtBarrier
     \<and> (\<forall>k. (\<forall>d b. stage s k \<noteq> Waiting d b) \<and> (\<forall>m d b. stage s k \<noteq> Braking m d b)))"

lemma stuck_settle: "stuck s \<Longrightarrow> settle s = s"
proof -
  assume s: "stuck s"
  then have "2 < length (sq_stages s)" "sq_stages s ! 2 = AtBarrier"
    by (auto simp: stuck_def stage_def split: if_splits)
  then have "\<not> list_all ended (sq_stages s)" by (auto simp: list_all_length ended_def)
  with s show ?thesis by (auto simp: settle_def stuck_def)
qed

lemma stuck_release: "stuck s \<Longrightarrow> releaseReels hk now s = s"
proof -
  assume "stuck s"
  then have "releaseReel hk now k s = s" for k
    by (auto simp: releaseReel_def stuck_def split: reel_stage.splits)
  then show ?thesis by (simp add: releaseReels_def)
qed

lemma stuck_core:
  assumes "stuck s" and "presenting t = presenting s" "sq_run t = sq_run s"
    "presentationGeneration s \<le> presentationGeneration t" "sq_failed t = sq_failed s" "sq_stages t = sq_stages s"
  shows "stuck t"
proof -
  have "stage t = stage s" using assms(6) by (simp add: stage_def fun_eq_iff)
  with assms show ?thesis by (simp add: stuck_def)
qed

lemma stuck_update [simp]:
  "stuck (s\<lparr>quickStopReleaseTimer := q\<rparr>) = stuck s" "stuck (s\<lparr>fastForwardRequested := f\<rparr>) = stuck s"
  "stuck (s\<lparr>spinStartedAtMs := d\<rparr>) = stuck s" "stuck (s\<lparr>sq_post := p\<rparr>) = stuck s"
  "stuck (s\<lparr>anticipationActive := f\<rparr>) = stuck s" "stuck (s\<lparr>sq_log := l\<rparr>) = stuck s"
  by (simp_all add: stuck_def stage_def)

lemma stuck_note1 [simp]: "stuck (note1 e s) = stuck s" "stuck (stopAnticipation r f s) = stuck s"
  "stuck (clearQuickStopReleaseTimer s) = stuck s"
  by (simp_all add: note1_def stopAnticipation_def clearQuickStopReleaseTimer_def)

lemma stuck_fast: "stuck s \<Longrightarrow> stuck (snd (requestFastForward hk now s))"
proof -
  assume s: "stuck s"
  have slow: "\<not> slowReel s" using s by (simp add: slowReel_def stuck_def)
  have "stuck (scheduleQuickStopRelease hk now (s\<lparr>fastForwardRequested := True\<rparr>))"
    using s stuck_release [of "clearQuickStopReleaseTimer (s\<lparr>fastForwardRequested := True\<rparr>)"]
    by (simp add: scheduleQuickStopRelease_def Let_def)
  with s slow show ?thesis by (auto simp: requestFastForward_def Let_def)
qed

lemma stuck_cancel:
  assumes "presenting s" "\<not> sq_failed s" "sq_run s \<le> presentationGeneration s" "stage s 2 = AtBarrier"
  shows "stuck (snd (cancel s))"
proof -
  define t where "t = snd (cancel s)"
  have "sq_stages t = map cancelledStage (sq_stages s)"
    using assms(1) by (simp add: t_def cancel_def Let_def note1_def stopAnticipation_def clearQuickStopReleaseTimer_def)
  then have st: "stage t k = (if k < length (sq_stages s) then cancelledStage (stage s k) else Gone)" for k
    by (simp add: stage_def)
  have "cancelledStage st \<noteq> Waiting d b" "cancelledStage st \<noteq> Braking m d b" for st m d b
    by (cases st; simp)+
  moreover have "2 < length (sq_stages s)" using assms(4) by (auto simp: stage_def split: if_splits)
  ultimately have "stage t 2 = AtBarrier" "\<forall>k. (\<forall>d b. stage t k \<noteq> Waiting d b) \<and> (\<forall>m d b. stage t k \<noteq> Braking m d b)"
    using assms(4) by (simp_all add: st)
  moreover have "presenting t" "\<not> sq_failed t" "sq_run t < presentationGeneration t"
    using assms(1-3) by (simp_all add: t_def cancel_def Let_def note1_def stopAnticipation_def clearQuickStopReleaseTimer_def)
  ultimately show ?thesis by (simp add: stuck_def t_def)
qed

fun notRejected :: "sequencer_event \<Rightarrow> bool" where
  "notRejected (StopRejected k) = False"
| "notRejected e = True"

lemma stuck_post: "stuck s \<Longrightarrow> stuck (postTimer hk now p s) \<and> stuck (postHookSettled now p s)"
  by (cases p) (auto simp: activate_def playActivation_def Let_def)

lemma stuck_timer: "stuck s \<Longrightarrow> stuck (timerFires hk now t s)"
proof (cases t)
  case QuickStopTimer
  assume "stuck s"
  then show ?thesis using QuickStopTimer stuck_release [of "s\<lparr>quickStopReleaseTimer := None\<rparr>"] by simp
next
  case (ReelTimer k)
  assume "stuck s"
  with ReelTimer show ?thesis by (auto simp: reelTimer_def stuck_def split: reel_stage.splits)
next
  case (ImpactTimer k)
  assume "stuck s"
  with ImpactTimer show ?thesis by (auto simp: impact_def stuck_def split: reel_stage.splits)
next
  case PostTimer
  assume "stuck s"
  with PostTimer show ?thesis by (simp add: stuck_post)
qed

lemma stuck_settled: "stuck s \<Longrightarrow> started (stage s k) \<Longrightarrow> stuck (put_stage k (stopSettled (stage s k)) s)"
proof -
  assume s: "stuck s" and k: "started (stage s k)"
  from k have "k \<noteq> 2" using s by (auto simp: started_def stuck_def)
  from k s obtain b where b: "stage s k = Landed b"
    by (cases "stage s k") (auto simp: started_def stuck_def)
  then have "k < length (sq_stages s)" by (auto simp: stage_def split: if_splits)
  then have "stage (put_stage k (stopSettled (stage s k)) s) j = (if j = k then Landed True else stage s j)" for j
    by (simp add: stage_put b)
  with s \<open>k \<noteq> 2\<close> show ?thesis by (simp add: stuck_def) (simp add: put_stage_def)
qed

lemma stuck_step: "stuck s \<Longrightarrow> notRejected e \<Longrightarrow> stuck (sequencer_step hk now e s)"
proof (cases e)
  case MarkSpinStart
  assume "stuck s"
  with MarkSpinStart show ?thesis by (simp add: markSpinStart_def)
next
  case RequestFastForward
  assume "stuck s"
  then have "stuck (snd (requestFastForward hk now s))" by (rule stuck_fast)
  with RequestFastForward show ?thesis by (simp add: stuck_settle)
next
  case Cancel
  assume s: "stuck s"
  then have "stuck (snd (cancel s))" by (intro stuck_cancel) (simp_all add: stuck_def)
  with Cancel show ?thesis by (simp add: stuck_settle)
next
  case (Present g f)
  assume s: "stuck s"
  then have "presenting s" by (simp add: stuck_def)
  with s Present show ?thesis by (simp add: present_def)
next
  case (Fire t)
  assume s: "stuck s"
  with Fire stuck_timer [OF s] show ?thesis by (simp add: stuck_settle)
next
  case (StopSettled k)
  assume s: "stuck s"
  with StopSettled stuck_settled [OF s] show ?thesis by (simp add: stuck_settle)
next
  case HookSettled
  assume s: "stuck s"
  with HookSettled stuck_post [OF s] show ?thesis by (simp add: stuck_settle)
qed simp_all

lemma stuck_run: "stuck s \<Longrightarrow> list_all (\<lambda>(now, e). notRejected e) es \<Longrightarrow> stuck (sequencer_run hk es s)"
  by (induction es arbitrary: s) (auto simp: sequencer_run_def stuck_step)

text \<open>
  C39: a cancellation that hits the moment in which the held-back third reel waits for the second
  one to land leaves the presentation unfinished for good. The landing of the second reel ends
  early and never opens the barrier, so no later event but a rejected view animation ends the
  presentation, and every later one is refused as already active.
\<close>

theorem cancelled_at_barrier_never_ends:
  assumes "presenting s" and "\<not> sq_failed s" and "sq_run s \<le> presentationGeneration s"
    and "stage s 2 = AtBarrier" and "list_all (\<lambda>(now, e). notRejected e) es"
    and "t = sequencer_run hk es (snd (cancel s))"
  shows "presenting t \<and> present hk now grid1 fastPlay t = (False, t)"
proof -
  have "stuck t" using stuck_run [OF stuck_cancel [OF assms(1-4)] assms(5)] assms(6) by simp
  then show ?thesis by (simp add: stuck_def present_def)
qed

section \<open>Witnesses\<close>

definition plainCell :: "SymbolId \<Rightarrow> GridCell" where
  "plainCell x = \<lparr>cell_symbol = x, cell_multiplier = None, cell_prize = None, lockedVaultFace = None\<rparr>"

definition surgeGrid :: "GridCell list list" where
  "surgeGrid = [[plainCell SURGE, plainCell ORBIT, plainCell NOVA], [plainCell SURGE, plainCell ORBIT, plainCell NOVA],
     [plainCell PRISM, plainCell ORBIT, plainCell NOVA]]"

definition acceptedRound :: ReelRoundSnapshot where
  "acceptedRound = drive reel_transition [SPIN_ACCEPTED ''round-1'', REELS_STARTED, RESULT_RECEIVED ''round-1'' (JsInt 3)] idleReels"

definition slowStop :: "(rat \<times> sequencer_event) list" where
  "slowStop = [(1500, Fire (ReelTimer 0)), (1800, Fire (ImpactTimer 0)), (1801, Fire (ReelTimer 1)),
     (2100, Fire (ReelTimer 2))]"

definition slowEnd :: "(rat \<times> sequencer_event) list" where
  "slowEnd = [(2101, Fire (ImpactTimer 1)), (2500, StopSettled 0), (2500, StopSettled 1),
     (2600, RequestFastForward), (2700, StopSettled 2), (2935, Fire PostTimer), (2969, Fire PostTimer)]"

definition slowStart :: "ReelRoundSnapshot sequencer" where
  "slowStart = snd (present (reelHooks False False) 0 surgeGrid False (idleSequencer acceptedRound))"


theorem cancelled_at_barrier_never_ends_witness:
  "presenting (sequencer_run (reelHooks False False) slowEnd
     (snd (cancel (sequencer_run (reelHooks False False) slowStop slowStart))))"
proof -
  let ?s = "sequencer_run (reelHooks False False) slowStop slowStart"
  have "presenting ?s \<and> \<not> sq_failed ?s \<and> sq_run ?s \<le> presentationGeneration ?s \<and> stage ?s 2 = AtBarrier
      \<and> list_all (\<lambda>(now, e). notRejected e) slowEnd"
    by code_simp
  then show ?thesis
    using cancelled_at_barrier_never_ends [of ?s slowEnd _ "reelHooks False False"] by blast
qed

end
