(* ===== verification/Presentation_Queue.thy ===== *)
theory Presentation_Queue
  imports Main
begin

text \<open>
  The presentation queue (\<open>presentation/PresentationQueue.ts\<close>): visual tasks run one at a time
  in the order they were queued, and one that fails does not hold up the next.

  \<open>throws\<close> tells which tasks fail before their first \<open>await\<close>; any other task stays active until
  the event that settles its promise, well or badly.
\<close>

datatype 't queue_effect = TaskStarted 't | TaskResolved 't | TaskRejected 't

record 't queue =
  entries :: "'t list"
  active :: bool
  running :: "'t option"
  queue_log :: "'t queue_effect list"

definition emptyQueue :: "'t queue" where
  "emptyQueue = \<lparr>entries = [], active = False, running = None, queue_log = []\<rparr>"

text \<open>The loop of \<open>drain\<close>, up to the first task that has to be awaited.\<close>

fun drainLoop :: "('t \<Rightarrow> bool) \<Rightarrow> 't list \<Rightarrow> 't queue_effect list \<Rightarrow> 't queue" where
  "drainLoop throws [] l = \<lparr>entries = [], active = False, running = None, queue_log = l\<rparr>"
| "drainLoop throws (t # ts) l =
     (if throws t then drainLoop throws ts (l @ [TaskStarted t, TaskRejected t])
      else \<lparr>entries = ts, active = True, running = Some t, queue_log = l @ [TaskStarted t]\<rparr>)"

definition drain :: "('t \<Rightarrow> bool) \<Rightarrow> 't queue \<Rightarrow> 't queue" where
  "drain throws q = (if active q then q else drainLoop throws (entries q) (queue_log q))"

definition enqueue :: "('t \<Rightarrow> bool) \<Rightarrow> 't \<Rightarrow> 't queue \<Rightarrow> 't queue" where
  "enqueue throws t q = drain throws (q\<lparr>entries := entries q @ [t]\<rparr>)"

text \<open>The promise of the active task settles and the loop goes on.\<close>

definition taskSettles :: "('t \<Rightarrow> bool) \<Rightarrow> bool \<Rightarrow> 't queue \<Rightarrow> 't queue" where
  "taskSettles throws ok q = (case running q of None \<Rightarrow> q
     | Some t \<Rightarrow> drainLoop throws (entries q) (queue_log q @ [if ok then TaskResolved t else TaskRejected t]))"

definition queueSize :: "'t queue \<Rightarrow> nat" where
  "queueSize q = length (entries q) + (if active q then 1 else 0)"

datatype 't queue_event = Enqueue 't | TaskSettles bool

fun queue_step :: "('t \<Rightarrow> bool) \<Rightarrow> 't queue_event \<Rightarrow> 't queue \<Rightarrow> 't queue" where
  "queue_step throws (Enqueue t) q = enqueue throws t q"
| "queue_step throws (TaskSettles ok) q = taskSettles throws ok q"

definition queue_run :: "('t \<Rightarrow> bool) \<Rightarrow> 't queue_event list \<Rightarrow> 't queue \<Rightarrow> 't queue" where
  "queue_run throws es q = fold (queue_step throws) es q"

section \<open>What was asked for and what was done\<close>

fun asked :: "'t queue_event list \<Rightarrow> 't list" where
  "asked [] = []"
| "asked (Enqueue t # es) = t # asked es"
| "asked (TaskSettles ok # es) = asked es"

text \<open>One task after the other: each started task is settled before the next one starts.\<close>

fun one_by_one :: "'t list \<Rightarrow> 't option \<Rightarrow> 't queue_effect list \<Rightarrow> bool" where
  "one_by_one [] None l = (l = [])"
| "one_by_one [] (Some t) l = (l = [TaskStarted t])"
| "one_by_one (t # ts) r (a # b # l) = (a = TaskStarted t \<and> (b = TaskResolved t \<or> b = TaskRejected t) \<and> one_by_one ts r l)"
| "one_by_one (t # ts) r l = False"

lemma one_by_one_Cons: "one_by_one (t # ts) r l \<longleftrightarrow>
    (\<exists>b l'. l = TaskStarted t # b # l' \<and> (b = TaskResolved t \<or> b = TaskRejected t) \<and> one_by_one ts r l')"
  by (cases "(t # ts, r, l)" rule: one_by_one.cases) auto

lemma one_by_one_settle:
  "one_by_one ts (Some t) l \<Longrightarrow> e \<in> {TaskResolved t, TaskRejected t} \<Longrightarrow> one_by_one (ts @ [t]) None (l @ [e])"
proof (induction ts arbitrary: l)
  case Nil
  then show ?case by auto
next
  case (Cons a ts)
  then show ?case by (auto simp: one_by_one_Cons)
qed

lemma one_by_one_start: "one_by_one ts None l \<Longrightarrow> one_by_one ts (Some t) (l @ [TaskStarted t])"
proof (induction ts arbitrary: l)
  case Nil
  then show ?case by simp
next
  case (Cons a ts)
  then show ?case by (auto simp: one_by_one_Cons)
qed

definition queue_inv :: "'t list \<Rightarrow> 't queue \<Rightarrow> bool" where
  "queue_inv ts q = (\<exists>settled. ts = settled @ (case running q of None \<Rightarrow> [] | Some t \<Rightarrow> [t]) @ entries q
     \<and> one_by_one settled (running q) (queue_log q)
     \<and> (active q \<longleftrightarrow> running q \<noteq> None) \<and> (\<not> active q \<longrightarrow> entries q = []))"

lemma drainLoop_inv:
  "one_by_one settled None l \<Longrightarrow> queue_inv (settled @ ts) (drainLoop throws ts l)"
proof (induction ts arbitrary: settled l)
  case Nil
  then show ?case by (simp add: queue_inv_def)
next
  case (Cons t ts)
  note start = one_by_one_start [OF Cons.prems, of t]
  show ?case
  proof (cases "throws t")
    case True
    have "one_by_one (settled @ [t]) None ((l @ [TaskStarted t]) @ [TaskRejected t])"
      using one_by_one_settle [OF start] by simp
    with Cons.IH [of "settled @ [t]" "l @ [TaskStarted t, TaskRejected t]"] True show ?thesis by simp
  next
    case False
    with start show ?thesis by (auto simp: queue_inv_def)
  qed
qed

lemma inv_step: "queue_inv ts q \<Longrightarrow> queue_inv (ts @ asked [e]) (queue_step throws e q)"
proof (cases e)
  case (Enqueue t)
  assume inv: "queue_inv ts q"
  show ?thesis
  proof (cases "active q")
    case True
    with inv Enqueue show ?thesis by (auto simp: queue_inv_def enqueue_def drain_def)
  next
    case False
    with inv have "one_by_one ts None (queue_log q)" "entries q = []" by (auto simp: queue_inv_def)
    with False Enqueue drainLoop_inv [of ts "queue_log q" "[t]" throws] show ?thesis
      by (simp add: enqueue_def drain_def)
  qed
next
  case (TaskSettles ok)
  assume inv: "queue_inv ts q"
  show ?thesis
  proof (cases "running q")
    case None
    with inv TaskSettles show ?thesis by (simp add: taskSettles_def)
  next
    case (Some t)
    with inv obtain settled where s: "ts = settled @ [t] @ entries q" "one_by_one settled (Some t) (queue_log q)"
      by (auto simp: queue_inv_def)
    have "one_by_one (settled @ [t]) None (queue_log q @ [if ok then TaskResolved t else TaskRejected t])"
      by (rule one_by_one_settle [OF s(2)]) simp
    from drainLoop_inv [OF this, of "entries q" throws] s(1) Some TaskSettles show ?thesis
      by (simp add: taskSettles_def)
  qed
qed

lemma inv_run: "queue_inv ts q \<Longrightarrow> queue_inv (ts @ asked es) (queue_run throws es q)"
proof (induction es arbitrary: ts q)
  case Nil
  then show ?case by (simp add: queue_run_def)
next
  case (Cons e es)
  have "asked (e # es) = asked [e] @ asked es" by (cases e) simp_all
  with Cons.IH [OF inv_step [OF Cons.prems]] show ?case by (simp add: queue_run_def)
qed

lemma drainLoop_size: "queueSize (drainLoop throws ts l) \<le> length ts"
proof (induction ts arbitrary: l)
  case Nil
  then show ?case by (simp add: queueSize_def)
next
  case (Cons t ts)
  show ?case
    using Cons.IH [of "l @ [TaskStarted t, TaskRejected t]"]
    by (cases "throws t") (simp_all add: queueSize_def)
qed

lemma settles_size:
  assumes "queue_inv ts q"
  shows "queueSize (taskSettles throws ok q) \<le> queueSize q - 1"
proof (cases "running q")
  case None
  with assms show ?thesis by (auto simp: taskSettles_def queueSize_def queue_inv_def)
next
  case (Some t)
  with assms have "queueSize q = Suc (length (entries q))" by (auto simp: queueSize_def queue_inv_def)
  with Some drainLoop_size [of throws "entries q"] show ?thesis by (simp add: taskSettles_def)
qed

lemma settles_run:
  "queue_inv ts q \<Longrightarrow> queueSize (queue_run throws (map TaskSettles oks) q) \<le> queueSize q - length oks"
proof (induction oks arbitrary: q)
  case Nil
  then show ?case by (simp add: queue_run_def)
next
  case (Cons ok oks)
  have "queue_inv ts (taskSettles throws ok q)"
    using inv_step [OF Cons.prems, of "TaskSettles ok" throws] by simp
  from Cons.IH [OF this] settles_size [OF Cons.prems, of throws ok] show ?case
    by (simp add: queue_run_def)
qed

text \<open>
  Presentations are played one at a time and none is lost. After any sequence of calls and
  settlements the effects are those of the queued tasks in their order, each started once, settled
  once, and before the next one starts, at most one running; and whatever then fails, as many
  settlements as there are tasks left leave the queue empty with every queued task settled.
\<close>

theorem presentations_serialized:
  fixes throws :: "'t \<Rightarrow> bool"
  defines "q \<equiv> \<lambda>es. queue_run throws es emptyQueue"
  shows "(\<exists>settled. asked es = settled @ (case running (q es) of None \<Rightarrow> [] | Some t \<Rightarrow> [t]) @ entries (q es)
      \<and> one_by_one settled (running (q es)) (queue_log (q es)))
    \<and> (queueSize (q es) \<le> length oks \<longrightarrow> (let r = q (es @ map TaskSettles oks) in
        queueSize r = 0 \<and> one_by_one (asked es) None (queue_log r)))"
proof -
  have start: "queue_inv [] emptyQueue" by (simp add: queue_inv_def emptyQueue_def)
  have inv: "queue_inv (asked es) (q es)" for es
    using inv_run [OF start, of es throws] by (simp add: q_def)
  have asked: "asked (es @ map TaskSettles oks) = asked es"
  proof -
    have "asked (map TaskSettles oks) = []" by (induction oks) simp_all
    moreover have "asked (xs @ ys) = asked xs @ asked ys" for xs ys :: "'t queue_event list"
      by (induction xs rule: asked.induct) simp_all
    ultimately show ?thesis by simp
  qed
  have "queueSize (q (es @ map TaskSettles oks)) \<le> queueSize (q es) - length oks"
    using settles_run [OF inv [of es], of throws oks] by (simp add: q_def queue_run_def)
  moreover have "one_by_one (asked es) None (queue_log (q (es @ map TaskSettles oks)))"
      if "queueSize (q (es @ map TaskSettles oks)) = 0"
    using inv [of "es @ map TaskSettles oks"] that asked
    by (auto simp: queue_inv_def queueSize_def split: option.splits if_splits)
  ultimately show ?thesis using inv [of es] by (auto simp: queue_inv_def Let_def)
qed

theorem presentations_serialized_witness:
  "one_by_one [1, 2, 3] None
     (queue_log (queue_run (\<lambda>t. t = (2 :: nat)) ([Enqueue 1, Enqueue 2, Enqueue 3] @ map TaskSettles [False, True, True]) emptyQueue))"
proof -
  have "queueSize (queue_run (\<lambda>t. t = (2 :: nat)) [Enqueue 1, Enqueue 2, Enqueue 3] emptyQueue) \<le> length [False, True, True]"
    by code_simp
  then show ?thesis
    using presentations_serialized [of "[Enqueue 1, Enqueue 2, Enqueue 3]" "\<lambda>t. t = (2 :: nat)" "[False, True, True]"]
    by (simp only: Let_def asked.simps simp_thms)
qed

end
