(* ===== verification/Round_Plans.thy ===== *)
theory Round_Plans
  imports Decoder_Properties Complex_Main
begin

text \<open>
  The pure plans behind the presentation of a round: which events are played when
  (\<open>app/roundPresentationPhases.ts\<close>), which part of the program owns an event
  (\<open>app/featureEventRouting.ts\<close>), and the sounds and counters of its wins
  (\<open>app/roundAudioPlan.ts\<close>).
\<close>

section \<open>Phases\<close>

fun roundPresentationPhases :: "FeatureEvent list \<Rightarrow> FeatureEvent list \<times> FeatureEvent list" where
  "roundPresentationPhases [] = ([], [])"
| "roundPresentationPhases (e # es) = (let (post, summary) = roundPresentationPhases es in
     if type_of e = grid_expanded then (post, summary)
     else if type_of e = free_spins_completed then (post, e # summary)
     else (e # post, summary))"

definition authoritativeWaysWinTotal :: "string list \<Rightarrow> string" where
  "authoritativeWaysWinTotal amounts =
     toString (foldl (\<lambda>acc a. if MONEY_PATTERN a then acc + BigInt a else acc) 0 amounts)"

section \<open>Routes\<close>

datatype FeatureVisualRoute =
    route_none | route_collect | route_rage_transform | route_wheel | route_vault_group
  | route_free_spin_intro | route_vault_reveal | route_vault_award | route_extra_spin
  | route_free_spin_cap | route_free_spin_summary

record FeatureEventRoute =
  beforeReels :: bool
  visual :: FeatureVisualRoute
  route_environment :: bool
  route_audio :: bool
  announce :: bool

definition route :: "FeatureVisualRoute \<Rightarrow> FeatureEventRoute" where
  "route v = \<lparr>beforeReels = False, visual = v, route_environment = False, route_audio = False, announce = True\<rparr>"

text \<open>A group event is typed with one of the four group types.\<close>

fun featureEventRoute :: "FeatureEvent \<Rightarrow> FeatureEventRoute" where
  "featureEventRoute (GridExpanded rows ways) =
     (route route_none)\<lparr>beforeReels := True, route_environment := True, route_audio := True\<rparr>"
| "featureEventRoute (SurgeCollected count cells triggered guaranteed level tot) =
     (route route_collect)\<lparr>route_environment := True, route_audio := True, announce := \<not> triggered\<rparr>"
| "featureEventRoute (RageTransformed count cells level tot) =
     (route route_rage_transform)\<lparr>route_environment := True, announce := False\<rparr>"
| "featureEventRoute WheelStarted =
     (route route_none)\<lparr>route_environment := True, route_audio := True, announce := False\<rparr>"
| "featureEventRoute (WheelAwarded outcome p m a) =
     (route route_wheel)\<lparr>route_environment := True, route_audio := True\<rparr>"
| "featureEventRoute (FreeSpinsStarted m awarded) =
     (route route_free_spin_intro)\<lparr>route_environment := True, route_audio := True\<rparr>"
| "featureEventRoute (VaultGroup t count cells) =
     (if t = vaults_unlock_started
      then (route route_vault_group)\<lparr>route_environment := True, route_audio := True, announce := False\<rparr>
      else if t = vaults_unlock_completed then (route route_none)\<lparr>route_environment := True, announce := False\<rparr>
      else (route route_none)\<lparr>announce := False\<rparr>)"
| "featureEventRoute (VaultUnlocked p pr m) = (route route_vault_reveal)\<lparr>announce := False\<rparr>"
| "featureEventRoute (VaultUpgradeStarted count step) =
     (route route_vault_group)\<lparr>route_environment := True, route_audio := True, announce := False\<rparr>"
| "featureEventRoute (VaultAwarded p m a pr) =
     (route route_vault_award)\<lparr>route_environment := True, announce := False\<rparr>"
| "featureEventRoute (VaultUpgraded p f t pr step) = (route route_vault_award)\<lparr>announce := False\<rparr>"
| "featureEventRoute (FreeSpinAwarded count p) = (route route_extra_spin)\<lparr>announce := False\<rparr>"
| "featureEventRoute (FreeSpinCapReached p) = (route route_free_spin_cap)\<lparr>announce := False\<rparr>"
| "featureEventRoute (WinCapReached m c) = (route route_none)\<lparr>announce := False\<rparr>"
| "featureEventRoute (FreeSpinsCompleted m awarded c) =
     (route route_free_spin_summary)\<lparr>route_audio := True, announce := False\<rparr>"

section \<open>Win sounds\<close>

definition positiveMoney :: "string \<Rightarrow> int option" where
  "positiveMoney s = (if 20 < length s \<or> \<not> MONEY_PATTERN s then None
     else if 0 < BigInt s then Some (BigInt s) else None)"

text \<open>The quotient of the two numbers is exact here; the doubles of the code round it.\<close>

definition normalWinCounterDurationMs :: "string \<Rightarrow> string \<Rightarrow> bool \<Rightarrow> rat option" where
  "normalWinCounterDurationMs totalWin bet fastPlay = (case (positiveMoney totalWin, positiveMoney bet) of
       (Some w, Some b) \<Rightarrow>
         let duration = of_int w / of_int b * 500 * (if fastPlay then 1 / 2 else 1) in
         Some (min 5000 (max 100 duration))
     | _ \<Rightarrow> None)"

definition isWinLossOrEqual :: "string \<Rightarrow> string \<Rightarrow> bool" where
  "isWinLossOrEqual totalWin bet = (case (positiveMoney totalWin, positiveMoney bet) of
     (Some w, Some b) \<Rightarrow> w \<le> b | _ \<Rightarrow> False)"

definition isCelebratoryWin :: "string \<Rightarrow> string \<Rightarrow> bool" where
  "isCelebratoryWin totalWin bet = (case (positiveMoney totalWin, positiveMoney bet) of
     (Some w, Some b) \<Rightarrow> b < w | _ \<Rightarrow> False)"

text \<open>The level of the payout sound; its intensity is always 1.\<close>

definition planPayoutAudio :: "string \<Rightarrow> string \<Rightarrow> int option" where
  "planPayoutAudio totalWin bet = (case (positiveMoney totalWin, positiveMoney bet) of
       (Some w, Some b) \<Rightarrow>
         if w < b * 2 then None
         else let ratio = w div b in Some (if 9 \<le> ratio then 8 else ratio - 1)
     | _ \<Rightarrow> None)"

datatype ReelLandAudioEvent = ScatterLand int int | WildLand int

definition normalizeScatterOrdinal :: "rat option \<Rightarrow> int" where
  "normalizeScatterOrdinal v = (case v of None \<Rightarrow> 0
     | Some x \<Rightarrow> min 5 (max 0 (if x < 0 then \<lceil>x\<rceil> else \<lfloor>x\<rfloor>)))"

fun landEvents :: "int \<Rightarrow> int \<Rightarrow> GridCell list \<Rightarrow> ReelLandAudioEvent list \<times> int" where
  "landEvents row1 ordinal [] = ([], ordinal)"
| "landEvents row1 ordinal (c # cs) =
     (if cell_symbol c = SURGE
      then let next1 = min 5 (ordinal + 1); (es, final) = landEvents (row1 + 1) next1 cs in
        (ScatterLand row1 next1 # es, final)
      else if cell_symbol c = WILD
      then let (es, final) = landEvents (row1 + 1) ordinal cs in (WildLand row1 # es, final)
      else landEvents (row1 + 1) ordinal cs)"

definition planReelLandAudio :: "GridCell list \<Rightarrow> rat option \<Rightarrow> ReelLandAudioEvent list \<times> int" where
  "planReelLandAudio cells current1 = landEvents 0 (normalizeScatterOrdinal current1) cells"

text \<open>\<open>/^(MINI|MINOR|MAJOR|MEGA|GRAND)(?:_2X)?$/i\<close>, with the tier in lower case.\<close>

definition lower :: "string \<Rightarrow> string" where
  "lower s = map (\<lambda>c. if is_upper c then char_of (code c + 32) else c) s"

definition parseJackpotTier :: "string option \<Rightarrow> string option" where
  "parseJackpotTier prize = (case prize of None \<Rightarrow> None
     | Some p \<Rightarrow> find (\<lambda>tier. lower p = tier \<or> lower p = tier @ ''_2x'')
                   [''mini'', ''minor'', ''major'', ''mega'', ''grand''])"

section \<open>Facts\<close>

lemma phases_filter:
  "roundPresentationPhases es =
     (filter (\<lambda>e. type_of e \<noteq> grid_expanded \<and> type_of e \<noteq> free_spins_completed) es,
      filter (\<lambda>e. type_of e = free_spins_completed) es)"
  by (induction es) auto

lemma ways_total:
  assumes "\<forall>a \<in> set amounts. MONEY_PATTERN a"
  shows "BigInt (authoritativeWaysWinTotal amounts) = sum_list (map BigInt amounts)"
proof -
  have "foldl (\<lambda>acc a. if MONEY_PATTERN a then acc + BigInt a else acc) acc amounts
      = acc + sum_list (map BigInt amounts)" for acc
    using assms by (induction amounts arbitrary: acc) simp_all
  then show ?thesis by (simp add: authoritativeWaysWinTotal_def)
qed

lemma sum_positive:
  "\<forall>x \<in> set xs. 0 \<le> f x \<Longrightarrow> sum_list (map f (filter (\<lambda>x. 0 < f x) xs)) = (sum_list (map f xs) :: int)"
  by (induction xs) auto

text \<open>An event reaches the reels early exactly when it is not played after them.\<close>

lemma early_route: "event_typed e \<Longrightarrow> beforeReels (featureEventRoute e) \<longleftrightarrow> type_of e = grid_expanded"
  by (cases e) (auto simp: route_def vault_group_types_def)

text \<open>The ordinals of a round's SURGE cells count up through the reels and stay at five.\<close>

lemma land_ordinals:
  "0 \<le> k \<Longrightarrow> k \<le> 5 \<Longrightarrow> snd (landEvents r k cells) = min 5 (k + int (length (filter (\<lambda>c. cell_symbol c = SURGE) cells)))"
  by (induction r k cells rule: landEvents.induct) (auto simp: Let_def split: prod.splits)

lemma positiveMoney_Some:
  "positiveMoney s = Some n \<longleftrightarrow> length s \<le> 20 \<and> MONEY_PATTERN s \<and> n = BigInt s \<and> 0 < n"
  by (auto simp: positiveMoney_def)

text \<open>
  The total the win counter shows is the server's. For every result the decoder returns, the
  Ways total that the presentation computes from the wins it shows (the ones that pay) and the
  amounts of the money events add up to the total of the result.
\<close>

theorem shown_total_is_the_servers:
  assumes "decodeMessage v = Inr (Result r)"
  shows "BigInt (authoritativeWaysWinTotal (map win_amountMinor (filter (\<lambda>w. 0 < BigInt (win_amountMinor w)) (wins r))))
    + sum_list (map eventMoney (events r)) = BigInt (totalWinMinor r)"
proof -
  have wf: "wf_result r" using message.sound [OF assms] by simp
  then have "validateVisibleAwardTotal (wins r) (events r) (totalWinMinor r) = Inr ()"
    and w: "list_all (wf_win (result_grid r)) (wins r)"
    using validateParts_Inr(2) by (auto simp: wf_result_def)
  then have total: "BigInt (totalWinMinor r)
      = sum_list (map (\<lambda>w. BigInt (win_amountMinor w)) (wins r)) + sum_list (map eventMoney (events r))"
    by (simp add: validateVisibleAwardTotal_def accept visibleAwards_sum)
  have money: "MONEY_PATTERN (win_amountMinor w)" if "w \<in> set (wins r)" for w
    using w that money_ok_canonical by (auto simp: wf_win_def wf_winBase_def list_all_iff)
  then have "BigInt (authoritativeWaysWinTotal (map win_amountMinor (filter (\<lambda>w. 0 < BigInt (win_amountMinor w)) (wins r))))
      = sum_list (map (\<lambda>w. BigInt (win_amountMinor w)) (filter (\<lambda>w. 0 < BigInt (win_amountMinor w)) (wins r)))"
    by (subst ways_total) (auto simp: comp_def)
  also have "\<dots> = sum_list (map (\<lambda>w. BigInt (win_amountMinor w)) (wins r))"
    using money BigInt_nonneg by (intro sum_positive) auto
  finally show ?thesis using total by simp
qed

text \<open>
  The celebration fits the win exactly. For amounts of at most twenty digits and a positive
  bet, there is a payout sound exactly from twice the bet on; its level is L below 8 exactly when
  the win is at least L + 1 and less than L + 2 bets, and 8 from nine bets on. Integers of any
  size are compared, never floating-point numbers.
\<close>

theorem payout_level_exact:
  assumes "positiveMoney totalWin = Some w" and "positiveMoney bet = Some b"
  shows "(planPayoutAudio totalWin bet = None \<longleftrightarrow> w < 2 * b)
    \<and> (\<forall>level. planPayoutAudio totalWin bet = Some level \<longleftrightarrow>
         1 \<le> level \<and> level \<le> 8 \<and> (level + 1) * b \<le> w \<and> (level < 8 \<longrightarrow> w < (level + 2) * b))
    \<and> (planPayoutAudio totalWin bet \<noteq> None \<longrightarrow> isCelebratoryWin totalWin bet)"
proof -
  have b: "0 < b" using assms(2) by (simp add: positiveMoney_Some)
  define r where "r = w div b"
  have q: "n * b \<le> w \<longleftrightarrow> n \<le> r" for n
  proof
    assume "n * b \<le> w"
    then have "(n * b) div b \<le> w div b" using b by (rule zdiv_mono1)
    with b show "n \<le> r" by (simp add: r_def)
  next
    assume "n \<le> r"
    then have "n * b \<le> r * b" using b by simp
    also have "\<dots> \<le> w"
    proof -
      have "0 \<le> w mod b" using b by simp
      moreover have "r * b + w mod b = w" by (simp add: r_def)
      ultimately show ?thesis by linarith
    qed
    finally show "n * b \<le> w" .
  qed
  have two: "w < 2 * b \<longleftrightarrow> r < 2" using q [of 2] by (simp add: not_le [symmetric])
  have plan: "planPayoutAudio totalWin bet = (if r < 2 then None else Some (if 9 \<le> r then 8 else r - 1))"
    using assms two by (simp add: planPayoutAudio_def r_def Let_def mult.commute)
  have upper: "w < n * b \<longleftrightarrow> r < n" for n using q [of n] by (simp add: not_le [symmetric])
  have "(planPayoutAudio totalWin bet = Some level) \<longleftrightarrow>
      1 \<le> level \<and> level \<le> 8 \<and> level + 1 \<le> r \<and> (level < 8 \<longrightarrow> r < level + 2)" for level
    by (auto simp: plan)
  moreover have "isCelebratoryWin totalWin bet" if "\<not> r < 2"
    using that two b assms by (simp add: isCelebratoryWin_def)
  ultimately show ?thesis using two by (auto simp: plan q upper)
qed

theorem shown_total_is_the_servers_witness:
  "BigInt (authoritativeWaysWinTotal (map win_amountMinor (filter (\<lambda>w. 0 < BigInt (win_amountMinor w)) (wins winResult))))
     + sum_list (map eventMoney (events winResult)) = BigInt (totalWinMinor winResult)"
  using shown_total_is_the_servers [OF win_decoded] by blast

theorem payout_level_exact_witness:
  "planPayoutAudio ''499'' ''100'' = Some 3 \<and> isCelebratoryWin ''499'' ''100''"
proof -
  have "positiveMoney ''499'' = Some 499" "positiveMoney ''100'' = Some 100" by code_simp+
  from payout_level_exact [OF this] show ?thesis by auto
qed

end
