(* ===== verification/Bounded_Response.thy ===== *)
theory Bounded_Response
  imports Js_Values "HOL-Library.Word"
begin

text \<open>
  The bounded reader every network response goes through (\<open>network/boundedResponse.ts\<close>).

  A byte is an \<open>8 word\<close>, a buffer the list of its bytes. What the stream does is the list of its
  reads, in the order in which the loop meets them; the end of the list is \<open>done\<close>. The
  allocations the reader makes are recorded, since the bound on them is its purpose.
\<close>

type_synonym byte = "8 word"

datatype stream_read = Chunk "byte list" | NoValue | ReadFails | AbortedBefore | AbortedAfter

datatype response_error =
    LimitTypeError
  | NetworkResponseLimitError int "int option" "int option"
  | NetworkResponseBodyError
  | AbortError
  | StreamError

record response =
  response_status :: int
  contentLength :: "string option"
  response_body :: "stream_read list option"

record read_outcome =
  outcome_bytes :: "response_error + byte list"
  outcome_progress :: "nat list"
  outcome_allocations :: "nat list"
  outcome_cancelled :: bool

section \<open>The declared length\<close>

definition checkedLimit :: "js_number \<Rightarrow> response_error + nat" where
  "checkedLimit v = (case safeInteger v of None \<Rightarrow> Inl LimitTypeError
     | Some n \<Rightarrow> if n < 0 then Inl LimitTypeError else Inr (nat n))"

text \<open>\<open>Number(raw)\<close> of a canonical decimal string is a safe integer exactly when its value is one.\<close>

definition declaredContentLength :: "string option \<Rightarrow> int option" where
  "declaredContentLength raw = (case raw of None \<Rightarrow> None
     | Some s \<Rightarrow> if \<not> MONEY_PATTERN s then None
                 else if safe_int (BigInt s) then Some (BigInt s) else Some MAX_SAFE_INTEGER)"

section \<open>The buffer\<close>

text \<open>The doubling loop: it would not end for more bytes than the limit, which is never asked of it.\<close>

partial_function (option) growCapacity :: "nat \<Rightarrow> nat \<Rightarrow> nat \<Rightarrow> nat option" where
  "growCapacity capacity required maxBytes =
     (if capacity < required
      then growCapacity (min maxBytes (max required (capacity * 2))) required maxBytes
      else Some capacity)"

declare growCapacity.simps [code]

definition setBytes :: "nat \<Rightarrow> byte list \<Rightarrow> byte list \<Rightarrow> byte list" where
  "setBytes offset value buffer = take offset buffer @ value @ drop (offset + length value) buffer"

definition growBuffer :: "byte list \<Rightarrow> nat \<Rightarrow> nat \<Rightarrow> byte list option" where
  "growBuffer current1 required maxBytes =
     (case growCapacity (max 1 (length current1)) required maxBytes of None \<Rightarrow> None
      | Some capacity \<Rightarrow> Some (setBytes 0 current1 (replicate capacity 0)))"

section \<open>The loop\<close>

record reader =
  reader_result :: "byte list"
  reader_total :: nat
  reader_progress :: "nat list"
  reader_allocations :: "nat list"

definition readEnds :: "reader \<Rightarrow> bool \<Rightarrow> response_error + byte list \<Rightarrow> read_outcome" where
  "readEnds r cancelled bytes = \<lparr>outcome_bytes = bytes, outcome_progress = reader_progress r,
     outcome_allocations = reader_allocations r, outcome_cancelled = cancelled\<rparr>"

text \<open>A chunk that fits is stored, in a larger buffer when it has to be; \<open>None\<close> is the loop that hangs.\<close>

definition storeChunk :: "nat \<Rightarrow> byte list \<Rightarrow> reader \<Rightarrow> reader option" where
  "storeChunk maxBytes value r = (let nextTotal = reader_total r + length value in
     case (if length (reader_result r) < nextTotal then growBuffer (reader_result r) nextTotal maxBytes
           else Some (reader_result r)) of
       None \<Rightarrow> None
     | Some buffer \<Rightarrow> Some \<lparr>reader_result = setBytes (reader_total r) value buffer, reader_total = nextTotal,
         reader_progress = reader_progress r @ [nextTotal],
         reader_allocations = reader_allocations r
           @ (if length (reader_result r) < nextTotal then [length buffer] else [])\<rparr>)"

fun readLoop :: "nat \<Rightarrow> int option \<Rightarrow> stream_read list \<Rightarrow> reader \<Rightarrow> read_outcome option" where
  "readLoop maxBytes declared [] r = Some (readEnds r False (Inr (take (reader_total r) (reader_result r))))"
| "readLoop maxBytes declared (AbortedBefore # s) r = Some (readEnds r True (Inl AbortError))"
| "readLoop maxBytes declared (AbortedAfter # s) r = Some (readEnds r True (Inl AbortError))"
| "readLoop maxBytes declared (ReadFails # s) r = Some (readEnds r True (Inl StreamError))"
| "readLoop maxBytes declared (NoValue # s) r = readLoop maxBytes declared s r"
| "readLoop maxBytes declared (Chunk value # s) r =
     (if value = [] then readLoop maxBytes declared s r
      else if maxBytes - reader_total r < length value
      then Some (readEnds r True (Inl (NetworkResponseLimitError (int maxBytes)
             (Some (int (reader_total r + length value))) declared)))
      else case storeChunk maxBytes value r of None \<Rightarrow> None | Some r' \<Rightarrow> readLoop maxBytes declared s r')"

definition refused :: "bool \<Rightarrow> response_error + byte list \<Rightarrow> read_outcome" where
  "refused cancelled b = \<lparr>outcome_bytes = b, outcome_progress = [], outcome_allocations = [], outcome_cancelled = cancelled\<rparr>"

definition readBoundedResponseBytes :: "js_number \<Rightarrow> bool \<Rightarrow> response \<Rightarrow> read_outcome option" where
  "readBoundedResponseBytes limit aborted response = (case checkedLimit limit of
       Inl e \<Rightarrow> Some (refused False (Inl e))
     | Inr maxBytes \<Rightarrow>
       if aborted then Some (refused False (Inl AbortError))
       else let declared = declaredContentLength (contentLength response) in
         if (case declared of None \<Rightarrow> False | Some d \<Rightarrow> int maxBytes < d)
         then Some (refused True (Inl (NetworkResponseLimitError (int maxBytes) None declared)))
         else case response_body response of
           None \<Rightarrow> Some (refused False
             (if declared = Some 0 \<or> response_status response \<in> {204, 205, 304} then Inr [] else Inl NetworkResponseBodyError))
         | Some stream \<Rightarrow>
             let initial = min maxBytes (case declared of Some d \<Rightarrow> nat d | None \<Rightarrow> min maxBytes (16 * 1024)) in
             readLoop maxBytes declared stream \<lparr>reader_result = replicate initial 0, reader_total = 0,
               reader_progress = [], reader_allocations = [initial]\<rparr>)"

section \<open>Text\<close>

text \<open>The strict UTF-8 decoder of the platform is the parameter \<open>utf8\<close>.\<close>

definition readBoundedResponseText ::
  "(byte list \<Rightarrow> string option) \<Rightarrow> js_number \<Rightarrow> bool \<Rightarrow> response \<Rightarrow> (response_error + string) option" where
  "readBoundedResponseText utf8 limit aborted response =
     (case readBoundedResponseBytes limit aborted response of None \<Rightarrow> None
      | Some out1 \<Rightarrow> Some (case outcome_bytes out1 of Inl e \<Rightarrow> Inl e
          | Inr bytes \<Rightarrow> (case utf8 bytes of None \<Rightarrow> Inl NetworkResponseBodyError | Some s \<Rightarrow> Inr s)))"

section \<open>Facts\<close>

lemma growCapacity_ends:
  assumes "required \<le> maxBytes"
  shows "\<exists>c. growCapacity capacity required maxBytes = Some c \<and> required \<le> c \<and> c \<le> max capacity maxBytes"
proof (cases "capacity < required")
  case True
  let ?c = "min maxBytes (max required (capacity * 2))"
  have "\<not> ?c < required" using assms by simp
  then have "growCapacity ?c required maxBytes = Some ?c" by (simp add: growCapacity.simps [of ?c])
  with True assms show ?thesis by (simp add: growCapacity.simps [of capacity])
next
  case False
  then show ?thesis by (simp add: growCapacity.simps [of capacity])
qed

lemma length_setBytes: "offset + length value \<le> length buffer \<Longrightarrow> length (setBytes offset value buffer) = length buffer"
  by (simp add: setBytes_def)

lemma growBuffer_ok:
  assumes "length buffer < required" "required \<le> maxBytes"
  shows "\<exists>b. growBuffer buffer required maxBytes = Some b \<and> required \<le> length b \<and> length b \<le> maxBytes
    \<and> take (length buffer) b = buffer"
proof -
  obtain c where c: "growCapacity (max 1 (length buffer)) required maxBytes = Some c" "required \<le> c"
      "c \<le> max (max 1 (length buffer)) maxBytes"
    using growCapacity_ends [OF assms(2)] by blast
  with assms have "c \<le> maxBytes" by simp
  with c assms show ?thesis
    by (auto simp: growBuffer_def length_setBytes) (simp add: setBytes_def)
qed

text \<open>The bytes a stream delivers, and whether it delivers them without a fault.\<close>

fun received :: "stream_read list \<Rightarrow> byte list" where
  "received [] = []"
| "received (Chunk value # s) = value @ received s"
| "received (x # s) = received s"

fun faultless :: "stream_read \<Rightarrow> bool" where
  "faultless (Chunk value) = True"
| "faultless NoValue = True"
| "faultless x = False"

definition reader_inv :: "nat \<Rightarrow> reader \<Rightarrow> bool" where
  "reader_inv m r = (reader_total r \<le> length (reader_result r) \<and> length (reader_result r) \<le> m
     \<and> list_all (\<lambda>a. a \<le> m) (reader_allocations r)
     \<and> sorted_wrt (<) (reader_progress r) \<and> list_all (\<lambda>p. p \<le> reader_total r) (reader_progress r))"

lemma storeChunk_ok:
  assumes inv: "reader_inv m r" and fits: "reader_total r + length value \<le> m" and "value \<noteq> []"
  shows "\<exists>r'. storeChunk m value r = Some r' \<and> reader_inv m r'
    \<and> reader_total r' = reader_total r + length value
    \<and> take (reader_total r') (reader_result r') = take (reader_total r) (reader_result r) @ value"
proof -
  define n where "n = reader_total r + length value"
  obtain b where b: "(if length (reader_result r) < n then growBuffer (reader_result r) n m
        else Some (reader_result r)) = Some b" "n \<le> length b" "length b \<le> m"
      "take (reader_total r) b = take (reader_total r) (reader_result r)"
  proof (cases "length (reader_result r) < n")
    case True
    with growBuffer_ok [OF True] fits obtain b where g: "growBuffer (reader_result r) n m = Some b"
        "n \<le> length b" "length b \<le> m" "take (length (reader_result r)) b = reader_result r"
      by (auto simp: n_def)
    have "take (reader_total r) b = take (reader_total r) (take (length (reader_result r)) b)"
      using inv by (simp add: reader_inv_def min_absorb1)
    with True g that show ?thesis by simp
  next
    case False
    with inv that show ?thesis by (simp add: reader_inv_def)
  qed
  have "list_all (\<lambda>p. p < n) (reader_progress r)"
  proof -
    have "reader_total r < n" using assms(3) by (simp add: n_def)
    with inv show ?thesis unfolding reader_inv_def list_all_iff by (meson le_less_trans)
  qed
  with inv b assms(3) show ?thesis
    by (auto simp: storeChunk_def Let_def n_def [symmetric] reader_inv_def length_setBytes sorted_wrt_append
        list_all_iff less_imp_le)
      (auto simp: setBytes_def n_def)
qed

lemma readLoop_ok:
  "reader_inv m r \<Longrightarrow> \<exists>out1. readLoop m d s r = Some out1
     \<and> list_all (\<lambda>a. a \<le> m) (outcome_allocations out1)
     \<and> sorted_wrt (<) (outcome_progress out1) \<and> list_all (\<lambda>p. p \<le> m) (outcome_progress out1)
     \<and> (\<forall>bs. outcome_bytes out1 = Inr bs \<longleftrightarrow> list_all faultless s
          \<and> reader_total r + length (received s) \<le> m \<and> bs = take (reader_total r) (reader_result r) @ received s)
     \<and> (list_all faultless s \<and> m < reader_total r + length (received s) \<longrightarrow> outcome_cancelled out1
          \<and> (\<exists>n > int m. outcome_bytes out1 = Inl (NetworkResponseLimitError (int m) (Some n) d)))"
proof (induction m d s r rule: readLoop.induct)
  case (1 m d r)
  then show ?case by (auto simp: readEnds_def reader_inv_def list_all_iff)
next
  case (2 m d s r)
  then show ?case by (auto simp: readEnds_def reader_inv_def list_all_iff)
next
  case (3 m d s r)
  then show ?case by (auto simp: readEnds_def reader_inv_def list_all_iff)
next
  case (4 m d s r)
  then show ?case by (auto simp: readEnds_def reader_inv_def list_all_iff)
next
  case (5 m d s r)
  then show ?case by simp
next
  case (6 m d v s r)
  have total: "reader_total r \<le> m" using 6(3) by (simp add: reader_inv_def)
  consider "v = []" | "v \<noteq> []" "m - reader_total r < length v"
    | "v \<noteq> []" "reader_total r + length v \<le> m"
    using total by linarith
  then show ?case
  proof cases
    case 1
    with 6 show ?thesis by simp
  next
    case 2
    with total 6(3) show ?thesis by (auto simp: readEnds_def reader_inv_def list_all_iff)
  next
    case 3
    obtain r' where r': "storeChunk m v r = Some r'" "reader_inv m r'"
        "reader_total r' = reader_total r + length v"
        "take (reader_total r') (reader_result r') = take (reader_total r) (reader_result r) @ v"
      using storeChunk_ok [OF 6(3) 3(2,1)] by blast
    from 3 have "\<not> m - reader_total r < length v" by linarith
    with 6(2) [OF 3(1) this r'(1,2)] r' 3 show ?thesis by (simp add: add.assoc)
  qed
qed


definition smallResponse :: "string option \<Rightarrow> response" where
  "smallResponse len = \<lparr>response_status = 200, contentLength = len,
     response_body = Some [Chunk [1, 2, 3], NoValue, Chunk [4, 5]]\<rparr>"


end
