(* ===== verification/Game_Phases.thy ===== *)
theory Game_Phases
  imports Machines
begin

text \<open>
  The two state machines of the page: the connection and economy of the game
  (\<open>app/state/GameStateMachine.ts\<close>) and the launch (\<open>startup/LaunchStateMachine.ts\<close>).
\<close>

section \<open>The game\<close>

datatype GamePhase = booting | connecting | ready | requesting | presenting1 | recovering | failed

datatype GameEvent =
    START | SESSION_OPENED | SPIN_REQUESTED | SPIN_RESULT | SPIN_FAILED | PRESENTATION_COMPLETE
  | CONNECTION_LOST | FATAL_ERROR | RETRY

datatype game_error = InvalidGameTransitionError GamePhase GameEvent

definition game_resolve :: "GamePhase \<Rightarrow> GameEvent \<Rightarrow> GamePhase option" where
  "game_resolve phase e =
     (if e = FATAL_ERROR then Some failed
      else if e = CONNECTION_LOST then Some (if phase = booting \<or> phase = failed then phase else recovering)
      else case phase of
        booting \<Rightarrow> if e = START then Some connecting else None
      | connecting \<Rightarrow> if e = SESSION_OPENED then Some ready else None
      | recovering \<Rightarrow> if e = SESSION_OPENED then Some ready else None
      | ready \<Rightarrow> if e = SPIN_REQUESTED then Some requesting else None
      | requesting \<Rightarrow> if e = SPIN_RESULT then Some presenting1 else if e = SPIN_FAILED then Some ready else None
      | presenting1 \<Rightarrow> if e = PRESENTATION_COMPLETE then Some ready else None
      | failed \<Rightarrow> if e = RETRY then Some connecting else None)"

definition game_transition :: "GamePhase \<Rightarrow> GameEvent \<Rightarrow> game_error + GamePhase" where
  "game_transition phase e = (case game_resolve phase e of
     None \<Rightarrow> Inl (InvalidGameTransitionError phase e) | Some next1 \<Rightarrow> Inr next1)"

section \<open>The launch\<close>

datatype LaunchPhase = boot | preloading | intro1 | waiting_session | launched | launch_failed

datatype LaunchEvent = START_PRELOAD | PRELOAD_COMPLETE | SESSION_READY | INTRO_COMPLETE | FAIL

datatype launch_error = InvalidLaunchTransitionError LaunchPhase LaunchEvent

record launch =
  launch_phase :: LaunchPhase
  sessionReady :: bool

definition bootLaunch :: launch where
  "bootLaunch = \<lparr>launch_phase = boot, sessionReady = False\<rparr>"

definition canEnterGame :: "launch \<Rightarrow> bool" where
  "canEnterGame l = (launch_phase l = launched)"

definition launch_transition :: "launch \<Rightarrow> LaunchEvent \<Rightarrow> launch_error + launch" where
  "launch_transition l e =
     (if e = FAIL then Inr (l\<lparr>launch_phase := launch_failed\<rparr>)
      else if e = SESSION_READY then
        let l = l\<lparr>sessionReady := True\<rparr> in
        Inr (if launch_phase l = waiting_session then l\<lparr>launch_phase := launched\<rparr> else l)
      else if launch_phase l = boot \<and> e = START_PRELOAD then Inr (l\<lparr>launch_phase := preloading\<rparr>)
      else if launch_phase l = preloading \<and> e = PRELOAD_COMPLETE then Inr (l\<lparr>launch_phase := intro1\<rparr>)
      else if launch_phase l = intro1 \<and> e = INTRO_COMPLETE then
        if \<not> sessionReady l then Inl (InvalidLaunchTransitionError (launch_phase l) e)
        else Inr (l\<lparr>launch_phase := launched\<rparr>)
      else Inl (InvalidLaunchTransitionError (launch_phase l) e))"

text \<open>The game is entered with a session only, and the phase \<open>waiting-session\<close> is never reached.\<close>

definition launch_inv :: "launch \<Rightarrow> bool" where
  "launch_inv l = ((launch_phase l = launched \<longrightarrow> sessionReady l) \<and> launch_phase l \<noteq> waiting_session)"

interpretation launching: machine launch_transition bootLaunch launch_inv
proof unfold_locales
  show "launch_inv bootLaunch" by (simp add: launch_inv_def bootLaunch_def)
next
  fix l e l'
  assume "launch_inv l" "launch_transition l e = Inr l'"
  then show "launch_inv l'"
    by (auto simp: launch_transition_def launch_inv_def Let_def split: if_splits)
qed

text \<open>A rejected event leaves the game where it was; fatal errors and losses are always taken.\<close>

lemma game_always: "game_transition p FATAL_ERROR = Inr failed"
    "game_transition p CONNECTION_LOST = Inr (if p = booting \<or> p = failed then p else recovering)"
  by (simp_all add: game_transition_def game_resolve_def)

end
