(* ===== verification/Player_Errors.thy ===== *)
theory Player_Errors
  imports Protocol_Types
begin

text \<open>
  What the player is told about a failure (\<open>app/playerFacingError.ts\<close>): a code of the product
  and a fixed text, never the message of the cause. A cause is a server error, another object
  (of which only a textual \<open>requestId\<close> is read) or nothing.
\<close>

datatype PlayerFacingErrorCode =
    LAUNCH_UNAVAILABLE | SESSION_TIMEOUT | OPERATOR_SESSION_REQUIRED | CONNECTION_RETRYING
  | REQUEST_UNAVAILABLE | RESULT_UNAVAILABLE | PRESENTATION_UNAVAILABLE

record PlayerFacingError =
  player_code :: PlayerFacingErrorCode
  player_message :: string
  correlationId :: "string option"

datatype OperatorSessionRequestReason =
  initial_session_timeout | session_timeout | initial_session_failed | committed_result_recovery_required

datatype PlayerFacingErrorContext =
    LaunchContext | InitialSessionContext | ConnectionContext | RoundRequestContext | RoundResultContext
  | PresentationContext | AcknowledgementContext | FeatureContext | UnsolicitedContext

datatype failure_cause = NoCause | ServerCause ServerError | OtherCause "string option"

definition CORRELATION_ID_PATTERN :: "string \<Rightarrow> bool" where
  "CORRELATION_ID_PATTERN s = (IDENTIFIER_PATTERN s \<and> length s \<le> 128)"

fun PLAYER_FACING_MESSAGES :: "PlayerFacingErrorCode \<Rightarrow> string" where
  "PLAYER_FACING_MESSAGES LAUNCH_UNAVAILABLE = ''The game could not start. Please try again.''"
| "PLAYER_FACING_MESSAGES SESSION_TIMEOUT = ''The game session did not start in time. Return to your operator and start a new session.''"
| "PLAYER_FACING_MESSAGES OPERATOR_SESSION_REQUIRED = ''This game session is unavailable. Return to your operator and start a new session.''"
| "PLAYER_FACING_MESSAGES CONNECTION_RETRYING = ''Connection interrupted. Retrying.''"
| "PLAYER_FACING_MESSAGES REQUEST_UNAVAILABLE = ''This request could not be completed. Please try again.''"
| "PLAYER_FACING_MESSAGES RESULT_UNAVAILABLE = ''The game result could not be displayed. Please contact support if this continues.''"
| "PLAYER_FACING_MESSAGES PRESENTATION_UNAVAILABLE = ''The game could not finish this presentation. Please contact support if this continues.''"

definition safeCorrelationId :: "failure_cause \<Rightarrow> string option" where
  "safeCorrelationId cause = (case (case cause of NoCause \<Rightarrow> None | ServerCause e \<Rightarrow> error_requestId e | OtherCause r \<Rightarrow> r) of
     None \<Rightarrow> None | Some r \<Rightarrow> if CORRELATION_ID_PATTERN r then Some r else None)"

definition playerFacingError :: "PlayerFacingErrorCode \<Rightarrow> failure_cause \<Rightarrow> PlayerFacingError" where
  "playerFacingError code1 cause =
     \<lparr>player_code = code1, player_message = PLAYER_FACING_MESSAGES code1, correlationId = safeCorrelationId cause\<rparr>"

definition retryableCause :: "failure_cause \<Rightarrow> bool" where
  "retryableCause cause = (case cause of ServerCause e \<Rightarrow> retryable e | _ \<Rightarrow> False)"

definition playerFacingErrorFor :: "failure_cause \<Rightarrow> PlayerFacingErrorContext \<Rightarrow> PlayerFacingError" where
  "playerFacingErrorFor cause context1 = playerFacingError (case context1 of
       InitialSessionContext \<Rightarrow> OPERATOR_SESSION_REQUIRED
     | ConnectionContext \<Rightarrow> CONNECTION_RETRYING
     | RoundRequestContext \<Rightarrow> if retryableCause cause then CONNECTION_RETRYING else REQUEST_UNAVAILABLE
     | RoundResultContext \<Rightarrow> RESULT_UNAVAILABLE
     | UnsolicitedContext \<Rightarrow> RESULT_UNAVAILABLE
     | PresentationContext \<Rightarrow> PRESENTATION_UNAVAILABLE
     | AcknowledgementContext \<Rightarrow> PRESENTATION_UNAVAILABLE
     | FeatureContext \<Rightarrow> PRESENTATION_UNAVAILABLE
     | LaunchContext \<Rightarrow> LAUNCH_UNAVAILABLE) cause"

text \<open>No more than a well-formed identifier of the cause gets through.\<close>

lemma correlation_checked: "correlationId (playerFacingErrorFor cause context1) = Some r \<Longrightarrow> CORRELATION_ID_PATTERN r"
  by (auto simp: playerFacingErrorFor_def playerFacingError_def safeCorrelationId_def
      split: option.splits if_splits failure_cause.splits)

end
