(* ===== verification/Round_Controller.thy ===== *)
theory Round_Controller
  imports Game_Phases Reel_Round Result_Guard Origin_Rules Player_Errors
begin

text \<open>
  The authoritative part of the controller (\<open>app/AppController.ts\<close>): what it keeps of a round
  between the spin button, the gateway's callbacks and the asynchronous presentation, and when it
  shows a balance or acknowledges a result.

  Every callback, timer and continuation of the code is one event here. The gateway is the other
  side of an interface: what it answers during a handler is part of the event. The view (renderer,
  overlay, audio) is told what to show and reads nothing back; the calls to it are assumed to
  return and are left out, except the gates that may take an input (\<open>taken\<close>). Closing the gateway
  reports \<open>offline\<close> back at once. An exception of a handler is recorded and leaves the state as it
  was when it was thrown. The asynchronous presentation of a result is split at the points where
  it waits; a wait that looks at a cancellation in between is \<open>checked\<close>, the others only see what
  their last step left.
\<close>

section \<open>The state\<close>

datatype GatewayStatus = status_idle | status_connecting | status_online | status_recovering | status_offline

record GameSnapshot =
  snap_currency :: string
  snap_exponent :: int
  snap_balance :: string
  selectedBetMinor :: string
  snap_betOptions :: "string list"
  snap_feature :: FeatureState
  lastWinMinor :: string
  currentGrid :: grid

definition initialSnapshot :: GameSnapshot where
  "initialSnapshot = \<lparr>snap_currency = ''XXX'', snap_exponent = 2, snap_balance = ''0'', selectedBetMinor = ''100'',
     snap_betOptions = [''100''], snap_feature = EMPTY_FEATURE_STATE, lastWinMinor = ''0'', currentGrid = []\<rparr>"

record buffered_round =
  buffered_result :: SpinResult
  buffered_origin :: FeatureState
  needsVisualSpinStart :: bool

datatype round_stage = BeforeReels | StoppingReels | ResultShow | WinLines | FeatureEvents | FeatureExit

record round_presentation =
  shown_result :: SpinResult
  shown_origin :: FeatureState
  shown_stage :: round_stage

datatype launch_task = NotStarted | AwaitsPreload | AwaitsFrame | AwaitsSplash | AwaitsIntro | LaunchSettled

datatype controller_effect =
    SpinRequested string string
  | ResultAccepted SpinResult FeatureState
  | BalanceCommitted string
  | ResultAcknowledged string int
  | ErrorShown PlayerFacingError
  | OperatorRequested OperatorSessionRequestReason PlayerFacingErrorCode
  | GatewayClosed
  | HandlerThrew

record controller =
  game :: GamePhase
  launchState :: launch
  reelRound :: ReelRoundSnapshot
  snapshot :: GameSnapshot
  visibleBalanceMinor :: string
  sessionMoneyBinding :: "(string \<times> string \<times> int) option"
  balanceVisibilityBlocked :: bool
  lastRoundId :: "string option"
  connectionStatus :: GatewayStatus
  hasOpenedSession :: bool
  destroyed :: bool
  roundOriginFeatureState :: "FeatureState option"
  bufferedRecoveredSpinResult :: "buffered_round option"
  freeSpinTimer :: "(FeatureMode \<times> int) option"
  initialRgsSessionTimer :: bool
  initialSessionFailure :: "PlayerFacingError option"
  operatorSessionRequestSent :: bool
  sessionTimedOut :: bool
  lastErrorIsInitial :: bool
  launchTask :: launch_task
  presentations :: "round_presentation list"
  effects :: "controller_effect list"

definition newController :: controller where
  "newController = \<lparr>game = booting, launchState = bootLaunch, reelRound = idleReels, snapshot = initialSnapshot,
     visibleBalanceMinor = ''0'', sessionMoneyBinding = None, balanceVisibilityBlocked = False,
     lastRoundId = None, connectionStatus = status_idle, hasOpenedSession = False, destroyed = False,
     roundOriginFeatureState = None, bufferedRecoveredSpinResult = None, freeSpinTimer = None,
     initialRgsSessionTimer = False, initialSessionFailure = None, operatorSessionRequestSent = False,
     sessionTimedOut = False, lastErrorIsInitial = False, launchTask = NotStarted, presentations = [], effects = []\<rparr>"

text \<open>
  What the gateway answers during a handler: whether a spin is pending before and after the call
  the handler makes, whether the call is accepted, what an acknowledgement returns (nothing when
  it throws), and whether an initial session can only come from the operator.
\<close>

record gateway_view =
  hasPendingSpin :: bool
  stillPending :: bool
  acceptsSpin :: bool
  acknowledges :: "bool option"
  operatorSessions :: bool

section \<open>Shared steps\<close>

definition effect :: "controller_effect \<Rightarrow> controller \<Rightarrow> controller" where
  "effect e c = c\<lparr>effects := effects c @ [e]\<rparr>"

text \<open>A transition of one of the machines, and what comes after it when it is accepted.\<close>

definition onGame :: "GameEvent \<Rightarrow> (controller \<Rightarrow> controller) \<Rightarrow> (controller \<Rightarrow> controller) \<Rightarrow> controller \<Rightarrow> controller" where
  "onGame e refused next1 c = (case game_transition (game c) e of Inl err \<Rightarrow> refused c | Inr p \<Rightarrow> next1 (c\<lparr>game := p\<rparr>))"

definition onReels :: "ReelRoundEvent \<Rightarrow> (controller \<Rightarrow> controller) \<Rightarrow> (controller \<Rightarrow> controller) \<Rightarrow> controller \<Rightarrow> controller" where
  "onReels e refused next1 c = (case reel_transition (reelRound c) e of Inl err \<Rightarrow> refused c | Inr s \<Rightarrow> next1 (c\<lparr>reelRound := s\<rparr>))"

definition onLaunch :: "LaunchEvent \<Rightarrow> (controller \<Rightarrow> controller) \<Rightarrow> (controller \<Rightarrow> controller) \<Rightarrow> controller \<Rightarrow> controller" where
  "onLaunch e refused next1 c = (case launch_transition (launchState c) e of Inl err \<Rightarrow> refused c | Inr l \<Rightarrow> next1 (c\<lparr>launchState := l\<rparr>))"

definition threw :: "controller \<Rightarrow> controller" where
  "threw c = effect HandlerThrew c"

definition resetReels :: "controller \<Rightarrow> controller" where
  "resetReels c = c\<lparr>reelRound := attempt reel_transition RESET (reelRound c)\<rparr>"

text \<open>The same error object is shown once; only the failure of the initial session is shown again.\<close>

definition presentPlayerFacingError :: "bool \<Rightarrow> PlayerFacingError \<Rightarrow> controller \<Rightarrow> controller" where
  "presentPlayerFacingError initial1 e c =
     (if initial1 \<and> lastErrorIsInitial c then c else effect (ErrorShown e) (c\<lparr>lastErrorIsInitial := initial1\<rparr>))"

definition reportPlayerError :: "failure_cause \<Rightarrow> PlayerFacingErrorContext \<Rightarrow> controller \<Rightarrow> controller" where
  "reportPlayerError cause context1 c = presentPlayerFacingError False (playerFacingErrorFor cause context1) c"

definition cancelScheduledFreeSpin :: "controller \<Rightarrow> controller" where
  "cancelScheduledFreeSpin c = c\<lparr>freeSpinTimer := None\<rparr>"

definition autoplayGate :: "bool \<Rightarrow> controller \<Rightarrow> FreeSpinAutoplayGate" where
  "autoplayGate pending c = \<lparr>gate_mode = mode (snap_feature (snapshot c)),
     gate_remaining = freeSpinsRemaining (snap_feature (snapshot c)),
     gate_online = (connectionStatus c = status_online), gate_canSpin = (game c = ready),
     gate_pendingSpin = pending, gate_destroyed = destroyed c\<rparr>"

definition scheduleFreeSpin :: "bool \<Rightarrow> controller \<Rightarrow> controller" where
  "scheduleFreeSpin pending c =
     (if freeSpinTimer c \<noteq> None \<or> destroyed c then c
      else if \<not> shouldScheduleFreeSpin (autoplayGate pending c) then c
      else c\<lparr>freeSpinTimer := Some (mode (snap_feature (snapshot c)), freeSpinsRemaining (snap_feature (snapshot c)))\<rparr>)"

text \<open>\<open>refreshUi\<close>, of which only the free-spin timer is state.\<close>

definition spinEnabled :: "bool \<Rightarrow> controller \<Rightarrow> bool" where
  "spinEnabled pending c = (\<not> sessionTimedOut c \<and> canEnableSpin \<lparr>launchReady = canEnterGame (launchState c),
     gameReady = (game c = ready), online = (connectionStatus c = status_online), pendingSpin = pending\<rparr>)"

definition refreshUi :: "bool \<Rightarrow> controller \<Rightarrow> controller" where
  "refreshUi pending c =
     (if 0 < freeSpinsRemaining (snap_feature (snapshot c)) \<and> spinEnabled pending c
      then scheduleFreeSpin pending c else cancelScheduledFreeSpin c)"

text \<open>Closing the gateway calls \<open>handleStatus("offline")\<close> at once.\<close>

definition closesGateway :: "controller \<Rightarrow> controller" where
  "closesGateway c = (if sessionTimedOut c then effect GatewayClosed c
     else effect GatewayClosed (c\<lparr>connectionStatus := status_offline\<rparr>))"

definition completeLaunchFailure :: "bool \<Rightarrow> bool \<Rightarrow> PlayerFacingError \<Rightarrow> controller \<Rightarrow> controller" where
  "completeLaunchFailure pending initial1 e c =
     onLaunch FAIL threw (\<lambda>c. refreshUi pending (presentPlayerFacingError initial1 e c)) c"

definition requiresOperatorSessionRecovery :: "gateway_view \<Rightarrow> controller \<Rightarrow> bool" where
  "requiresOperatorSessionRecovery g c = (\<not> destroyed c \<and> \<not> hasOpenedSession c \<and> operatorSessions g)"

definition requestOperatorSession :: "PlayerFacingError \<Rightarrow> OperatorSessionRequestReason \<Rightarrow> controller \<Rightarrow> controller" where
  "requestOperatorSession e reason c =
     (if player_code e \<noteq> SESSION_TIMEOUT \<and> player_code e \<noteq> OPERATOR_SESSION_REQUIRED then c
      else if operatorSessionRequestSent c then c
      else effect (OperatorRequested reason (player_code e)) (c\<lparr>operatorSessionRequestSent := True\<rparr>))"

definition failInitialRgsSession :: "gateway_view \<Rightarrow> PlayerFacingError \<Rightarrow> OperatorSessionRequestReason \<Rightarrow> controller \<Rightarrow> controller" where
  "failInitialRgsSession g e reason c =
     (if \<not> requiresOperatorSessionRecovery g c \<or> initialSessionFailure c \<noteq> None then c
      else requestOperatorSession e reason (completeLaunchFailure (stillPending g) True e
             (closesGateway (c\<lparr>initialSessionFailure := Some e, initialRgsSessionTimer := False\<rparr>))))"

section \<open>A spin\<close>

definition requestSpin :: "gateway_view \<Rightarrow> bool \<Rightarrow> string \<Rightarrow> controller \<Rightarrow> controller" where
  "requestSpin g taken rid c =
     (if sessionTimedOut c then c
      else if taken then c
      else if game c \<noteq> ready \<or> hasPendingSpin g \<or> reel_state (reelRound c) \<noteq> Idle then c
      else if \<not> acceptsSpin g then c
      else let origin = snap_feature (snapshot c);
               c = effect (SpinRequested rid (selectedBetMinor (snapshot c))) c in
        onReels (SPIN_ACCEPTED rid) threw (\<lambda>c.
        onGame SPIN_REQUESTED threw (\<lambda>c.
        onReels REELS_STARTED threw (refreshUi (stillPending g)) c)
          (cancelScheduledFreeSpin (c\<lparr>roundOriginFeatureState := Some origin\<rparr>))) c)"

definition freeSpinTimerFires :: "gateway_view \<Rightarrow> bool \<Rightarrow> string \<Rightarrow> controller \<Rightarrow> controller" where
  "freeSpinTimerFires g taken rid c = (case freeSpinTimer c of None \<Rightarrow> c
     | Some (expectedMode, expectedRemaining) \<Rightarrow> let c = c\<lparr>freeSpinTimer := None\<rparr> in
         if mode (snap_feature (snapshot c)) \<noteq> expectedMode
            \<or> freeSpinsRemaining (snap_feature (snapshot c)) \<noteq> expectedRemaining
            \<or> \<not> shouldScheduleFreeSpin (autoplayGate (hasPendingSpin g) c) then c
         else requestSpin g taken rid c)"

definition selectBet :: "string \<Rightarrow> controller \<Rightarrow> controller" where
  "selectBet bet c =
     (if game c \<noteq> ready \<or> 0 < freeSpinsRemaining (snap_feature (snapshot c)) \<or> bet \<notin> set (snap_betOptions (snapshot c)) then c
      else c\<lparr>snapshot := (snapshot c)\<lparr>selectedBetMinor := bet\<rparr>\<rparr>)"

section \<open>Status and session\<close>

definition handleStatus :: "gateway_view \<Rightarrow> GatewayStatus \<Rightarrow> controller \<Rightarrow> controller" where
  "handleStatus g status c =
     (if sessionTimedOut c then c
      else let c = c\<lparr>connectionStatus := status\<rparr> in
        if status = status_recovering \<and> game c \<notin> {booting, recovering, failed, presenting1}
        then onGame CONNECTION_LOST threw (refreshUi (hasPendingSpin g)) c else c)"

definition bindingChanged :: "SessionOpened \<Rightarrow> controller \<Rightarrow> bool" where
  "bindingChanged s c = (case sessionMoneyBinding c of None \<Rightarrow> False
     | Some (i, cur, e) \<Rightarrow> i = opened_sessionId s \<and> (cur \<noteq> currency s \<or> e \<noteq> currencyExponent s))"

definition acceptSessionMoneyBinding :: "gateway_view \<Rightarrow> SessionOpened \<Rightarrow> (controller \<Rightarrow> controller) \<Rightarrow> controller \<Rightarrow> controller" where
  "acceptSessionMoneyBinding g s next1 c =
     (if bindingChanged s c
      then onGame FATAL_ERROR threw (\<lambda>c. completeLaunchFailure (stillPending g) False
             (playerFacingErrorFor (OtherCause None) LaunchContext) (closesGateway c)) c
      else next1 (c\<lparr>sessionMoneyBinding := Some (opened_sessionId s, currency s, currencyExponent s)\<rparr>))"

text \<open>The projection of a session: a pending or presented round keeps what the player sees.\<close>

definition applySession :: "bool \<Rightarrow> SessionOpened \<Rightarrow> controller \<Rightarrow> controller" where
  "applySession pending s c =
     (let pendingRound = (pending \<or> bufferedRecoveredSpinResult c \<noteq> None);
          preserveFeature = (pendingRound \<or> game c = presenting1);
          preserveBalance = (pendingRound \<or> balanceVisibilityBlocked c);
          old = snapshot c in
      c\<lparr>initialRgsSessionTimer := False,
        roundOriginFeatureState := (if pendingRound \<and> roundOriginFeatureState c = None then Some (snap_feature old)
                                    else roundOriginFeatureState c),
        snapshot := old\<lparr>snap_currency := currency s, snap_exponent := currencyExponent s,
          snap_balance := opened_balanceMinor s, snap_betOptions := betOptionsMinor s,
          selectedBetMinor := selectSessionBet s (selectedBetMinor old) (hasOpenedSession c),
          snap_feature := (if preserveFeature then snap_feature old else opened_featureState s)\<rparr>,
        hasOpenedSession := True,
        visibleBalanceMinor := (if preserveBalance then visibleBalanceMinor c else opened_balanceMinor s)\<rparr>)"

definition reopenGame :: "bool \<Rightarrow> (controller \<Rightarrow> controller) \<Rightarrow> controller \<Rightarrow> controller" where
  "reopenGame pending next1 c =
     (if game c = connecting \<or> game c = recovering
      then onGame SESSION_OPENED threw (\<lambda>c. if pending then onGame SPIN_REQUESTED threw next1 c else next1 c) c
      else next1 c)"

definition handleSession :: "gateway_view \<Rightarrow> SessionOpened \<Rightarrow> controller \<Rightarrow> controller" where
  "handleSession g s c =
     (if sessionTimedOut c then c
      else if initialSessionFailure c \<noteq> None \<and> requiresOperatorSessionRecovery g c then c
      else acceptSessionMoneyBinding g s (\<lambda>c.
        reopenGame (hasPendingSpin g) (onLaunch SESSION_READY threw (refreshUi (hasPendingSpin g)))
          (applySession (hasPendingSpin g) s c)) c)"

section \<open>A result\<close>

definition validateAuthoritativeSpinResult :: "SpinResult \<Rightarrow> FeatureState \<Rightarrow> AuthoritativeReelRound option" where
  "validateAuthoritativeSpinResult result origin = (case authoritativeReelRoundFromV1 result of None \<Rightarrow> None
     | Some rid \<Rightarrow> (case validateSpinResultAgainstOrigin origin result of Inl e \<Rightarrow> None | Inr u \<Rightarrow> Some rid))"

definition rejectSpinResult :: "gateway_view \<Rightarrow> controller \<Rightarrow> controller" where
  "rejectSpinResult g c =
     onGame SPIN_FAILED threw (refreshUi (hasPendingSpin g))
       (reportPlayerError (OtherCause None) RoundResultContext (resetReels (c\<lparr>roundOriginFeatureState := None\<rparr>)))"

definition acceptSpinResult :: "gateway_view \<Rightarrow> SpinResult \<Rightarrow> FeatureState option \<Rightarrow> controller \<Rightarrow> controller" where
  "acceptSpinResult g result recovered c =
     (if Some (roundId result) = lastRoundId c then c
      else if game c \<noteq> requesting then reportPlayerError NoCause UnsolicitedContext c
      else let previous = (case recovered of Some o1 \<Rightarrow> o1 | None \<Rightarrow>
               (case roundOriginFeatureState c of Some o1 \<Rightarrow> o1 | None \<Rightarrow> snap_feature (snapshot c))) in
        case validateAuthoritativeSpinResult result previous of
          None \<Rightarrow> rejectSpinResult g c
        | Some rid \<Rightarrow>
            onReels (RESULT_RECEIVED (round_roundId rid) (JsInt (round_rows rid))) threw (\<lambda>c.
            onGame SPIN_RESULT threw (\<lambda>c.
              (refreshUi (hasPendingSpin g) (effect (ResultAccepted result previous)
                (c\<lparr>balanceVisibilityBlocked := True,
                   snapshot := (snapshot c)\<lparr>snap_balance := balanceMinor result,
                     selectedBetMinor := featureLockedBet (featureState result) (selectedBetMinor (snapshot c)),
                     lastWinMinor := totalWinMinor result, snap_feature := featureState result,
                     currentGrid := result_grid result\<rparr>,
                   presentations := presentations c @ [\<lparr>shown_result = result, shown_origin = previous,
                     shown_stage = BeforeReels\<rparr>]\<rparr>))))
              (c\<lparr>roundOriginFeatureState := None, lastRoundId := Some (roundId result)\<rparr>)) c)"

definition beginRecoveredSpinPresentation :: "FeatureState \<Rightarrow> controller \<Rightarrow> controller" where
  "beginRecoveredSpinPresentation origin c =
     cancelScheduledFreeSpin (c\<lparr>roundOriginFeatureState := Some origin\<rparr>)"

definition releaseBufferedRecoveredSpinResult :: "gateway_view \<Rightarrow> controller \<Rightarrow> controller" where
  "releaseBufferedRecoveredSpinResult g c =
     (if destroyed c \<or> \<not> canEnterGame (launchState c) then c
      else case bufferedRecoveredSpinResult c of None \<Rightarrow> c
      | Some b \<Rightarrow> let c = c\<lparr>bufferedRecoveredSpinResult := None\<rparr>;
                     accept1 = acceptSpinResult g (buffered_result b) (Some (buffered_origin b)) in
          if needsVisualSpinStart b
          then onReels (SPIN_ACCEPTED (roundId (buffered_result b))) (rejectSpinResult g) (\<lambda>c.
                 onReels REELS_STARTED (rejectSpinResult g) accept1
                   (beginRecoveredSpinPresentation (buffered_origin b) c)) c
          else accept1 c)"

definition bufferRecoveredSpinResult :: "gateway_view \<Rightarrow> SpinResult \<Rightarrow> FeatureState \<Rightarrow> controller \<Rightarrow> controller" where
  "bufferRecoveredSpinResult g result origin c =
     (if Some (roundId result) = lastRoundId c then c
      else case bufferedRecoveredSpinResult c of
        Some b \<Rightarrow> if roundId (buffered_result b) = roundId result then c
                  else reportPlayerError NoCause UnsolicitedContext c
      | None \<Rightarrow>
          if game c \<noteq> requesting then reportPlayerError NoCause UnsolicitedContext c
          else if validateAuthoritativeSpinResult result origin = None then rejectSpinResult g c
          else let idle = (reel_state (reelRound c) = Idle) in
            if \<not> idle \<and> (reel_state (reelRound c) \<noteq> Spinning \<or> reel_roundId (reelRound c) \<noteq> Some (roundId result))
            then reportPlayerError NoCause UnsolicitedContext c
            else releaseBufferedRecoveredSpinResult g (c\<lparr>bufferedRecoveredSpinResult :=
                   Some \<lparr>buffered_result = result, buffered_origin = origin, needsVisualSpinStart = idle\<rparr>\<rparr>))"

definition handleSpinResult :: "gateway_view \<Rightarrow> SpinResult \<Rightarrow> FeatureState option \<Rightarrow> controller \<Rightarrow> controller" where
  "handleSpinResult g result origin c =
     (if sessionTimedOut c then c
      else case origin of Some o1 \<Rightarrow> bufferRecoveredSpinResult g result o1 c
                        | None \<Rightarrow> acceptSpinResult g result None c)"

section \<open>The presentation of a result\<close>

definition inactive :: "controller \<Rightarrow> bool" where
  "inactive c = (destroyed c \<or> sessionTimedOut c)"

definition presentedWins :: "SpinResult \<Rightarrow> Win list" where
  "presentedWins r = filter (\<lambda>w. 0 < BigInt (win_amountMinor w)) (wins r)"

definition setStage :: "round_stage \<Rightarrow> controller \<Rightarrow> controller" where
  "setStage st c = c\<lparr>presentations := (case presentations c of [] \<Rightarrow> [] | p # ps \<Rightarrow> p\<lparr>shown_stage := st\<rparr> # ps)\<rparr>"

definition taskEnds :: "controller \<Rightarrow> controller" where
  "taskEnds c = c\<lparr>presentations := tl (presentations c)\<rparr>"

definition applyResultAtBalanceBarrier :: "controller \<Rightarrow> controller" where
  "applyResultAtBalanceBarrier c = effect (BalanceCommitted (snap_balance (snapshot c)))
     (c\<lparr>balanceVisibilityBlocked := False, visibleBalanceMinor := snap_balance (snapshot c)\<rparr>)"

definition acknowledgePresentedSpinResult :: "gateway_view \<Rightarrow> SpinResult \<Rightarrow> controller \<Rightarrow> controller" where
  "acknowledgePresentedSpinResult g r c =
     (let c = effect (ResultAcknowledged (roundId r) (sequence r)) c in case acknowledges g of
        Some True \<Rightarrow> c
      | Some False \<Rightarrow> reportPlayerError NoCause AcknowledgementContext c
      | None \<Rightarrow> reportPlayerError (OtherCause None) AcknowledgementContext c)"

text \<open>The handler of a failed presentation; a cancelled one ends without a trace.\<close>

definition presentationFailed :: "gateway_view \<Rightarrow> failure_cause \<Rightarrow> SpinResult \<Rightarrow> controller \<Rightarrow> controller" where
  "presentationFailed g cause r c =
     (if inactive c then taskEnds c
      else let c = reportPlayerError cause PresentationContext (resetReels (applyResultAtBalanceBarrier (taskEnds c)));
               finish = (\<lambda>c. refreshUi (stillPending g) (acknowledgePresentedSpinResult g r c)) in
           if game c = presenting1 then onGame PRESENTATION_COMPLETE threw finish c else finish c)"

definition presentationComplete :: "gateway_view \<Rightarrow> SpinResult \<Rightarrow> controller \<Rightarrow> controller" where
  "presentationComplete g r c =
     onGame PRESENTATION_COMPLETE (presentationFailed g (OtherCause None) r)
       (\<lambda>c. refreshUi (stillPending g) (acknowledgePresentedSpinResult g r (taskEnds c))) c"

definition roundComplete :: "gateway_view \<Rightarrow> SpinResult \<Rightarrow> controller \<Rightarrow> controller" where
  "roundComplete g r c = onReels ROUND_COMPLETE (presentationFailed g (OtherCause None) r) (setStage FeatureEvents) c"

definition presentationSteps :: "gateway_view \<Rightarrow> bool \<Rightarrow> round_presentation \<Rightarrow> controller \<Rightarrow> controller" where
  "presentationSteps g checked p c = (let r = shown_result p; cancelled1 = inactive c in case shown_stage p of
       BeforeReels \<Rightarrow> if cancelled1 then taskEnds c else setStage StoppingReels c
     | StoppingReels \<Rightarrow> if cancelled1 then taskEnds c else setStage ResultShow c
     | ResultShow \<Rightarrow> if cancelled1 then taskEnds c
         else onReels WIN_PRESENTATION_STARTED (presentationFailed g (OtherCause None) r)
                (if presentedWins r = [] then roundComplete g r else setStage WinLines) c
     | WinLines \<Rightarrow> if cancelled1 \<and> checked then taskEnds c else roundComplete g r c
     | FeatureEvents \<Rightarrow> if cancelled1 \<and> checked then taskEnds c
         else let c = applyResultAtBalanceBarrier c in
           if didFeatureModeEnd (shown_origin p) (featureState r)
           then (if cancelled1 then taskEnds c else setStage FeatureExit c)
           else presentationComplete g r c
     | FeatureExit \<Rightarrow> if cancelled1 then taskEnds c else presentationComplete g r c)"

definition presentationStep :: "gateway_view \<Rightarrow> bool \<Rightarrow> controller \<Rightarrow> controller" where
  "presentationStep g checked c = (case presentations c of [] \<Rightarrow> c | p # ps \<Rightarrow> presentationSteps g checked p c)"

definition presentationThrows :: "gateway_view \<Rightarrow> failure_cause \<Rightarrow> controller \<Rightarrow> controller" where
  "presentationThrows g cause c = (case presentations c of [] \<Rightarrow> c
     | p # ps \<Rightarrow> presentationFailed g cause (shown_result p) c)"

text \<open>
  What the stop sequencer reports while it stops the reels: the brake of a reel, or that all have
  stopped. A refusal of the reel machine fails the presentation; a cancelled one reports nothing.
\<close>

definition reelHook :: "gateway_view \<Rightarrow> nat option \<Rightarrow> controller \<Rightarrow> controller" where
  "reelHook g hook c = (case presentations c of [] \<Rightarrow> c
     | p # ps \<Rightarrow> if shown_stage p \<noteq> StoppingReels \<or> inactive c then c
         else onReels (case hook of Some k \<Rightarrow> REEL_STOP_STARTED (int k) | None \<Rightarrow> ALL_REELS_STOPPED)
                (presentationFailed g (OtherCause None) (shown_result p)) (\<lambda>c. c) c)"

section \<open>Errors and ends\<close>

definition handleError :: "gateway_view \<Rightarrow> failure_cause \<Rightarrow> controller \<Rightarrow> controller" where
  "handleError g cause c =
     (let final1 = (case cause of ServerCause e \<Rightarrow> \<not> retryable e | _ \<Rightarrow> False) in
      if sessionTimedOut c then c
      else if requiresOperatorSessionRecovery g c
      then failInitialRgsSession g (playerFacingErrorFor cause InitialSessionContext) initial_session_failed c
      else if final1 \<and> game c = requesting
      then onGame SPIN_FAILED threw (refreshUi (hasPendingSpin g))
             (resetReels ((reportPlayerError cause RoundRequestContext c)\<lparr>roundOriginFeatureState := None\<rparr>))
      else if final1 \<and> (game c = connecting \<or> game c = recovering)
      then onGame FATAL_ERROR threw (completeLaunchFailure (hasPendingSpin g) False (playerFacingErrorFor cause LaunchContext)) c
      else reportPlayerError cause (if game c = requesting then RoundRequestContext else ConnectionContext) c)"

definition handleOperatorSessionRequired :: "gateway_view \<Rightarrow> failure_cause \<Rightarrow> controller \<Rightarrow> controller" where
  "handleOperatorSessionRequired g cause c =
     (if destroyed c then c
      else let e = playerFacingError OPERATOR_SESSION_REQUIRED cause;
               finish = (\<lambda>c. refreshUi (hasPendingSpin g)
                  (requestOperatorSession e committed_result_recovery_required (presentPlayerFacingError False e c))) in
        if game c = requesting
        then onGame SPIN_FAILED threw finish (resetReels (c\<lparr>roundOriginFeatureState := None\<rparr>))
        else finish c)"

definition handleSessionTimeout :: "controller \<Rightarrow> controller" where
  "handleSessionTimeout c =
     (if destroyed c \<or> sessionTimedOut c then c
      else onGame FATAL_ERROR (\<lambda>c. c) (\<lambda>c. c)
             (resetReels (cancelScheduledFreeSpin (c\<lparr>sessionTimedOut := True, connectionStatus := status_offline,
               initialRgsSessionTimer := False, roundOriginFeatureState := None, bufferedRecoveredSpinResult := None\<rparr>))))"

text \<open>The player confirms the message of an ended session.\<close>

definition timeoutConfirmed :: "controller \<Rightarrow> controller" where
  "timeoutConfirmed c = (if sessionTimedOut c
     then requestOperatorSession (playerFacingError SESSION_TIMEOUT NoCause) session_timeout c else c)"

definition initialSessionTimerFires :: "gateway_view \<Rightarrow> controller \<Rightarrow> controller" where
  "initialSessionTimerFires g c =
     (if \<not> initialRgsSessionTimer c then c
      else let c = c\<lparr>initialRgsSessionTimer := False\<rparr> in
        if \<not> requiresOperatorSessionRecovery g c then c
        else failInitialRgsSession g (playerFacingError SESSION_TIMEOUT NoCause) initial_session_timeout c)"

definition destroyController :: "controller \<Rightarrow> controller" where
  "destroyController c =
     (if destroyed c then c
      else closesGateway (resetReels (cancelScheduledFreeSpin (c\<lparr>destroyed := True, initialRgsSessionTimer := False,
        roundOriginFeatureState := None, bufferedRecoveredSpinResult := None\<rparr>))))"

section \<open>The launch\<close>

definition startController :: "gateway_view \<Rightarrow> controller \<Rightarrow> controller" where
  "startController g c =
     onGame START threw (onLaunch START_PRELOAD threw (\<lambda>c.
       (refreshUi (hasPendingSpin g) c)\<lparr>launchTask := AwaitsPreload,
          initialRgsSessionTimer := (if requiresOperatorSessionRecovery g c \<and> initialSessionFailure c = None then True
                                     else initialRgsSessionTimer c)\<rparr>)) c"

definition launchThrows :: "gateway_view \<Rightarrow> failure_cause \<Rightarrow> controller \<Rightarrow> controller" where
  "launchThrows g cause c = (let c = c\<lparr>launchTask := LaunchSettled\<rparr> in
     if inactive c then c
     else case initialSessionFailure c of
         Some e \<Rightarrow> completeLaunchFailure (hasPendingSpin g) True e c
       | None \<Rightarrow> completeLaunchFailure (hasPendingSpin g) False (playerFacingErrorFor cause LaunchContext) c)"

text \<open>
  What \<open>runLaunch\<close> awaits is over. The splash is left only with a session (the preview's Continue
  asks for it, the wait without a preview is for it) or when it was dismissed.
\<close>

definition launchStep :: "gateway_view \<Rightarrow> controller \<Rightarrow> controller" where
  "launchStep g c = (let refused = launchThrows g (OtherCause None) in case launchTask c of
       NotStarted \<Rightarrow> c
     | AwaitsPreload \<Rightarrow> if inactive c then c\<lparr>launchTask := LaunchSettled\<rparr>
         else if initialSessionFailure c \<noteq> None then refused c else c\<lparr>launchTask := AwaitsFrame\<rparr>
     | AwaitsFrame \<Rightarrow> if inactive c then c\<lparr>launchTask := LaunchSettled\<rparr>
         else onLaunch PRELOAD_COMPLETE refused (\<lambda>c. (refreshUi (hasPendingSpin g) c)\<lparr>launchTask := AwaitsSplash\<rparr>) c
     | AwaitsSplash \<Rightarrow> if inactive c then c\<lparr>launchTask := LaunchSettled\<rparr>
         else if initialSessionFailure c \<noteq> None then refused c
         else if sessionReady (launchState c) then c\<lparr>launchTask := AwaitsIntro\<rparr> else c
     | AwaitsIntro \<Rightarrow> if inactive c then c\<lparr>launchTask := LaunchSettled\<rparr>
         else onLaunch INTRO_COMPLETE refused (\<lambda>c.
                releaseBufferedRecoveredSpinResult g ((refreshUi (hasPendingSpin g) c)\<lparr>launchTask := LaunchSettled\<rparr>)) c
     | LaunchSettled \<Rightarrow> c)"

section \<open>Runs\<close>

datatype controller_event =
    Started
  | LaunchContinues
  | LaunchFails failure_cause
  | SpinPressed bool string
  | FreeSpinTimer bool string
  | BetSelected string
  | StatusArrives GatewayStatus
  | SessionArrives SessionOpened
  | SpinResultArrives SpinResult "FeatureState option"
  | SpinResultAcknowledged
  | ErrorArrives failure_cause
  | OperatorSessionRequired failure_cause
  | SessionTimeoutArrives
  | TimeoutConfirmed
  | InitialSessionTimer
  | ReelHook "nat option"
  | PresentationContinues bool
  | PresentationThrows failure_cause
  | Destroyed

fun controller_step :: "gateway_view \<Rightarrow> controller_event \<Rightarrow> controller \<Rightarrow> controller" where
  "controller_step g Started c = startController g c"
| "controller_step g LaunchContinues c = launchStep g c"
| "controller_step g (LaunchFails cause) c = launchThrows g cause c"
| "controller_step g (SpinPressed taken rid) c = requestSpin g taken rid c"
| "controller_step g (FreeSpinTimer taken rid) c = freeSpinTimerFires g taken rid c"
| "controller_step g (BetSelected bet) c = selectBet bet c"
| "controller_step g (StatusArrives status) c = handleStatus g status c"
| "controller_step g (SessionArrives s) c = handleSession g s c"
| "controller_step g (SpinResultArrives r origin) c = handleSpinResult g r origin c"
| "controller_step g SpinResultAcknowledged c = refreshUi (hasPendingSpin g) c"
| "controller_step g (ErrorArrives cause) c = handleError g cause c"
| "controller_step g (OperatorSessionRequired cause) c = handleOperatorSessionRequired g cause c"
| "controller_step g SessionTimeoutArrives c = handleSessionTimeout c"
| "controller_step g TimeoutConfirmed c = timeoutConfirmed c"
| "controller_step g InitialSessionTimer c = initialSessionTimerFires g c"
| "controller_step g (ReelHook hook) c = reelHook g hook c"
| "controller_step g (PresentationContinues checked) c = presentationStep g checked c"
| "controller_step g (PresentationThrows cause) c = presentationThrows g cause c"
| "controller_step g Destroyed c = destroyController c"

definition controller_run :: "(gateway_view \<times> controller_event) list \<Rightarrow> controller \<Rightarrow> controller" where
  "controller_run es c = fold (\<lambda>(g, e). controller_step g e) es c"

end
