(* ===== verification/Controller_Invariant.thy ===== *)
theory Controller_Invariant
  imports Round_Controller "HOL-Library.Sublist"
begin

text \<open>
  What every state of the controller satisfies, over all interleavings of its events: at most one
  result is presented, the accepted results are the acknowledged ones followed by the presented
  one, each passed the origin guard, and no spin is asked for while a result is presented.
\<close>

section \<open>What the effects say\<close>

definition key :: "SpinResult \<Rightarrow> string \<times> int" where
  "key r = (roundId r, sequence r)"

definition accepted1 :: "controller_effect \<Rightarrow> (SpinResult \<times> FeatureState) list" where
  "accepted1 e = (case e of ResultAccepted r o1 \<Rightarrow> [(r, o1)] | _ \<Rightarrow> [])"

definition acknowledged1 :: "controller_effect \<Rightarrow> (string \<times> int) list" where
  "acknowledged1 e = (case e of ResultAcknowledged i n \<Rightarrow> [(i, n)] | _ \<Rightarrow> [])"

definition accepted :: "controller_effect list \<Rightarrow> (SpinResult \<times> FeatureState) list" where
  "accepted es = concat (map accepted1 es)"

definition acknowledged :: "controller_effect list \<Rightarrow> (string \<times> int) list" where
  "acknowledged es = concat (map acknowledged1 es)"

definition operator_asked :: "controller_effect list \<Rightarrow> nat" where
  "operator_asked es = length (filter (\<lambda>e. case e of OperatorRequested r k \<Rightarrow> True | _ \<Rightarrow> False) es)"

text \<open>
  The results waiting for their acknowledgement, as long as a spin is asked for and a result
  accepted only when there is none, and an acknowledgement given only when there is one.
\<close>

fun open_step :: "nat option \<Rightarrow> controller_effect \<Rightarrow> nat option" where
  "open_step n (SpinRequested i b) = (if n = Some 0 then Some 0 else None)"
| "open_step n (ResultAccepted r o1) = (if n = Some 0 then Some 1 else None)"
| "open_step n (ResultAcknowledged i k) = (if n = Some 1 then Some 0 else None)"
| "open_step n e = n"

definition rounds_open :: "controller_effect list \<Rightarrow> nat option" where
  "rounds_open es = foldl open_step (Some 0) es"

text \<open>The effects that say nothing about rounds.\<close>

fun bystander :: "controller_effect \<Rightarrow> bool" where
  "bystander (SpinRequested i b) = False"
| "bystander (ResultAccepted r o1) = False"
| "bystander (ResultAcknowledged i n) = False"
| "bystander e = True"

lemma effects_append [simp]:
  "accepted (es @ fs) = accepted es @ accepted fs" "acknowledged (es @ fs) = acknowledged es @ acknowledged fs"
  by (simp_all add: accepted_def acknowledged_def)

lemma effects_empty [simp]: "accepted [] = []" "acknowledged [] = []"
  by (simp_all add: accepted_def acknowledged_def)

lemma effects_one [simp]:
  "accepted [ResultAccepted r o1] = [(r, o1)]" "accepted [ResultAcknowledged i n] = []" "accepted [SpinRequested i b] = []"
  "acknowledged [ResultAccepted r o1] = []" "acknowledged [ResultAcknowledged i n] = [(i, n)]" "acknowledged [SpinRequested i b] = []"
  by (simp_all add: accepted_def acknowledged_def accepted1_def acknowledged1_def)

lemma effects_bystander: "list_all bystander es \<Longrightarrow> accepted es = [] \<and> acknowledged es = []"
proof (induction es)
  case (Cons e es)
  then show ?case by (cases e) (simp_all add: accepted_def acknowledged_def accepted1_def acknowledged1_def)
qed simp

lemma rounds_open_simps [simp]: "rounds_open [] = Some 0" "rounds_open (es @ [e]) = open_step (rounds_open es) e"
  by (simp_all add: rounds_open_def)

lemma open_step_bystander: "bystander e \<Longrightarrow> open_step n e = n"
  by (cases e) simp_all

lemma rounds_open_bystander: "list_all bystander fs \<Longrightarrow> rounds_open (es @ fs) = rounds_open es"
  by (induction fs arbitrary: es) (simp_all add: rounds_open_def open_step_bystander)

lemma operator_asked_simps [simp]: "operator_asked [] = 0"
  "operator_asked (es @ [e]) = operator_asked es + (case e of OperatorRequested r k \<Rightarrow> 1 | _ \<Rightarrow> 0)"
  by (simp_all add: operator_asked_def split: controller_effect.split)

definition asked_ok :: "controller \<Rightarrow> bool" where
  "asked_ok c = (operator_asked (effects c) = (if operatorSessionRequestSent c then 1 else 0))"

section \<open>Bystanders\<close>

text \<open>The operations that touch nothing of a round.\<close>

definition aside :: "controller \<Rightarrow> controller \<Rightarrow> bool" where
  "aside c d = (game d = game c \<and> presentations d = presentations c \<and> destroyed d = destroyed c
     \<and> sessionTimedOut d = sessionTimedOut c \<and> balanceVisibilityBlocked d = balanceVisibilityBlocked c
     \<and> visibleBalanceMinor d = visibleBalanceMinor c \<and> snapshot d = snapshot c \<and> lastRoundId d = lastRoundId c
     \<and> (asked_ok c \<longrightarrow> asked_ok d)
     \<and> (\<exists>es. effects d = effects c @ es \<and> list_all bystander es \<and> (\<forall>b. BalanceCommitted b \<notin> set es)))"

lemma aside_refl [simp]: "aside c c"
  by (auto simp: aside_def)

lemma aside_trans: "aside c d \<Longrightarrow> aside d e \<Longrightarrow> aside c e"
  unfolding aside_def by (auto; force)

lemma aside_effect: "bystander e \<Longrightarrow> (\<forall>b. e \<noteq> BalanceCommitted b) \<Longrightarrow> (\<forall>r k. e \<noteq> OperatorRequested r k)
    \<Longrightarrow> aside c (effect e c)"
  by (auto simp: aside_def effect_def asked_ok_def split: controller_effect.split)

lemma aside_request: "aside c (requestOperatorSession e reason c)"
  by (auto simp: aside_def effect_def asked_ok_def requestOperatorSession_def)

lemma aside_update:
  "aside c d \<Longrightarrow> aside c (d\<lparr>roundOriginFeatureState := o1\<rparr>)" "aside c d \<Longrightarrow> aside c (d\<lparr>freeSpinTimer := t\<rparr>)"
  "aside c d \<Longrightarrow> aside c (d\<lparr>bufferedRecoveredSpinResult := b\<rparr>)" "aside c d \<Longrightarrow> aside c (d\<lparr>launchTask := k\<rparr>)"
  "aside c d \<Longrightarrow> aside c (d\<lparr>connectionStatus := s\<rparr>)" "aside c d \<Longrightarrow> aside c (d\<lparr>launchState := l\<rparr>)"
  "aside c d \<Longrightarrow> aside c (d\<lparr>initialRgsSessionTimer := i\<rparr>)" "aside c d \<Longrightarrow> aside c (d\<lparr>reelRound := rr\<rparr>)"
  "aside c d \<Longrightarrow> aside c (d\<lparr>initialSessionFailure := f\<rparr>)"
  "aside c d \<Longrightarrow> aside c (d\<lparr>lastErrorIsInitial := li\<rparr>)" "aside c d \<Longrightarrow> aside c (d\<lparr>sessionMoneyBinding := m\<rparr>)"
  by (simp_all add: aside_def asked_ok_def)

lemmas aside_into = aside_trans [OF _ aside_effect]

lemma aside_ops:
  "aside c d \<Longrightarrow> aside c (threw d)"
  "aside c d \<Longrightarrow> aside c (resetReels d)"
  "aside c d \<Longrightarrow> aside c (presentPlayerFacingError i e d)"
  "aside c d \<Longrightarrow> aside c (reportPlayerError cause ctx d)"
  "aside c d \<Longrightarrow> aside c (cancelScheduledFreeSpin d)"
  "aside c d \<Longrightarrow> aside c (scheduleFreeSpin p d)"
  "aside c d \<Longrightarrow> aside c (closesGateway d)"
  "aside c d \<Longrightarrow> aside c (requestOperatorSession e reason d)"
  by (simp_all add: threw_def resetReels_def presentPlayerFacingError_def reportPlayerError_def
      cancelScheduledFreeSpin_def scheduleFreeSpin_def closesGateway_def aside_into aside_update
      aside_trans [OF _ aside_request])

lemma aside_refresh: "aside c d \<Longrightarrow> aside c (refreshUi p d)"
  by (simp add: refreshUi_def aside_ops)

lemma aside_onLaunch:
  assumes "aside c d" and "\<And>d. aside c d \<Longrightarrow> aside c (refused d)" and "\<And>d. aside c d \<Longrightarrow> aside c (next1 d)"
  shows "aside c (onLaunch e refused next1 d)"
  using assms by (simp add: onLaunch_def aside_update split: sum.split)

lemma aside_onReels:
  assumes "aside c d" and "\<And>d. aside c d \<Longrightarrow> aside c (refused d)" and "\<And>d. aside c d \<Longrightarrow> aside c (next1 d)"
  shows "aside c (onReels e refused next1 d)"
  using assms by (simp add: onReels_def aside_update split: sum.split)

lemma aside_launchFailure: "aside c d \<Longrightarrow> aside c (completeLaunchFailure p i e d)"
  unfolding completeLaunchFailure_def by (rule aside_onLaunch) (simp_all add: aside_ops aside_refresh)

lemma aside_failInitial: "aside c d \<Longrightarrow> aside c (failInitialRgsSession g e reason d)"
  by (simp add: failInitialRgsSession_def aside_ops aside_launchFailure aside_update)

lemmas asides = aside_ops aside_refresh aside_launchFailure aside_failInitial aside_update

section \<open>The invariant\<close>

definition round_inv :: "controller \<Rightarrow> bool" where
  "round_inv c = (length (presentations c) \<le> 1
     \<and> (presentations c \<noteq> [] \<longrightarrow> game c = presenting1 \<or> game c = failed)
     \<and> (game c = presenting1 \<longrightarrow> presentations c \<noteq> [] \<or> inactive c)
     \<and> (sessionTimedOut c \<longrightarrow> game c = failed)
     \<and> asked_ok c
     \<and> list_all (\<lambda>(r, o1). validateAuthoritativeSpinResult r o1 \<noteq> None) (accepted (effects c))
     \<and> subseq (acknowledged (effects c) @ map (key \<circ> shown_result) (presentations c)) (map (key \<circ> fst) (accepted (effects c)))
     \<and> (\<not> inactive c \<longrightarrow> map (key \<circ> fst) (accepted (effects c))
            = acknowledged (effects c) @ map (key \<circ> shown_result) (presentations c)
         \<and> rounds_open (effects c) = Some (length (presentations c))))"

lemma inv_new: "round_inv newController"
  by (simp add: round_inv_def newController_def asked_ok_def)

lemma inv_aside: "round_inv c \<Longrightarrow> aside c d \<Longrightarrow> round_inv d"
  unfolding round_inv_def aside_def inactive_def
  by (elim conjE exE) (simp add: effects_bystander rounds_open_bystander)

text \<open>Outside a presentation the game may go anywhere but into one.\<close>

lemma inv_idle: "round_inv c \<Longrightarrow> game c \<notin> {presenting1, failed} \<Longrightarrow> presentations c = [] \<and> \<not> sessionTimedOut c"
  by (auto simp: round_inv_def)

lemma inv_game: "round_inv c \<Longrightarrow> game c \<notin> {presenting1, failed} \<Longrightarrow> p \<noteq> presenting1 \<Longrightarrow> round_inv (c\<lparr>game := p\<rparr>)"
  by (frule (1) inv_idle) (simp add: round_inv_def inactive_def asked_ok_def)

lemma inv_failed: "round_inv c \<Longrightarrow> round_inv (c\<lparr>game := failed\<rparr>)"
  by (simp add: round_inv_def inactive_def asked_ok_def)

lemma resolve_presenting: "game_transition q e = Inr p \<Longrightarrow> q \<noteq> presenting1 \<Longrightarrow> e \<noteq> SPIN_RESULT \<Longrightarrow> p \<noteq> presenting1"
  by (cases q) (auto simp: game_transition_def game_resolve_def split: if_splits)

lemma inv_onGame:
  assumes "round_inv c" and "game c \<notin> {presenting1, failed}" and "e \<noteq> SPIN_RESULT"
    and "round_inv (refused c)"
    and "\<And>p. game_transition (game c) e = Inr p \<Longrightarrow> round_inv (c\<lparr>game := p\<rparr>) \<Longrightarrow> round_inv (next1 (c\<lparr>game := p\<rparr>))"
  shows "round_inv (onGame e refused next1 c)"
proof (cases "game_transition (game c) e")
  case (Inl err)
  with assms(4) show ?thesis by (simp add: onGame_def)
next
  case (Inr p)
  then have "round_inv (c\<lparr>game := p\<rparr>)"
    using assms(1-3) resolve_presenting by (blast intro: inv_game)
  with assms(5) Inr show ?thesis by (simp add: onGame_def)
qed

lemma inv_fatal:
  assumes "round_inv c" and "\<And>d. round_inv d \<Longrightarrow> round_inv (next1 d)"
  shows "round_inv (onGame FATAL_ERROR refused next1 c)"
  using assms by (simp add: onGame_def game_always inv_failed)

lemma inv_onReels:
  assumes "round_inv c" and "round_inv (refused c)" and "\<And>s. round_inv (c\<lparr>reelRound := s\<rparr>) \<Longrightarrow> round_inv (next1 (c\<lparr>reelRound := s\<rparr>))"
  shows "round_inv (onReels e refused next1 c)"
  using assms inv_aside [OF assms(1) aside_update(8) [OF aside_refl]] by (simp add: onReels_def split: sum.split)

lemmas inv_asides = inv_aside [OF _ asides(1) [OF aside_refl]] inv_aside [OF _ asides(2) [OF aside_refl]]
  inv_aside [OF _ asides(3) [OF aside_refl]] inv_aside [OF _ asides(4) [OF aside_refl]]
  inv_aside [OF _ asides(5) [OF aside_refl]] inv_aside [OF _ asides(6) [OF aside_refl]]
  inv_aside [OF _ asides(7) [OF aside_refl]] inv_aside [OF _ asides(8) [OF aside_refl]]
  inv_aside [OF _ asides(9) [OF aside_refl]] inv_aside [OF _ asides(10) [OF aside_refl]]
  inv_aside [OF _ asides(11) [OF aside_refl]] inv_aside [OF _ asides(12) [OF aside_refl]]
  inv_aside [OF _ asides(13) [OF aside_refl]] inv_aside [OF _ asides(14) [OF aside_refl]]
  inv_aside [OF _ asides(15) [OF aside_refl]] inv_aside [OF _ asides(16) [OF aside_refl]]
  inv_aside [OF _ asides(17) [OF aside_refl]] inv_aside [OF _ asides(18) [OF aside_refl]]
  inv_aside [OF _ asides(19) [OF aside_refl]] inv_aside [OF _ asides(20) [OF aside_refl]]
  inv_aside [OF _ asides(21) [OF aside_refl]] inv_aside [OF _ asides(22) [OF aside_refl]]

end
