(* ===== verification/Controller_Safety.thy ===== *)
theory Controller_Safety
  imports Controller_Invariant
begin

text \<open>
  Every event of the controller keeps its invariant, and a controller whose session has ended
  does nothing for a round any more.
\<close>

section \<open>The callbacks\<close>

lemma round_if: "(p \<Longrightarrow> round_inv c) \<Longrightarrow> (\<not> p \<Longrightarrow> round_inv d) \<Longrightarrow> round_inv (if p then c else d)"
  by simp

lemma inv_onLaunch:
  assumes "round_inv c" and "round_inv (refused c)" and "\<And>l. round_inv (c\<lparr>launchState := l\<rparr>) \<Longrightarrow> round_inv (next1 (c\<lparr>launchState := l\<rparr>))"
  shows "round_inv (onLaunch e refused next1 c)"
  using assms inv_asides(17) [OF assms(1)] by (simp add: onLaunch_def split: sum.split)

lemma inv_spinRequested: "round_inv c \<Longrightarrow> game c = ready \<Longrightarrow> round_inv (effect (SpinRequested rid b) c)"
  by (frule inv_idle) (auto simp: round_inv_def inactive_def asked_ok_def effect_def)

lemma game_aside: "aside c d \<Longrightarrow> game d = game c"
  by (simp add: aside_def)

lemma effect_fields [simp]: "game (effect e c) = game c" "presentations (effect e c) = presentations c"
    "destroyed (effect e c) = destroyed c" "sessionTimedOut (effect e c) = sessionTimedOut c"
    "effects (effect e c) = effects c @ [e]"
  by (simp_all add: effect_def)

lemma game_ops [simp]: "game (resetReels c) = game c" "game (reportPlayerError cause ctx c) = game c"
    "game (cancelScheduledFreeSpin c) = game c"
  by (simp_all add: game_aside aside_ops)

lemma requestSpin_inv: "round_inv c \<Longrightarrow> round_inv (requestSpin g taken rid c)"
  unfolding requestSpin_def Let_def
  by (auto intro!: inv_onReels inv_onGame inv_asides inv_spinRequested)

lemma freeSpinTimerFires_inv: "round_inv c \<Longrightarrow> round_inv (freeSpinTimerFires g taken rid c)"
  by (simp add: freeSpinTimerFires_def Let_def requestSpin_inv inv_asides split: option.split prod.split)

lemma inv_snapshot: "round_inv c \<Longrightarrow> round_inv (c\<lparr>snapshot := s\<rparr>)"
  by (simp add: round_inv_def inactive_def asked_ok_def)

lemma selectBet_inv: "round_inv c \<Longrightarrow> round_inv (selectBet bet c)"
  by (simp add: selectBet_def inv_snapshot)

lemma handleStatus_inv: "round_inv c \<Longrightarrow> round_inv (handleStatus g status c)"
  by (simp add: handleStatus_def Let_def inv_onGame inv_asides)

lemma inv_visible: "round_inv c \<Longrightarrow> round_inv (c\<lparr>visibleBalanceMinor := b, hasOpenedSession := q\<rparr>)"
  by (simp add: round_inv_def inactive_def asked_ok_def)

lemma applySession_inv: "round_inv c \<Longrightarrow> round_inv (applySession pending s c)"
  by (simp add: applySession_def Let_def round_inv_def inactive_def asked_ok_def)

lemma reopenGame_inv:
  assumes "round_inv c" and "\<And>d. round_inv d \<Longrightarrow> round_inv (next1 d)"
  shows "round_inv (reopenGame pending next1 c)"
proof (cases "game c = connecting \<or> game c = recovering")
  case True
  then have "game_transition (game c) SESSION_OPENED = Inr ready"
    by (auto simp: game_transition_def game_resolve_def)
  moreover have "game_transition ready SPIN_REQUESTED = Inr requesting"
    by (simp add: game_transition_def game_resolve_def)
  moreover have "round_inv (c\<lparr>game := ready\<rparr>)" "round_inv (c\<lparr>game := requesting\<rparr>)"
    using True assms(1) by (auto intro!: inv_game)
  ultimately show ?thesis
    using True assms(2) by (simp add: reopenGame_def onGame_def)
qed (use assms in \<open>simp add: reopenGame_def\<close>)

lemma handleSession_inv: "round_inv c \<Longrightarrow> round_inv (handleSession g s c)"
  unfolding handleSession_def acceptSessionMoneyBinding_def
  by (intro round_if inv_fatal reopenGame_inv inv_onLaunch applySession_inv inv_asides)

section \<open>A result\<close>

lemma spin_failed: "game_transition p SPIN_FAILED = Inr q \<Longrightarrow> p = requesting"
  by (auto simp: game_transition_def game_resolve_def split: GamePhase.splits if_splits)

lemma inv_spinFailed:
  assumes "round_inv c" and "round_inv (refused c)" and "\<And>d. round_inv d \<Longrightarrow> round_inv (next1 d)"
  shows "round_inv (onGame SPIN_FAILED refused next1 c)"
proof (cases "game c = requesting")
  case True
  with assms show ?thesis by (intro inv_onGame) simp_all
next
  case False
  with assms spin_failed show ?thesis by (fastforce simp: onGame_def split: sum.split)
qed

lemma rejectSpinResult_inv: "round_inv c \<Longrightarrow> round_inv (rejectSpinResult g c)"
  unfolding rejectSpinResult_def by (intro inv_spinFailed inv_asides)

lemma inv_presented:
  assumes "round_inv c" and "game c = requesting" and "validateAuthoritativeSpinResult r o1 \<noteq> None"
  shows "round_inv (effect (ResultAccepted r o1) (c\<lparr>reelRound := s, roundOriginFeatureState := q,
    lastRoundId := i, game := presenting1, balanceVisibilityBlocked := b, snapshot := sn,
    presentations := presentations c @ [\<lparr>shown_result = r, shown_origin = o1, shown_stage = st\<rparr>]\<rparr>))"
proof -
  have "presentations c = []" "\<not> sessionTimedOut c"
    using inv_idle [OF assms(1)] assms(2) by simp_all
  moreover from this have "subseq (acknowledged (effects c)) (map (key \<circ> fst) (accepted (effects c)))"
    using assms(1) by (simp add: round_inv_def)
  then have "subseq (acknowledged (effects c) @ [key r]) (map (key \<circ> fst) (accepted (effects c)) @ [key r])"
    by (rule list_emb_append_mono) simp
  ultimately show ?thesis
    using assms by (simp add: round_inv_def inactive_def asked_ok_def effect_def)
qed

lemma acceptSpinResult_inv:
  assumes "round_inv c"
  shows "round_inv (acceptSpinResult g r recovered c)"
proof (cases "Some (roundId r) = lastRoundId c \<or> game c \<noteq> requesting")
  case True
  with assms show ?thesis by (auto simp: acceptSpinResult_def intro: inv_asides)
next
  case False
  then have game: "game c = requesting" by simp
  define o1 where "o1 = (case recovered of Some o1 \<Rightarrow> o1 | None \<Rightarrow>
               (case roundOriginFeatureState c of Some o1 \<Rightarrow> o1 | None \<Rightarrow> snap_feature (snapshot c)))"
  show ?thesis
  proof (cases "validateAuthoritativeSpinResult r o1")
    case None
    with False assms game show ?thesis
      by (simp add: acceptSpinResult_def Let_def rejectSpinResult_inv flip: o1_def)
  next
    case (Some rid)
    show ?thesis
    proof (cases "reel_transition (reelRound c) (RESULT_RECEIVED (round_roundId rid) (JsInt (round_rows rid)))")
      case (Inl err)
      with False Some assms game show ?thesis
        by (simp add: acceptSpinResult_def Let_def onReels_def inv_asides flip: o1_def)
    next
      case (Inr rs)
      from Some have ok: "validateAuthoritativeSpinResult r o1 \<noteq> None" by simp
      have "game_transition requesting SPIN_RESULT = Inr presenting1"
        by (simp add: game_transition_def game_resolve_def)
      with False Some Inr game show ?thesis
        using inv_asides(9) [OF inv_presented [OF assms game ok, where b = True and q = None and i = "Some (roundId r)" and s = rs and st = BeforeReels
          and sn = "(snapshot c)\<lparr>snap_balance := balanceMinor r,
             selectedBetMinor := featureLockedBet (featureState r) (selectedBetMinor (snapshot c)),
             lastWinMinor := totalWinMinor r, snap_feature := featureState r, currentGrid := result_grid r\<rparr>"], of "hasPendingSpin g"]
        by (simp add: acceptSpinResult_def Let_def onReels_def onGame_def flip: o1_def)
    qed
  qed
qed

lemma release_inv: "round_inv c \<Longrightarrow> round_inv (releaseBufferedRecoveredSpinResult g c)"
  unfolding releaseBufferedRecoveredSpinResult_def Let_def beginRecoveredSpinPresentation_def
  by (cases "bufferedRecoveredSpinResult c")
    (simp_all only: option.case if_cancel round_if inv_onReels acceptSpinResult_inv rejectSpinResult_inv inv_asides)

lemma bufferRecovered_inv: "round_inv c \<Longrightarrow> round_inv (bufferRecoveredSpinResult g r o1 c)"
  unfolding bufferRecoveredSpinResult_def Let_def
  by (cases "bufferedRecoveredSpinResult c")
    (simp_all only: option.case round_if release_inv rejectSpinResult_inv inv_asides)

lemma handleSpinResult_inv: "round_inv c \<Longrightarrow> round_inv (handleSpinResult g r origin c)"
  by (simp add: handleSpinResult_def bufferRecovered_inv acceptSpinResult_inv split: option.split)

section \<open>The presentation\<close>

lemma inv_setStage: "round_inv c \<Longrightarrow> round_inv (setStage st c)"
  by (cases "presentations c") (simp_all add: setStage_def round_inv_def inactive_def asked_ok_def)

lemma inv_barrier: "round_inv c \<Longrightarrow> round_inv (applyResultAtBalanceBarrier c)"
  by (simp add: applyResultAtBalanceBarrier_def round_inv_def inactive_def asked_ok_def effect_def
      accepted_def acknowledged_def accepted1_def acknowledged1_def)

lemma inv_cancelled:
  assumes "round_inv c" and "inactive c"
  shows "round_inv (taskEnds c)"
proof -
  have "subseq (acknowledged (effects c)) (acknowledged (effects c) @ map (key \<circ> shown_result) (presentations c))"
    by (simp add: prefix_imp_subseq)
  with assms have "subseq (acknowledged (effects c)) (map (key \<circ> fst) (accepted (effects c)))"
    unfolding round_inv_def by (meson subseq_order.trans)
  with assms show ?thesis
    by (cases "presentations c") (simp_all add: round_inv_def inactive_def asked_ok_def taskEnds_def)
qed

text \<open>The presented result is acknowledged, whatever happened before.\<close>

lemma inv_acknowledged:
  assumes "round_inv c" and "presentations c = [p]" and "effects d = effects c @ es" and "list_all bystander es"
    and "presentations d = []" and "game d \<noteq> presenting1" and "sessionTimedOut d = sessionTimedOut c"
    and "sessionTimedOut d \<longrightarrow> game d = failed"
    and "destroyed d = destroyed c" and "asked_ok d"
  shows "round_inv (acknowledgePresentedSpinResult g (shown_result p) d)"
proof -
  have "accepted (effects d) = accepted (effects c)" "acknowledged (effects d) = acknowledged (effects c)"
      "rounds_open (effects d) = rounds_open (effects c)"
    using assms(3,4) by (simp_all add: effects_bystander rounds_open_bystander)
  moreover have "asked_ok (effect (ResultAcknowledged (roundId (shown_result p)) (sequence (shown_result p))) d)"
    using assms(10) by (simp add: asked_ok_def effect_def)
  ultimately have "round_inv (effect (ResultAcknowledged (roundId (shown_result p)) (sequence (shown_result p))) d)"
    using assms(1,2,5-9) by (simp add: round_inv_def inactive_def key_def)
  then show ?thesis
    by (cases "acknowledges g") (auto simp: acknowledgePresentedSpinResult_def Let_def inv_asides split: bool.split)
qed

lemma barrier_fields:
  "applyResultAtBalanceBarrier c = c\<lparr>balanceVisibilityBlocked := False, visibleBalanceMinor := snap_balance (snapshot c),
     effects := effects c @ [BalanceCommitted (snap_balance (snapshot c))]\<rparr>"
  by (simp add: applyResultAtBalanceBarrier_def effect_def)

lemma presentationFailed_inv:
  assumes "round_inv c" and "presentations c = [p]"
  shows "round_inv (presentationFailed g cause (shown_result p) c)"
proof (cases "inactive c")
  case True
  with assms show ?thesis by (simp add: presentationFailed_def inv_cancelled)
next
  case False
  define d where "d = reportPlayerError cause PresentationContext (resetReels (applyResultAtBalanceBarrier (taskEnds c)))"
  have "aside (applyResultAtBalanceBarrier (taskEnds c)) d"
    unfolding d_def by (intro aside_ops aside_refl)
  then obtain es where d: "game d = game c" "presentations d = []" "destroyed d = destroyed c" "sessionTimedOut d = sessionTimedOut c"
      "effects d = effects c @ (BalanceCommitted (snap_balance (snapshot c)) # es)" "list_all bystander es" "asked_ok d"
    using assms by (auto simp: aside_def barrier_fields taskEnds_def asked_ok_def round_inv_def)
  have "round_inv (refreshUi (stillPending g) (acknowledgePresentedSpinResult g (shown_result p) (d\<lparr>game := q\<rparr>)))"
    if "q \<noteq> presenting1" "\<not> sessionTimedOut c" for q
    using d that by (intro inv_asides inv_acknowledged [OF assms, where es = "BalanceCommitted (snap_balance (snapshot c)) # es"])
      (simp_all add: asked_ok_def)
  note final1 = this
  have "round_inv (refreshUi (stillPending g) (acknowledgePresentedSpinResult g (shown_result p) d))"
    if "game d \<noteq> presenting1"
    using final1 [of "game d"] that False by (simp add: inactive_def)
  moreover have "game_transition presenting1 PRESENTATION_COMPLETE = Inr ready"
    by (simp add: game_transition_def game_resolve_def)
  ultimately show ?thesis
    using False final1 [of ready]
    by (simp add: presentationFailed_def Let_def onGame_def inactive_def flip: d_def)
qed

lemma presentationComplete_inv:
  assumes "round_inv c" and "presentations c = [p]"
  shows "round_inv (presentationComplete g (shown_result p) c)"
proof (cases "game c = presenting1")
  case True
  then have "\<not> sessionTimedOut c" "asked_ok c" using assms by (auto simp: round_inv_def)
  then have "round_inv (acknowledgePresentedSpinResult g (shown_result p) (taskEnds (c\<lparr>game := ready\<rparr>)))"
    by (intro inv_acknowledged [OF assms, where es = "[]"]) (simp_all add: taskEnds_def asked_ok_def assms(2))
  moreover have "game_transition presenting1 PRESENTATION_COMPLETE = Inr ready"
    by (simp add: game_transition_def game_resolve_def)
  ultimately show ?thesis
    using True by (simp add: presentationComplete_def onGame_def inv_asides)
next
  case False
  then have "game c = failed" using assms by (auto simp: round_inv_def)
  moreover have "\<exists>e. game_transition failed PRESENTATION_COMPLETE = Inl e"
    by (simp add: game_transition_def game_resolve_def)
  ultimately show ?thesis
    using assms by (auto simp: presentationComplete_def onGame_def presentationFailed_inv)
qed

lemma roundComplete_inv:
  assumes "round_inv c" and "presentations c = [p]"
  shows "round_inv (roundComplete g (shown_result p) c)"
  unfolding roundComplete_def
  by (intro inv_onReels assms presentationFailed_inv inv_setStage)

lemma presentationStep_inv:
  assumes "round_inv c"
  shows "round_inv (presentationStep g checked c)"
proof (cases "presentations c")
  case Nil
  with assms show ?thesis by (simp add: presentationStep_def)
next
  case (Cons p ps)
  with assms have p: "presentations c = [p]" by (cases ps) (simp_all add: round_inv_def)
  have barrier: "round_inv (applyResultAtBalanceBarrier c)" "presentations (applyResultAtBalanceBarrier c) = [p]"
      "inactive (applyResultAtBalanceBarrier c) = inactive c"
    using p inv_barrier [OF assms] by (simp_all only:) (simp_all add: barrier_fields inactive_def)
  note steps = assms p inv_cancelled inv_setStage presentationFailed_inv presentationComplete_inv roundComplete_inv
  have show1: "round_inv (onReels WIN_PRESENTATION_STARTED (presentationFailed g (OtherCause None) (shown_result p))
      (if presentedWins (shown_result p) = [] then roundComplete g (shown_result p) else setStage WinLines) c)"
    using p by (intro inv_onReels assms) (simp_all add: steps)
  show ?thesis
    using p barrier show1
    by (simp add: presentationStep_def presentationSteps_def Let_def steps split: round_stage.split)
      (simp split: if_splits)
qed

lemma presentationThrows_inv: "round_inv c \<Longrightarrow> round_inv (presentationThrows g cause c)"
  by (auto simp: presentationThrows_def round_inv_def [of c] Suc_le_eq less_Suc_eq_le presentationFailed_inv split: list.split)

lemma reelHook_inv:
  assumes "round_inv c"
  shows "round_inv (reelHook g hook c)"
proof (cases "presentations c")
  case Nil
  with assms show ?thesis by (simp add: reelHook_def)
next
  case (Cons p ps)
  with assms have "presentations c = [p]" by (cases ps) (simp_all add: round_inv_def)
  then show ?thesis
    unfolding reelHook_def by (simp only: list.case) (intro round_if inv_onReels assms presentationFailed_inv)
qed

section \<open>Errors, ends and the launch\<close>

lemma handleError_inv: "round_inv c \<Longrightarrow> round_inv (handleError g cause c)"
  unfolding handleError_def Let_def by (intro round_if inv_spinFailed inv_fatal inv_asides)

lemma operatorSessionRequired_inv: "round_inv c \<Longrightarrow> round_inv (handleOperatorSessionRequired g cause c)"
  unfolding handleOperatorSessionRequired_def Let_def by (intro round_if inv_spinFailed inv_asides)

lemma sessionTimeout_inv: "round_inv c \<Longrightarrow> round_inv (handleSessionTimeout c)"
  by (simp add: handleSessionTimeout_def onGame_def game_always resetReels_def cancelScheduledFreeSpin_def
      round_inv_def inactive_def asked_ok_def)

lemma timeoutConfirmed_inv: "round_inv c \<Longrightarrow> round_inv (timeoutConfirmed c)"
  unfolding timeoutConfirmed_def by (intro round_if inv_asides)

lemma initialTimer_inv: "round_inv c \<Longrightarrow> round_inv (initialSessionTimerFires g c)"
  unfolding initialSessionTimerFires_def Let_def by (intro round_if inv_asides)

lemma inv_destroyed: "round_inv c \<Longrightarrow> round_inv (c\<lparr>destroyed := True, initialRgsSessionTimer := q,
    roundOriginFeatureState := o1, bufferedRecoveredSpinResult := b\<rparr>)"
  by (simp add: round_inv_def inactive_def asked_ok_def)

lemma destroyController_inv: "round_inv c \<Longrightarrow> round_inv (destroyController c)"
  unfolding destroyController_def by (intro round_if inv_asides inv_destroyed)

lemma start_booting: "game_transition p START = Inr q \<Longrightarrow> p = booting"
  by (auto simp: game_transition_def game_resolve_def split: GamePhase.splits if_splits)

lemma startController_inv:
  assumes "round_inv c"
  shows "round_inv (startController g c)"
proof (cases "game c = booting")
  case True
  with assms show ?thesis
    unfolding startController_def
    by (intro inv_onGame inv_onLaunch inv_asides) simp_all
next
  case False
  with assms start_booting show ?thesis
    by (fastforce simp: startController_def onGame_def inv_asides split: sum.split)
qed

lemma launchThrows_inv: "round_inv c \<Longrightarrow> round_inv (launchThrows g cause c)"
  unfolding launchThrows_def Let_def
  by (cases "initialSessionFailure c") (auto simp: inv_asides)

lemma launchStep_inv: "round_inv c \<Longrightarrow> round_inv (launchStep g c)"
  unfolding launchStep_def Let_def
  by (cases "launchTask c")
    (simp_all only: launch_task.case, (intro round_if inv_onLaunch inv_asides launchThrows_inv release_inv; assumption)+)

lemma controller_step_inv: "round_inv c \<Longrightarrow> round_inv (controller_step g e c)"
  by (cases e) (simp_all add: startController_inv launchStep_inv launchThrows_inv requestSpin_inv freeSpinTimerFires_inv
      selectBet_inv handleStatus_inv handleSession_inv handleSpinResult_inv handleError_inv operatorSessionRequired_inv
      sessionTimeout_inv timeoutConfirmed_inv initialTimer_inv reelHook_inv presentationStep_inv presentationThrows_inv
      destroyController_inv inv_asides)

lemma controller_run_simps [simp]: "controller_run [] c = c"
    "controller_run (e # es) c = controller_run es (controller_step (fst e) (snd e) c)"
  by (simp_all add: controller_run_def split: prod.split)

lemma controller_run_append [simp]: "controller_run (es @ fs) c = controller_run fs (controller_run es c)"
  by (simp add: controller_run_def)

lemma controller_run_inv: "round_inv c \<Longrightarrow> round_inv (controller_run es c)"
  by (induction es arbitrary: c) (simp_all add: controller_step_inv)

end
