(* ===== verification/Controller_Ends.thy ===== *)
theory Controller_Ends
  imports Controller_Safety
begin

text \<open>
  Two frames around the events of the controller: after the end of the session nothing happens to
  a round any more, and while a result is presented only its balance barrier changes the balance
  the player sees.
\<close>

section \<open>After the end of the session\<close>

definition over :: "controller \<Rightarrow> controller \<Rightarrow> bool" where
  "over c d = (sessionTimedOut d \<and> game d = failed
     \<and> (\<exists>es. effects d = effects c @ es \<and> list_all bystander es))"

lemma over_aside: "sessionTimedOut c \<Longrightarrow> game c = failed \<Longrightarrow> aside c d \<Longrightarrow> over c d"
  by (auto simp: aside_def over_def)

lemma over_refl: "sessionTimedOut c \<Longrightarrow> game c = failed \<Longrightarrow> over c c"
  by (simp add: over_def)

lemma over_trans: "over c d \<Longrightarrow> over d e \<Longrightarrow> over c e"
  by (auto simp: over_def)

lemma over_taskEnds: "sessionTimedOut c \<Longrightarrow> game c = failed \<Longrightarrow> over c (taskEnds c)"
  by (simp add: over_def taskEnds_def)

lemma over_setStage: "sessionTimedOut c \<Longrightarrow> game c = failed \<Longrightarrow> over c (setStage st c)"
  by (simp add: over_def setStage_def)

lemma over_failed: "sessionTimedOut c \<Longrightarrow> game c = failed \<Longrightarrow> over c (presentationFailed g cause r c)"
  by (simp add: presentationFailed_def inactive_def over_taskEnds)

lemma over_barrier: "sessionTimedOut c \<Longrightarrow> game c = failed \<Longrightarrow> over c (applyResultAtBalanceBarrier c)"
  by (simp add: over_def barrier_fields)

lemma failed_refuses: "game_transition failed PRESENTATION_COMPLETE = Inl (InvalidGameTransitionError failed PRESENTATION_COMPLETE)"
    "game_transition failed START = Inl (InvalidGameTransitionError failed START)"
  by (simp_all add: game_transition_def game_resolve_def)

lemma over_complete: "sessionTimedOut c \<Longrightarrow> game c = failed \<Longrightarrow> over c (presentationComplete g r c)"
  by (simp add: presentationComplete_def onGame_def failed_refuses over_failed)

lemma over_onReels:
  assumes "sessionTimedOut c" and "game c = failed" and "over c (refused c)"
    and "\<And>s. over (c\<lparr>reelRound := s\<rparr>) (next1 (c\<lparr>reelRound := s\<rparr>))"
  shows "over c (onReels e refused next1 c)"
proof (cases "reel_transition (reelRound c) e")
  case (Inr s)
  have "over c (next1 (c\<lparr>reelRound := s\<rparr>))"
    by (rule over_trans [OF over_aside assms(4)]) (simp_all add: assms aside_update)
  with Inr show ?thesis by (simp add: onReels_def)
qed (use assms in \<open>simp add: onReels_def\<close>)

lemma launchThrows_inactive: "inactive c \<Longrightarrow> launchThrows g cause c = c\<lparr>launchTask := LaunchSettled\<rparr>"
  by (simp add: launchThrows_def Let_def inactive_def)

lemma launchStep_inactive:
  assumes "inactive c"
  shows "launchStep g c = c \<or> launchStep g c = c\<lparr>launchTask := LaunchSettled\<rparr>"
  unfolding launchStep_def Let_def using assms by (cases "launchTask c") (simp_all only: launch_task.case if_True simp_thms)

lemma over_step:
  assumes "sessionTimedOut c" and "game c = failed"
  shows "over c (controller_step g e c)"
proof -
  note out = assms over_refl [OF assms] over_taskEnds [OF assms] over_failed [OF assms] inactive_def
  have off: "inactive c" using assms by (simp add: inactive_def)
  have "over c (roundComplete g r c)" for r
    unfolding roundComplete_def by (intro over_onReels) (simp_all add: out over_setStage)
  moreover have "over c (presentationComplete g r (applyResultAtBalanceBarrier c))" for r
    by (rule over_trans [OF over_barrier [OF assms]]) (simp add: over_complete barrier_fields assms)
  moreover have "over c (taskEnds (applyResultAtBalanceBarrier c))"
    by (rule over_trans [OF over_barrier [OF assms]]) (simp add: over_taskEnds barrier_fields assms)
  ultimately have steps: "over c (presentationSteps g checked p c)" for checked p
    by (simp add: presentationSteps_def Let_def out off over_complete split: round_stage.split)
  have asideI: "over c d" if "aside c d" for d
    using that assms by (rule over_aside [rotated 2])
  show ?thesis
  proof (cases e)
    case Started
    then show ?thesis
      using assms by (simp add: startController_def onGame_def failed_refuses asideI asides)
  next
    case LaunchContinues
    with launchStep_inactive [OF off, of g] have "aside c (controller_step g e c)"
      by (elim disjE) (simp_all add: aside_update)
    then show ?thesis by (rule asideI)
  next
    case (LaunchFails cause)
    then show ?thesis by (simp add: launchThrows_inactive off asideI aside_update)
  next
    case (FreeSpinTimer taken rid)
    then show ?thesis
      using assms by (auto simp: freeSpinTimerFires_def requestSpin_def Let_def asideI asides split: option.split)
  next
    case (OperatorSessionRequired cause)
    then show ?thesis
      using assms by (simp add: handleOperatorSessionRequired_def Let_def asideI asides)
  next
    case (PresentationContinues checked)
    then show ?thesis by (simp add: presentationStep_def steps out split: list.split)
  next
    case (PresentationThrows cause)
    then show ?thesis by (simp add: presentationThrows_def out split: list.split)
  next
    case Destroyed
    have "over c (c\<lparr>destroyed := True, initialRgsSessionTimer := False,
        roundOriginFeatureState := None, bufferedRecoveredSpinResult := None\<rparr>)"
      using assms by (simp add: over_def)
    from over_trans [OF this] Destroyed show ?thesis
      using assms by (simp add: destroyController_def over_refl over_aside asides)
  qed (use assms in \<open>simp_all add: out requestSpin_def selectBet_def handleStatus_def handleSession_def handleSpinResult_def
      handleError_def handleSessionTimeout_def timeoutConfirmed_def initialSessionTimerFires_def reelHook_def Let_def
      asideI asides split: list.split\<close>)
qed

lemma over_run: "sessionTimedOut c \<Longrightarrow> game c = failed \<Longrightarrow> over c (controller_run es c)"
proof (induction es arbitrary: c)
  case (Cons e es)
  then have step: "over c (controller_step (fst e) (snd e) c)" by (simp add: over_step)
  then have "over (controller_step (fst e) (snd e) c) (controller_run es (controller_step (fst e) (snd e) c))"
    by (intro Cons.IH) (simp_all add: over_def)
  with step show ?case by (simp add: over_trans)
qed (simp add: over_refl)

section \<open>The balance barrier\<close>

text \<open>While the balance is held back, only a barrier changes what the player sees of it.\<close>

definition held :: "controller \<Rightarrow> controller \<Rightarrow> bool" where
  "held c d = (\<exists>es. effects d = effects c @ es
     \<and> (balanceVisibilityBlocked c \<longrightarrow> (\<exists>b. BalanceCommitted b \<in> set es)
        \<or> visibleBalanceMinor d = visibleBalanceMinor c \<and> balanceVisibilityBlocked d))"

lemma held_refl [simp]: "held c c"
  by (auto simp: held_def)

lemma held_trans: "held c d \<Longrightarrow> held d e \<Longrightarrow> held c e"
  unfolding held_def by (elim exE) (auto simp: append_assoc)

lemma held_aside: "aside c d \<Longrightarrow> held c d"
  by (auto simp: aside_def held_def)

lemma held_into: "held c d \<Longrightarrow> aside d e \<Longrightarrow> held c e"
  by (rule held_trans [OF _ held_aside])

lemma held_same: "held c d \<Longrightarrow> effects e = effects d \<Longrightarrow> visibleBalanceMinor e = visibleBalanceMinor d
    \<Longrightarrow> balanceVisibilityBlocked e = balanceVisibilityBlocked d \<Longrightarrow> held c e"
  by (simp add: held_def)

lemma held_update:
  "held c d \<Longrightarrow> held c (d\<lparr>game := p\<rparr>)" "held c d \<Longrightarrow> held c (d\<lparr>snapshot := sn\<rparr>)"
  "held c d \<Longrightarrow> held c (d\<lparr>presentations := ps\<rparr>)" "held c d \<Longrightarrow> held c (d\<lparr>lastRoundId := i\<rparr>)"
  "held c d \<Longrightarrow> held c (d\<lparr>destroyed := b\<rparr>)" "held c d \<Longrightarrow> held c (d\<lparr>sessionTimedOut := b\<rparr>)"
  "held c d \<Longrightarrow> held c (taskEnds d)" "held c d \<Longrightarrow> held c (setStage st d)"
  by (erule held_same; simp add: taskEnds_def setStage_def)+

lemma held_effect: "held c d \<Longrightarrow> held c (effect e d)"
  by (erule held_trans) (auto simp: held_def effect_def)

lemma held_blocks: "held c d \<Longrightarrow> held c (d\<lparr>balanceVisibilityBlocked := True\<rparr>)"
  by (auto simp: held_def)

lemma held_barrier: "held c (applyResultAtBalanceBarrier d)" if "held c d"
  using that by (rule held_trans) (auto simp: held_def barrier_fields)

lemma held_if: "(p \<Longrightarrow> held c d) \<Longrightarrow> (\<not> p \<Longrightarrow> held c e) \<Longrightarrow> held c (if p then d else e)"
  by simp

lemma held_on:
  assumes "held c d" and "\<And>d. held c d \<Longrightarrow> held c (refused d)" and "\<And>d. held c d \<Longrightarrow> held c (next1 d)"
  shows "held c (onGame ge refused next1 d)" "held c (onReels re refused next1 d)" "held c (onLaunch le refused next1 d)"
  using assms by (simp_all add: onGame_def onReels_def onLaunch_def held_update held_into aside_update split: sum.split)

lemmas held_asides = held_into [OF _ asides(1) [OF aside_refl]] held_into [OF _ asides(2) [OF aside_refl]]
  held_into [OF _ asides(3) [OF aside_refl]] held_into [OF _ asides(4) [OF aside_refl]]
  held_into [OF _ asides(5) [OF aside_refl]] held_into [OF _ asides(6) [OF aside_refl]]
  held_into [OF _ asides(7) [OF aside_refl]] held_into [OF _ asides(8) [OF aside_refl]]
  held_into [OF _ asides(9) [OF aside_refl]] held_into [OF _ asides(10) [OF aside_refl]]
  held_into [OF _ asides(11) [OF aside_refl]] held_into [OF _ asides(12) [OF aside_refl]]
  held_into [OF _ asides(13) [OF aside_refl]] held_into [OF _ asides(14) [OF aside_refl]]
  held_into [OF _ asides(15) [OF aside_refl]] held_into [OF _ asides(16) [OF aside_refl]]
  held_into [OF _ asides(17) [OF aside_refl]] held_into [OF _ asides(18) [OF aside_refl]]
  held_into [OF _ asides(19) [OF aside_refl]] held_into [OF _ asides(20) [OF aside_refl]]
  held_into [OF _ asides(21) [OF aside_refl]] held_into [OF _ asides(22) [OF aside_refl]]

lemmas held_steps = held_if held_on held_effect held_update held_asides held_refl

lemma held_requestSpin: "held c d \<Longrightarrow> held c (requestSpin g taken rid d)"
  unfolding requestSpin_def Let_def by (intro held_steps; assumption?)

lemma held_freeSpin: "held c d \<Longrightarrow> held c (freeSpinTimerFires g taken rid d)"
  by (simp add: freeSpinTimerFires_def Let_def held_requestSpin held_asides split: option.split prod.split)

lemma held_session: "held c d \<Longrightarrow> held c (applySession pending s d)"
  unfolding applySession_def Let_def
  by (erule held_trans) (auto simp: held_def)

lemma held_handleSession: "held c d \<Longrightarrow> held c (handleSession g s d)"
  unfolding handleSession_def acceptSessionMoneyBinding_def reopenGame_def
  by (intro held_steps held_session; assumption?)

lemma held_reject: "held c d \<Longrightarrow> held c (rejectSpinResult g d)"
  unfolding rejectSpinResult_def by (intro held_steps; assumption?)

lemma held_option: "(x = None \<Longrightarrow> held c d) \<Longrightarrow> (\<And>y. x = Some y \<Longrightarrow> held c (f y)) \<Longrightarrow> held c (case x of None \<Rightarrow> d | Some y \<Rightarrow> f y)"
  by (cases x) simp_all

lemma held_accept: "held c d \<Longrightarrow> held c (acceptSpinResult g r o1 d)"
  unfolding acceptSpinResult_def Let_def
  by (intro held_option held_reject held_blocks held_steps; assumption?)

lemma held_release: "held c d \<Longrightarrow> held c (releaseBufferedRecoveredSpinResult g d)"
  unfolding releaseBufferedRecoveredSpinResult_def Let_def beginRecoveredSpinPresentation_def
  by (intro held_option held_reject held_accept held_steps; assumption?)

lemma held_handleSpinResult: "held c d \<Longrightarrow> held c (handleSpinResult g r origin d)"
  unfolding handleSpinResult_def bufferRecoveredSpinResult_def Let_def
  by (intro held_option held_reject held_accept held_release held_steps; assumption?)

lemma held_acknowledge: "held c d \<Longrightarrow> held c (acknowledgePresentedSpinResult g r d)"
  unfolding acknowledgePresentedSpinResult_def Let_def
  by (cases "acknowledges g") (simp_all add: held_effect held_asides split: bool.split)

lemma held_failed: "held c d \<Longrightarrow> held c (presentationFailed g cause r d)"
  unfolding presentationFailed_def Let_def
  by (intro held_barrier held_acknowledge held_steps; assumption?)

lemma held_complete: "held c d \<Longrightarrow> held c (presentationComplete g r d)"
  unfolding presentationComplete_def by (intro held_failed held_acknowledge held_steps; assumption?)

lemma held_roundComplete: "held c d \<Longrightarrow> held c (roundComplete g r d)"
  unfolding roundComplete_def by (intro held_failed held_steps; assumption?)

lemma held_presentation: "held c d \<Longrightarrow> held c (presentationSteps g checked p d)"
  unfolding presentationSteps_def Let_def
  by (cases "shown_stage p"; cases "presentedWins (shown_result p) = []"; simp only: round_stage.case if_True if_False simp_thms;
      intro held_barrier held_failed held_complete held_roundComplete held_steps; assumption?)

lemma held_throws: "held c d \<Longrightarrow> held c (launchThrows g cause d)"
  unfolding launchThrows_def Let_def by (intro held_option held_steps; assumption?)

lemma held_launch: "held c d \<Longrightarrow> held c (launchStep g d)"
  unfolding launchStep_def Let_def
  by (cases "launchTask d"; simp only: launch_task.case; intro held_throws held_release held_steps; assumption?)

lemma held_rest: "held c (selectBet bet c)" "held c (handleStatus g status c)" "held c (handleError g cause c)"
    "held c (handleOperatorSessionRequired g cause c)" "held c (initialSessionTimerFires g c)" "held c (timeoutConfirmed c)"
  unfolding selectBet_def handleStatus_def handleError_def handleOperatorSessionRequired_def initialSessionTimerFires_def
    timeoutConfirmed_def Let_def
  by (intro held_steps; assumption?)+

lemma held_ends: "held c (handleSessionTimeout c)" "held c (destroyController c)" "held c (startController g c)"
proof -
  show "held c (handleSessionTimeout c)"
    unfolding handleSessionTimeout_def by (intro held_steps; assumption?)
  show "held c (destroyController c)"
    unfolding destroyController_def by (intro held_steps; assumption?)
  show "held c (startController g c)"
    unfolding startController_def by (intro held_steps; assumption?)
qed

lemma held_step: "held c (controller_step g e c)"
proof (cases e)
  case (ReelHook hook)
  then show ?thesis
    by (auto simp: reelHook_def intro!: held_on held_failed split: list.split)
qed (simp_all add: held_requestSpin held_freeSpin held_handleSession held_handleSpinResult held_rest held_ends held_launch
    held_throws held_asides presentationStep_def presentationThrows_def held_presentation held_failed split: list.split)

lemma held_run: "held c (controller_run es c)"
  by (induction es arbitrary: c) (auto intro: held_trans held_step)

end
