(* ===== verification/Controller_Rounds.thy ===== *)
theory Controller_Rounds
  imports Controller_Ends Reel_Properties Wire_Messages
begin

text \<open>
  A round through the controller: what an accepted result goes through until it is settled, and
  that a failure at any point settles it too.
\<close>

section \<open>The parts of a round\<close>

lemma ex_if: "\<exists>t. a = f t \<Longrightarrow> \<exists>t. b = f t \<Longrightarrow> \<exists>t. (if p then a else b) = f t"
  by simp

lemma effect_more [simp]: "reelRound (effect e c) = reelRound c" "visibleBalanceMinor (effect e c) = visibleBalanceMinor c"
    "balanceVisibilityBlocked (effect e c) = balanceVisibilityBlocked c" "snapshot (effect e c) = snapshot c"
    "inactive (effect e c) = inactive c" "lastRoundId (effect e c) = lastRoundId c" "launchState (effect e c) = launchState c"
    "bufferedRecoveredSpinResult (effect e c) = bufferedRecoveredSpinResult c"
    "roundOriginFeatureState (effect e c) = roundOriginFeatureState c"
  by (simp_all add: effect_def inactive_def)

lemma refreshUi_timer: "\<exists>t. refreshUi pending c = c\<lparr>freeSpinTimer := t\<rparr>"
proof -
  have same: "\<exists>t. c = c\<lparr>freeSpinTimer := t\<rparr>" by (rule exI [of _ "freeSpinTimer c"]) simp
  show ?thesis
    unfolding refreshUi_def scheduleFreeSpin_def cancelScheduledFreeSpin_def
    by (intro ex_if same) (rule exI, rule refl)+
qed

lemma refreshUi_fields [simp]:
  "game (refreshUi p c) = game c" "reelRound (refreshUi p c) = reelRound c" "presentations (refreshUi p c) = presentations c"
  "effects (refreshUi p c) = effects c" "visibleBalanceMinor (refreshUi p c) = visibleBalanceMinor c"
  "balanceVisibilityBlocked (refreshUi p c) = balanceVisibilityBlocked c" "snapshot (refreshUi p c) = snapshot c"
  "inactive (refreshUi p c) = inactive c" "lastRoundId (refreshUi p c) = lastRoundId c" "launchState (refreshUi p c) = launchState c"
  "bufferedRecoveredSpinResult (refreshUi p c) = bufferedRecoveredSpinResult c" "sessionTimedOut (refreshUi p c) = sessionTimedOut c"
  "roundOriginFeatureState (refreshUi p c) = roundOriginFeatureState c" "destroyed (refreshUi p c) = destroyed c"
  using refreshUi_timer [of p c] by (auto simp: inactive_def)

lemma report_eq: "reportPlayerError cause ctx c = effect (ErrorShown (playerFacingErrorFor cause ctx)) (c\<lparr>lastErrorIsInitial := False\<rparr>)"
  by (simp add: reportPlayerError_def presentPlayerFacingError_def)

text \<open>A result is presented, and how far.\<close>

definition showing :: "controller \<Rightarrow> FeatureState \<Rightarrow> SpinResult \<Rightarrow> round_stage \<Rightarrow> controller \<Rightarrow> bool" where
  "showing c o1 r st d = (game d = presenting1
     \<and> presentations d = [\<lparr>shown_result = r, shown_origin = o1, shown_stage = st\<rparr>]
     \<and> \<not> inactive d \<and> snap_balance (snapshot d) = balanceMinor r
     \<and> accepted (effects d) = accepted (effects c) @ [(r, o1)] \<and> acknowledged (effects d) = acknowledged (effects c)
     \<and> (st = FeatureExit \<longrightarrow> \<not> balanceVisibilityBlocked d \<and> visibleBalanceMinor d = balanceMinor r))"

text \<open>The round is over: the server's balance is shown, the result acknowledged, the game ready.\<close>

definition settled :: "controller \<Rightarrow> FeatureState \<Rightarrow> SpinResult \<Rightarrow> controller \<Rightarrow> bool" where
  "settled c o1 r d = (game d = ready \<and> reel_state (reelRound d) = Idle \<and> presentations d = []
     \<and> \<not> balanceVisibilityBlocked d \<and> visibleBalanceMinor d = balanceMinor r
     \<and> accepted (effects d) = accepted (effects c) @ [(r, o1)]
     \<and> acknowledged (effects d) = acknowledged (effects c) @ [key r])"

lemma complete_presenting: "game_transition presenting1 PRESENTATION_COMPLETE = Inr ready"
  by (simp add: game_transition_def game_resolve_def)

lemma bystander_first [simp]: "bystander e \<Longrightarrow> accepted (e # es) = accepted es"
    "bystander e \<Longrightarrow> acknowledged (e # es) = acknowledged es"
  by (cases e; simp add: accepted_def acknowledged_def accepted1_def acknowledged1_def)+

lemma acknowledged_first [simp]: "accepted (ResultAcknowledged i n # es) = accepted es"
    "acknowledged (ResultAcknowledged i n # es) = (i, n) # acknowledged es"
  by (simp_all add: accepted_def acknowledged_def accepted1_def acknowledged1_def)

lemma acknowledge_cases:
  "acknowledgePresentedSpinResult g r c = effect (ResultAcknowledged (roundId r) (sequence r)) c
   \<or> (\<exists>x. acknowledgePresentedSpinResult g r c
        = effect (ErrorShown x) ((effect (ResultAcknowledged (roundId r) (sequence r)) c)\<lparr>lastErrorIsInitial := False\<rparr>))"
  unfolding acknowledgePresentedSpinResult_def Let_def report_eq
  by (simp split: option.split bool.split) blast

lemma acknowledged_fields:
  "game (acknowledgePresentedSpinResult g r c) = game c" "reelRound (acknowledgePresentedSpinResult g r c) = reelRound c"
  "presentations (acknowledgePresentedSpinResult g r c) = presentations c"
  "visibleBalanceMinor (acknowledgePresentedSpinResult g r c) = visibleBalanceMinor c"
  "balanceVisibilityBlocked (acknowledgePresentedSpinResult g r c) = balanceVisibilityBlocked c"
  "accepted (effects (acknowledgePresentedSpinResult g r c)) = accepted (effects c)"
  "acknowledged (effects (acknowledgePresentedSpinResult g r c)) = acknowledged (effects c) @ [key r]"
  using acknowledge_cases [of g r c] by (auto simp: key_def)

lemma failure_settles:
  assumes "showing c o1 r st d"
  shows "settled c o1 r (presentationFailed g cause r d)"
proof -
  define e where "e = reportPlayerError cause PresentationContext (resetReels (applyResultAtBalanceBarrier (taskEnds d)))"
  have "game e = presenting1" "reel_state (reelRound e) = Idle" "presentations e = []" "\<not> balanceVisibilityBlocked e"
      "visibleBalanceMinor e = balanceMinor r" "accepted (effects e) = accepted (effects c) @ [(r, o1)]"
      "acknowledged (effects e) = acknowledged (effects c)"
    using assms unfolding e_def
    by (simp_all add: showing_def report_eq resetReels_def attempt_def reel_transition_def barrier_fields taskEnds_def)
  then show ?thesis
    using assms by (simp add: presentationFailed_def Let_def showing_def onGame_def complete_presenting settled_def
        acknowledged_fields flip: e_def)
qed

lemma completion_settles:
  assumes "showing c o1 r st d" and "reel_state (reelRound d) = Idle" and "\<not> balanceVisibilityBlocked d"
    and "visibleBalanceMinor d = balanceMinor r"
  shows "settled c o1 r (presentationComplete g r d)"
  using assms by (simp add: presentationComplete_def showing_def onGame_def complete_presenting settled_def
      acknowledged_fields taskEnds_def)

lemma throw_settles: "showing c o1 r st d \<Longrightarrow> settled c o1 r (presentationThrows g cause d)"
  using failure_settles by (simp add: presentationThrows_def showing_def)

section \<open>The steps of a round\<close>

text \<open>
  The continuations and stop reports of one presentation, and where a round is before each of
  them. A step after the end of the round finds nothing to do.
\<close>

definition presentation_script :: "controller_event list" where
  "presentation_script = [PresentationContinues True, ReelHook (Some 0), ReelHook (Some 1), ReelHook (Some 2), ReelHook None,
     PresentationContinues True, PresentationContinues True, PresentationContinues True, PresentationContinues True,
     PresentationContinues True]"

definition stage_at :: "nat \<Rightarrow> round_stage" where
  "stage_at n = (if n = 0 then BeforeReels else if n \<le> 5 then StoppingReels else if n = 6 then ResultShow
     else if n = 7 then WinLines else if n = 8 then FeatureEvents else FeatureExit)"

definition reels_at :: "nat \<Rightarrow> string \<Rightarrow> ReelRoundSnapshot \<Rightarrow> bool" where
  "reels_at n rid h = (if n \<le> 4 then stopping (Some rid) (n - 1) h else if n \<le> 6 then shown (Some rid) h
     else if n = 7 then reel_state h = Win_Line_Animation else reel_state h = Idle)"

definition round_at :: "controller \<Rightarrow> FeatureState \<Rightarrow> SpinResult \<Rightarrow> nat \<Rightarrow> controller \<Rightarrow> bool" where
  "round_at c o1 r n d = (showing c o1 r (stage_at n) d \<and> reels_at n (roundId r) (reelRound d))"

lemma showing_stage: "showing c o1 r st d \<Longrightarrow> st' \<noteq> FeatureExit \<Longrightarrow> showing c o1 r st' (setStage st' d)"
  by (simp add: showing_def setStage_def inactive_def)

lemma showing_reels: "showing c o1 r st d \<Longrightarrow> showing c o1 r st (d\<lparr>reelRound := h\<rparr>)"
  by (simp add: showing_def inactive_def)

lemma stage_reels [simp]: "reelRound (setStage st d) = reelRound d"
  by (simp add: setStage_def)

lemma showing_step: "showing c o1 r st d \<Longrightarrow> presentationStep g checked d
    = presentationSteps g checked \<lparr>shown_result = r, shown_origin = o1, shown_stage = st\<rparr> d"
  by (simp add: presentationStep_def showing_def)

lemma showing_active: "showing c o1 r st d \<Longrightarrow> \<not> inactive d"
  by (simp add: showing_def)

lemma round_continues:
  assumes "round_at c o1 r 0 d" shows "round_at c o1 r 1 (presentationStep g checked d)"
  using assms showing_active [of c o1 r BeforeReels d]
  by (simp add: round_at_def stage_at_def reels_at_def showing_step [of c o1 r BeforeReels] presentationSteps_def
      showing_stage [of c o1 r BeforeReels])

lemma round_stopped:
  assumes "round_at c o1 r 5 d" shows "round_at c o1 r 6 (presentationStep g checked d)"
  using assms showing_active [of c o1 r StoppingReels d]
  by (simp add: round_at_def stage_at_def reels_at_def showing_step [of c o1 r StoppingReels] presentationSteps_def
      showing_stage [of c o1 r StoppingReels])

lemma round_hook:
  assumes "round_at c o1 r n d" and "n = Suc k" and "k < 3"
  shows "round_at c o1 r (Suc n) (reelHook g (Some k) d)"
proof -
  have d: "showing c o1 r StoppingReels d" "stopping (Some (roundId r)) k (reelRound d)"
    using assms by (simp_all add: round_at_def stage_at_def reels_at_def)
  with stopping_start [OF assms(3) d(2)] obtain h where
    h: "reel_transition (reelRound d) (REEL_STOP_STARTED (int k)) = Inr h" "stopping (Some (roundId r)) (Suc k) h"
    by (auto simp: reelHooks_def split: sum.splits)
  have "reelHook g (Some k) d = d\<lparr>reelRound := h\<rparr>"
    using d(1) h(1) by (simp add: reelHook_def showing_def onReels_def)
  moreover have "stage_at (Suc n) = StoppingReels" "reels_at (Suc n) (roundId r) h"
    using assms(2,3) h(2) by (simp_all add: stage_at_def reels_at_def)
  ultimately show ?thesis using showing_reels [OF d(1)] by (simp add: round_at_def)
qed

lemma round_all_stopped:
  assumes "round_at c o1 r 4 d" shows "round_at c o1 r 5 (reelHook g None d)"
proof -
  have d: "showing c o1 r StoppingReels d" "stopping (Some (roundId r)) 3 (reelRound d)"
    using assms by (simp_all add: round_at_def stage_at_def reels_at_def)
  with stopping_all [OF d(2)] obtain h where
    h: "reel_transition (reelRound d) ALL_REELS_STOPPED = Inr h" "shown (Some (roundId r)) h"
    by (auto simp: reelHooks_def split: sum.splits)
  have "reelHook g None d = d\<lparr>reelRound := h\<rparr>"
    using d(1) h(1) by (simp add: reelHook_def showing_def onReels_def)
  with h(2) showing_reels [OF d(1)] show ?thesis by (simp add: round_at_def stage_at_def reels_at_def)
qed

lemma win_started: "shown i h \<Longrightarrow> \<exists>q. reel_transition h WIN_PRESENTATION_STARTED = Inr q \<and> reel_state q = Win_Line_Animation"
  by (simp add: shown_def reel_transition_def reel_resolve_def Let_def)

lemma round_completed: "reel_state h = Win_Line_Animation \<Longrightarrow> \<exists>q. reel_transition h ROUND_COMPLETE = Inr q \<and> reel_state q = Idle"
  by (simp add: reel_transition_def reel_resolve_def Let_def)

lemma round_events:
  assumes "showing c o1 r st d" and "reel_state (reelRound d) = Win_Line_Animation"
  shows "round_at c o1 r 8 (roundComplete g r d)"
  using round_completed [OF assms(2)] showing_stage [OF showing_reels [OF assms(1)], of FeatureEvents]
  by (auto simp: roundComplete_def onReels_def round_at_def stage_at_def reels_at_def)

lemma round_result:
  assumes "round_at c o1 r 6 d"
  shows "round_at c o1 r 7 (presentationStep g checked d) \<or> round_at c o1 r 8 (presentationStep g checked d)"
proof -
  have d: "showing c o1 r ResultShow d" "shown (Some (roundId r)) (reelRound d)"
    using assms by (simp_all add: round_at_def stage_at_def reels_at_def)
  obtain h where h: "reel_transition (reelRound d) WIN_PRESENTATION_STARTED = Inr h" "reel_state h = Win_Line_Animation"
    using win_started [OF d(2)] by blast
  note e = showing_reels [OF d(1), of h]
  have "presentationStep g checked d
      = (if presentedWins r = [] then roundComplete g r (d\<lparr>reelRound := h\<rparr>) else setStage WinLines (d\<lparr>reelRound := h\<rparr>))"
    using d(1) h(1) showing_active [OF d(1)] by (simp add: showing_step presentationSteps_def onReels_def)
  moreover have "round_at c o1 r 7 (setStage WinLines (d\<lparr>reelRound := h\<rparr>))"
    using showing_stage [OF e] h(2) by (simp add: round_at_def stage_at_def reels_at_def)
  moreover have "round_at c o1 r 8 (roundComplete g r (d\<lparr>reelRound := h\<rparr>))"
    using e h(2) by (intro round_events) simp_all
  ultimately show ?thesis by simp
qed

lemma round_wins:
  assumes "round_at c o1 r 7 d" shows "round_at c o1 r 8 (presentationStep g checked d)"
proof -
  have d: "showing c o1 r WinLines d" "reel_state (reelRound d) = Win_Line_Animation"
    using assms by (simp_all add: round_at_def stage_at_def reels_at_def)
  with round_events [OF d] showing_active [OF d(1)] show ?thesis
    by (simp add: showing_step presentationSteps_def)
qed

lemma round_features:
  assumes "round_at c o1 r 8 d"
  shows "round_at c o1 r 9 (presentationStep g checked d) \<or> settled c o1 r (presentationStep g checked d)"
proof -
  have d: "showing c o1 r FeatureEvents d" "reel_state (reelRound d) = Idle"
    using assms by (simp_all add: round_at_def stage_at_def reels_at_def)
  define e where "e = applyResultAtBalanceBarrier d"
  have e: "showing c o1 r FeatureEvents e" "reel_state (reelRound e) = Idle" "\<not> balanceVisibilityBlocked e"
      "visibleBalanceMinor e = balanceMinor r"
    using d unfolding e_def by (simp_all add: showing_def barrier_fields inactive_def)
  have "presentationStep g checked d = (if didFeatureModeEnd o1 (featureState r) then setStage FeatureExit e
      else presentationComplete g r e)"
    using d(1) showing_active [OF d(1)]
    by (simp add: showing_step presentationSteps_def Let_def flip: e_def)
  moreover have "round_at c o1 r 9 (setStage FeatureExit e)"
    using e by (simp add: round_at_def stage_at_def reels_at_def showing_def setStage_def inactive_def)
  moreover have "settled c o1 r (presentationComplete g r e)"
    using e by (rule completion_settles)
  ultimately show ?thesis by simp
qed

lemma round_exit:
  assumes "round_at c o1 r 9 d" shows "settled c o1 r (presentationStep g checked d)"
proof -
  have d: "showing c o1 r FeatureExit d" "reel_state (reelRound d) = Idle"
    using assms by (simp_all add: round_at_def stage_at_def reels_at_def)
  then have "\<not> balanceVisibilityBlocked d" "visibleBalanceMinor d = balanceMinor r"
    by (simp_all add: showing_def)
  with completion_settles [OF d] showing_active [OF d(1)] d(1) show ?thesis
    by (simp add: showing_step presentationSteps_def)
qed

lemma settled_stays:
  assumes "settled c o1 r d"
  shows "presentationStep g checked d = d" "reelHook g hook d = d" "presentationThrows g cause d = d"
  using assms by (simp_all add: settled_def presentationStep_def reelHook_def presentationThrows_def)

text \<open>Where the round is after the first steps of the script.\<close>

definition reached :: "controller \<Rightarrow> FeatureState \<Rightarrow> SpinResult \<Rightarrow> nat \<Rightarrow> controller \<Rightarrow> bool" where
  "reached c o1 r n d = (settled c o1 r d \<or> (\<exists>m. round_at c o1 r m d \<and> m \<le> 9 \<and> (m = n \<or> 7 \<le> n \<and> n < m)))"

lemma late_step:
  assumes "round_at c o1 r m d" and "6 \<le> m" and "m \<le> 9" and "n \<le> m" and "m = n \<or> 7 \<le> n"
  shows "reached c o1 r (Suc n) (presentationStep g checked d)"
proof -
  have "m = 6 \<or> m = 7 \<or> m = 8 \<or> m = 9" using assms(2,3) by linarith
  then show ?thesis
  proof (elim disjE)
    assume "m = 6"
    with assms round_result [of c o1 r d g checked] show ?thesis by (auto simp: reached_def)
  next
    assume "m = 7"
    with assms round_wins [of c o1 r d g checked] show ?thesis by (auto simp: reached_def)
  next
    assume "m = 8"
    with assms round_features [of c o1 r d g checked] show ?thesis by (auto simp: reached_def)
  next
    assume "m = 9"
    with assms round_exit [of c o1 r d g checked] show ?thesis by (simp add: reached_def)
  qed
qed

lemma early_step:
  assumes "round_at c o1 r n d" and "n < 6"
  shows "reached c o1 r (Suc n) (controller_step g (presentation_script ! n) d)"
proof -
  have "n = 0 \<or> n = 1 \<or> n = 2 \<or> n = 3 \<or> n = 4 \<or> n = 5" using assms(2) by linarith
  then show ?thesis
    using assms(1) round_continues [of c o1 r d g True] round_hook [of c o1 r n d "n - 1" g]
      round_all_stopped [of c o1 r d g] round_stopped [of c o1 r d g True]
    by (elim disjE) (simp_all add: reached_def presentation_script_def numeral_eq_Suc)
qed

lemma script_late: "6 \<le> n \<Longrightarrow> n < 10 \<Longrightarrow> presentation_script ! n = PresentationContinues True"
proof -
  assume "6 \<le> n" "n < 10"
  then have "n = 6 \<or> n = 7 \<or> n = 8 \<or> n = 9" by linarith
  then show ?thesis by (elim disjE) (simp_all add: presentation_script_def numeral_eq_Suc)
qed

lemma script_settled:
  assumes "settled c o1 r d" and "n < 10"
  shows "controller_step g (presentation_script ! n) d = d"
proof -
  have "presentation_script ! n \<in> set presentation_script"
    using assms(2) by (intro nth_mem) (simp add: presentation_script_def)
  then show ?thesis
    using settled_stays [OF assms(1)] by (auto simp: presentation_script_def)
qed

lemma reached_step:
  assumes "reached c o1 r n d" and "n < 10"
  shows "reached c o1 r (Suc n) (controller_step g (presentation_script ! n) d)"
proof (cases "settled c o1 r d")
  case True
  with script_settled [OF True assms(2)] show ?thesis by (simp add: reached_def)
next
  case False
  with assms(1) obtain m where m: "round_at c o1 r m d" "m \<le> 9" "m = n \<or> 7 \<le> n \<and> n < m"
    by (auto simp: reached_def)
  show ?thesis
  proof (cases "n < 6")
    case True
    with m early_step show ?thesis by simp
  next
    case False
    then show ?thesis using m assms(2) late_step [OF m(1), of n g True] script_late [of n] by auto
  qed
qed

lemma reached_script:
  assumes "reached c o1 r 0 d" and "n \<le> 10"
  shows "reached c o1 r n (controller_run (map (Pair g) (take n presentation_script)) d)"
  using assms(2)
proof (induction n)
  case 0
  with assms(1) show ?case by simp
next
  case (Suc n)
  have "take (Suc n) presentation_script = take n presentation_script @ [presentation_script ! n]"
    using Suc.prems by (intro take_Suc_conv_app_nth) (simp add: presentation_script_def)
  with Suc reached_step show ?case by simp
qed

lemma reached_throws: "reached c o1 r n d \<Longrightarrow> settled c o1 r (presentationThrows g cause d)"
  by (auto simp: reached_def round_at_def settled_stays dest: throw_settles)

lemma reached_end: "reached c o1 r 10 d \<Longrightarrow> settled c o1 r d"
  by (auto simp: reached_def)

section \<open>The start of a round\<close>

definition ready_for :: "gateway_view \<Rightarrow> controller \<Rightarrow> bool" where
  "ready_for g c = (game c = ready \<and> reel_state (reelRound c) = Idle \<and> \<not> inactive c \<and> presentations c = []
     \<and> canEnterGame (launchState c) \<and> bufferedRecoveredSpinResult c = None
     \<and> acceptsSpin g \<and> \<not> hasPendingSpin g)"

definition requested :: "controller \<Rightarrow> string \<Rightarrow> controller \<Rightarrow> bool" where
  "requested c rid d = (game d = requesting \<and> reel_state (reelRound d) = Spinning \<and> reel_roundId (reelRound d) = Some rid
     \<and> \<not> inactive d \<and> presentations d = [] \<and> canEnterGame (launchState d) \<and> bufferedRecoveredSpinResult d = None
     \<and> roundOriginFeatureState d = Some (snap_feature (snapshot c)) \<and> lastRoundId d = lastRoundId c
     \<and> accepted (effects d) = accepted (effects c) \<and> acknowledged (effects d) = acknowledged (effects c))"

lemma spin_requested:
  assumes "ready_for g c" and "trim rid = rid" and "rid \<noteq> []"
  shows "requested c rid (requestSpin g False rid c)"
proof -
  obtain h where h: "reel_transition (reelRound c) (SPIN_ACCEPTED rid) = Inr h" "reel_state h = Spin_Start" "reel_roundId h = Some rid"
    using assms by (simp add: ready_for_def reel_transition_def reel_resolve_def Let_def)
  obtain h' where h': "reel_transition h REELS_STARTED = Inr h'" "reel_state h' = Spinning" "reel_roundId h' = Some rid"
    using h by (simp add: reel_transition_def reel_resolve_def Let_def)
  have "game_transition ready SPIN_REQUESTED = Inr requesting"
    by (simp add: game_transition_def game_resolve_def)
  with assms(1) h h' show ?thesis
    by (simp add: requestSpin_def ready_for_def requested_def Let_def onReels_def onGame_def cancelScheduledFreeSpin_def
        inactive_def)
qed

lemma validated:
  assumes "wf_result r" and "validateSpinResultAgainstOrigin o1 r = Inr ()"
  obtains rid where "validateAuthoritativeSpinResult r o1 = Some rid" and "round_roundId rid = roundId r"
    and "3 \<le> round_rows rid" and "round_rows rid \<le> 8"
proof -
  have grid: "wf_grid (result_grid r)" using assms(1) by (simp add: wf_result_def)
  then obtain a b x where abx: "result_grid r = [a, b, x]"
    by (auto simp: wf_grid_def length_Suc_conv numeral_3_eq_3)
  with grid have "\<not> malformedGrid (result_grid r)" "3 \<le> length (hd (result_grid r))" "length (hd (result_grid r)) \<le> 8"
    by (auto simp: wf_grid_def wf_reel_def malformedGrid_def Let_def numeral_2_eq_2)
  with assms(2) show thesis
    by (intro that [of "the (validateAuthoritativeSpinResult r o1)"])
      (simp_all add: validateAuthoritativeSpinResult_def authoritativeReelRoundFromV1_def)
qed

lemma result_accepted:
  assumes "requested c (roundId r) d" and "recovered \<in> {None, Some (snap_feature (snapshot c))}"
    and "wf_result r" and "validateSpinResultAgainstOrigin (snap_feature (snapshot c)) r = Inr ()"
    and "lastRoundId c \<noteq> Some (roundId r)"
  shows "round_at c (snap_feature (snapshot c)) r 0 (acceptSpinResult g r recovered d)"
proof -
  obtain rid where rid: "validateAuthoritativeSpinResult r (snap_feature (snapshot c)) = Some rid" "round_roundId rid = roundId r"
      "3 \<le> round_rows rid" "round_rows rid \<le> 8"
    using validated [OF assms(3,4)] by blast
  obtain h where h: "reel_transition (reelRound d) (RESULT_RECEIVED (roundId r) (JsInt (round_rows rid))) = Inr h"
      "stopping (Some (roundId r)) 0 h"
    using assms(1) rid by (simp add: requested_def reel_transition_def reel_resolve_def Let_def stopping_def)
  have "game_transition requesting SPIN_RESULT = Inr presenting1"
    by (simp add: game_transition_def game_resolve_def)
  with assms(1,2,5) rid h show ?thesis
    by (auto simp: acceptSpinResult_def requested_def Let_def onReels_def onGame_def round_at_def stage_at_def reels_at_def
        showing_def inactive_def)
qed

lemma result_arrives:
  assumes "requested c (roundId r) d" and "origin = None \<or> origin = Some (snap_feature (snapshot c))"
    and "wf_result r" and "validateSpinResultAgainstOrigin (snap_feature (snapshot c)) r = Inr ()"
    and "lastRoundId c \<noteq> Some (roundId r)"
  shows "round_at c (snap_feature (snapshot c)) r 0 (handleSpinResult g r origin d)"
proof (cases origin)
  case None
  with result_accepted [OF assms(1) _ assms(3-5)] assms(1) show ?thesis
    by (simp add: handleSpinResult_def requested_def inactive_def)
next
  case (Some o1)
  define e where "e = d\<lparr>bufferedRecoveredSpinResult := None\<rparr>"
  have e: "requested c (roundId r) e" using assms(1) by (simp add: e_def requested_def inactive_def)
  have o1: "o1 = snap_feature (snapshot c)" using assms(2) Some by simp
  obtain rid where rid: "validateAuthoritativeSpinResult r o1 = Some rid"
    using validated [OF assms(3,4)] o1 by blast
  have "handleSpinResult g r origin d = acceptSpinResult g r (Some o1) e"
    using assms(1,5) Some rid o1
    by (simp add: handleSpinResult_def bufferRecoveredSpinResult_def releaseBufferedRecoveredSpinResult_def requested_def
        inactive_def Let_def e_def)
  with result_accepted [OF e _ assms(3-5)] o1 show ?thesis by simp
qed

lemma reached_start: "round_at c o1 r 0 d \<Longrightarrow> reached c o1 r 0 d"
  by (auto simp: reached_def)

lemma identifier_trim:
  assumes "identifier_ok s"
  shows "trim s = s" and "s \<noteq> []"
proof -
  have s: "s \<noteq> []" "list_all is_identifier_char s"
    using assms by (auto simp: identifier_ok_def IDENTIFIER_PATTERN_def is_identifier_char_def split: list.splits)
  have plain: "\<not> is_space c" if "is_identifier_char c" for c
    using that by (auto simp: is_identifier_char_def is_alnum_def is_space_def is_upper_def is_lower_def is_digit_def code_def)
  have drop: "dropWhile is_space t = t" if "t \<noteq> []" "list_all is_identifier_char t" for t
    using that plain by (cases t) simp_all
  show "trim s = s" using s by (simp add: trim_def drop)
  show "s \<noteq> []" by (rule s)
qed

end
