(* ===== verification/Controller_Types.thy ===== *)
theory Controller_Types
  imports Controller_Safety
begin

text \<open>
  What the machines and timers of the controller satisfy in every state: the snapshots of the reel
  machine and of the launch are well formed, a session announced to the launch was opened, and an
  armed free-spin timer is about a feature with spins left.
\<close>

definition timer_typed :: "(FeatureMode \<times> int) option \<Rightarrow> bool" where
  "timer_typed t = (case t of None \<Rightarrow> True | Some (m, n) \<Rightarrow> m \<noteq> BASE \<and> 0 < n \<and> safe_int n)"

definition controller_typed :: "controller \<Rightarrow> bool" where
  "controller_typed c = (reel_inv (reelRound c) \<and> launch_inv (launchState c) \<and> timer_typed (freeSpinTimer c)
     \<and> (sessionReady (launchState c) \<longrightarrow> hasOpenedSession c))"

lemma launch_transition_session:
  "launch_transition l e = Inr l' \<Longrightarrow> e \<noteq> SESSION_READY \<Longrightarrow> sessionReady l' = sessionReady l"
  by (auto simp: launch_transition_def Let_def split: if_splits)

lemma typed_new: "controller_typed newController"
  by (simp add: controller_typed_def newController_def timer_typed_def reel_inv_def idleReels_def launch_inv_def bootLaunch_def)

text \<open>The updates that touch none of this.\<close>

lemma typed_update:
  "controller_typed c \<Longrightarrow> controller_typed (effect e c)"
  "controller_typed c \<Longrightarrow> controller_typed (c\<lparr>game := p\<rparr>)" "controller_typed c \<Longrightarrow> controller_typed (c\<lparr>snapshot := sn\<rparr>)"
  "controller_typed c \<Longrightarrow> controller_typed (c\<lparr>presentations := ps\<rparr>)" "controller_typed c \<Longrightarrow> controller_typed (c\<lparr>lastRoundId := i\<rparr>)"
  "controller_typed c \<Longrightarrow> controller_typed (c\<lparr>destroyed := b\<rparr>)" "controller_typed c \<Longrightarrow> controller_typed (c\<lparr>sessionTimedOut := b\<rparr>)"
  "controller_typed c \<Longrightarrow> controller_typed (taskEnds c)" "controller_typed c \<Longrightarrow> controller_typed (setStage st c)"
  "controller_typed c \<Longrightarrow> controller_typed (applyResultAtBalanceBarrier c)"
  "controller_typed c \<Longrightarrow> controller_typed (c\<lparr>balanceVisibilityBlocked := b\<rparr>)"
  "controller_typed c \<Longrightarrow> controller_typed (c\<lparr>roundOriginFeatureState := o1\<rparr>)"
  "controller_typed c \<Longrightarrow> controller_typed (c\<lparr>bufferedRecoveredSpinResult := bb\<rparr>)"
  "controller_typed c \<Longrightarrow> controller_typed (c\<lparr>launchTask := k\<rparr>)" "controller_typed c \<Longrightarrow> controller_typed (c\<lparr>connectionStatus := s\<rparr>)"
  "controller_typed c \<Longrightarrow> controller_typed (c\<lparr>initialRgsSessionTimer := b\<rparr>)"
  "controller_typed c \<Longrightarrow> controller_typed (c\<lparr>initialSessionFailure := f\<rparr>)"
  "controller_typed c \<Longrightarrow> controller_typed (c\<lparr>lastErrorIsInitial := b\<rparr>)"
  "controller_typed c \<Longrightarrow> controller_typed (c\<lparr>sessionMoneyBinding := m\<rparr>)"
  "controller_typed c \<Longrightarrow> controller_typed (c\<lparr>operatorSessionRequestSent := b\<rparr>)"
  "controller_typed c \<Longrightarrow> controller_typed (c\<lparr>freeSpinTimer := None\<rparr>)"
  by (simp_all add: controller_typed_def effect_def taskEnds_def setStage_def barrier_fields timer_typed_def)

lemma typed_if: "(p \<Longrightarrow> controller_typed c) \<Longrightarrow> (\<not> p \<Longrightarrow> controller_typed d) \<Longrightarrow> controller_typed (if p then c else d)"
  by simp

lemma typed_option: "(x = None \<Longrightarrow> controller_typed d) \<Longrightarrow> (\<And>y. x = Some y \<Longrightarrow> controller_typed (f y))
    \<Longrightarrow> controller_typed (case x of None \<Rightarrow> d | Some y \<Rightarrow> f y)"
  by (cases x) simp_all

lemma typed_reels:
  assumes "controller_typed c" and "controller_typed (refused c)" and "\<And>d. controller_typed d \<Longrightarrow> controller_typed (next1 d)"
  shows "controller_typed (onReels e refused next1 c)"
proof (cases "reel_transition (reelRound c) e")
  case (Inr s)
  then have "reel_inv s" using assms(1) reel_transition_inv [OF _ Inr] by (simp add: controller_typed_def)
  with assms(1) have "controller_typed (c\<lparr>reelRound := s\<rparr>)" by (simp add: controller_typed_def)
  with Inr assms(3) show ?thesis by (simp add: onReels_def)
qed (use assms in \<open>simp add: onReels_def\<close>)

lemma typed_game:
  assumes "controller_typed c" and "controller_typed (refused c)" and "\<And>d. controller_typed d \<Longrightarrow> controller_typed (next1 d)"
  shows "controller_typed (onGame e refused next1 c)"
  using assms by (simp add: onGame_def typed_update split: sum.split)

lemma typed_launch:
  assumes "controller_typed c" and "e = SESSION_READY \<longrightarrow> hasOpenedSession c"
    and "controller_typed (refused c)" and "\<And>d. controller_typed d \<Longrightarrow> controller_typed (next1 d)"
  shows "controller_typed (onLaunch e refused next1 c)"
proof (cases "launch_transition (launchState c) e")
  case (Inr l)
  then have "launch_inv l" using assms(1) launching.inv_step by (auto simp: controller_typed_def)
  moreover have "sessionReady l \<longrightarrow> hasOpenedSession c"
    using assms(1,2) launch_transition_session [OF Inr] by (auto simp: controller_typed_def)
  ultimately have "controller_typed (c\<lparr>launchState := l\<rparr>)" using assms(1) by (simp add: controller_typed_def)
  with Inr assms(4) show ?thesis by (simp add: onLaunch_def)
qed (use assms in \<open>simp add: onLaunch_def\<close>)

lemma typed_reset: "controller_typed c \<Longrightarrow> controller_typed (resetReels c)"
  using reel_transition_reset [of "reelRound c"]
  by (simp add: resetReels_def controller_typed_def attempt_def reel_transition_def)

lemma typed_refresh: "controller_typed c \<Longrightarrow> controller_typed (refreshUi p c)"
  by (simp add: refreshUi_def scheduleFreeSpin_def cancelScheduledFreeSpin_def typed_update)
    (simp add: controller_typed_def timer_typed_def shouldScheduleFreeSpin_def autoplayGate_def)

lemma typed_failure: "controller_typed c \<Longrightarrow> controller_typed (completeLaunchFailure p i e c)"
  unfolding completeLaunchFailure_def presentPlayerFacingError_def threw_def
  by (intro typed_launch typed_refresh typed_if typed_update; simp)

section \<open>The handlers\<close>

lemmas typed_ops = typed_if typed_option typed_reels typed_game typed_reset typed_refresh typed_failure typed_update

lemma typed_report: "controller_typed c \<Longrightarrow> controller_typed (presentPlayerFacingError i e c)"
    "controller_typed c \<Longrightarrow> controller_typed (reportPlayerError cause ctx c)"
    "controller_typed c \<Longrightarrow> controller_typed (threw c)" "controller_typed c \<Longrightarrow> controller_typed (cancelScheduledFreeSpin c)"
    "controller_typed c \<Longrightarrow> controller_typed (closesGateway c)"
    "controller_typed c \<Longrightarrow> controller_typed (requestOperatorSession e reason c)"
  unfolding presentPlayerFacingError_def reportPlayerError_def threw_def cancelScheduledFreeSpin_def closesGateway_def
    requestOperatorSession_def
  by (simp_all add: typed_update)

lemma typed_failInitial: "controller_typed c \<Longrightarrow> controller_typed (failInitialRgsSession g e reason c)"
  unfolding failInitialRgsSession_def by (intro typed_report typed_ops; assumption?)

lemma typed_requestSpin: "controller_typed c \<Longrightarrow> controller_typed (requestSpin g taken rid c)"
  unfolding requestSpin_def Let_def by (intro typed_report typed_ops; assumption?)

lemma typed_freeSpin: "controller_typed c \<Longrightarrow> controller_typed (freeSpinTimerFires g taken rid c)"
  by (simp add: freeSpinTimerFires_def Let_def typed_requestSpin typed_update split: option.split prod.split)

lemma typed_session:
  assumes "controller_typed c"
  shows "controller_typed (applySession pending s c)" "hasOpenedSession (applySession pending s c)"
  using assms by (simp_all add: applySession_def Let_def controller_typed_def)

lemma typed_announce:
  assumes "controller_typed c" and "hasOpenedSession c"
  shows "controller_typed (onLaunch SESSION_READY threw (refreshUi p) c)"
  using assms by (intro typed_launch typed_report typed_refresh) simp_all

lemma typed_reopen:
  assumes "controller_typed c" and "hasOpenedSession c"
  shows "controller_typed (reopenGame pending (onLaunch SESSION_READY threw (refreshUi p)) c)"
  using assms typed_announce typed_report(3)
  by (auto simp: reopenGame_def onGame_def typed_update split: sum.split)

lemma typed_handleSession: "controller_typed c \<Longrightarrow> controller_typed (handleSession g s c)"
  unfolding handleSession_def acceptSessionMoneyBinding_def
  by (intro typed_reopen typed_session typed_report typed_ops; assumption?)

lemma typed_reject: "controller_typed c \<Longrightarrow> controller_typed (rejectSpinResult g c)"
  unfolding rejectSpinResult_def by (intro typed_report typed_ops; assumption?)

lemma typed_accept: "controller_typed c \<Longrightarrow> controller_typed (acceptSpinResult g r o1 c)"
  unfolding acceptSpinResult_def Let_def by (intro typed_reject typed_report typed_ops; assumption?)

lemma typed_release: "controller_typed c \<Longrightarrow> controller_typed (releaseBufferedRecoveredSpinResult g c)"
  unfolding releaseBufferedRecoveredSpinResult_def Let_def beginRecoveredSpinPresentation_def
  by (intro typed_reject typed_accept typed_report typed_ops; assumption?)

lemma typed_handleSpinResult: "controller_typed c \<Longrightarrow> controller_typed (handleSpinResult g r origin c)"
  unfolding handleSpinResult_def bufferRecoveredSpinResult_def Let_def
  by (intro typed_reject typed_accept typed_release typed_report typed_ops; assumption?)

lemma typed_acknowledge: "controller_typed c \<Longrightarrow> controller_typed (acknowledgePresentedSpinResult g r c)"
  unfolding acknowledgePresentedSpinResult_def Let_def
  by (cases "acknowledges g") (simp_all add: typed_update typed_report split: bool.split)

lemma typed_failed: "controller_typed c \<Longrightarrow> controller_typed (presentationFailed g cause r c)"
  unfolding presentationFailed_def Let_def
  by (intro typed_acknowledge typed_report typed_ops; assumption?)

lemma typed_complete: "controller_typed c \<Longrightarrow> controller_typed (presentationComplete g r c)"
  unfolding presentationComplete_def by (intro typed_failed typed_acknowledge typed_ops; assumption?)

lemma typed_roundComplete: "controller_typed c \<Longrightarrow> controller_typed (roundComplete g r c)"
  unfolding roundComplete_def by (intro typed_failed typed_ops; assumption?)

lemma typed_presentation: "controller_typed c \<Longrightarrow> controller_typed (presentationSteps g checked p c)"
  unfolding presentationSteps_def Let_def
  by (cases "shown_stage p"; cases "presentedWins (shown_result p) = []"; simp only: round_stage.case if_True if_False simp_thms;
      intro typed_failed typed_complete typed_roundComplete typed_ops; assumption?)

lemma typed_throws: "controller_typed c \<Longrightarrow> controller_typed (launchThrows g cause c)"
  unfolding launchThrows_def Let_def by (intro typed_option typed_ops; assumption?)

lemma typed_launchStep: "controller_typed c \<Longrightarrow> controller_typed (launchStep g c)"
  unfolding launchStep_def Let_def
  by (cases "launchTask c"; simp only: launch_task.case;
      intro typed_launch typed_throws typed_release typed_ops; assumption?; simp)

lemma typed_start: "controller_typed c \<Longrightarrow> controller_typed (startController g c)"
  unfolding startController_def by (intro typed_launch typed_report typed_ops; assumption?; simp)

lemma typed_errors: "controller_typed c \<Longrightarrow> controller_typed (handleError g cause c)"
    "controller_typed c \<Longrightarrow> controller_typed (handleOperatorSessionRequired g cause c)"
    "controller_typed c \<Longrightarrow> controller_typed (initialSessionTimerFires g c)"
    "controller_typed c \<Longrightarrow> controller_typed (timeoutConfirmed c)" "controller_typed c \<Longrightarrow> controller_typed (handleStatus g st c)"
    "controller_typed c \<Longrightarrow> controller_typed (selectBet bet c)" "controller_typed c \<Longrightarrow> controller_typed (handleSessionTimeout c)"
    "controller_typed c \<Longrightarrow> controller_typed (destroyController c)"
  unfolding handleError_def handleOperatorSessionRequired_def initialSessionTimerFires_def timeoutConfirmed_def handleStatus_def
    selectBet_def handleSessionTimeout_def destroyController_def Let_def
  by (intro typed_failInitial typed_report typed_ops; assumption?)+

lemma typed_step:
  assumes "controller_typed c"
  shows "controller_typed (controller_step g e c)"
proof (cases e)
  case (ReelHook hook)
  then show ?thesis
    using assms by (auto simp: reelHook_def intro!: typed_reels typed_failed split: list.split)
qed (use assms in \<open>simp_all add: typed_requestSpin typed_freeSpin typed_handleSession typed_handleSpinResult typed_errors
    typed_launchStep typed_throws typed_start typed_refresh presentationStep_def presentationThrows_def typed_presentation
    typed_failed split: list.split\<close>)

lemma typed_run: "controller_typed c \<Longrightarrow> controller_typed (controller_run es c)"
  by (induction es arbitrary: c) (simp_all add: typed_step)

end
