(* ===== verification/Controller_Properties.thy ===== *)
theory Controller_Properties
  imports Controller_Rounds Controller_Types Decoder_Properties Origin_Properties
begin

text \<open>
  What the controller does with a round, whatever the interleaving of its callbacks, timers and
  continuations, with a sample run from the creation of the controller to the end of a round.
\<close>

section \<open>A sample run\<close>

definition quietGateway :: gateway_view where
  "quietGateway = \<lparr>hasPendingSpin = False, stillPending = True, acceptsSpin = True, acknowledges = Some True,
     operatorSessions = False\<rparr>"

definition sampleSession :: SessionOpened where
  "sampleSession = \<lparr>opened_requestId = ''open-1'', opened_sessionId = ''session-1'', currency = ''EUR'', currencyExponent = 2,
     opened_balanceMinor = ''100000'', betOptionsMinor = [''100''], defaultBetMinor = ''100'', opened_featureState = baseState\<rparr>"

definition openingEvents :: "(gateway_view \<times> controller_event) list" where
  "openingEvents = map (Pair quietGateway) [Started, StatusArrives status_connecting, StatusArrives status_online,
     SessionArrives sampleSession, LaunchContinues, LaunchContinues, LaunchContinues, LaunchContinues]"

definition sampleRound :: "(gateway_view \<times> controller_event) list" where
  "sampleRound = openingEvents @ map (Pair quietGateway)
     ([SpinPressed False (roundId triggerResult), SpinResultArrives triggerResult None] @ presentation_script)"

lemma sample_ready: "ready_for quietGateway (controller_run openingEvents newController)"
    "snap_feature (snapshot (controller_run openingEvents newController)) = baseState"
    "lastRoundId (controller_run openingEvents newController) = None"
  by code_simp+

lemma triggered: "validateSpinResultAgainstOrigin baseState triggerResult = Inr ()"
  using trigger_accepted by (simp add: accepts_def)

section \<open>Rounds\<close>

text \<open>
  C2: every round is accounted for, over all interleavings of the gateway's callbacks, the
  player's input, the timers and the continuations of the presentation. At most one result is
  presented at a time; every accepted result passed the shape check and the origin guard; results
  are acknowledged in the order they were accepted, each at most as often as it was accepted; as
  long as the controller is neither destroyed nor timed out the accepted results are exactly the
  acknowledged ones followed by the one on display, and a spin is asked for and a result accepted
  only when none is waiting for its acknowledgement. A new session is asked of the operator at
  most once.
\<close>

theorem rounds_acknowledged_once:
  fixes es
  defines "c \<equiv> controller_run es newController"
  shows "length (presentations c) \<le> 1 \<and> operator_asked (effects c) \<le> 1
    \<and> list_all (\<lambda>(r, o1). validateAuthoritativeSpinResult r o1 \<noteq> None) (accepted (effects c))
    \<and> subseq (acknowledged (effects c)) (map (key \<circ> fst) (accepted (effects c)))
    \<and> (\<not> inactive c \<longrightarrow>
        map (key \<circ> fst) (accepted (effects c)) = acknowledged (effects c) @ map (key \<circ> shown_result) (presentations c)
        \<and> rounds_open (effects c) = Some (length (presentations c)))"
proof -
  have inv: "round_inv c" unfolding c_def by (rule controller_run_inv [OF inv_new])
  have "subseq (acknowledged (effects c)) (acknowledged (effects c) @ map (key \<circ> shown_result) (presentations c))"
    by (simp add: prefix_imp_subseq)
  with inv have "subseq (acknowledged (effects c)) (map (key \<circ> fst) (accepted (effects c)))"
    unfolding round_inv_def by (meson subseq_order.trans)
  with inv show ?thesis by (simp add: round_inv_def asked_ok_def)
qed

text \<open>
  C3: a spin runs through. The controller is ready for a spin, the player presses the button, and
  a decoded result of this round arrives that the origin guard accepts, as a fresh or as a
  recovered one. After the continuations and stop reports of its presentation, or after any number
  of them and a failure at that point, the round is settled: the game is ready again, the reels
  are idle, the player sees the balance of the server, and the result was accepted once and
  acknowledged once.
\<close>

theorem spin_runs_through:
  assumes "ready_for g c" and "lastRoundId c \<noteq> Some (roundId r)" and "decodeMessage v = Inr (Result r)"
    and "validateSpinResultAgainstOrigin (snap_feature (snapshot c)) r = Inr ()"
    and "origin = None \<or> origin = Some (snap_feature (snapshot c))" and "n \<le> 10"
  shows "settled c (snap_feature (snapshot c)) r (controller_run (map (Pair g)
      ([SpinPressed False (roundId r), SpinResultArrives r origin] @ presentation_script)) c)
    \<and> settled c (snap_feature (snapshot c)) r (controller_run (map (Pair g)
      ([SpinPressed False (roundId r), SpinResultArrives r origin] @ take n presentation_script @ [PresentationThrows cause])) c)"
proof -
  have wf: "wf_result r" using message.sound [OF assms(3)] by simp
  then have rid: "identifier_ok (roundId r)" by (simp add: wf_result_def)
  note start = result_arrives [OF spin_requested [OF assms(1) identifier_trim [OF rid]] assms(5) wf assms(4,2)]
  note script = reached_script [OF reached_start [OF start], of _ g g]
  have "take 10 presentation_script = presentation_script" by (simp add: presentation_script_def)
  with reached_end [OF script [of 10]] reached_throws [OF script [OF assms(6)], of g cause] show ?thesis by simp
qed


text \<open>
  C21: an ended session is silent. Once the session has timed out, no event brings the game out
  of its failed state, asks for a spin, accepts a result or acknowledges one.
\<close>

theorem ended_session_is_silent:
  assumes "sessionTimedOut (controller_run es newController)"
  shows "game (controller_run (es @ fs) newController) = failed
    \<and> rounds_open (effects (controller_run (es @ fs) newController)) = rounds_open (effects (controller_run es newController))
    \<and> accepted (effects (controller_run (es @ fs) newController)) = accepted (effects (controller_run es newController))
    \<and> acknowledged (effects (controller_run (es @ fs) newController)) = acknowledged (effects (controller_run es newController))
    \<and> (\<forall>i b. SpinRequested i b \<notin> set (drop (length (effects (controller_run es newController)))
                (effects (controller_run (es @ fs) newController))))"
proof -
  have "game (controller_run es newController) = failed"
    using controller_run_inv [OF inv_new, of es] assms by (simp add: round_inv_def)
  with over_run [OF assms, of fs] obtain new1 where "game (controller_run (es @ fs) newController) = failed"
      "effects (controller_run (es @ fs) newController) = effects (controller_run es newController) @ new1" "list_all bystander new1"
    by (auto simp: over_def)
  then show ?thesis
    using rounds_open_bystander effects_bystander by (auto simp: list_all_iff)
qed

text \<open>
  C30: the machines of the controller keep their types over all interleavings: the reel snapshot
  is well formed (three to eight rows from the result on, the stopped reels in order), the game is
  entered with a session only, a session announced to the launch was opened, and an armed
  free-spin timer is about a feature with a safe, positive number of spins left.
\<close>

theorem controller_well_typed: "controller_typed (controller_run es newController)"
  by (rule typed_run [OF typed_new])

section \<open>Witnesses\<close>

theorem rounds_acknowledged_once_witness:
  "map (key \<circ> fst) (accepted (effects (controller_run sampleRound newController)))
     = acknowledged (effects (controller_run sampleRound newController)) \<and> key triggerResult = (''round-1'', 1)"
proof -
  have "\<not> inactive (controller_run sampleRound newController)" "presentations (controller_run sampleRound newController) = []"
    by code_simp+
  with rounds_acknowledged_once [of sampleRound] show ?thesis
    by (simp add: key_def triggerResult_def spinResult_def)
qed

theorem spin_runs_through_witness:
  "settled (controller_run openingEvents newController) baseState triggerResult (controller_run sampleRound newController)"
proof -
  have "settled (controller_run openingEvents newController) baseState triggerResult
      (controller_run (map (Pair quietGateway) ([SpinPressed False (roundId triggerResult), SpinResultArrives triggerResult None]
        @ presentation_script)) (controller_run openingEvents newController))"
    using spin_runs_through [OF sample_ready(1) _ trigger_decoded _ _ order.refl, of None NoCause] sample_ready(2,3) triggered
    by simp
  then show ?thesis by (simp add: sampleRound_def)
qed


theorem ended_session_is_silent_witness:
  "game (controller_run ((openingEvents @ [(quietGateway, SessionTimeoutArrives)])
     @ [(quietGateway, SpinPressed False ''round-1''), (quietGateway, SessionArrives sampleSession)]) newController) = failed"
proof -
  have "sessionTimedOut (controller_run (openingEvents @ [(quietGateway, SessionTimeoutArrives)]) newController)"
    by code_simp
  from ended_session_is_silent [OF this, of "[(quietGateway, SpinPressed False ''round-1''), (quietGateway, SessionArrives sampleSession)]"]
  show ?thesis by simp
qed

end
