(* ===== verification/Spin_Control.thy ===== *)
theory Spin_Control
  imports Protocol_Types Complex_Main
begin

text \<open>
  The pure part of the spin control of the HUD (\<open>ui/DomOverlay.ts\<close>): what the main button shows and
  does in each mode, the step of an automatic run, the four conditions that stop one and how they
  are stored, and the pay table in money of the bet. \<open>JSON.parse\<close>, \<open>JSON.stringify\<close> and the
  storage of the browser are arguments.
\<close>

section \<open>The main button\<close>

datatype SpinMode =
    mode_ready | mode_waiting | fast_stop | big_win_skip | normal_win_skip | feature_continue
  | free_spin_summary_continue | cap_continue | wheel_popup_continue | wheel_ready | wheel_summary_continue
  | wheel_fast_stop | wheel_landing_continue | wheel_none

datatype SpinControlAction = act_spin | act_fast_stop | act_continue | act_wheel_spin | act_wheel_quick_stop | act_none

datatype button_mode = data_ready | data_continue | data_waiting | data_none

datatype visual_token = show_spin | show_continue | show_disabled_spin | show_none

record SpinControlPresentation =
  dataMode :: button_mode
  action :: SpinControlAction
  visualToken :: visual_token
  ariaLabel :: string
  control_text :: string
  disabled :: bool

fun spinControlPresentation :: "SpinMode \<Rightarrow> bool \<Rightarrow> SpinControlPresentation" where
  "spinControlPresentation mode_ready canSpin = \<lparr>dataMode = data_ready, action = act_spin, visualToken = show_spin,
     ariaLabel = ''Spin reels'', control_text = ''Spin'', disabled = \<not> canSpin\<rparr>"
| "spinControlPresentation mode_waiting canSpin = \<lparr>dataMode = data_waiting, action = act_none, visualToken = show_disabled_spin,
     ariaLabel = ''Spin unavailable'', control_text = ''Spin'', disabled = True\<rparr>"
| "spinControlPresentation fast_stop canSpin = \<lparr>dataMode = data_continue, action = act_fast_stop, visualToken = show_continue,
     ariaLabel = ''Stop reel animation'', control_text = ''Stop'', disabled = False\<rparr>"
| "spinControlPresentation big_win_skip canSpin = \<lparr>dataMode = data_continue, action = act_fast_stop, visualToken = show_continue,
     ariaLabel = ''Advance Big Win presentation'', control_text = ''Continue'', disabled = False\<rparr>"
| "spinControlPresentation normal_win_skip canSpin = \<lparr>dataMode = data_continue, action = act_fast_stop, visualToken = show_continue,
     ariaLabel = ''Continue win presentation'', control_text = ''Continue'', disabled = False\<rparr>"
| "spinControlPresentation feature_continue canSpin = \<lparr>dataMode = data_ready, action = act_continue, visualToken = show_spin,
     ariaLabel = ''Start Free Spins'', control_text = ''Spin'', disabled = False\<rparr>"
| "spinControlPresentation free_spin_summary_continue canSpin = \<lparr>dataMode = data_continue, action = act_continue,
     visualToken = show_continue, ariaLabel = ''Continue Free Spins summary'', control_text = ''Continue'', disabled = False\<rparr>"
| "spinControlPresentation cap_continue canSpin = \<lparr>dataMode = data_continue, action = act_continue, visualToken = show_continue,
     ariaLabel = ''Continue after Free Spin limit notice'', control_text = ''Continue'', disabled = False\<rparr>"
| "spinControlPresentation wheel_popup_continue canSpin = \<lparr>dataMode = data_continue, action = act_continue,
     visualToken = show_continue, ariaLabel = ''Continue to Primal Wheel'', control_text = ''Continue'', disabled = False\<rparr>"
| "spinControlPresentation wheel_ready canSpin = \<lparr>dataMode = data_ready, action = act_wheel_spin, visualToken = show_spin,
     ariaLabel = ''Spin Primal Wheel'', control_text = ''Spin'', disabled = False\<rparr>"
| "spinControlPresentation wheel_summary_continue canSpin = \<lparr>dataMode = data_continue, action = act_continue,
     visualToken = show_continue, ariaLabel = ''Continue Wheel bonus summary'', control_text = ''Continue'', disabled = False\<rparr>"
| "spinControlPresentation wheel_fast_stop canSpin = \<lparr>dataMode = data_continue, action = act_wheel_quick_stop,
     visualToken = show_continue, ariaLabel = ''Stop Primal Wheel'', control_text = ''Continue'', disabled = False\<rparr>"
| "spinControlPresentation wheel_landing_continue canSpin = \<lparr>dataMode = data_continue, action = act_none,
     visualToken = show_continue, ariaLabel = ''Primal Wheel result'', control_text = ''Continue'', disabled = True\<rparr>"
| "spinControlPresentation wheel_none canSpin = \<lparr>dataMode = data_none, action = act_none, visualToken = show_none,
     ariaLabel = ''Primal Wheel controls unavailable'', control_text = ''Continue'', disabled = True\<rparr>"

definition isAutoplayFeatureOwnedSpinMode :: "SpinMode \<Rightarrow> bool" where
  "isAutoplayFeatureOwnedSpinMode m = (m = feature_continue \<or> m = free_spin_summary_continue \<or> m = cap_continue
     \<or> m = wheel_popup_continue \<or> m = wheel_ready \<or> m = wheel_summary_continue \<or> m = wheel_fast_stop
     \<or> m = wheel_landing_continue \<or> m = wheel_none)"

definition PRIMAL_AUTOPLAY_CONTINUE_DELAY_MS :: rat where "PRIMAL_AUTOPLAY_CONTINUE_DELAY_MS = 10 * (1000 / 24)"
definition PRIMAL_AUTOPLAY_BONUS_DELAY_MS :: rat where "PRIMAL_AUTOPLAY_BONUS_DELAY_MS = 40 * (1000 / 24)"

definition autoplayFeatureInputDelay :: "SpinMode \<Rightarrow> rat option" where
  "autoplayFeatureInputDelay m =
     (if m = wheel_ready then Some PRIMAL_AUTOPLAY_BONUS_DELAY_MS
      else if m = feature_continue \<or> m = free_spin_summary_continue \<or> m = cap_continue
      then Some PRIMAL_AUTOPLAY_CONTINUE_DELAY_MS
      else None)"

section \<open>An automatic run\<close>

record AutoPlayRunState =
  run_active :: bool
  run_remaining :: int

record AutoPlayAdvance =
  dispatchSpin :: bool
  advanced :: AutoPlayRunState

definition advanceAutoPlay :: "AutoPlayRunState \<Rightarrow> bool \<Rightarrow> AutoPlayAdvance" where
  "advanceAutoPlay state1 ready1 =
     (if \<not> run_active state1 \<or> \<not> ready1 \<or> run_remaining state1 \<le> 0
      then \<lparr>dispatchSpin = False, advanced = state1\<rparr>
      else let remaining = run_remaining state1 - 1 in
        \<lparr>dispatchSpin = True, advanced = \<lparr>run_active = (0 < remaining), run_remaining = remaining\<rparr>\<rparr>)"

text \<open>The orange stop button replaces the green one during a run, but not in a feature's mode.\<close>

datatype primary_action = regular_action SpinControlAction | autoplay_stop

record PrimarySpinControlPresentation =
  primary_action :: primary_action
  primary_label :: string
  primary_disabled :: bool
  remainingText :: string

definition primarySpinControlPresentation :: "SpinMode \<Rightarrow> bool \<Rightarrow> AutoPlayRunState \<Rightarrow> PrimarySpinControlPresentation" where
  "primarySpinControlPresentation m canSpin autoplay = (let regular = spinControlPresentation m canSpin in
     if \<not> run_active autoplay \<or> isAutoplayFeatureOwnedSpinMode m
     then \<lparr>primary_action = regular_action (action regular), primary_label = ariaLabel regular,
            primary_disabled = disabled regular, remainingText = []\<rparr>
     else let remaining = toString (max 0 (run_remaining autoplay)) in
       \<lparr>primary_action = autoplay_stop, primary_label = ''Stop autoplay. '' @ remaining @ '' spins remaining.'',
        primary_disabled = False, remainingText = remaining\<rparr>)"

section \<open>The conditions that stop a run\<close>

datatype AutoPlayStopBoundary = any_win | bonus_boundary | free_spins_boundary | jackpot_boundary

record AutoPlayStopSettings =
  anyWin :: bool
  bonus :: bool
  freeSpins :: bool
  jackpot :: bool

definition CAPTURED_AUTO_PLAY_STOP_SETTINGS :: AutoPlayStopSettings where
  "CAPTURED_AUTO_PLAY_STOP_SETTINGS = \<lparr>anyWin = False, bonus = True, freeSpins = True, jackpot = True\<rparr>"

definition DEFAULT_AUTO_PLAY_STOP_SETTINGS :: AutoPlayStopSettings where
  "DEFAULT_AUTO_PLAY_STOP_SETTINGS = \<lparr>anyWin = False, bonus = False, freeSpins = False, jackpot = False\<rparr>"

fun isAutoPlayStopBoundaryEnabled :: "AutoPlayStopSettings \<Rightarrow> AutoPlayStopBoundary \<Rightarrow> bool" where
  "isAutoPlayStopBoundaryEnabled s any_win = anyWin s"
| "isAutoPlayStopBoundaryEnabled s bonus_boundary = bonus s"
| "isAutoPlayStopBoundaryEnabled s free_spins_boundary = freeSpins s"
| "isAutoPlayStopBoundaryEnabled s jackpot_boundary = jackpot s"

text \<open>Anything that is not a boolean, and anything that is not an object, falls back to the default.\<close>

definition settingOf :: "js \<Rightarrow> string \<Rightarrow> bool \<Rightarrow> bool" where
  "settingOf v key1 fallback = (case v of JObject source \<Rightarrow> (case getProp source key1 of JBool b \<Rightarrow> b | _ \<Rightarrow> fallback) | _ \<Rightarrow> fallback)"

definition normalizeAutoPlayStopSettings :: "js \<Rightarrow> AutoPlayStopSettings" where
  "normalizeAutoPlayStopSettings v =
     \<lparr>anyWin = settingOf v ''anyWin'' (anyWin DEFAULT_AUTO_PLAY_STOP_SETTINGS),
      bonus = settingOf v ''bonus'' (bonus DEFAULT_AUTO_PLAY_STOP_SETTINGS),
      freeSpins = settingOf v ''freeSpins'' (freeSpins DEFAULT_AUTO_PLAY_STOP_SETTINGS),
      jackpot = settingOf v ''jackpot'' (jackpot DEFAULT_AUTO_PLAY_STOP_SETTINGS)\<rparr>"

definition encodeStopSettings :: "AutoPlayStopSettings \<Rightarrow> js" where
  "encodeStopSettings s = JObject [(''anyWin'', JBool (anyWin s)), (''bonus'', JBool (bonus s)),
     (''freeSpins'', JBool (freeSpins s)), (''jackpot'', JBool (jackpot s))]"

definition AUTO_PLAY_STOP_SETTINGS_STORAGE_KEY :: string where
  "AUTO_PLAY_STOP_SETTINGS_STORAGE_KEY = ''primal-rampage.autoplay-stop-settings.v2''"

text \<open>\<open>JSON_parse\<close> is \<open>None\<close> where \<open>JSON.parse\<close> throws.\<close>

definition parseAutoPlayStopSettings :: "(string \<Rightarrow> js option) \<Rightarrow> string option \<Rightarrow> AutoPlayStopSettings" where
  "parseAutoPlayStopSettings JSON_parse serialized = (case serialized of
       None \<Rightarrow> DEFAULT_AUTO_PLAY_STOP_SETTINGS
     | Some t \<Rightarrow> if t = [] then DEFAULT_AUTO_PLAY_STOP_SETTINGS
         else (case JSON_parse t of Some (JObject envelope) \<Rightarrow>
                 if getProp envelope ''version'' \<noteq> JNumber (JsInt 2) then DEFAULT_AUTO_PLAY_STOP_SETTINGS
                 else normalizeAutoPlayStopSettings (getProp envelope ''settings'')
               | _ \<Rightarrow> DEFAULT_AUTO_PLAY_STOP_SETTINGS))"

definition serializeAutoPlayStopSettings :: "(js \<Rightarrow> string) \<Rightarrow> AutoPlayStopSettings \<Rightarrow> string" where
  "serializeAutoPlayStopSettings JSON_stringify s =
     JSON_stringify (JObject [(''version'', JNumber (JsInt 2)),
       (''settings'', encodeStopSettings (normalizeAutoPlayStopSettings (encodeStopSettings s)))])"

text \<open>What reading the storage gives: no storage, an exception, or the stored text if there is one.\<close>

datatype storage_read = NoStorage | ReadThrows | ReadsText "string option"

definition loadAutoPlayStopSettings :: "(string \<Rightarrow> js option) \<Rightarrow> storage_read \<Rightarrow> AutoPlayStopSettings" where
  "loadAutoPlayStopSettings JSON_parse storage = (case storage of
       NoStorage \<Rightarrow> DEFAULT_AUTO_PLAY_STOP_SETTINGS
     | ReadThrows \<Rightarrow> DEFAULT_AUTO_PLAY_STOP_SETTINGS
     | ReadsText t \<Rightarrow> parseAutoPlayStopSettings JSON_parse t)"

text \<open>A storage takes the text or refuses it; the result says whether it was written.\<close>

definition persistAutoPlayStopSettings ::
  "(js \<Rightarrow> string) \<Rightarrow> AutoPlayStopSettings \<Rightarrow> (string \<Rightarrow> string \<Rightarrow> 'st option) option \<Rightarrow> 'st \<Rightarrow> bool \<times> 'st" where
  "persistAutoPlayStopSettings JSON_stringify s storage st = (case storage of None \<Rightarrow> (False, st)
     | Some setItem \<Rightarrow> (case setItem AUTO_PLAY_STOP_SETTINGS_STORAGE_KEY (serializeAutoPlayStopSettings JSON_stringify s) of
         None \<Rightarrow> (False, st) | Some st' \<Rightarrow> (True, st')))"

section \<open>The pay table\<close>

text \<open>\<open>None\<close> is the \<open>RangeError\<close>. The award is in tenths of the bet, rounded half up, never to nothing.\<close>

definition paytableAwardMinorForBet :: "string \<Rightarrow> int \<Rightarrow> string option" where
  "paytableAwardMinorForBet totalBetMinor awardTenths =
     (if \<not> MONEY_PATTERN totalBetMinor then None
      else if \<not> safe_int awardTenths \<or> awardTenths \<le> 0 then None
      else let numerator = BigInt totalBetMinor * awardTenths;
               rounded = numerator div 10;
               rounded = (if 5 \<le> numerator mod 10 then rounded + 1 else rounded);
               rounded = (if totalBetMinor \<noteq> ''0'' \<and> rounded = 0 then 1 else rounded) in
        Some (toString rounded))"

end
