(* ===== verification/Autoplay.thy ===== *)
theory Autoplay
  imports Spin_Control
begin

text \<open>
  The automatic run of the HUD (\<open>ui/DomOverlay.ts\<close>): what it keeps between the player's input,
  the calls of the controller, the panels and its timer. The DOM shows the state and holds none
  of it; a button the browser has disabled is not clicked. Calls of the handlers the controller
  registered are effects, as are the ends of a run; the controller answers by calls of its own,
  which are events here.
\<close>

section \<open>The state\<close>

datatype autoplay_timer = FeatureInput SpinMode | PaidSpin

datatype spin_source = ByTimer | ByPointer | BySpacebar

datatype autoplay_effect =
    SpinHandler spin_source
  | FastStopHandler
  | RunStarted int
  | PaidSpinCommitted
  | PaidSpinRolledBack
  | RunStopped
  | RoundStopped int

record armed_stop_round =
  armed_sequence :: int
  anyWinEligible :: bool
  armed_settings :: AutoPlayStopSettings
  reached :: "AutoPlayStopBoundary list"
  stopRequested :: bool

record autoplay =
  spinMode :: SpinMode
  canSpin :: bool
  canChangeBet :: bool
  fastPlay :: bool
  paidSpinEligible :: bool
  autoplayCount :: int
  run :: AutoPlayRunState
  runGeneration :: nat
  pendingPaidSpin :: "(nat \<times> AutoPlayRunState) option"
  stopSettings :: AutoPlayStopSettings
  armedStopRound :: "armed_stop_round option"
  stopSessionId :: string
  completedStopSequence :: int
  stoppedStopSequence :: "int option"
  autoplayTimer :: "(autoplay_timer \<times> rat) option"
  gameMenuOpen :: bool
  autoplayModalOpen :: bool
  betPopupOpen :: bool
  sessionTimeoutVisible :: bool
  ui_destroyed :: bool
  ui_effects :: "autoplay_effect list"

definition AUTO_PLAY_SPIN_COUNTS :: "int list" where
  "AUTO_PLAY_SPIN_COUNTS = [10, 20, 50, 75, 100]"

definition DEFAULT_AUTO_PLAY_SPINS :: int where
  "DEFAULT_AUTO_PLAY_SPINS = 50"

definition stoppedRun :: AutoPlayRunState where
  "stoppedRun = \<lparr>run_active = False, run_remaining = 0\<rparr>"

definition newAutoplay :: "AutoPlayStopSettings \<Rightarrow> autoplay" where
  "newAutoplay s = \<lparr>spinMode = mode_waiting, canSpin = False, canChangeBet = False, fastPlay = False,
     paidSpinEligible = False, autoplayCount = DEFAULT_AUTO_PLAY_SPINS, run = stoppedRun, runGeneration = 0,
     pendingPaidSpin = None, stopSettings = s, armedStopRound = None, stopSessionId = [],
     completedStopSequence = -1, stoppedStopSequence = None, autoplayTimer = None, gameMenuOpen = False,
     autoplayModalOpen = False, betPopupOpen = False, sessionTimeoutVisible = False, ui_destroyed = False,
     ui_effects = []\<rparr>"

definition ui_effect :: "autoplay_effect \<Rightarrow> autoplay \<Rightarrow> autoplay" where
  "ui_effect e s = s\<lparr>ui_effects := ui_effects s @ [e]\<rparr>"

text \<open>The registered handlers; \<open>destroy\<close> replaces them by functions that do nothing.\<close>

definition callHandler :: "autoplay_effect \<Rightarrow> autoplay \<Rightarrow> autoplay" where
  "callHandler e s = (if ui_destroyed s then s else ui_effect e s)"

section \<open>The timer\<close>

definition anyControlPanelOpen :: "autoplay \<Rightarrow> bool" where
  "anyControlPanelOpen s = (sessionTimeoutVisible s \<or> gameMenuOpen s \<or> autoplayModalOpen s \<or> betPopupOpen s)"

definition clearAutoplayTimer :: "autoplay \<Rightarrow> autoplay" where
  "clearAutoplayTimer s = s\<lparr>autoplayTimer := None\<rparr>"

definition queueAutoplaySpin :: "autoplay \<Rightarrow> autoplay" where
  "queueAutoplaySpin s =
     (if \<not> run_active (run s) \<or> autoplayTimer s \<noteq> None \<or> anyControlPanelOpen s then s
      else case autoplayFeatureInputDelay (spinMode s) of
        Some delay \<Rightarrow> s\<lparr>autoplayTimer := Some (FeatureInput (spinMode s), delay)\<rparr>
      | None \<Rightarrow> if \<not> paidSpinEligible s \<or> \<not> canSpin s \<or> spinMode s \<noteq> mode_ready then s
          else s\<lparr>autoplayTimer := Some (PaidSpin, if fastPlay s then 80 else 420)\<rparr>)"

definition autoplayTimerFires :: "autoplay \<Rightarrow> autoplay" where
  "autoplayTimerFires s = (case autoplayTimer s of None \<Rightarrow> s
     | Some (FeatureInput expectedMode, delay) \<Rightarrow> let s = s\<lparr>autoplayTimer := None\<rparr> in
         if \<not> run_active (run s) \<or> spinMode s \<noteq> expectedMode \<or> anyControlPanelOpen s then s
         else let input = spinControlPresentation (spinMode s) (canSpin s) in
           if disabled input \<or> action input \<noteq> act_continue \<and> action input \<noteq> act_wheel_spin then s
           else callHandler (SpinHandler ByTimer) s
     | Some (PaidSpin, delay) \<Rightarrow> let s = s\<lparr>autoplayTimer := None\<rparr> in
         if \<not> run_active (run s) \<or> \<not> paidSpinEligible s \<or> \<not> canSpin s \<or> spinMode s \<noteq> mode_ready
            \<or> anyControlPanelOpen s then s
         else callHandler (SpinHandler ByTimer) s)"

section \<open>The panels\<close>

text \<open>Opening a panel closes the others first; closing one resumes the run.\<close>

definition closeAutoplayModal :: "autoplay \<Rightarrow> autoplay" where
  "closeAutoplayModal s = queueAutoplaySpin (s\<lparr>autoplayModalOpen := False\<rparr>)"

definition closeGameMenu :: "autoplay \<Rightarrow> autoplay" where
  "closeGameMenu s = queueAutoplaySpin (s\<lparr>gameMenuOpen := False\<rparr>)"

definition closeBetPopup :: "autoplay \<Rightarrow> autoplay" where
  "closeBetPopup s = queueAutoplaySpin (s\<lparr>betPopupOpen := False\<rparr>)"

definition setAutoplayModalOpen :: "bool \<Rightarrow> autoplay \<Rightarrow> autoplay" where
  "setAutoplayModalOpen open1 s =
     (if open1 then (clearAutoplayTimer (closeGameMenu (closeBetPopup s)))\<lparr>autoplayModalOpen := True\<rparr>
      else closeAutoplayModal s)"

definition setGameMenuOpen :: "bool \<Rightarrow> autoplay \<Rightarrow> autoplay" where
  "setGameMenuOpen open1 s =
     (if open1 then (clearAutoplayTimer (closeAutoplayModal (closeBetPopup s)))\<lparr>gameMenuOpen := True\<rparr>
      else closeGameMenu s)"

definition setBetPopupOpen :: "bool \<Rightarrow> autoplay \<Rightarrow> autoplay" where
  "setBetPopupOpen open1 s =
     (if open1 \<and> canChangeBet s
      then (clearAutoplayTimer (closeGameMenu (closeAutoplayModal s)))\<lparr>betPopupOpen := True\<rparr>
      else closeBetPopup s)"

section \<open>Starting and stopping a run\<close>

definition startAutoplay :: "autoplay \<Rightarrow> autoplay" where
  "startAutoplay s =
     (if \<not> canSpin s \<or> spinMode s \<noteq> mode_ready \<or> autoplayCount s \<le> 0 then s
      else queueAutoplaySpin (closeAutoplayModal (ui_effect (RunStarted (autoplayCount s))
        (s\<lparr>runGeneration := runGeneration s + 1, pendingPaidSpin := None,
           run := \<lparr>run_active = True, run_remaining = autoplayCount s\<rparr>\<rparr>))))"

definition stopAutoplay :: "autoplay \<Rightarrow> autoplay" where
  "stopAutoplay s = (let s = ui_effect RunStopped ((clearAutoplayTimer s)\<lparr>runGeneration := runGeneration s + 1,
       pendingPaidSpin := None, run := stoppedRun\<rparr>) in
     if autoplayModalOpen s then closeAutoplayModal s else s)"

definition selectAutoplayCount :: "int \<Rightarrow> autoplay \<Rightarrow> autoplay" where
  "selectAutoplayCount n s = (if n \<in> set AUTO_PLAY_SPIN_COUNTS then s\<lparr>autoplayCount := n\<rparr> else s)"

definition autoplayAction :: "autoplay \<Rightarrow> autoplay" where
  "autoplayAction s = (if run_active (run s) then stopAutoplay s else startAutoplay s)"

definition handlePrimarySpinAction :: "autoplay \<Rightarrow> autoplay" where
  "handlePrimarySpinAction s = (let action1 = action (spinControlPresentation (spinMode s) (canSpin s)) in
     if run_active (run s) \<and> isAutoplayFeatureOwnedSpinMode (spinMode s)
     then let s = clearAutoplayTimer s in
       if action1 = act_wheel_quick_stop then callHandler FastStopHandler s
       else if action1 = act_continue \<or> action1 = act_wheel_spin then callHandler (SpinHandler ByPointer) s else s
     else if run_active (run s) then stopAutoplay s
     else if action1 = act_fast_stop \<or> action1 = act_wheel_quick_stop then callHandler FastStopHandler s
     else if action1 = act_spin \<or> action1 = act_continue \<or> action1 = act_wheel_spin then callHandler (SpinHandler ByPointer) s
     else s)"

text \<open>\<open>enabled\<close>: the setting is on, no preview is shown and nothing that takes text has the focus.\<close>

definition spacebarPressed :: "bool \<Rightarrow> bool \<Rightarrow> autoplay \<Rightarrow> autoplay" where
  "spacebarPressed enabled repeat s =
     (if \<not> enabled \<or> anyControlPanelOpen s
         \<or> \<not> (canSpin s \<and> spinMode s = mode_ready \<or> spinMode s = big_win_skip \<or> spinMode s = normal_win_skip) then s
      else if repeat then s
      else if spinMode s = big_win_skip \<or> spinMode s = normal_win_skip then callHandler FastStopHandler s
      else callHandler (SpinHandler BySpacebar) s)"

section \<open>The paid spins of a run\<close>

definition commitAcceptedPaidAutoplaySpin :: "autoplay \<Rightarrow> autoplay" where
  "commitAcceptedPaidAutoplaySpin s =
     (if pendingPaidSpin s \<noteq> None then s
      else let advance = advanceAutoPlay (run s) True in
        if \<not> dispatchSpin advance then s
        else ui_effect PaidSpinCommitted (s\<lparr>pendingPaidSpin := Some (runGeneration s, run s), run := advanced advance\<rparr>))"

definition finalizeAcceptedPaidAutoplaySpin :: "autoplay \<Rightarrow> bool \<times> autoplay" where
  "finalizeAcceptedPaidAutoplaySpin s =
     (if pendingPaidSpin s = None then (False, s) else (True, s\<lparr>pendingPaidSpin := None\<rparr>))"

definition rollbackAcceptedPaidAutoplaySpin :: "autoplay \<Rightarrow> bool \<times> autoplay" where
  "rollbackAcceptedPaidAutoplaySpin s = (case pendingPaidSpin s of None \<Rightarrow> (False, s\<lparr>pendingPaidSpin := None\<rparr>)
     | Some (generation, previous) \<Rightarrow>
         if generation \<noteq> runGeneration s then (False, s\<lparr>pendingPaidSpin := None\<rparr>)
         else (True, ui_effect PaidSpinRolledBack (s\<lparr>pendingPaidSpin := None, run := previous\<rparr>)))"

section \<open>The conditions that stop it\<close>

definition resetAutoplayStopSession :: "string \<Rightarrow> autoplay \<Rightarrow> autoplay" where
  "resetAutoplayStopSession sid s = s\<lparr>stopSessionId := sid, armedStopRound := None, completedStopSequence := -1,
     stoppedStopSequence := None\<rparr>"

definition armAutoplayStopRound :: "SpinResult \<Rightarrow> autoplay \<Rightarrow> autoplay" where
  "armAutoplayStopRound result s =
     (let s = (if stopSessionId s \<noteq> sessionId result then resetAutoplayStopSession (sessionId result) s else s);
          n = sequence result in
      if map_option armed_sequence (armedStopRound s) = Some n then s
      else if n \<le> completedStopSequence s then s
      else s\<lparr>armedStopRound := Some \<lparr>armed_sequence = n,
               anyWinEligible = (MONEY_PATTERN (totalWinMinor result) \<and> 0 < BigInt (totalWinMinor result)),
               armed_settings = stopSettings s, reached = [], stopRequested = False\<rparr>,
             stoppedStopSequence := None\<rparr>)"

text \<open>The conditions of the round reached so far; the first enabled one stops the run.\<close>

definition reachAutoplayStopBoundary :: "int \<Rightarrow> AutoPlayStopBoundary \<Rightarrow> autoplay \<Rightarrow> bool \<times> autoplay" where
  "reachAutoplayStopBoundary n boundary s = (case armedStopRound s of
       None \<Rightarrow> (stoppedStopSequence s = Some n, s)
     | Some r \<Rightarrow>
         if armed_sequence r \<noteq> n then (stoppedStopSequence s = Some n, s)
         else if boundary = any_win \<and> \<not> anyWinEligible r then (False, s)
         else if boundary \<in> set (reached r) then (stopRequested r, s)
         else let r = r\<lparr>reached := boundary # reached r\<rparr>; s = s\<lparr>armedStopRound := Some r\<rparr> in
           if stopRequested r then (True, s)
           else if \<not> isAutoPlayStopBoundaryEnabled (armed_settings r) boundary then (stopRequested r, s)
           else let s = ui_effect (RoundStopped n) (s\<lparr>armedStopRound := Some (r\<lparr>stopRequested := True\<rparr>), stoppedStopSequence := Some n\<rparr>) in
             (True, if run_active (run s) then stopAutoplay s else s))"

text \<open>Without a sequence it is about the armed round.\<close>

definition completeAutoplayStopRound :: "int option \<Rightarrow> autoplay \<Rightarrow> bool \<times> autoplay" where
  "completeAutoplayStopRound sequence1 s =
     (case (case sequence1 of Some n \<Rightarrow> Some n | None \<Rightarrow> map_option armed_sequence (armedStopRound s)) of
        None \<Rightarrow> (False, s)
      | Some n \<Rightarrow> (case armedStopRound s of
          None \<Rightarrow> (stoppedStopSequence s = Some n, s)
        | Some r \<Rightarrow>
            if armed_sequence r \<noteq> n then (stoppedStopSequence s = Some n, s)
            else let s = (if anyWinEligible r \<and> any_win \<notin> set (reached r) then snd (reachAutoplayStopBoundary n any_win s) else s) in
              (case armedStopRound s of None \<Rightarrow> False | Some r \<Rightarrow> stopRequested r,
               s\<lparr>completedStopSequence := max (completedStopSequence s) n, armedStopRound := None\<rparr>)))"

definition setAutoplayStopSettings :: "AutoPlayStopSettings \<Rightarrow> autoplay \<Rightarrow> autoplay" where
  "setAutoplayStopSettings settings s = s\<lparr>stopSettings := normalizeAutoPlayStopSettings (encodeStopSettings settings)\<rparr>"

fun updateSetting :: "AutoPlayStopBoundary \<Rightarrow> bool \<Rightarrow> AutoPlayStopSettings \<Rightarrow> AutoPlayStopSettings" where
  "updateSetting any_win b x = x\<lparr>anyWin := b\<rparr>"
| "updateSetting bonus_boundary b x = x\<lparr>bonus := b\<rparr>"
| "updateSetting free_spins_boundary b x = x\<lparr>freeSpins := b\<rparr>"
| "updateSetting jackpot_boundary b x = x\<lparr>jackpot := b\<rparr>"

text \<open>The check boxes are disabled during a run.\<close>

definition handleAutoplayStopConditionChange :: "AutoPlayStopBoundary \<Rightarrow> bool \<Rightarrow> autoplay \<Rightarrow> autoplay" where
  "handleAutoplayStopConditionChange boundary checked s =
     (if run_active (run s) then s else setAutoplayStopSettings (updateSetting boundary checked (stopSettings s)) s)"

section \<open>What the controller sets\<close>

definition setSpinMode :: "SpinMode \<Rightarrow> autoplay \<Rightarrow> autoplay" where
  "setSpinMode m s = queueAutoplaySpin (s\<lparr>spinMode := m\<rparr>)"

definition setAutoplayPaidSpinEligible :: "bool \<Rightarrow> autoplay \<Rightarrow> autoplay" where
  "setAutoplayPaidSpinEligible eligible s =
     (if paidSpinEligible s = eligible then s
      else let s = s\<lparr>paidSpinEligible := eligible\<rparr> in
        queueAutoplaySpin (if \<not> eligible \<and> spinMode s = mode_ready then clearAutoplayTimer s else s))"

definition setControls :: "bool \<Rightarrow> bool \<Rightarrow> autoplay \<Rightarrow> autoplay" where
  "setControls spin change s =
     (let s = s\<lparr>canSpin := spin \<and> \<not> sessionTimeoutVisible s, canChangeBet := change \<and> \<not> sessionTimeoutVisible s\<rparr> in
      queueAutoplaySpin (if \<not> canChangeBet s then setBetPopupOpen False s else s))"

text \<open>\<open>accessible\<close>: the launch has reached a phase that shows the HUD.\<close>

definition setLaunchPhase :: "bool \<Rightarrow> autoplay \<Rightarrow> autoplay" where
  "setLaunchPhase accessible s =
     (if accessible then s
      else stopAutoplay (setGameMenuOpen False (setAutoplayModalOpen False (setBetPopupOpen False s))))"

definition showSessionTimeout :: "autoplay \<Rightarrow> autoplay" where
  "showSessionTimeout s =
     (if ui_destroyed s \<or> sessionTimeoutVisible s then s
      else setGameMenuOpen False (setAutoplayModalOpen False (setBetPopupOpen False
             (stopAutoplay (s\<lparr>sessionTimeoutVisible := True\<rparr>)))))"

definition applySessionToUi :: "string \<Rightarrow> autoplay \<Rightarrow> autoplay" where
  "applySessionToUi sid s = (if stopSessionId s \<noteq> sid then resetAutoplayStopSession sid s else s)"

definition destroyUi :: "autoplay \<Rightarrow> autoplay" where
  "destroyUi s = (if ui_destroyed s then s else clearAutoplayTimer (s\<lparr>ui_destroyed := True\<rparr>))"

section \<open>Runs\<close>

datatype autoplay_event =
    TimerFires
  | PrimaryClicked
  | SpacePressed bool bool
  | ActionClicked
  | CountSelected int
  | ConditionChanged AutoPlayStopBoundary bool
  | FastPlayChanged bool
  | AutoplayPanel bool
  | MenuPanel bool
  | BetPanel bool
  | SpinModeSet SpinMode
  | EligibleSet bool
  | ControlsSet bool bool
  | LaunchPhaseSet bool
  | SessionApplied string
  | RoundArmed SpinResult
  | BoundaryReached int AutoPlayStopBoundary
  | RoundCompleted "int option"
  | PaidCommitted
  | PaidFinalized
  | PaidRolledBack
  | TimeoutShown
  | UiDestroyed

fun autoplay_step :: "autoplay_event \<Rightarrow> autoplay \<Rightarrow> autoplay" where
  "autoplay_step TimerFires s = autoplayTimerFires s"
| "autoplay_step PrimaryClicked s =
     (if primary_disabled (primarySpinControlPresentation (spinMode s) (canSpin s) (run s)) then s else handlePrimarySpinAction s)"
| "autoplay_step (SpacePressed enabled repeat) s = spacebarPressed enabled repeat s"
| "autoplay_step ActionClicked s = autoplayAction s"
| "autoplay_step (CountSelected n) s = selectAutoplayCount n s"
| "autoplay_step (ConditionChanged b checked) s = handleAutoplayStopConditionChange b checked s"
| "autoplay_step (FastPlayChanged b) s = s\<lparr>fastPlay := b\<rparr>"
| "autoplay_step (AutoplayPanel b) s = setAutoplayModalOpen b s"
| "autoplay_step (MenuPanel b) s = setGameMenuOpen b s"
| "autoplay_step (BetPanel b) s = setBetPopupOpen b s"
| "autoplay_step (SpinModeSet m) s = setSpinMode m s"
| "autoplay_step (EligibleSet b) s = setAutoplayPaidSpinEligible b s"
| "autoplay_step (ControlsSet a b) s = setControls a b s"
| "autoplay_step (LaunchPhaseSet b) s = setLaunchPhase b s"
| "autoplay_step (SessionApplied sid) s = applySessionToUi sid s"
| "autoplay_step (RoundArmed r) s = armAutoplayStopRound r s"
| "autoplay_step (BoundaryReached n b) s = snd (reachAutoplayStopBoundary n b s)"
| "autoplay_step (RoundCompleted n) s = snd (completeAutoplayStopRound n s)"
| "autoplay_step PaidCommitted s = commitAcceptedPaidAutoplaySpin s"
| "autoplay_step PaidFinalized s = snd (finalizeAcceptedPaidAutoplaySpin s)"
| "autoplay_step PaidRolledBack s = snd (rollbackAcceptedPaidAutoplaySpin s)"
| "autoplay_step TimeoutShown s = showSessionTimeout s"
| "autoplay_step UiDestroyed s = destroyUi s"

definition autoplay_run :: "autoplay_event list \<Rightarrow> autoplay \<Rightarrow> autoplay" where
  "autoplay_run es s = fold autoplay_step es s"

end
