(* ===== verification/Autoplay_Properties.thy ===== *)
theory Autoplay_Properties
  imports Autoplay Samples
begin

text \<open>
  The automatic run over all interleavings of clicks, timers and calls of the controller: what it
  spends, when its conditions stop it, and the one input that spends without stopping it.
\<close>

section \<open>The account of a run\<close>

text \<open>
  Read off the effects: the spins granted when the run was started and those spent of them. A
  spin asked for by the timer or committed while nothing is left is an overdraft (\<open>None\<close>), as is
  one given back that was not spent.
\<close>

fun account_step :: "(int \<times> int) option \<Rightarrow> autoplay_effect \<Rightarrow> (int \<times> int) option" where
  "account_step None e = None"
| "account_step (Some (granted, spent)) (RunStarted n) = Some (n, 0)"
| "account_step (Some (granted, spent)) RunStopped = Some (0, 0)"
| "account_step (Some (granted, spent)) (SpinHandler ByTimer) = (if spent < granted then Some (granted, spent) else None)"
| "account_step (Some (granted, spent)) PaidSpinCommitted = (if spent < granted then Some (granted, spent + 1) else None)"
| "account_step (Some (granted, spent)) PaidSpinRolledBack = (if 0 < spent then Some (granted, spent - 1) else None)"
| "account_step (Some (granted, spent)) e = Some (granted, spent)"

definition account :: "autoplay_effect list \<Rightarrow> (int \<times> int) option" where
  "account es = foldl account_step (Some (0, 0)) es"

lemma account_simps [simp]: "account [] = Some (0, 0)" "account (es @ [e]) = account_step (account es) e"
  by (simp_all add: account_def)

fun pending_ok :: "(nat \<times> AutoPlayRunState) option \<Rightarrow> nat \<Rightarrow> int \<Rightarrow> int \<Rightarrow> bool" where
  "pending_ok None generation granted spent = True"
| "pending_ok (Some (g, previous)) generation granted spent = (g = generation \<and> 0 < spent
     \<and> previous = \<lparr>run_active = True, run_remaining = granted - spent + 1\<rparr>)"

definition balanced :: "autoplay \<Rightarrow> bool" where
  "balanced s = (\<exists>granted spent. account (ui_effects s) = Some (granted, spent)
     \<and> 0 \<le> spent \<and> spent \<le> granted \<and> granted \<le> 100
     \<and> run s = \<lparr>run_active = (spent < granted), run_remaining = granted - spent\<rparr>
     \<and> pending_ok (pendingPaidSpin s) (runGeneration s) granted spent)"

definition count_ok :: "autoplay \<Rightarrow> bool" where
  "count_ok s = (autoplayCount s \<in> set AUTO_PLAY_SPIN_COUNTS)"

definition run_inv :: "autoplay \<Rightarrow> bool" where
  "run_inv s = (balanced s \<and> count_ok s)"

lemma run_inv_new: "run_inv (newAutoplay x)"
  by (simp add: run_inv_def balanced_def count_ok_def newAutoplay_def stoppedRun_def AUTO_PLAY_SPIN_COUNTS_def DEFAULT_AUTO_PLAY_SPINS_def)

text \<open>Most operations only touch what the account does not speak of.\<close>

definition same_run :: "autoplay \<Rightarrow> autoplay \<Rightarrow> bool" where
  "same_run s t = (run t = run s \<and> pendingPaidSpin t = pendingPaidSpin s \<and> runGeneration t = runGeneration s
     \<and> autoplayCount t = autoplayCount s \<and> account (ui_effects t) = account (ui_effects s))"

lemma same_run_inv: "run_inv s \<Longrightarrow> same_run s t \<Longrightarrow> run_inv t"
  by (simp add: same_run_def run_inv_def balanced_def count_ok_def)

lemma same_run_trans: "same_run s t \<Longrightarrow> same_run t u \<Longrightarrow> same_run s u"
  by (simp add: same_run_def)

lemma same_queue: "same_run s (queueAutoplaySpin s)"
  by (simp add: same_run_def queueAutoplaySpin_def split: option.split)

lemma queue_fields [simp]: "ui_effects (queueAutoplaySpin s) = ui_effects s" "run (queueAutoplaySpin s) = run s"
    "pendingPaidSpin (queueAutoplaySpin s) = pendingPaidSpin s" "runGeneration (queueAutoplaySpin s) = runGeneration s"
    "autoplayCount (queueAutoplaySpin s) = autoplayCount s" "armedStopRound (queueAutoplaySpin s) = armedStopRound s"
    "stopSessionId (queueAutoplaySpin s) = stopSessionId s" "stoppedStopSequence (queueAutoplaySpin s) = stoppedStopSequence s"
    "canChangeBet (queueAutoplaySpin s) = canChangeBet s"
  by (simp_all add: queueAutoplaySpin_def split: option.split)

lemma same_panels: "same_run s (setAutoplayModalOpen b s)" "same_run s (setGameMenuOpen b s)" "same_run s (setBetPopupOpen b s)"
    "same_run s (closeAutoplayModal s)"
  by (simp_all add: same_run_def setAutoplayModalOpen_def setGameMenuOpen_def setBetPopupOpen_def closeAutoplayModal_def
      closeGameMenu_def closeBetPopup_def clearAutoplayTimer_def)

lemma account_other: "account_step a FastStopHandler = a" "account_step a (RoundStopped n) = a"
    "p \<noteq> ByTimer \<Longrightarrow> account_step a (SpinHandler p) = a"
  by (cases a; cases p; force)+

lemma same_handler: "same_run s (callHandler FastStopHandler s)" "p \<noteq> ByTimer \<Longrightarrow> same_run s (callHandler (SpinHandler p) s)"
  by (simp_all add: same_run_def callHandler_def ui_effect_def account_other)

lemma auto_same_clear: "same_run s (clearAutoplayTimer s)"
  by (simp add: same_run_def clearAutoplayTimer_def)

section \<open>Every event keeps the account\<close>

lemma stop_inv:
  assumes "run_inv s"
  shows "run_inv (stopAutoplay s)"
proof -
  let ?t = "ui_effect RunStopped ((clearAutoplayTimer s)\<lparr>runGeneration := runGeneration s + 1, pendingPaidSpin := None, run := stoppedRun\<rparr>)"
  have "run_inv ?t"
    using assms by (auto simp: run_inv_def balanced_def count_ok_def ui_effect_def clearAutoplayTimer_def stoppedRun_def)
  then show ?thesis
    unfolding stopAutoplay_def Let_def using same_run_inv [OF _ same_panels(4)] by simp
qed

lemma auto_start_inv:
  assumes "run_inv s"
  shows "run_inv (startAutoplay s)"
proof -
  let ?t = "ui_effect (RunStarted (autoplayCount s)) (s\<lparr>runGeneration := runGeneration s + 1, pendingPaidSpin := None,
           run := \<lparr>run_active = True, run_remaining = autoplayCount s\<rparr>\<rparr>)"
  have "0 < autoplayCount s" "autoplayCount s \<le> 100"
    using assms by (auto simp: run_inv_def count_ok_def AUTO_PLAY_SPIN_COUNTS_def)
  then have "run_inv ?t"
    using assms by (auto simp: run_inv_def balanced_def count_ok_def ui_effect_def)
  from same_run_inv [OF this same_run_trans [OF same_panels(4) same_queue]] assms show ?thesis
    by (simp add: startAutoplay_def)
qed

lemma timer_inv:
  assumes "run_inv s"
  shows "run_inv (autoplayTimerFires s)"
proof -
  define t where "t = s\<lparr>autoplayTimer := None\<rparr>"
  have t: "run_inv t" by (rule same_run_inv [OF assms]) (simp add: t_def same_run_def)
  have "run_inv (callHandler (SpinHandler ByTimer) t)" if "run_active (run t)"
    using t that by (auto simp: run_inv_def balanced_def count_ok_def callHandler_def ui_effect_def)
  with t assms show ?thesis
    by (simp add: autoplayTimerFires_def Let_def split: option.split prod.split autoplay_timer.split flip: t_def)
qed

lemma commit_inv:
  assumes "run_inv s"
  shows "run_inv (commitAcceptedPaidAutoplaySpin s)"
proof (cases "pendingPaidSpin s = None \<and> run_active (run s)")
  case True
  obtain granted spent where a: "account (ui_effects s) = Some (granted, spent)" "0 \<le> spent" "granted \<le> 100"
      "run s = \<lparr>run_active = (spent < granted), run_remaining = granted - spent\<rparr>"
    using assms by (auto simp: run_inv_def balanced_def)
  moreover from a True have "spent < granted" by simp
  ultimately show ?thesis
    using True assms by (simp add: run_inv_def balanced_def count_ok_def commitAcceptedPaidAutoplaySpin_def
        advanceAutoPlay_def Let_def ui_effect_def) linarith
next
  case False
  with assms show ?thesis by (auto simp: commitAcceptedPaidAutoplaySpin_def advanceAutoPlay_def Let_def)
qed

lemma finalize_inv: "run_inv s \<Longrightarrow> run_inv (snd (finalizeAcceptedPaidAutoplaySpin s))"
  by (auto simp: finalizeAcceptedPaidAutoplaySpin_def run_inv_def balanced_def count_ok_def split: option.splits)

lemma rollback_inv:
  assumes "run_inv s"
  shows "run_inv (snd (rollbackAcceptedPaidAutoplaySpin s))"
proof (cases "pendingPaidSpin s")
  case None
  with assms show ?thesis by (simp add: rollbackAcceptedPaidAutoplaySpin_def run_inv_def balanced_def count_ok_def)
next
  case (Some p)
  with assms show ?thesis
    by (cases p) (auto simp: rollbackAcceptedPaidAutoplaySpin_def run_inv_def balanced_def count_ok_def ui_effect_def)
qed

lemma reach_inv:
  assumes "run_inv s"
  shows "run_inv (snd (reachAutoplayStopBoundary n b s))"
proof (cases "armedStopRound s")
  case None
  with assms show ?thesis by (simp add: reachAutoplayStopBoundary_def)
next
  case (Some r)
  have t: "run_inv (s\<lparr>armedStopRound := q\<rparr>)" for q
    by (rule same_run_inv [OF assms]) (simp add: same_run_def)
  have u: "run_inv (ui_effect (RoundStopped n) (s\<lparr>armedStopRound := q, stoppedStopSequence := m\<rparr>))" for q m
    by (rule same_run_inv [OF assms]) (simp add: same_run_def ui_effect_def account_other)
  from Some assms t u [THEN stop_inv] u show ?thesis
    by (simp add: reachAutoplayStopBoundary_def Let_def)
qed

lemma complete_inv:
  assumes "run_inv s"
  shows "run_inv (snd (completeAutoplayStopRound n s))"
proof -
  have t: "run_inv (t\<lparr>completedStopSequence := k, armedStopRound := q\<rparr>)" if "run_inv t" for t k q
    by (rule same_run_inv [OF that]) (simp add: same_run_def)
  show ?thesis
    using assms by (simp add: completeAutoplayStopRound_def Let_def t reach_inv split: option.split)
qed

lemma arm_same: "same_run s (armAutoplayStopRound r s)"
  by (simp add: same_run_def armAutoplayStopRound_def Let_def resetAutoplayStopSession_def)

lemma primary_inv:
  assumes "run_inv s"
  shows "run_inv (handlePrimarySpinAction s)"
proof -
  have "same_run s (callHandler FastStopHandler (clearAutoplayTimer s))"
      "same_run s (callHandler (SpinHandler ByPointer) (clearAutoplayTimer s))"
    by (rule same_run_trans [OF auto_same_clear same_handler(1)], rule same_run_trans [OF auto_same_clear same_handler(2)]) simp
  then show ?thesis
    using same_run_inv [OF assms] stop_inv [OF assms] assms same_handler(1) [of s] same_handler(2) [of ByPointer s] auto_same_clear [of s]
    by (simp add: handlePrimarySpinAction_def Let_def)
qed

lemma launch_inv_run: "run_inv s \<Longrightarrow> run_inv (setLaunchPhase b s)"
  unfolding setLaunchPhase_def
  by (simp add: stop_inv same_run_inv [OF same_run_inv [OF same_run_inv [OF _ same_panels(3)] same_panels(1)] same_panels(2)])

lemma timeout_inv_run:
  assumes "run_inv s"
  shows "run_inv (showSessionTimeout s)"
proof -
  have "run_inv (s\<lparr>sessionTimeoutVisible := True\<rparr>)"
    by (rule same_run_inv [OF assms]) (simp add: same_run_def)
  from same_run_inv [OF same_run_inv [OF same_run_inv [OF stop_inv [OF this] same_panels(3)] same_panels(1)] same_panels(2)] assms
  show ?thesis by (simp add: showSessionTimeout_def)
qed

lemma controls_same: "same_run s (setControls a b s)"
  by (simp add: same_run_def setControls_def Let_def setBetPopupOpen_def closeBetPopup_def)

lemma rest_same: "same_run s (setSpinMode m s)" "same_run s (setAutoplayPaidSpinEligible e s)" "same_run s (applySessionToUi i s)"
    "same_run s (destroyUi s)" "same_run s (spacebarPressed p q s)" "same_run s (handleAutoplayStopConditionChange b c s)"
    "same_run s (s\<lparr>fastPlay := f\<rparr>)"
  by (simp_all add: same_run_def setSpinMode_def setAutoplayPaidSpinEligible_def applySessionToUi_def resetAutoplayStopSession_def
      destroyUi_def clearAutoplayTimer_def spacebarPressed_def handleAutoplayStopConditionChange_def setAutoplayStopSettings_def Let_def
      callHandler_def ui_effect_def account_other)

lemma count_inv: "run_inv s \<Longrightarrow> run_inv (selectAutoplayCount n s)"
  by (simp add: selectAutoplayCount_def run_inv_def balanced_def count_ok_def)

lemma autoplay_step_inv: "run_inv s \<Longrightarrow> run_inv (autoplay_step e s)"
proof (cases e)
  case ActionClicked
  moreover assume "run_inv s"
  ultimately show ?thesis by (simp add: autoplayAction_def auto_start_inv stop_inv)
qed (simp_all add: timer_inv primary_inv count_inv same_run_inv [OF _ rest_same(1)] same_run_inv [OF _ rest_same(2)]
    same_run_inv [OF _ rest_same(3)] same_run_inv [OF _ rest_same(4)] same_run_inv [OF _ rest_same(5)]
    same_run_inv [OF _ rest_same(6)] same_run_inv [OF _ rest_same(7)] same_run_inv [OF _ same_panels(1)]
    same_run_inv [OF _ same_panels(2)] same_run_inv [OF _ same_panels(3)] same_run_inv [OF _ arm_same]
    same_run_inv [OF _ controls_same] reach_inv complete_inv commit_inv finalize_inv rollback_inv launch_inv_run timeout_inv_run)

lemma autoplay_run_simps [simp]: "autoplay_run [] s = s" "autoplay_run (e # es) s = autoplay_run es (autoplay_step e s)"
    "autoplay_run (es @ fs) s = autoplay_run fs (autoplay_run es s)"
  by (simp_all add: autoplay_run_def)

lemma autoplay_run_inv: "run_inv s \<Longrightarrow> run_inv (autoplay_run es s)"
  by (induction es arbitrary: s) (simp_all add: autoplay_step_inv)

section \<open>The conditions of a round\<close>

definition stops_of :: "int \<Rightarrow> autoplay \<Rightarrow> nat" where
  "stops_of n s = length (filter (\<lambda>e. e = RoundStopped n) (ui_effects s))"

definition round_frame :: "autoplay \<Rightarrow> autoplay \<Rightarrow> bool" where
  "round_frame s t = (armedStopRound t = armedStopRound s \<and> stopSessionId t = stopSessionId s \<and> (\<forall>n. stops_of n t = stops_of n s))"

text \<open>A stopped run without a reservation stays stopped.\<close>

definition at_rest :: "autoplay \<Rightarrow> bool" where
  "at_rest s = (pendingPaidSpin s = None \<and> \<not> run_active (run s))"

definition calm :: "autoplay \<Rightarrow> autoplay \<Rightarrow> bool" where
  "calm s t = (round_frame s t \<and> (pendingPaidSpin s = None \<longrightarrow> pendingPaidSpin t = None \<and> (at_rest s \<longrightarrow> at_rest t)))"

lemma auto_calm_refl: "calm s s"
  by (simp add: calm_def round_frame_def)

lemma auto_calm_trans: "calm s t \<Longrightarrow> calm t u \<Longrightarrow> calm s u"
  by (simp add: calm_def round_frame_def)

lemma calm_same: "run t = run s \<Longrightarrow> pendingPaidSpin t = pendingPaidSpin s \<Longrightarrow> round_frame s t \<Longrightarrow> calm s t"
  by (simp add: calm_def at_rest_def)

lemma effect_run [simp]: "run (ui_effect e s) = run s"
  by (simp add: ui_effect_def)

lemma stops_effect: "(\<forall>m. e \<noteq> RoundStopped m) \<Longrightarrow> stops_of n (ui_effect e s) = stops_of n s"
  by (simp add: stops_of_def ui_effect_def)

lemma calm_queue: "calm s (queueAutoplaySpin s)"
  by (rule calm_same) (simp_all add: round_frame_def stops_of_def)

lemma calm_panels: "calm s (setAutoplayModalOpen b s)" "calm s (setGameMenuOpen b s)" "calm s (setBetPopupOpen b s)"
    "calm s (closeAutoplayModal s)"
  by (rule calm_same; simp add: round_frame_def stops_of_def setAutoplayModalOpen_def setGameMenuOpen_def setBetPopupOpen_def
      closeAutoplayModal_def closeGameMenu_def closeBetPopup_def clearAutoplayTimer_def)+

lemma calm_stopped: "calm s (ui_effect RunStopped ((clearAutoplayTimer s)\<lparr>runGeneration := k, pendingPaidSpin := None, run := stoppedRun\<rparr>))"
  by (simp add: calm_def round_frame_def at_rest_def stops_of_def ui_effect_def clearAutoplayTimer_def stoppedRun_def)

lemma calm_stop: "calm s (stopAutoplay s)"
  unfolding stopAutoplay_def Let_def using auto_calm_trans [OF calm_stopped calm_panels(4)] calm_stopped by simp

lemma stop_rests: "at_rest (stopAutoplay s)"
  by (simp add: stopAutoplay_def Let_def at_rest_def closeAutoplayModal_def ui_effect_def stoppedRun_def)

lemma calm_handler: "calm s (callHandler (SpinHandler p) s)" "calm s (callHandler FastStopHandler s)"
  by (rule calm_same; simp add: round_frame_def stops_of_def callHandler_def ui_effect_def)+

lemma calm_clear: "calm s (clearAutoplayTimer s)"
  by (rule calm_same) (simp_all add: round_frame_def stops_of_def clearAutoplayTimer_def)

lemma calm_timer: "calm s (autoplayTimerFires s)"
proof -
  have "calm s (s\<lparr>autoplayTimer := None\<rparr>)" using calm_clear by (simp add: clearAutoplayTimer_def)
  with auto_calm_trans [OF this calm_handler(1)] auto_calm_refl show ?thesis
    by (simp add: autoplayTimerFires_def Let_def split: option.split prod.split autoplay_timer.split)
qed

lemma calm_primary: "calm s (handlePrimarySpinAction s)"
  using auto_calm_trans [OF calm_clear calm_handler(1)] auto_calm_trans [OF calm_clear calm_handler(2)] calm_clear calm_stop calm_handler auto_calm_refl
  by (simp add: handlePrimarySpinAction_def Let_def)

lemma calm_launch: "calm s (setLaunchPhase b s)"
  using auto_calm_trans [OF auto_calm_trans [OF auto_calm_trans [OF calm_panels(3) calm_panels(1)] calm_panels(2)] calm_stop] auto_calm_refl
  by (simp add: setLaunchPhase_def)

lemma calm_timeout: "calm s (showSessionTimeout s)"
proof -
  have "calm s (s\<lparr>sessionTimeoutVisible := True\<rparr>)" by (rule calm_same) (simp_all add: round_frame_def stops_of_def)
  from auto_calm_trans [OF auto_calm_trans [OF auto_calm_trans [OF auto_calm_trans [OF this calm_stop] calm_panels(3)] calm_panels(1)] calm_panels(2)]
  show ?thesis by (simp add: showSessionTimeout_def auto_calm_refl)
qed

lemma calm_rest: "calm s (setSpinMode m s)" "calm s (setAutoplayPaidSpinEligible e s)" "calm s (setControls a b s)"
    "calm s (destroyUi s)" "calm s (handleAutoplayStopConditionChange x c s)" "calm s (s\<lparr>fastPlay := f\<rparr>)" "calm s (selectAutoplayCount k s)"
  by (rule calm_same; simp add: round_frame_def stops_of_def setSpinMode_def setAutoplayPaidSpinEligible_def setControls_def
      setBetPopupOpen_def closeBetPopup_def destroyUi_def handleAutoplayStopConditionChange_def setAutoplayStopSettings_def
      clearAutoplayTimer_def selectAutoplayCount_def Let_def)+

lemma calm_space: "calm s (spacebarPressed p q s)"
  using calm_handler auto_calm_refl by (simp add: spacebarPressed_def)

lemma calm_paid: "calm s (snd (finalizeAcceptedPaidAutoplaySpin s))" "calm s (snd (rollbackAcceptedPaidAutoplaySpin s))"
  by (auto simp: calm_def round_frame_def stops_of_def at_rest_def finalizeAcceptedPaidAutoplaySpin_def
      rollbackAcceptedPaidAutoplaySpin_def ui_effect_def split: option.split)

lemma frame_start: "round_frame s (autoplayAction s)"
proof -
  have "round_frame s (startAutoplay s)"
    by (simp add: startAutoplay_def round_frame_def stops_of_def closeAutoplayModal_def ui_effect_def)
  with calm_stop show ?thesis by (simp add: autoplayAction_def calm_def)
qed

lemma frame_commit: "round_frame s (commitAcceptedPaidAutoplaySpin s)"
  by (simp add: commitAcceptedPaidAutoplaySpin_def Let_def round_frame_def stops_of_def ui_effect_def)

text \<open>What a round has collected so far, and the events that leave it armed.\<close>

definition tracks :: "int \<Rightarrow> string \<Rightarrow> AutoPlayStopSettings \<Rightarrow> bool \<Rightarrow> nat \<Rightarrow> AutoPlayStopBoundary set \<Rightarrow> autoplay \<Rightarrow> bool" where
  "tracks n sid x eligible k hits s = (\<exists>r. armedStopRound s = Some r \<and> armed_sequence r = n \<and> armed_settings r = x
     \<and> anyWinEligible r = eligible \<and> stopSessionId s = sid \<and> set (reached r) = hits
     \<and> stopRequested r = (\<exists>b \<in> hits. isAutoPlayStopBoundaryEnabled x b)
     \<and> stops_of n s = k + (if stopRequested r then 1 else 0))"

fun keeps_round :: "int \<Rightarrow> string \<Rightarrow> autoplay_event \<Rightarrow> bool" where
  "keeps_round n sid (RoundArmed r) = (sessionId r = sid \<and> sequence r = n)"
| "keeps_round n sid (SessionApplied i) = (i = sid)"
| "keeps_round n sid (RoundCompleted m) = (m \<noteq> None \<and> m \<noteq> Some n)"
| "keeps_round n sid e = True"

fun hits_of :: "int \<Rightarrow> bool \<Rightarrow> autoplay_event \<Rightarrow> AutoPlayStopBoundary set" where
  "hits_of n eligible (BoundaryReached m b) = (if m = n \<and> (b = any_win \<longrightarrow> eligible) then {b} else {})"
| "hits_of n eligible e = {}"

lemma tracks_frame: "tracks n sid x el k hits s \<Longrightarrow> round_frame s t \<Longrightarrow> tracks n sid x el k hits t"
  by (simp add: tracks_def round_frame_def)

lemma calm_frame: "calm s t \<Longrightarrow> round_frame s t"
  by (simp add: calm_def)

lemma reach_other: "armedStopRound s = Some r \<Longrightarrow> armed_sequence r \<noteq> m \<Longrightarrow> snd (reachAutoplayStopBoundary m b s) = s"
  by (simp add: reachAutoplayStopBoundary_def)

lemma tracks_reach:
  assumes "tracks n sid x el k hits s"
  shows "tracks n sid x el k (hits \<union> hits_of n el (BoundaryReached n b)) (snd (reachAutoplayStopBoundary n b s))"
proof -
  obtain r where r: "armedStopRound s = Some r" "armed_sequence r = n" "armed_settings r = x" "anyWinEligible r = el"
      "stopSessionId s = sid" "set (reached r) = hits" "stopRequested r = (\<exists>b \<in> hits. isAutoPlayStopBoundaryEnabled x b)"
      "stops_of n s = k + (if stopRequested r then 1 else 0)"
    using assms unfolding tracks_def by (elim exE conjE) (rule that)
  show ?thesis
  proof (cases "b = any_win \<and> \<not> el \<or> b \<in> hits \<or> stopRequested r \<or> \<not> isAutoPlayStopBoundaryEnabled x b")
    case True
    show ?thesis
    proof (cases "b = any_win \<and> \<not> el \<or> b \<in> hits")
      case True
      then have "snd (reachAutoplayStopBoundary n b s) = s" using r by (auto simp: reachAutoplayStopBoundary_def)
      moreover have "hits \<union> hits_of n el (BoundaryReached n b) = hits" using True by auto
      ultimately show ?thesis using assms by simp
    next
      case False
      then have more: "b \<noteq> any_win \<or> el" "b \<notin> set (reached r)" "stopRequested r \<or> \<not> isAutoPlayStopBoundaryEnabled x b"
        using True r(6) by auto
      then have "snd (reachAutoplayStopBoundary n b s) = s\<lparr>armedStopRound := Some (r\<lparr>reached := b # reached r\<rparr>)\<rparr>"
        using r(1-4) by (auto simp: reachAutoplayStopBoundary_def Let_def)
      moreover have "hits \<union> hits_of n el (BoundaryReached n b) = insert b hits" using more(1) by auto
      moreover have "stopRequested r = (\<exists>b \<in> insert b hits. isAutoPlayStopBoundaryEnabled x b)"
        using r(7) more(3) by auto
      ultimately show ?thesis using r(1-6,8) by (simp add: tracks_def stops_of_def)
    qed
  next
    case False
    define t where "t = ui_effect (RoundStopped n) (s\<lparr>armedStopRound := Some (r\<lparr>reached := b # reached r, stopRequested := True\<rparr>),
        stoppedStopSequence := Some n\<rparr>)"
    have "tracks n sid x el k (insert b hits) t"
      using r False by (auto simp: tracks_def t_def ui_effect_def stops_of_def)
    then have "tracks n sid x el k (insert b hits) (if run_active (run t) then stopAutoplay t else t)"
      using tracks_frame [OF _ calm_frame [OF calm_stop]] by simp
    moreover have "run_active (run t) = run_active (run s)" by (simp add: t_def ui_effect_def)
    moreover have "snd (reachAutoplayStopBoundary n b s) = (if run_active (run s) then stopAutoplay t else t)"
      using r False by (auto simp: reachAutoplayStopBoundary_def Let_def t_def)
    moreover have "hits \<union> hits_of n el (BoundaryReached n b) = insert b hits" using False by auto
    ultimately show ?thesis by (simp only:)
  qed
qed

lemma tracks_step:
  assumes "tracks n sid x el k hits s" and "keeps_round n sid e"
  shows "tracks n sid x el k (hits \<union> hits_of n el e) (autoplay_step e s)"
proof -
  have frame: "tracks n sid x el k hits t" if "round_frame s t" for t
    using tracks_frame [OF assms(1) that] .
  have r: "\<exists>r. armedStopRound s = Some r \<and> armed_sequence r = n" "stopSessionId s = sid"
    using assms(1) by (auto simp: tracks_def)
  show ?thesis
  proof (cases e)
    case (BoundaryReached m b)
    show ?thesis
    proof (cases "m = n")
      case True
      with BoundaryReached tracks_reach [OF assms(1), of b] show ?thesis by simp
    next
      case False
      with BoundaryReached r(1) reach_other assms(1) show ?thesis by auto
    qed
  next
    case (RoundCompleted m)
    then obtain j where "m = Some j" "j \<noteq> n" using assms(2) by auto
    with RoundCompleted r(1) assms(1) show ?thesis by (auto simp: completeAutoplayStopRound_def)
  next
    case (RoundArmed q)
    with r assms show ?thesis by (auto simp: armAutoplayStopRound_def Let_def)
  next
    case (SessionApplied i)
    with r assms show ?thesis by (simp add: applySessionToUi_def)
  qed (simp_all add: frame calm_frame auto_calm_refl calm_timer calm_primary calm_space frame_start calm_rest calm_panels calm_launch
      frame_commit calm_paid calm_timeout)
qed

lemma tracks_run:
  assumes "tracks n sid x el k hits s" and "list_all (keeps_round n sid) es"
  shows "tracks n sid x el k (hits \<union> \<Union> (set (map (hits_of n el) es))) (autoplay_run es s)"
  using assms
proof (induction es arbitrary: s hits)
  case (Cons e es)
  then have "tracks n sid x el k (hits \<union> hits_of n el e) (autoplay_step e s)" by (simp add: tracks_step)
  from Cons.IH [OF this] Cons.prems show ?case by (simp add: Un_assoc)
qed simp

text \<open>Once the round has stopped the run, only the player starts another.\<close>

definition quiet :: "int \<Rightarrow> autoplay \<Rightarrow> bool" where
  "quiet n s = (pendingPaidSpin s = None
     \<and> (\<forall>r. armedStopRound s = Some r \<and> armed_sequence r = n \<and> stopRequested r \<longrightarrow> at_rest s))"

lemma auto_quiet_calm: "quiet n s \<Longrightarrow> calm s t \<Longrightarrow> quiet n t"
  by (simp add: quiet_def calm_def round_frame_def)

lemma commit_rest: "at_rest s \<Longrightarrow> commitAcceptedPaidAutoplaySpin s = s"
  by (simp add: at_rest_def commitAcceptedPaidAutoplaySpin_def advanceAutoPlay_def)

lemma quiet_reach:
  assumes "quiet n s"
  shows "quiet n (snd (reachAutoplayStopBoundary m b s))"
proof (cases "armedStopRound s")
  case None
  with assms show ?thesis by (simp add: reachAutoplayStopBoundary_def)
next
  case (Some r)
  have stop: "quiet n (stopAutoplay t)" for t
    using stop_rests [of t] by (simp add: quiet_def at_rest_def)
  show ?thesis
    using assms Some stop
    by (auto simp: reachAutoplayStopBoundary_def Let_def quiet_def at_rest_def ui_effect_def)
qed

lemma quiet_step:
  assumes "quiet n s" and "e \<noteq> ActionClicked" and "e \<noteq> PaidCommitted" and "keeps_round n sid e" and "stopSessionId s = sid"
    and "\<exists>r. armedStopRound s = Some r \<and> armed_sequence r = n"
  shows "quiet n (autoplay_step e s)"
proof (cases e)
  case (RoundCompleted m)
  then obtain j where "m = Some j" "j \<noteq> n" using assms(4) by auto
  with RoundCompleted assms(1,6) show ?thesis by (auto simp: completeAutoplayStopRound_def)
next
  case (RoundArmed q)
  with assms show ?thesis by (auto simp: armAutoplayStopRound_def Let_def)
next
  case (SessionApplied i)
  with assms show ?thesis by (simp add: applySessionToUi_def)
qed (use assms in \<open>simp_all add: quiet_reach auto_quiet_calm [OF _ calm_timer] auto_quiet_calm [OF _ calm_primary] auto_quiet_calm [OF _ calm_space]
    auto_quiet_calm [OF _ auto_calm_refl] auto_quiet_calm [OF _ calm_rest(1)] auto_quiet_calm [OF _ calm_rest(2)] auto_quiet_calm [OF _ calm_rest(3)]
    auto_quiet_calm [OF _ calm_rest(4)] auto_quiet_calm [OF _ calm_rest(5)] auto_quiet_calm [OF _ calm_rest(6)] auto_quiet_calm [OF _ calm_rest(7)]
    auto_quiet_calm [OF _ calm_panels(1)] auto_quiet_calm [OF _ calm_panels(2)] auto_quiet_calm [OF _ calm_panels(3)]
    auto_quiet_calm [OF _ calm_launch] auto_quiet_calm [OF _ calm_paid(1)] auto_quiet_calm [OF _ calm_paid(2)] auto_quiet_calm [OF _ calm_timeout]\<close>)

lemma quiet_run:
  assumes "tracks n sid x el k hits s" and "quiet n s" and "list_all (keeps_round n sid) es"
    and "ActionClicked \<notin> set es" and "PaidCommitted \<notin> set es"
  shows "quiet n (autoplay_run es s)"
  using assms
proof (induction es arbitrary: s hits)
  case (Cons e es)
  then have "tracks n sid x el k (hits \<union> hits_of n el e) (autoplay_step e s)" by (simp add: tracks_step)
  moreover have "quiet n (autoplay_step e s)"
    using Cons.prems by (intro quiet_step [where sid = sid]) (auto simp: tracks_def)
  ultimately show ?case using Cons.IH Cons.prems by simp
qed simp

section \<open>The end of a round\<close>

lemma complete_tracked:
  assumes "tracks n sid x el k hits s" and "any_win \<in> hits \<longrightarrow> el"
  shows "fst (completeAutoplayStopRound (Some n) s) = (\<exists>b. isAutoPlayStopBoundaryEnabled x b \<and> (if b = any_win then el else b \<in> hits))
    \<and> stops_of n (snd (completeAutoplayStopRound (Some n) s)) = k + (if fst (completeAutoplayStopRound (Some n) s) then 1 else 0)
    \<and> (quiet n s \<and> fst (completeAutoplayStopRound (Some n) s) \<longrightarrow> \<not> run_active (run (snd (completeAutoplayStopRound (Some n) s))))"
proof -
  define t where "t = (if el \<and> any_win \<notin> hits then snd (reachAutoplayStopBoundary n any_win s) else s)"
  have t: "tracks n sid x el k (if el then insert any_win hits else hits) t"
    using assms tracks_reach [OF assms(1), of any_win] by (auto simp: t_def insert_absorb)
  obtain r where r: "armedStopRound s = Some r" "armed_sequence r = n" "anyWinEligible r = el" "set (reached r) = hits"
    using assms(1) unfolding tracks_def by (elim exE conjE) (rule that)
  obtain q where q: "armedStopRound t = Some q" "armed_sequence q = n"
      "stopRequested q = (\<exists>b \<in> (if el then insert any_win hits else hits). isAutoPlayStopBoundaryEnabled x b)"
      "stops_of n t = k + (if stopRequested q then 1 else 0)"
    using t unfolding tracks_def by (elim exE conjE) (rule that)
  have step: "(if anyWinEligible r \<and> any_win \<notin> set (reached r) then snd (reachAutoplayStopBoundary n any_win s) else s) = t"
    using r(3,4) by (simp add: t_def)
  have c: "completeAutoplayStopRound (Some n) s
      = (stopRequested q, t\<lparr>completedStopSequence := max (completedStopSequence t) n, armedStopRound := None\<rparr>)"
    unfolding completeAutoplayStopRound_def option.case r(1) r(2) step Let_def q(1) by (simp only: simp_thms if_False if_True)
  have "quiet n s \<Longrightarrow> quiet n t" by (simp add: t_def quiet_reach)
  with q have quiet: "quiet n s \<and> stopRequested q \<longrightarrow> \<not> run_active (run t)" by (auto simp: quiet_def at_rest_def)
  have asked: "stopRequested q = (\<exists>b. isAutoPlayStopBoundaryEnabled x b \<and> (if b = any_win then el else b \<in> hits))"
  proof -
    have "b \<in> (if el then insert any_win hits else hits) \<longleftrightarrow> (if b = any_win then el else b \<in> hits)" for b
      using assms(2) by (cases el; cases "b = any_win") simp_all
    then show ?thesis unfolding q(3) Bex_def by (simp only: conj_commute)
  qed
  have "stops_of n (t\<lparr>completedStopSequence := m, armedStopRound := None\<rparr>) = stops_of n t" for m
    by (simp add: stops_of_def)
  moreover have "run (t\<lparr>completedStopSequence := m, armedStopRound := None\<rparr>) = run t" for m by simp
  ultimately show ?thesis unfolding c fst_conv snd_conv using quiet asked q(4) by (intro conjI) (simp_all only:)
qed

section \<open>Properties\<close>

text \<open>
  C14: an automatic run never spends more than the player granted. Over all interleavings of
  clicks, timers, panels and calls of the controller: the timer asks for a spin and a paid spin is
  charged to the run only while some of the granted spins (one of the offered counts, at most 100)
  are left, a rejected spin is given back at most once, nothing is charged after the run was
  stopped, and the button shows exactly what is left.
\<close>

theorem autoplay_never_overspends:
  "\<exists>granted spent. account (ui_effects (autoplay_run es (newAutoplay x))) = Some (granted, spent)
     \<and> 0 \<le> spent \<and> spent \<le> granted \<and> granted \<le> 100
     \<and> run (autoplay_run es (newAutoplay x)) = \<lparr>run_active = (spent < granted), run_remaining = granted - spent\<rparr>"
  using autoplay_run_inv [OF run_inv_new, of es x] unfolding run_inv_def balanced_def by blast


text \<open>
  C35: the space bar is not the button it stands for. While a run waits for its next spin, the
  main button is the button that stops the run, and pressing it stops the run without a spin. The
  space bar asks for a paid spin at once instead, and the run goes on.
\<close>

theorem spacebar_spins_during_run:
  assumes "run_active (run s)" and "canSpin s" and "spinMode s = mode_ready" and "\<not> anyControlPanelOpen s"
    and "\<not> ui_destroyed s"
  shows "primary_action (primarySpinControlPresentation (spinMode s) (canSpin s) (run s)) = autoplay_stop
    \<and> run (autoplay_step PrimaryClicked s) = stoppedRun
    \<and> ui_effects (autoplay_step PrimaryClicked s) = ui_effects s @ [RunStopped]
    \<and> ui_effects (autoplay_step (SpacePressed True False) s) = ui_effects s @ [SpinHandler BySpacebar]
    \<and> run (autoplay_step (SpacePressed True False) s) = run s"
  using assms by (simp add: primarySpinControlPresentation_def isAutoplayFeatureOwnedSpinMode_def handlePrimarySpinAction_def
      stopAutoplay_def Let_def clearAutoplayTimer_def ui_effect_def spacebarPressed_def callHandler_def closeAutoplayModal_def
      anyControlPanelOpen_def)

section \<open>Witnesses\<close>

definition sampleAutoplay :: autoplay where
  "sampleAutoplay = autoplay_run [SessionApplied ''session-1'', SpinModeSet mode_ready, ControlsSet True True, EligibleSet True,
     ConditionChanged any_win True, CountSelected 10, ActionClicked] (newAutoplay DEFAULT_AUTO_PLAY_STOP_SETTINGS)"


theorem spacebar_spins_during_run_witness:
  "ui_effects (autoplay_step (SpacePressed True False) sampleAutoplay) = [RunStarted 10, SpinHandler BySpacebar]
   \<and> run_remaining (run (autoplay_step (SpacePressed True False) sampleAutoplay)) = 10"
proof -
  have "run_active (run sampleAutoplay)" "canSpin sampleAutoplay" "spinMode sampleAutoplay = mode_ready"
      "\<not> anyControlPanelOpen sampleAutoplay" "\<not> ui_destroyed sampleAutoplay" "ui_effects sampleAutoplay = [RunStarted 10]"
      "run_remaining (run sampleAutoplay) = 10"
    by code_simp+
  with spacebar_spins_during_run [of sampleAutoplay] show ?thesis by simp
qed

end
