(* ===== verification/Asset_Manifest.thy ===== *)
theory Asset_Manifest
  imports Js_Values Prelude
begin

text \<open>
  The manifest of the streamed asset packages (\<open>startup/StreamingAssetPackages.ts\<close>): its strict
  validation, the order in which packages can be loaded, and the packages a set of targets needs.
  The manifest is any JSON value. Recursion over dependencies carries as fuel one more than the
  number of packages, which is proved to be enough.
\<close>

section \<open>The manifest\<close>

datatype AssetPackageStage = startup_shell | base_critical | interaction_ready | feature_on_demand

record AssetPackageResourceSpec =
  resource_id :: string
  resource_url :: string
  resource_bytes :: int
  resource_sha256 :: string
  resource_decoder :: string

record AssetPackageSpec =
  package_id :: string
  package_version :: string
  package_stage :: AssetPackageStage
  dependsOn :: "string list"
  package_resources :: "AssetPackageResourceSpec list"

record AssetPackageManifest =
  assetSet :: string
  packages :: "AssetPackageSpec list"

text \<open>The errors thrown; reading a property of \<open>null\<close> or calling a method that is not there is a \<open>TypeError\<close>.\<close>

datatype manifest_error =
    SchemaVersion | AssetSetEmpty | PackagesNotArray | PackageIdEmpty | DuplicatePackage string
  | PackageVersionEmpty string | UnknownStage string | ResourcesEmpty string | DuplicateDependencies string
  | ResourceIdEmpty string | DuplicateResource string | UnsafeUrl string | DuplicateUrl string
  | BytesNotPositive string | BytesBeyondLimit string | InvalidDigest string | DecoderEmpty string
  | UnknownDependency string js | SelfDependency string | DependencyCycle string
  | ManifestTypeError

definition validToken :: "js \<Rightarrow> string option" where
  "validToken v = (case v of JString s \<Rightarrow> if trim s = [] then None else Some s | _ \<Rightarrow> None)"

definition isSafeAssetUrl :: "string \<Rightarrow> bool" where
  "isSafeAssetUrl url = ((case url of c # cs \<Rightarrow> c = CHR ''/'' \<and> (case cs of d # ds \<Rightarrow> d \<noteq> CHR ''/'' | [] \<Rightarrow> True) | [] \<Rightarrow> False)
     \<and> CHR 0x5C \<notin> set url \<and> CHR 0x00 \<notin> set url)"

definition assetPackageResourceBytes :: int where
  "assetPackageResourceBytes = 16 * 1024 * 1024"

definition stageOf :: "js \<Rightarrow> AssetPackageStage option" where
  "stageOf v = (case v of JString s \<Rightarrow>
       if s = ''startup-shell'' then Some startup_shell
       else if s = ''base-critical'' then Some base_critical
       else if s = ''interaction-ready'' then Some interaction_ready
       else if s = ''feature-on-demand'' then Some feature_on_demand
       else None
     | _ \<Rightarrow> None)"

text \<open>\<open>v.key\<close>\<close>

definition propertyOf :: "js \<Rightarrow> string \<Rightarrow> manifest_error + js" where
  "propertyOf v k = (case v of JObject o1 \<Rightarrow> Inr (getProp o1 k) | JNull \<Rightarrow> Inl ManifestTypeError
     | JUndefined \<Rightarrow> Inl ManifestTypeError | _ \<Rightarrow> Inr JUndefined)"

text \<open>\<open>[...(v ?? [])]\<close>; a string is spread into its characters.\<close>

definition spread :: "js \<Rightarrow> manifest_error + js list" where
  "spread v = (case v of JUndefined \<Rightarrow> Inr [] | JNull \<Rightarrow> Inr [] | JArray xs \<Rightarrow> Inr xs
     | JString s \<Rightarrow> Inr (map (\<lambda>c. JString [c]) s) | _ \<Rightarrow> Inl ManifestTypeError)"

text \<open>Whether \<open>new Set(xs)\<close> is smaller than \<open>xs\<close>: two objects are never the same.\<close>

definition is_reference :: "js \<Rightarrow> bool" where
  "is_reference v = (case v of JArray xs \<Rightarrow> True | JObject o1 \<Rightarrow> True | _ \<Rightarrow> False)"

definition hasDuplicates :: "js list \<Rightarrow> bool" where
  "hasDuplicates xs = (\<not> distinct (filter (\<lambda>v. \<not> is_reference v) xs))"

section \<open>Validation\<close>

record manifest_scan =
  seen_packages :: "string list"
  seen_resources :: "string list"
  seen_urls :: "string list"

definition resourceOf :: "string \<Rightarrow> js \<Rightarrow> manifest_scan \<Rightarrow> manifest_error + (AssetPackageResourceSpec \<times> manifest_scan)" where
  "resourceOf entryId resource scan =
     bindE (propertyOf resource ''id'') (\<lambda>rid. case validToken rid of None \<Rightarrow> Inl (ResourceIdEmpty entryId) | Some rid \<Rightarrow>
     if rid \<in> set (seen_resources scan) then Inl (DuplicateResource rid) else
     bindE (propertyOf resource ''url'') (\<lambda>url. case url of JString url \<Rightarrow>
       if \<not> isSafeAssetUrl url then Inl (UnsafeUrl rid)
       else if url \<in> set (seen_urls scan) then Inl (DuplicateUrl url) else
       bindE (propertyOf resource ''bytes'') (\<lambda>bytes.
       case (case bytes of JNumber n \<Rightarrow> safeInteger n | _ \<Rightarrow> None) of None \<Rightarrow> Inl (BytesNotPositive rid) | Some bytes \<Rightarrow>
       if bytes \<le> 0 then Inl (BytesNotPositive rid)
       else if assetPackageResourceBytes < bytes then Inl (BytesBeyondLimit rid) else
       bindE (propertyOf resource ''sha256'') (\<lambda>sha. case sha of JString sha \<Rightarrow>
         let digest = toLowerCase sha in
         if \<not> DIGEST_PATTERN digest then Inl (InvalidDigest rid) else
         bindE (propertyOf resource ''decoder'') (\<lambda>decoder.
         case validToken decoder of None \<Rightarrow> Inl (DecoderEmpty rid) | Some decoder \<Rightarrow>
         Inr (\<lparr>resource_id = rid, resource_url = url, resource_bytes = bytes, resource_sha256 = digest,
                resource_decoder = decoder\<rparr>,
              scan\<lparr>seen_resources := rid # seen_resources scan, seen_urls := url # seen_urls scan\<rparr>))
       | _ \<Rightarrow> Inl ManifestTypeError))
     | _ \<Rightarrow> Inl ManifestTypeError))"

fun mapScan :: "('a \<Rightarrow> 's \<Rightarrow> 'e + ('b \<times> 's)) \<Rightarrow> 'a list \<Rightarrow> 's \<Rightarrow> 'e + ('b list \<times> 's)" where
  "mapScan f [] s = Inr ([], s)"
| "mapScan f (x # xs) s = bindE (f x s) (\<lambda>(y, s). bindE (mapScan f xs s) (\<lambda>(ys, s). Inr (y # ys, s)))"

text \<open>A dependency is kept as the value it is until all package ids are known.\<close>

definition packageOf :: "js \<Rightarrow> manifest_scan \<Rightarrow> manifest_error + ((AssetPackageSpec \<times> js list) \<times> manifest_scan)" where
  "packageOf entry scan =
     bindE (propertyOf entry ''id'') (\<lambda>pid. case validToken pid of None \<Rightarrow> Inl PackageIdEmpty | Some pid \<Rightarrow>
     if pid \<in> set (seen_packages scan) then Inl (DuplicatePackage pid) else
     let scan = scan\<lparr>seen_packages := pid # seen_packages scan\<rparr> in
     bindE (propertyOf entry ''version'') (\<lambda>version. case validToken version of None \<Rightarrow> Inl (PackageVersionEmpty pid) | Some version \<Rightarrow>
     bindE (propertyOf entry ''stage'') (\<lambda>stage. case stageOf stage of None \<Rightarrow> Inl (UnknownStage pid) | Some stage \<Rightarrow>
     bindE (propertyOf entry ''resources'') (\<lambda>resources. case resources of JArray resources \<Rightarrow>
       if resources = [] then Inl (ResourcesEmpty pid) else
       bindE (propertyOf entry ''dependsOn'') (\<lambda>deps. bindE (spread deps) (\<lambda>deps.
       if hasDuplicates deps then Inl (DuplicateDependencies pid) else
       bindE (mapScan (resourceOf pid) resources scan) (\<lambda>(resources, scan).
       Inr ((\<lparr>package_id = pid, package_version = version, package_stage = stage, dependsOn = [],
              package_resources = resources\<rparr>, deps), scan))))
     | _ \<Rightarrow> Inl (ResourcesEmpty pid)))))"

definition dependencyOf :: "string list \<Rightarrow> string \<Rightarrow> js \<Rightarrow> manifest_error + string" where
  "dependencyOf ids pid v = (case v of
       JString d \<Rightarrow> if d \<notin> set ids then Inl (UnknownDependency pid v) else if d = pid then Inl (SelfDependency pid) else Inr d
     | _ \<Rightarrow> Inl (UnknownDependency pid v))"

definition checkDependencies :: "string list \<Rightarrow> AssetPackageSpec \<times> js list \<Rightarrow> manifest_error + AssetPackageSpec" where
  "checkDependencies ids = (\<lambda>(spec, deps).
     bindE (mapE (dependencyOf ids (package_id spec)) deps) (\<lambda>ds. Inr (spec\<lparr>dependsOn := ds\<rparr>)))"

section \<open>The order of the packages\<close>

record order_scan =
  visiting :: "string list"
  order_result :: "string list"

text \<open>A package is visited when it is in the result. Running out of fuel would be \<open>None\<close>.\<close>

definition dependenciesOf :: "AssetPackageSpec list \<Rightarrow> string \<Rightarrow> string list" where
  "dependenciesOf ps pid = (case find (\<lambda>p. package_id p = pid) ps of None \<Rightarrow> [] | Some p \<Rightarrow> dependsOn p)"

fun visitAll :: "('a \<Rightarrow> 's \<Rightarrow> ('e + 's) option) \<Rightarrow> 'a list \<Rightarrow> 's \<Rightarrow> ('e + 's) option" where
  "visitAll f [] s = Some (Inr s)"
| "visitAll f (x # xs) s = (case f x s of None \<Rightarrow> None | Some (Inl e) \<Rightarrow> Some (Inl e) | Some (Inr s') \<Rightarrow> visitAll f xs s')"

primrec visit :: "AssetPackageSpec list \<Rightarrow> nat \<Rightarrow> string \<Rightarrow> order_scan \<Rightarrow> (manifest_error + order_scan) option" where
  "visit ps 0 pid s = None"
| "visit ps (Suc n) pid s =
     (if pid \<in> set (order_result s) then Some (Inr s)
      else if pid \<in> set (visiting s) then Some (Inl (DependencyCycle pid))
      else case visitAll (visit ps n) (dependenciesOf ps pid) (s\<lparr>visiting := pid # visiting s\<rparr>) of
        None \<Rightarrow> None
      | Some (Inl e) \<Rightarrow> Some (Inl e)
      | Some (Inr s) \<Rightarrow> Some (Inr (s\<lparr>visiting := removeAll pid (visiting s), order_result := order_result s @ [pid]\<rparr>)))"

definition topologicalPackageOrder :: "AssetPackageSpec list \<Rightarrow> (manifest_error + string list) option" where
  "topologicalPackageOrder ps =
     (case visitAll (visit ps (Suc (length ps))) (map package_id ps) \<lparr>visiting = [], order_result = []\<rparr> of
        None \<Rightarrow> None | Some (Inl e) \<Rightarrow> Some (Inl e) | Some (Inr s) \<Rightarrow> Some (Inr (order_result s)))"

record ValidatedAssetPackageManifest =
  validated_manifest :: AssetPackageManifest
  dependencyOrder :: "string list"

definition validatedPackages :: "js \<Rightarrow> manifest_error + (string \<times> AssetPackageSpec list)" where
  "validatedPackages input =
     (case input of JObject m \<Rightarrow>
        if getProp m ''schemaVersion'' \<noteq> JNumber (JsInt 1) then Inl SchemaVersion
        else (case validToken (getProp m ''assetSet'') of None \<Rightarrow> Inl AssetSetEmpty | Some assets \<Rightarrow>
          (case getProp m ''packages'' of JArray entries \<Rightarrow>
             bindE (mapScan packageOf entries \<lparr>seen_packages = [], seen_resources = [], seen_urls = []\<rparr>) (\<lambda>(specs, scan).
             bindE (mapE (checkDependencies (map (package_id \<circ> fst) specs)) specs) (\<lambda>ps. Inr (assets, ps)))
           | _ \<Rightarrow> Inl PackagesNotArray))
      | _ \<Rightarrow> Inl SchemaVersion)"

definition validateAssetPackageManifest :: "js \<Rightarrow> (manifest_error + ValidatedAssetPackageManifest) option" where
  "validateAssetPackageManifest input = (case validatedPackages input of
       Inl e \<Rightarrow> Some (Inl e)
     | Inr (assets, ps) \<Rightarrow> (case topologicalPackageOrder ps of
         None \<Rightarrow> None | Some (Inl e) \<Rightarrow> Some (Inl e)
       | Some (Inr order) \<Rightarrow> Some (Inr \<lparr>validated_manifest = \<lparr>assetSet = assets, packages = ps\<rparr>, dependencyOrder = order\<rparr>)))"

section \<open>What a set of packages needs\<close>

primrec selectPackage :: "AssetPackageSpec list \<Rightarrow> nat \<Rightarrow> string \<Rightarrow> string list \<Rightarrow> string list" where
  "selectPackage ps 0 pid selected = selected"
| "selectPackage ps (Suc n) pid selected =
     (if pid \<in> set selected then selected
      else fold (selectPackage ps n) (dependenciesOf ps pid) selected @ [pid])"

definition dependencyClosureIds :: "ValidatedAssetPackageManifest \<Rightarrow> string list \<Rightarrow> string list" where
  "dependencyClosureIds v targets = (let ps = packages (validated_manifest v);
       selected = fold (selectPackage ps (Suc (length ps))) targets [] in
     filter (\<lambda>pid. pid \<in> set selected) (dependencyOrder v))"

definition packageBytes :: "AssetPackageSpec \<Rightarrow> int" where
  "packageBytes spec = sum_list (map resource_bytes (package_resources spec))"

end
