(* ===== verification/Asset_Order.thy ===== *)
theory Asset_Order
  imports Asset_Manifest
begin

text \<open>
  The depth-first order of the packages: it lists every package after those it needs, it is found
  exactly when the dependencies have no cycle, and the fuel of the recursion is enough.
\<close>

definition needs :: "AssetPackageSpec list \<Rightarrow> (string \<times> string) set" where
  "needs ps = {(p, d). d \<in> set (dependenciesOf ps p)}"

definition ids_of :: "AssetPackageSpec list \<Rightarrow> string list" where
  "ids_of ps = map package_id ps"

text \<open>What validation has established before packages are ordered.\<close>

definition well_linked :: "AssetPackageSpec list \<Rightarrow> bool" where
  "well_linked ps = (distinct (ids_of ps) \<and> (\<forall>p \<in> set ps. set (dependsOn p) \<subseteq> set (ids_of ps)))"

definition deps_first :: "AssetPackageSpec list \<Rightarrow> string list \<Rightarrow> bool" where
  "deps_first ps xs = (\<forall>i < length xs. set (dependenciesOf ps (xs ! i)) \<subseteq> set (take i xs))"

lemma deps_first_snoc: "deps_first ps (xs @ [x]) \<longleftrightarrow> deps_first ps xs \<and> set (dependenciesOf ps x) \<subseteq> set xs"
  by (auto simp: deps_first_def nth_append less_Suc_eq)

lemma dependenciesOf_known:
  assumes "well_linked ps"
  shows "set (dependenciesOf ps p) \<subseteq> set (ids_of ps)"
proof (cases "find (\<lambda>q. package_id q = p) ps")
  case (Some q)
  then have "q \<in> set ps" by (rule find_Some_in [THEN conjunct1])
  with assms Some show ?thesis by (auto simp: well_linked_def dependenciesOf_def)
qed (simp add: dependenciesOf_def)

lemma dependenciesOf_unknown: "p \<notin> set (ids_of ps) \<Longrightarrow> dependenciesOf ps p = []"
  by (auto simp: dependenciesOf_def ids_of_def dest: find_Some_in split: option.split)

section \<open>A finished visit\<close>

definition scan_ok :: "AssetPackageSpec list \<Rightarrow> order_scan \<Rightarrow> bool" where
  "scan_ok ps s = (deps_first ps (order_result s) \<and> distinct (order_result s) \<and> distinct (visiting s)
     \<and> set (visiting s) \<inter> set (order_result s) = {} \<and> set (order_result s) \<subseteq> set (ids_of ps)
     \<and> set (visiting s) \<subseteq> set (ids_of ps))"

definition visits :: "AssetPackageSpec list \<Rightarrow> string list \<Rightarrow> order_scan \<Rightarrow> order_scan \<Rightarrow> bool" where
  "visits ps xs s t = (scan_ok ps t \<and> visiting t = visiting s \<and> set xs \<subseteq> set (order_result t)
     \<and> set (order_result s) \<subseteq> set (order_result t))"

lemma visitAll_ok:
  assumes "\<And>x s t. x \<in> set xs \<Longrightarrow> scan_ok ps s \<Longrightarrow> f x s = Some (Inr t) \<Longrightarrow> visits ps [x] s t"
    and "scan_ok ps s" and "visitAll f xs s = Some (Inr t)"
  shows "visits ps xs s t"
  using assms
proof (induction xs arbitrary: s)
  case Nil
  then show ?case by (simp add: visits_def)
next
  case (Cons x xs)
  then obtain u where u: "f x s = Some (Inr u)" "visitAll f xs u = Some (Inr t)"
    by (auto split: option.splits sum.splits)
  have "visits ps [x] s u" using Cons.prems(1) [OF _ Cons.prems(2) u(1)] by simp
  moreover from this have "visits ps xs u t"
    using Cons.prems(1) by (intro Cons.IH) (auto simp: visits_def u)
  ultimately show ?case by (auto simp: visits_def)
qed

lemma visit_ok:
  assumes "well_linked ps"
  shows "pid \<in> set (ids_of ps) \<Longrightarrow> scan_ok ps s \<Longrightarrow> visit ps n pid s = Some (Inr t) \<Longrightarrow> visits ps [pid] s t"
proof (induction n arbitrary: pid s t)
  case (Suc n)
  show ?case
  proof (cases "pid \<in> set (order_result s)")
    case True
    with Suc.prems show ?thesis by (simp add: visits_def)
  next
    case False
    have new1: "pid \<notin> set (visiting s)" using Suc.prems(3) False by (cases "pid \<in> set (visiting s)") simp_all
    with False Suc.prems(3) obtain u where
        u: "visitAll (visit ps n) (dependenciesOf ps pid) (s\<lparr>visiting := pid # visiting s\<rparr>) = Some (Inr u)"
        and t: "t = u\<lparr>visiting := removeAll pid (visiting u), order_result := order_result u @ [pid]\<rparr>"
      by (simp split: option.splits sum.splits)
    have "scan_ok ps (s\<lparr>visiting := pid # visiting s\<rparr>)"
      using Suc.prems False new1 by (auto simp: scan_ok_def)
    moreover have "visits ps [x] a b" if "x \<in> set (dependenciesOf ps pid)" "scan_ok ps a" "visit ps n x a = Some (Inr b)" for x a b
      using that dependenciesOf_known [OF assms] by (intro Suc.IH) auto
    ultimately have v: "visits ps (dependenciesOf ps pid) (s\<lparr>visiting := pid # visiting s\<rparr>) u"
      using u visitAll_ok [of "dependenciesOf ps pid" ps "visit ps n" "s\<lparr>visiting := pid # visiting s\<rparr>" u] by blast
    then have u1: "visiting u = pid # visiting s" and u2: "pid \<notin> set (order_result u)"
        and u3: "deps_first ps (order_result u)" "distinct (order_result u)" "set (order_result u) \<subseteq> set (ids_of ps)"
        and u4: "set (dependenciesOf ps pid) \<subseteq> set (order_result u)" "set (order_result s) \<subseteq> set (order_result u)"
        and u5: "set (visiting s) \<inter> set (order_result u) = {}"
      by (auto simp: visits_def scan_ok_def)
    have t1: "visiting t = visiting s" using new1 t u1 by simp
    have t2: "order_result t = order_result u @ [pid]" using t by simp
    have "deps_first ps (order_result t)" using u3(1) u4(1) by (simp add: t2 deps_first_snoc)
    moreover have "distinct (order_result t)" using u3(2) u2 by (simp add: t2)
    moreover have "set (visiting t) \<inter> set (order_result t) = {}" using u5 new1 by (simp add: t1 t2)
    moreover have "set (order_result t) \<subseteq> set (ids_of ps)" using u3(3) Suc.prems(1) by (simp add: t2)
    moreover have "distinct (visiting t)" "set (visiting t) \<subseteq> set (ids_of ps)"
      using Suc.prems(2) by (simp_all add: t1 scan_ok_def)
    ultimately have "scan_ok ps t" by (simp add: scan_ok_def)
    moreover have "set (order_result s) \<subseteq> set (order_result t)" using u4(2) by (simp add: t2 subset_insertI2)
    ultimately show ?thesis by (simp add: visits_def t1) (simp add: t2)
  qed
qed simp

section \<open>Enough fuel\<close>

lemma visitAll_fuel:
  assumes "\<And>x s. x \<in> set xs \<Longrightarrow> scan_ok ps s \<Longrightarrow> length (visiting s) = k \<Longrightarrow> f x s \<noteq> None"
    and "\<And>x s t. x \<in> set xs \<Longrightarrow> scan_ok ps s \<Longrightarrow> f x s = Some (Inr t) \<Longrightarrow> visits ps [x] s t"
    and "scan_ok ps s" and "length (visiting s) = k"
  shows "visitAll f xs s \<noteq> None"
  using assms
proof (induction xs arbitrary: s)
  case (Cons x xs)
  show ?case
  proof (cases "f x s")
    case None
    have "f x s \<noteq> None" by (rule Cons.prems(1)) (use Cons.prems(3,4) in simp_all)
    with None show ?thesis by simp
  next
    case (Some r)
    show ?thesis
    proof (cases r)
      case (Inr u)
      with Some Cons.prems(2) [OF _ Cons.prems(3)] have "visits ps [x] s u" by simp
      then have u: "scan_ok ps u" "length (visiting u) = k" using Cons.prems(4) by (simp_all add: visits_def)
      have "visitAll f xs u \<noteq> None"
      proof (rule Cons.IH)
        show "f y v \<noteq> None" if "y \<in> set xs" "scan_ok ps v" "length (visiting v) = k" for y v
          by (rule Cons.prems(1)) (use that in simp_all)
        show "visits ps [y] v t" if "y \<in> set xs" "scan_ok ps v" "f y v = Some (Inr t)" for y v t
          by (rule Cons.prems(2)) (use that in simp_all)
      qed (fact u)+
      with Some Inr show ?thesis by simp
    qed (use Some in simp)
  qed
qed simp

lemma visit_fuel:
  assumes "well_linked ps"
  shows "pid \<in> set (ids_of ps) \<Longrightarrow> scan_ok ps s \<Longrightarrow> length ps < n + length (visiting s) \<Longrightarrow> visit ps n pid s \<noteq> None"
proof (induction n arbitrary: pid s)
  case 0
  have "card (set (visiting s)) \<le> card (set (ids_of ps))"
    using 0 by (intro card_mono) (auto simp: scan_ok_def)
  also have "card (set (ids_of ps)) \<le> length ps" using card_length [of "ids_of ps"] by (simp add: ids_of_def del: set_map)
  finally have "length (visiting s) \<le> length ps" using 0 by (simp add: scan_ok_def distinct_card)
  with 0 show ?case by simp
next
  case (Suc n)
  have "visitAll (visit ps n) (dependenciesOf ps pid) (s\<lparr>visiting := pid # visiting s\<rparr>) \<noteq> None"
    if "pid \<notin> set (order_result s)" "pid \<notin> set (visiting s)"
  proof (rule visitAll_fuel [where ps = ps])
    show "scan_ok ps (s\<lparr>visiting := pid # visiting s\<rparr>)" using Suc.prems that by (auto simp: scan_ok_def)
    show "length (visiting (s\<lparr>visiting := pid # visiting s\<rparr>)) = Suc (length (visiting s))" by simp
    show "visit ps n x u \<noteq> None"
      if "x \<in> set (dependenciesOf ps pid)" "scan_ok ps u" "length (visiting u) = Suc (length (visiting s))" for x u
      using that Suc.prems dependenciesOf_known [OF assms] by (intro Suc.IH) auto
    show "visits ps [x] u t" if "x \<in> set (dependenciesOf ps pid)" "scan_ok ps u" "visit ps n x u = Some (Inr t)" for x u t
      using that dependenciesOf_known [OF assms] by (intro visit_ok [OF assms]) auto
  qed
  then show ?case
    by (cases "pid \<in> set (order_result s)"; cases "pid \<in> set (visiting s)") (simp_all split: option.split sum.split)
qed

section \<open>Cycles\<close>

text \<open>The packages being visited are a path of dependencies, the newest first.\<close>

fun path :: "AssetPackageSpec list \<Rightarrow> string list \<Rightarrow> bool" where
  "path ps (x # y # xs) = ((y, x) \<in> needs ps \<and> path ps (y # xs))"
| "path ps xs = True"

lemma path_reaches: "path ps xs \<Longrightarrow> p \<in> set xs \<Longrightarrow> (p, hd xs) \<in> (needs ps)\<^sup>*"
  by (induction ps xs rule: path.induct) (auto intro: rtrancl_into_rtrancl)

lemma visitAll_error:
  assumes "\<And>x s t. x \<in> set xs \<Longrightarrow> scan_ok ps s \<Longrightarrow> f x s = Some (Inr t) \<Longrightarrow> visits ps [x] s t"
    and "visitAll f xs s = Some (Inl e)" and "scan_ok ps s"
  obtains x u where "x \<in> set xs" and "scan_ok ps u" and "visiting u = visiting s" and "f x u = Some (Inl e)"
  using assms
proof (induction xs arbitrary: s)
  case (Cons x xs)
  show ?case
  proof (cases "f x s = Some (Inl e)")
    case True
    with Cons.prems(4) show ?thesis by (intro Cons.prems(1) [of x s]) simp_all
  next
    case False
    with Cons.prems(3) obtain u where u: "f x s = Some (Inr u)" "visitAll f xs u = Some (Inl e)"
      by (auto split: option.splits sum.splits)
    have "visits ps [x] s u" using Cons.prems(2) [OF _ Cons.prems(4) u(1)] by simp
    then have ok: "scan_ok ps u" "visiting u = visiting s" by (simp_all add: visits_def)
    show ?thesis
    proof (rule Cons.IH [OF _ _ u(2) ok(1)])
      fix y v
      assume "y \<in> set xs" "scan_ok ps v" "visiting v = visiting u" "f y v = Some (Inl e)"
      then show ?thesis using ok by (intro Cons.prems(1) [of y v]) simp_all
    qed (use Cons.prems(2) in simp)
  qed
qed simp

lemma visit_error:
  assumes "well_linked ps"
  shows "pid \<in> set (ids_of ps) \<Longrightarrow> scan_ok ps s \<Longrightarrow> path ps (pid # visiting s) \<Longrightarrow> visit ps n pid s = Some (Inl e)
    \<Longrightarrow> \<exists>q. e = DependencyCycle q \<and> (q, q) \<in> (needs ps)\<^sup>+"
proof (induction n arbitrary: pid s)
  case (Suc n)
  show ?case
  proof (cases "pid \<in> set (visiting s)")
    case True
    then obtain y ys where y: "visiting s = y # ys" by (cases "visiting s") auto
    with True Suc.prems(3) have "(pid, y) \<in> (needs ps)\<^sup>*" "(y, pid) \<in> needs ps"
      using path_reaches [of ps "visiting s" pid] by simp_all
    moreover have "e = DependencyCycle pid"
      using True Suc.prems by (auto simp: scan_ok_def split: if_splits)
    ultimately show ?thesis by (auto intro: rtrancl_into_trancl1)
  next
    case False
    have new1: "pid \<notin> set (order_result s)" using Suc.prems(4) by auto
    from False new1 Suc.prems(4) have "visitAll (visit ps n) (dependenciesOf ps pid) (s\<lparr>visiting := pid # visiting s\<rparr>) = Some (Inl e)"
      by (auto split: option.splits sum.splits)
    moreover have "scan_ok ps (s\<lparr>visiting := pid # visiting s\<rparr>)"
      using Suc.prems False new1 by (auto simp: scan_ok_def)
    moreover have "visits ps [x] v t" if "x \<in> set (dependenciesOf ps pid)" "scan_ok ps v" "visit ps n x v = Some (Inr t)" for x v t
      using that dependenciesOf_known [OF assms] by (intro visit_ok [OF assms]) auto
    ultimately obtain x u where x: "x \<in> set (dependenciesOf ps pid)" "scan_ok ps u"
        "visiting u = pid # visiting s" "visit ps n x u = Some (Inl e)"
      using visitAll_error [of "dependenciesOf ps pid" ps "visit ps n" "s\<lparr>visiting := pid # visiting s\<rparr>" e] by simp blast
    have "path ps (x # visiting u)" using x(1,3) Suc.prems(3) by (simp add: needs_def)
    with x dependenciesOf_known [OF assms] show ?thesis by (intro Suc.IH [of x u]) auto
  qed
qed simp

end
