(* ===== verification/Asset_Validation.thy ===== *)
theory Asset_Validation
  imports Asset_Order
begin

text \<open>
  What the validation of an asset manifest establishes: unique package, resource and URL names, safe
  URLs, bounded sizes, known dependencies, and an order of the packages that exists exactly when
  the dependencies have no cycle. The closure of a set of targets is what they need, and no more.
\<close>

section \<open>The resources and packages accepted\<close>

definition resource_ok :: "AssetPackageResourceSpec \<Rightarrow> bool" where
  "resource_ok r = (trim (resource_id r) \<noteq> [] \<and> isSafeAssetUrl (resource_url r) \<and> 0 < resource_bytes r
     \<and> resource_bytes r \<le> assetPackageResourceBytes \<and> DIGEST_PATTERN (resource_sha256 r) \<and> trim (resource_decoder r) \<noteq> [])"

definition package_ok :: "AssetPackageSpec \<Rightarrow> bool" where
  "package_ok p = (trim (package_id p) \<noteq> [] \<and> trim (package_version p) \<noteq> [] \<and> package_resources p \<noteq> []
     \<and> (\<forall>r \<in> set (package_resources p). resource_ok r))"

lemma validToken_Some [simp]: "validToken v = Some s \<longleftrightarrow> v = JString s \<and> trim s \<noteq> []"
  by (cases v) (auto simp: validToken_def)

lemma resourceOf_Inr:
  assumes "resourceOf e r scan = Inr (y, t)"
  shows "resource_ok y" and "resource_id y \<notin> set (seen_resources scan)" and "resource_url y \<notin> set (seen_urls scan)"
    and "t = scan\<lparr>seen_resources := resource_id y # seen_resources scan, seen_urls := resource_url y # seen_urls scan\<rparr>"
  using assms
  by (auto simp: resourceOf_def bindE_def resource_ok_def Let_def split: sum.splits option.splits if_splits js.splits)

lemma mapScan_resources:
  assumes "mapScan (resourceOf e) rs scan = Inr (ys, t)" and "distinct (seen_resources scan)" and "distinct (seen_urls scan)"
  shows "(\<forall>y \<in> set ys. resource_ok y) \<and> seen_resources t = rev (map resource_id ys) @ seen_resources scan
    \<and> seen_urls t = rev (map resource_url ys) @ seen_urls scan \<and> seen_packages t = seen_packages scan
    \<and> distinct (seen_resources t) \<and> distinct (seen_urls t) \<and> length ys = length rs"
  using assms
proof (induction rs arbitrary: scan ys t)
  case (Cons r rs)
  then obtain y u ys' where u: "resourceOf e r scan = Inr (y, u)" and ys': "mapScan (resourceOf e) rs u = Inr (ys', t)"
      and ys: "ys = y # ys'"
    by (auto simp: bindE_def split: sum.splits)
  note new1 = resourceOf_Inr [OF u]
  have "distinct (seen_resources u)" "distinct (seen_urls u)" using new1 Cons.prems(2,3) by simp_all
  from Cons.IH [OF ys' this] new1 show ?case by (elim conjE, intro conjI) (simp_all add: ys)
qed simp

lemma packageOf_Inr:
  assumes "packageOf e scan = Inr ((y, ds), t)" and "distinct (seen_resources scan)" and "distinct (seen_urls scan)"
  shows "package_ok y \<and> dependsOn y = [] \<and> package_id y \<notin> set (seen_packages scan)
    \<and> seen_packages t = package_id y # seen_packages scan
    \<and> seen_resources t = rev (map resource_id (package_resources y)) @ seen_resources scan
    \<and> seen_urls t = rev (map resource_url (package_resources y)) @ seen_urls scan
    \<and> distinct (seen_resources t) \<and> distinct (seen_urls t)"
proof -
  from assms(1) obtain pid version stage rs ys where
      y: "y = \<lparr>package_id = pid, package_version = version, package_stage = stage, dependsOn = [], package_resources = ys\<rparr>"
      and ys: "mapScan (resourceOf pid) rs (scan\<lparr>seen_packages := pid # seen_packages scan\<rparr>) = Inr (ys, t)"
      and ok: "trim pid \<noteq> []" "trim version \<noteq> []" "rs \<noteq> []" "pid \<notin> set (seen_packages scan)"
    by (auto simp: packageOf_def bindE_def Let_def split: sum.splits option.splits if_splits js.splits)
  have "distinct (seen_resources (scan\<lparr>seen_packages := pid # seen_packages scan\<rparr>))"
      "distinct (seen_urls (scan\<lparr>seen_packages := pid # seen_packages scan\<rparr>))"
    using assms(2,3) by simp_all
  note f = mapScan_resources [OF ys this]
  then have m: "(\<forall>y \<in> set ys. resource_ok y) \<and> seen_resources t = rev (map resource_id ys) @ seen_resources scan
    \<and> seen_urls t = rev (map resource_url ys) @ seen_urls scan \<and> seen_packages t = pid # seen_packages scan
    \<and> length ys = length rs" by simp
  moreover from m ok(3) have "ys \<noteq> []" by auto
  moreover from f have "distinct (seen_resources t)" "distinct (seen_urls t)" by blast+
  ultimately show ?thesis using ok by (elim conjE, intro conjI) (simp_all add: y package_ok_def)
qed

lemma mapScan_packages:
  assumes "mapScan packageOf es scan = Inr (ys, t)" and "distinct (seen_packages scan)"
    and "distinct (seen_resources scan)" and "distinct (seen_urls scan)"
  shows "(\<forall>(y, ds) \<in> set ys. package_ok y) \<and> seen_packages t = rev (map (package_id \<circ> fst) ys) @ seen_packages scan
    \<and> seen_resources t = rev (concat (map (map resource_id \<circ> package_resources \<circ> fst) ys)) @ seen_resources scan
    \<and> seen_urls t = rev (concat (map (map resource_url \<circ> package_resources \<circ> fst) ys)) @ seen_urls scan
    \<and> distinct (seen_packages t) \<and> distinct (seen_resources t) \<and> distinct (seen_urls t)"
  using assms
proof (induction es arbitrary: scan ys t)
  case (Cons e es)
  then obtain y ds u ys' where u: "packageOf e scan = Inr ((y, ds), u)" and ys': "mapScan packageOf es u = Inr (ys', t)"
      and ys: "ys = (y, ds) # ys'"
    by (auto simp: bindE_def split: sum.splits)
  note new1 = packageOf_Inr [OF u Cons.prems(3,4)]
  have "distinct (seen_packages u)" using new1 Cons.prems(2) by simp
  moreover have "distinct (seen_resources u)" "distinct (seen_urls u)" using new1 by blast+
  ultimately have *: "distinct (seen_packages u)" "distinct (seen_resources u)" "distinct (seen_urls u)" .
  from Cons.IH [OF ys' *] new1 show ?case by (elim conjE, intro conjI) (simp_all add: ys)
qed simp

section \<open>The dependencies\<close>

lemma dependencyOf_Inr: "dependencyOf ids p v = Inr d \<Longrightarrow> d \<in> set ids \<and> d \<noteq> p"
  by (auto simp: dependencyOf_def split: js.splits if_splits)

lemma mapE_Inr_all: "mapE f xs = Inr ys \<Longrightarrow> list_all2 (\<lambda>x y. f x = Inr y) xs ys"
  by (induction xs arbitrary: ys) (auto simp: bindE_def split: sum.splits)

lemma checkDependencies_Inr:
  assumes "checkDependencies ids (spec, ds) = Inr p"
  shows "set (dependsOn p) \<subseteq> set ids - {package_id p} \<and> p = spec\<lparr>dependsOn := dependsOn p\<rparr>"
proof -
  from assms obtain xs where xs: "mapE (dependencyOf ids (package_id spec)) ds = Inr xs" "p = spec\<lparr>dependsOn := xs\<rparr>"
    by (auto simp: checkDependencies_def bindE_def split: sum.splits)
  have "d \<in> set ids \<and> d \<noteq> package_id spec" if "d \<in> set xs" for d
    using mapE_Inr_all [OF xs(1)] that by (auto simp: list_all2_conv_all_nth in_set_conv_nth dest!: dependencyOf_Inr)
  then show ?thesis using xs(2) by auto
qed

definition all_resources :: "AssetPackageSpec list \<Rightarrow> AssetPackageResourceSpec list" where
  "all_resources ps = concat (map package_resources ps)"

lemma validatedPackages_Inr:
  assumes "validatedPackages input = Inr (a, ps)"
  shows "well_linked ps" and "\<forall>p \<in> set ps. package_ok p \<and> package_id p \<notin> set (dependsOn p)"
    and "distinct (map resource_id (all_resources ps))" and "distinct (map resource_url (all_resources ps))"
proof -
  from assms obtain es specs scan where
      specs: "mapScan packageOf es \<lparr>seen_packages = [], seen_resources = [], seen_urls = []\<rparr> = Inr (specs, scan)"
      and ps: "mapE (checkDependencies (map (package_id \<circ> fst) specs)) specs = Inr ps"
    by (auto simp: validatedPackages_def bindE_def split: sum.splits js.splits option.splits if_splits)
  have m: "(\<forall>(y, ds) \<in> set specs. package_ok y) \<and> distinct (map (package_id \<circ> fst) specs)
      \<and> distinct (concat (map (map resource_id \<circ> package_resources \<circ> fst) specs))
      \<and> distinct (concat (map (map resource_url \<circ> package_resources \<circ> fst) specs))"
  proof -
    note f = mapScan_packages [OF specs, simplified]
    have "distinct (seen_packages scan)" "distinct (seen_resources scan)" "distinct (seen_urls scan)" using f by blast+
    then show ?thesis using f by (elim conjE) (simp del: distinct_map)
  qed
  let ?ids = "map (package_id \<circ> fst) specs"
  have all2: "list_all2 (\<lambda>x y. set (dependsOn y) \<subseteq> set ?ids - {package_id y} \<and> y = (fst x)\<lparr>dependsOn := dependsOn y\<rparr>) specs ps"
    using mapE_Inr_all [OF ps] by (rule list_all2_mono) (use checkDependencies_Inr in fastforce)
  have same: "map g ps = map (g \<circ> fst) specs" if "\<And>x ds. g (x\<lparr>dependsOn := ds\<rparr>) = g x" for g :: "AssetPackageSpec \<Rightarrow> 'b"
    using all2
  proof (induction specs ps rule: list_all2_induct)
    case (Cons x xs y ys)
    then show ?case using that [of "dependsOn y" "fst x"] by simp
  qed simp
  have ids: "ids_of ps = ?ids" by (simp add: ids_of_def same)
  show "well_linked ps" 
    unfolding well_linked_def ids
  proof (intro conjI ballI)
    show "set (dependsOn p) \<subseteq> set ?ids" if "p \<in> set ps" for p
      using all2 that by (auto simp: in_set_conv_nth list_all2_conv_all_nth simp del: set_map)
  qed (use m in blast)
  show "\<forall>p \<in> set ps. package_ok p \<and> package_id p \<notin> set (dependsOn p)"
  proof
    fix p
    assume "p \<in> set ps"
    then obtain x where x: "x \<in> set specs" "set (dependsOn p) \<subseteq> set ?ids - {package_id p}" "p = (fst x)\<lparr>dependsOn := dependsOn p\<rparr>"
    proof -
      from \<open>p \<in> set ps\<close> obtain i where i: "i < length ps" "p = ps ! i" by (auto simp: in_set_conv_nth)
      with list_all2_nthD2 [OF all2 i(1)] show ?thesis
        using list_all2_lengthD [OF all2] by (intro that [of "specs ! i"]) simp_all
    qed
    have "package_ok (fst x)" using m x(1) by (cases x) fastforce
    then have "package_ok ((fst x)\<lparr>dependsOn := dependsOn p\<rparr>)" by (simp add: package_ok_def)
    with x(2) show "package_ok p \<and> package_id p \<notin> set (dependsOn p)" by (subst x(3)) auto
  qed
  have r: "map package_resources ps = map (package_resources \<circ> fst) specs" by (rule same) simp
  show "distinct (map resource_id (all_resources ps))" "distinct (map resource_url (all_resources ps))"
    using m by (simp_all add: all_resources_def map_concat r comp_assoc)
qed

section \<open>The order\<close>

lemma dependenciesOf_in: "distinct (ids_of ps) \<Longrightarrow> p \<in> set ps \<Longrightarrow> dependenciesOf ps (package_id p) = dependsOn p"
proof -
  assume d: "distinct (ids_of ps)" and p: "p \<in> set ps"
  then obtain q where q: "find (\<lambda>q. package_id q = package_id p) ps = Some q" by (cases "find (\<lambda>q. package_id q = package_id p) ps") (auto simp: find_None_iff)
  then have "q \<in> set ps" "package_id q = package_id p" using find_Some_in [OF q] by simp_all
  with d p have "q = p" by (auto simp: ids_of_def distinct_map inj_on_def)
  with q show ?thesis by (simp add: dependenciesOf_def)
qed

lemma deps_first_acyclic:
  assumes "deps_first ps xs" and "distinct xs" and "\<And>p. p \<notin> set xs \<Longrightarrow> dependenciesOf ps p = []"
  shows "acyclic (needs ps)"
proof -
  have less: "\<exists>i j. i < j \<and> j < length xs \<and> xs ! i = d \<and> xs ! j = p" if "(p, d) \<in> needs ps" for p d
  proof -
    from that assms(3) [of p] have "p \<in> set xs" by (cases "p \<in> set xs") (auto simp: needs_def)
    then obtain j where j: "j < length xs" "xs ! j = p" by (auto simp: in_set_conv_nth)
    with assms(1) that have "d \<in> set (take j xs)" by (auto simp: deps_first_def needs_def)
    then obtain i where "i < j" "xs ! i = d" by (auto simp: in_set_conv_nth)
    with j show ?thesis by blast
  qed
  have "\<exists>i j. i < j \<and> j < length xs \<and> xs ! i = d \<and> xs ! j = p" if "(p, d) \<in> (needs ps)\<^sup>+" for p d
    using that
  proof (induction rule: trancl_induct)
    case (step y z)
    then obtain i j i' j' where "i < j" "j < length xs" "xs ! i = y" "xs ! j = p" "i' < j'" "j' < length xs" "xs ! i' = z" "xs ! j' = y"
      using less [OF step.hyps(2)] by blast
    moreover from this have "j' = i" using nth_eq_iff_index_eq [OF assms(2), of j' i] by simp
    ultimately show ?case by (intro exI [of _ i'] exI [of _ j]) simp
  qed (rule less)
  then show ?thesis using assms(2) by (fastforce simp: acyclic_def nth_eq_iff_index_eq)
qed

lemma visit_all_packages:
  assumes "well_linked ps"
  defines "start \<equiv> \<lparr>visiting = [], order_result = []\<rparr>"
  obtains (ordered) t where "visitAll (visit ps (Suc (length ps))) (ids_of ps) start = Some (Inr t)" "visits ps (ids_of ps) start t"
  | (cycle) q where "visitAll (visit ps (Suc (length ps))) (ids_of ps) start = Some (Inl (DependencyCycle q))" "(q, q) \<in> (needs ps)\<^sup>+"
proof -
  let ?f = "visit ps (Suc (length ps))"
  have start: "scan_ok ps start" "visiting start = []" by (simp_all add: start_def scan_ok_def deps_first_def)
  have one: "visits ps [x] s t" if "x \<in> set (ids_of ps)" "scan_ok ps s" "?f x s = Some (Inr t)" for x s t
    by (rule visit_ok [OF assms(1) that])
  have "visitAll ?f (ids_of ps) start \<noteq> None"
  proof (rule visitAll_fuel [where ps = ps and k = 0])
    show "?f x s \<noteq> None" if "x \<in> set (ids_of ps)" "scan_ok ps s" "length (visiting s) = 0" for x s
      using that by (intro visit_fuel [OF assms(1)]) simp_all
  qed (use start one in simp_all)
  then consider t where "visitAll ?f (ids_of ps) start = Some (Inr t)" | e where "visitAll ?f (ids_of ps) start = Some (Inl e)"
    by (metis not_None_eq sumE)
  then show thesis
  proof cases
    case (1 t)
    with visitAll_ok [of "ids_of ps" ps ?f start t] start(1) one have "visits ps (ids_of ps) start t" by blast
    with 1 show ?thesis by (rule ordered)
  next
    case (2 e)
    obtain x u where x: "x \<in> set (ids_of ps)" "scan_ok ps u" "visiting u = visiting start" "?f x u = Some (Inl e)"
      using visitAll_error [of "ids_of ps" ps ?f start e] one 2 start(1) by blast
    have "path ps (x # visiting u)" by (simp add: x(3) start(2))
    from visit_error [OF assms(1) x(1,2) this x(4)] obtain q where "e = DependencyCycle q" "(q, q) \<in> (needs ps)\<^sup>+"
      by (elim exE conjE) (rule that)
    with 2 show ?thesis by (intro cycle) (simp_all only:)
  qed
qed

lemma order_exact:
  assumes "well_linked ps"
  shows "(\<exists>xs. topologicalPackageOrder ps = Some (Inr xs) \<and> acyclic (needs ps) \<and> distinct xs \<and> set xs = set (ids_of ps) \<and> deps_first ps xs)
    \<or> (\<exists>q. topologicalPackageOrder ps = Some (Inl (DependencyCycle q)) \<and> (q, q) \<in> (needs ps)\<^sup>+)"
proof (cases rule: visit_all_packages [OF assms])
  case (1 t)
  then have t: "deps_first ps (order_result t)" "distinct (order_result t)" "set (order_result t) = set (ids_of ps)"
    by (auto simp: visits_def scan_ok_def)
  moreover have "acyclic (needs ps)"
    using t dependenciesOf_unknown by (intro deps_first_acyclic [of ps "order_result t"]) auto
  moreover have "topologicalPackageOrder ps = Some (Inr (order_result t))"
    using 1(1) by (simp add: topologicalPackageOrder_def ids_of_def)
  ultimately show ?thesis by blast
next
  case (2 q)
  then show ?thesis by (simp add: topologicalPackageOrder_def ids_of_def)
qed

end
