(* ===== verification/Asset_Closure.thy ===== *)
theory Asset_Closure
  imports Asset_Validation
begin

text \<open>
  The dependency closure of a set of targets: it holds exactly the packages the targets reach, each
  once, every package after those it needs.
\<close>

definition reach :: "AssetPackageSpec list \<Rightarrow> string \<Rightarrow> string set" where
  "reach ps p = {q. (p, q) \<in> (needs ps)\<^sup>*}"

lemma reach_unfold: "reach ps p = insert p (\<Union>d \<in> set (dependenciesOf ps p). reach ps d)"
  by (auto simp: reach_def needs_def elim: converse_rtranclE intro: converse_rtrancl_into_rtrancl)

definition closed_under :: "AssetPackageSpec list \<Rightarrow> string set \<Rightarrow> bool" where
  "closed_under ps A = (\<forall>p \<in> A. reach ps p \<subseteq> A)"

lemma closed_un: "closed_under ps A \<Longrightarrow> closed_under ps B \<Longrightarrow> closed_under ps (A \<union> B)"
  by (auto simp: closed_under_def)

lemma empty_closed: "closed_under ps {}"
  by (simp add: closed_under_def)

lemma closed_reach: "closed_under ps (reach ps p)"
  by (auto simp: closed_under_def reach_def)

lemma fold_select:
  assumes "\<And>x A. x \<in> set xs \<Longrightarrow> closed_under ps (set A) \<Longrightarrow> set (f x A) = set A \<union> reach ps x"
    and "closed_under ps (set A)"
  shows "set (fold f xs A) = set A \<union> (\<Union>x \<in> set xs. reach ps x) \<and> closed_under ps (set (fold f xs A))"
  using assms
proof (induction xs arbitrary: A)
  case (Cons x xs)
  have x: "set (f x A) = set A \<union> reach ps x" using Cons.prems by simp
  have "set (fold f xs (f x A)) = set (f x A) \<union> (\<Union>x \<in> set xs. reach ps x) \<and> closed_under ps (set (fold f xs (f x A)))"
    using Cons.prems by (intro Cons.IH) (simp_all add: x closed_un closed_reach)
  then show ?case by (auto simp: x)
qed simp

text \<open>The place of a package in a dependency order bounds the depth of the recursion.\<close>

lemma selectPackage_reach:
  assumes "deps_first ps order"
  shows "i < n \<Longrightarrow> i < length order \<Longrightarrow> closed_under ps (set A)
    \<Longrightarrow> set (selectPackage ps n (order ! i) A) = set A \<union> reach ps (order ! i)"
proof (induction n arbitrary: i A)
  case (Suc n)
  show ?case
  proof (cases "order ! i \<in> set A")
    case True
    with Suc.prems(3) show ?thesis by (auto simp: closed_under_def)
  next
    case False
    have sub: "set (selectPackage ps n x B) = set B \<union> reach ps x"
      if x: "x \<in> set (dependenciesOf ps (order ! i))" and B: "closed_under ps (set B)" for x B
    proof -
      from assms Suc.prems(2) x have "x \<in> set (take i order)" by (auto simp: deps_first_def)
      then obtain j where "j < i" "order ! j = x" by (auto simp: in_set_conv_nth)
      with Suc.IH [of j B] Suc.prems(1,2) B show ?thesis by simp
    qed
    have "set (fold (selectPackage ps n) (dependenciesOf ps (order ! i)) A)
        = set A \<union> (\<Union>d \<in> set (dependenciesOf ps (order ! i)). reach ps d)"
      using fold_select [of "dependenciesOf ps (order ! i)" ps "selectPackage ps n" A] sub Suc.prems(3) by blast
    with False reach_unfold [of ps "order ! i"] show ?thesis by simp
  qed
qed simp

definition dependency_order :: "AssetPackageSpec list \<Rightarrow> string list \<Rightarrow> bool" where
  "dependency_order ps xs = (distinct xs \<and> set xs = set (ids_of ps) \<and> deps_first ps xs)"

lemma deps_first_nth_le:
  assumes "deps_first ps xs" and "distinct xs" and "i < length xs" and "(xs ! i, q) \<in> (needs ps)\<^sup>*"
  shows "\<exists>j \<le> i. xs ! j = q"
  using assms(4)
proof (induction rule: rtrancl_induct)
  case base
  show ?case by blast
next
  case (step y z)
  then obtain j where j: "j \<le> i" "xs ! j = y" by blast
  then have "j < length xs" using assms(3) by simp
  then have "set (dependenciesOf ps (xs ! j)) \<subseteq> set (take j xs)" using assms(1) by (simp add: deps_first_def)
  moreover have "z \<in> set (dependenciesOf ps (xs ! j))" using step.hyps(2) j(2) by (simp add: needs_def)
  ultimately have "z \<in> set (take j xs)" by blast
  then obtain k where "k < j" "xs ! k = z" by (auto simp: in_set_conv_nth)
  with j(1) show ?case by (intro exI [of _ k]) simp
qed

lemma reach_known: "dependency_order ps xs \<Longrightarrow> p \<in> set xs \<Longrightarrow> reach ps p \<subseteq> set xs"
proof
  fix q
  assume o: "dependency_order ps xs" and "p \<in> set xs" and q: "q \<in> reach ps p"
  then obtain i where i: "i < length xs" "xs ! i = p" by (auto simp: in_set_conv_nth)
  with o q obtain j where "j \<le> i" "xs ! j = q"
    using deps_first_nth_le [of ps xs i q] by (auto simp: dependency_order_def reach_def)
  with i(1) show "q \<in> set xs" by (auto simp: in_set_conv_nth intro: le_less_trans)
qed

lemma deps_first_filter:
  assumes "deps_first ps xs" and "distinct xs" and "\<And>x d. x \<in> A \<Longrightarrow> d \<in> set (dependenciesOf ps x) \<Longrightarrow> d \<in> A"
  shows "deps_first ps (filter (\<lambda>x. x \<in> A) xs)"
  using assms(1,2)
proof (induction xs rule: rev_induct)
  case (snoc x xs)
  then have IH: "deps_first ps (filter (\<lambda>x. x \<in> A) xs)" and x: "set (dependenciesOf ps x) \<subseteq> set xs"
    by (simp_all add: deps_first_snoc)
  show ?case
  proof (cases "x \<in> A")
    case True
    with IH x assms(3) [OF True] show ?thesis by (auto simp: deps_first_snoc)
  qed (use IH in simp)
qed (simp add: deps_first_def)

theorem dependency_closure:
  assumes "dependency_order (packages (validated_manifest v)) (dependencyOrder v)" and "set targets \<subseteq> set (dependencyOrder v)"
    and "length (dependencyOrder v) = length (packages (validated_manifest v))"
  shows "set (dependencyClosureIds v targets) = (\<Union>t \<in> set targets. reach (packages (validated_manifest v)) t)"
    and "distinct (dependencyClosureIds v targets)"
    and "deps_first (packages (validated_manifest v)) (dependencyClosureIds v targets)"
proof -
  let ?ps = "packages (validated_manifest v)"
  let ?sel = "fold (selectPackage ?ps (Suc (length ?ps))) targets []"
  have o: "deps_first ?ps (dependencyOrder v)" "distinct (dependencyOrder v)"
    using assms(1) by (simp_all add: dependency_order_def)
  have one: "set (selectPackage ?ps (Suc (length ?ps)) x A) = set A \<union> reach ?ps x"
    if "x \<in> set targets" "closed_under ?ps (set A)" for x A
  proof -
    from that(1) assms(2) have "x \<in> set (dependencyOrder v)" by blast
    then obtain i where i: "i < length (dependencyOrder v)" "x = dependencyOrder v ! i"
      by (auto simp: in_set_conv_nth)
    with selectPackage_reach [OF o(1), of i "Suc (length ?ps)" A] that(2) assms(3) show ?thesis by simp
  qed
  have "set ?sel = set [] \<union> (\<Union>x \<in> set targets. reach ?ps x) \<and> closed_under ?ps (set ?sel)"
  proof (rule fold_select)
    show "closed_under ?ps (set [])" by (simp add: empty_closed)
  qed (rule one)
  then have sel: "set ?sel = (\<Union>x \<in> set targets. reach ?ps x)" and closed: "closed_under ?ps (set ?sel)"
    by (simp only: list.set(1) Un_empty_left, blast)
  have "(\<Union>x \<in> set targets. reach ?ps x) \<subseteq> set (dependencyOrder v)"
    using reach_known [OF assms(1)] assms(2) by blast
  with sel show "set (dependencyClosureIds v targets) = (\<Union>t \<in> set targets. reach ?ps t)"
    by (auto simp: dependencyClosureIds_def Let_def)
  show "distinct (dependencyClosureIds v targets)" using o(2) by (simp add: dependencyClosureIds_def Let_def)
  have "d \<in> set ?sel" if "x \<in> set ?sel" "d \<in> set (dependenciesOf ?ps x)" for x d
  proof -
    have "reach ?ps x \<subseteq> set ?sel" using closed that(1) by (simp only: closed_under_def)
    moreover have "d \<in> reach ?ps x" using that(2) by (auto simp: reach_def needs_def)
    ultimately show ?thesis by blast
  qed
  with o show "deps_first ?ps (dependencyClosureIds v targets)"
    unfolding dependencyClosureIds_def Let_def by (intro deps_first_filter)
qed

section \<open>A validated manifest\<close>

lemma validate_cases:
  assumes "validateAssetPackageManifest input = r"
  shows "(\<exists>e. r = Some (Inl e)) \<or> (\<exists>a ps xs. r = Some (Inr \<lparr>validated_manifest = \<lparr>assetSet = a, packages = ps\<rparr>, dependencyOrder = xs\<rparr>)
      \<and> validatedPackages input = Inr (a, ps) \<and> acyclic (needs ps) \<and> dependency_order ps xs)"
proof (cases "validatedPackages input")
  case (Inl e)
  with assms show ?thesis by (auto simp: validateAssetPackageManifest_def)
next
  case (Inr r')
  obtain a ps where r': "r' = (a, ps)" by (cases r')
  from order_exact [OF validatedPackages_Inr(1) [OF Inr [unfolded r']]]
  show ?thesis
  proof (elim disjE exE conjE)
    fix xs
    assume "topologicalPackageOrder ps = Some (Inr xs)" "acyclic (needs ps)" "distinct xs" "set xs = set (ids_of ps)" "deps_first ps xs"
    moreover from this have "r = Some (Inr \<lparr>validated_manifest = \<lparr>assetSet = a, packages = ps\<rparr>, dependencyOrder = xs\<rparr>)"
      using assms Inr r' by (simp add: validateAssetPackageManifest_def)
    ultimately show ?thesis using Inr r' by (auto simp: dependency_order_def)
  next
    fix q
    assume "topologicalPackageOrder ps = Some (Inl (DependencyCycle q))"
    with assms Inr r' show ?thesis by (auto simp: validateAssetPackageManifest_def)
  qed
qed

lemma validate_Inr:
  assumes "validateAssetPackageManifest input = Some (Inr v)"
  shows "validatedPackages input = Inr (assetSet (validated_manifest v), packages (validated_manifest v))"
    and "acyclic (needs (packages (validated_manifest v)))"
    and "dependency_order (packages (validated_manifest v)) (dependencyOrder v)"
    and "length (dependencyOrder v) = length (packages (validated_manifest v))"
proof -
  from validate_cases [OF assms] show *: "validatedPackages input = Inr (assetSet (validated_manifest v), packages (validated_manifest v))"
      "acyclic (needs (packages (validated_manifest v)))" "dependency_order (packages (validated_manifest v)) (dependencyOrder v)"
    by auto
  have "distinct (ids_of (packages (validated_manifest v)))"
    using validatedPackages_Inr(1) [OF *(1)] by (simp add: well_linked_def)
  with *(3) have "length (dependencyOrder v) = length (ids_of (packages (validated_manifest v)))"
    by (metis dependency_order_def distinct_card)
  then show "length (dependencyOrder v) = length (packages (validated_manifest v))" by (simp add: ids_of_def)
qed

end
