(* ===== verification/Asset_Leases.thy ===== *)
theory Asset_Leases
  imports Asset_Closure
begin

text \<open>
  The package manager's bookkeeping (class \<open>StreamingAssetPackageManager\<close>): which packages are
  resident, how many pending and live consumers hold each, and the leases handed out. The fetching and
  decoding of a package is outside: an attempt, numbered here, ends by an event of its own. An
  acquisition waits for the attempts its targets had in flight when it was called; a caller's abort
  signal can end its wait at any time. Progress, and who called, are not modelled.
\<close>

section \<open>State\<close>

datatype AssetPackageState = unrequested | fetching | decoding | ready | failed | cancelled

record package_runtime =
  package_state :: AssetPackageState
  resident :: bool
  in_flight :: "nat option"
  instances :: "string list"
  pendingReferences :: int
  activeReferences :: int

datatype lease_target = OfPackage string | OfStage AssetPackageStage

datatype lease_status = Waiting | Leased | Released | Rejected

record acquisition =
  lease_target :: lease_target
  lease_ids :: "string list"
  waits_for :: "(string \<times> nat) list"
  lease_status :: lease_status

record asset_manager =
  manifest :: ValidatedAssetPackageManifest
  maxRetainedBytes :: "int option"
  runtimes :: "string \<Rightarrow> package_runtime"
  aborted_attempts :: "nat set"
  attempts :: nat
  acquisitions :: "acquisition list"

datatype asset_error = UnknownPackage string | EmptyStage AssetPackageStage | CapacityError int int
  | NotReady string | Underflow string | EmptyInstanceId

definition newRuntime :: package_runtime where
  "newRuntime = \<lparr>package_state = unrequested, resident = False, in_flight = None, instances = [],
     pendingReferences = 0, activeReferences = 0\<rparr>"

definition newManager :: "ValidatedAssetPackageManifest \<Rightarrow> int option \<Rightarrow> asset_manager" where
  "newManager v limit = \<lparr>manifest = v, maxRetainedBytes = limit, runtimes = (\<lambda>_. newRuntime), aborted_attempts = {},
     attempts = 0, acquisitions = []\<rparr>"

text \<open>The packages of the manager, and its runtimes, are those of the manifest.\<close>

definition specOf :: "asset_manager \<Rightarrow> string \<Rightarrow> AssetPackageSpec option" where
  "specOf m pid = find (\<lambda>p. package_id p = pid) (packages (validated_manifest (manifest m)))"

definition requireSpec :: "asset_manager \<Rightarrow> string \<Rightarrow> asset_error + AssetPackageSpec" where
  "requireSpec m pid = (case specOf m pid of None \<Rightarrow> Inl (UnknownPackage pid) | Some spec \<Rightarrow> Inr spec)"

definition bytesOf :: "asset_manager \<Rightarrow> string \<Rightarrow> int" where
  "bytesOf m pid = (case specOf m pid of None \<Rightarrow> 0 | Some spec \<Rightarrow> packageBytes spec)"

definition updateRuntime :: "(package_runtime \<Rightarrow> package_runtime) \<Rightarrow> string \<Rightarrow> asset_manager \<Rightarrow> asset_manager" where
  "updateRuntime f pid m = m\<lparr>runtimes := (runtimes m)(pid := f (runtimes m pid))\<rparr>"

definition owned :: "asset_manager \<Rightarrow> string \<Rightarrow> bool" where
  "owned m pid = (0 < pendingReferences (runtimes m pid) \<or> 0 < activeReferences (runtimes m pid))"

definition retainedPayloadBytes :: "asset_manager \<Rightarrow> int" where
  "retainedPayloadBytes m = sum_list (map (bytesOf m) (filter (owned m) (dependencyOrder (manifest m))))"

definition readyPackageIds :: "asset_manager \<Rightarrow> string list" where
  "readyPackageIds m = filter (\<lambda>pid. package_state (runtimes m pid) = ready) (dependencyOrder (manifest m))"

section \<open>References\<close>

definition reserveOne :: "package_runtime \<Rightarrow> package_runtime" where
  "reserveOne r = r\<lparr>pendingReferences := pendingReferences r + 1\<rparr>"

definition requiredBytes :: "string list \<Rightarrow> asset_manager \<Rightarrow> int" where
  "requiredBytes ids m = sum_list (map (bytesOf m) (remdups (ids @ filter (owned m) (dependencyOrder (manifest m)))))"

definition reserveReferences :: "string list \<Rightarrow> asset_manager \<Rightarrow> asset_error + asset_manager" where
  "reserveReferences ids m =
     (if (case maxRetainedBytes m of None \<Rightarrow> False | Some limit \<Rightarrow> limit < requiredBytes ids m)
      then Inl (CapacityError (requiredBytes ids m) (the (maxRetainedBytes m)))
      else Inr (fold (updateRuntime reserveOne) ids m))"

definition activateOne :: "package_runtime \<Rightarrow> package_runtime" where
  "activateOne r = r\<lparr>pendingReferences := max 0 (pendingReferences r - 1), activeReferences := activeReferences r + 1\<rparr>"

definition activateReferences :: "string list \<Rightarrow> asset_manager \<Rightarrow> asset_manager" where
  "activateReferences ids m = fold (updateRuntime activateOne) ids m"

definition evictIfUnowned :: "package_runtime \<Rightarrow> package_runtime" where
  "evictIfUnowned r =
     (if 0 < activeReferences r \<or> 0 < pendingReferences r \<or> in_flight r \<noteq> None then r
      else r\<lparr>instances := [], resident := False, package_state := unrequested\<rparr>)"

definition rollbackOne :: "package_runtime \<Rightarrow> package_runtime" where
  "rollbackOne r = (let r = r\<lparr>pendingReferences := max 0 (pendingReferences r - 1)\<rparr> in
     if resident r then evictIfUnowned r else r)"

definition rollbackPendingReferences :: "string list \<Rightarrow> asset_manager \<Rightarrow> asset_manager" where
  "rollbackPendingReferences ids m = fold (updateRuntime rollbackOne) (rev ids) m"

definition releaseOne :: "package_runtime \<Rightarrow> package_runtime" where
  "releaseOne r = evictIfUnowned (r\<lparr>activeReferences := activeReferences r - 1\<rparr>)"

fun releaseEach :: "string list \<Rightarrow> asset_manager \<Rightarrow> asset_error + asset_manager" where
  "releaseEach [] m = Inr m"
| "releaseEach (pid # ids) m =
     (if activeReferences (runtimes m pid) \<le> 0 then Inl (Underflow pid)
      else releaseEach ids (updateRuntime releaseOne pid m))"

definition releaseReferences :: "string list \<Rightarrow> asset_manager \<Rightarrow> asset_error + asset_manager" where
  "releaseReferences ids m = releaseEach (rev ids) m"

section \<open>Loading\<close>

text \<open>The attempt the caller of \<open>load\<close> joins: none when the package is resident.\<close>

definition joinable :: "asset_manager \<Rightarrow> string \<Rightarrow> nat option" where
  "joinable m pid = (case in_flight (runtimes m pid) of None \<Rightarrow> None
     | Some n \<Rightarrow> if n \<in> aborted_attempts m then None else Some n)"

definition loadPackage :: "string \<Rightarrow> asset_manager \<Rightarrow> asset_manager \<times> (string \<times> nat) list" where
  "loadPackage pid m =
     (if resident (runtimes m pid) then (m, [])
      else case joinable m pid of Some n \<Rightarrow> (m, [(pid, n)])
      | None \<Rightarrow> (updateRuntime (\<lambda>r. r\<lparr>package_state := unrequested, in_flight := Some (attempts m)\<rparr>) pid
          (m\<lparr>attempts := Suc (attempts m)\<rparr>), [(pid, attempts m)]))"

fun loadAll :: "string list \<Rightarrow> asset_manager \<Rightarrow> asset_manager \<times> (string \<times> nat) list" where
  "loadAll [] m = (m, [])"
| "loadAll (pid # pids) m = (let (m, w) = loadPackage pid m; (m, ws) = loadAll pids m in (m, w @ ws))"

text \<open>The attempt runs: \<open>loadResources\<close> sets the state while it fetches and decodes.\<close>

definition loadProgress :: "string \<Rightarrow> bool \<Rightarrow> asset_manager \<Rightarrow> asset_manager" where
  "loadProgress pid decodes m = updateRuntime (\<lambda>r. r\<lparr>package_state := (if decodes then decoding else fetching)\<rparr>) pid m"

text \<open>An attempt whose signal is aborted ends as cancelled, whatever it loaded; so does one that failed by an abort error.\<close>

definition loadFailed :: "string \<Rightarrow> nat \<Rightarrow> bool \<Rightarrow> asset_manager \<Rightarrow> asset_manager" where
  "loadFailed pid n abort_error m =
     updateRuntime (\<lambda>r. r\<lparr>package_state := (if n \<in> aborted_attempts m \<or> abort_error then cancelled else failed)\<rparr>) pid m"

definition attemptReady :: "string \<Rightarrow> nat \<Rightarrow> acquisition \<Rightarrow> acquisition" where
  "attemptReady pid n a = a\<lparr>waits_for := filter (\<lambda>w. w \<noteq> (pid, n)) (waits_for a)\<rparr>"

definition loadReady :: "string \<Rightarrow> nat \<Rightarrow> asset_manager \<Rightarrow> asset_manager" where
  "loadReady pid n m =
     (if n \<in> aborted_attempts m then loadFailed pid n True m
      else (updateRuntime (\<lambda>r. r\<lparr>resident := True, package_state := ready\<rparr>) pid m)
        \<lparr>acquisitions := map (attemptReady pid n) (acquisitions m)\<rparr>)"

definition loadFinally :: "string \<Rightarrow> nat \<Rightarrow> asset_manager \<Rightarrow> asset_manager" where
  "loadFinally pid n m = (if in_flight (runtimes m pid) = Some n then updateRuntime (\<lambda>r. r\<lparr>in_flight := None\<rparr>) pid m else m)"

section \<open>Acquisitions\<close>

text \<open>\<open>acquire\<close> and \<open>acquireStage\<close> up to their await.\<close>

definition beginAcquisition :: "lease_target \<Rightarrow> string list \<Rightarrow> asset_manager \<Rightarrow> asset_error + asset_manager" where
  "beginAcquisition tgt targets m =
     (let ids = dependencyClosureIds (manifest m) targets in
      case reserveReferences ids m of Inl e \<Rightarrow> Inl e
      | Inr m \<Rightarrow> (let (m, waits) = loadAll targets m in
          Inr (m\<lparr>acquisitions := acquisitions m @ [\<lparr>lease_target = tgt, lease_ids = ids, waits_for = waits, lease_status = Waiting\<rparr>]\<rparr>)))"

definition acquirePackage :: "string \<Rightarrow> asset_manager \<Rightarrow> asset_error + asset_manager" where
  "acquirePackage pid m = (case requireSpec m pid of Inl e \<Rightarrow> Inl e | Inr spec \<Rightarrow> beginAcquisition (OfPackage pid) [pid] m)"

definition stageTargets :: "AssetPackageStage \<Rightarrow> asset_manager \<Rightarrow> string list" where
  "stageTargets stage m = filter (\<lambda>pid. map_option package_stage (specOf m pid) = Some stage) (dependencyOrder (manifest m))"

definition acquireStage :: "AssetPackageStage \<Rightarrow> asset_manager \<Rightarrow> asset_error + asset_manager" where
  "acquireStage stage m = (let targets = stageTargets stage m in
     if targets = [] then Inl (EmptyStage stage) else beginAcquisition (OfStage stage) targets m)"

definition setStatus :: "nat \<Rightarrow> lease_status \<Rightarrow> asset_manager \<Rightarrow> asset_manager" where
  "setStatus i st m = m\<lparr>acquisitions := (acquisitions m)[i := (acquisitions m ! i)\<lparr>lease_status := st\<rparr>]\<rparr>"

text \<open>The rest of the two when the wait ends well: a stage is refused when one of its packages is not resident.\<close>

definition rejectAcquisition :: "nat \<Rightarrow> asset_manager \<Rightarrow> asset_manager" where
  "rejectAcquisition i m = setStatus i Rejected (rollbackPendingReferences (lease_ids (acquisitions m ! i)) m)"

definition resumeAcquisition :: "nat \<Rightarrow> asset_manager \<Rightarrow> asset_error + asset_manager" where
  "resumeAcquisition i m = (let a = acquisitions m ! i;
       m' = setStatus i Leased (activateReferences (lease_ids a) m) in
     case lease_target a of OfPackage pid \<Rightarrow> Inr m'
     | OfStage stage \<Rightarrow> (case find (\<lambda>pid. \<not> resident (runtimes m pid)) (lease_ids a) of
         Some pid \<Rightarrow> Inl (NotReady pid) | None \<Rightarrow> Inr m'))"

definition releaseLease :: "nat \<Rightarrow> asset_manager \<Rightarrow> bool \<times> (asset_error + asset_manager)" where
  "releaseLease i m =
     (if lease_status (acquisitions m ! i) = Released then (False, Inr m)
      else (True, releaseReferences (lease_ids (acquisitions m ! i)) (setStatus i Released m)))"

section \<open>Instances\<close>

definition acquireInstance :: "string \<Rightarrow> string \<Rightarrow> asset_manager \<Rightarrow> asset_error + asset_manager" where
  "acquireInstance pid instance_id m =
     (if trim instance_id = [] then Inl EmptyInstanceId
      else if specOf m pid = None then Inl (UnknownPackage pid)
      else if \<not> resident (runtimes m pid) then Inl (NotReady pid)
      else if instance_id \<in> set (instances (runtimes m pid)) then Inr m
      else Inr (updateRuntime (\<lambda>r. r\<lparr>instances := instances r @ [instance_id]\<rparr>) pid m))"

definition releasePackageInstances :: "string \<Rightarrow> asset_manager \<Rightarrow> nat \<times> asset_manager" where
  "releasePackageInstances pid m = (length (instances (runtimes m pid)), updateRuntime (\<lambda>r. r\<lparr>instances := []\<rparr>) pid m)"

section \<open>Runs\<close>

datatype asset_event =
    CallAcquire string | CallAcquireStage AssetPackageStage | CallLoad string | AttemptProgress string bool
  | AttemptReady string nat | AttemptFailed string nat bool | AttemptFinally string nat | AttemptAborted nat
  | AcquisitionResumes nat | AcquisitionRejected nat | CallRelease nat
  | CallInstance string string | CallReleaseInstances string

text \<open>What can happen: an attempt ends while it is the package's own or was aborted; an acquisition resumes when its wait is over.\<close>

definition is_waiting :: "asset_manager \<Rightarrow> nat \<Rightarrow> bool" where
  "is_waiting m i = (i < length (acquisitions m) \<and> lease_status (acquisitions m ! i) = Waiting)"

fun asset_possible :: "asset_manager \<Rightarrow> asset_event \<Rightarrow> bool" where
  "asset_possible m (AttemptReady pid n) = (n \<in> aborted_attempts m \<or> in_flight (runtimes m pid) = Some n)"
| "asset_possible m (AttemptFailed pid n abort_error) = (n \<in> aborted_attempts m \<or> in_flight (runtimes m pid) = Some n)"
| "asset_possible m (AcquisitionResumes i) = (is_waiting m i \<and> waits_for (acquisitions m ! i) = [])"
| "asset_possible m (AcquisitionRejected i) = is_waiting m i"
| "asset_possible m (CallRelease i) = (i < length (acquisitions m) \<and> lease_status (acquisitions m ! i) \<in> {Leased, Released})"
| "asset_possible m e = True"

text \<open>A call that throws before it has changed anything leaves the manager as it was.\<close>

definition orElse :: "asset_error + asset_manager \<Rightarrow> asset_manager \<Rightarrow> asset_manager" where
  "orElse r m = (case r of Inl e \<Rightarrow> m | Inr m' \<Rightarrow> m')"

fun asset_step :: "asset_event \<Rightarrow> asset_manager \<Rightarrow> asset_manager" where
  "asset_step (CallAcquire pid) m = orElse (acquirePackage pid m) m"
| "asset_step (CallAcquireStage stage) m = orElse (acquireStage stage m) m"
| "asset_step (CallLoad pid) m = (if specOf m pid = None then m else fst (loadPackage pid m))"
| "asset_step (AttemptProgress pid d) m = loadProgress pid d m"
| "asset_step (AttemptReady pid n) m = loadReady pid n m"
| "asset_step (AttemptFailed pid n abort_error) m = loadFailed pid n abort_error m"
| "asset_step (AttemptFinally pid n) m = loadFinally pid n m"
| "asset_step (AttemptAborted n) m = m\<lparr>aborted_attempts := insert n (aborted_attempts m)\<rparr>"
| "asset_step (AcquisitionResumes i) m = orElse (resumeAcquisition i m) (rejectAcquisition i m)"
| "asset_step (AcquisitionRejected i) m = rejectAcquisition i m"
| "asset_step (CallRelease i) m = orElse (snd (releaseLease i m)) m"
| "asset_step (CallInstance pid iid) m = orElse (acquireInstance pid iid m) m"
| "asset_step (CallReleaseInstances pid) m = (if specOf m pid = None then m else snd (releasePackageInstances pid m))"

inductive asset_reachable :: "ValidatedAssetPackageManifest \<Rightarrow> int option \<Rightarrow> asset_manager \<Rightarrow> bool"
  for v :: ValidatedAssetPackageManifest and limit :: "int option" where
  start: "asset_reachable v limit (newManager v limit)"
| happens: "asset_reachable v limit m \<Longrightarrow> asset_possible m e \<Longrightarrow> asset_reachable v limit (asset_step e m)"

fun asset_run :: "asset_event list \<Rightarrow> asset_manager \<Rightarrow> asset_manager option" where
  "asset_run [] m = Some m"
| "asset_run (e # es) m = (if asset_possible m e then asset_run es (asset_step e m) else None)"

end
