(* ===== verification/Asset_Lease_Invariant.thy ===== *)
theory Asset_Lease_Invariant
  imports Asset_Leases
begin

text \<open>
  The invariant of the package manager: the counts of every package are the numbers of waiting and of
  live acquisitions that hold it, the bytes held never pass the limit, and what a live lease was
  promised stays resident.
\<close>

definition holds :: "lease_status \<Rightarrow> string \<Rightarrow> acquisition \<Rightarrow> bool" where
  "holds st pid a = (lease_status a = st \<and> pid \<in> set (lease_ids a))"

primrec holders :: "lease_status \<Rightarrow> string \<Rightarrow> acquisition list \<Rightarrow> int" where
  "holders st pid [] = 0"
| "holders st pid (a # xs) = of_bool (holds st pid a) + holders st pid xs"

lemma holders_append [simp]: "holders st pid (xs @ ys) = holders st pid xs + holders st pid ys"
  by (induction xs) simp_all

lemma holders_nonneg [simp]: "0 \<le> holders st pid xs"
  by (induction xs) simp_all

lemma holders_update:
  "i < length xs \<Longrightarrow> holders st pid (xs[i := y]) = holders st pid xs + of_bool (holds st pid y) - of_bool (holds st pid (xs ! i))"
  by (induction xs arbitrary: i) (auto split: nat.split)

lemma holders_pos: "i < length xs \<Longrightarrow> holds st pid (xs ! i) \<Longrightarrow> 1 \<le> holders st pid xs"
proof (induction xs arbitrary: i)
  case (Cons x xs)
  then show ?case using holders_nonneg [of st pid xs] by (cases i) (force simp del: holders_nonneg)+
qed simp

lemma holders_map: "(\<And>a. holds st pid (f a) = holds st pid a) \<Longrightarrow> holders st pid (map f xs) = holders st pid xs"
  by (induction xs) simp_all

section \<open>Updating several packages\<close>

lemma fold_update:
  assumes "distinct ids"
  shows "fold (updateRuntime f) ids m = m\<lparr>runtimes := (\<lambda>p. if p \<in> set ids then f (runtimes m p) else runtimes m p)\<rparr>"
  using assms
proof (induction ids arbitrary: m)
  case (Cons x xs)
  then show ?case by (auto simp: updateRuntime_def fun_eq_iff)
qed simp

lemma releaseEach_update:
  assumes "distinct ids" and "\<And>p. p \<in> set ids \<Longrightarrow> 0 < activeReferences (runtimes m p)"
  shows "releaseEach ids m = Inr (fold (updateRuntime releaseOne) ids m)"
  using assms
proof (induction ids arbitrary: m)
  case (Cons x xs)
  have "releaseEach xs (updateRuntime releaseOne x m) = Inr (fold (updateRuntime releaseOne) xs (updateRuntime releaseOne x m))"
  proof (rule Cons.IH)
    show "0 < activeReferences (runtimes (updateRuntime releaseOne x m) p)" if "p \<in> set xs" for p
    proof -
      from that Cons.prems(1) have "p \<noteq> x" by auto
      with Cons.prems(2) [of p] that show ?thesis by (simp add: updateRuntime_def)
    qed
  qed (use Cons.prems(1) in simp)
  moreover have "0 < activeReferences (runtimes m x)" using Cons.prems(2) by simp
  ultimately show ?case by simp
qed simp

section \<open>The invariant\<close>

definition runtime_counts :: "asset_manager \<Rightarrow> bool" where
  "runtime_counts m = (\<forall>pid. pendingReferences (runtimes m pid) = holders Waiting pid (acquisitions m)
     \<and> activeReferences (runtimes m pid) = holders Leased pid (acquisitions m))"

definition acquisition_ok :: "asset_manager \<Rightarrow> acquisition \<Rightarrow> bool" where
  "acquisition_ok m a = (distinct (lease_ids a) \<and> set (lease_ids a) \<subseteq> set (dependencyOrder (manifest m))
     \<and> (case lease_target a of
          OfPackage pid \<Rightarrow> pid \<in> set (lease_ids a)
            \<and> (lease_status a = Waiting \<longrightarrow> resident (runtimes m pid) \<or> (\<exists>n. (pid, n) \<in> set (waits_for a)))
            \<and> (lease_status a = Leased \<longrightarrow> resident (runtimes m pid))
        | OfStage stage \<Rightarrow> lease_status a = Leased \<longrightarrow> (\<forall>pid \<in> set (lease_ids a). resident (runtimes m pid))))"

definition within_limit :: "asset_manager \<Rightarrow> bool" where
  "within_limit m = (case maxRetainedBytes m of None \<Rightarrow> True | Some limit \<Rightarrow> retainedPayloadBytes m \<le> limit)"

definition instances_resident :: "asset_manager \<Rightarrow> bool" where
  "instances_resident m = (\<forall>pid. instances (runtimes m pid) = [] \<or> resident (runtimes m pid))"

definition manager_ok :: "asset_manager \<Rightarrow> bool" where
  "manager_ok m = (runtime_counts m \<and> (\<forall>a \<in> set (acquisitions m). acquisition_ok m a) \<and> within_limit m \<and> instances_resident m)"

lemma manager_okI [intro]:
  "runtime_counts m \<Longrightarrow> (\<And>a. a \<in> set (acquisitions m) \<Longrightarrow> acquisition_ok m a) \<Longrightarrow> within_limit m \<Longrightarrow> instances_resident m \<Longrightarrow> manager_ok m"
  by (simp add: manager_ok_def)

lemma manager_okD:
  assumes "manager_ok m"
  shows "runtime_counts m" "a \<in> set (acquisitions m) \<Longrightarrow> acquisition_ok m a" "within_limit m" "instances_resident m"
  using assms by (simp_all add: manager_ok_def)

text \<open>The manifest, which no operation changes, has non-negative sizes and each package once in its order.\<close>

definition manifest_ok :: "ValidatedAssetPackageManifest \<Rightarrow> bool" where
  "manifest_ok v = (dependency_order (packages (validated_manifest v)) (dependencyOrder v)
     \<and> length (dependencyOrder v) = length (packages (validated_manifest v))
     \<and> (\<forall>p \<in> set (packages (validated_manifest v)). 0 \<le> packageBytes p))"

lemma validate_manifest_ok:
  assumes "validateAssetPackageManifest input = Some (Inr v)"
  shows "manifest_ok v"
proof -
  note v = validate_Inr [OF assms]
  have "0 \<le> packageBytes p" if "p \<in> set (packages (validated_manifest v))" for p
  proof -
    from validatedPackages_Inr(2) [OF v(1)] that have "package_ok p" by blast
    then have "0 \<le> resource_bytes r" if "r \<in> set (package_resources p)" for r
      using that by (simp add: package_ok_def resource_ok_def less_imp_le)
    then show ?thesis by (auto simp: packageBytes_def intro!: sum_list_nonneg)
  qed
  with v show ?thesis by (simp add: manifest_ok_def)
qed

lemma bytesOf_nonneg: "manifest_ok (manifest m) \<Longrightarrow> 0 \<le> bytesOf m pid"
  by (auto simp: bytesOf_def specOf_def manifest_ok_def dest: find_Some_in split: option.split)

lemma sum_filter_mono:
  assumes "\<And>x. (0::int) \<le> g x" and "\<And>x. x \<in> set xs \<Longrightarrow> P x \<Longrightarrow> Q x"
  shows "sum_list (map g (filter P xs)) \<le> sum_list (map g (filter Q xs))"
  using assms(2)
proof (induction xs)
  case (Cons x xs)
  then have "sum_list (map g (filter P xs)) \<le> sum_list (map g (filter Q xs))" by simp
  with Cons.prems [of x] assms(1) [of x] show ?case by auto
qed simp

lemma within_limit_less:
  assumes "within_limit m" and "manifest_ok (manifest m)" and "manifest m' = manifest m" and "maxRetainedBytes m' = maxRetainedBytes m"
    and "\<And>pid. owned m' pid \<Longrightarrow> owned m pid"
  shows "within_limit m'"
proof -
  have b: "bytesOf m' = bytesOf m" using assms(3) by (simp add: bytesOf_def specOf_def fun_eq_iff)
  have "retainedPayloadBytes m' \<le> retainedPayloadBytes m"
    unfolding retainedPayloadBytes_def b assms(3)
    using assms(5) by (intro sum_filter_mono bytesOf_nonneg assms(2))
  with assms(1,4) show ?thesis by (simp add: within_limit_def split: option.splits)
qed

end
