(* ===== verification/Asset_Lease_Safety.thy ===== *)
theory Asset_Lease_Safety
  imports Asset_Lease_Invariant
begin

text \<open>Every step of the package manager keeps its invariant.\<close>

section \<open>Steps that leave the books alone\<close>

definition same_books :: "asset_manager \<Rightarrow> asset_manager \<Rightarrow> bool" where
  "same_books m m' = (manifest m' = manifest m \<and> maxRetainedBytes m' = maxRetainedBytes m \<and> acquisitions m' = acquisitions m
     \<and> (\<forall>p. resident (runtimes m' p) = resident (runtimes m p) \<and> instances (runtimes m' p) = instances (runtimes m p)
          \<and> pendingReferences (runtimes m' p) = pendingReferences (runtimes m p)
          \<and> activeReferences (runtimes m' p) = activeReferences (runtimes m p)))"

lemma same_books_refl [simp]: "same_books m m"
  by (simp add: same_books_def)

lemma same_books_trans: "same_books a b \<Longrightarrow> same_books b c \<Longrightarrow> same_books a c"
  by (simp add: same_books_def)

lemma same_books_ok:
  assumes "same_books m m'" and "manager_ok m" and "manifest_ok (manifest m)"
  shows "manager_ok m'"
proof
  note s = assms(1) [unfolded same_books_def] and ok = manager_okD [OF assms(2)]
  show "runtime_counts m'" using s ok(1) by (simp add: runtime_counts_def)
  show "acquisition_ok m' a" if "a \<in> set (acquisitions m')" for a
  proof -
    have "acquisition_ok m a" using s that ok(2) by simp
    with s show ?thesis by (cases "lease_target a") (simp_all add: acquisition_ok_def)
  qed
  have "owned m' p = owned m p" for p using s by (simp add: owned_def)
  then show "within_limit m'" by (intro within_limit_less [OF ok(3) assms(3)]) (use s in simp_all)
  show "instances_resident m'" using s ok(4) by (simp add: instances_resident_def)
qed

lemma loadPackage_books: "same_books m (fst (loadPackage pid m))"
  by (simp add: loadPackage_def same_books_def updateRuntime_def split: option.split)

lemma loadAll_books: "same_books m (fst (loadAll pids m))"
proof (induction pids arbitrary: m)
  case (Cons pid pids)
  have "same_books m (fst (loadAll pids (fst (loadPackage pid m))))"
    by (rule same_books_trans [OF loadPackage_books Cons.IH])
  then show ?case by (simp add: Let_def case_prod_beta)
qed simp

lemma loadFailed_books: "same_books m (loadFailed pid n a m)"
  by (simp add: loadFailed_def same_books_def updateRuntime_def)

lemma loadProgress_books: "same_books m (loadProgress pid d m)"
  by (simp add: loadProgress_def same_books_def updateRuntime_def)

lemma loadFinally_books: "same_books m (loadFinally pid n m)"
  by (simp add: loadFinally_def same_books_def updateRuntime_def)

section \<open>Steps that evict\<close>

lemma acquisition_ok_kept:
  assumes "acquisition_ok m a" and "manifest m' = manifest m" and "runtime_counts m'" and "a \<in> set (acquisitions m')"
    and "\<And>p. resident (runtimes m p) \<Longrightarrow> owned m' p \<Longrightarrow> resident (runtimes m' p)"
  shows "acquisition_ok m' a"
proof -
  from assms(4) obtain i where i: "i < length (acquisitions m')" "acquisitions m' ! i = a" by (auto simp: in_set_conv_nth)
  have "owned m' p" if "lease_status a = Waiting \<or> lease_status a = Leased" "p \<in> set (lease_ids a)" for p
    using holders_pos [OF i(1), of Waiting p] holders_pos [OF i(1), of Leased p] that assms(3)
    by (auto simp: runtime_counts_def owned_def holds_def i(2))
  with assms(1,2,5) show ?thesis by (simp add: acquisition_ok_def split: lease_target.splits) blast
qed

lemma acquisition_ok_closed [simp]:
  "acquisition_ok m a \<Longrightarrow> st \<noteq> Waiting \<Longrightarrow> st \<noteq> Leased \<Longrightarrow> acquisition_ok m (a\<lparr>lease_status := st\<rparr>)"
  by (simp add: acquisition_ok_def split: lease_target.splits)

text \<open>A step that changes the status of one acquisition, and the runtimes of its packages only.\<close>

lemma status_step_ok:
  assumes ok: "manager_ok m" "manifest_ok (manifest m)" and i: "i < length (acquisitions m)"
    and new: "acquisition_ok m ((acquisitions m ! i)\<lparr>lease_status := st\<rparr>)"
    and m': "m' = setStatus i st (m\<lparr>runtimes := (\<lambda>p. if p \<in> set (lease_ids (acquisitions m ! i)) then f (runtimes m p) else runtimes m p)\<rparr>)"
    and counts: "\<And>p. p \<in> set (lease_ids (acquisitions m ! i)) \<Longrightarrow>
      pendingReferences (f (runtimes m p)) = pendingReferences (runtimes m p) + of_bool (st = Waiting) - of_bool (lease_status (acquisitions m ! i) = Waiting)
      \<and> activeReferences (f (runtimes m p)) = activeReferences (runtimes m p) + of_bool (st = Leased) - of_bool (lease_status (acquisitions m ! i) = Leased)"
    and held: "lease_status (acquisitions m ! i) = Waiting \<or> lease_status (acquisitions m ! i) = Leased"
    and keeps: "\<And>r. resident r \<Longrightarrow> 0 < pendingReferences (f r) \<or> 0 < activeReferences (f r) \<Longrightarrow> resident (f r)"
    and insts: "\<And>r. instances r = [] \<or> resident r \<Longrightarrow> instances (f r) = [] \<or> resident (f r)"
  shows "manager_ok m'"
proof
  note okD = manager_okD [OF ok(1)]
  let ?a = "acquisitions m ! i"
  have acqs: "acquisitions m' = (acquisitions m)[i := ?a\<lparr>lease_status := st\<rparr>]"
    and man: "manifest m' = manifest m" "maxRetainedBytes m' = maxRetainedBytes m"
    by (simp_all add: m' setStatus_def)
  have rt: "runtimes m' p = (if p \<in> set (lease_ids ?a) then f (runtimes m p) else runtimes m p)" for p
    by (simp add: m' setStatus_def)
  show c: "runtime_counts m'"
    unfolding runtime_counts_def
  proof (intro allI conjI)
    show "pendingReferences (runtimes m' p) = holders Waiting p (acquisitions m')" for p
      using okD(1) counts [of p] i by (cases "p \<in> set (lease_ids ?a)") (simp_all add: acqs rt runtime_counts_def holders_update holds_def)
    show "activeReferences (runtimes m' p) = holders Leased p (acquisitions m')" for p
      using okD(1) counts [of p] i by (cases "p \<in> set (lease_ids ?a)") (simp_all add: acqs rt runtime_counts_def holders_update holds_def)
  qed
  show "acquisition_ok m' a" if "a \<in> set (acquisitions m')" for a
  proof (rule acquisition_ok_kept [OF _ man(1) c that])
    from that have "a = ?a\<lparr>lease_status := st\<rparr> \<or> a \<in> set (acquisitions m)"
      using set_update_subset_insert [of "acquisitions m" i] by (auto simp: acqs)
    with new okD(2) show "acquisition_ok m a" by auto
    show "resident (runtimes m' p)" if "resident (runtimes m p)" "owned m' p" for p
      using that keeps [of "runtimes m p"] by (auto simp: rt owned_def split: if_splits)
  qed
  show "within_limit m'"
  proof (rule within_limit_less [OF okD(3) ok(2) man])
    show "owned m p" if "owned m' p" for p
    proof (cases "p \<in> set (lease_ids ?a)")
      case True
      then have "1 \<le> holders (lease_status ?a) p (acquisitions m)" using i by (intro holders_pos [of i]) (simp_all add: holds_def)
      with held okD(1) show ?thesis by (auto simp: owned_def runtime_counts_def)
    qed (use that in \<open>simp add: owned_def rt\<close>)
  qed
  show "instances_resident m'" using okD(4) insts by (simp add: instances_resident_def rt)
qed

lemma setStatus_fold: "setStatus i st (fold (updateRuntime f) ids m) = fold (updateRuntime f) ids (setStatus i st m)"
proof (induction ids arbitrary: m)
  case (Cons x xs)
  have "setStatus i st (updateRuntime f x m) = updateRuntime f x (setStatus i st m)"
    by (cases m) (simp add: setStatus_def updateRuntime_def)
  with Cons show ?case by simp
qed simp

lemma counts_of:
  assumes "manager_ok m" and "i < length (acquisitions m)" and "p \<in> set (lease_ids (acquisitions m ! i))"
  shows "lease_status (acquisitions m ! i) = Waiting \<Longrightarrow> 1 \<le> pendingReferences (runtimes m p)"
    and "lease_status (acquisitions m ! i) = Leased \<Longrightarrow> 1 \<le> activeReferences (runtimes m p)"
  using holders_pos [OF assms(2)] assms(3) manager_okD(1) [OF assms(1)] by (simp_all add: runtime_counts_def holds_def)

lemma nth_ok: "manager_ok m \<Longrightarrow> i < length (acquisitions m) \<Longrightarrow> acquisition_ok m (acquisitions m ! i)"
  by (simp add: manager_okD(2))

lemma reject_ok:
  assumes "manager_ok m" and "manifest_ok (manifest m)" and "is_waiting m i"
  shows "manager_ok (rejectAcquisition i m)"
proof (rule status_step_ok [where f = rollbackOne and st = Rejected])
  let ?ids = "lease_ids (acquisitions m ! i)"
  have i: "i < length (acquisitions m)" "lease_status (acquisitions m ! i) = Waiting" using assms(3) by (simp_all add: is_waiting_def)
  then show "i < length (acquisitions m)" "lease_status (acquisitions m ! i) = Waiting \<or> lease_status (acquisitions m ! i) = Leased" by simp_all
  show "acquisition_ok m ((acquisitions m ! i)\<lparr>lease_status := Rejected\<rparr>)" using nth_ok [OF assms(1) i(1)] by simp
  have "distinct ?ids" using nth_ok [OF assms(1) i(1)] by (simp add: acquisition_ok_def)
  then show "rejectAcquisition i m = setStatus i Rejected (m\<lparr>runtimes := (\<lambda>p. if p \<in> set ?ids then rollbackOne (runtimes m p) else runtimes m p)\<rparr>)"
    by (simp add: rejectAcquisition_def rollbackPendingReferences_def fold_update)
  show "pendingReferences (rollbackOne (runtimes m p)) = pendingReferences (runtimes m p) + of_bool (Rejected = Waiting)
        - of_bool (lease_status (acquisitions m ! i) = Waiting)
      \<and> activeReferences (rollbackOne (runtimes m p)) = activeReferences (runtimes m p) + of_bool (Rejected = Leased)
        - of_bool (lease_status (acquisitions m ! i) = Leased)" if "p \<in> set ?ids" for p
    using counts_of(1) [OF assms(1) i(1) that i(2)] i(2) by (simp add: rollbackOne_def evictIfUnowned_def Let_def)
qed (use assms in \<open>auto simp: rollbackOne_def evictIfUnowned_def Let_def split: if_splits\<close>)

lemma release_ok:
  assumes "manager_ok m" and "manifest_ok (manifest m)" and "i < length (acquisitions m)" and "lease_status (acquisitions m ! i) = Leased"
  shows "\<exists>m'. releaseLease i m = (True, Inr m') \<and> manager_ok m'"
proof -
  let ?ids = "lease_ids (acquisitions m ! i)"
  let ?m' = "setStatus i Released (m\<lparr>runtimes := (\<lambda>p. if p \<in> set ?ids then releaseOne (runtimes m p) else runtimes m p)\<rparr>)"
  note c = counts_of(2) [OF assms(1,3) _ assms(4)]
  have d: "distinct ?ids" using nth_ok [OF assms(1,3)] by (simp add: acquisition_ok_def)
  have "releaseEach (rev ?ids) (setStatus i Released m) = Inr (fold (updateRuntime releaseOne) (rev ?ids) (setStatus i Released m))"
    using d c by (intro releaseEach_update) (force simp: setStatus_def)+
  also have "fold (updateRuntime releaseOne) (rev ?ids) (setStatus i Released m) = ?m'"
    using d by (simp add: fold_update flip: setStatus_fold)
  finally have "releaseLease i m = (True, Inr ?m')" using assms(4) by (simp add: releaseLease_def releaseReferences_def)
  moreover have "manager_ok ?m'"
  proof (rule status_step_ok [where f = releaseOne and st = Released, OF assms(1-3)])
    show "acquisition_ok m ((acquisitions m ! i)\<lparr>lease_status := Released\<rparr>)" using nth_ok [OF assms(1,3)] by simp
    show "pendingReferences (releaseOne (runtimes m p)) = pendingReferences (runtimes m p) + of_bool (Released = Waiting)
          - of_bool (lease_status (acquisitions m ! i) = Waiting)
        \<and> activeReferences (releaseOne (runtimes m p)) = activeReferences (runtimes m p) + of_bool (Released = Leased)
          - of_bool (lease_status (acquisitions m ! i) = Leased)" if "p \<in> set ?ids" for p
      using assms(4) by (simp add: releaseOne_def evictIfUnowned_def)
  qed (use assms(4) in \<open>auto simp: releaseOne_def evictIfUnowned_def split: if_splits\<close>)
  ultimately show ?thesis by blast
qed

lemma resume_ok:
  assumes "manager_ok m" and "manifest_ok (manifest m)" and "is_waiting m i" and "waits_for (acquisitions m ! i) = []"
    and "resumeAcquisition i m = Inr m'"
  shows "manager_ok m'"
proof (rule status_step_ok [where f = activateOne and st = Leased])
  let ?ids = "lease_ids (acquisitions m ! i)"
  have i: "i < length (acquisitions m)" "lease_status (acquisitions m ! i) = Waiting" using assms(3) by (simp_all add: is_waiting_def)
  then show "i < length (acquisitions m)" "lease_status (acquisitions m ! i) = Waiting \<or> lease_status (acquisitions m ! i) = Leased" by simp_all
  note ok = nth_ok [OF assms(1) i(1)]
  show "acquisition_ok m ((acquisitions m ! i)\<lparr>lease_status := Leased\<rparr>)"
    using ok assms(4,5) i(2) by (auto simp: acquisition_ok_def resumeAcquisition_def Let_def find_None_iff split: lease_target.splits option.splits)
  have "distinct ?ids" using ok by (simp add: acquisition_ok_def)
  then show "m' = setStatus i Leased (m\<lparr>runtimes := (\<lambda>p. if p \<in> set ?ids then activateOne (runtimes m p) else runtimes m p)\<rparr>)"
    using assms(5) by (auto simp: resumeAcquisition_def activateReferences_def fold_update Let_def split: lease_target.splits option.splits)
  show "pendingReferences (activateOne (runtimes m p)) = pendingReferences (runtimes m p) + of_bool (Leased = Waiting)
        - of_bool (lease_status (acquisitions m ! i) = Waiting)
      \<and> activeReferences (activateOne (runtimes m p)) = activeReferences (runtimes m p) + of_bool (Leased = Leased)
        - of_bool (lease_status (acquisitions m ! i) = Leased)" if "p \<in> set ?ids" for p
    using counts_of(1) [OF assms(1) i(1) that i(2)] i(2) by (simp add: activateOne_def)
qed (use assms in \<open>auto simp: activateOne_def\<close>)

end
