(* ===== verification/Asset_Lease_Runs.thy ===== *)
theory Asset_Lease_Runs
  imports Asset_Lease_Safety
begin

text \<open>Acquisitions begin, attempts end, instances come and go: the invariant holds in every run of the package manager.\<close>

section \<open>An acquisition begins\<close>

lemma sum_list_distinct_cong:
  fixes g :: "'a \<Rightarrow> int"
  assumes "distinct xs" and "distinct ys" and "set xs = set ys"
  shows "sum_list (map g xs) = sum_list (map g ys)"
  using assms by (simp add: sum_list_distinct_conv_sum_set)

lemma reserve_cases:
  assumes "distinct ids"
  shows "reserveReferences ids m = Inl (CapacityError (requiredBytes ids m) (the (maxRetainedBytes m)))
    \<or> (reserveReferences ids m = Inr (m\<lparr>runtimes := (\<lambda>p. if p \<in> set ids then reserveOne (runtimes m p) else runtimes m p)\<rparr>)
       \<and> (\<forall>limit. maxRetainedBytes m = Some limit \<longrightarrow> requiredBytes ids m \<le> limit))"
  using assms by (auto simp: reserveReferences_def fold_update split: option.split)

lemma reserved_bytes:
  assumes "distinct ids" and "set ids \<subseteq> set (dependencyOrder (manifest m))" and "distinct (dependencyOrder (manifest m))"
    and "manifest m' = manifest m" and "\<And>p. owned m' p \<longleftrightarrow> owned m p \<or> p \<in> set ids"
  shows "retainedPayloadBytes m' = requiredBytes ids m"
proof -
  have "bytesOf m' = bytesOf m" using assms(4) by (simp add: bytesOf_def specOf_def fun_eq_iff)
  moreover have "set (filter (owned m') (dependencyOrder (manifest m)))
      = set (remdups (ids @ filter (owned m) (dependencyOrder (manifest m))))"
    using assms(2,5) by auto
  ultimately show ?thesis
    using sum_list_distinct_cong [OF distinct_filter [OF assms(3)] distinct_remdups]
    by (simp only: retainedPayloadBytes_def requiredBytes_def assms(4))
qed

lemma waits_cover: "resident (runtimes m pid) \<or> (\<exists>n. (pid, n) \<in> set (snd (loadAll [pid] m)))"
  by (auto simp: loadPackage_def Let_def split: option.split)

lemma begin_ok:
  assumes ok: "manager_ok m" "manifest_ok (manifest m)" and sub: "set targets \<subseteq> set (dependencyOrder (manifest m))"
    and tgt: "\<And>pid. tgt = OfPackage pid \<Longrightarrow> targets = [pid]"
    and r: "beginAcquisition tgt targets m = Inr m'"
  shows "manager_ok m' \<and> manifest m' = manifest m \<and> maxRetainedBytes m' = maxRetainedBytes m"
proof -
  let ?ids = "dependencyClosureIds (manifest m) targets"
  let ?m1 = "m\<lparr>runtimes := (\<lambda>p. if p \<in> set ?ids then reserveOne (runtimes m p) else runtimes m p)\<rparr>"
  let ?m2 = "fst (loadAll targets ?m1)"
  let ?a = "\<lparr>lease_target = tgt, lease_ids = ?ids, waits_for = snd (loadAll targets ?m1), lease_status = Waiting\<rparr>"
  note v = ok(2) [unfolded manifest_ok_def] and okD = manager_okD [OF ok(1)]
  have closure: "set ?ids = (\<Union>t \<in> set targets. reach (packages (validated_manifest (manifest m))) t)" "distinct ?ids"
    using dependency_closure [OF _ sub] v by blast+
  have ids: "set ?ids \<subseteq> set (dependencyOrder (manifest m))" by (auto simp: dependencyClosureIds_def Let_def)
  from r reserve_cases [OF closure(2), of m]
  have m': "m' = ?m2\<lparr>acquisitions := acquisitions ?m2 @ [?a]\<rparr>"
    and fits: "\<And>limit. maxRetainedBytes m = Some limit \<Longrightarrow> requiredBytes ?ids m \<le> limit"
    by (auto simp: beginAcquisition_def Let_def case_prod_beta)
  note b = loadAll_books [of ?m1 targets, unfolded same_books_def]
  have man: "manifest m' = manifest m" "maxRetainedBytes m' = maxRetainedBytes m"
    and acqs: "acquisitions m' = acquisitions m @ [?a]" using b by (simp_all add: m')
  have rt: "resident (runtimes m' p) = resident (runtimes m p)" "instances (runtimes m' p) = instances (runtimes m p)"
      "pendingReferences (runtimes m' p) = pendingReferences (runtimes m p) + of_bool (p \<in> set ?ids)"
      "activeReferences (runtimes m' p) = activeReferences (runtimes m p)" for p
    using b by (simp_all add: m' reserveOne_def)
  have c: "runtime_counts m'" using okD(1) by (simp add: runtime_counts_def rt acqs holds_def)
  have nonneg: "0 \<le> pendingReferences (runtimes m p)" for p using okD(1) by (simp add: runtime_counts_def)
  have own: "owned m' p \<longleftrightarrow> owned m p \<or> p \<in> set ?ids" for p
    using nonneg [of p] by (auto simp: owned_def rt)
  have new: "acquisition_ok m' ?a"
  proof (cases tgt)
    case (OfPackage pid)
    then have t: "targets = [pid]" by (rule tgt)
    have "pid \<in> set ?ids" using closure(1) by (simp add: t reach_def)
    moreover have "resident (runtimes m pid) \<or> (\<exists>n. (pid, n) \<in> set (snd (loadAll targets ?m1)))"
      using waits_cover [of ?m1 pid] by (auto simp: t reserveOne_def split: if_splits)
    ultimately show ?thesis using closure(2) ids OfPackage by (simp add: acquisition_ok_def man rt)
  qed (use closure(2) ids in \<open>simp add: acquisition_ok_def man\<close>)
  have "manager_ok m'"
  proof
    show "acquisition_ok m' a" if "a \<in> set (acquisitions m')" for a
    proof (cases "a = ?a")
      case False
      with that have "a \<in> set (acquisitions m)" by (simp add: acqs)
      then have "acquisition_ok m a" by (rule okD(2))
      then show ?thesis by (rule acquisition_ok_kept [OF _ man(1) c that]) (simp add: rt)
    qed (simp only: new)
    show "within_limit m'"
      using reserved_bytes [OF closure(2) ids _ man(1) own] fits v
      by (simp add: within_limit_def man dependency_order_def split: option.split)
    show "instances_resident m'" using okD(4) by (simp add: instances_resident_def rt)
  qed (rule c)
  with man show ?thesis by simp
qed

section \<open>An attempt ends well\<close>

lemma holds_attemptReady [simp]: "holds st p (attemptReady pid n a) = holds st p a"
  by (simp add: holds_def attemptReady_def)

lemma loadReady_ok:
  assumes ok: "manager_ok m" "manifest_ok (manifest m)"
  shows "manager_ok (loadReady pid n m)"
proof (cases "n \<in> aborted_attempts m")
  case True
  with same_books_ok [OF loadFailed_books ok] show ?thesis by (simp add: loadReady_def)
next
  case False
  let ?m' = "loadReady pid n m"
  note okD = manager_okD [OF ok(1)]
  have acqs: "acquisitions ?m' = map (attemptReady pid n) (acquisitions m)"
    and man: "manifest ?m' = manifest m" "maxRetainedBytes ?m' = maxRetainedBytes m"
    using False by (simp_all add: loadReady_def updateRuntime_def)
  have rt: "resident (runtimes ?m' p) \<longleftrightarrow> resident (runtimes m p) \<or> p = pid" "instances (runtimes ?m' p) = instances (runtimes m p)"
      "pendingReferences (runtimes ?m' p) = pendingReferences (runtimes m p)"
      "activeReferences (runtimes ?m' p) = activeReferences (runtimes m p)" for p
    using False by (simp_all add: loadReady_def updateRuntime_def)
  show ?thesis
  proof
    show "runtime_counts ?m'" using okD(1) by (simp add: runtime_counts_def rt acqs holders_map)
    show "acquisition_ok ?m' a" if a: "a \<in> set (acquisitions ?m')" for a
    proof -
      from a obtain b where b: "b \<in> set (acquisitions m)" "a = attemptReady pid n b" by (auto simp: acqs)
      have "acquisition_ok m b" by (rule okD(2) [OF b(1)])
      then show ?thesis by (cases "lease_target b") (auto simp: b(2) acquisition_ok_def man rt attemptReady_def)
    qed
    show "within_limit ?m'" by (rule within_limit_less [OF okD(3) ok(2) man]) (simp add: owned_def rt)
    show "instances_resident ?m'" using okD(4) by (simp add: instances_resident_def rt) blast
  qed
qed

section \<open>Instances\<close>

lemma instances_ok:
  assumes ok: "manager_ok m" "manifest_ok (manifest m)" and "resident (runtimes m pid) \<or> xs = []"
  shows "manager_ok (updateRuntime (\<lambda>r. r\<lparr>instances := xs\<rparr>) pid m)"
proof
  let ?m' = "updateRuntime (\<lambda>r. r\<lparr>instances := xs\<rparr>) pid m"
  note okD = manager_okD [OF ok(1)]
  have rt: "resident (runtimes ?m' p) = resident (runtimes m p)" "pendingReferences (runtimes ?m' p) = pendingReferences (runtimes m p)"
      "activeReferences (runtimes ?m' p) = activeReferences (runtimes m p)"
      "instances (runtimes ?m' p) = (if p = pid then xs else instances (runtimes m p))" for p
    by (simp_all add: updateRuntime_def)
  have man: "manifest ?m' = manifest m" "maxRetainedBytes ?m' = maxRetainedBytes m" "acquisitions ?m' = acquisitions m"
    by (simp_all add: updateRuntime_def)
  show "runtime_counts ?m'" using okD(1) by (simp add: runtime_counts_def rt man)
  show "acquisition_ok ?m' a" if "a \<in> set (acquisitions ?m')" for a
    using okD(2) [of a] that by (cases "lease_target a") (simp_all add: acquisition_ok_def rt man)
  show "within_limit ?m'" by (rule within_limit_less [OF okD(3) ok(2) man(1,2)]) (simp add: owned_def rt)
  show "instances_resident ?m'" using okD(4) assms(3) by (auto simp: instances_resident_def rt)
qed

section \<open>Every run\<close>

lemma specOf_known: "manifest_ok (manifest m) \<Longrightarrow> specOf m pid \<noteq> None \<Longrightarrow> pid \<in> set (dependencyOrder (manifest m))"
  by (auto simp: specOf_def manifest_ok_def dependency_order_def ids_of_def dest: find_Some_in)

definition kept :: "asset_manager \<Rightarrow> asset_manager \<Rightarrow> bool" where
  "kept m m' = (manager_ok m' \<and> manifest m' = manifest m \<and> maxRetainedBytes m' = maxRetainedBytes m)"

lemma same_books_kept: "manager_ok m \<Longrightarrow> manifest_ok (manifest m) \<Longrightarrow> same_books m m' \<Longrightarrow> kept m m'"
  using same_books_ok [of m m'] by (simp add: kept_def same_books_def)

lemma fold_update_man: "manifest (fold (updateRuntime f) ids m) = manifest m \<and> maxRetainedBytes (fold (updateRuntime f) ids m) = maxRetainedBytes m"
  by (induction ids arbitrary: m) (simp_all add: updateRuntime_def)

lemma releaseEach_man: "releaseEach ids m = Inr m' \<Longrightarrow> manifest m' = manifest m \<and> maxRetainedBytes m' = maxRetainedBytes m"
  by (induction ids arbitrary: m) (auto simp: updateRuntime_def split: if_splits)

lemma step_kept:
  assumes ok: "manager_ok m" "manifest_ok (manifest m)" and p: "asset_possible m e"
  shows "kept m (asset_step e m)"
proof (cases e)
  case (CallAcquire pid)
  have "kept m m'" if "acquirePackage pid m = Inr m'" for m'
  proof -
    have known: "specOf m pid \<noteq> None" and b: "beginAcquisition (OfPackage pid) [pid] m = Inr m'"
      using that by (cases "specOf m pid"; simp add: acquirePackage_def requireSpec_def)+
    have "pid \<in> set (dependencyOrder (manifest m))" by (rule specOf_known [OF ok(2) known])
    then show ?thesis unfolding kept_def by (intro begin_ok [OF ok _ _ b]) simp_all
  qed
  with CallAcquire ok show ?thesis by (cases "acquirePackage pid m") (simp_all add: orElse_def kept_def)
next
  case (CallAcquireStage stage)
  have "kept m m'" if "acquireStage stage m = Inr m'" for m'
  proof -
    from that have b: "beginAcquisition (OfStage stage) (stageTargets stage m) m = Inr m'"
      by (auto simp: acquireStage_def Let_def split: if_splits)
    have "set (stageTargets stage m) \<subseteq> set (dependencyOrder (manifest m))" by (auto simp: stageTargets_def)
    then show ?thesis unfolding kept_def by (intro begin_ok [OF ok _ _ b]) simp_all
  qed
  with CallAcquireStage ok show ?thesis by (cases "acquireStage stage m") (simp_all add: orElse_def kept_def)
next
  case (AttemptReady pid n)
  with loadReady_ok [OF ok] show ?thesis by (simp add: kept_def loadReady_def loadFailed_def updateRuntime_def)
next
  case (AcquisitionResumes i)
  then have w: "is_waiting m i" "waits_for (acquisitions m ! i) = []" using p by simp_all
  show ?thesis
  proof (cases "resumeAcquisition i m")
    case (Inl err)
    with reject_ok [OF ok w(1)] AcquisitionResumes show ?thesis
      by (simp add: kept_def orElse_def rejectAcquisition_def rollbackPendingReferences_def setStatus_def fold_update_man)
  next
    case (Inr m')
    with resume_ok [OF ok w Inr] AcquisitionResumes show ?thesis
      by (auto simp: kept_def orElse_def resumeAcquisition_def activateReferences_def setStatus_def fold_update_man Let_def
          split: lease_target.splits option.splits)
  qed
next
  case (AcquisitionRejected i)
  with p reject_ok [OF ok] show ?thesis
    by (simp add: kept_def rejectAcquisition_def rollbackPendingReferences_def setStatus_def fold_update_man)
next
  case (CallRelease i)
  show ?thesis
  proof (cases "lease_status (acquisitions m ! i) = Leased")
    case True
    with CallRelease p release_ok [OF ok, of i] obtain m' where m': "releaseLease i m = (True, Inr m')" "manager_ok m'" by auto
    then have "releaseEach (rev (lease_ids (acquisitions m ! i))) (setStatus i Released m) = Inr m'"
      by (simp add: releaseLease_def releaseReferences_def split: if_splits)
    from releaseEach_man [OF this] m' CallRelease show ?thesis by (simp add: kept_def orElse_def setStatus_def)
  qed (use CallRelease p ok in \<open>simp add: kept_def orElse_def releaseLease_def\<close>)
next
  case (CallInstance pid iid)
  show ?thesis
  proof (cases "acquireInstance pid iid m")
    case (Inr m')
    then have "m' = m \<or> resident (runtimes m pid) \<and> m' = updateRuntime (\<lambda>r. r\<lparr>instances := instances (runtimes m pid) @ [iid]\<rparr>) pid m"
      by (auto simp: acquireInstance_def updateRuntime_def split: if_splits)
    with instances_ok [OF ok, of pid "instances (runtimes m pid) @ [iid]"] ok CallInstance Inr show ?thesis
      by (auto simp: kept_def orElse_def updateRuntime_def)
  qed (use CallInstance ok in \<open>simp add: kept_def orElse_def\<close>)
next
  case (CallReleaseInstances pid)
  with instances_ok [OF ok, of pid "[]"] ok show ?thesis by (simp add: kept_def releasePackageInstances_def updateRuntime_def)
next
  case (CallLoad pid)
  with same_books_kept [OF ok loadPackage_books] same_books_kept [OF ok same_books_refl] show ?thesis by simp
next
  case (AttemptProgress pid d)
  with same_books_kept [OF ok loadProgress_books] show ?thesis by simp
next
  case (AttemptFailed pid n a)
  with same_books_kept [OF ok loadFailed_books] show ?thesis by simp
next
  case (AttemptFinally pid n)
  with same_books_kept [OF ok loadFinally_books] show ?thesis by simp
next
  case (AttemptAborted n)
  have "same_books m (m\<lparr>aborted_attempts := insert n (aborted_attempts m)\<rparr>)" by (simp add: same_books_def)
  with same_books_kept [OF ok] AttemptAborted show ?thesis by simp
qed

lemma new_manager_ok:
  assumes "\<And>limit. maxi = Some limit \<Longrightarrow> 0 \<le> limit"
  shows "manager_ok (newManager v maxi)"
proof
  show "within_limit (newManager v maxi)"
    using assms by (simp add: within_limit_def newManager_def retainedPayloadBytes_def owned_def newRuntime_def split: option.split)
qed (simp_all add: runtime_counts_def newManager_def newRuntime_def instances_resident_def)

theorem reachable_ok:
  assumes "asset_reachable v maxi m" and "manifest_ok v" and "\<And>limit. maxi = Some limit \<Longrightarrow> 0 \<le> limit"
  shows "manager_ok m \<and> manifest m = v \<and> maxRetainedBytes m = maxi"
  using assms(1)
proof (induction rule: asset_reachable.induct)
  case start
  show ?case using new_manager_ok [OF assms(3)] by (simp add: newManager_def)
next
  case (happens m e)
  with step_kept [of m e] assms(2) show ?case by (simp add: kept_def)
qed

end
