(* ===== verification/Asset_Properties.thy ===== *)
theory Asset_Properties
  imports Asset_Lease_Runs
begin

text \<open>
  The properties of the streamed asset packages: the order of a manifest, what a package needs, and
  the leases of the package manager; a two-package manifest is the example they are applied to.
\<close>

section \<open>An example\<close>

definition sample_resource :: "string \<Rightarrow> int \<Rightarrow> js" where
  "sample_resource name n = JObject [(''id'', JString name), (''url'', JString (''/assets/'' @ name)), (''bytes'', JNumber (JsInt n)),
     (''sha256'', JString (replicate 64 (CHR ''a''))), (''decoder'', JString ''binary'')]"

definition sample_package :: "string \<Rightarrow> string list \<Rightarrow> int \<Rightarrow> js" where
  "sample_package name deps n = JObject [(''id'', JString name), (''version'', JString ''1''), (''stage'', JString ''feature-on-demand''),
     (''dependsOn'', JArray (map JString deps)), (''resources'', JArray [sample_resource name n])]"

definition sample_manifest :: js where
  "sample_manifest = JObject [(''schemaVersion'', JNumber (JsInt 1)), (''assetSet'', JString ''primal''),
     (''packages'', JArray [sample_package ''wheel'' [''common''] 30, sample_package ''common'' [] 12])]"

definition sample_spec :: "string \<Rightarrow> string list \<Rightarrow> int \<Rightarrow> AssetPackageSpec" where
  "sample_spec name deps n = \<lparr>package_id = name, package_version = ''1'', package_stage = feature_on_demand, dependsOn = deps,
     package_resources = [\<lparr>resource_id = name, resource_url = ''/assets/'' @ name, resource_bytes = n,
       resource_sha256 = replicate 64 (CHR ''a''), resource_decoder = ''binary''\<rparr>]\<rparr>"

definition sample_validated :: ValidatedAssetPackageManifest where
  "sample_validated = \<lparr>validated_manifest = \<lparr>assetSet = ''primal'', packages = [sample_spec ''wheel'' [''common''] 30, sample_spec ''common'' [] 12]\<rparr>,
     dependencyOrder = [''common'', ''wheel'']\<rparr>"

lemma sample_digest [simp]: "toLowerCase (replicate 64 (CHR ''a'')) = replicate 64 (CHR ''a'')" "DIGEST_PATTERN (replicate 64 (CHR ''a''))"
  by (simp_all add: toLowerCase_def DIGEST_PATTERN_def is_upper_def code_def list_all_length)

lemma sample_is_validated: "validateAssetPackageManifest sample_manifest = Some (Inr sample_validated)"
proof -
  have "validatedPackages sample_manifest = Inr (''primal'', packages (validated_manifest sample_validated))"
    by (simp add: validatedPackages_def sample_manifest_def validToken_def trim_def is_space_def code_def getProp_def
        packageOf_def resourceOf_def sample_package_def sample_resource_def sample_validated_def sample_spec_def Let_def bindE_def
        propertyOf_def stageOf_def spread_def hasDuplicates_def is_reference_def isSafeAssetUrl_def safe_int_def MAX_SAFE_INTEGER_def
        assetPackageResourceBytes_def checkDependencies_def dependencyOf_def)
  moreover have "topologicalPackageOrder (packages (validated_manifest sample_validated)) = Some (Inr (dependencyOrder sample_validated))"
    by (simp add: topologicalPackageOrder_def sample_validated_def sample_spec_def dependenciesOf_def)
  ultimately show ?thesis by (simp add: validateAssetPackageManifest_def sample_validated_def)
qed


lemma sample_closures:
  "dependencyClosureIds sample_validated [''wheel''] = [''common'', ''wheel'']"
  "dependencyClosureIds sample_validated [''common''] = [''common'']"
  by (simp_all add: dependencyClosureIds_def sample_validated_def sample_spec_def dependenciesOf_def Let_def)

lemma asset_run_reachable: "asset_reachable v limit m \<Longrightarrow> asset_run es m = Some m' \<Longrightarrow> asset_reachable v limit m'"
  by (induction es arbitrary: m) (auto split: if_splits intro: asset_reachable.happens)

lemma sample_known:
  "manifest m = sample_validated \<Longrightarrow> specOf m ''wheel'' = Some (sample_spec ''wheel'' [''common''] 30)"
  "manifest m = sample_validated \<Longrightarrow> specOf m ''common'' = Some (sample_spec ''common'' [] 12)"
  by (simp_all add: specOf_def sample_validated_def sample_spec_def)

lemma sample_bytes:
  "manifest m = sample_validated \<Longrightarrow> bytesOf m ''wheel'' = 30"
  "manifest m = sample_validated \<Longrightarrow> bytesOf m ''common'' = 12"
  by (simp_all add: bytesOf_def sample_known) (simp_all add: sample_spec_def packageBytes_def)

lemma sample_order: "dependencyOrder sample_validated = [''common'', ''wheel'']"
  by (simp add: sample_validated_def)

lemmas lease_eval = acquirePackage_def requireSpec_def sample_known beginAcquisition_def sample_closures reserveReferences_def requiredBytes_def
  sample_order sample_bytes owned_def updateRuntime_def reserveOne_def loadPackage_def joinable_def loadReady_def attemptReady_def
  loadFinally_def is_waiting_def resumeAcquisition_def activateReferences_def activateOne_def setStatus_def orElse_def Let_def
  newManager_def newRuntime_def releaseLease_def releaseReferences_def releaseOne_def evictIfUnowned_def
  retainedPayloadBytes_def

definition sample_lease_run :: "asset_event list" where
  "sample_lease_run = [CallAcquire ''wheel'', CallLoad ''common'', AttemptReady ''common'' 1, AttemptFinally ''common'' 1,
     AttemptReady ''wheel'' 0, AttemptFinally ''wheel'' 0, AcquisitionResumes 0]"

lemma sample_lease:
  "\<exists>m. asset_run sample_lease_run (newManager sample_validated (Some 50)) = Some m
    \<and> activeReferences (runtimes m ''common'') = 1 \<and> retainedPayloadBytes m = 42
    \<and> length (acquisitions m) = 1 \<and> lease_status (acquisitions m ! 0) = Leased"
  by (simp add: sample_lease_run_def lease_eval)

definition sample_evicting_run :: "asset_event list" where
  "sample_evicting_run = [CallLoad ''wheel'', CallLoad ''common'', AttemptReady ''common'' 1, AttemptFinally ''common'' 1,
     AttemptReady ''wheel'' 0, AttemptFinally ''wheel'' 0, CallAcquire ''common'', AcquisitionResumes 0, CallRelease 0,
     CallAcquire ''wheel'', AcquisitionResumes 1]"

section \<open>Properties\<close>

text \<open>
  C25: An asset manifest with acceptable packages is accepted exactly when the dependencies of its packages have no
  cycle, and then its order lists every package once, after all the packages it needs. Otherwise the
  error names a package on a cycle. The recursion always ends: \<open>validateAssetPackageManifest\<close> is never \<open>None\<close>.
\<close>

theorem asset_order_exact:
  "case validatedPackages input of
     Inl e \<Rightarrow> validateAssetPackageManifest input = Some (Inl e)
   | Inr (a, ps) \<Rightarrow>
       if acyclic (needs ps)
       then \<exists>xs. validateAssetPackageManifest input = Some (Inr \<lparr>validated_manifest = \<lparr>assetSet = a, packages = ps\<rparr>, dependencyOrder = xs\<rparr>)
         \<and> distinct xs \<and> set xs = set (map package_id ps) \<and> deps_first ps xs
       else \<exists>q. validateAssetPackageManifest input = Some (Inl (DependencyCycle q)) \<and> (q, q) \<in> (needs ps)\<^sup>+"
proof (cases "validatedPackages input")
  case (Inr r)
  obtain a ps where r: "r = (a, ps)" by (cases r)
  note v = Inr [unfolded r]
  from order_exact [OF validatedPackages_Inr(1) [OF v]] show ?thesis
  proof (elim disjE exE conjE)
    fix xs
    assume "topologicalPackageOrder ps = Some (Inr xs)" "acyclic (needs ps)" "distinct xs" "set xs = set (ids_of ps)" "deps_first ps xs"
    then show ?thesis by (simp add: v validateAssetPackageManifest_def ids_of_def)
  next
    fix q
    assume "topologicalPackageOrder ps = Some (Inl (DependencyCycle q))" and q: "(q, q) \<in> (needs ps)\<^sup>+"
    moreover from q have "\<not> acyclic (needs ps)" by (auto simp: acyclic_def)
    ultimately show ?thesis by (simp add: v validateAssetPackageManifest_def)
  qed
qed (simp add: validateAssetPackageManifest_def)

text \<open>
  In an accepted manifest the names of packages and resources and the URLs are unique, every URL is a path
  of the site itself, every size is positive and at most 16 MiB, and every digest has 64 hexadecimal
  digits. The packages taken for a set of targets are the targets and everything they need, and no more,
  each once and after what it needs.
\<close>

theorem asset_closure_exact:
  assumes "validateAssetPackageManifest input = Some (Inr v)" and "set targets \<subseteq> set (dependencyOrder v)"
  defines "ps \<equiv> packages (validated_manifest v)"
  shows "distinct (map package_id ps) \<and> distinct (map resource_id (all_resources ps)) \<and> distinct (map resource_url (all_resources ps))
    \<and> (\<forall>r \<in> set (all_resources ps). isSafeAssetUrl (resource_url r) \<and> 0 < resource_bytes r
        \<and> resource_bytes r \<le> assetPackageResourceBytes \<and> DIGEST_PATTERN (resource_sha256 r))
    \<and> set (dependencyClosureIds v targets) = {q. \<exists>t \<in> set targets. (t, q) \<in> (needs ps)\<^sup>*}
    \<and> distinct (dependencyClosureIds v targets) \<and> deps_first ps (dependencyClosureIds v targets)"
proof -
  note v = validate_Inr [OF assms(1), folded ps_def]
  note p = validatedPackages_Inr [OF v(1)]
  note c = dependency_closure [OF v(3) [unfolded ps_def] assms(2) v(4) [unfolded ps_def], folded ps_def]
  have "set (dependencyClosureIds v targets) = {q. \<exists>t \<in> set targets. (t, q) \<in> (needs ps)\<^sup>*}"
    using c(1) by (auto simp: reach_def)
  moreover have "distinct (map package_id ps)" using p(1) by (simp add: well_linked_def ids_of_def)
  moreover have "resource_ok r" if "r \<in> set (all_resources ps)" for r
    using p(2) that by (auto simp: all_resources_def package_ok_def)
  ultimately show ?thesis using p(3,4) c(2,3) by (simp add: resource_ok_def)
qed

theorem asset_closure_exact_witness:
  "dependencyClosureIds sample_validated [''wheel''] = [''common'', ''wheel'']
   \<and> set [''common'', ''wheel''] = {q. (''wheel'', q) \<in> (needs (packages (validated_manifest sample_validated)))\<^sup>*}"
  using asset_closure_exact [OF sample_is_validated, of "[''wheel'']"] by (simp add: sample_closures sample_order)



text \<open>
  C40: A lease of a single package is said to hold the package with its complete dependency closure, but a
  dependency may be missing: a package loaded outside the leases keeps no hold on what it needs, so the release of another
  lease evicts the dependency, and a later \<open>acquire\<close> hands out the resident package without loading it
  again. \<open>acquireStage\<close> refuses in the same situation.
\<close>

theorem package_lease_misses_dependency:
  "\<exists>m. asset_run sample_evicting_run (newManager sample_validated None) = Some m \<and> asset_reachable sample_validated None m
     \<and> lease_status (acquisitions m ! 1) = Leased \<and> lease_target (acquisitions m ! 1) = OfPackage ''wheel''
     \<and> ''common'' \<in> set (lease_ids (acquisitions m ! 1)) \<and> \<not> resident (runtimes m ''common'')"
proof -
  have "\<exists>m. asset_run sample_evicting_run (newManager sample_validated None) = Some m
     \<and> lease_status (acquisitions m ! 1) = Leased \<and> lease_target (acquisitions m ! 1) = OfPackage ''wheel''
     \<and> ''common'' \<in> set (lease_ids (acquisitions m ! 1)) \<and> \<not> resident (runtimes m ''common'')"
    by (simp add: sample_evicting_run_def lease_eval)
  then show ?thesis using asset_run_reachable [OF asset_reachable.start] by blast
qed

end
