(* ===== verification/Wheel_Motion.thy ===== *)
theory Wheel_Motion
  imports Js_Values Prelude Complex_Main
begin

text \<open>
  The motion of the bonus wheel (\<open>renderer/wheelMotion.ts\<close>): which of its seven segments an
  award is, the polynomial the wheel stops on, the quick stop, and the times of the presentation.
  Positions are sectors, times milliseconds, both real numbers: a finite number of the code is one,
  without its rounding, so the checks for finite numbers have nothing to refuse here.
\<close>

section \<open>The segment of an award\<close>

definition PRIMAL_WHEEL_SEGMENTS :: "string list" where
  "PRIMAL_WHEEL_SEGMENTS = [''MEGA'', ''KONG QUEST'', ''MINOR'', ''GRAND'', ''KING SPIN'', ''MAJOR'', ''MINI'']"

definition PRIMAL_WHEEL_AWARD_IDS :: "int list" where
  "PRIMAL_WHEEL_AWARD_IDS = [47, 51, 43, 49, 50, 45, 41]"

definition SEGMENT_BY_AWARD_ID :: "(int \<times> int) list" where
  "SEGMENT_BY_AWARD_ID = [(47, 0), (51, 1), (43, 2), (49, 3), (50, 4), (45, 5), (41, 6)]"

definition SEGMENT_BY_LABEL :: "(string \<times> int) list" where
  "SEGMENT_BY_LABEL = [(''MEGA'', 0), (''EXPANSION'', 1), (''KONG_QUEST'', 1), (''MINOR'', 2), (''GRAND'', 3),
     (''OVERDRIVE'', 4), (''KING_SPIN'', 4), (''MAJOR'', 5), (''MINI'', 6)]"

datatype wheel_error = SegmentRange | AwardIdUnsafe | UnknownAwardId int | NoAuthoritativeSegment | ConflictingSegments
  | NotNonNegative string | StopOffsetRange | BounceNotZero

record PrimalWheelAwardSelection =
  award_id :: "js_number option"
  award_segment :: "js_number option"
  award_prize :: "string option"
  award_outcome :: "string option"

text \<open>\<open>value.trim().toUpperCase().replace(/[ -]+/g, "_")\<close>; only ASCII letters occur in the labels.\<close>

definition toUpperCase :: "string \<Rightarrow> string" where
  "toUpperCase s = map (\<lambda>c. if is_lower c then char_of (code c - 32) else c) s"

fun joinWords :: "bool \<Rightarrow> string \<Rightarrow> string" where
  "joinWords inGap [] = []"
| "joinWords inGap (c # cs) =
     (if c = CHR '' '' \<or> c = CHR ''-'' then (if inGap then joinWords True cs else CHR ''_'' # joinWords True cs)
      else c # joinWords False cs)"

definition normalizeLabel :: "string \<Rightarrow> string" where
  "normalizeLabel s = joinWords False (toUpperCase (trim s))"

definition asSegment :: "js_number \<Rightarrow> wheel_error + int" where
  "asSegment v = (case v of JsInt n \<Rightarrow> if 0 \<le> n \<and> n < 7 then Inr n else Inl SegmentRange | _ \<Rightarrow> Inl SegmentRange)"

definition labelled :: "string option \<Rightarrow> int list" where
  "labelled l = (case l of None \<Rightarrow> [] | Some t \<Rightarrow> if t = [] then []
     else (case map_of SEGMENT_BY_LABEL (normalizeLabel t) of None \<Rightarrow> [] | Some n \<Rightarrow> [n]))"

definition resolvePrimalWheelSegment :: "PrimalWheelAwardSelection \<Rightarrow> wheel_error + int" where
  "resolvePrimalWheelSegment source =
     bindE (case award_segment source of None \<Rightarrow> Inr [] | Some v \<Rightarrow> bindE (asSegment v) (\<lambda>n. Inr [n])) (\<lambda>explicit1.
     bindE (case award_id source of None \<Rightarrow> Inr []
       | Some v \<Rightarrow> (case safeInteger v of None \<Rightarrow> Inl AwardIdUnsafe
           | Some i \<Rightarrow> (case map_of SEGMENT_BY_AWARD_ID i of None \<Rightarrow> Inl (UnknownAwardId i) | Some n \<Rightarrow> Inr [n]))) (\<lambda>by_award.
     case explicit1 @ by_award @ labelled (award_prize source) @ labelled (award_outcome source) of
       [] \<Rightarrow> Inl NoAuthoritativeSegment
     | n # ns \<Rightarrow> if list_ex (\<lambda>m. m \<noteq> n) (n # ns) then Inl ConflictingSegments else Inr n))"

section \<open>The wheel\<close>

text \<open>\<open>a % b\<close> keeps the sign of \<open>a\<close>.\<close>

definition js_rem :: "real \<Rightarrow> real \<Rightarrow> real" where
  "js_rem a b = a - b * (if 0 \<le> a / b then of_int \<lfloor>a / b\<rfloor> else of_int \<lceil>a / b\<rceil>)"

definition wrapSectors :: "real \<Rightarrow> real" where
  "wrapSectors v = js_rem (js_rem v 7 + 7) 7"

definition primalWheelRotationDegrees :: "real \<Rightarrow> real" where
  "primalWheelRotationDegrees p = (1 - 2 * wrapSectors p) * 180 / 7"

definition idleAcceleration :: real where "idleAcceleration = 200"
definition configuredStop :: real where "configuredStop = 10000"
definition selectionReserve :: real where "selectionReserve = 1000"
definition highlightHold :: real where "highlightHold = 1200"
definition postHighlightHold :: real where "postHighlightHold = 750"
definition summaryShow :: real where "summaryShow = 10667 / 10"
definition summaryContinueHold :: real where "summaryContinueHold = 3000"
definition wheelHide :: real where "wheelHide = 500"
definition summaryHide :: real where "summaryHide = 6667 / 10"
definition wheelReelFade :: real where "wheelReelFade = 1000"

datatype wheel_stage = idle_acceleration | wheel_idle | stopping | stop_reserve | landed

record PrimalWheelIdleState =
  idle_stage :: wheel_stage
  idle_elapsed :: real
  idle_position :: real
  idle_velocity :: real
  idle_rotation :: real

definition requireNonNegative :: "real \<Rightarrow> string \<Rightarrow> wheel_error + real" where
  "requireNonNegative v label = (if v < 0 then Inl (NotNonNegative label) else Inr v)"

text \<open>The idle wheel reaches a ten-thousandth of a sector per millisecond after 200 ms.\<close>

definition primalWheelIdleState :: "real \<Rightarrow> real \<Rightarrow> wheel_error + PrimalWheelIdleState" where
  "primalWheelIdleState elapsedMs initial =
     bindE (requireNonNegative elapsedMs ''Wheel idle elapsed time'') (\<lambda>elapsed.
     let target = 1 / 10000;
         acceleration = target / idleAcceleration;
         accelerating = elapsed < idleAcceleration;
         accelerationPosition = acceleration * idleAcceleration ^ 2 / 2;
         position = (if accelerating then initial + acceleration * elapsed ^ 2 / 2
           else initial + accelerationPosition + target * (elapsed - idleAcceleration));
         wrapped = wrapSectors position in
     Inr \<lparr>idle_stage = (if accelerating then idle_acceleration else wheel_idle), idle_elapsed = elapsed, idle_position = wrapped,
       idle_velocity = (if accelerating then acceleration * elapsed else target), idle_rotation = primalWheelRotationDegrees wrapped\<rparr>)"

definition validateStopOffset :: "real \<Rightarrow> wheel_error + real" where
  "validateStopOffset v = (if v < - (15 / 100) \<or> 15 / 100 \<le> v then Inl StopOffsetRange else Inr v)"

datatype PrimalWheelSpeed = speed_normal | speed_fast

record PrimalWheelSpinPlan =
  plan_segment :: int
  plan_speed :: PrimalWheelSpeed
  startPosition :: real
  startVelocity :: real
  targetPosition :: int
  curveTarget :: real
  finalPosition :: real
  stopOffset :: real
  bounceAmplitude :: real
  configuredStopMs :: real
  decelerationMs :: real
  reserveMs :: real
  landingMs :: real
  curve1 :: real
  curve2 :: real
  curve3 :: real
  curve4 :: real

text \<open>The loop adds whole turns until the wheel has at least forty sectors to go.\<close>

function farEnough :: "int \<Rightarrow> real \<Rightarrow> int" where
  "farEnough target start1 = (if of_int target - start1 < 40 then farEnough (target + 7) start1 else target)"
  by auto
termination
proof (relation "measure (\<lambda>(target, start1). nat \<lceil>start1 + 40 - of_int target\<rceil>)")
  show "((target + 7, start1), target, start1) \<in> measure (\<lambda>(target, start1). nat \<lceil>start1 + 40 - of_int target\<rceil>)"
    if "of_int target - start1 < 40" for target :: int and start1 :: real
  proof -
    have "start1 + 40 - of_int (target + 7) = (start1 + 40 - of_int target) - of_int 7" by simp
    then have "\<lceil>start1 + 40 - of_int (target + 7)\<rceil> = \<lceil>start1 + 40 - of_int target\<rceil> - 7" by (simp only: ceiling_diff_of_int)
    moreover have "0 < \<lceil>start1 + 40 - of_int target\<rceil>" using that by linarith
    ultimately show ?thesis by simp
  qed
qed simp

declare farEnough.simps [simp del]

definition spinCurve :: "real \<Rightarrow> real \<Rightarrow> real \<Rightarrow> real \<times> real \<times> real \<times> real" where
  "spinCurve start1 target c1 = (c1, -6 * start1 + 6 * target - 3 * c1, 8 * start1 - 8 * target + 3 * c1, -3 * start1 + 3 * target - c1)"

text \<open>The plan for checked arguments.\<close>

definition spinPlan :: "int \<Rightarrow> real \<Rightarrow> real \<Rightarrow> real \<Rightarrow> PrimalWheelSpeed \<Rightarrow> PrimalWheelSpinPlan" where
  "spinPlan segment start1 v0 offset speed =
     (let target = farEnough segment start1;
          target = (if speed = speed_normal then target + 7 else target);
          fastStop = max 3000 (min 5000 ((of_int target - start1) * 90 * (6 / 10)));
          configured = (if speed = speed_fast then fastStop else configuredStop);
          deceleration = configured - idleAcceleration - selectionReserve;
          (c1, c2, c3, c4) = spinCurve start1 (of_int target + offset) (v0 * deceleration) in
      \<lparr>plan_segment = segment, plan_speed = speed, startPosition = start1, startVelocity = v0, targetPosition = target,
       curveTarget = of_int target + offset, finalPosition = of_int target + offset, stopOffset = offset, bounceAmplitude = 0,
       configuredStopMs = configured, decelerationMs = deceleration, reserveMs = selectionReserve,
       landingMs = deceleration + selectionReserve, curve1 = c1, curve2 = c2, curve3 = c3, curve4 = c4\<rparr>)"

definition createPrimalWheelSpinPlan :: "js_number \<Rightarrow> real \<Rightarrow> real \<Rightarrow> real \<Rightarrow> PrimalWheelSpeed \<Rightarrow> wheel_error + PrimalWheelSpinPlan" where
  "createPrimalWheelSpinPlan segment launchPosition launchVelocity offset speed =
     bindE (asSegment segment) (\<lambda>segment.
     bindE (requireNonNegative launchVelocity ''Wheel launch velocity'') (\<lambda>v0.
     bindE (validateStopOffset offset) (\<lambda>offset.
     let bounce = (if offset < 45 / 100 then 0 else - (15 / 10) * (offset - 45 / 100)) in
     if bounce \<noteq> 0 then Inl BounceNotZero
     else Inr (spinPlan segment (wrapSectors launchPosition) v0 offset speed))))"

record PrimalWheelSpinFrame =
  frame_stage :: wheel_stage
  frame_elapsed :: real
  frame_position :: real
  frame_rotation :: real
  anticipationEligible :: bool

definition curveAt :: "PrimalWheelSpinPlan \<Rightarrow> real \<Rightarrow> real" where
  "curveAt plan p = (((curve4 plan * p + curve3 plan) * p + curve2 plan) * p + curve1 plan) * p + startPosition plan"

definition primalWheelSpinFrame :: "PrimalWheelSpinPlan \<Rightarrow> real \<Rightarrow> wheel_error + PrimalWheelSpinFrame" where
  "primalWheelSpinFrame plan spinElapsed =
     bindE (requireNonNegative spinElapsed ''Wheel spin elapsed time'') (\<lambda>elapsed.
     let (stage, position) =
         (if elapsed < decelerationMs plan then (stopping, curveAt plan (elapsed / decelerationMs plan))
          else if elapsed < landingMs plan then (stop_reserve, finalPosition plan)
          else (landed, finalPosition plan)) in
     Inr \<lparr>frame_stage = stage, frame_elapsed = elapsed, frame_position = position, frame_rotation = primalWheelRotationDegrees position,
       anticipationEligible = (stage = stopping \<and> 1 / 2 < elapsed / decelerationMs plan)\<rparr>)"

text \<open>A quick stop is accepted while the wheel slows down; it jumps to the end of the curve.\<close>

definition primalWheelQuickStopElapsed :: "real \<Rightarrow> real option \<Rightarrow> PrimalWheelSpinPlan \<Rightarrow> wheel_error + real" where
  "primalWheelQuickStopElapsed spinElapsed quickStopAt plan =
     bindE (requireNonNegative spinElapsed ''Wheel spin elapsed time'') (\<lambda>elapsed.
     case quickStopAt of None \<Rightarrow> Inr elapsed
     | Some q \<Rightarrow> bindE (requireNonNegative q ''Wheel quick-stop time'') (\<lambda>q.
         if decelerationMs plan \<le> q \<or> elapsed < q then Inr elapsed else Inr (decelerationMs plan + elapsed - q)))"

record PrimalWheelRuntimeTimeline =
  selection_deceleration :: real
  selection_reserve :: real
  timeline_landing :: real
  summary_show_at :: real
  summary_stop_at :: real
  summary_hide_at :: real
  timeline_highlightHold :: real
  timeline_postHighlightHold :: real
  timeline_summaryShow :: real
  timeline_summaryContinueHold :: real
  timeline_wheelHide :: real
  timeline_summaryHide :: real
  timeline_reelFade :: real
  timeline_total :: real

definition primalWheelRuntimeTimeline :: "PrimalWheelSpinPlan \<Rightarrow> PrimalWheelRuntimeTimeline" where
  "primalWheelRuntimeTimeline plan =
     (let summaryShowAt = landingMs plan + highlightHold + postHighlightHold;
          summaryStopAt = summaryShowAt + summaryShow;
          summaryHideAt = summaryStopAt + summaryContinueHold in
      \<lparr>selection_deceleration = decelerationMs plan, selection_reserve = reserveMs plan, timeline_landing = landingMs plan,
       summary_show_at = summaryShowAt, summary_stop_at = summaryStopAt, summary_hide_at = summaryHideAt,
       timeline_highlightHold = highlightHold, timeline_postHighlightHold = postHighlightHold, timeline_summaryShow = summaryShow,
       timeline_summaryContinueHold = summaryContinueHold, timeline_wheelHide = wheelHide, timeline_summaryHide = summaryHide,
       timeline_reelFade = wheelReelFade,
       timeline_total = summaryHideAt + max wheelHide (max summaryHide wheelReelFade)\<rparr>)"

definition primalWheelLandingAngle :: "PrimalWheelAwardSelection \<Rightarrow> real \<Rightarrow> wheel_error + real" where
  "primalWheelLandingAngle selection offset =
     bindE (resolvePrimalWheelSegment selection) (\<lambda>segment.
     bindE (validateStopOffset offset) (\<lambda>offset.
     Inr (primalWheelRotationDegrees (of_int segment + offset) * pi / 180)))"

end
