(* ===== verification/Wheel_Properties.thy ===== *)
theory Wheel_Properties
  imports Wheel_Motion
begin

text \<open>The wheel lands on the segment of the award, without ever turning back, and stays there.\<close>

lemma farEnough_spec: "40 \<le> of_int (farEnough n s) - s \<and> (\<exists>k. farEnough n s = n + 7 * int k)
    \<and> (of_int n - s < 40 \<longrightarrow> of_int (farEnough n s) - s < 47)"
proof (induction n s rule: farEnough.induct)
  case (1 n s)
  show ?case
  proof (cases "of_int n - s < 40")
    case True
    then have e: "farEnough n s = farEnough (n + 7) s" by (subst farEnough.simps) simp
    obtain k where k: "40 \<le> of_int (farEnough (n + 7) s) - s" "farEnough (n + 7) s = n + 7 + 7 * int k"
        "of_int (n + 7) - s < 40 \<longrightarrow> of_int (farEnough (n + 7) s) - s < 47"
      using 1 [OF True] by blast
    have "of_int (farEnough (n + 7) s) - s < 47"
    proof (cases "of_int (n + 7) - s < 40")
      case False
      then have "farEnough (n + 7) s = n + 7" by (subst farEnough.simps) simp
      with True show ?thesis by simp
    qed (use k in blast)
    moreover have "farEnough (n + 7) s = n + 7 * int (Suc k)" using k(2) by simp
    ultimately show ?thesis using k(1) by (auto simp only: e)
  next
    case False
    then have "farEnough n s = n" by (subst farEnough.simps) simp
    with False show ?thesis by (auto intro: exI [of _ 0])
  qed
qed

text \<open>The stopping curve: where it starts and ends, and why it never turns back.\<close>

definition curve :: "real \<Rightarrow> real \<Rightarrow> real \<Rightarrow> real \<Rightarrow> real" where
  "curve s t c p = (((-3 * s + 3 * t - c) * p + (8 * s - 8 * t + 3 * c)) * p + (-6 * s + 6 * t - 3 * c)) * p * p + c * p + s"

lemma curve_ends: "curve s t c 0 = s" "curve s t c 1 = t"
  by (simp_all add: curve_def)

lemma curve_deriv: "(curve s t c has_real_derivative (1 - p)\<^sup>2 * (c + (12 * (t - s) - 4 * c) * p)) (at p)"
proof -
  have "(curve s t c has_real_derivative
      ((((-3 * s + 3 * t - c) * 4 * p ^ 3 + (8 * s - 8 * t + 3 * c) * 3 * p\<^sup>2) + (-6 * s + 6 * t - 3 * c) * 2 * p) + c)) (at p)"
    unfolding curve_def by (auto intro!: derivative_eq_intros simp: power2_eq_square power3_eq_cube algebra_simps)
  then show ?thesis by (simp add: power2_eq_square power3_eq_cube algebra_simps)
qed

lemma curve_mono:
  assumes "0 \<le> c" and "c \<le> 4 * (t - s)" and "0 \<le> p" and "p \<le> q" and "q \<le> 1"
  shows "curve s t c p \<le> curve s t c q"
proof (rule DERIV_nonneg_imp_nondecreasing [OF assms(4)])
  fix x
  assume x: "p \<le> x" "x \<le> q"
  have "0 \<le> c + (12 * (t - s) - 4 * c) * x"
  proof (cases "0 \<le> 12 * (t - s) - 4 * c")
    case True
    with assms x show ?thesis by simp
  next
    case False
    then have "(12 * (t - s) - 4 * c) * 1 \<le> (12 * (t - s) - 4 * c) * x"
      using assms x by (intro mult_left_mono_neg) simp_all
    with assms(1,2) show ?thesis by simp
  qed
  then show "\<exists>y. (curve s t c has_real_derivative y) (at x) \<and> 0 \<le> y"
    by (intro exI [of _ "(1 - x)\<^sup>2 * (c + (12 * (t - s) - 4 * c) * x)"] conjI curve_deriv) simp
qed

lemma wrapSectors_range: "0 \<le> wrapSectors v \<and> wrapSectors v < 7 \<and> (\<exists>k. wrapSectors v = v - 7 * of_int k)"
proof -
  have r: "-7 < js_rem v 7 \<and> js_rem v 7 < 7 \<and> (\<exists>k. js_rem v 7 = v - 7 * of_int k)"
  proof (cases "0 \<le> v / 7")
    case True
    have "of_int \<lfloor>v / 7\<rfloor> \<le> v / 7" "v / 7 < of_int \<lfloor>v / 7\<rfloor> + 1" by linarith+
    with True show ?thesis unfolding js_rem_def by (auto simp: field_simps)
  next
    case False
    have c: "v / 7 \<le> of_int \<lceil>v / 7\<rceil>" "of_int \<lceil>v / 7\<rceil> < v / 7 + 1" by linarith+
    have e: "js_rem v 7 = v - 7 * of_int \<lceil>v / 7\<rceil>" using False by (simp add: js_rem_def)
    have "-7 < js_rem v 7" "js_rem v 7 < 7" using c unfolding e by linarith+
    with e show ?thesis by blast
  qed
  let ?w = "js_rem v 7 + 7"
  have "of_int \<lfloor>?w / 7\<rfloor> \<le> ?w / 7" "?w / 7 < of_int \<lfloor>?w / 7\<rfloor> + 1" by linarith+
  with r have "0 \<le> js_rem ?w 7" "js_rem ?w 7 < 7" "js_rem ?w 7 = ?w - 7 * of_int \<lfloor>?w / 7\<rfloor>"
    unfolding js_rem_def by (auto simp: field_simps)
  moreover from r obtain k where "js_rem v 7 = v - 7 * of_int k" by blast
  ultimately have "wrapSectors v = v - 7 * of_int (k + \<lfloor>?w / 7\<rfloor> - 1)" by (simp add: wrapSectors_def)
  then have "\<exists>k. wrapSectors v = v - 7 * of_int k" by blast
  moreover have "0 \<le> wrapSectors v" "wrapSectors v < 7"
    using \<open>0 \<le> js_rem ?w 7\<close> \<open>js_rem ?w 7 < 7\<close> by (simp_all only: wrapSectors_def)
  ultimately show ?thesis by blast
qed

lemma wrapSectors_shift: "wrapSectors (v + 7 * of_int k) = wrapSectors v"
proof -
  obtain a b where ab: "wrapSectors (v + 7 * of_int k) = v + 7 * of_int k - 7 * of_int a" "wrapSectors v = v - 7 * of_int b"
    using wrapSectors_range by meson
  have "\<bar>wrapSectors (v + 7 * of_int k) - wrapSectors v\<bar> < 7"
    using wrapSectors_range [of v] wrapSectors_range [of "v + 7 * of_int k"] by (auto simp: abs_less_iff)
  then have "\<bar>7 * of_int (k - a + b) :: real\<bar> < 7" unfolding ab by (simp add: algebra_simps)
  then have "\<bar>of_int (k - a + b) :: real\<bar> < 1" by (simp only: abs_mult) simp
  then have "\<bar>k - a + b\<bar> < 1" by linarith
  then have "k - a + b = 0" by simp
  then have "(of_int k - of_int a + of_int b :: real) = 0" by (metis of_int_0 of_int_add of_int_diff)
  then show ?thesis unfolding ab by (simp add: algebra_simps)
qed

lemma wrapSectors_id:
  assumes "0 \<le> v" and "v < 7"
  shows "wrapSectors v = v"
proof -
  obtain k where k: "wrapSectors v = v - 7 * of_int k" using wrapSectors_range by meson
  then have "\<bar>7 * of_int k :: real\<bar> < 7" using assms wrapSectors_range [of v] by (auto simp: abs_less_iff)
  then have "\<bar>k\<bar> < 1" by linarith
  with k show ?thesis by simp
qed

definition plan_ok :: "PrimalWheelSpinPlan \<Rightarrow> bool" where
  "plan_ok plan = (0 \<le> startPosition plan \<and> startPosition plan < 7 \<and> 40 \<le> of_int (targetPosition plan) - startPosition plan
     \<and> (\<exists>k. targetPosition plan = plan_segment plan + 7 * int k) \<and> 0 \<le> plan_segment plan \<and> plan_segment plan < 7
     \<and> - (15 / 100) \<le> stopOffset plan \<and> stopOffset plan < 15 / 100
     \<and> finalPosition plan = of_int (targetPosition plan) + stopOffset plan
     \<and> 0 < decelerationMs plan \<and> decelerationMs plan \<le> 8800 \<and> landingMs plan = decelerationMs plan + 1000
     \<and> (\<forall>p. curveAt plan p = curve (startPosition plan) (finalPosition plan) (startVelocity plan * decelerationMs plan) p))"

lemma createPlan_iff:
  "createPrimalWheelSpinPlan (JsInt n) p0 v0 off speed = Inr plan \<longleftrightarrow> 0 \<le> n \<and> n < 7 \<and> 0 \<le> v0 \<and> - (15 / 100) \<le> off \<and> off < 15 / 100
     \<and> plan = spinPlan n (wrapSectors p0) v0 off speed"
proof -
  have "asSegment (JsInt n) = Inr m \<longleftrightarrow> 0 \<le> n \<and> n < 7 \<and> m = n" for m by (auto simp: asSegment_def)
  moreover have "requireNonNegative v0 l = Inr v \<longleftrightarrow> 0 \<le> v0 \<and> v = v0" for l v by (auto simp: requireNonNegative_def)
  moreover have "validateStopOffset off = Inr v \<longleftrightarrow> - (15 / 100) \<le> off \<and> off < 15 / 100 \<and> v = off" for v by (auto simp: validateStopOffset_def)
  moreover have "- (15 / 100) \<le> off \<and> off < 15 / 100 \<Longrightarrow> off < 45 / 100" by simp
  ultimately show ?thesis by (auto simp: createPrimalWheelSpinPlan_def bindE_Inr Let_def)
qed

lemma createPlan_ok:
  assumes "createPrimalWheelSpinPlan (JsInt n) p0 v0 off speed = Inr plan"
  shows "plan_ok plan" and "plan_segment plan = n" and "startVelocity plan = v0" and "0 \<le> v0" and "stopOffset plan = off"
proof -
  note range = wrapSectors_range [of p0] and far = farEnough_spec [of n "wrapSectors p0"]
  have plan: "0 \<le> n" "n < 7" "0 \<le> v0" "- (15 / 100) \<le> off" "off < 15 / 100" and p: "plan = spinPlan n (wrapSectors p0) v0 off speed"
    using createPlan_iff assms by blast+
  have eqs: "plan_segment plan = n" "startVelocity plan = v0" "stopOffset plan = off" "startPosition plan = wrapSectors p0"
      "targetPosition plan = farEnough n (wrapSectors p0) + (if speed = speed_normal then 7 else 0)"
      "finalPosition plan = of_int (targetPosition plan) + off"
      "decelerationMs plan = (if speed = speed_fast then max 3000 (min 5000 ((of_int (targetPosition plan) - wrapSectors p0) * 90 * (6 / 10)))
         else 10000) - 1200"
      "landingMs plan = decelerationMs plan + 1000" "curve1 plan = v0 * decelerationMs plan"
      "curve2 plan = -6 * wrapSectors p0 + 6 * finalPosition plan - 3 * (v0 * decelerationMs plan)"
      "curve3 plan = 8 * wrapSectors p0 - 8 * finalPosition plan + 3 * (v0 * decelerationMs plan)"
      "curve4 plan = -3 * wrapSectors p0 + 3 * finalPosition plan - v0 * decelerationMs plan"
    unfolding p by (simp_all add: spinPlan_def Let_def spinCurve_def idleAcceleration_def selectionReserve_def configuredStop_def)
  show "plan_segment plan = n" "startVelocity plan = v0" "0 \<le> v0" "stopOffset plan = off" using eqs plan by simp_all
  have dec: "0 < decelerationMs plan \<and> decelerationMs plan \<le> 8800" unfolding eqs(7) by (cases speed) (auto simp: max_def min_def)
  have target: "40 \<le> of_int (targetPosition plan) - wrapSectors p0" using far unfolding eqs(5) by auto
  obtain k where "farEnough n (wrapSectors p0) = n + 7 * int k" using far by blast
  then have "targetPosition plan = n + 7 * int (if speed = speed_normal then Suc k else k)" unfolding eqs(5) by simp
  then have turns: "\<exists>k. targetPosition plan = n + 7 * int k" by blast
  have curve: "curveAt plan p = curve (startPosition plan) (finalPosition plan) (startVelocity plan * decelerationMs plan) p" for p
    unfolding curveAt_def curve_def eqs(2,4,9-12) by (simp add: algebra_simps)
  show "plan_ok plan" unfolding plan_ok_def using range plan dec target turns curve eqs(1,3,4,6,8) by simp
qed

lemma frame_position_eq:
  assumes "plan_ok plan" and "0 \<le> e" and "primalWheelSpinFrame plan e = Inr f"
  shows "frame_position f = (if e < decelerationMs plan
      then curve (startPosition plan) (finalPosition plan) (startVelocity plan * decelerationMs plan) (e / decelerationMs plan)
      else finalPosition plan)"
    and "frame_stage f = (if e < decelerationMs plan then stopping else if e < landingMs plan then stop_reserve else landed)"
  using assms by (auto simp: primalWheelSpinFrame_def requireNonNegative_def bindE_def Let_def plan_ok_def split: if_splits)

lemma frame_defined: "0 \<le> e \<Longrightarrow> \<exists>f. primalWheelSpinFrame plan e = Inr f"
  by (simp add: primalWheelSpinFrame_def requireNonNegative_def bindE_def Let_def)

lemma idle_velocity:
  assumes "primalWheelIdleState e p = Inr i"
  shows "0 \<le> idle_velocity i \<and> idle_velocity i \<le> 1 / 10000"
  using assms by (auto simp: primalWheelIdleState_def requireNonNegative_def bindE_def Let_def idleAcceleration_def split: if_splits)

text \<open>
  C19: The wheel shows the award of the server. Launched from any state of the idle wheel, it never turns
  back, has turned at least five whole turns when it stops, lands within 0.15 sectors of the segment
  resolved from the award after at most 9.8 seconds, and shows the angle of that segment from then on.
  After a quick stop while it slows down it has landed on the same place one second later.
\<close>

theorem wheel_lands_on_award:
  assumes "resolvePrimalWheelSegment sel = Inr n" and "primalWheelIdleState idleMs initial = Inr i"
    and "createPrimalWheelSpinPlan (JsInt n) (idle_position i) (idle_velocity i) off speed = Inr plan"
    and "0 \<le> s" and "s \<le> t"
  shows "\<exists>f g. primalWheelSpinFrame plan s = Inr f \<and> primalWheelSpinFrame plan t = Inr g
    \<and> frame_position f \<le> frame_position g
    \<and> landingMs plan \<le> 9800 \<and> 35 \<le> finalPosition plan - idle_position i
    \<and> (frame_stage g = landed \<longleftrightarrow> landingMs plan \<le> t)
    \<and> (landingMs plan \<le> t \<longrightarrow> primalWheelLandingAngle sel off = Inr (frame_rotation g * pi / 180)
         \<and> (\<exists>k. \<bar>frame_position g - of_int (n + 7 * int k)\<bar> \<le> 15 / 100))
    \<and> (s < decelerationMs plan \<longrightarrow> (\<exists>e h. primalWheelQuickStopElapsed (s + 1000) (Some s) plan = Inr e
         \<and> primalWheelSpinFrame plan e = Inr h \<and> frame_stage h = landed \<and> frame_position h = finalPosition plan))"
proof -
  note ok = createPlan_ok [OF assms(3)]
  note pk = ok(1) [unfolded plan_ok_def]
  let ?d = "decelerationMs plan" and ?s0 = "startPosition plan" and ?t0 = "finalPosition plan"
  let ?c = "startVelocity plan * decelerationMs plan"
  obtain f where f: "primalWheelSpinFrame plan s = Inr f" using frame_defined assms(4) by blast
  obtain g where g: "primalWheelSpinFrame plan t = Inr g" using frame_defined assms(4,5) by fastforce
  note ff = frame_position_eq [OF ok(1) assms(4) f]
  have t: "0 \<le> t" using assms(4,5) by simp
  note gg = frame_position_eq [OF ok(1) t g]
  have c0: "0 \<le> ?c" using ok(3,4) pk by simp
  have "?c \<le> 1 / 10000 * 8800"
    using idle_velocity [OF assms(2)] ok(3) pk by (intro mult_mono) simp_all
  then have c1: "?c \<le> 4 * (?t0 - ?s0)" using pk by simp
  have mono: "frame_position f \<le> frame_position g"
  proof (cases "t < ?d")
    case True
    with assms(5) have "s < ?d" by simp
    moreover have "curve ?s0 ?t0 ?c (s / ?d) \<le> curve ?s0 ?t0 ?c (t / ?d)"
      using True assms(4,5) pk by (intro curve_mono [OF c0 c1]) (simp_all add: divide_right_mono)
    ultimately show ?thesis using True by (simp add: ff gg)
  next
    case False
    have "s < ?d \<Longrightarrow> curve ?s0 ?t0 ?c (s / ?d) \<le> curve ?s0 ?t0 ?c 1"
      using assms(4) pk by (intro curve_mono [OF c0 c1]) simp_all
    with False show ?thesis by (auto simp: ff gg curve_ends)
  qed
  have start: "?s0 = wrapSectors (idle_position i)"
    using createPlan_iff assms(3) by (auto simp: spinPlan_def Let_def spinCurve_def)
  have idle: "0 \<le> idle_position i" "idle_position i < 7"
    using assms(2) wrapSectors_range by (auto simp: primalWheelIdleState_def requireNonNegative_def bindE_def Let_def split: if_splits)
  have turned: "35 \<le> ?t0 - idle_position i" using pk start wrapSectors_id [OF idle] by simp
  have landing: "primalWheelLandingAngle sel off = Inr (frame_rotation g * pi / 180)
      \<and> (\<exists>k. \<bar>frame_position g - of_int (n + 7 * int k)\<bar> \<le> 15 / 100)" if "landingMs plan \<le> t"
  proof -
    have pos: "frame_position g = ?t0" using that pk by (simp add: gg)
    obtain k where k: "targetPosition plan = n + 7 * int k" using pk ok(2) by auto
    have "?t0 = of_int n + off + 7 * of_int (int k)" using pk k ok(5) by simp
    then have "wrapSectors ?t0 = wrapSectors (of_int n + off)" by (simp only: wrapSectors_shift)
    moreover have "frame_rotation g = primalWheelRotationDegrees (frame_position g)"
      using g t by (auto simp: primalWheelSpinFrame_def requireNonNegative_def bindE_def Let_def split: if_splits)
    ultimately have "frame_rotation g = primalWheelRotationDegrees (of_int n + off)" by (simp add: pos primalWheelRotationDegrees_def)
    moreover have "validateStopOffset off = Inr off" using pk ok(5) by (simp add: validateStopOffset_def)
    ultimately have "primalWheelLandingAngle sel off = Inr (frame_rotation g * pi / 180)"
      using assms(1) by (simp add: primalWheelLandingAngle_def bindE_def)
    moreover have "\<bar>frame_position g - of_int (n + 7 * int k)\<bar> \<le> 15 / 100"
      unfolding pos abs_le_iff using pk k by simp
    ultimately show ?thesis by blast
  qed
  have quick: "\<exists>e h. primalWheelQuickStopElapsed (s + 1000) (Some s) plan = Inr e \<and> primalWheelSpinFrame plan e = Inr h
      \<and> frame_stage h = landed \<and> frame_position h = ?t0" if "s < ?d"
  proof -
    have e: "primalWheelQuickStopElapsed (s + 1000) (Some s) plan = Inr (landingMs plan)"
      using that assms(4) pk by (simp add: primalWheelQuickStopElapsed_def requireNonNegative_def bindE_def)
    obtain h where h: "primalWheelSpinFrame plan (landingMs plan) = Inr h" using frame_defined [of "landingMs plan"] pk by auto
    have "0 \<le> landingMs plan" using pk by simp
    from frame_position_eq [OF ok(1) this h] pk e h show ?thesis by auto
  qed
  have "landingMs plan \<le> 9800" using pk by simp
  moreover have "frame_stage g = landed \<longleftrightarrow> landingMs plan \<le> t" using pk by (auto simp: gg)
  ultimately show ?thesis using f g mono turned landing quick by blast
qed

definition sampleSelection :: PrimalWheelAwardSelection where
  "sampleSelection = \<lparr>award_id = Some (JsInt 50), award_segment = None, award_prize = Some ''king spin'', award_outcome = None\<rparr>"

lemma sampleSelection_segment: "resolvePrimalWheelSegment sampleSelection = Inr 4"
  by code_simp

theorem wheel_lands_on_award_witness:
  "\<exists>i plan g. primalWheelIdleState 100 0 = Inr i \<and> createPrimalWheelSpinPlan (JsInt 4) (idle_position i) (idle_velocity i) (1 / 10) speed_fast = Inr plan
    \<and> primalWheelSpinFrame plan 9800 = Inr g \<and> frame_stage g = landed
    \<and> primalWheelLandingAngle sampleSelection (1 / 10) = Inr (frame_rotation g * pi / 180)"
proof -
  obtain i where i: "primalWheelIdleState 100 0 = Inr i"
    by (simp add: primalWheelIdleState_def requireNonNegative_def bindE_def Let_def)
  have v: "0 \<le> idle_velocity i" using idle_velocity [OF i] by simp
  then obtain plan where plan: "createPrimalWheelSpinPlan (JsInt 4) (idle_position i) (idle_velocity i) (1 / 10) speed_fast = Inr plan"
    by (simp add: createPlan_iff)
  from wheel_lands_on_award [OF sampleSelection_segment i plan, of 0 9800] i plan show ?thesis by auto
qed

end
