(* ===== verification/Operator_Bridge.thy ===== *)
theory Operator_Bridge
  imports Player_Errors
begin

text \<open>
  The messages to the page of the operator (\<open>app/operatorSessionBridge.ts\<close>,
  \<open>app/operatorShellRequest.ts\<close>, \<open>protocol/rgsHostOrigin.ts\<close>): what may leave the game, and
  to whom. The URL parser of the browser is an argument. A window is described by what the code asks it;
  the effects are the calls made, whether or not they throw, in order. A request is any JSON value; objects
  with getters, symbols or foreign prototypes, which the shell request refuses as well, are not JSON.
\<close>

section \<open>The host\<close>

record url_view =
  url_protocol :: string
  url_username :: string
  url_password :: string
  url_pathname :: string
  url_search :: string
  url_hash :: string
  url_origin :: string
  url_text :: string

text \<open>\<open>parent_differs\<close> is \<open>None\<close> where reading \<open>parent\<close> throws.\<close>

record window_view =
  canDispatch :: bool
  parent_differs :: "bool option"
  location_href :: string
  location_origin :: string
  assign_throws :: bool

datatype host_effect = PageEvent string js | PostMessage js string | Navigate string

definition parseExactHttpsHostOrigin :: "(string \<Rightarrow> url_view option) \<Rightarrow> string option \<Rightarrow> unit + string option" where
  "parseExactHttpsHostOrigin parseUrl v = (case v of None \<Rightarrow> Inr None
     | Some value1 \<Rightarrow> (case parseUrl value1 of None \<Rightarrow> Inl ()
       | Some parsed \<Rightarrow>
           if value1 = ''*'' \<or> url_protocol parsed \<noteq> ''https:'' \<or> url_username parsed \<noteq> [] \<or> url_password parsed \<noteq> []
              \<or> url_pathname parsed \<noteq> ''/'' \<or> url_search parsed \<noteq> [] \<or> url_hash parsed \<noteq> [] \<or> url_origin parsed \<noteq> value1
           then Inl () else Inr (Some (url_origin parsed))))"

definition isWindowFramed :: "window_view \<Rightarrow> bool" where
  "isWindowFramed w = (case parent_differs w of None \<Rightarrow> True | Some b \<Rightarrow> b)"

section \<open>The session is over\<close>

definition OPERATOR_SESSION_REQUIRED_EVENT :: string where
  "OPERATOR_SESSION_REQUIRED_EVENT = ''slots-game:operator-session-required''"

definition allowlistedRequest :: "js \<Rightarrow> (string \<times> string \<times> string option) option" where
  "allowlistedRequest candidate = (case candidate of
       JObject values \<Rightarrow>
         (case (getProp values ''reason'', getProp values ''code'') of
            (JString reason, JString code1) \<Rightarrow>
              if reason \<noteq> ''initial-session-timeout'' \<and> reason \<noteq> ''session-timeout'' \<and> reason \<noteq> ''initial-session-failed''
                 \<and> reason \<noteq> ''committed-result-recovery-required''
                 \<or> code1 \<noteq> ''SESSION_TIMEOUT'' \<and> code1 \<noteq> ''OPERATOR_SESSION_REQUIRED'' then None
              else Some (reason, code1, safeCorrelationId (OtherCause (case getProp values ''correlationId'' of JString s \<Rightarrow> Some s | _ \<Rightarrow> None)))
          | _ \<Rightarrow> None)
     | _ \<Rightarrow> None)"

definition requestFields :: "string \<times> string \<times> string option \<Rightarrow> js_object" where
  "requestFields = (\<lambda>(reason, code1, correlation).
     [(''reason'', JString reason), (''code'', JString code1)] @ optProp ''correlationId'' JString correlation)"

definition pageEvent :: "window_view \<Rightarrow> string \<Rightarrow> js \<Rightarrow> host_effect list" where
  "pageEvent w name detail = (if canDispatch w then [PageEvent name detail] else [])"

definition postToHost :: "(string \<Rightarrow> url_view option) \<Rightarrow> window_view \<Rightarrow> string option \<Rightarrow> js \<Rightarrow> host_effect list" where
  "postToHost parseUrl w configured message = (case parseExactHttpsHostOrigin parseUrl configured of
       Inl e \<Rightarrow> []
     | Inr None \<Rightarrow> []
     | Inr (Some target) \<Rightarrow> if target = [] \<or> \<not> isWindowFramed w then [] else [PostMessage message target])"

definition notifyOperatorSessionRequired ::
  "(string \<Rightarrow> url_view option) \<Rightarrow> window_view option \<Rightarrow> js \<Rightarrow> string option \<Rightarrow> host_effect list" where
  "notifyOperatorSessionRequired parseUrl window1 request configured = (case window1 of None \<Rightarrow> []
     | Some w \<Rightarrow> (case allowlistedRequest request of None \<Rightarrow> []
       | Some safe \<Rightarrow> pageEvent w OPERATOR_SESSION_REQUIRED_EVENT (JObject (requestFields safe))
           @ postToHost parseUrl w configured
               (JObject ([(''type'', JString OPERATOR_SESSION_REQUIRED_EVENT), (''version'', JNumber (JsInt 1))] @ requestFields safe))))"

text \<open>\<open>resolveUrl path base\<close> is \<open>new URL(path, base)\<close>.\<close>

definition returnTopLevelSessionToOperator ::
  "(string \<Rightarrow> string \<Rightarrow> url_view option) \<Rightarrow> window_view option \<Rightarrow> string option \<Rightarrow> bool \<times> host_effect list" where
  "returnTopLevelSessionToOperator resolveUrl window1 configuredPath = (case (window1, configuredPath) of
       (Some w, Some path) \<Rightarrow>
         if path = [] \<or> isWindowFramed w \<or> take 1 path \<noteq> ''/'' \<or> take 2 path = ''//'' then (False, [])
         else (case resolveUrl path (location_href w) of None \<Rightarrow> (False, [])
           | Some target \<Rightarrow>
               if url_origin target \<noteq> location_origin w \<or> url_username target \<noteq> [] \<or> url_password target \<noteq> []
                  \<or> url_search target \<noteq> [] \<or> url_hash target \<noteq> [] then (False, [])
               else (\<not> assign_throws w, [Navigate (url_text target)]))
     | _ \<Rightarrow> (False, []))"

section \<open>Home and exit\<close>

definition OPERATOR_SHELL_REQUEST_EVENT :: string where
  "OPERATOR_SHELL_REQUEST_EVENT = ''slots-game:operator-shell-request''"

fun validateOperatorShellRequest :: "js \<Rightarrow> string option" where
  "validateOperatorShellRequest (JObject [(k, JString action1)]) =
     (if k = ''action'' \<and> (action1 = ''home'' \<or> action1 = ''exit'') then Some action1 else None)"
| "validateOperatorShellRequest v = None"

definition requestOperatorShellAction ::
  "(string \<Rightarrow> url_view option) \<Rightarrow> window_view option \<Rightarrow> js \<Rightarrow> string option \<Rightarrow> host_effect list" where
  "requestOperatorShellAction parseUrl window1 request configured = (case window1 of None \<Rightarrow> []
     | Some w \<Rightarrow> (case validateOperatorShellRequest request of None \<Rightarrow> []
       | Some action1 \<Rightarrow> pageEvent w OPERATOR_SHELL_REQUEST_EVENT (JObject [(''action'', JString action1)])
           @ postToHost parseUrl w configured
               (JObject [(''type'', JString OPERATOR_SHELL_REQUEST_EVENT), (''version'', JNumber (JsInt 1)), (''action'', JString action1)])))"

section \<open>What leaves the game\<close>

text \<open>The values of a message that come from the request: members of closed lists, or a checked identifier.\<close>

definition allowed_field :: "string \<times> js \<Rightarrow> bool" where
  "allowed_field = (\<lambda>(k, v). case v of
       JString s \<Rightarrow>
         k = ''type'' \<and> (s = OPERATOR_SESSION_REQUIRED_EVENT \<or> s = OPERATOR_SHELL_REQUEST_EVENT)
         \<or> k = ''reason'' \<and> s \<in> {''initial-session-timeout'', ''session-timeout'', ''initial-session-failed'', ''committed-result-recovery-required''}
         \<or> k = ''code'' \<and> s \<in> {''SESSION_TIMEOUT'', ''OPERATOR_SESSION_REQUIRED''}
         \<or> k = ''action'' \<and> s \<in> {''home'', ''exit''}
         \<or> k = ''correlationId'' \<and> CORRELATION_ID_PATTERN s
     | JNumber n \<Rightarrow> k = ''version'' \<and> n = JsInt 1
     | _ \<Rightarrow> False)"

definition allowed_message :: "js \<Rightarrow> bool" where
  "allowed_message m = (case m of JObject kvs \<Rightarrow> list_all allowed_field kvs | _ \<Rightarrow> False)"

lemma allowlisted_fields:
  assumes "allowlistedRequest v = Some r"
  shows "list_all allowed_field (requestFields r)"
  using assms
  by (auto simp: allowlistedRequest_def requestFields_def allowed_field_def optProp_def safeCorrelationId_def
      split: js.splits if_splits option.splits)

lemma postToHost_effect:
  assumes "e \<in> set (postToHost parseUrl w configured message)"
  shows "\<exists>u target. e = PostMessage message target \<and> configured = Some target \<and> parseUrl target = Some u \<and> url_protocol u = ''https:''
    \<and> url_username u = [] \<and> url_password u = [] \<and> url_pathname u = ''/'' \<and> url_search u = [] \<and> url_hash u = []
    \<and> url_origin u = target \<and> target \<noteq> ''*'' \<and> isWindowFramed w"
  using assms by (auto simp: postToHost_def parseExactHttpsHostOrigin_def split: option.splits if_splits sum.splits)

lemma validated_action: "validateOperatorShellRequest v = Some a \<Longrightarrow> a = ''home'' \<or> a = ''exit''"
  by (cases v rule: validateOperatorShellRequest.cases) (auto split: if_splits)

lemma notice_confined:
  assumes "e \<in> set (pageEvent w name detail) \<or> e \<in> set (postToHost parseUrl w configured message)"
    and "name = OPERATOR_SESSION_REQUIRED_EVENT \<or> name = OPERATOR_SHELL_REQUEST_EVENT"
    and "allowed_message detail" and "allowed_message message"
  shows "case e of
      PageEvent name detail \<Rightarrow> (name = OPERATOR_SESSION_REQUIRED_EVENT \<or> name = OPERATOR_SHELL_REQUEST_EVENT) \<and> allowed_message detail
    | PostMessage message target \<Rightarrow> allowed_message message \<and> configured = Some target \<and> isWindowFramed w \<and> target \<noteq> ''*''
        \<and> (\<exists>u. parseUrl target = Some u \<and> url_protocol u = ''https:'' \<and> url_origin u = target \<and> url_username u = [] \<and> url_password u = []
             \<and> url_pathname u = ''/'' \<and> url_search u = [] \<and> url_hash u = [])
    | Navigate t \<Rightarrow> False"
  using assms(1)
proof
  assume "e \<in> set (pageEvent w name detail)"
  then have "e = PageEvent name detail" by (simp add: pageEvent_def split: if_splits)
  with assms(2,3) show ?thesis by simp
next
  assume "e \<in> set (postToHost parseUrl w configured message)"
  from postToHost_effect [OF this] assms(4) show ?thesis by auto
qed

lemma allowed_head:
  "allowed_field (''type'', JString OPERATOR_SESSION_REQUIRED_EVENT)" "allowed_field (''type'', JString OPERATOR_SHELL_REQUEST_EVENT)"
  "allowed_field (''version'', JNumber (JsInt 1))" "a = ''home'' \<or> a = ''exit'' \<Longrightarrow> allowed_field (''action'', JString a)"
  by (auto simp: allowed_field_def)

text \<open>
  C18: Whatever is asked of the operator page, only members of closed lists and a checked correlation identifier leave
  the game. A message goes to the configured address only, which is an exact HTTPS origin without
  credentials, path, query or wildcard, and only from inside a frame.
\<close>

theorem operator_messages_confined:
  assumes "e \<in> set (notifyOperatorSessionRequired parseUrl (Some w) request configured)
      \<union> set (requestOperatorShellAction parseUrl (Some w) request configured)"
  shows "case e of
      PageEvent name detail \<Rightarrow> (name = OPERATOR_SESSION_REQUIRED_EVENT \<or> name = OPERATOR_SHELL_REQUEST_EVENT) \<and> allowed_message detail
    | PostMessage message target \<Rightarrow> allowed_message message \<and> configured = Some target \<and> isWindowFramed w \<and> target \<noteq> ''*''
        \<and> (\<exists>u. parseUrl target = Some u \<and> url_protocol u = ''https:'' \<and> url_origin u = target \<and> url_username u = [] \<and> url_password u = []
             \<and> url_pathname u = ''/'' \<and> url_search u = [] \<and> url_hash u = [])
    | Navigate t \<Rightarrow> False"
  using assms
proof
  assume e: "e \<in> set (notifyOperatorSessionRequired parseUrl (Some w) request configured)"
  show ?thesis
  proof (cases "allowlistedRequest request")
    case (Some r)
    let ?m = "JObject ([(''type'', JString OPERATOR_SESSION_REQUIRED_EVENT), (''version'', JNumber (JsInt 1))] @ requestFields r)"
    have "e \<in> set (pageEvent w OPERATOR_SESSION_REQUIRED_EVENT (JObject (requestFields r))) \<or> e \<in> set (postToHost parseUrl w configured ?m)"
      using e Some by (simp add: notifyOperatorSessionRequired_def)
    then show ?thesis
      by (rule notice_confined) (simp_all add: allowed_message_def allowed_head allowlisted_fields [OF Some])
  qed (use e in \<open>simp add: notifyOperatorSessionRequired_def\<close>)
next
  assume e: "e \<in> set (requestOperatorShellAction parseUrl (Some w) request configured)"
  show ?thesis
  proof (cases "validateOperatorShellRequest request")
    case (Some a)
    let ?m = "JObject [(''type'', JString OPERATOR_SHELL_REQUEST_EVENT), (''version'', JNumber (JsInt 1)), (''action'', JString a)]"
    have "e \<in> set (pageEvent w OPERATOR_SHELL_REQUEST_EVENT (JObject [(''action'', JString a)])) \<or> e \<in> set (postToHost parseUrl w configured ?m)"
      using e Some by (simp add: requestOperatorShellAction_def)
    then show ?thesis
      by (rule notice_confined) (simp_all add: allowed_message_def allowed_head validated_action [OF Some])
  qed (use e in \<open>simp add: requestOperatorShellAction_def\<close>)
qed

definition sampleUrl :: "string \<Rightarrow> url_view option" where
  "sampleUrl s = (if s = ''https://operator.example'' then Some \<lparr>url_protocol = ''https:'', url_username = [], url_password = [],
     url_pathname = ''/'', url_search = [], url_hash = [], url_origin = s, url_text = s\<rparr> else None)"

definition sampleWindow :: window_view where
  "sampleWindow = \<lparr>canDispatch = True, parent_differs = Some True, location_href = [], location_origin = [], assign_throws = False\<rparr>"

theorem operator_messages_confined_witness:
  "\<exists>m. PostMessage m ''https://operator.example''
       \<in> set (requestOperatorShellAction sampleUrl (Some sampleWindow) (JObject [(''action'', JString ''exit'')]) (Some ''https://operator.example''))
     \<and> allowed_message m"
proof -
  let ?m = "JObject [(''type'', JString OPERATOR_SHELL_REQUEST_EVENT), (''version'', JNumber (JsInt 1)), (''action'', JString ''exit'')]"
  have "PostMessage ?m ''https://operator.example''
      \<in> set (requestOperatorShellAction sampleUrl (Some sampleWindow) (JObject [(''action'', JString ''exit'')]) (Some ''https://operator.example''))"
    by (simp add: requestOperatorShellAction_def postToHost_def parseExactHttpsHostOrigin_def
        sampleUrl_def sampleWindow_def isWindowFramed_def)
  with operator_messages_confined [of "PostMessage ?m ''https://operator.example''" sampleUrl sampleWindow
      "JObject [(''action'', JString ''exit'')]" "Some ''https://operator.example''"]
  show ?thesis by auto
qed

end
