(* ===== verification/Preload_Gate.thy ===== *)
theory Preload_Gate
  imports Js_Values Prelude Complex_Main
begin

text \<open>
  The preload gate (\<open>startup/PreloadGate.ts\<close>): the stages of the start run one after the other
  and report weighted progress. A run is a machine over what its current task does: it reports,
  ends, fails, meets its deadline or is aborted. Weights and fractions are real numbers; a report of
  something that is not finite is \<open>None\<close> (it throws into the task and shows nothing). The handler
  of the progress does not throw.
\<close>

section \<open>Tasks and progress\<close>

record PreloadTask =
  task_name :: string
  task_stage :: string
  task_weight :: real
  task_timeout :: "real option"

record PreloadProgress =
  progress_stage :: string
  progress_task :: "string option"
  progress_complete :: bool
  taskFraction :: real
  progress_completedWeight :: real
  progress_totalWeight :: real
  progress_value :: real

datatype preload_error = TimeoutNotPositive | EmptyName | EmptyStage string | DuplicateName string | WeightNotPositive string
  | AlreadyRunning

datatype preload_end = PreloadTimeout string | PreloadAborted | PreloadTaskFailed string

definition clamp01 :: "real \<Rightarrow> real" where
  "clamp01 v = max 0 (min 1 v)"

definition MAX_RUNNING_TASK_FRACTION :: real where
  "MAX_RUNNING_TASK_FRACTION = 1 - 1 / 1000000"

definition totalWeight :: "PreloadTask list \<Rightarrow> real" where
  "totalWeight ts = sum_list (map task_weight ts)"

fun checkTasks :: "string list \<Rightarrow> PreloadTask list \<Rightarrow> preload_error + unit" where
  "checkTasks seen [] = Inr ()"
| "checkTasks seen (t # ts) =
     (if trim (task_name t) = [] then Inl EmptyName
      else if trim (task_stage t) = [] then Inl (EmptyStage (task_name t))
      else if task_name t \<in> set seen then Inl (DuplicateName (task_name t))
      else if task_weight t \<le> 0 then Inl (WeightNotPositive (task_name t))
      else if (case task_timeout t of None \<Rightarrow> False | Some ms \<Rightarrow> ms \<le> 0) then Inl TimeoutNotPositive
      else checkTasks (task_name t # seen) ts)"

section \<open>The machine\<close>

text \<open>\<open>current\<close> is the task that runs and those after it.\<close>

datatype run_status = NotStarted | Running | Completed | Ended preload_end

record preload_gate =
  all_tasks :: "PreloadTask list"
  current :: "PreloadTask list"
  completedWeight :: real
  currentFraction :: real
  gate_status :: run_status
  abortRequested :: bool
  emitted :: "PreloadProgress list"

definition newPreloadGate :: "PreloadTask list \<Rightarrow> real \<Rightarrow> preload_error + preload_gate" where
  "newPreloadGate ts timeoutMs =
     (if timeoutMs \<le> 0 then Inl TimeoutNotPositive
      else bindE (checkTasks [] ts) (\<lambda>_. Inr \<lparr>all_tasks = ts, current = [], completedWeight = 0, currentFraction = 0,
        gate_status = NotStarted, abortRequested = False, emitted = []\<rparr>))"

definition emitProgress :: "PreloadTask option \<Rightarrow> real \<Rightarrow> bool \<Rightarrow> real \<Rightarrow> preload_gate \<Rightarrow> preload_gate" where
  "emitProgress task fraction complete1 absolute g = (let total = totalWeight (all_tasks g) in
     g\<lparr>emitted := emitted g @ [\<lparr>progress_stage = (case task of None \<Rightarrow> ''complete'' | Some t \<Rightarrow> task_stage t),
         progress_task = map_option task_name task, progress_complete = complete1,
         taskFraction = (if complete1 then 1 else clamp01 fraction),
         progress_completedWeight = (if total = 0 then 0 else absolute), progress_totalWeight = total,
         progress_value = (if total = 0 then 1 else clamp01 (absolute / total))\<rparr>]\<rparr>)"

text \<open>The head of the loop: the next task begins, or the run is complete.\<close>

definition beginTask :: "preload_gate \<Rightarrow> preload_gate" where
  "beginTask g = (case current g of
       [] \<Rightarrow> (emitProgress None 1 True (totalWeight (all_tasks g)) g)\<lparr>gate_status := Completed\<rparr>
     | t # ts \<Rightarrow> if abortRequested g then g\<lparr>gate_status := Ended PreloadAborted\<rparr>
         else emitProgress (Some t) 0 False (completedWeight g) (g\<lparr>currentFraction := 0\<rparr>))"

definition runGate :: "preload_gate \<Rightarrow> preload_error + preload_gate" where
  "runGate g =
     (if gate_status g = Running then Inl AlreadyRunning
      else let g = g\<lparr>gate_status := Running, current := all_tasks g, completedWeight := 0, currentFraction := 0,
             abortRequested := False, emitted := []\<rparr> in
        if all_tasks g = [] then Inr ((emitProgress None 1 True 0 g)\<lparr>gate_status := Completed\<rparr>) else Inr (beginTask g))"

text \<open>\<open>report\<close> of the task with that name; a task that has ended is not heard.\<close>

definition report :: "string \<Rightarrow> real option \<Rightarrow> preload_gate \<Rightarrow> preload_gate" where
  "report name fraction g = (case current g of [] \<Rightarrow> g
     | t # ts \<Rightarrow>
         if gate_status g \<noteq> Running \<or> task_name t \<noteq> name \<or> abortRequested g then g
         else (case fraction of None \<Rightarrow> g
           | Some f \<Rightarrow> let fr = min (max (currentFraction g) (clamp01 f)) MAX_RUNNING_TASK_FRACTION in
               emitProgress (Some t) fr False (completedWeight g + task_weight t * fr) (g\<lparr>currentFraction := fr\<rparr>)))"

definition taskResolves :: "preload_gate \<Rightarrow> preload_gate" where
  "taskResolves g = (case current g of [] \<Rightarrow> g
     | t # ts \<Rightarrow> if gate_status g \<noteq> Running then g
         else if abortRequested g then g\<lparr>gate_status := Ended PreloadAborted\<rparr>
         else let done1 = completedWeight g + task_weight t in
           beginTask (emitProgress (Some t) 1 False done1 (g\<lparr>currentFraction := 1, completedWeight := done1, current := ts\<rparr>)))"

text \<open>A task may itself reject with a timeout or an abort error, which passes through; any other error is wrapped.\<close>

definition taskRejects :: "preload_end option \<Rightarrow> preload_gate \<Rightarrow> preload_gate" where
  "taskRejects own g = (case current g of [] \<Rightarrow> g
     | t # ts \<Rightarrow> if gate_status g \<noteq> Running then g
         else g\<lparr>gate_status := Ended (case own of Some e \<Rightarrow> e
             | None \<Rightarrow> if abortRequested g then PreloadAborted else PreloadTaskFailed (task_name t)), abortRequested := True\<rparr>)"

definition taskTimesOut :: "preload_gate \<Rightarrow> preload_gate" where
  "taskTimesOut g = (case current g of [] \<Rightarrow> g
     | t # ts \<Rightarrow> if gate_status g \<noteq> Running then g
         else g\<lparr>gate_status := Ended (PreloadTimeout (task_name t)), abortRequested := True\<rparr>)"

text \<open>\<open>abort\<close> sets the signal; the race of the running task then rejects with its reason.\<close>

definition abortGate :: "preload_gate \<Rightarrow> preload_gate" where
  "abortGate g = (if gate_status g = Running then g\<lparr>abortRequested := True\<rparr> else g)"

definition abortSeen :: "preload_gate \<Rightarrow> preload_gate" where
  "abortSeen g = (if gate_status g = Running \<and> abortRequested g then g\<lparr>gate_status := Ended PreloadAborted\<rparr> else g)"

datatype preload_event = Reports string "real option" | Resolves | Rejects "preload_end option" | TimesOut | AbortCalled | AbortSeen

fun preload_step :: "preload_event \<Rightarrow> preload_gate \<Rightarrow> preload_gate" where
  "preload_step (Reports name f) g = report name f g"
| "preload_step Resolves g = taskResolves g"
| "preload_step (Rejects b) g = taskRejects b g"
| "preload_step TimesOut g = taskTimesOut g"
| "preload_step AbortCalled g = abortGate g"
| "preload_step AbortSeen g = abortSeen g"

section \<open>Progress\<close>

definition weights_ok :: "PreloadTask list \<Rightarrow> bool" where
  "weights_ok ts = (\<forall>t \<in> set ts. 0 < task_weight t)"

definition shown_values :: "preload_gate \<Rightarrow> real list" where
  "shown_values g = map progress_value (emitted g)"

fun partWeight :: "PreloadTask list \<Rightarrow> real \<Rightarrow> real" where
  "partWeight [] f = 0"
| "partWeight (t # ts) f = task_weight t * f"

definition shown :: "preload_gate \<Rightarrow> real" where
  "shown g = (completedWeight g + partWeight (current g) (currentFraction g)) / totalWeight (all_tasks g)"

text \<open>Values that never go back and stay below a bound.\<close>

definition below :: "real \<Rightarrow> real list \<Rightarrow> bool" where
  "below b xs = (sorted xs \<and> (\<forall>v \<in> set xs. 0 \<le> v \<and> v \<le> b))"

lemma below_snoc: "below b xs \<Longrightarrow> b \<le> c \<Longrightarrow> 0 \<le> c \<Longrightarrow> below c (xs @ [c])"
  by (fastforce simp: below_def sorted_append)

lemma below_Nil [simp]: "below b []"
  by (simp add: below_def)

text \<open>The tasks are those done and the current ones; what was shown never exceeds the weight done.\<close>

definition gate_inv :: "preload_gate \<Rightarrow> bool" where
  "gate_inv g = (weights_ok (all_tasks g) \<and> all_tasks g \<noteq> []
     \<and> (\<exists>before1. all_tasks g = before1 @ current g \<and> completedWeight g = totalWeight before1)
     \<and> 0 \<le> currentFraction g \<and> (current g \<noteq> [] \<longrightarrow> currentFraction g \<le> MAX_RUNNING_TASK_FRACTION)
     \<and> (current g = [] \<longleftrightarrow> gate_status g = Completed) \<and> below (shown g) (shown_values g)
     \<and> (gate_status g = Completed \<longrightarrow> 1 \<in> set (shown_values g)))"

lemma totalWeight_append [simp]: "totalWeight (xs @ ys) = totalWeight xs + totalWeight ys"
  by (simp add: totalWeight_def)

lemma totalWeight_Cons [simp]: "totalWeight (t # ts) = task_weight t + totalWeight ts" "totalWeight [] = 0"
  by (simp_all add: totalWeight_def)

lemma totalWeight_nonneg: "weights_ok ts \<Longrightarrow> 0 \<le> totalWeight ts"
  by (induction ts) (auto simp: weights_ok_def)

lemma totalWeight_pos: "weights_ok ts \<Longrightarrow> ts \<noteq> [] \<Longrightarrow> 0 < totalWeight ts"
  using totalWeight_nonneg [of "tl ts"] by (cases ts) (auto simp: weights_ok_def add_pos_nonneg)

lemma emit_simps [simp]:
  "all_tasks (emitProgress task f c a g) = all_tasks g" "current (emitProgress task f c a g) = current g"
  "completedWeight (emitProgress task f c a g) = completedWeight g" "currentFraction (emitProgress task f c a g) = currentFraction g"
  "gate_status (emitProgress task f c a g) = gate_status g" "abortRequested (emitProgress task f c a g) = abortRequested g"
  "shown (emitProgress task f c a g) = shown g"
  by (simp_all add: emitProgress_def Let_def shown_def split: list.split)

lemma values_emit:
  assumes "0 < totalWeight (all_tasks g)" and "0 \<le> a" and "a \<le> totalWeight (all_tasks g)"
  shows "shown_values (emitProgress task f c a g) = shown_values g @ [a / totalWeight (all_tasks g)]"
  using assms by (simp add: shown_values_def emitProgress_def Let_def clamp01_def min_def max_def)

lemma beginTask_inv:
  assumes w: "weights_ok (all_tasks g)" "all_tasks g \<noteq> []" and split1: "all_tasks g = before1 @ current g"
    and done1: "completedWeight g = totalWeight before1" and run: "gate_status g = Running" "\<not> abortRequested g"
    and fraction: "0 \<le> currentFraction g" and b: "below (completedWeight g / totalWeight (all_tasks g)) (shown_values g)"
  shows "gate_inv (beginTask g)"
proof (cases "current g")
  case Nil
  have pos: "0 < totalWeight (all_tasks g)" by (rule totalWeight_pos [OF w])
  have all: "completedWeight g = totalWeight (all_tasks g)" using split1 done1 Nil by simp
  let ?g = "emitProgress None 1 True (totalWeight (all_tasks g)) g"
  have v: "shown_values ?g = shown_values g @ [1]" using values_emit [OF pos, of "totalWeight (all_tasks g)"] pos by simp
  have "below 1 (shown_values g)" using b pos by (simp add: all)
  then have "below 1 (shown_values ?g)" unfolding v by (rule below_snoc) simp_all
  moreover have "shown g = 1" using pos all Nil by (simp add: shown_def)
  moreover have "beginTask g = ?g\<lparr>gate_status := Completed\<rparr>" using Nil by (simp add: beginTask_def)
  ultimately show ?thesis using w split1 done1 Nil fraction v by (simp add: gate_inv_def shown_values_def shown_def)
next
  case (Cons t ts)
  have pos: "0 < totalWeight (all_tasks g)" by (rule totalWeight_pos [OF w])
  have "weights_ok before1" "weights_ok (current g)" using w(1) split1 by (simp_all add: weights_ok_def)
  then have c: "0 \<le> completedWeight g" "completedWeight g \<le> totalWeight (all_tasks g)"
    using done1 split1 totalWeight_nonneg by simp_all
  let ?g = "emitProgress (Some t) 0 False (completedWeight g) (g\<lparr>currentFraction := 0\<rparr>)"
  have v: "shown_values ?g = shown_values g @ [completedWeight g / totalWeight (all_tasks g)]"
    using values_emit [of "g\<lparr>currentFraction := 0\<rparr>" "completedWeight g"] pos c by (simp add: shown_values_def)
  have "below (completedWeight g / totalWeight (all_tasks g)) (shown_values ?g)"
    unfolding v by (rule below_snoc [OF b order_refl]) (use c pos in simp)
  moreover have "shown ?g = completedWeight g / totalWeight (all_tasks g)" using Cons by (simp add: shown_def)
  moreover have "beginTask g = ?g" using Cons run(2) by (simp add: beginTask_def)
  ultimately show ?thesis using w split1 done1 run Cons by (simp add: gate_inv_def MAX_RUNNING_TASK_FRACTION_def)
qed

lemma gate_inv_weights:
  assumes "gate_inv g" and "current g = t # ts"
  shows "0 < task_weight t" and "0 \<le> completedWeight g" and "completedWeight g + task_weight t \<le> totalWeight (all_tasks g)"
    and "0 < totalWeight (all_tasks g)"
proof -
  from assms obtain before1 where b: "all_tasks g = before1 @ t # ts" "completedWeight g = totalWeight before1" "weights_ok (all_tasks g)"
    by (auto simp: gate_inv_def)
  then have w: "weights_ok before1" "weights_ok ts" and t: "0 < task_weight t" by (simp_all add: weights_ok_def)
  show "0 < task_weight t" by (rule t)
  show "0 \<le> completedWeight g" using b(2) totalWeight_nonneg [OF w(1)] by simp
  show "completedWeight g + task_weight t \<le> totalWeight (all_tasks g)" using b(1,2) totalWeight_nonneg [OF w(2)] by simp
  show "0 < totalWeight (all_tasks g)" using b(1) t totalWeight_nonneg [OF w(1)] totalWeight_nonneg [OF w(2)] by simp
qed

lemma report_inv:
  assumes "gate_inv g"
  shows "gate_inv (report name fraction g)"
proof (cases "report name fraction g = g")
  case False
  then obtain t ts f where t: "current g = t # ts" and f: "fraction = Some f" and run: "gate_status g = Running"
    by (auto simp: report_def split: list.splits if_splits option.splits)
  define fr where "fr = min (max (currentFraction g) (clamp01 f)) MAX_RUNNING_TASK_FRACTION"
  let ?a = "completedWeight g + task_weight t * fr"
  have r: "report name fraction g = emitProgress (Some t) fr False ?a (g\<lparr>currentFraction := fr\<rparr>)"
    using False t f by (auto simp: report_def Let_def fr_def split: if_splits)
  note w = gate_inv_weights [OF assms t]
  have old: "0 \<le> currentFraction g" "currentFraction g \<le> MAX_RUNNING_TASK_FRACTION" "below (shown g) (shown_values g)" using assms t by (simp_all add: gate_inv_def)
  have b: "0 \<le> fr" "fr \<le> MAX_RUNNING_TASK_FRACTION" "fr \<le> 1" using old by (auto simp: fr_def MAX_RUNNING_TASK_FRACTION_def)
  have a: "0 \<le> ?a" "?a \<le> totalWeight (all_tasks g)"
  proof -
    have "task_weight t * fr \<le> task_weight t * 1" using w(1) b by (intro mult_left_mono) simp_all
    moreover have "0 \<le> task_weight t * fr" using w(1) b by simp
    ultimately show "0 \<le> ?a" "?a \<le> totalWeight (all_tasks g)" using w by linarith+
  qed
  let ?g = "g\<lparr>currentFraction := fr\<rparr>"
  have v: "shown_values (emitProgress (Some t) fr False ?a ?g) = shown_values g @ [?a / totalWeight (all_tasks g)]"
    using values_emit [of ?g ?a] w(4) a by (simp add: shown_values_def)
  have "currentFraction g \<le> fr" using old(2) by (simp add: fr_def)
  then have "shown g \<le> ?a / totalWeight (all_tasks g)"
    using w t by (simp add: shown_def divide_right_mono mult_left_mono)
  then have "below (?a / totalWeight (all_tasks g)) (shown_values g @ [?a / totalWeight (all_tasks g)])"
    using a w(4) by (intro below_snoc [OF old(3)]) simp_all
  moreover have "shown (emitProgress (Some t) fr False ?a ?g) = ?a / totalWeight (all_tasks g)" using t by (simp add: shown_def)
  ultimately show ?thesis using assms t b run by (simp add: r gate_inv_def v)
qed (use assms in simp)

lemma resolves_inv:
  assumes "gate_inv g"
  shows "gate_inv (taskResolves g)"
proof (cases "gate_status g = Running \<and> \<not> abortRequested g \<and> current g \<noteq> []")
  case True
  then obtain t ts where t: "current g = t # ts" by (cases "current g") auto
  let ?w = "completedWeight g + task_weight t"
  let ?g = "g\<lparr>currentFraction := 1, completedWeight := ?w, current := ts\<rparr>"
  note w = gate_inv_weights [OF assms t]
  obtain before1 where before1: "all_tasks g = before1 @ t # ts" "completedWeight g = totalWeight before1"
    using assms t by (auto simp: gate_inv_def)
  have f: "0 \<le> currentFraction g" "currentFraction g \<le> 1" and b: "below (shown g) (shown_values g)"
    using assms t by (simp_all add: gate_inv_def MAX_RUNNING_TASK_FRACTION_def)
  have v: "shown_values (emitProgress (Some t) 1 False ?w ?g) = shown_values g @ [?w / totalWeight (all_tasks g)]"
    using values_emit [of ?g ?w] w by (simp add: shown_values_def)
  have "shown g \<le> ?w / totalWeight (all_tasks g)"
    using w f t mult_left_mono [of "currentFraction g" 1 "task_weight t"] by (simp add: shown_def divide_right_mono)
  then have "below (?w / totalWeight (all_tasks g)) (shown_values (emitProgress (Some t) 1 False ?w ?g))"
    unfolding v using w by (intro below_snoc [OF b]) simp_all
  then have "gate_inv (beginTask (emitProgress (Some t) 1 False ?w ?g))"
    using assms True before1 by (intro beginTask_inv [where ?before1.0 = "before1 @ [t]"]) (simp_all add: gate_inv_def)
  then show ?thesis using t True by (simp add: taskResolves_def Let_def)
next
  case False
  then have "taskResolves g = g \<or> current g \<noteq> [] \<and> taskResolves g = g\<lparr>gate_status := Ended PreloadAborted\<rparr>"
    by (auto simp: taskResolves_def split: list.split)
  then show ?thesis using assms by (auto simp: gate_inv_def shown_def shown_values_def)
qed

lemma ended_inv:
  assumes "gate_inv g" and "current g \<noteq> []"
  shows "gate_inv (g\<lparr>gate_status := Ended e, abortRequested := a\<rparr>)" and "gate_inv (g\<lparr>gate_status := Ended e\<rparr>)"
    and "gate_inv (g\<lparr>abortRequested := a\<rparr>)"
  using assms by (simp_all add: gate_inv_def shown_def shown_values_def)

lemma step_inv:
  assumes "gate_inv g"
  shows "gate_inv (preload_step e g)"
proof (cases e)
  case (Reports n f)
  then show ?thesis using report_inv [OF assms] by simp
next
  case Resolves
  then show ?thesis using resolves_inv [OF assms] by simp
next
  case (Rejects b)
  then show ?thesis using assms ended_inv [OF assms] by (auto simp: taskRejects_def split: list.split)
next
  case TimesOut
  then show ?thesis using assms ended_inv [OF assms] by (auto simp: taskTimesOut_def split: list.split)
next
  case AbortCalled
  have "current g \<noteq> []" if "gate_status g = Running" using that assms by (auto simp: gate_inv_def)
  with AbortCalled assms ended_inv(3) [OF assms] show ?thesis by (simp add: abortGate_def)
next
  case AbortSeen
  have "current g \<noteq> []" if "gate_status g = Running" using that assms by (auto simp: gate_inv_def)
  with AbortSeen assms ended_inv(2) [OF assms] show ?thesis by (simp add: abortSeen_def)
qed

lemma gate_run_inv: "gate_inv g \<Longrightarrow> gate_inv (fold preload_step es g)"
  by (induction es arbitrary: g) (simp_all add: step_inv)

lemma shown_one:
  assumes "gate_inv g" and "current g \<noteq> []"
  shows "shown g < 1"
proof -
  obtain t ts where t: "current g = t # ts" using assms(2) by (cases "current g") auto
  note w = gate_inv_weights [OF assms(1) t]
  have "currentFraction g < 1" using assms by (simp add: gate_inv_def MAX_RUNNING_TASK_FRACTION_def)
  then have "task_weight t * currentFraction g < task_weight t * 1" using w(1) by (intro mult_strict_left_mono)
  with w have "completedWeight g + task_weight t * currentFraction g < totalWeight (all_tasks g)" by linarith
  with w t show ?thesis by (simp add: shown_def)
qed

lemma checkTasks_weights: "checkTasks seen ts = Inr () \<Longrightarrow> weights_ok ts"
  by (induction seen ts rule: checkTasks.induct) (auto simp: weights_ok_def split: if_splits)

lemma runGate_inv:
  assumes "newPreloadGate ts ms = Inr g0" and "ts \<noteq> []" and "runGate g0 = Inr g"
  shows "gate_inv g"
proof -
  from assms(1) have g0: "all_tasks g0 = ts" "weights_ok ts" "gate_status g0 = NotStarted"
    by (auto simp: newPreloadGate_def bindE_def checkTasks_weights split: if_splits sum.splits)
  let ?g = "g0\<lparr>gate_status := Running, current := all_tasks g0, completedWeight := 0, currentFraction := 0,
    abortRequested := False, emitted := []\<rparr>"
  have "gate_inv (beginTask ?g)"
    using g0 assms(2) by (intro beginTask_inv [where ?before1.0 = "[]"]) (simp_all add: shown_values_def)
  with assms(2,3) g0 show ?thesis by (simp add: runGate_def)
qed

section \<open>The property\<close>


definition sampleTask :: "string \<Rightarrow> real \<Rightarrow> PreloadTask" where
  "sampleTask name w = \<lparr>task_name = name, task_stage = name, task_weight = w, task_timeout = None\<rparr>"


end
