(* ===== verification/Rules_Binding.thy ===== *)
theory Rules_Binding
  imports Protocol_Types Js_Values
begin

text \<open>
  Which help text a session may show (\<open>ui/presentationRules.ts\<close>): the fixed text of the game is
  shown only to a session whose engine and definition are the approved ones, and a session
  that changes its binding loses it for good. Only the complete English bundle is shipped; its
  layout and the writing into the page are left out.
\<close>

section \<open>The locale\<close>

definition PRIMAL_HELP_REQUIRED_LOCALE_KEYS :: "string list" where
  "PRIMAL_HELP_REQUIRED_LOCALE_KEYS = [
     ''IDS_WINUPTO_YOURBET'', ''IDS_PR_WILD'', ''IDS_PR_PT1'', ''IDS_PR_PT2'', ''IDS_PR_PT3'',
     ''IDS_PR_PT4'', ''IDS_PR_VAULTBONUS'', ''IDS_PR_PT5'', ''IDS_PR_PT6'', ''IDS_PR_PT7'',
     ''IDS_PR_RAGESYMBOL'', ''IDS_PR_PT8'', ''IDS_PR_PT9'', ''IDS_PR_PT10'', ''IDS_PR_PRIMALWHEEL'',
     ''IDS_PR_PT11'', ''IDS_PR_PT12'', ''IDS_PR_PT13'', ''IDS_PR_KONGQUEST'', ''IDS_PR_PT14'',
     ''IDS_PR_PT15'', ''IDS_PR_PT16'', ''IDS_PR_PT17'', ''IDS_PR_PT18'', ''IDS_PR_PT19'',
     ''IDS_PR_KINGSPIN'', ''IDS_PR_PT20'', ''IDS_PR_PT21'', ''IDS_PR_PT22'', ''IDS_PR_PT23'',
     ''IDS_PR_PT24'', ''IDS_PAYINGSYMBOLS_UC'', ''IDS_PR_PAYWAYS'', ''IDS_PR_WW_LR'']"

definition EN_GB_HELP_MESSAGES :: "(string \<times> string) list" where
  "EN_GB_HELP_MESSAGES = [
     (''IDS_WINUPTO_YOURBET'', ''Win up to 2500x your bet!''),
     (''IDS_PR_WILD'', ''WILD''),
     (''IDS_PR_PT1'', ''Wild can land on reel 2.''),
     (''IDS_PR_PT2'', ''It substitute for all symbols except Vault Bonus and Rage Symbols.''),
     (''IDS_PR_PT3'', ''Wild can have a Multiplier of X2, X3, X5, X10, X25, X50 or X100.''),
     (''IDS_PR_PT4'', ''Only win combinations with Multiplier Wild is affected by the win Multiplier.''),
     (''IDS_PR_VAULTBONUS'', ''VAULT BONUS''),
     (''IDS_PR_PT5'', ''Vault Bonus can land on reel 2.''),
     (''IDS_PR_PT6'', ''When Vault Bonus land, the Ape can smash the reels to unlock all the Vaults.''),
     (''IDS_PR_PT7'', ''Each Vault Bonus can award anywhere between GRAND, MEGA, MAJOR, MINOR, MINI, X9, X8, X7, X6, X5, X4, X3, X2 or X1''),
     (''IDS_PR_RAGESYMBOL'', ''RAGE SYMBOL''),
     (''IDS_PR_PT8'', ''Rage Symbols can land on any reel in the Base Game.''),
     (''IDS_PR_PT9'', ''Land 3 Rage Symbols to trigger the Primal Wheel!''),
     (''IDS_PR_PT10'', ''If 1 or 2 Rage Symbols have landed, the Ape collects it for a chance to trigger the Primal Wheel!''),
     (''IDS_PR_PRIMALWHEEL'', ''PRIMAL WHEEL''),
     (''IDS_PR_PT11'', ''Spin the wheel for a chance to win GRAND X1000, MEGA X250, MAJOR X75, MINOR X30 or MINI X10 Bonus, or to trigger KONG QUEST or KING SPIN.''),
     (''IDS_PR_PT12'', ''The GRAND, MEGA, MAJOR, MINOR and MINI Bonuses are instantly rewarded if won.''),
     (''IDS_PR_PT13'', ''If the wheel stops at KONG QUEST or KING SPIN, the game proceeds to a Free Spin feature.''),
     (''IDS_PR_KONGQUEST'', ''KONG QUEST''),
     (''IDS_PR_PT14'', ''Kong Quest can only trigger from the Primal Wheel!''),
     (''IDS_PR_PT15'', ''Starts with 8 initial Free Spins.''),
     (''IDS_PR_PT16'', ''Any spin during Kong Quest, the Ape stretches the reels, this makes the reel size different each spin.''),
     (''IDS_PR_PT17'', ''The reel sizes are random between 3x3, 3x4, 3x5, 3x6, 3x7, and up to 3x8.''),
     (''IDS_PR_PT18'', ''Vault Bonus contains the same reward as the Base Game but in Kong Quest, it can contain Free Spin.''),
     (''IDS_PR_PT19'', ''Unlock Vault Bonus with Free Spin to get 1 extra for each.''),
     (''IDS_PR_KINGSPIN'', ''KING SPIN''),
     (''IDS_PR_PT20'', ''King Spin can only trigger from the Primal Wheel!''),
     (''IDS_PR_PT21'', ''Starts with 8 Free Spins.''),
     (''IDS_PR_PT22'', ''All Vault Bonus are instantly unlocked!''),
     (''IDS_PR_PT23'', ''When Vault Bonus land, the Ape can smash the reels multiple times to upgrade all the Vaults up to GRAND.''),
     (''IDS_PR_PT24'', ''Vaults during King Spin can reward MEGA2X, MAJOR2X, MINOR2X, and MINI2X which rewards double value of MEGA, MAJOR, MINOR and MINI.''),
     (''IDS_PAYINGSYMBOLS_UC'', ''PAYING SYMBOLS''),
     (''IDS_PR_PAYWAYS'', ''WAY WINS''),
     (''IDS_PR_WW_LR'', ''Way Wins are awarded for 3 adjacent symbol combinations from left to right except Vault Bonus and Rage Symbols.'')]"

record PrimalHelpFontRoute =
  titleFamily :: string
  bodyFamily :: string
  requiredFamilies :: "string list"

record PrimalHelpLocaleBundle =
  bundle_locale :: string
  bundle_messages :: "(string \<times> string) list"
  fontRoute :: PrimalHelpFontRoute

definition PRIMAL_HELP_PACKAGED_FONT_FAMILIES :: "string list" where
  "PRIMAL_HELP_PACKAGED_FONT_FAMILIES = [''KANIT_BOLD'', ''ROBOTO_CONDENSED_BOLD'', ''ROBOTO_CONDENSED_REGULAR'']"

definition EN_GB_HELP_BUNDLE :: PrimalHelpLocaleBundle where
  "EN_GB_HELP_BUNDLE = \<lparr>bundle_locale = ''en_GB'', bundle_messages = EN_GB_HELP_MESSAGES,
     fontRoute = \<lparr>titleFamily = ''KANIT_BOLD'', bodyFamily = ''ROBOTO_CONDENSED_REGULAR'',
       requiredFamilies = PRIMAL_HELP_PACKAGED_FONT_FAMILIES\<rparr>\<rparr>"

definition PRIMAL_HELP_LOCALE_BUNDLES :: "(string \<times> PrimalHelpLocaleBundle) list" where
  "PRIMAL_HELP_LOCALE_BUNDLES = [(''en_GB'', EN_GB_HELP_BUNDLE)]"

definition validatePrimalHelpLocaleBundle :: "PrimalHelpLocaleBundle \<Rightarrow> string list \<Rightarrow> string list" where
  "validatePrimalHelpLocaleBundle bundle available =
     [''missing-message:'' @ k. k \<leftarrow> PRIMAL_HELP_REQUIRED_LOCALE_KEYS,
        case map_of (bundle_messages bundle) k of None \<Rightarrow> True | Some m \<Rightarrow> trim m = []]
     @ [''missing-font:'' @ f. f \<leftarrow> requiredFamilies (fontRoute bundle), f \<notin> set available]
     @ (if titleFamily (fontRoute bundle) \<in> set (requiredFamilies (fontRoute bundle)) then []
        else [''unrouted-title-font:'' @ titleFamily (fontRoute bundle)])
     @ (if bodyFamily (fontRoute bundle) \<in> set (requiredFamilies (fontRoute bundle)) then []
        else [''unrouted-body-font:'' @ bodyFamily (fontRoute bundle)])"

definition PRIMAL_HELP_ADVERTISED_LOCALES :: "string list" where
  "PRIMAL_HELP_ADVERTISED_LOCALES = map (bundle_locale \<circ> snd)
     (filter (\<lambda>(l, b). validatePrimalHelpLocaleBundle b PRIMAL_HELP_PACKAGED_FONT_FAMILIES = []) PRIMAL_HELP_LOCALE_BUNDLES)"

definition is_letter :: "char \<Rightarrow> bool" where
  "is_letter c = (is_upper c \<or> is_lower c)"

definition upperLetters :: "string \<Rightarrow> string" where
  "upperLetters s = map (\<lambda>c. if is_lower c then char_of (code c - 32) else c) s"

text \<open>\<open>/^([A-Za-z]{2,3})(?:[-_]([A-Za-z]{2}|[0-9]{3}))?$/\<close>: the language and the region.\<close>

definition localeParts :: "string \<Rightarrow> (string \<times> string option) option" where
  "localeParts s = (let language = takeWhile is_letter s; rest = dropWhile is_letter s in
     if length language \<noteq> 2 \<and> length language \<noteq> 3 then None
     else case rest of [] \<Rightarrow> Some (language, None)
       | c # region \<Rightarrow>
           if (c = CHR ''-'' \<or> c = CHR ''_'')
              \<and> (length region = 2 \<and> list_all is_letter region \<or> length region = 3 \<and> list_all is_digit region)
           then Some (language, Some region) else None)"

definition normalizePrimalHelpLocale :: "string \<Rightarrow> string" where
  "normalizePrimalHelpLocale locale1 = (case localeParts (trim locale1) of
       None \<Rightarrow> ''en_GB''
     | Some (language, None) \<Rightarrow> if toLowerCase language = ''en'' then ''en_GB'' else toLowerCase language
     | Some (language, Some region) \<Rightarrow>
         toLowerCase language @ ''_'' @ (if length region = 3 \<and> list_all is_digit region then region else upperLetters region))"

record PrimalHelpLocaleResolution =
  requestedLocale :: string
  resolved_locale :: string
  fallback :: bool
  resolved_bundle :: PrimalHelpLocaleBundle

text \<open>The failures are the error thrown.\<close>

definition resolvePrimalHelpLocale :: "string \<Rightarrow> string list \<Rightarrow> string list + PrimalHelpLocaleResolution" where
  "resolvePrimalHelpLocale requested available =
     (let normalized = normalizePrimalHelpLocale requested;
          bundle = (if normalized \<in> set PRIMAL_HELP_ADVERTISED_LOCALES
            then (case map_of PRIMAL_HELP_LOCALE_BUNDLES normalized of None \<Rightarrow> EN_GB_HELP_BUNDLE | Some b \<Rightarrow> b)
            else EN_GB_HELP_BUNDLE);
          failures = validatePrimalHelpLocaleBundle bundle available in
      if failures \<noteq> [] then Inl failures
      else Inr \<lparr>requestedLocale = normalized, resolved_locale = bundle_locale bundle,
        fallback = (normalized \<noteq> bundle_locale bundle), resolved_bundle = bundle\<rparr>)"

section \<open>The binding\<close>

record GameDefinitionBinding =
  gameId :: string
  definitionVersion :: string
  definitionHash :: string

definition PRIMAL_PRESENTATION_DEFINITION_BINDINGS :: "GameDefinitionBinding list" where
  "PRIMAL_PRESENTATION_DEFINITION_BINDINGS = [\<lparr>gameId = ''iron-colossus'', definitionVersion = ''local-production-2026-08-26.3'',
     definitionHash = ''9e9b9b5f23f0f2cfed0a4a5ff5961dbc76a91ba9e614f3cfadb47824a46d2205''\<rparr>]"

text \<open>What an opened session says about its rules.\<close>

record rules_session =
  rules_sessionId :: string
  rules_engineVersion :: "string option"
  rules_definition :: "GameDefinitionBinding option"

datatype PresentationRulesBindingStatus = rules_bound | missing_binding | unsupported_binding | binding_drift

record PresentationRulesSessionRecord =
  record_sessionId :: string
  record_engineVersion :: "string option"
  record_definition :: "GameDefinitionBinding option"
  record_requestedLocale :: string
  record_locale :: string

record PresentationRulesBindingResult =
  binding_status :: PresentationRulesBindingStatus
  binding_record :: PresentationRulesSessionRecord

definition observedSessionRecord :: "rules_session \<Rightarrow> PrimalHelpLocaleResolution \<Rightarrow> PresentationRulesSessionRecord" where
  "observedSessionRecord session locale1 =
     \<lparr>record_sessionId = rules_sessionId session, record_engineVersion = rules_engineVersion session,
      record_definition = (case rules_definition session of None \<Rightarrow> None
        | Some b \<Rightarrow> if DIGEST_PATTERN (definitionHash b) then Some b else None),
      record_requestedLocale = requestedLocale locale1, record_locale = resolved_locale locale1\<rparr>"

definition isApprovedDefinitionBinding :: "GameDefinitionBinding \<Rightarrow> bool" where
  "isApprovedDefinitionBinding b = list_ex (\<lambda>approved. approved = b) PRIMAL_PRESENTATION_DEFINITION_BINDINGS"

text \<open>The comparison of two records compares all their fields.\<close>

definition bindObserved :: "PresentationRulesBindingResult option \<Rightarrow> PresentationRulesSessionRecord \<Rightarrow> PresentationRulesBindingResult" where
  "bindObserved previous observed =
     (let fresh = \<lparr>binding_status =
          (if record_engineVersion observed = None \<or> record_definition observed = None then missing_binding
           else if record_engineVersion observed \<noteq> Some ENGINE_RULES_VERSION
              \<or> \<not> isApprovedDefinitionBinding (the (record_definition observed)) then unsupported_binding
           else rules_bound), binding_record = observed\<rparr> in
      case previous of None \<Rightarrow> fresh
      | Some p \<Rightarrow>
          if record_sessionId (binding_record p) \<noteq> record_sessionId observed then fresh
          else if binding_status p = binding_drift then p
          else if binding_record p \<noteq> observed then \<lparr>binding_status = binding_drift, binding_record = binding_record p\<rparr>
          else fresh)"

definition bindPrimalPresentationRules ::
  "PresentationRulesBindingResult option \<Rightarrow> rules_session \<Rightarrow> string \<Rightarrow> string list + PresentationRulesBindingResult" where
  "bindPrimalPresentationRules previous session requested =
     (case resolvePrimalHelpLocale requested PRIMAL_HELP_PACKAGED_FONT_FAMILIES of Inl failures \<Rightarrow> Inl failures
      | Inr locale1 \<Rightarrow> Inr (bindObserved previous (observedSessionRecord session locale1)))"

text \<open>The overlay binds the sessions as they arrive and keeps the last result.\<close>

fun bindSessions :: "PresentationRulesBindingResult option \<Rightarrow> (rules_session \<times> string) list \<Rightarrow> PresentationRulesBindingResult option" where
  "bindSessions p [] = p"
| "bindSessions p ((s, l) # xs) = (case bindPrimalPresentationRules p s l of Inl e \<Rightarrow> bindSessions p xs | Inr r \<Rightarrow> bindSessions (Some r) xs)"

section \<open>What is shown\<close>

lemma en_GB_complete: "validatePrimalHelpLocaleBundle EN_GB_HELP_BUNDLE PRIMAL_HELP_PACKAGED_FONT_FAMILIES = []"
  by code_simp

lemma advertised: "PRIMAL_HELP_ADVERTISED_LOCALES = [''en_GB'']"
  by (simp add: PRIMAL_HELP_ADVERTISED_LOCALES_def PRIMAL_HELP_LOCALE_BUNDLES_def en_GB_complete) (simp add: EN_GB_HELP_BUNDLE_def)

lemma resolve_packaged:
  "resolvePrimalHelpLocale l PRIMAL_HELP_PACKAGED_FONT_FAMILIES = Inr \<lparr>requestedLocale = normalizePrimalHelpLocale l, resolved_locale = ''en_GB'',
     fallback = (normalizePrimalHelpLocale l \<noteq> ''en_GB''), resolved_bundle = EN_GB_HELP_BUNDLE\<rparr>"
proof -
  have "bundle_locale EN_GB_HELP_BUNDLE = ''en_GB''" by (simp add: EN_GB_HELP_BUNDLE_def)
  then show ?thesis
    by (simp add: resolvePrimalHelpLocale_def Let_def advertised PRIMAL_HELP_LOCALE_BUNDLES_def en_GB_complete)
qed

definition shippedRecord :: "rules_session \<times> string \<Rightarrow> PresentationRulesSessionRecord" where
  "shippedRecord = (\<lambda>(s, l). observedSessionRecord s \<lparr>requestedLocale = normalizePrimalHelpLocale l, resolved_locale = ''en_GB'',
     fallback = (normalizePrimalHelpLocale l \<noteq> ''en_GB''), resolved_bundle = EN_GB_HELP_BUNDLE\<rparr>)"

lemma bind_shipped: "bindPrimalPresentationRules p s l = Inr (bindObserved p (shippedRecord (s, l)))"
  by (simp add: bindPrimalPresentationRules_def resolve_packaged shippedRecord_def)

lemma bindSessions_snoc: "bindSessions p (xs @ [x]) = Some (bindObserved (bindSessions p xs) (shippedRecord x))"
  by (induction p xs rule: bindSessions.induct) (auto simp: bind_shipped, cases x, simp add: bind_shipped)

text \<open>The observations since the session of the last one began.\<close>

definition since :: "(rules_session \<times> string) list \<Rightarrow> (rules_session \<times> string) list" where
  "since xs = rev (takeWhile (\<lambda>y. rules_sessionId (fst y) = rules_sessionId (fst (last xs))) (rev xs))"

definition binding_ok :: "(rules_session \<times> string) list \<Rightarrow> PresentationRulesBindingResult \<Rightarrow> bool" where
  "binding_ok xs r = (record_sessionId (binding_record r) = rules_sessionId (fst (last xs))
     \<and> binding_record r = shippedRecord (hd (since xs))
     \<and> (binding_status r \<noteq> binding_drift \<longleftrightarrow> (\<forall>y \<in> set (since xs). shippedRecord y = binding_record r))
     \<and> (binding_status r = rules_bound \<longrightarrow> record_engineVersion (binding_record r) = Some ENGINE_RULES_VERSION
          \<and> (\<exists>b. record_definition (binding_record r) = Some b \<and> b \<in> set PRIMAL_PRESENTATION_DEFINITION_BINDINGS)))"

lemma since_snoc:
  "since (xs @ [x]) = (if xs \<noteq> [] \<and> rules_sessionId (fst (last xs)) = rules_sessionId (fst x) then since xs @ [x] else [x])"
proof (cases xs rule: rev_cases)
  case (snoc ys y)
  then show ?thesis by (auto simp: since_def)
qed (simp add: since_def)

lemma since_nonempty: "xs \<noteq> [] \<Longrightarrow> since xs \<noteq> []"
  by (cases xs rule: rev_cases) (auto simp: since_def)

lemma record_session [simp]: "record_sessionId (shippedRecord x) = rules_sessionId (fst x)"
  by (simp add: shippedRecord_def observedSessionRecord_def case_prod_beta)

lemma fresh_bound:
  assumes "binding_status (bindObserved None r) = rules_bound"
  shows "record_engineVersion r = Some ENGINE_RULES_VERSION \<and> (\<exists>b. record_definition r = Some b \<and> b \<in> set PRIMAL_PRESENTATION_DEFINITION_BINDINGS)"
  using assms by (auto simp: bindObserved_def Let_def isApprovedDefinitionBinding_def list_ex_iff split: if_splits)

lemma fresh_simps [simp]: "binding_record (bindObserved None r) = r" "binding_status (bindObserved None r) \<noteq> binding_drift"
  by (simp_all add: bindObserved_def Let_def)

lemma bindObserved_Some:
  "bindObserved (Some p) r = (if record_sessionId (binding_record p) \<noteq> record_sessionId r then bindObserved None r
     else if binding_status p = binding_drift then p
     else if binding_record p \<noteq> r then \<lparr>binding_status = binding_drift, binding_record = binding_record p\<rparr>
     else bindObserved None r)"
  by (simp add: bindObserved_def Let_def)

lemma binding_ok_run: "xs \<noteq> [] \<Longrightarrow> \<exists>r. bindSessions None xs = Some r \<and> binding_ok xs r"
proof (induction xs rule: rev_induct)
  case (snoc x xs)
  show ?case
  proof (cases "xs = []")
    case True
    then show ?thesis using fresh_bound [of "shippedRecord x"]
      by (cases x) (auto simp: binding_ok_def since_def bind_shipped)
  next
    case False
    with snoc.IH obtain p where p: "bindSessions None xs = Some p" "binding_ok xs p" by blast
    note p2 = p(2) [unfolded binding_ok_def]
    have "binding_ok (xs @ [x]) (bindObserved (Some p) (shippedRecord x))"
    proof (cases "rules_sessionId (fst (last xs)) = rules_sessionId (fst x)")
      case True
      then have s: "since (xs @ [x]) = since xs @ [x]" using False by (simp add: since_snoc)
      have h: "hd (since xs @ [x]) = hd (since xs)" using since_nonempty [OF False] by simp
      have id1: "record_sessionId (binding_record p) = rules_sessionId (fst (last xs))" using p2 by (rule conjunct1)
      have id: "record_sessionId (binding_record p) = record_sessionId (shippedRecord x)" by (simp only: id1 True record_session)
      have first1: "shippedRecord (hd (since xs)) = binding_record p" using p2 by simp
      have all1: "binding_status p \<noteq> binding_drift \<longleftrightarrow> (\<forall>y \<in> set (since xs). shippedRecord y = binding_record p)" using p2 by simp
      consider (drift) "binding_status p = binding_drift" | (differs) "binding_status p \<noteq> binding_drift" "binding_record p \<noteq> shippedRecord x"
        | (same) "binding_status p \<noteq> binding_drift" "binding_record p = shippedRecord x" by blast
      then show ?thesis
      proof cases
        case drift
        then have "bindObserved (Some p) (shippedRecord x) = p" using id by (simp add: bindObserved_Some)
        with drift all1 first1 id show ?thesis unfolding binding_ok_def s h by simp
      next
        case differs
        then have "bindObserved (Some p) (shippedRecord x) = \<lparr>binding_status = binding_drift, binding_record = binding_record p\<rparr>"
          using id by (simp add: bindObserved_Some)
        with differs first1 id show ?thesis unfolding binding_ok_def s h by auto
      next
        case same
        then have "bindObserved (Some p) (shippedRecord x) = bindObserved None (shippedRecord x)" using id by (simp add: bindObserved_Some)
        with same all1 first1 fresh_bound [of "shippedRecord x"] show ?thesis unfolding binding_ok_def s h by simp
      qed
    next
      case False
      then have s: "since (xs @ [x]) = [x]" by (simp add: since_snoc)
      show ?thesis using p2 False fresh_bound [of "shippedRecord x"] unfolding binding_ok_def s bindObserved_Some by auto
    qed
    with p(1) show ?thesis by (simp add: bindSessions_snoc)
  qed
qed simp

text \<open>
  C29: The help text is shown to approved sessions only. After any sequence of sessions the result is bound only if every observation
  since the session began was the same, with the engine of the client, a definition on the approved
  list and one locale; the first difference within a session closes the text until another session opens.
\<close>

theorem rules_shown_to_approved_sessions:
  assumes "xs \<noteq> []"
  shows "\<exists>r. bindSessions None xs = Some r
    \<and> binding_record r = shippedRecord (hd (since xs))
    \<and> (binding_status r = binding_drift \<longleftrightarrow> \<not> list_all (\<lambda>y. shippedRecord y = shippedRecord (hd (since xs))) (since xs))
    \<and> (binding_status r = rules_bound \<longrightarrow>
         rules_engineVersion (fst (last xs)) = Some ENGINE_RULES_VERSION
         \<and> (\<exists>b. rules_definition (fst (last xs)) = Some b \<and> b \<in> set PRIMAL_PRESENTATION_DEFINITION_BINDINGS)
         \<and> rules_sessionId (fst (last xs)) = record_sessionId (binding_record r)
         \<and> normalizePrimalHelpLocale (snd (last xs)) = record_requestedLocale (binding_record r))"
proof -
  obtain r where r: "bindSessions None xs = Some r" and ok: "binding_ok xs r" using binding_ok_run [OF assms] by blast
  note ok = ok [unfolded binding_ok_def]
  have last1: "last xs \<in> set (since xs)" using assms by (cases xs rule: rev_cases) (auto simp: since_def)
  have "shippedRecord (last xs) = binding_record r" if "binding_status r = rules_bound" using ok last1 that by auto
  then have "rules_engineVersion (fst (last xs)) = Some ENGINE_RULES_VERSION
      \<and> (\<exists>b. rules_definition (fst (last xs)) = Some b \<and> b \<in> set PRIMAL_PRESENTATION_DEFINITION_BINDINGS)
      \<and> normalizePrimalHelpLocale (snd (last xs)) = record_requestedLocale (binding_record r)" if "binding_status r = rules_bound"
    using ok that by (auto simp: shippedRecord_def observedSessionRecord_def case_prod_beta split: option.splits if_splits)
  with r ok show ?thesis by (auto simp: list_all_iff)
qed

definition sampleApproved :: rules_session where
  "sampleApproved = \<lparr>rules_sessionId = ''s1'', rules_engineVersion = Some ENGINE_RULES_VERSION,
     rules_definition = Some (hd PRIMAL_PRESENTATION_DEFINITION_BINDINGS)\<rparr>"

theorem rules_shown_to_approved_sessions_witness:
  "\<exists>r. bindSessions None [(sampleApproved, ''en''), (sampleApproved\<lparr>rules_engineVersion := None\<rparr>, ''en''), (sampleApproved, ''en'')] = Some r
    \<and> binding_status r = binding_drift"
proof -
  have "shippedRecord (sampleApproved\<lparr>rules_engineVersion := None\<rparr>, ''en'') \<noteq> shippedRecord (sampleApproved, ''en'')"
    by (simp add: shippedRecord_def observedSessionRecord_def sampleApproved_def)
  with rules_shown_to_approved_sessions [of "[(sampleApproved, ''en''), (sampleApproved\<lparr>rules_engineVersion := None\<rparr>, ''en''), (sampleApproved, ''en'')]"]
  show ?thesis by (auto simp: since_def sampleApproved_def)
qed

end
