(* ===== verification/Gateway_Config.thy ===== *)
theory Gateway_Config
  imports Recovery_Ledger Operator_Bridge
begin

text \<open>
  How the gateway is configured (\<open>protocol/configuredGateway.ts\<close>): the one-time credentials in
  the fragment of the page address are removed before anything can fail, and a gateway is built only from
  a complete configuration and a storage that was seen to work. The address is read and written by
  the browser: \<open>parsePage\<close> gives what stands before the fragment and the parameters of the fragment,
  \<open>writePage\<close> is its inverse. The result is what the constructor of the gateway is given.
\<close>

section \<open>The storage\<close>

text \<open>A call on the storage may throw (\<open>Inl\<close>); it leaves a state of the storage behind in any case.\<close>

record 's storage_api =
  api_getItem :: "string \<Rightarrow> 's \<Rightarrow> (unit + string option) \<times> 's"
  api_setItem :: "string \<Rightarrow> string \<Rightarrow> 's \<Rightarrow> (unit + unit) \<times> 's"
  api_removeItem :: "string \<Rightarrow> 's \<Rightarrow> (unit + unit) \<times> 's"

definition RGS_STORAGE_PROBE_KEY :: string where
  "RGS_STORAGE_PROBE_KEY = ''slots-game:rgs-ledger-storage-probe:v1''"

definition RGS_STORAGE_PROBE_VALUE :: string where
  "RGS_STORAGE_PROBE_VALUE = ''writable-v1''"

definition restoreProbe :: "'s storage_api \<Rightarrow> string option \<Rightarrow> 's \<Rightarrow> (unit + unit) \<times> 's" where
  "restoreProbe api previous st = (case previous of
       None \<Rightarrow> api_removeItem api RGS_STORAGE_PROBE_KEY st
     | Some v \<Rightarrow> api_setItem api RGS_STORAGE_PROBE_KEY v st)"

text \<open>The outcomes say whether the storage is accepted; otherwise the configuration error is thrown. The clean-up swallows its errors.\<close>

definition probeFailed :: "'s storage_api \<Rightarrow> string option \<Rightarrow> 's \<Rightarrow> bool \<times> 's" where
  "probeFailed api previous st = (False, snd (restoreProbe api previous st))"

definition probeCleanup :: "'s storage_api \<Rightarrow> string option \<Rightarrow> 's \<Rightarrow> bool \<times> 's" where
  "probeCleanup api previous st = (case restoreProbe api previous st of (Inl _, st) \<Rightarrow> probeFailed api previous st
     | (Inr _, st) \<Rightarrow> (case api_getItem api RGS_STORAGE_PROBE_KEY st of (Inl _, st) \<Rightarrow> (False, st)
       | (Inr seen, st) \<Rightarrow> (seen = previous, st)))"

definition probeWrite :: "'s storage_api \<Rightarrow> string option \<Rightarrow> 's \<Rightarrow> bool \<times> 's" where
  "probeWrite api previous st =
     (let probeValue = (if previous = Some RGS_STORAGE_PROBE_VALUE then RGS_STORAGE_PROBE_VALUE @ ''-alternate''
            else RGS_STORAGE_PROBE_VALUE) in
      case api_setItem api RGS_STORAGE_PROBE_KEY probeValue st of (Inl _, st) \<Rightarrow> probeFailed api previous st
      | (Inr _, st) \<Rightarrow> (case api_getItem api RGS_STORAGE_PROBE_KEY st of (Inl _, st) \<Rightarrow> probeFailed api previous st
        | (Inr seen, st) \<Rightarrow> if seen = Some probeValue then probeCleanup api previous st else probeFailed api previous st))"

definition assertWritableRecoveryStorage :: "'s storage_api \<Rightarrow> 's \<Rightarrow> bool \<times> 's" where
  "assertWritableRecoveryStorage api st = (case api_getItem api RGS_STORAGE_PROBE_KEY st of (Inl _, st) \<Rightarrow> (False, st)
     | (Inr previous, st) \<Rightarrow> probeWrite api previous st)"

section \<open>The configuration\<close>

definition RGS_FRAGMENT_KEYS :: "string list" where
  "RGS_FRAGMENT_KEYS = [''rgsLaunchCode'', ''rgsOperatorId'', ''rgsSessionId'']"

record GatewayEnvironment =
  VITE_RGS_BASE_URL :: "string option"
  VITE_RGS_BET_OPTIONS_MINOR :: "string option"
  VITE_RGS_DEFAULT_BET_MINOR :: "string option"
  VITE_RGS_HOST_ORIGIN :: "string option"

record gateway_setup =
  setup_baseUrl :: string
  setup_launchCode :: string
  setup_operatorId :: string
  setup_sessionId :: string
  setup_betOptionsMinor :: "string list"
  setup_defaultBetMinor :: string
  setup_operatorHostOrigin :: "string option"

datatype configured_error = PageUrlInvalid | DuplicateFragment string | IncompleteConfiguration | BetListInvalid
  | HostOriginInvalid | FramedWithoutHost | StorageUnavailable

type_synonym parameters = "(string \<times> string) list"

definition getAll :: "string \<Rightarrow> parameters \<Rightarrow> string list" where
  "getAll key ps = map snd (filter (\<lambda>p. fst p = key) ps)"

definition fragmentValues :: "parameters \<Rightarrow> configured_error + (string \<times> string option) list" where
  "fragmentValues ps = mapE (\<lambda>key. case getAll key ps of [] \<Rightarrow> Inr (key, None) | [v] \<Rightarrow> Inr (key, Some v)
     | _ \<Rightarrow> Inl (DuplicateFragment key)) RGS_FRAGMENT_KEYS"

definition scrubbed :: "parameters \<Rightarrow> parameters" where
  "scrubbed ps = filter (\<lambda>p. fst p \<notin> set RGS_FRAGMENT_KEYS) ps"

fun splitCommas :: "string \<Rightarrow> string list" where
  "splitCommas [] = [[]]"
| "splitCommas (c # cs) = (case splitCommas cs of
     [] \<Rightarrow> [[c]]
   | w # ws \<Rightarrow> if c = CHR '','' then [] # w # ws else (c # w) # ws)"

definition betOptions :: "string \<Rightarrow> configured_error + string list" where
  "betOptions v = (let options = splitCommas v in
     if options = [] \<or> list_ex (\<lambda>option1. option1 = [] \<or> trim option1 \<noteq> option1) options then Inl BetListInvalid
     else Inr options)"

definition blank :: "string option \<Rightarrow> bool" where
  "blank v = (v = None \<or> v = Some [])"

definition fragmentGet :: "(string \<times> string option) list \<Rightarrow> string \<Rightarrow> string option" where
  "fragmentGet fragments key = (case map_of fragments key of None \<Rightarrow> None | Some v \<Rightarrow> v)"

definition configuredSetup ::
  "(string \<Rightarrow> url_view option) \<Rightarrow> GatewayEnvironment \<Rightarrow> bool \<Rightarrow> (string \<times> string option) list \<Rightarrow> configured_error + gateway_setup" where
  "configuredSetup parseUrl env framed fragments =
     (let launchCode = fragmentGet fragments ''rgsLaunchCode''; operatorId = fragmentGet fragments ''rgsOperatorId'';
          sessionId = fragmentGet fragments ''rgsSessionId'';
          baseUrl = VITE_RGS_BASE_URL env; configuredBets = VITE_RGS_BET_OPTIONS_MINOR env;
          defaultBet = VITE_RGS_DEFAULT_BET_MINOR env in
      if list_ex blank [launchCode, operatorId, sessionId, baseUrl, configuredBets, defaultBet] then Inl IncompleteConfiguration
      else bindE (betOptions (the configuredBets)) (\<lambda>bets.
        case parseExactHttpsHostOrigin parseUrl (VITE_RGS_HOST_ORIGIN env) of Inl _ \<Rightarrow> Inl HostOriginInvalid
        | Inr host \<Rightarrow>
            if framed \<and> blank host then Inl FramedWithoutHost
            else Inr \<lparr>setup_baseUrl = the baseUrl, setup_launchCode = the launchCode, setup_operatorId = the operatorId,
              setup_sessionId = the sessionId, setup_betOptionsMinor = bets, setup_defaultBetMinor = the defaultBet,
              setup_operatorHostOrigin = (if blank host then None else host)\<rparr>))"

text \<open>
  The addresses written to the history, the outcome, and what is left of the storage. \<open>storage\<close> is the
  session storage of the page; the dependencies may bring a storage for the ledger of their own.
\<close>

definition createConfiguredGameGateway ::
  "(string \<Rightarrow> url_view option) \<Rightarrow> (string \<Rightarrow> (string \<times> parameters) option) \<Rightarrow> (string \<Rightarrow> parameters \<Rightarrow> string)
     \<Rightarrow> GatewayEnvironment \<Rightarrow> string \<Rightarrow> bool \<Rightarrow> bool \<Rightarrow> 's storage_api option \<Rightarrow> 's
     \<Rightarrow> string list \<times> (configured_error + gateway_setup) \<times> 's" where
  "createConfiguredGameGateway parseUrl parsePage writePage env pageUrl framed ownLedgerStorage storage st =
     (case parsePage pageUrl of None \<Rightarrow> ([], Inl PageUrlInvalid, st)
      | Some (page, ps) \<Rightarrow>
          ([writePage page (scrubbed ps)],
           case bindE (fragmentValues ps) (configuredSetup parseUrl env framed) of Inl e \<Rightarrow> (Inl e, st)
           | Inr setup1 \<Rightarrow>
               if ownLedgerStorage then (Inr setup1, st)
               else (case storage of None \<Rightarrow> (Inl StorageUnavailable, st)
                 | Some api \<Rightarrow> (case assertWritableRecoveryStorage api st of
                     (True, st) \<Rightarrow> (Inr setup1, st)
                   | (False, st) \<Rightarrow> (Inl StorageUnavailable, st)))))"

definition optionalWindowSessionStorage :: "unit + 's storage_api \<Rightarrow> 's storage_api option" where
  "optionalWindowSessionStorage sessionStorage = (case sessionStorage of Inl _ \<Rightarrow> None | Inr api \<Rightarrow> Some api)"

section \<open>The probe\<close>

definition withoutProbe :: "web_storage \<Rightarrow> web_storage" where
  "withoutProbe m = m(RGS_STORAGE_PROBE_KEY := None)"

text \<open>A storage of items, whichever of its calls throw.\<close>

locale item_storage =
  fixes api :: "'s storage_api" and stored_items :: "'s \<Rightarrow> web_storage"
  assumes get_reads: "api_getItem api k st = (r, st') \<Longrightarrow> stored_items st' = stored_items st \<and> (\<forall>v. r = Inr v \<longrightarrow> v = stored_items st k)"
    and set_writes: "api_setItem api k v st = (u, st')
      \<Longrightarrow> stored_items st' = (case u of Inl _ \<Rightarrow> stored_items st | Inr _ \<Rightarrow> (stored_items st)(k \<mapsto> v))"
    and remove_removes: "api_removeItem api k st = (u, st')
      \<Longrightarrow> stored_items st' = (case u of Inl _ \<Rightarrow> stored_items st | Inr _ \<Rightarrow> (stored_items st)(k := None))"
begin

lemma restore_items:
  assumes "restoreProbe api previous st = (u, st')"
  shows "stored_items st' = (case u of Inl _ \<Rightarrow> stored_items st | Inr _ \<Rightarrow> (stored_items st)(RGS_STORAGE_PROBE_KEY := previous))"
  using assms by (auto simp: restoreProbe_def dest: set_writes remove_removes split: option.splits)

text \<open>Whatever throws, the other items are left alone.\<close>

lemma get_others: "api_getItem api k st = (r, st') \<Longrightarrow> withoutProbe (stored_items st') = withoutProbe (stored_items st)"
  by (simp add: withoutProbe_def get_reads)

lemma set_others: "api_setItem api RGS_STORAGE_PROBE_KEY v st = (u, st') \<Longrightarrow> withoutProbe (stored_items st') = withoutProbe (stored_items st)"
  using set_writes by (fastforce simp: withoutProbe_def split: sum.splits)

lemma restore_others: "restoreProbe api previous st = (u, st') \<Longrightarrow> withoutProbe (stored_items st') = withoutProbe (stored_items st)"
  using restore_items by (fastforce simp: withoutProbe_def split: sum.splits)

lemma failed_others: "withoutProbe (stored_items (snd (probeFailed api previous st))) = withoutProbe (stored_items st)"
  by (cases "restoreProbe api previous st") (simp add: probeFailed_def restore_others)

lemma cleanup_others: "withoutProbe (stored_items (snd (probeCleanup api previous st))) = withoutProbe (stored_items st)"
  by (auto simp: probeCleanup_def failed_others dest!: restore_others get_others split: prod.split sum.split)

lemma write_others: "withoutProbe (stored_items (snd (probeWrite api previous st))) = withoutProbe (stored_items st)"
  by (auto simp: probeWrite_def Let_def failed_others cleanup_others dest!: set_others get_others split: prod.split sum.split)

lemma probe_others: "withoutProbe (stored_items (snd (assertWritableRecoveryStorage api st))) = withoutProbe (stored_items st)"
  by (auto simp: assertWritableRecoveryStorage_def write_others dest!: get_others split: prod.split sum.split)

lemma probe_frame:
  assumes "k \<noteq> RGS_STORAGE_PROBE_KEY"
  shows "stored_items (snd (assertWritableRecoveryStorage api st)) k = stored_items st k"
  using fun_cong [OF probe_others, of st k] assms by (simp add: withoutProbe_def)

lemma cleanup_accepts:
  assumes "probeCleanup api previous st = (True, st')"
  shows "stored_items st' = (stored_items st)(RGS_STORAGE_PROBE_KEY := previous)"
proof -
  from assms obtain w st1 where c: "restoreProbe api previous st = (Inr w, st1)"
      "api_getItem api RGS_STORAGE_PROBE_KEY st1 = (Inr previous, st')"
    by (auto simp: probeCleanup_def probeFailed_def split: prod.splits sum.splits)
  show ?thesis using restore_items [OF c(1)] get_reads [OF c(2)] by simp
qed

lemma write_accepts:
  assumes "probeWrite api previous st = (True, st')"
  shows "stored_items st' = (stored_items st)(RGS_STORAGE_PROBE_KEY := previous)"
proof -
  from assms obtain v u st1 seen st2 where c: "api_setItem api RGS_STORAGE_PROBE_KEY v st = (Inr u, st1)"
      "api_getItem api RGS_STORAGE_PROBE_KEY st1 = (Inr seen, st2)" "probeCleanup api previous st2 = (True, st')"
    by (auto simp: probeWrite_def probeFailed_def Let_def split: prod.splits sum.splits if_splits)
  show ?thesis using set_writes [OF c(1)] get_reads [OF c(2)] cleanup_accepts [OF c(3)] by simp
qed

lemma probe_accepts_unchanged:
  assumes "assertWritableRecoveryStorage api st = (True, st')"
  shows "stored_items st' = stored_items st"
proof -
  from assms obtain previous st1 where c: "api_getItem api RGS_STORAGE_PROBE_KEY st = (Inr previous, st1)"
      "probeWrite api previous st1 = (True, st')"
    by (auto simp: assertWritableRecoveryStorage_def split: prod.splits sum.splits)
  show ?thesis using get_reads [OF c(1)] write_accepts [OF c(2)] by auto
qed

end

text \<open>The storage of a browser: the calls are counted, and those for which \<open>fails\<close> holds throw and change nothing.\<close>

definition browserStorage :: "(nat \<Rightarrow> bool) \<Rightarrow> (nat \<times> web_storage) storage_api" where
  "browserStorage fails = \<lparr>
     api_getItem = (\<lambda>k (n, m). (if fails n then Inl () else Inr (m k), Suc n, m)),
     api_setItem = (\<lambda>k v (n, m). if fails n then (Inl (), Suc n, m) else (Inr (), Suc n, m(k \<mapsto> v))),
     api_removeItem = (\<lambda>k (n, m). if fails n then (Inl (), Suc n, m) else (Inr (), Suc n, m(k := None)))\<rparr>"

interpretation browser_items: item_storage "browserStorage fails" snd for fails
  by unfold_locales (auto simp: browserStorage_def split: if_splits)

lemma restore_browser:
  "restoreProbe (browserStorage fails) previous (n, m) =
     (if fails n then (Inl (), Suc n, m) else (Inr (), Suc n, m(RGS_STORAGE_PROBE_KEY := previous)))"
  by (simp add: restoreProbe_def browserStorage_def split: option.split)

lemma browser_simps:
  "api_getItem (browserStorage fails) k (n, m) = (if fails n then Inl () else Inr (m k), Suc n, m)"
  "api_setItem (browserStorage fails) k v (n, m) = (if fails n then (Inl (), Suc n, m) else (Inr (), Suc n, m(k \<mapsto> v)))"
  by (simp_all add: browserStorage_def)

lemma probe_browser:
  "fst (assertWritableRecoveryStorage (browserStorage fails) (n, m))
     \<longleftrightarrow> \<not> fails n \<and> \<not> fails (Suc n) \<and> \<not> fails (Suc (Suc n)) \<and> \<not> fails (Suc (Suc (Suc n))) \<and> \<not> fails (Suc (Suc (Suc (Suc n))))"
  by (simp add: assertWritableRecoveryStorage_def probeWrite_def probeCleanup_def probeFailed_def Let_def browser_simps restore_browser)

section \<open>What is configured\<close>

definition exact_origin :: "(string \<Rightarrow> url_view option) \<Rightarrow> string \<Rightarrow> bool" where
  "exact_origin parseUrl v = (case parseUrl v of None \<Rightarrow> False
     | Some u \<Rightarrow> v \<noteq> ''*'' \<and> url_protocol u = ''https:'' \<and> url_username u = [] \<and> url_password u = [] \<and> url_pathname u = ''/''
         \<and> url_search u = [] \<and> url_hash u = [] \<and> url_origin u = v)"

definition complete_configuration :: "(string \<Rightarrow> url_view option) \<Rightarrow> GatewayEnvironment \<Rightarrow> bool \<Rightarrow> parameters \<Rightarrow> bool" where
  "complete_configuration parseUrl env framed ps =
     (list_all (\<lambda>key. length (getAll key ps) = 1 \<and> hd (getAll key ps) \<noteq> []) RGS_FRAGMENT_KEYS
      \<and> \<not> blank (VITE_RGS_BASE_URL env) \<and> \<not> blank (VITE_RGS_BET_OPTIONS_MINOR env) \<and> \<not> blank (VITE_RGS_DEFAULT_BET_MINOR env)
      \<and> list_all (\<lambda>bet. bet \<noteq> [] \<and> trim bet = bet) (splitCommas (the (VITE_RGS_BET_OPTIONS_MINOR env)))
      \<and> (case VITE_RGS_HOST_ORIGIN env of None \<Rightarrow> \<not> framed | Some v \<Rightarrow> exact_origin parseUrl v \<and> (framed \<longrightarrow> v \<noteq> [])))"

lemma exact_origin_iff:
  "parseExactHttpsHostOrigin parseUrl v = Inr host \<longleftrightarrow> (host = v \<and> (case v of None \<Rightarrow> True | Some w \<Rightarrow> exact_origin parseUrl w))"
  by (auto simp: parseExactHttpsHostOrigin_def exact_origin_def split: option.splits)

lemma fragmentValues_iff:
  "fragmentValues ps = Inr fs \<longleftrightarrow> list_all (\<lambda>key. length (getAll key ps) \<le> 1) RGS_FRAGMENT_KEYS
     \<and> fs = map (\<lambda>key. (key, if getAll key ps = [] then None else Some (hd (getAll key ps)))) RGS_FRAGMENT_KEYS"
proof -
  have one: "(case xs of [] \<Rightarrow> Inr (key, None) | [v] \<Rightarrow> Inr (key, Some v) | _ \<Rightarrow> Inl (DuplicateFragment key)) = Inr y
      \<longleftrightarrow> length xs \<le> 1 \<and> y = (key, if xs = [] then None else Some (hd xs))" for xs :: "string list" and key y
    by (auto split: list.split)
  show ?thesis by (auto simp: fragmentValues_def RGS_FRAGMENT_KEYS_def accept one)
qed

lemma splitCommas_nonempty: "splitCommas v \<noteq> []"
  by (induction v) (auto split: list.split)

lemma betOptions_iff: "betOptions v = Inr bets \<longleftrightarrow> bets = splitCommas v \<and> list_all (\<lambda>bet. bet \<noteq> [] \<and> trim bet = bet) bets"
  by (auto simp: betOptions_def Let_def splitCommas_nonempty list_all_iff list_ex_iff)

definition setup_of :: "GatewayEnvironment \<Rightarrow> parameters \<Rightarrow> gateway_setup" where
  "setup_of env ps = \<lparr>setup_baseUrl = the (VITE_RGS_BASE_URL env), setup_launchCode = hd (getAll ''rgsLaunchCode'' ps),
     setup_operatorId = hd (getAll ''rgsOperatorId'' ps), setup_sessionId = hd (getAll ''rgsSessionId'' ps),
     setup_betOptionsMinor = splitCommas (the (VITE_RGS_BET_OPTIONS_MINOR env)),
     setup_defaultBetMinor = the (VITE_RGS_DEFAULT_BET_MINOR env),
     setup_operatorHostOrigin = (if blank (VITE_RGS_HOST_ORIGIN env) then None else VITE_RGS_HOST_ORIGIN env)\<rparr>"

definition fragment_of :: "parameters \<Rightarrow> string \<Rightarrow> string option" where
  "fragment_of ps key = (if getAll key ps = [] then None else Some (hd (getAll key ps)))"

definition missing_field :: "GatewayEnvironment \<Rightarrow> parameters \<Rightarrow> bool" where
  "missing_field env ps = list_ex blank (map (fragment_of ps) RGS_FRAGMENT_KEYS
     @ [VITE_RGS_BASE_URL env, VITE_RGS_BET_OPTIONS_MINOR env, VITE_RGS_DEFAULT_BET_MINOR env])"

lemma fragmentGet_keys:
  "fragmentGet (map (\<lambda>key. (key, fragment_of ps key)) RGS_FRAGMENT_KEYS) ''rgsLaunchCode'' = fragment_of ps ''rgsLaunchCode''"
  "fragmentGet (map (\<lambda>key. (key, fragment_of ps key)) RGS_FRAGMENT_KEYS) ''rgsOperatorId'' = fragment_of ps ''rgsOperatorId''"
  "fragmentGet (map (\<lambda>key. (key, fragment_of ps key)) RGS_FRAGMENT_KEYS) ''rgsSessionId'' = fragment_of ps ''rgsSessionId''"
  by (simp_all add: fragmentGet_def RGS_FRAGMENT_KEYS_def)

lemma configuredSetup_fragments:
  "configuredSetup parseUrl env framed (map (\<lambda>key. (key, fragment_of ps key)) RGS_FRAGMENT_KEYS) =
     (if missing_field env ps then Inl IncompleteConfiguration
      else bindE (betOptions (the (VITE_RGS_BET_OPTIONS_MINOR env))) (\<lambda>bets.
        case parseExactHttpsHostOrigin parseUrl (VITE_RGS_HOST_ORIGIN env) of Inl _ \<Rightarrow> Inl HostOriginInvalid
        | Inr host \<Rightarrow> if framed \<and> blank host then Inl FramedWithoutHost
            else Inr \<lparr>setup_baseUrl = the (VITE_RGS_BASE_URL env), setup_launchCode = the (fragment_of ps ''rgsLaunchCode''),
              setup_operatorId = the (fragment_of ps ''rgsOperatorId''), setup_sessionId = the (fragment_of ps ''rgsSessionId''),
              setup_betOptionsMinor = bets, setup_defaultBetMinor = the (VITE_RGS_DEFAULT_BET_MINOR env),
              setup_operatorHostOrigin = (if blank host then None else host)\<rparr>))"
  unfolding configuredSetup_def Let_def fragmentGet_keys
  by (simp add: missing_field_def RGS_FRAGMENT_KEYS_def)

lemma setup_fragments:
  assumes "\<not> missing_field env ps"
  shows "the (fragment_of ps ''rgsLaunchCode'') = hd (getAll ''rgsLaunchCode'' ps)"
    "the (fragment_of ps ''rgsOperatorId'') = hd (getAll ''rgsOperatorId'' ps)"
    "the (fragment_of ps ''rgsSessionId'') = hd (getAll ''rgsSessionId'' ps)"
  using assms by (auto simp: missing_field_def RGS_FRAGMENT_KEYS_def fragment_of_def blank_def split: if_splits)

lemma complete_missing:
  assumes "list_all (\<lambda>key. length (getAll key ps) \<le> 1) RGS_FRAGMENT_KEYS"
  shows "complete_configuration parseUrl env framed ps \<longleftrightarrow> \<not> missing_field env ps
    \<and> list_all (\<lambda>bet. bet \<noteq> [] \<and> trim bet = bet) (splitCommas (the (VITE_RGS_BET_OPTIONS_MINOR env)))
    \<and> (case VITE_RGS_HOST_ORIGIN env of None \<Rightarrow> \<not> framed | Some v \<Rightarrow> exact_origin parseUrl v \<and> (framed \<longrightarrow> v \<noteq> []))"
proof -
  have "\<not> blank (fragment_of ps key) \<longleftrightarrow> length (getAll key ps) = 1 \<and> hd (getAll key ps) \<noteq> []" if "key \<in> set RGS_FRAGMENT_KEYS" for key
    using assms that by (cases "getAll key ps") (auto simp: list_all_iff fragment_of_def blank_def)
  then show ?thesis by (auto simp: complete_configuration_def missing_field_def list_all_iff list_ex_iff)
qed

lemma host_accepted:
  "(case parseExactHttpsHostOrigin parseUrl v of Inl _ \<Rightarrow> Inl e | Inr host \<Rightarrow> if framed \<and> blank host then Inl e' else Inr (g host)) = Inr r
     \<longleftrightarrow> (case v of None \<Rightarrow> \<not> framed | Some w \<Rightarrow> exact_origin parseUrl w \<and> (framed \<longrightarrow> w \<noteq> [])) \<and> r = g v"
proof (cases "parseExactHttpsHostOrigin parseUrl v")
  case (Inl x)
  then have "\<not> (case v of None \<Rightarrow> True | Some w \<Rightarrow> exact_origin parseUrl w)" using exact_origin_iff [of parseUrl v v] by simp
  with Inl show ?thesis by (simp split: option.splits)
next
  case (Inr host)
  then have "host = v" "case v of None \<Rightarrow> True | Some w \<Rightarrow> exact_origin parseUrl w" by (simp_all add: exact_origin_iff)
  with Inr show ?thesis by (auto simp: blank_def split: option.splits)
qed

lemma configuredSetup_iff:
  "bindE (fragmentValues ps) (configuredSetup parseUrl env framed) = Inr setup1
     \<longleftrightarrow> complete_configuration parseUrl env framed ps \<and> setup1 = setup_of env ps"
proof (cases "list_all (\<lambda>key. length (getAll key ps) \<le> 1) RGS_FRAGMENT_KEYS")
  case True
  then have f: "fragmentValues ps = Inr (map (\<lambda>key. (key, fragment_of ps key)) RGS_FRAGMENT_KEYS)"
    by (simp add: fragmentValues_iff fragment_of_def)
  show ?thesis
  proof (cases "missing_field env ps")
    case False
    note fields = setup_fragments [OF False]
    show ?thesis
      unfolding f bindE_simps configuredSetup_fragments if_not_P [OF False] complete_missing [OF True] bindE_Inr host_accepted betOptions_iff
        fields setup_of_def
      using False by blast
  qed (simp add: f configuredSetup_fragments complete_missing [OF True])
next
  case False
  then have "\<not> complete_configuration parseUrl env framed ps"
    by (auto simp: complete_configuration_def list_all_iff)
  moreover have "fragmentValues ps \<noteq> Inr fs" for fs using False by (simp add: fragmentValues_iff)
  ultimately show ?thesis by (cases "fragmentValues ps") auto
qed

lemma blank_fragments:
  assumes "list_all (\<lambda>key. length (getAll key ps) = 1 \<and> hd (getAll key ps) \<noteq> []) RGS_FRAGMENT_KEYS" and "key \<in> set RGS_FRAGMENT_KEYS"
  shows "getAll key ps = [hd (getAll key ps)]"
  using assms by (cases "getAll key ps") (auto simp: list_all_iff)


definition sampleParameters :: parameters where
  "sampleParameters = [(''rgsLaunchCode'', ''code''), (''theme'', ''dark''), (''rgsOperatorId'', ''op''), (''rgsSessionId'', ''s'')]"

definition samplePage :: "string \<Rightarrow> (string \<times> parameters) option" where
  "samplePage s = (if s = ''https://game.example#all'' then Some (''https://game.example'', sampleParameters)
     else if s = ''https://game.example#theme=dark'' then Some (''https://game.example'', [(''theme'', ''dark'')]) else None)"

definition sampleEnvironment :: GatewayEnvironment where
  "sampleEnvironment = \<lparr>VITE_RGS_BASE_URL = Some ''https://rgs.example'', VITE_RGS_BET_OPTIONS_MINOR = Some ''100,200'',
     VITE_RGS_DEFAULT_BET_MINOR = Some ''100'', VITE_RGS_HOST_ORIGIN = Some ''https://operator.example''\<rparr>"

lemma sample_complete: "complete_configuration sampleUrl sampleEnvironment True sampleParameters"
  by code_simp

lemma sample_scrubbed: "scrubbed sampleParameters = [(''theme'', ''dark'')]"
  by (simp add: scrubbed_def sampleParameters_def RGS_FRAGMENT_KEYS_def)


end
