(* ===== verification/Timeline.thy ===== *)
theory Timeline
  imports Prelude Complex_Main
begin

text \<open>
  The timeline of the intro (\<open>startup/Timeline.ts\<close>): frames and cues over a clock, with the scheduler
  that limits how far a stalled page may catch up. Times are real numbers. An event is a call or
  an animation frame; \<open>calls\<close> says how many of the callbacks it makes (frame, cue, request of the next
  frame) return before one throws, \<open>None\<close> that all do. The callbacks do not call the timeline back.
\<close>

section \<open>The timeline\<close>

record TimelineCue =
  cue_name :: string
  atMs :: real

record TimelineSchedulerPolicy =
  policy_fps :: real
  maxCatchUpTicks :: int

definition PRIMAL_SCHEDULER_POLICY :: TimelineSchedulerPolicy where
  "PRIMAL_SCHEDULER_POLICY = \<lparr>policy_fps = 30, maxCatchUpTicks = 5\<rparr>"

definition PRIMAL_SCHEDULER_MAX_CATCH_UP_MS :: real where
  "PRIMAL_SCHEDULER_MAX_CATCH_UP_MS = of_int (maxCatchUpTicks PRIMAL_SCHEDULER_POLICY) / policy_fps PRIMAL_SCHEDULER_POLICY * 1000"

datatype timeline_state = timeline_idle | timeline_running | timeline_complete | timeline_failed

datatype timeline_effect = OnFrame real | OnCue TimelineCue | FrameRequested | FrameCancelled | Resolved | Rejected

record timeline =
  durationMs :: real
  cues :: "TimelineCue list"
  scheduler :: "TimelineSchedulerPolicy option"
  startedAt :: real
  schedulerTickCount :: int
  frameHandle :: bool
  cueIndex :: nat
  state_of :: timeline_state
  played_once :: bool
  timeline_log :: "timeline_effect list"

datatype timeline_error = DurationNotPositive | PolicyNotPositive

definition newTimeline ::
  "real \<Rightarrow> TimelineCue list \<Rightarrow> TimelineSchedulerPolicy option \<Rightarrow> timeline_error + timeline" where
  "newTimeline duration cs policy =
     (if duration \<le> 0 then Inl DurationNotPositive
      else if (case policy of None \<Rightarrow> False | Some p \<Rightarrow> policy_fps p \<le> 0 \<or> maxCatchUpTicks p \<le> 0) then Inl PolicyNotPositive
      else Inr \<lparr>durationMs = duration, cues = sort_key atMs cs, scheduler = policy, startedAt = 0, schedulerTickCount = 0,
        frameHandle = False, cueIndex = 0, state_of = timeline_idle, played_once = False, timeline_log = []\<rparr>)"

section \<open>Callbacks\<close>

definition effect :: "timeline_effect \<Rightarrow> timeline \<Rightarrow> timeline" where
  "effect e t = t\<lparr>timeline_log := timeline_log t @ [e]\<rparr>"

text \<open>A callback: whether it returned, and the calls that still return.\<close>

definition callback :: "timeline_effect \<Rightarrow> nat option \<Rightarrow> timeline \<Rightarrow> bool \<times> nat option \<times> timeline" where
  "callback e calls t = (calls \<noteq> Some 0, map_option (\<lambda>n. n - 1) calls, effect e t)"

definition finish :: "timeline \<Rightarrow> timeline" where
  "finish t = effect Resolved (t\<lparr>state_of := timeline_complete, frameHandle := False\<rparr>)"

definition cancelScheduledFrame :: "timeline \<Rightarrow> timeline" where
  "cancelScheduledFrame t = (if frameHandle t then effect FrameCancelled (t\<lparr>frameHandle := False\<rparr>) else t)"

definition failTimeline :: "timeline \<Rightarrow> timeline" where
  "failTimeline t = effect Rejected (cancelScheduledFrame (t\<lparr>state_of := timeline_failed\<rparr>))"

fun fireCues :: "real \<Rightarrow> bool \<Rightarrow> TimelineCue list \<Rightarrow> nat option \<Rightarrow> timeline \<Rightarrow> bool \<times> nat option \<times> timeline" where
  "fireCues timeMs includeZero [] calls t = (True, calls, t)"
| "fireCues timeMs includeZero (c # cs) calls t =
     (if timeMs < atMs c \<or> \<not> includeZero \<and> timeMs = 0 then (True, calls, t)
      else (case callback (OnCue c) calls (t\<lparr>cueIndex := cueIndex t + 1\<rparr>) of
          (True, calls, t) \<Rightarrow> fireCues timeMs includeZero cs calls t
        | (False, calls, t) \<Rightarrow> (False, calls, t)))"

definition applyFrame :: "real \<Rightarrow> bool \<Rightarrow> nat option \<Rightarrow> timeline \<Rightarrow> bool \<times> nat option \<times> timeline" where
  "applyFrame timeMs includeZero calls t = (case callback (OnFrame timeMs) calls t of
       (True, calls, t) \<Rightarrow> fireCues timeMs includeZero (drop (cueIndex t) (cues t)) calls t
     | (False, calls, t) \<Rightarrow> (False, calls, t))"

definition requestNextFrame :: "nat option \<Rightarrow> timeline \<Rightarrow> timeline" where
  "requestNextFrame calls t = (case callback FrameRequested calls t of
       (True, _, t) \<Rightarrow> t\<lparr>frameHandle := True\<rparr>
     | (False, _, t) \<Rightarrow> failTimeline t)"

section \<open>Calls\<close>

text \<open>The loop of the code counts the ticks up to the target, a multiple of the tick or not.\<close>

definition schedulerElapsedAt :: "real \<Rightarrow> timeline \<Rightarrow> real \<times> timeline" where
  "schedulerElapsedAt time t = (case scheduler t of
       None \<Rightarrow> (max 0 (time - startedAt t), t)
     | Some policy \<Rightarrow>
         let tickMs = 1000 / policy_fps policy;
             targetTick = (time - startedAt t) * policy_fps policy / 1000;
             (targetTick, started) =
               (if targetTick < of_int (schedulerTickCount t) - 1
                then (of_int (schedulerTickCount t), time - of_int (schedulerTickCount t) * tickMs)
                else if of_int (maxCatchUpTicks policy) < targetTick - of_int (schedulerTickCount t)
                then (of_int (schedulerTickCount t + maxCatchUpTicks policy),
                  time - of_int (schedulerTickCount t + maxCatchUpTicks policy) * tickMs)
                else (targetTick, startedAt t)) in
         (max 0 (time - started),
          t\<lparr>startedAt := started, schedulerTickCount := max (schedulerTickCount t) \<lceil>targetTick\<rceil>\<rparr>))"

definition playTimeline :: "real \<Rightarrow> nat option \<Rightarrow> timeline \<Rightarrow> timeline" where
  "playTimeline now calls t =
     (if played_once t then t
      else (case applyFrame 0 True calls (t\<lparr>played_once := True, state_of := timeline_running, startedAt := now, schedulerTickCount := 0\<rparr>) of
          (True, calls, t) \<Rightarrow> requestNextFrame calls t
        | (False, _, t) \<Rightarrow> failTimeline t))"

definition tickTimeline :: "real \<Rightarrow> nat option \<Rightarrow> timeline \<Rightarrow> timeline" where
  "tickTimeline time calls t =
     (if state_of t \<noteq> timeline_running then t
      else let (elapsed, t) = schedulerElapsedAt time t; elapsed = min (durationMs t) elapsed in
        (case applyFrame elapsed False calls t of
          (True, calls, t) \<Rightarrow> if durationMs t \<le> elapsed then finish t else requestNextFrame calls t
        | (False, _, t) \<Rightarrow> failTimeline t))"

text \<open>\<open>skip\<close> plays first where it was not played; \<open>calls\<close> and \<open>last_calls\<close> are for the two parts.\<close>

definition skipTimeline :: "real \<Rightarrow> nat option \<Rightarrow> nat option \<Rightarrow> timeline \<Rightarrow> timeline" where
  "skipTimeline now calls last_calls t =
     (if state_of t = timeline_complete \<or> state_of t = timeline_failed then t
      else let t = (if played_once t then t else playTimeline now calls t) in
        if state_of t \<noteq> timeline_running then t
        else let t = cancelScheduledFrame t in
          (case callback (OnFrame (durationMs t)) last_calls (t\<lparr>cueIndex := length (cues t)\<rparr>) of
            (True, _, t) \<Rightarrow> finish t
          | (False, _, t) \<Rightarrow> failTimeline t))"

definition destroyTimeline :: "real \<Rightarrow> nat option \<Rightarrow> nat option \<Rightarrow> timeline \<Rightarrow> timeline" where
  "destroyTimeline now calls last_calls t =
     (if state_of t = timeline_idle \<or> state_of t = timeline_running then skipTimeline now calls last_calls t else t)"

datatype timeline_event = Play real "nat option" | AnimationFrame real "nat option" | Skip real "nat option" "nat option"
  | Destroy real "nat option" "nat option"

fun timeline_step :: "timeline_event \<Rightarrow> timeline \<Rightarrow> timeline" where
  "timeline_step (Play now calls) t = playTimeline now calls t"
| "timeline_step (AnimationFrame time calls) t = tickTimeline time calls t"
| "timeline_step (Skip now calls last_calls) t = skipTimeline now calls last_calls t"
| "timeline_step (Destroy now calls last_calls) t = destroyTimeline now calls last_calls t"

end
