(* ===== verification/Timeline_Properties.thy ===== *)
theory Timeline_Properties
  imports Timeline
begin

text \<open>
  What the timeline shows: its cues once, in order and when they are due, its frames within the
  duration, one end, and no jump of more than the ticks the scheduler allows.
\<close>

section \<open>Reading the log\<close>

fun lastShown :: "real option \<Rightarrow> timeline_effect list \<Rightarrow> real option" where
  "lastShown l [] = l"
| "lastShown l (OnFrame t # es) = lastShown (Some t) es"
| "lastShown l (e # es) = lastShown l es"

text \<open>Every cue is due by the frame shown before it.\<close>

fun cuesDue :: "real option \<Rightarrow> timeline_effect list \<Rightarrow> bool" where
  "cuesDue l [] = True"
| "cuesDue l (OnFrame t # es) = cuesDue (Some t) es"
| "cuesDue l (OnCue c # es) = ((case l of None \<Rightarrow> False | Some t \<Rightarrow> atMs c \<le> t) \<and> cuesDue l es)"
| "cuesDue l (e # es) = cuesDue l es"

fun firedCues :: "timeline_effect list \<Rightarrow> TimelineCue list" where
  "firedCues [] = []"
| "firedCues (OnCue c # es) = c # firedCues es"
| "firedCues (e # es) = firedCues es"

fun shownFrames :: "timeline_effect list \<Rightarrow> real list" where
  "shownFrames [] = []"
| "shownFrames (OnFrame t # es) = t # shownFrames es"
| "shownFrames (e # es) = shownFrames es"

definition ends :: "timeline_effect list \<Rightarrow> timeline_effect list" where
  "ends es = filter (\<lambda>e. e = Resolved \<or> e = Rejected) es"

lemma lastShown_append [simp]: "lastShown l (xs @ ys) = lastShown (lastShown l xs) ys"
  by (induction l xs rule: lastShown.induct) simp_all

lemma cuesDue_append [simp]: "cuesDue l (xs @ ys) \<longleftrightarrow> cuesDue l xs \<and> cuesDue (lastShown l xs) ys"
  by (induction l xs rule: cuesDue.induct) auto

lemma firedCues_append [simp]: "firedCues (xs @ ys) = firedCues xs @ firedCues ys"
  by (induction xs rule: firedCues.induct) simp_all

lemma shownFrames_append [simp]: "shownFrames (xs @ ys) = shownFrames xs @ shownFrames ys"
  by (induction xs rule: shownFrames.induct) simp_all

lemma ends_simps [simp]: "ends (xs @ ys) = ends xs @ ends ys" "ends [] = []" "ends (OnFrame t # es) = ends es" "ends (OnCue c # es) = ends es"
  "ends (FrameRequested # es) = ends es" "ends (FrameCancelled # es) = ends es" "ends (Resolved # es) = Resolved # ends es"
  "ends (Rejected # es) = Rejected # ends es"
  by (simp_all add: ends_def)

lemma lastShown_in: "lastShown None es = Some f \<Longrightarrow> f \<in> set (shownFrames es)"
proof -
  have "lastShown l es = Some f \<Longrightarrow> l = Some f \<or> f \<in> set (shownFrames es)" for l
    by (induction l es rule: lastShown.induct) auto
  then show "lastShown None es = Some f \<Longrightarrow> f \<in> set (shownFrames es)" by blast
qed

lemma cue_log [simp]:
  "lastShown l (map OnCue cs) = l" "firedCues (map OnCue cs) = cs" "shownFrames (map OnCue cs) = []" "ends (map OnCue cs) = []"
  "cuesDue (Some t) (map OnCue cs) \<longleftrightarrow> (\<forall>c \<in> set cs. atMs c \<le> t)"
  by (induction cs) auto

section \<open>A frame and its cues\<close>

lemma fireCues_spec:
  assumes "fireCues ms z cs calls t = (ok, left1, u)"
  shows "\<exists>fired. u = t\<lparr>cueIndex := cueIndex t + length fired, timeline_log := timeline_log t @ map OnCue fired\<rparr>
    \<and> fired = take (length fired) cs \<and> (\<forall>c \<in> set fired. atMs c \<le> ms)
    \<and> (ok \<and> (z \<or> ms \<noteq> 0) \<longrightarrow> fired = takeWhile (\<lambda>c. atMs c \<le> ms) cs)"
  using assms
proof (induction cs arbitrary: calls t)
  case Nil
  then show ?case by (intro exI [of _ "[]"]) simp
next
  case (Cons c cs)
  show ?case
  proof (cases "ms < atMs c \<or> \<not> z \<and> ms = 0")
    case True
    with Cons.prems show ?thesis by (intro exI [of _ "[]"]) auto
  next
    case False
    let ?t = "effect (OnCue c) (t\<lparr>cueIndex := cueIndex t + 1\<rparr>)" and ?left = "map_option (\<lambda>n. n - 1) calls"
    have cb: "callback (OnCue c) calls (t\<lparr>cueIndex := cueIndex t + 1\<rparr>) = (calls \<noteq> Some 0, ?left, ?t)" by (simp add: callback_def)
    show ?thesis
    proof (cases "calls = Some 0")
      case True
      with Cons.prems False have "u = ?t" "\<not> ok" by (simp_all add: callback_def)
      with False show ?thesis by (intro exI [of _ "[c]"]) (simp add: effect_def)
    next
      case ok: False
      then have "fireCues ms z cs ?left ?t = (ok, left1, u)" using Cons.prems unfolding fireCues.simps if_not_P [OF False] cb by simp
      from Cons.IH [OF this] obtain fired where
          "u = ?t\<lparr>cueIndex := cueIndex ?t + length fired, timeline_log := timeline_log ?t @ map OnCue fired\<rparr>"
          "fired = take (length fired) cs" "\<forall>c \<in> set fired. atMs c \<le> ms"
          "ok \<and> (z \<or> ms \<noteq> 0) \<longrightarrow> fired = takeWhile (\<lambda>c. atMs c \<le> ms) cs" by blast
      with False show ?thesis by (intro exI [of _ "c # fired"]) (auto simp: effect_def)
    qed
  qed
qed

lemma applyFrame_spec:
  assumes "applyFrame ms z calls t = (ok, left1, u)"
  shows "\<exists>fired. u = t\<lparr>cueIndex := cueIndex t + length fired, timeline_log := timeline_log t @ OnFrame ms # map OnCue fired\<rparr>
    \<and> fired = take (length fired) (drop (cueIndex t) (cues t)) \<and> (\<forall>c \<in> set fired. atMs c \<le> ms)
    \<and> (ok \<and> (z \<or> ms \<noteq> 0) \<longrightarrow> fired = takeWhile (\<lambda>c. atMs c \<le> ms) (drop (cueIndex t) (cues t)))"
proof (cases "calls = Some 0")
  case True
  with assms have "u = effect (OnFrame ms) t" "\<not> ok" by (simp_all add: applyFrame_def callback_def)
  then show ?thesis by (intro exI [of _ "[]"]) (simp add: effect_def)
next
  case False
  let ?t = "effect (OnFrame ms) t"
  have "fireCues ms z (drop (cueIndex ?t) (cues ?t)) (map_option (\<lambda>n. n - 1) calls) ?t = (ok, left1, u)"
    using assms False by (simp add: applyFrame_def callback_def)
  from fireCues_spec [OF this] show ?thesis by (auto simp: effect_def)
qed

section \<open>The invariant\<close>

definition sound_log :: "real \<Rightarrow> TimelineCue list \<Rightarrow> timeline_effect list \<Rightarrow> bool" where
  "sound_log d cs es = (firedCues es @ drop (length (firedCues es)) cs = cs \<and> cuesDue None es
     \<and> (\<forall>f \<in> set (shownFrames es). 0 \<le> f \<and> f \<le> d) \<and> (\<forall>c \<in> set (firedCues es). atMs c \<le> d))"

lemma sound_frame:
  assumes "sound_log d cs es" and "0 \<le> ms" and "ms \<le> d" and "fired = take (length fired) (drop (length (firedCues es)) cs)"
    and "\<forall>c \<in> set fired. atMs c \<le> ms"
  shows "sound_log d cs (es @ OnFrame ms # map OnCue fired)"
proof -
  have t: "firedCues es @ drop (length (firedCues es)) cs = cs" using assms(1) by (simp add: sound_log_def)
  have "fired @ drop (length fired) (drop (length (firedCues es)) cs) = drop (length (firedCues es)) cs"
    by (subst assms(4)) (rule append_take_drop_id)
  then have "(firedCues es @ fired) @ drop (length (firedCues es @ fired)) cs = cs" using t by (simp add: add.commute)
  moreover have "\<forall>c \<in> set fired. atMs c \<le> d" using assms(3,5) by fastforce
  ultimately show ?thesis using assms(1-3,5) unfolding sound_log_def by auto
qed

lemma sound_other: "sound_log d cs es \<Longrightarrow> e \<in> {FrameRequested, FrameCancelled, Resolved, Rejected} \<Longrightarrow> sound_log d cs (es @ [e])"
  by (auto simp: sound_log_def)

text \<open>A timeline that has not ended yet, and one that runs.\<close>

fun policy_ok :: "TimelineSchedulerPolicy option \<Rightarrow> bool" where
  "policy_ok None = True"
| "policy_ok (Some p) = (0 < policy_fps p \<and> 0 < maxCatchUpTicks p)"

definition open_inv :: "timeline \<Rightarrow> bool" where
  "open_inv t = (0 < durationMs t \<and> policy_ok (scheduler t) \<and> played_once t \<and> sound_log (durationMs t) (cues t) (timeline_log t)
     \<and> ends (timeline_log t) = [])"

text \<open>The ticks counted are those of the frame shown last.\<close>

fun ticks_ok :: "TimelineSchedulerPolicy option \<Rightarrow> int \<Rightarrow> real \<Rightarrow> bool" where
  "ticks_ok None count frame = True"
| "ticks_ok (Some p) count frame = (0 \<le> count \<and> of_int (count - 1) * (1000 / policy_fps p) \<le> frame
     \<and> frame \<le> of_int count * (1000 / policy_fps p))"

definition running_inv :: "timeline \<Rightarrow> bool" where
  "running_inv t = (open_inv t \<and> state_of t = timeline_running \<and> cueIndex t = length (firedCues (timeline_log t))
     \<and> (\<exists>frame. lastShown None (timeline_log t) = Some frame \<and> ticks_ok (scheduler t) (schedulerTickCount t) frame))"

definition ended_inv1 :: "bool \<Rightarrow> timeline \<Rightarrow> bool" where
  "ended_inv1 skipped t = (0 < durationMs t \<and> played_once t \<and> sound_log (durationMs t) (cues t) (timeline_log t)
     \<and> (state_of t = timeline_failed \<and> ends (timeline_log t) = [Rejected]
        \<or> state_of t = timeline_complete \<and> ends (timeline_log t) = [Resolved] \<and> lastShown None (timeline_log t) = Some (durationMs t)
          \<and> (skipped \<or> firedCues (timeline_log t) = takeWhile (\<lambda>c. atMs c \<le> durationMs t) (cues t))))"

definition fresh_inv :: "timeline \<Rightarrow> bool" where
  "fresh_inv t = (0 < durationMs t \<and> policy_ok (scheduler t) \<and> state_of t = timeline_idle \<and> \<not> played_once t \<and> timeline_log t = [] \<and> cueIndex t = 0)"

definition timeline_inv :: "bool \<Rightarrow> timeline \<Rightarrow> bool" where
  "timeline_inv skipped t = (fresh_inv t \<or> running_inv t \<or> ended_inv1 skipped t)"

lemma fail_inv: "open_inv t \<Longrightarrow> ended_inv1 skipped (failTimeline t)"
  by (auto simp: open_inv_def ended_inv1_def failTimeline_def cancelScheduledFrame_def effect_def sound_log_def)

lemma request_inv:
  assumes "running_inv t"
  shows "running_inv (requestNextFrame calls t) \<or> ended_inv1 skipped (requestNextFrame calls t)"
proof (cases "calls = Some 0")
  case True
  have "open_inv (effect FrameRequested t)"
    using assms by (auto simp: running_inv_def open_inv_def effect_def intro: sound_other)
  with True show ?thesis using fail_inv by (simp add: requestNextFrame_def callback_def)
next
  case False
  then have "requestNextFrame calls t = (effect FrameRequested t)\<lparr>frameHandle := True\<rparr>" by (simp add: requestNextFrame_def callback_def)
  with assms show ?thesis
    by (auto simp: running_inv_def open_inv_def effect_def intro: sound_other)
qed

lemma applyFrame_inv:
  assumes "open_inv t" and "state_of t = timeline_running" and "cueIndex t = length (firedCues (timeline_log t))"
    and "0 \<le> ms" and "ms \<le> durationMs t" and "applyFrame ms z calls t = (ok, left1, u)"
  shows "open_inv u \<and> state_of u = timeline_running \<and> cueIndex u = length (firedCues (timeline_log u))
      \<and> scheduler u = scheduler t \<and> schedulerTickCount u = schedulerTickCount t" and "durationMs u = durationMs t" and "cues u = cues t" and "lastShown None (timeline_log u) = Some ms"
    and "ok \<and> (z \<or> ms \<noteq> 0) \<and> ms = durationMs t \<longrightarrow> firedCues (timeline_log u) = takeWhile (\<lambda>c. atMs c \<le> durationMs u) (cues u)"
proof -
  from applyFrame_spec [OF assms(6)] obtain fired where
      u: "u = t\<lparr>cueIndex := cueIndex t + length fired, timeline_log := timeline_log t @ OnFrame ms # map OnCue fired\<rparr>"
    and f: "fired = take (length fired) (drop (cueIndex t) (cues t))" "\<forall>c \<in> set fired. atMs c \<le> ms"
    and all: "ok \<and> (z \<or> ms \<noteq> 0) \<longrightarrow> fired = takeWhile (\<lambda>c. atMs c \<le> ms) (drop (cueIndex t) (cues t))" by blast
  have s: "sound_log (durationMs t) (cues t) (timeline_log t)" using assms(1) by (simp add: open_inv_def)
  have "sound_log (durationMs t) (cues t) (timeline_log u)"
    using sound_frame [OF s assms(4,5)] f assms(3) unfolding u by simp
  then show "open_inv u \<and> state_of u = timeline_running \<and> cueIndex u = length (firedCues (timeline_log u))
      \<and> scheduler u = scheduler t \<and> schedulerTickCount u = schedulerTickCount t"
    using assms(1-3) unfolding u by (simp add: open_inv_def)
  show "durationMs u = durationMs t" "cues u = cues t" "lastShown None (timeline_log u) = Some ms" unfolding u by simp_all
  show "ok \<and> (z \<or> ms \<noteq> 0) \<and> ms = durationMs t \<longrightarrow> firedCues (timeline_log u) = takeWhile (\<lambda>c. atMs c \<le> durationMs u) (cues u)"
  proof
    assume a: "ok \<and> (z \<or> ms \<noteq> 0) \<and> ms = durationMs t"
    define k where "k = cueIndex t"
    have f: "firedCues (timeline_log t) @ drop k (cues t) = cues t" "\<forall>c \<in> set (firedCues (timeline_log t)). atMs c \<le> ms"
      using s a assms(3) by (auto simp: sound_log_def k_def)
    have "takeWhile (\<lambda>c. atMs c \<le> ms) (cues t) = takeWhile (\<lambda>c. atMs c \<le> ms) (firedCues (timeline_log t) @ drop k (cues t))"
      by (simp only: f(1))
    also have "\<dots> = firedCues (timeline_log t) @ takeWhile (\<lambda>c. atMs c \<le> ms) (drop k (cues t))" using f(2) by (simp add: takeWhile_append2)
    also have "takeWhile (\<lambda>c. atMs c \<le> ms) (drop k (cues t)) = fired"
    proof (rule sym)
      show "fired = takeWhile (\<lambda>c. atMs c \<le> ms) (drop k (cues t))" using all a unfolding k_def by blast
    qed
    finally show "firedCues (timeline_log u) = takeWhile (\<lambda>c. atMs c \<le> durationMs u) (cues u)"
      using a unfolding u by simp
  qed
qed

section \<open>The scheduler\<close>

lemma close_ticks:
  fixes a b tick frame v :: real
  shows "a - tick \<le> frame \<Longrightarrow> frame \<le> a \<Longrightarrow> a - tick \<le> v \<Longrightarrow> v \<le> a + b \<Longrightarrow> frame - tick \<le> v \<and> v \<le> frame + (b + tick)"
  by linarith

lemma scheduler_elapsed:
  assumes "policy_ok (scheduler t)" and "ticks_ok (scheduler t) (schedulerTickCount t) frame" and "schedulerElapsedAt time t = (e, u)"
  shows "\<exists>started count. u = t\<lparr>startedAt := started, schedulerTickCount := count\<rparr> \<and> ticks_ok (scheduler t) count e" and "0 \<le> e"
    and "scheduler t = Some p \<Longrightarrow> frame - 1000 / policy_fps p \<le> e \<and> e \<le> frame + of_int (maxCatchUpTicks p + 1) * (1000 / policy_fps p)"
proof -
  show "0 \<le> e" using assms(3) by (auto simp: schedulerElapsedAt_def Let_def split: option.splits prod.splits)
  have main: "(\<exists>started count. u = t\<lparr>startedAt := started, schedulerTickCount := count\<rparr> \<and> ticks_ok (scheduler t) count e)
      \<and> frame - 1000 / policy_fps p \<le> e \<and> e \<le> frame + of_int (maxCatchUpTicks p + 1) * (1000 / policy_fps p)" if p: "scheduler t = Some p" for p
  proof -
    define tick where "tick = 1000 / policy_fps p"
    define x where "x = (time - startedAt t) * policy_fps p / 1000"
    define n where "n = schedulerTickCount t"
    define m where "m = maxCatchUpTicks p"
    from assms(1,2) p have pos: "0 < policy_fps p" "0 < tick" "0 < m" "0 \<le> n" and f: "of_int (n - 1) * tick \<le> frame" "frame \<le> of_int n * tick"
      by (simp_all add: tick_def n_def m_def)
    have ts: "time - startedAt t = x * tick" using pos(1) by (simp add: x_def tick_def)
    have n1: "of_int (n - 1) * tick = of_int n * tick - tick" by (simp add: algebra_simps)
    have nm: "of_int (n + m) * tick = of_int n * tick + of_int m * tick" "of_int (m + 1) * tick = of_int m * tick + tick"
      by (simp_all add: algebra_simps)
    have nn: "0 \<le> of_int n * tick" "0 \<le> of_int m * tick" using pos by simp_all
    have close1: "frame - tick \<le> v \<and> v \<le> frame + of_int (m + 1) * tick" if "of_int (n - 1) * tick \<le> v" "v \<le> of_int (n + m) * tick" for v
      using close_ticks [of "of_int n * tick" tick frame v "of_int m * tick"] f that unfolding n1 nm by blast
    have result1: "(e, u) = (if x < of_int n - 1 then (max 0 (time - (time - of_int n * tick)),
          t\<lparr>startedAt := time - of_int n * tick, schedulerTickCount := max n \<lceil>of_int n :: real\<rceil>\<rparr>)
        else if of_int m < x - of_int n then (max 0 (time - (time - of_int (n + m) * tick)),
          t\<lparr>startedAt := time - of_int (n + m) * tick, schedulerTickCount := max n \<lceil>of_int (n + m) :: real\<rceil>\<rparr>)
        else (max 0 (time - startedAt t), t\<lparr>startedAt := startedAt t, schedulerTickCount := max n \<lceil>x\<rceil>\<rparr>))"
      unfolding assms(3) [symmetric] schedulerElapsedAt_def p by (simp add: Let_def tick_def x_def n_def m_def)
    consider (behind) "x < of_int n - 1" | (forth) "\<not> x < of_int n - 1" "of_int m < x - of_int n"
      | (near) "\<not> x < of_int n - 1" "\<not> of_int m < x - of_int n" by blast
    then show ?thesis
    proof cases
      case behind
      then have e: "e = of_int n * tick" "u = t\<lparr>startedAt := time - of_int n * tick, schedulerTickCount := n\<rparr>"
        using result1 nn by simp_all
      have "of_int (n - 1) * tick \<le> of_int n * tick" using pos by (intro mult_right_mono) simp_all
      moreover have "of_int n * tick \<le> of_int (n + m) * tick" using pos by (intro mult_right_mono) simp_all
      ultimately have "ticks_ok (Some p) n e" "frame - tick \<le> e \<and> e \<le> frame + of_int (m + 1) * tick"
        using pos e(1) close1 by (simp_all flip: tick_def)
      then show ?thesis using e(2) unfolding p tick_def m_def by blast
    next
      case forth
      have pe: "0 \<le> of_int (n + m) * tick" using pos by simp
      from forth have e: "e = of_int (n + m) * tick" "u = t\<lparr>startedAt := time - of_int (n + m) * tick, schedulerTickCount := n + m\<rparr>"
        using result1 pe pos by simp_all
      have "of_int (n + m - 1) * tick \<le> of_int (n + m) * tick" "of_int (n - 1) * tick \<le> of_int (n + m) * tick"
        using pos by (intro mult_right_mono, simp_all)+
      then have "ticks_ok (Some p) (n + m) e" "frame - tick \<le> e \<and> e \<le> frame + of_int (m + 1) * tick"
        using pos e(1) close1 by (simp_all flip: tick_def)
      then show ?thesis using e(2) unfolding p tick_def m_def by blast
    next
      case near
      then have e: "e = max 0 (x * tick)" "u = t\<lparr>startedAt := startedAt t, schedulerTickCount := max n \<lceil>x\<rceil>\<rparr>"
        using result1 by (simp_all add: ts)
      have x: "of_int (n - 1) * tick \<le> x * tick" "x * tick \<le> of_int (n + m) * tick"
        using near pos(2) by (simp_all add: mult_right_mono)
      have c: "of_int (max n \<lceil>x\<rceil> - 1) \<le> max x (of_int n - 1)" "x \<le> of_int (max n \<lceil>x\<rceil>)"
        by (simp_all add: of_int_ceiling_le_add_one le_max_iff_disj max_def) linarith+
      have "of_int (max n \<lceil>x\<rceil> - 1) * tick \<le> x * tick" using c(1) near pos(2) by (intro mult_right_mono) (auto simp: max_def)
      then have t1: "of_int (max n \<lceil>x\<rceil> - 1) * tick \<le> e" unfolding e(1) by (rule order_trans) simp
      have "x * tick \<le> of_int (max n \<lceil>x\<rceil>) * tick" using c(2) pos(2) by (intro mult_right_mono) simp_all
      moreover have "0 \<le> of_int (max n \<lceil>x\<rceil>) * tick" using pos by simp
      ultimately have t2: "e \<le> of_int (max n \<lceil>x\<rceil>) * tick" unfolding e(1) by (rule max.boundedI [rotated])
      have "0 \<le> max n \<lceil>x\<rceil>" using pos(4) by simp
      with t1 t2 have "ticks_ok (Some p) (max n \<lceil>x\<rceil>) e" by (simp only: ticks_ok.simps tick_def)
      moreover have lo: "of_int (n - 1) * tick \<le> e" unfolding e(1) using x(1) by (rule order_trans) simp
      have hi: "e \<le> of_int (n + m) * tick" unfolding e(1) using x(2) pos by (intro max.boundedI) simp_all
      from lo hi have "frame - tick \<le> e \<and> e \<le> frame + of_int (m + 1) * tick" by (rule close1)
      ultimately show ?thesis using e(2) unfolding p tick_def m_def by blast
    qed
  qed
  show "scheduler t = Some p \<Longrightarrow> frame - 1000 / policy_fps p \<le> e \<and> e \<le> frame + of_int (maxCatchUpTicks p + 1) * (1000 / policy_fps p)"
    using main by blast
  show "\<exists>started count. u = t\<lparr>startedAt := started, schedulerTickCount := count\<rparr> \<and> ticks_ok (scheduler t) count e"
  proof (cases "scheduler t")
    case None
    then have "u = t\<lparr>startedAt := startedAt t, schedulerTickCount := schedulerTickCount t\<rparr>" using assms(3) by (simp add: schedulerElapsedAt_def)
    with None show ?thesis by (metis ticks_ok.simps(1))
  qed (use main in blast)
qed

section \<open>Runs\<close>

lemma new_inv: "newTimeline d cs p = Inr t \<Longrightarrow> timeline_inv False t"
  by (cases p) (auto simp: newTimeline_def timeline_inv_def fresh_inv_def split: if_splits)

lemma play_inv:
  assumes "fresh_inv t"
  shows "running_inv (playTimeline now calls t) \<or> ended_inv1 skipped (playTimeline now calls t)"
proof -
  let ?t = "t\<lparr>played_once := True, state_of := timeline_running, startedAt := now, schedulerTickCount := 0\<rparr>"
  obtain ok left1 u where u: "applyFrame 0 True calls ?t = (ok, left1, u)" by (metis prod.exhaust)
  have o: "open_inv ?t" using assms by (simp add: fresh_inv_def open_inv_def sound_log_def)
  note a = applyFrame_inv [OF o _ _ _ _ u]
  have f: "open_inv u \<and> state_of u = timeline_running \<and> cueIndex u = length (firedCues (timeline_log u))
      \<and> scheduler u = scheduler t \<and> schedulerTickCount u = 0" and l: "lastShown None (timeline_log u) = Some 0"
    using a(1,4) assms by (simp_all add: fresh_inv_def)
  have "ticks_ok (scheduler t) 0 0" using assms by (cases "scheduler t") (simp_all add: fresh_inv_def)
  with f l have r: "running_inv u" by (simp add: running_inv_def)
  show ?thesis
  proof (cases ok)
    case True
    then show ?thesis using u assms request_inv [OF r] by (simp add: playTimeline_def fresh_inv_def)
  next
    case False
    then show ?thesis using u assms f fail_inv by (simp add: playTimeline_def fresh_inv_def)
  qed
qed

lemma finish_inv:
  assumes "open_inv t" and "lastShown None (timeline_log t) = Some (durationMs t)"
    and "skipped \<or> firedCues (timeline_log t) = takeWhile (\<lambda>c. atMs c \<le> durationMs t) (cues t)"
  shows "ended_inv1 skipped (finish t)"
  using assms by (auto simp: ended_inv1_def open_inv_def finish_def effect_def sound_log_def)

lemma tick_inv:
  assumes "running_inv t" and "lastShown None (timeline_log t) = Some frame" and "tickTimeline time calls t = v"
  shows "running_inv v \<or> ended_inv1 skipped v"
    and "\<exists>shown_at. lastShown None (timeline_log v) = Some shown_at \<and> (\<forall>p. scheduler t = Some p \<longrightarrow>
      frame - 1000 / policy_fps p \<le> shown_at \<and> shown_at \<le> frame + of_int (maxCatchUpTicks p + 1) * (1000 / policy_fps p))"
proof -
  from assms(1,2) have r: "open_inv t" "state_of t = timeline_running" "cueIndex t = length (firedCues (timeline_log t))"
      "ticks_ok (scheduler t) (schedulerTickCount t) frame" "policy_ok (scheduler t)" by (auto simp: running_inv_def open_inv_def)
  have fd: "frame \<le> durationMs t" "0 < durationMs t"
    using r(1) lastShown_in [OF assms(2)] by (auto simp: open_inv_def sound_log_def)
  obtain e t1 where s: "schedulerElapsedAt time t = (e, t1)" by (metis prod.exhaust)
  from scheduler_elapsed(1) [OF r(5,4) s] obtain started count where
      t1: "t1 = t\<lparr>startedAt := started, schedulerTickCount := count\<rparr>" "ticks_ok (scheduler t) count e" by blast
  note e0 = scheduler_elapsed(2) [OF r(5,4) s] and jump = scheduler_elapsed(3) [OF r(5,4) s]
  let ?e = "min (durationMs t) e"
  obtain ok left1 u where u: "applyFrame ?e False calls t1 = (ok, left1, u)" by (metis prod.exhaust)
  have o1: "open_inv t1" using r(1) by (simp add: t1(1) open_inv_def)
  note a = applyFrame_inv [OF o1 _ _ _ _ u]
  have f: "open_inv u \<and> state_of u = timeline_running \<and> cueIndex u = length (firedCues (timeline_log u))
      \<and> scheduler u = scheduler t \<and> schedulerTickCount u = count"
    and d: "durationMs u = durationMs t" and l: "lastShown None (timeline_log u) = Some ?e"
    and all: "ok \<and> ?e = durationMs t \<longrightarrow> firedCues (timeline_log u) = takeWhile (\<lambda>c. atMs c \<le> durationMs u) (cues u)"
    using a r e0 fd by (simp_all add: t1(1))
  have v: "v = (if \<not> ok then failTimeline u else if durationMs t \<le> ?e then finish u else requestNextFrame left1 u)"
    using assms(3) r(2) s u d by (cases ok) (simp_all add: tickTimeline_def t1(1) Let_def)
  show "running_inv v \<or> ended_inv1 skipped v"
  proof (cases "ok \<and> ?e < durationMs t")
    case True
    then have "?e = e" by (auto simp: min_def split: if_splits)
    with f l t1(2) have "running_inv u" by (auto simp: running_inv_def)
    from request_inv [OF this] True show ?thesis unfolding v by auto
  next
    case False
    show ?thesis
    proof (cases ok)
      case True
      with False have "?e = durationMs t" by simp
      with True all l d f finish_inv [of u skipped] show ?thesis unfolding v by simp
    next
      case False
      with f fail_inv show ?thesis unfolding v by simp
    qed
  qed
  have "lastShown None (timeline_log v) = Some ?e"
    using l by (cases "left1 = Some 0")
      (auto simp: v failTimeline_def cancelScheduledFrame_def finish_def effect_def requestNextFrame_def callback_def)
  moreover have "frame - 1000 / policy_fps p \<le> ?e \<and> ?e \<le> frame + of_int (maxCatchUpTicks p + 1) * (1000 / policy_fps p)" if "scheduler t = Some p" for p
  proof -
    have "0 < 1000 / policy_fps p" using r(5) that by simp
    with jump [OF that] fd(1) show ?thesis by linarith
  qed
  ultimately show "\<exists>shown_at. lastShown None (timeline_log v) = Some shown_at \<and> (\<forall>p. scheduler t = Some p \<longrightarrow>
      frame - 1000 / policy_fps p \<le> shown_at \<and> shown_at \<le> frame + of_int (maxCatchUpTicks p + 1) * (1000 / policy_fps p))" by blast
qed

lemma skip_running:
  assumes "running_inv t"
  shows "ended_inv1 True (case callback (OnFrame (durationMs (cancelScheduledFrame t))) calls
      ((cancelScheduledFrame t)\<lparr>cueIndex := length (cues (cancelScheduledFrame t))\<rparr>) of
    (True, _, u) \<Rightarrow> finish u | (False, _, u) \<Rightarrow> failTimeline u)"
proof -
  define c where "c = (cancelScheduledFrame t)\<lparr>cueIndex := length (cues (cancelScheduledFrame t))\<rparr>"
  have o: "open_inv c" "durationMs c = durationMs (cancelScheduledFrame t)"
    using assms by (auto simp: c_def running_inv_def open_inv_def cancelScheduledFrame_def effect_def intro: sound_other)
  let ?u = "effect (OnFrame (durationMs c)) c"
  have "open_inv ?u"
    using o(1) sound_frame [of "durationMs c" "cues c" "timeline_log c" "durationMs c" "[]"] by (simp add: open_inv_def effect_def)
  moreover have "lastShown None (timeline_log ?u) = Some (durationMs ?u)" by (simp add: effect_def)
  ultimately have "ended_inv1 True (finish ?u)" "ended_inv1 True (failTimeline ?u)" using finish_inv fail_inv by blast+
  then show ?thesis unfolding c_def [symmetric] o(2) [symmetric] by (cases "calls = Some 0") (simp_all add: callback_def)
qed

lemma skip_inv:
  assumes "timeline_inv skipped t"
  shows "timeline_inv True (skipTimeline now calls last_calls t)"
proof -
  have s: "timeline_inv True (skipTimeline now calls last_calls t)" if r: "running_inv t" for t
    using skip_running [OF r, of last_calls] r by (auto simp: skipTimeline_def timeline_inv_def running_inv_def open_inv_def Let_def)
  consider "fresh_inv t" | "running_inv t" | "ended_inv1 skipped t" using assms by (auto simp: timeline_inv_def)
  then show ?thesis
  proof cases
    case 1
    let ?p = "playTimeline now calls t"
    from 1 have t: "skipTimeline now calls last_calls t = (if state_of ?p \<noteq> timeline_running then ?p else skipTimeline now calls last_calls ?p)"
      if "played_once ?p" using that by (simp add: skipTimeline_def fresh_inv_def Let_def)
    from play_inv [OF 1, of now calls True] show ?thesis
    proof
      assume r: "running_inv ?p"
      then show ?thesis using t s [OF r] by (simp add: running_inv_def open_inv_def)
    next
      assume e: "ended_inv1 True ?p"
      then have "played_once ?p" "state_of ?p \<noteq> timeline_running" by (auto simp: ended_inv1_def)
      with t e show ?thesis by (simp add: timeline_inv_def)
    qed
  next
    case 2
    then show ?thesis by (rule s)
  next
    case 3
    then have "skipTimeline now calls last_calls t = t" by (auto simp: skipTimeline_def ended_inv1_def)
    with 3 show ?thesis by (auto simp: timeline_inv_def ended_inv1_def)
  qed
qed

lemma ended_silent:
  assumes "ended_inv1 skipped t"
  shows "timeline_step e t = t"
  using assms by (cases e) (auto simp: ended_inv1_def playTimeline_def tickTimeline_def skipTimeline_def destroyTimeline_def)

fun is_skip :: "timeline_event \<Rightarrow> bool" where
  "is_skip (Skip now calls last_calls) = True"
| "is_skip (Destroy now calls last_calls) = True"
| "is_skip e = False"

lemma inv_weaken: "timeline_inv skipped t \<Longrightarrow> skipped \<longrightarrow> wider \<Longrightarrow> timeline_inv wider t"
  by (auto simp: timeline_inv_def ended_inv1_def)

lemma timeline_step_inv:
  assumes "timeline_inv skipped t"
  shows "timeline_inv (skipped \<or> is_skip e) (timeline_step e t)"
proof -
  consider "fresh_inv t" | "running_inv t" | "ended_inv1 skipped t" using assms by (auto simp: timeline_inv_def)
  then show ?thesis
  proof cases
    case 1
    show ?thesis
    proof (cases e)
      case (Play now calls)
      then show ?thesis using play_inv [OF 1, of now calls skipped] by (auto simp: timeline_inv_def)
    next
      case (AnimationFrame time calls)
      then show ?thesis using 1 by (simp add: tickTimeline_def timeline_inv_def fresh_inv_def)
    qed (use 1 skip_inv [OF assms] in \<open>simp_all add: destroyTimeline_def fresh_inv_def\<close>)
  next
    case 2
    then obtain frame where f: "lastShown None (timeline_log t) = Some frame" by (auto simp: running_inv_def)
    show ?thesis
    proof (cases e)
      case (Play now calls)
      then show ?thesis using 2 by (simp add: playTimeline_def running_inv_def open_inv_def timeline_inv_def)
    next
      case (AnimationFrame time calls)
      then show ?thesis using tick_inv(1) [OF 2 f refl, of time calls skipped] by (auto simp: timeline_inv_def)
    qed (use 2 skip_inv [OF assms] in \<open>simp_all add: destroyTimeline_def running_inv_def\<close>)
  next
    case 3
    then show ?thesis using inv_weaken [OF assms] by (simp add: ended_silent)
  qed
qed

lemma run_inv_timeline: "timeline_inv skipped t \<Longrightarrow> timeline_inv (skipped \<or> list_ex is_skip es) (fold timeline_step es t)"
proof (induction es arbitrary: skipped t)
  case (Cons e es)
  show ?case using Cons.IH [OF timeline_step_inv [OF Cons.prems, of e]] by (simp add: disj_assoc)
qed simp

text \<open>Duration, cues and policy never change.\<close>

definition settings_of :: "timeline \<Rightarrow> real \<times> TimelineCue list \<times> TimelineSchedulerPolicy option" where
  "settings_of t = (durationMs t, cues t, scheduler t)"

lemma settings_simps [simp]:
  "settings_of (effect e t) = settings_of t" "settings_of (finish t) = settings_of t" "settings_of (failTimeline t) = settings_of t"
  "settings_of (cancelScheduledFrame t) = settings_of t"
  by (simp_all add: settings_of_def effect_def finish_def failTimeline_def cancelScheduledFrame_def)

lemma settings_request [simp]: "settings_of (requestNextFrame calls t) = settings_of t"
  by (cases "calls = Some 0") (simp_all add: requestNextFrame_def callback_def, simp add: settings_of_def effect_def)

lemma settings_apply: "applyFrame ms z calls t = (ok, left1, u) \<Longrightarrow> settings_of u = settings_of t"
  by (drule applyFrame_spec) (auto simp: settings_of_def)

lemma settings_play: "settings_of (playTimeline now calls t) = settings_of t"
  by (auto simp: playTimeline_def dest!: settings_apply split: prod.split bool.split) (simp_all add: settings_of_def)

lemma settings_tick: "settings_of (tickTimeline time calls t) = settings_of t"
proof -
  have "settings_of u = settings_of t" if "schedulerElapsedAt time t = (e, u)" for e u
    using that by (auto simp: schedulerElapsedAt_def Let_def settings_of_def split: option.splits prod.splits)
  then show ?thesis by (auto simp: tickTimeline_def Let_def dest!: settings_apply split: prod.split bool.split)
qed

lemma settings_skip: "settings_of (skipTimeline now calls last_calls t) = settings_of t"
proof -
  have "settings_of (t\<lparr>cueIndex := k\<rparr>) = settings_of t" for t k by (simp add: settings_of_def)
  then show ?thesis by (cases "last_calls = Some 0") (simp_all add: skipTimeline_def Let_def callback_def settings_play)
qed

lemma settings_run: "settings_of (fold timeline_step es t) = settings_of t"
proof (induction es arbitrary: t)
  case (Cons e es)
  have "settings_of (timeline_step e t) = settings_of t"
    by (cases e) (simp_all add: settings_play settings_tick settings_skip destroyTimeline_def)
  with Cons show ?case by simp
qed simp

lemma takeWhile_sorted:
  fixes f :: "'a \<Rightarrow> 'b::linorder"
  shows "sorted (map f xs) \<Longrightarrow> takeWhile (\<lambda>x. f x \<le> d) xs = filter (\<lambda>x. f x \<le> d) xs"
proof (induction xs)
  case (Cons x xs)
  show ?case
  proof (cases "f x \<le> d")
    case False
    then have "filter (\<lambda>x. f x \<le> d) xs = []" using Cons.prems by (auto simp: filter_empty_conv)
    with False show ?thesis by simp
  qed (use Cons in simp)
qed simp

text \<open>
  C28: The intro is shown in order. For any calls, frames and failing callbacks, the cues fire in the order of their
  times, each at most once and never before the frame shown has reached it; frames lie within the duration;
  the timeline ends at most once, and then nothing more happens. A completed timeline has shown its last
  frame, and unless it was skipped it has fired exactly the cues within its duration. A stalled or
  jumping clock moves a frame back by at most a tick and ahead by at most one more than the allowed ticks.
\<close>

theorem timeline_plays_in_order:
  assumes "newTimeline d cs policy = Inr t0" and "t = fold timeline_step es t0"
  shows "firedCues (timeline_log t) @ drop (length (firedCues (timeline_log t))) (sort_key atMs cs) = sort_key atMs cs
    \<and> cuesDue None (timeline_log t) \<and> list_all (\<lambda>f. 0 \<le> f \<and> f \<le> d) (shownFrames (timeline_log t))
    \<and> (state_of t = timeline_complete \<longrightarrow> ends (timeline_log t) = [Resolved] \<and> lastShown None (timeline_log t) = Some d
         \<and> (\<not> list_ex is_skip es \<longrightarrow> firedCues (timeline_log t) = filter (\<lambda>c. atMs c \<le> d) (sort_key atMs cs)))
    \<and> (state_of t = timeline_failed \<longrightarrow> ends (timeline_log t) = [Rejected])
    \<and> (state_of t = timeline_complete \<or> state_of t = timeline_failed \<longrightarrow> timeline_step e t = t)
    \<and> (state_of t = timeline_running \<and> lastShown None (timeline_log t) = Some frame \<and> policy = Some p
         \<longrightarrow> (\<exists>shown_at. lastShown None (timeline_log (timeline_step (AnimationFrame time calls) t)) = Some shown_at
              \<and> frame - 1000 / policy_fps p \<le> shown_at \<and> shown_at \<le> frame + of_int (maxCatchUpTicks p + 1) * (1000 / policy_fps p)))"
proof -
  have inv: "timeline_inv (list_ex is_skip es) t"
    unfolding assms(2) using run_inv_timeline [OF new_inv [OF assms(1)], of es] by simp
  have "settings_of t0 = (d, sort_key atMs cs, policy)"
    using assms(1) by (auto simp: newTimeline_def settings_of_def split: if_splits)
  then have c: "durationMs t = d" "cues t = sort_key atMs cs" "scheduler t = policy"
    using settings_run [of es t0] unfolding assms(2) by (simp_all add: settings_of_def)
  have w: "takeWhile (\<lambda>c. atMs c \<le> d) (sort_key atMs cs) = filter (\<lambda>c. atMs c \<le> d) (sort_key atMs cs)"
    by (rule takeWhile_sorted) simp
  have log: "sound_log d (sort_key atMs cs) (timeline_log t)"
    using inv by (auto simp: timeline_inv_def fresh_inv_def running_inv_def open_inv_def ended_inv1_def c sound_log_def)
  have done1: "ended_inv1 (list_ex is_skip es) t" if "state_of t = timeline_complete \<or> state_of t = timeline_failed"
    using inv that by (auto simp: timeline_inv_def fresh_inv_def running_inv_def)
  have complete1: "ends (timeline_log t) = [Resolved] \<and> lastShown None (timeline_log t) = Some d
      \<and> (\<not> list_ex is_skip es \<longrightarrow> firedCues (timeline_log t) = filter (\<lambda>c. atMs c \<le> d) (sort_key atMs cs))" if "state_of t = timeline_complete"
    using done1 that by (auto simp: ended_inv1_def c w)
  have failed1: "ends (timeline_log t) = [Rejected]" if "state_of t = timeline_failed" using done1 that by (auto simp: ended_inv1_def)
  have jump: "\<exists>shown_at. lastShown None (timeline_log (timeline_step (AnimationFrame time calls) t)) = Some shown_at
      \<and> frame - 1000 / policy_fps p \<le> shown_at \<and> shown_at \<le> frame + of_int (maxCatchUpTicks p + 1) * (1000 / policy_fps p)"
    if a: "state_of t = timeline_running" "lastShown None (timeline_log t) = Some frame" "policy = Some p"
  proof -
    have "running_inv t" using inv a(1) by (auto simp: timeline_inv_def fresh_inv_def ended_inv1_def)
    from tick_inv(2) [OF this a(2) refl, of time calls] a(3) show ?thesis by (simp add: c(3))
  qed
  show ?thesis
    using log complete1 failed1 jump done1 ended_silent unfolding sound_log_def list_all_iff by blast
qed

definition sampleCues :: "TimelineCue list" where
  "sampleCues = [\<lparr>cue_name = ''late'', atMs = 150\<rparr>, \<lparr>cue_name = ''first'', atMs = 0\<rparr>]"

definition sampleTimeline :: "nat \<Rightarrow> int \<Rightarrow> timeline_effect list \<Rightarrow> timeline" where
  "sampleTimeline k n es = \<lparr>durationMs = 100, cues = [\<lparr>cue_name = ''first'', atMs = 0\<rparr>, \<lparr>cue_name = ''late'', atMs = 150\<rparr>],
     scheduler = Some PRIMAL_SCHEDULER_POLICY, startedAt = 5, schedulerTickCount = n, frameHandle = True, cueIndex = k,
     state_of = timeline_running, played_once = True, timeline_log = es\<rparr>"

lemma sample_frames:
  "\<exists>es. tickTimeline 40 None (sampleTimeline 1 0 es0) = sampleTimeline 1 2 es"
  "state_of (tickTimeline 9000 None (sampleTimeline 1 2 es0)) = timeline_complete"
  by (simp_all add: sampleTimeline_def tickTimeline_def applyFrame_def callback_def effect_def requestNextFrame_def finish_def
      schedulerElapsedAt_def Let_def PRIMAL_SCHEDULER_POLICY_def)

theorem timeline_plays_in_order_witness:
  "\<exists>t0 t. newTimeline 100 sampleCues (Some PRIMAL_SCHEDULER_POLICY) = Inr t0
    \<and> t = fold timeline_step [Play 5 None, AnimationFrame 40 None, AnimationFrame 9000 None] t0
    \<and> state_of t = timeline_complete \<and> ends (timeline_log t) = [Resolved]
    \<and> firedCues (timeline_log t) = [\<lparr>cue_name = ''first'', atMs = 0\<rparr>]"
proof -
  let ?es = "[Play 5 None, AnimationFrame 40 None, AnimationFrame 9000 None]"
  have cs: "sort_key atMs sampleCues = [\<lparr>cue_name = ''first'', atMs = 0\<rparr>, \<lparr>cue_name = ''late'', atMs = 150\<rparr>]"
    by (simp add: sampleCues_def)
  obtain t0 where t0: "newTimeline 100 sampleCues (Some PRIMAL_SCHEDULER_POLICY) = Inr t0"
    by (simp add: newTimeline_def PRIMAL_SCHEDULER_POLICY_def)
  have "\<exists>es. playTimeline 5 None t0 = sampleTimeline 1 0 es"
    using t0 by (auto simp: newTimeline_def PRIMAL_SCHEDULER_POLICY_def cs sampleTimeline_def playTimeline_def applyFrame_def callback_def
        effect_def requestNextFrame_def)
  then obtain es1 es2 where "playTimeline 5 None t0 = sampleTimeline 1 0 es1" "tickTimeline 40 None (sampleTimeline 1 0 es1) = sampleTimeline 1 2 es2"
    using sample_frames(1) by blast
  then have "state_of (fold timeline_step ?es t0) = timeline_complete" by (simp add: sample_frames(2) [unfolded One_nat_def])
  with timeline_plays_in_order [OF t0 refl, of ?es] t0 show ?thesis by (auto simp: cs)
qed

end
