(* ===== verification/Spec2Isabelle.thy ===== *)
theory Spec2Isabelle
  imports Origin_Properties Decoder_Properties Rgs_Properties Recovery_Properties Gateway_Times
    Money_Format Music_Pot Reel_Properties Presentation_Queue Round_Plans Bounded_Response Controller_Properties
    Autoplay_Properties Asset_Properties Wheel_Properties Operator_Bridge Preload_Gate Rules_Binding Gateway_Config
    Timeline_Properties
begin

text \<open>
  A verification library of the browser client of the slot game (\<open>slots-game/web/src\<close>, TypeScript).

  The program. The client shows the rounds of a slot machine whose results are decided by a remote
  gaming server (RGS). A \<^emph>\<open>gateway\<close> (\<open>protocol/RgsGateway.ts\<close>) exchanges the launch
  token for a session, submits spins, polls for committed results, stores a recovery ledger before
  a spin is sent and drops it when the server has acknowledged the round. What the server sends is
  decoded strictly (\<open>protocol/decoder.ts\<close>, \<open>protocol/rgsDecoder.ts\<close>), read through a
  bounded reader (\<open>network/boundedResponse.ts\<close>), and checked against the state the spin was
  submitted in (\<open>protocol/spinResultOriginGuard.ts\<close>). The \<^emph>\<open>controller\<close> (\<open>app/AppController.ts\<close>)
  accepts a result once, presents it through the presentation queue, the reel state machine and the
  stop sequencer, shows the new balance at the balance barrier, and acknowledges. The \<^emph>\<open>overlay\<close>
  (\<open>ui/DomOverlay.ts\<close>) holds the spin control and the automatic run; the asset packages of the
  features are loaded and leased by \<open>startup/StreamingAssetPackages.ts\<close>.

  Theories and sources.
  \<^item> \<open>Prelude\<close>, \<open>Machines\<close>: the error monad that stands for \<open>throw\<close>, shared lemmas, and
    the locale of strict state machines. \<open>Js_Values\<close>: JavaScript values, patterns, \<open>BigInt\<close>.
    \<open>Samples\<close>: the concrete results of the witnesses.
  \<^item> \<open>Protocol_Types\<close>: \<open>app/state/types.ts\<close>, \<open>protocol/protocolConstants.ts\<close>,
    \<open>protocol/messages.ts\<close>.
  \<^item> \<open>Decoder_Fields\<close>, \<open>Decoder_Events\<close>, \<open>Decoder\<close>: \<open>protocol/decoder.ts\<close>, one
    definition per decoder. \<open>Wire_Values\<close>, \<open>Wire_Events\<close>, \<open>Wire_Wins\<close>, \<open>Wire_Messages\<close>,
    \<open>Decoder_Facts\<close>, \<open>Decoder_Properties\<close>: the wire contract as a codec locale and its
    interpretations (round trips), totality, money and cap laws.
  \<^item> \<open>Rgs_Decoder\<close>, \<open>Rgs_Wire\<close>, \<open>Rgs_Events\<close>, \<open>Rgs_Spin\<close>, \<open>Rgs_Facts\<close>,
    \<open>Rgs_Properties\<close>: \<open>protocol/rgsDecoder.ts\<close> in the same way.
  \<^item> \<open>Origin_Guard\<close>, \<open>Origin_Rules\<close>: \<open>protocol/spinResultOriginGuard.ts\<close>.
    \<open>Vault_Contract\<close>, \<open>Origin_Totality\<close>, \<open>Feature_Cycle\<close>, \<open>Origin_Properties\<close>: what an
    accepted result pays, its cap, the Rage meter, the countdown of a feature, whole cycles.
  \<^item> \<open>Recovery_Ledger\<close>, \<open>Recovery_Properties\<close>, \<open>Gateway_Http\<close>, \<open>Gateway_State\<close>,
    \<open>Gateway_Rounds\<close>, \<open>Gateway_Session\<close>, \<open>Gateway_Exchange\<close>:
    \<open>protocol/RgsGateway.ts\<close>. The gateway is a record; a method with awaits is split there, and
    \<open>handle\<close> is one step over all replies, timers and calls. \<open>Gateway_Frame\<close>,
    \<open>Gateway_Invariant\<close>, \<open>Gateway_Safety\<close>, \<open>Gateway_Runs\<close>, \<open>Gateway_Recovery\<close>,
    \<open>Gateway_Times\<close>, \<open>Gateway_Properties\<close>: its invariant over all runs and what follows.
  \<^item> \<open>Result_Guard\<close>, \<open>Game_Phases\<close>, \<open>Player_Errors\<close>, \<open>Round_Plans\<close>, \<open>Money_Format\<close>,
    \<open>Music_Pot\<close>, \<open>Presentation_Queue\<close>, \<open>Bounded_Response\<close>: the modules they name in their
    headers, whole or nearly so.
  \<^item> \<open>Reel_Round\<close>, \<open>Stop_Sequencer\<close>, \<open>Stop_Order\<close>, \<open>Reel_Properties\<close>:
    \<open>reels/ReelRoundStateMachine.ts\<close>, \<open>reels/StopSequencer.ts\<close> and their contract, a locale
    the reel machine interprets.
  \<^item> \<open>Round_Controller\<close> with \<open>Controller_Invariant\<close>, \<open>Controller_Safety\<close>,
    \<open>Controller_Ends\<close>, \<open>Controller_Rounds\<close>, \<open>Controller_Types\<close>,
    \<open>Controller_Properties\<close>: the authoritative part of \<open>app/AppController.ts\<close>.
  \<^item> \<open>Spin_Control\<close>, \<open>Autoplay\<close>, \<open>Autoplay_Properties\<close>: spin control, automatic run and
    pay table of \<open>ui/DomOverlay.ts\<close>.
  \<^item> \<open>Asset_Manifest\<close>, \<open>Asset_Order\<close>, \<open>Asset_Validation\<close>, \<open>Asset_Closure\<close>: the manifest of
    the asset packages, its validation, order and closures; \<open>Asset_Leases\<close>,
    \<open>Asset_Lease_Invariant\<close>, \<open>Asset_Lease_Safety\<close>, \<open>Asset_Lease_Runs\<close>,
    \<open>Asset_Properties\<close>: references, capacity and leases of the package manager.
  \<^item> \<open>Gateway_Config\<close>: \<open>protocol/configuredGateway.ts\<close>, with a locale for the storage the probe
    relies on; \<open>Operator_Bridge\<close>: the messages to the operator page (\<open>app/operatorSessionBridge.ts\<close>,
    \<open>app/operatorShellRequest.ts\<close>, \<open>protocol/rgsHostOrigin.ts\<close>).
  \<^item> \<open>Wheel_Motion\<close>, \<open>Wheel_Properties\<close>: \<open>renderer/wheelMotion.ts\<close>, the stop polynomial of the
    bonus wheel; \<open>Preload_Gate\<close>: \<open>startup/PreloadGate.ts\<close>; \<open>Timeline\<close>,
    \<open>Timeline_Properties\<close>: \<open>startup/Timeline.ts\<close>; \<open>Rules_Binding\<close>: the approval of
    the help text in \<open>ui/presentationRules.ts\<close>.

  Conventions. An exception is a value of a sum type and leaves the state the code would leave.
  Numbers of the wire are \<open>js_number\<close>; safe integers are \<open>int\<close> with the bounds written out;
  money is a canonical decimal string, computed with as \<open>int\<close> like \<open>BigInt\<close>. Delays and
  fractions are rationals or reals: floating-point rounding is not modelled. Asynchronous code is a machine
  whose events are the continuations after each await, the timers and the calls from outside; the
  theorems quantify over all their interleavings, a superset of those the browser can produce.

  Parameters. Code outside the repository is an argument: \<open>JSON.parse\<close>, \<open>JSON.stringify\<close>,
  the outcome of \<open>fetch\<close>, the browser's storage and URL parser, the UTF-8 decoder, SHA-256, the jitter source and
  the clocks. Hypotheses about them state documented behaviour (parsing what was
  stringified gives it back, a clock does not run backwards where that is used), and each property
  with such a hypothesis has a witness with a concrete function.

  Bounds and fuel. The buffer growth of the reader recurses on a measure. The depth-first order of
  packages carries one more than the number of packages as fuel, and \<open>asset_order_exact\<close> shows it
  never runs out. Polling, countdowns and the draining music pot have their number of steps in the theorems.

  Findings. Five theorems show the code doing something else than it says: an empty property name
  switches the check for unknown properties off (\<open>empty_key_disables_exact_keys\<close>); a dated
  \<open>Retry-After\<close> is dropped when the clock has a fraction (\<open>fractional_clock_ignores_retry_date\<close>);
  a presentation cancelled at the barrier of the third reel never ends
  (\<open>cancelled_at_barrier_never_ends\<close>); the space bar pays for a spin where its button stops the
  automatic run (\<open>spacebar_spins_during_run\<close>); a lease of a package may miss a dependency
  (\<open>package_lease_misses_dependency\<close>).

  Not modelled. The renderer, the reel and symbol views and most of the overlay draw with Pixi, Spine
  and the DOM and hold no economic state (the motion of the bonus wheel is modelled). The audio backends play what \<open>Round_Plans\<close> and
  \<open>Music_Pot\<close> decide. Startup code (intro scene, monitors, the streaming runtime around the package manager) schedules
  assets. \<open>bootstrap.ts\<close> and \<open>main.ts\<close> wire the parts.
  Test fixtures, build and deployment scripts, the Go server and the infrastructure are other programs.
\<close>

end
